(* ===== verification/Prelude.thy ===== *)
theory Prelude
  imports Main "HOL-Library.AList" "HOL-Library.List_Lexorder" "HOL-Library.Char_ord"
begin

text \<open>
  Shared vocabulary of the development: the outcome of a Go call (a value, an error or a
  panic), Go maps as association lists, Go strings and byte slices as lists of characters
  (one character per byte), and the functions of package strings and strconv that the
  program uses, with the lemmas the component theories share.
\<close>

named_theorems gomap_simps "lookups in and updates of Go maps"
named_theorems prog_defs "the combinators that thread state, errors and panics"

section \<open>Bytes, strings and outcomes\<close>

text \<open>
  A Go string and a Go byte slice are sequences of bytes; a \<open>char\<close> of HOL is one byte.
  A nil slice is told apart from an empty one by \<open>bytes option\<close> where the program does so.
\<close>

type_synonym bytes = string

datatype ('e, 'a) outcome = Ok 'a | Err 'e | Panic

fun is_ok :: "('e, 'a) outcome \<Rightarrow> bool" where
  "is_ok (Ok _) = True"
| "is_ok (Err _) = False"
| "is_ok Panic = False"

lemma is_ok_iff: "is_ok r \<longleftrightarrow> (\<exists>x. r = Ok x)"
  by (cases r) auto

section \<open>Go maps\<close>

text \<open>
  A Go map with string keys is an association list with distinct keys. The list order is
  the order in which a \<open>range\<close> loop happens to visit the entries; since the statements of
  the development quantify over every such list, they hold for every iteration order.
\<close>

type_synonym 'v gomap = "(string \<times> 'v) list"

definition gomap_ok :: "'v gomap \<Rightarrow> bool" where
  "gomap_ok m \<longleftrightarrow> distinct (map fst m)"

definition gomap_put :: "string \<Rightarrow> 'v \<Rightarrow> 'v gomap \<Rightarrow> 'v gomap" where
  "gomap_put k v m = AList.update k v m"

definition gomap_del :: "string \<Rightarrow> 'v gomap \<Rightarrow> 'v gomap" where
  "gomap_del k m = AList.delete k m"

text \<open>Reading a missing key of a Go map yields the zero value of the value type.\<close>

definition gomap_get :: "'v \<Rightarrow> 'v gomap \<Rightarrow> string \<Rightarrow> 'v" where
  "gomap_get z m k = (case map_of m k of None \<Rightarrow> z | Some v \<Rightarrow> v)"

lemma map_of_gomap_put [gomap_simps, simp]:
  "map_of (gomap_put k v m) = (map_of m)(k \<mapsto> v)"
  by (simp add: gomap_put_def update_conv')

lemma map_of_gomap_del [gomap_simps, simp]:
  "map_of (gomap_del k m) = (map_of m)(k := None)"
  by (simp add: gomap_del_def delete_conv')

lemma gomap_ok_put [simp, intro]: "gomap_ok m \<Longrightarrow> gomap_ok (gomap_put k v m)"
  by (simp add: gomap_ok_def gomap_put_def distinct_update)

lemma gomap_ok_del [simp, intro]: "gomap_ok m \<Longrightarrow> gomap_ok (gomap_del k m)"
  by (simp add: gomap_ok_def gomap_del_def distinct_delete)

lemma gomap_ok_Nil [simp, intro]: "gomap_ok []"
  by (simp add: gomap_ok_def)

lemma gomap_ok_Cons [simp]: "gomap_ok ((k, v) # m) \<longleftrightarrow> k \<notin> fst ` set m \<and> gomap_ok m"
  by (simp add: gomap_ok_def)

lemma gomap_ok_filter [simp, intro]: "gomap_ok m \<Longrightarrow> gomap_ok (filter P m)"
  by (simp add: gomap_ok_def distinct_map_filter)

lemma gomap_ok_append:
  "gomap_ok (m @ n) \<longleftrightarrow> gomap_ok m \<and> gomap_ok n \<and> fst ` set m \<inter> fst ` set n = {}"
  by (simp add: gomap_ok_def)

lemma gomap_get_put [gomap_simps, simp]:
  "gomap_get z (gomap_put k v m) k' = (if k' = k then v else gomap_get z m k')"
  by (simp add: gomap_get_def)

lemma gomap_get_Nil [simp]: "gomap_get z [] k = z"
  by (simp add: gomap_get_def)

lemma gomap_get_Cons [simp]:
  "gomap_get z ((k', v) # m) k = (if k = k' then v else gomap_get z m k)"
  by (simp add: gomap_get_def)

lemma map_of_filter_key:
  assumes "gomap_ok m"
  shows "map_of (filter P m) k =
    (case map_of m k of None \<Rightarrow> None | Some v \<Rightarrow> if P (k, v) then Some v else None)"
  using assms
proof (induction m)
  case Nil
  then show ?case by simp
next
  case (Cons kv m)
  obtain k' v' where kv: "kv = (k', v')" by (cases kv)
  have none: "k' \<notin> fst ` set m" using Cons.prems kv by simp
  then have "map_of m k' = None" by (simp add: map_of_eq_None_iff)
  then show ?case
    using Cons kv by (auto split: option.splits)
qed

lemma gomap_in_set: "gomap_ok m \<Longrightarrow> (k, v) \<in> set m \<longleftrightarrow> map_of m k = Some v"
  by (auto simp: gomap_ok_def intro: map_of_SomeD)

lemma gomap_put_fresh: "k \<notin> fst ` set m \<Longrightarrow> gomap_put k v m = m @ [(k, v)]"
  by (induction m) (auto simp: gomap_put_def)

lemma gomap_put_in: "(k, v) \<in> set (gomap_put k' v' m) \<Longrightarrow> (k = k' \<and> v = v') \<or> (k, v) \<in> set m"
  by (induction m) (auto simp: gomap_put_def split: if_splits)

text \<open>
  Building a map by storing the entries of another one, entry by entry, as the program's
  \<open>range\<close> loops do.
\<close>

fun gomap_puts :: "'v gomap \<Rightarrow> 'v gomap \<Rightarrow> 'v gomap" where
  "gomap_puts acc [] = acc"
| "gomap_puts acc ((k, v) # m) = gomap_puts (gomap_put k v acc) m"

lemma gomap_puts_fresh:
  "gomap_ok m \<Longrightarrow> fst ` set acc \<inter> fst ` set m = {} \<Longrightarrow> gomap_puts acc m = acc @ m"
proof (induction acc m rule: gomap_puts.induct)
  case (1 acc)
  then show ?case by simp
next
  case (2 acc k v m)
  then have "k \<notin> fst ` set acc" by auto
  then show ?case using 2 by (auto simp: gomap_put_fresh)
qed

lemma gomap_puts_ok: "gomap_ok acc \<Longrightarrow> gomap_ok (gomap_puts acc m)"
  by (induction acc m rule: gomap_puts.induct) auto

lemma map_of_gomap_puts: "map_of (gomap_puts acc m) = map_of acc ++ map_of (rev m)"
  by (induction acc m rule: gomap_puts.induct) (auto simp: map_add_def fun_eq_iff split: option.splits)

section \<open>Package strings\<close>

fun go_split :: "char \<Rightarrow> string \<Rightarrow> string list" where
  "go_split c [] = [[]]"
| "go_split c (x # xs) =
     (if x = c then [] # go_split c xs
      else (case go_split c xs of [] \<Rightarrow> [[x]] | y # ys \<Rightarrow> (x # y) # ys))"

fun go_join :: "string \<Rightarrow> string list \<Rightarrow> string" where
  "go_join sep [] = []"
| "go_join sep [s] = s"
| "go_join sep (s # t # ss) = s @ sep @ go_join sep (t # ss)"

lemma go_split_nonempty [simp]: "go_split c s \<noteq> []"
  by (induction s) (auto split: list.splits)

lemma go_split_no_sep: "t \<in> set (go_split c s) \<Longrightarrow> c \<notin> set t"
  by (induction s arbitrary: t) (auto split: if_splits list.splits)

lemma go_join_split: "go_join [c] (go_split c s) = s"
proof (induction s)
  case Nil
  then show ?case by simp
next
  case (Cons x xs)
  obtain y ys where s: "go_split c xs = y # ys"
    by (cases "go_split c xs") auto
  then show ?case using Cons by (cases ys) auto
qed

lemma go_split_single: "c \<notin> set s \<Longrightarrow> go_split c s = [s]"
  by (induction s) auto

lemma go_split_append: "c \<notin> set s \<Longrightarrow> go_split c (s @ c # r) = s # go_split c r"
  by (induction s) auto

lemma go_split_join:
  "ss \<noteq> [] \<Longrightarrow> (\<forall>s \<in> set ss. c \<notin> set s) \<Longrightarrow> go_split c (go_join [c] ss) = ss"
proof (induction ss rule: induct_list012)
  case (2 s)
  then show ?case by (simp add: go_split_single)
next
  case (3 s t ss)
  then show ?case by (simp add: go_split_append)
qed simp_all

text \<open>Letter case: the ASCII letters; every other byte is kept.\<close>

definition char_upper :: "char \<Rightarrow> char" where
  "char_upper c = (let n = of_char c :: nat in if 97 \<le> n \<and> n \<le> 122 then char_of (n - 32) else c)"

definition char_lower :: "char \<Rightarrow> char" where
  "char_lower c = (let n = of_char c :: nat in if 65 \<le> n \<and> n \<le> 90 then char_of (n + 32) else c)"

definition to_upper :: "string \<Rightarrow> string" where
  "to_upper s = map char_upper s"

definition to_lower :: "string \<Rightarrow> string" where
  "to_lower s = map char_lower s"

definition has_prefix :: "string \<Rightarrow> string \<Rightarrow> bool" where
  "has_prefix s p \<longleftrightarrow> take (length p) s = p"

lemma length_to_upper [simp]: "length (to_upper s) = length s"
  by (simp add: to_upper_def)

lemma char_upper_idem [simp]: "char_upper (char_upper c) = char_upper c"
  by (auto simp: char_upper_def Let_def)

lemma to_upper_idem [simp]: "to_upper (to_upper s) = to_upper s"
  by (simp add: to_upper_def)

section \<open>Package strconv: decimal integers\<close>

definition digit_char :: "nat \<Rightarrow> char" where
  "digit_char d = char_of (48 + d)"

definition digit_val :: "char \<Rightarrow> nat option" where
  "digit_val c = (let n = of_char c :: nat in if 48 \<le> n \<and> n \<le> 57 then Some (n - 48) else None)"

fun nat_digits :: "nat \<Rightarrow> string" where
  "nat_digits n = (if n < 10 then [digit_char n] else nat_digits (n div 10) @ [digit_char (n mod 10)])"

declare nat_digits.simps [simp del]

definition itoa :: "int \<Rightarrow> string" where
  "itoa i = (if i < 0 then CHR ''-'' # nat_digits (nat (- i)) else nat_digits (nat i))"

fun parse_digits :: "nat \<Rightarrow> string \<Rightarrow> nat option" where
  "parse_digits acc [] = Some acc"
| "parse_digits acc (c # cs) =
     (case digit_val c of None \<Rightarrow> None | Some d \<Rightarrow> parse_digits (10 * acc + d) cs)"

definition in_int64 :: "int \<Rightarrow> bool" where
  "in_int64 i \<longleftrightarrow> - (2 ^ 63) \<le> i \<and> i < 2 ^ 63"

text \<open>
  \<open>strconv.Atoi\<close>: an optional sign, at least one digit, and the range check of a 64-bit int.
\<close>

definition atoi :: "string \<Rightarrow> int option" where
  "atoi s =
     (let neg = (s \<noteq> [] \<and> hd s = CHR ''-'');
          ds = (if s \<noteq> [] \<and> (hd s = CHR ''-'' \<or> hd s = CHR ''+'') then tl s else s)
      in if ds = [] then None
         else (case parse_digits 0 ds of
             None \<Rightarrow> None
           | Some n \<Rightarrow> (let i = (if neg then - int n else int n)
                        in if in_int64 i then Some i else None)))"

lemma digit_val_char [simp]: "d < 10 \<Longrightarrow> digit_val (digit_char d) = Some d"
  by (simp add: digit_val_def digit_char_def Let_def)

lemma parse_digits_append:
  "parse_digits acc (xs @ ys) =
    (case parse_digits acc xs of None \<Rightarrow> None | Some n \<Rightarrow> parse_digits n ys)"
  by (induction acc xs rule: parse_digits.induct) (auto split: option.splits)

lemma parse_digits_nat_digits: "parse_digits 0 (nat_digits n) = Some n"
proof (induction n rule: nat_digits.induct)
  case (1 n)
  show ?case
  proof (cases "n < 10")
    case True
    then show ?thesis by (simp add: nat_digits.simps[of n])
  next
    case False
    with 1 have "parse_digits 0 (nat_digits (n div 10)) = Some (n div 10)" by simp
    then show ?thesis using False
      by (simp add: nat_digits.simps[of n] parse_digits_append)
  qed
qed

lemma nat_digits_nonempty [simp]: "nat_digits n \<noteq> []"
  by (simp add: nat_digits.simps[of n])

lemma nat_digits_digit: "c \<in> set (nat_digits n) \<Longrightarrow> digit_val c \<noteq> None"
proof (induction n rule: nat_digits.induct)
  case (1 n)
  then show ?case
    by (cases "n < 10") (auto simp: nat_digits.simps[of n])
qed

lemma nat_digits_hd: "hd (nat_digits n) \<noteq> CHR ''-''" "hd (nat_digits n) \<noteq> CHR ''+''"
  using nat_digits_digit[of "hd (nat_digits n)" n]
  by (auto simp: digit_val_def)

lemma atoi_itoa: "in_int64 i \<Longrightarrow> atoi (itoa i) = Some i"
  using nat_digits_hd[of "nat i"] parse_digits_nat_digits
  by (auto simp: atoi_def itoa_def Let_def)

text \<open>The arithmetic of 64-bit ints wraps.\<close>

definition wrap64 :: "int \<Rightarrow> int" where
  "wrap64 i = (i + 2 ^ 63) mod 2 ^ 64 - 2 ^ 63"

lemma wrap64_id: "in_int64 i \<Longrightarrow> wrap64 i = i"
  by (simp add: wrap64_def in_int64_def)

section \<open>Optional values\<close>

text \<open>A nil pointer is \<open>None\<close>; dereferencing one is the panic the callers write out.\<close>

definition opt_or :: "'a option \<Rightarrow> 'a option \<Rightarrow> 'a option" where
  "opt_or x y = (case x of None \<Rightarrow> y | Some v \<Rightarrow> Some v)"

lemma opt_or_simps [simp]: "opt_or None y = y" "opt_or (Some v) y = Some v"
  by (simp_all add: opt_or_def)

lemma opt_or_assoc: "opt_or (opt_or x y) z = opt_or x (opt_or y z)"
  by (cases x) auto

section \<open>Search\<close>

lemma find_in: "find P xs = Some x \<Longrightarrow> x \<in> set xs \<and> P x"
  by (induction xs) (auto split: if_splits)

end
