(* ===== verification/GoErrors.thy ===== *)
theory GoErrors
  imports Prelude
begin

text \<open>
  The error values of common/error.go and of the two database drivers as a datatype, with
  wrapping (\<open>NewError\<close>), unwrapping and the tests \<open>errors.Is\<close> and \<open>errors.As\<close>, and the
  state-threading combinators that render the program's \<open>if err != nil\<close> idiom.
\<close>

section \<open>Error values\<close>

text \<open>
  \<open>ErrNoRows\<close> is the not-found sentinel of the database driver (\<open>sql.ErrNoRows\<close>,
  \<open>gocql.ErrNotFound\<close>), \<open>ErrDriver\<close> any other error of the driver or of a library, and
  \<open>ErrText\<close> an error made by \<open>fmt.Errorf\<close> with a message and no identity. \<open>Wrapped\<close> is
  the chain link that \<open>fmt.Errorf\<close> with a percent-w verb makes; the source position in its
  text is dropped.
\<close>

datatype goerr =
    ErrNoRows
  | ErrDriver string
  | ErrText string
  | ErrNotOK
  | ErrRootDocumentLocked
  | ErrInvalidQueryParams
  | ErrLowTrust
  | ErrPending
  | Http400Error string
  | Http404Error string
  | Http500Error string
  | RemoteHttpError int string
  | GroupVersionMismatchError string
  | NoCapabilitiesError
  | Wrapped goerr

definition NewError :: "goerr \<Rightarrow> goerr" where
  "NewError err = Wrapped err"

fun errors_Unwrap :: "goerr \<Rightarrow> goerr option" where
  "errors_Unwrap (Wrapped e) = Some e"
| "errors_Unwrap _ = None"

text \<open>The last error of a chain, which decides \<open>errors.Is\<close> and \<open>errors.As\<close>.\<close>

fun err_root :: "goerr \<Rightarrow> goerr" where
  "err_root (Wrapped e) = err_root e"
| "err_root e = e"

fun errors_Is :: "goerr \<Rightarrow> goerr \<Rightarrow> bool" where
  "errors_Is (Wrapped e) t = (Wrapped e = t \<or> errors_Is e t)"
| "errors_Is e t = (e = t)"

fun errors_As_remote :: "goerr \<Rightarrow> (int \<times> string) option" where
  "errors_As_remote (Wrapped e) = errors_As_remote e"
| "errors_As_remote (RemoteHttpError code msg) = Some (code, msg)"
| "errors_As_remote _ = None"

fun errors_As_gvm :: "goerr \<Rightarrow> bool" where
  "errors_As_gvm (Wrapped e) = errors_As_gvm e"
| "errors_As_gvm (GroupVersionMismatchError _) = True"
| "errors_As_gvm _ = False"

fun errors_As_400 :: "goerr \<Rightarrow> bool" where
  "errors_As_400 (Wrapped e) = errors_As_400 e"
| "errors_As_400 (Http400Error _) = True"
| "errors_As_400 _ = False"

fun errors_As_404 :: "goerr \<Rightarrow> bool" where
  "errors_As_404 (Wrapped e) = errors_As_404 e"
| "errors_As_404 (Http404Error _) = True"
| "errors_As_404 _ = False"

fun errors_As_500 :: "goerr \<Rightarrow> bool" where
  "errors_As_500 (Wrapped e) = errors_As_500 e"
| "errors_As_500 (Http500Error _) = True"
| "errors_As_500 _ = False"

text \<open>\<open>UnwrapAll\<close> follows at most ten links.\<close>

fun unwrap_loop :: "nat \<Rightarrow> goerr \<Rightarrow> goerr" where
  "unwrap_loop 0 err = err"
| "unwrap_loop (Suc i) err =
     (case errors_Unwrap err of None \<Rightarrow> err | Some unerr \<Rightarrow> unwrap_loop i unerr)"

definition UnwrapAll :: "goerr \<Rightarrow> goerr" where
  "UnwrapAll wrappedErr = unwrap_loop 10 wrappedErr"

fun wrap_depth :: "goerr \<Rightarrow> nat" where
  "wrap_depth (Wrapped e) = Suc (wrap_depth e)"
| "wrap_depth _ = 0"

lemma unwrap_loop_enough: "wrap_depth e \<le> n \<Longrightarrow> unwrap_loop n e = err_root e"
proof (induction n arbitrary: e)
  case 0
  then show ?case by (cases e) auto
next
  case (Suc n)
  then show ?case by (cases e) auto
qed

lemma UnwrapAll_root: "wrap_depth e \<le> 10 \<Longrightarrow> UnwrapAll e = err_root e"
  by (simp add: UnwrapAll_def unwrap_loop_enough)

lemma errors_Is_NewError [simp]:
  "\<forall>e'. t \<noteq> Wrapped e' \<Longrightarrow> errors_Is (NewError e) t = errors_Is e t"
  by (auto simp: NewError_def)

lemma errors_As_NewError [simp]:
  "errors_As_remote (NewError e) = errors_As_remote e"
  "errors_As_gvm (NewError e) = errors_As_gvm e"
  "errors_As_400 (NewError e) = errors_As_400 e"
  "errors_As_404 (NewError e) = errors_As_404 e"
  "errors_As_500 (NewError e) = errors_As_500 e"
  by (simp_all add: NewError_def)

lemma errors_Is_root: "\<forall>e'. t \<noteq> Wrapped e' \<Longrightarrow> errors_Is e t \<longleftrightarrow> err_root e = t"
  by (induction e) auto

text \<open>The status the document handlers answer for a validation error.\<close>

definition http_status_of :: "goerr \<Rightarrow> int" where
  "http_status_of err =
     (if errors_As_400 err then 400
      else if errors_As_404 err then 404
      else if errors_As_500 err then 500
      else 500)"

lemma http_status_of_NewError [simp]: "http_status_of (NewError e) = http_status_of e"
  by (simp add: http_status_of_def)

section \<open>Threading state, errors and panics\<close>

text \<open>
  A call that reads or writes the database is a function from the state before to an outcome
  and the state after. A panic is never caught by the code modelled here: it stops the call.
\<close>

type_synonym 'a result = "(goerr, 'a) outcome"
type_synonym ('s, 'a) prog = "'s \<Rightarrow> 'a result \<times> 's"

definition ret :: "'a \<Rightarrow> ('s, 'a) prog" where
  "ret x = (\<lambda>s. (Ok x, s))"

definition throw :: "goerr \<Rightarrow> ('s, 'a) prog" where
  "throw e = (\<lambda>s. (Err e, s))"

definition panic :: "('s, 'a) prog" where
  "panic = (\<lambda>s. (Panic, s))"

text \<open>
  \<open>x, err := m; if err != nil { return h(err) }; k(x)\<close>.
\<close>

definition tryE :: "('s, 'a) prog \<Rightarrow> (goerr \<Rightarrow> ('s, 'b) prog) \<Rightarrow> ('a \<Rightarrow> ('s, 'b) prog) \<Rightarrow> ('s, 'b) prog" where
  "tryE m h k = (\<lambda>s. case m s of
       (Ok x, s') \<Rightarrow> k x s'
     | (Err e, s') \<Rightarrow> h e s'
     | (Panic, s') \<Rightarrow> (Panic, s'))"

text \<open>\<open>x, err := m; if err != nil { return common.NewError(err) }; k(x)\<close>.\<close>

definition bindE :: "('s, 'a) prog \<Rightarrow> ('a \<Rightarrow> ('s, 'b) prog) \<Rightarrow> ('s, 'b) prog" where
  "bindE m k = tryE m (\<lambda>e. throw (NewError e)) k"

text \<open>A pointer dereference: a nil pointer panics.\<close>

definition deref :: "'a option \<Rightarrow> ('a \<Rightarrow> ('s, 'b) prog) \<Rightarrow> ('s, 'b) prog" where
  "deref p k = (case p of None \<Rightarrow> panic | Some x \<Rightarrow> k x)"

lemmas prog_combinators = ret_def throw_def panic_def tryE_def bindE_def deref_def

declare prog_combinators [prog_defs]

lemma ret_apply [simp]: "ret x s = (Ok x, s)"
  and throw_apply [simp]: "throw e s = (Err e, s)"
  and panic_apply [simp]: "panic s = (Panic, s)"
  by (simp_all add: prog_combinators)

lemma deref_simps [simp]: "deref None k = panic" "deref (Some x) k = k x"
  by (simp_all add: deref_def)

lemma tryE_eq_Ok:
  "tryE m h k s = (Ok y, t) \<longleftrightarrow>
     (\<exists>x s'. m s = (Ok x, s') \<and> k x s' = (Ok y, t)) \<or>
     (\<exists>e s'. m s = (Err e, s') \<and> h e s' = (Ok y, t))"
  by (auto simp: tryE_def split: prod.splits outcome.splits)

lemma bindE_eq_Ok:
  "bindE m k s = (Ok y, t) \<longleftrightarrow> (\<exists>x s'. m s = (Ok x, s') \<and> k x s' = (Ok y, t))"
  by (simp add: bindE_def tryE_eq_Ok)

text \<open>
  The simplifier turns a returned value, a thrown error and a panic into a pair waiting for
  its state; these are the rules for that normal form.
\<close>

lemma tryE_Pair [simp]:
  "tryE (Pair (Ok x)) h k = k x" "tryE (Pair (Err e)) h k = h e" "tryE (Pair Panic) h k = Pair Panic"
  by (simp_all add: tryE_def fun_eq_iff)

lemma bindE_Pair [simp]:
  "bindE (Pair (Ok x)) k = k x" "bindE (Pair (Err e)) k = Pair (Err (NewError e))"
  "bindE (Pair Panic) k = Pair Panic"
  by (simp_all add: bindE_def fun_eq_iff)

lemma deref_eq_Ok: "deref p k s = (Ok y, t) \<longleftrightarrow> (\<exists>x. p = Some x \<and> k x s = (Ok y, t))"
  by (cases p) auto

text \<open>A case distinction whose branches still wait for the state.\<close>

lemma case_sum_app:
  "(case r of Inl e \<Rightarrow> f e | Inr x \<Rightarrow> g x) s = y \<longleftrightarrow>
     (\<exists>e. r = Inl e \<and> f e s = y) \<or> (\<exists>x. r = Inr x \<and> g x s = y)"
  by (cases r) auto

lemma case_option_app:
  "(case r of None \<Rightarrow> f | Some x \<Rightarrow> g x) s = y \<longleftrightarrow>
     (r = None \<and> f s = y) \<or> (\<exists>x. r = Some x \<and> g x s = y)"
  by (cases r) auto

lemma case_prod_app: "(case r of (a, b) \<Rightarrow> g a b) s = y \<longleftrightarrow> (\<exists>a b. r = (a, b) \<and> g a b s = y)"
  by (cases r) auto

lemmas case_apps = case_sum_app case_option_app case_prod_app

text \<open>
  A loop over the entries of a map whose body may fail: the first error (wrapped by
  \<open>NewError\<close>) or panic ends it, with the effects of the earlier iterations kept.
\<close>

fun for_each :: "('a \<Rightarrow> ('s, unit) prog) \<Rightarrow> 'a list \<Rightarrow> ('s, unit) prog" where
  "for_each body [] = ret ()"
| "for_each body (x # xs) = bindE (body x) (\<lambda>_. for_each body xs)"

text \<open>
  \<open>keeps P m\<close>: the call \<open>m\<close> preserves \<open>P\<close> whatever its outcome. This is the form in which
  invariants and frame conditions travel through the combinators.
\<close>

definition keeps :: "('s \<Rightarrow> bool) \<Rightarrow> ('s, 'a) prog \<Rightarrow> bool" where
  "keeps P m \<longleftrightarrow> (\<forall>s. P s \<longrightarrow> P (snd (m s)))"

named_theorems keeps_intros "preservation rules of the combinators"

lemma keepsI: "(\<And>s. P s \<Longrightarrow> P (snd (m s))) \<Longrightarrow> keeps P m"
  by (simp add: keeps_def)

lemma keepsD: "keeps P m \<Longrightarrow> P s \<Longrightarrow> m s = (r, s') \<Longrightarrow> P s'"
  by (metis keeps_def snd_conv)

lemma keeps_ret [keeps_intros, simp]: "keeps P (ret x)"
  and keeps_throw [keeps_intros, simp]: "keeps P (throw e)"
  and keeps_panic [keeps_intros, simp]: "keeps P panic"
  and keeps_Pair [keeps_intros, simp]: "keeps P (Pair r)"
  by (simp_all add: keeps_def)

lemma keeps_tryE [keeps_intros]:
  "keeps P m \<Longrightarrow> (\<And>e. keeps P (h e)) \<Longrightarrow> (\<And>x. keeps P (k x)) \<Longrightarrow> keeps P (tryE m h k)"
  by (fastforce simp: keeps_def tryE_def split: prod.splits outcome.splits)

lemma keeps_bindE [keeps_intros]:
  "keeps P m \<Longrightarrow> (\<And>x. keeps P (k x)) \<Longrightarrow> keeps P (bindE m k)"
  by (simp add: bindE_def keeps_tryE)

lemma keeps_deref [keeps_intros]: "(\<And>x. keeps P (k x)) \<Longrightarrow> keeps P (deref p k)"
  by (cases p) auto

lemma keeps_if [keeps_intros]:
  "(b \<Longrightarrow> keeps P m) \<Longrightarrow> (\<not> b \<Longrightarrow> keeps P n) \<Longrightarrow> keeps P (if b then m else n)"
  by simp

lemma keeps_for_each [keeps_intros]:
  "(\<And>x. x \<in> set xs \<Longrightarrow> keeps P (body x)) \<Longrightarrow> keeps P (for_each body xs)"
  by (induction xs) (auto intro!: keeps_intros)


end
