(* ===== verification/SubDocument.thy ===== *)
theory SubDocument
  imports GoErrors
begin

text \<open>
  common/subdocument.go, common/refsubdocument.go and the state constants of
  common/const_var.go: the unit of configuration the server stores per device and group,
  with its comparison and the test that decides whether a 304 report updates it.
\<close>

section \<open>Deployment states\<close>

definition Deployed :: int where [simp]: "Deployed = 1"
definition PendingDownload :: int where [simp]: "PendingDownload = 2"
definition InDeployment :: int where [simp]: "InDeployment = 3"
definition Failure :: int where [simp]: "Failure = 4"

section \<open>SubDocument\<close>

text \<open>Every pointer field is an option; a nil payload slice is \<open>None\<close>.\<close>

record subdoc =
  sd_payload :: "bytes option"
  sd_version :: "string option"
  sd_state :: "int option"
  sd_updated_time :: "int option"
  sd_error_code :: "int option"
  sd_error_details :: "string option"
  sd_expiry :: "int option"

definition NewSubDocument ::
  "bytes option \<Rightarrow> string option \<Rightarrow> int option \<Rightarrow> int option \<Rightarrow> int option \<Rightarrow> string option \<Rightarrow> subdoc" where
  "NewSubDocument payload version state updatedTime errorCode errorDetails =
     \<lparr>sd_payload = payload, sd_version = version, sd_state = state,
      sd_updated_time = updatedTime, sd_error_code = errorCode,
      sd_error_details = errorDetails, sd_expiry = None\<rparr>"

definition payload_bytes :: "bytes option \<Rightarrow> bytes" where
  "payload_bytes p = (case p of None \<Rightarrow> [] | Some b \<Rightarrow> b)"

definition subdoc_HasPayload :: "subdoc \<Rightarrow> bool" where
  "subdoc_HasPayload d \<longleftrightarrow> sd_payload d \<noteq> None \<and> length (payload_bytes (sd_payload d)) > 0"

definition subdoc_GetVersion :: "subdoc \<Rightarrow> string" where
  "subdoc_GetVersion d = (case sd_version d of Some v \<Rightarrow> v | None \<Rightarrow> '''')"

definition subdoc_GetState :: "subdoc \<Rightarrow> int" where
  "subdoc_GetState d = (case sd_state d of Some v \<Rightarrow> v | None \<Rightarrow> 0)"

text \<open>
  \<open>Equals\<close> returns true with a nil error, or false with an error that names the field that
  differs; the message is reduced to the field here. Payloads compare by content with nil and
  empty identified; version, time, state and expiry compare as pointers unless both are set;
  the error fields read a nil pointer as the zero value.
\<close>

definition ptr_differs :: "'a option \<Rightarrow> 'a option \<Rightarrow> bool" where
  "ptr_differs p q =
     (case (p, q) of (Some x, Some y) \<Rightarrow> x \<noteq> y | (None, None) \<Rightarrow> False | _ \<Rightarrow> True)"

definition zero_differs :: "'a \<Rightarrow> 'a option \<Rightarrow> 'a option \<Rightarrow> bool" where
  "zero_differs z p q =
     (case (p, q) of (Some x, Some y) \<Rightarrow> x \<noteq> y
      | _ \<Rightarrow> (case p of Some x \<Rightarrow> x | None \<Rightarrow> z) \<noteq> (case q of Some y \<Rightarrow> y | None \<Rightarrow> z))"

definition payload_differs :: "subdoc \<Rightarrow> subdoc \<Rightarrow> bool" where
  "payload_differs d t =
     (if subdoc_HasPayload d \<and> subdoc_HasPayload t
      then payload_bytes (sd_payload d) \<noteq> payload_bytes (sd_payload t)
      else subdoc_HasPayload d \<noteq> subdoc_HasPayload t)"

definition subdoc_Equals :: "subdoc \<Rightarrow> subdoc \<Rightarrow> bool \<times> goerr option" where
  "subdoc_Equals d t =
     (if payload_differs d t then (False, Some (NewError (ErrText ''Payload'')))
      else if ptr_differs (sd_version d) (sd_version t) then (False, Some (NewError (ErrText ''Version'')))
      else if ptr_differs (sd_updated_time d) (sd_updated_time t) then (False, Some (NewError (ErrText ''UpdatedTime'')))
      else if ptr_differs (sd_state d) (sd_state t) then (False, Some (NewError (ErrText ''State'')))
      else if zero_differs 0 (sd_error_code d) (sd_error_code t) then (False, Some (NewError (ErrText ''ErrorCode'')))
      else if zero_differs '''' (sd_error_details d) (sd_error_details t) then (False, Some (NewError (ErrText ''ErrorDetails'')))
      else if ptr_differs (sd_expiry d) (sd_expiry t) then (False, Some (NewError (ErrText ''Expiry'')))
      else (True, None))"

definition NeedsUpdateForHttp304 :: "subdoc \<Rightarrow> bool" where
  "NeedsUpdateForHttp304 d =
     (if (case sd_updated_time d of Some t \<Rightarrow> t < 0 | None \<Rightarrow> False) then True
      else (case sd_state d of
          None \<Rightarrow> False
        | Some st \<Rightarrow>
            if st \<noteq> Deployed then True
            else if (case sd_error_code d of Some c \<Rightarrow> c \<noteq> 0 | None \<Rightarrow> False) then True
            else if (case sd_error_details d of Some e \<Rightarrow> length e > 0 | None \<Rightarrow> False) then True
            else False))"

text \<open>
  \<open>String\<close>: the second slot of the format has no assignment in the code and prints empty.
\<close>

definition show_opt :: "string \<Rightarrow> ('a \<Rightarrow> string) \<Rightarrow> 'a option \<Rightarrow> string" where
  "show_opt name f p = (case p of None \<Rightarrow> name @ ''=nil'' | Some x \<Rightarrow> name @ ''='' @ f x)"

definition subdoc_String :: "subdoc \<Rightarrow> string" where
  "subdoc_String d =
     ''SubDocument('' @ go_join '', ''
       [(case sd_payload d of None \<Rightarrow> ''payload=nil''
         | Some p \<Rightarrow> ''len(payload)='' @ itoa (int (length p))),
        '''',
        show_opt ''version'' (\<lambda>s. s) (sd_version d),
        show_opt ''state'' itoa (sd_state d),
        show_opt ''updatedTime'' itoa (sd_updated_time d),
        show_opt ''errorCode'' itoa (sd_error_code d),
        show_opt ''errorDetails'' (\<lambda>s. s) (sd_error_details d)]
     @ '')''"

subsection \<open>Facts\<close>

text \<open>
  What \<open>Equals\<close> compares: the normal form in which nil and empty payloads, and nil and
  zero error fields, are the same.
\<close>

definition subdoc_norm :: "subdoc \<Rightarrow> subdoc" where
  "subdoc_norm d = d\<lparr>
     sd_payload := Some (payload_bytes (sd_payload d)),
     sd_error_code := Some (case sd_error_code d of Some c \<Rightarrow> c | None \<Rightarrow> 0),
     sd_error_details := Some (case sd_error_details d of Some e \<Rightarrow> e | None \<Rightarrow> '''')\<rparr>"

lemma ptr_differs_iff [simp]: "ptr_differs p q \<longleftrightarrow> p \<noteq> q"
  by (auto simp: ptr_differs_def split: option.splits)

lemma zero_differs_iff [simp]:
  "zero_differs z p q \<longleftrightarrow>
     (case p of Some x \<Rightarrow> x | None \<Rightarrow> z) \<noteq> (case q of Some y \<Rightarrow> y | None \<Rightarrow> z)"
  by (auto simp: zero_differs_def split: option.splits)

lemma payload_bytes_simps [simp]: "payload_bytes None = []" "payload_bytes (Some b) = b"
  by (simp_all add: payload_bytes_def)

lemma subdoc_HasPayload_iff: "subdoc_HasPayload d \<longleftrightarrow> payload_bytes (sd_payload d) \<noteq> []"
  by (cases "sd_payload d") (auto simp: subdoc_HasPayload_def)

lemma payload_differs_iff [simp]:
  "payload_differs d t \<longleftrightarrow> payload_bytes (sd_payload d) \<noteq> payload_bytes (sd_payload t)"
  by (auto simp: payload_differs_def subdoc_HasPayload_iff)

lemma subdoc_Equals_iff: "fst (subdoc_Equals d t) \<longleftrightarrow> subdoc_norm d = subdoc_norm t"
  by (cases d; cases t) (auto simp: subdoc_Equals_def subdoc_norm_def)

lemma subdoc_Equals_error: "fst (subdoc_Equals d t) \<longleftrightarrow> snd (subdoc_Equals d t) = None"
  by (simp add: subdoc_Equals_def)

lemma NewSubDocument_sel [simp]:
  "sd_payload (NewSubDocument p v st ut ec ed) = p"
  "sd_version (NewSubDocument p v st ut ec ed) = v"
  "sd_state (NewSubDocument p v st ut ec ed) = st"
  "sd_updated_time (NewSubDocument p v st ut ec ed) = ut"
  "sd_error_code (NewSubDocument p v st ut ec ed) = ec"
  "sd_error_details (NewSubDocument p v st ut ec ed) = ed"
  "sd_expiry (NewSubDocument p v st ut ec ed) = None"
  by (simp_all add: NewSubDocument_def)

text \<open>
  What storing a new sub-document over an old one leaves: a set field of the new one wins, a
  nil field keeps what is stored. Both database drivers build their statements so.
\<close>

definition subdoc_merge :: "subdoc \<Rightarrow> subdoc \<Rightarrow> subdoc" where
  "subdoc_merge new old = \<lparr>
     sd_payload = opt_or (sd_payload new) (sd_payload old),
     sd_version = opt_or (sd_version new) (sd_version old),
     sd_state = opt_or (sd_state new) (sd_state old),
     sd_updated_time = opt_or (sd_updated_time new) (sd_updated_time old),
     sd_error_code = opt_or (sd_error_code new) (sd_error_code old),
     sd_error_details = opt_or (sd_error_details new) (sd_error_details old),
     sd_expiry = opt_or (sd_expiry new) (sd_expiry old)\<rparr>"

lemma subdoc_merge_sel [simp]:
  "sd_payload (subdoc_merge n m) = opt_or (sd_payload n) (sd_payload m)"
  "sd_version (subdoc_merge n m) = opt_or (sd_version n) (sd_version m)"
  "sd_state (subdoc_merge n m) = opt_or (sd_state n) (sd_state m)"
  "sd_updated_time (subdoc_merge n m) = opt_or (sd_updated_time n) (sd_updated_time m)"
  "sd_error_code (subdoc_merge n m) = opt_or (sd_error_code n) (sd_error_code m)"
  "sd_error_details (subdoc_merge n m) = opt_or (sd_error_details n) (sd_error_details m)"
  "sd_expiry (subdoc_merge n m) = opt_or (sd_expiry n) (sd_expiry m)"
  by (simp_all add: subdoc_merge_def)

section \<open>RefSubDocument\<close>

record refsubdoc =
  rs_payload :: "bytes option"
  rs_version :: "string option"

definition NewRefSubDocument :: "bytes option \<Rightarrow> string option \<Rightarrow> refsubdoc" where
  "NewRefSubDocument payload version = \<lparr>rs_payload = payload, rs_version = version\<rparr>"

definition refsubdoc_HasPayload :: "refsubdoc \<Rightarrow> bool" where
  "refsubdoc_HasPayload d \<longleftrightarrow> rs_payload d \<noteq> None \<and> length (payload_bytes (rs_payload d)) > 0"

definition refsubdoc_Equals :: "refsubdoc \<Rightarrow> refsubdoc \<Rightarrow> bool" where
  "refsubdoc_Equals d t =
     (if (if refsubdoc_HasPayload d \<and> refsubdoc_HasPayload t
          then payload_bytes (rs_payload d) \<noteq> payload_bytes (rs_payload t)
          else refsubdoc_HasPayload d \<noteq> refsubdoc_HasPayload t)
      then False
      else if ptr_differs (rs_version d) (rs_version t) then False
      else True)"

lemma refsubdoc_Equals_iff:
  "refsubdoc_Equals d t \<longleftrightarrow>
     payload_bytes (rs_payload d) = payload_bytes (rs_payload t) \<and> rs_version d = rs_version t"
  by (cases "rs_payload d"; cases "rs_payload t")
     (auto simp: refsubdoc_Equals_def refsubdoc_HasPayload_def)

lemma NewRefSubDocument_sel [simp]:
  "rs_payload (NewRefSubDocument p v) = p" "rs_version (NewRefSubDocument p v) = v"
  by (simp_all add: NewRefSubDocument_def)

end
