(* ===== verification/RootDocument.thy ===== *)
theory RootDocument
  imports GoErrors
begin

text \<open>
  common/root_document.go: the per-device metadata record, its comparison with what the
  device reports and the two in-place updates.
\<close>

text \<open>The values the program binds to statements and reads back from rows.\<close>

datatype sqlval = VNull | VInt int | VText string | VBlob bytes

record rootdoc =
  rd_bitmap :: int
  rd_firmware_version :: string
  rd_model_name :: string
  rd_partner_id :: string
  rd_schema_version :: string
  rd_version :: string
  rd_query_params :: string
  rd_locked_till :: int
  rd_product_class :: string
  rd_account_type :: string

definition NewRootDocument ::
  "int \<Rightarrow> string \<Rightarrow> string \<Rightarrow> string \<Rightarrow> string \<Rightarrow> string \<Rightarrow> string \<Rightarrow> string \<Rightarrow> string \<Rightarrow> rootdoc" where
  "NewRootDocument bitmap firmwareVersion modelName partnerId schemaVersion version query_params
     productClass accountType =
     \<lparr>rd_bitmap = bitmap, rd_firmware_version = firmwareVersion, rd_model_name = modelName,
      rd_partner_id = partnerId, rd_schema_version = schemaVersion, rd_version = version,
      rd_query_params = query_params, rd_locked_till = 0, rd_product_class = productClass,
      rd_account_type = accountType\<rparr>"

definition root_ColumnMap :: "rootdoc \<Rightarrow> sqlval gomap" where
  "root_ColumnMap d =
     [(''bitmap'', VInt (rd_bitmap d)),
      (''firmware_version'', VText (rd_firmware_version d)),
      (''model_name'', VText (rd_model_name d)),
      (''partner_id'', VText (rd_partner_id d)),
      (''schema_version'', VText (rd_schema_version d)),
      (''version'', VText (rd_version d)),
      (''query_params'', VText (rd_query_params d)),
      (''product_class'', VText (rd_product_class d)),
      (''account_type'', VText (rd_account_type d))]"

definition root_NonEmptyColumnMap :: "rootdoc \<Rightarrow> sqlval gomap" where
  "root_NonEmptyColumnMap d =
     (let dict = (if rd_bitmap d > 0 then [(''bitmap'', VInt (rd_bitmap d))] else []);
          dict = (if rd_locked_till d > 0 then gomap_put ''locked_till'' (VInt (rd_locked_till d)) dict else dict);
          tempDict =
            [(''firmware_version'', rd_firmware_version d),
             (''model_name'', rd_model_name d),
             (''partner_id'', rd_partner_id d),
             (''schema_version'', rd_schema_version d),
             (''version'', rd_version d),
             (''query_params'', rd_query_params d),
             (''product_class'', rd_product_class d),
             (''account_type'', rd_account_type d)]
      in gomap_puts dict (map (\<lambda>(k, v). (k, VText v)) (filter (\<lambda>(k, v). length v > 0) tempDict)))"

text \<open>The result of \<open>Compare\<close>; the constants of const_var.go, in their order.\<close>

datatype root_cmp =
    RootDocumentEquals
  | RootDocumentVersionOnlyChanged
  | RootDocumentMetaChanged
  | RootDocumentMissing

definition root_Compare :: "rootdoc \<Rightarrow> rootdoc \<Rightarrow> root_cmp" where
  "root_Compare d r =
     (if rd_bitmap d \<noteq> rd_bitmap r then RootDocumentMetaChanged
      else if rd_firmware_version d \<noteq> rd_firmware_version r then RootDocumentMetaChanged
      else if rd_model_name d \<noteq> rd_model_name r then RootDocumentMetaChanged
      else if length (rd_partner_id d) > 0 \<and> length (rd_partner_id r) > 0
              \<and> rd_partner_id d \<noteq> rd_partner_id r then RootDocumentMetaChanged
      else if rd_schema_version d \<noteq> rd_schema_version r then RootDocumentMetaChanged
      else if rd_product_class d \<noteq> rd_product_class r then RootDocumentMetaChanged
      else if rd_account_type d \<noteq> rd_account_type r then RootDocumentMetaChanged
      else if rd_version d \<noteq> rd_version r then RootDocumentVersionOnlyChanged
      else if length (rd_version d) = 0 then RootDocumentMissing
      else RootDocumentEquals)"

definition root_Equals :: "rootdoc \<Rightarrow> rootdoc \<Rightarrow> bool" where
  "root_Equals d r =
     (if rd_bitmap d \<noteq> rd_bitmap r then False
      else if rd_firmware_version d \<noteq> rd_firmware_version r then False
      else if rd_model_name d \<noteq> rd_model_name r then False
      else if rd_partner_id d \<noteq> rd_partner_id r then False
      else if rd_schema_version d \<noteq> rd_schema_version r then False
      else if rd_product_class d \<noteq> rd_product_class r then False
      else if rd_account_type d \<noteq> rd_account_type r then False
      else True)"

text \<open>A field of the argument replaces the stored one only if it is non-zero.\<close>

definition upd_str :: "string \<Rightarrow> string \<Rightarrow> string" where
  "upd_str old new = (if length new > 0 then new else old)"

definition root_Update :: "rootdoc \<Rightarrow> rootdoc \<Rightarrow> rootdoc" where
  "root_Update d r = d\<lparr>
     rd_bitmap := (if rd_bitmap r > 0 then rd_bitmap r else rd_bitmap d),
     rd_firmware_version := upd_str (rd_firmware_version d) (rd_firmware_version r),
     rd_model_name := upd_str (rd_model_name d) (rd_model_name r),
     rd_partner_id := upd_str (rd_partner_id d) (rd_partner_id r),
     rd_schema_version := upd_str (rd_schema_version d) (rd_schema_version r),
     rd_version := upd_str (rd_version d) (rd_version r),
     rd_query_params := upd_str (rd_query_params d) (rd_query_params r),
     rd_product_class := upd_str (rd_product_class d) (rd_product_class r),
     rd_account_type := upd_str (rd_account_type d) (rd_account_type r)\<rparr>"

definition root_UpdateMetadata :: "rootdoc \<Rightarrow> rootdoc \<Rightarrow> rootdoc" where
  "root_UpdateMetadata d r = d\<lparr>
     rd_bitmap := (if rd_bitmap r > 0 then rd_bitmap r else rd_bitmap d),
     rd_firmware_version := upd_str (rd_firmware_version d) (rd_firmware_version r),
     rd_model_name := upd_str (rd_model_name d) (rd_model_name r),
     rd_partner_id := upd_str (rd_partner_id d) (rd_partner_id r),
     rd_schema_version := upd_str (rd_schema_version d) (rd_schema_version r),
     rd_product_class := upd_str (rd_product_class d) (rd_product_class r),
     rd_account_type := upd_str (rd_account_type d) (rd_account_type r)\<rparr>"

definition root_Clone :: "rootdoc \<Rightarrow> rootdoc" where
  "root_Clone d = d"

text \<open>\<open>Locked\<close> reads the clock: \<open>now\<close> is the time in milliseconds.\<close>

definition root_Locked :: "int \<Rightarrow> rootdoc \<Rightarrow> bool" where
  "root_Locked now d \<longleftrightarrow> rd_locked_till d > 0 \<and> now < rd_locked_till d"

section \<open>Facts\<close>

lemma upd_str_Nil [simp]: "upd_str old '''' = old"
  by (simp add: upd_str_def)

lemma upd_str_idem [simp]: "upd_str (upd_str x y) y = upd_str x y"
  by (simp add: upd_str_def)

lemma upd_str_empty_iff [simp]: "upd_str x y = '''' \<longleftrightarrow> x = '''' \<and> y = ''''"
  by (auto simp: upd_str_def)

lemma root_Clone_id [simp]: "root_Clone d = d"
  by (simp add: root_Clone_def)

lemma NewRootDocument_sel [simp]:
  "rd_bitmap (NewRootDocument b f m p s v q c a) = b"
  "rd_firmware_version (NewRootDocument b f m p s v q c a) = f"
  "rd_model_name (NewRootDocument b f m p s v q c a) = m"
  "rd_partner_id (NewRootDocument b f m p s v q c a) = p"
  "rd_schema_version (NewRootDocument b f m p s v q c a) = s"
  "rd_version (NewRootDocument b f m p s v q c a) = v"
  "rd_query_params (NewRootDocument b f m p s v q c a) = q"
  "rd_locked_till (NewRootDocument b f m p s v q c a) = 0"
  "rd_product_class (NewRootDocument b f m p s v q c a) = c"
  "rd_account_type (NewRootDocument b f m p s v q c a) = a"
  by (simp_all add: NewRootDocument_def)

lemma root_Update_sel [simp]:
  "rd_bitmap (root_Update d r) = (if rd_bitmap r > 0 then rd_bitmap r else rd_bitmap d)"
  "rd_firmware_version (root_Update d r) = upd_str (rd_firmware_version d) (rd_firmware_version r)"
  "rd_model_name (root_Update d r) = upd_str (rd_model_name d) (rd_model_name r)"
  "rd_partner_id (root_Update d r) = upd_str (rd_partner_id d) (rd_partner_id r)"
  "rd_schema_version (root_Update d r) = upd_str (rd_schema_version d) (rd_schema_version r)"
  "rd_version (root_Update d r) = upd_str (rd_version d) (rd_version r)"
  "rd_query_params (root_Update d r) = upd_str (rd_query_params d) (rd_query_params r)"
  "rd_locked_till (root_Update d r) = rd_locked_till d"
  "rd_product_class (root_Update d r) = upd_str (rd_product_class d) (rd_product_class r)"
  "rd_account_type (root_Update d r) = upd_str (rd_account_type d) (rd_account_type r)"
  by (simp_all add: root_Update_def)

text \<open>The fields in which two records differ as far as \<open>Compare\<close> looks at metadata.\<close>

definition root_meta_differs :: "rootdoc \<Rightarrow> rootdoc \<Rightarrow> bool" where
  "root_meta_differs d r \<longleftrightarrow>
     rd_bitmap d \<noteq> rd_bitmap r \<or> rd_firmware_version d \<noteq> rd_firmware_version r
     \<or> rd_model_name d \<noteq> rd_model_name r
     \<or> (rd_partner_id d \<noteq> '''' \<and> rd_partner_id r \<noteq> '''' \<and> rd_partner_id d \<noteq> rd_partner_id r)
     \<or> rd_schema_version d \<noteq> rd_schema_version r
     \<or> rd_product_class d \<noteq> rd_product_class r \<or> rd_account_type d \<noteq> rd_account_type r"

lemma root_Compare_cases:
  "root_Compare d r =
     (if root_meta_differs d r then RootDocumentMetaChanged
      else if rd_version d \<noteq> rd_version r then RootDocumentVersionOnlyChanged
      else if rd_version d = '''' then RootDocumentMissing
      else RootDocumentEquals)"
  by (simp add: root_Compare_def root_meta_differs_def)

lemma root_Compare_meta: "root_Compare d r = RootDocumentMetaChanged \<longleftrightarrow> root_meta_differs d r"
  by (simp add: root_Compare_cases)

lemma root_meta_differs_sym: "root_meta_differs d r = root_meta_differs r d"
  by (auto simp: root_meta_differs_def)

lemma root_Compare_sym: "root_Compare d r = root_Compare r d"
  by (auto simp: root_Compare_cases root_meta_differs_sym)

lemma root_Equals_not_meta: "root_Equals d r \<Longrightarrow> root_Compare d r \<noteq> RootDocumentMetaChanged"
  by (auto simp: root_Equals_def root_Compare_cases root_meta_differs_def split: if_splits)

lemma root_not_meta_Equals:
  "root_Compare d r \<noteq> RootDocumentMetaChanged \<Longrightarrow> rd_partner_id d = rd_partner_id r
   \<Longrightarrow> root_Equals d r"
  by (auto simp: root_Equals_def root_Compare_cases root_meta_differs_def split: if_splits)

lemma root_Update_idem: "root_Update (root_Update d r) r = root_Update d r"
  by (simp add: root_Update_def)

lemma root_UpdateMetadata_alt:
  "root_UpdateMetadata d r = root_Update d (r\<lparr>rd_version := '''', rd_query_params := ''''\<rparr>)"
  by (simp add: root_UpdateMetadata_def root_Update_def)

lemma root_Update_not_meta:
  assumes "rd_bitmap r > 0" "rd_firmware_version r \<noteq> ''''" "rd_model_name r \<noteq> ''''"
    "rd_schema_version r \<noteq> ''''" "rd_product_class r \<noteq> ''''" "rd_account_type r \<noteq> ''''"
  shows "\<not> root_meta_differs (root_Update d r) r"
  using assms by (auto simp: root_meta_differs_def upd_str_def)

end
