(* ===== verification/Bitmap.thy ===== *)
theory Bitmap
  imports GoErrors
begin

unbundle bit_operations_syntax

text \<open>
  common/bitmap.go and common/firmware_bitmap.go: which sub-documents a device supports. The
  firmware sends one integer per group; the groups are merged into one bitmap per device.
  The values are 64-bit ints in the code and mathematical integers here: every operation
  used (shift of 1 by at most 40, and, or, arithmetic shift right) agrees with its 64-bit
  version on operands in range, and \<open>GetCpeBitmap_range\<close> shows that results stay in range.
\<close>

section \<open>The tables\<close>

definition SupportedDocsBitMaskMap :: "(int \<times> (nat \<times> nat) list) list" where
  "SupportedDocsBitMaskMap =
    [(1, [(1, 1), (2, 2), (3, 3), (4, 4), (5, 5), (6, 6), (7, 29), (8, 35), (9, 40)]),
     (2, [(1, 7), (2, 8), (3, 9)]),
     (3, [(1, 10)]),
     (4, [(1, 11)]),
     (5, [(1, 12)]),
     (6, [(1, 13), (2, 31), (3, 36), (4, 37), (5, 38), (6, 39), (7, 34), (8, 41)]),
     (7, [(1, 14)]),
     (8, [(1, 15), (2, 32), (3, 33)]),
     (9, [(1, 16), (2, 17)]),
     (10, [(1, 18), (2, 19)]),
     (11, [(1, 20), (2, 25)]),
     (12, [(1, 21), (2, 23)]),
     (13, [(1, 22)]),
     (14, [(1, 24)]),
     (15, [(1, 26), (2, 27)]),
     (16, [(1, 28)]),
     (17, [(1, 30)])]"

definition SubdocBitIndexMap :: "nat gomap" where
  "SubdocBitIndexMap =
    [(''portforwarding'', 1), (''lan'', 2), (''wan'', 3), (''macbinding'', 4), (''hotspot'', 5),
     (''bridge'', 6), (''privatessid'', 7), (''homessid'', 8), (''radio'', 9), (''moca'', 10),
     (''xdns'', 11), (''advsecurity'', 12), (''mesh'', 13), (''aker'', 14), (''telemetry'', 15),
     (''statusreport'', 16), (''trafficreport'', 17), (''interfacereport'', 18),
     (''radioreport'', 19), (''telcovoip'', 20), (''wanmanager'', 21), (''voiceservice'', 22),
     (''wanfailover'', 23), (''cellularconfig'', 24), (''telcovoice'', 25), (''gwfailover'', 26),
     (''gwrestore'', 27), (''prioritizedmacs'', 28), (''connectedbuilding'', 29),
     (''lldqoscontrol'', 30), (''clienttosteeringprofile'', 31), (''defaultrfc'', 32),
     (''rfc'', 33), (''wifimotionsettings'', 34), (''xmspeedboost'', 35),
     (''meshsteeringprofiles'', 36), (''wifistatsconfig'', 37), (''mwoconfigs'', 38),
     (''interference'', 39), (''webui'', 40), (''channelplan'', 41)]"

section \<open>Parsing the header\<close>

text \<open>The loop over the tuples of one group: \<open>1 << (bit - 1)\<close> is \<open>push_bit (bit - 1) 1\<close>.\<close>

fun set_bits_loop :: "int \<Rightarrow> int \<Rightarrow> (nat \<times> nat) list \<Rightarrow> int" where
  "set_bits_loop cpeBitmap groupBitmap [] = cpeBitmap"
| "set_bits_loop cpeBitmap groupBitmap ((groupBit, cpeBit) # tuples) =
     (let mask = push_bit (groupBit - 1) 1;
          masked = groupBitmap AND mask;
          cpeBitmap' = (if masked > 0 then cpeBitmap OR push_bit (cpeBit - 1) 1 else cpeBitmap)
      in set_bits_loop cpeBitmap' groupBitmap tuples)"

definition SetBitmapByGroup :: "int \<Rightarrow> int \<Rightarrow> int \<Rightarrow> int" where
  "SetBitmapByGroup cpeBitmap groupId groupBitmap =
     (case map_of SupportedDocsBitMaskMap groupId of
        None \<Rightarrow> cpeBitmap
      | Some tuples \<Rightarrow> set_bits_loop cpeBitmap groupBitmap tuples)"

definition ParseFirmwareGroupBitarray :: "string \<Rightarrow> goerr + (int \<times> int)" where
  "ParseFirmwareGroupBitarray s =
     (case atoi s of
        None \<Rightarrow> Inl (NewError (ErrText ''strconv.Atoi''))
      | Some i \<Rightarrow> Inr (drop_bit 24 i, i AND (push_bit 24 1 - 1)))"

fun cpe_bitmap_loop :: "int \<Rightarrow> string list \<Rightarrow> goerr + int" where
  "cpe_bitmap_loop cpeBitmap [] = Inr cpeBitmap"
| "cpe_bitmap_loop cpeBitmap (sid # sids) =
     (case ParseFirmwareGroupBitarray sid of
        Inl err \<Rightarrow> Inl (NewError err)
      | Inr (groupId, groupBitmap) \<Rightarrow>
          cpe_bitmap_loop (SetBitmapByGroup cpeBitmap groupId groupBitmap) sids)"

text \<open>\<open>GetCpeBitmap\<close> returns 0 next to an error.\<close>

definition GetCpeBitmap :: "string \<Rightarrow> int \<times> goerr option" where
  "GetCpeBitmap rdkSupportedDocsHeaderStr =
     (case cpe_bitmap_loop 0 (go_split CHR '','' rdkSupportedDocsHeaderStr) of
        Inl err \<Rightarrow> (0, Some err)
      | Inr b \<Rightarrow> (b, None))"

section \<open>Reading the bitmap\<close>

definition IsSubdocSupported :: "int \<Rightarrow> string \<Rightarrow> bool" where
  "IsSubdocSupported cpeBitmap subdocId =
     (case map_of SubdocBitIndexMap subdocId of
        None \<Rightarrow> False
      | Some index \<Rightarrow> cpeBitmap AND push_bit (index - 1) 1 \<noteq> 0)"

definition GetSupportedMap :: "int \<Rightarrow> bool gomap" where
  "GetSupportedMap cpeBitmap =
     map (\<lambda>(k, index). (k, cpeBitmap AND push_bit (index - 1) 1 > 0)) SubdocBitIndexMap"

fun bitmap_sum :: "bool gomap \<Rightarrow> int \<Rightarrow> nat gomap \<Rightarrow> int" where
  "bitmap_sum srcMap bitmap [] = bitmap"
| "bitmap_sum srcMap bitmap ((k, index) # rest) =
     bitmap_sum srcMap (if gomap_get False srcMap k then bitmap + push_bit (index - 1) 1 else bitmap) rest"

definition GetBitmapFromSupportedMap :: "bool gomap \<Rightarrow> int" where
  "GetBitmapFromSupportedMap srcMap = bitmap_sum srcMap 0 SubdocBitIndexMap"

definition GetDefaultSupportedSubdocMap :: "bool gomap" where
  "GetDefaultSupportedSubdocMap = map (\<lambda>(k, _). (k, False)) SubdocBitIndexMap"

definition BuildSupportedSubdocMapWithDefaults :: "string list \<Rightarrow> bool gomap" where
  "BuildSupportedSubdocMapWithDefaults supportedSubdocIds =
     gomap_puts GetDefaultSupportedSubdocMap (map (\<lambda>s. (s, True)) supportedSubdocIds)"

section \<open>Facts\<close>

lemma bitmask_pos [simp]: "(0 < b AND (2 :: int) ^ n) = bit b n"
proof -
  have "0 \<le> b AND (2 :: int) ^ n" by simp
  then show ?thesis using and_exp_eq_0_iff_not_bit[of b n] by linarith
qed

lemma bitmask_zero [simp]: "(b AND (2 :: int) ^ n = 0) = (\<not> bit b n)"
  by (simp add: and_exp_eq_0_iff_not_bit)

lemma bit_or_exp [simp]: "bit (b OR (2 :: int) ^ n) k \<longleftrightarrow> bit b k \<or> k = n"
  by (auto simp: bit_or_iff bit_exp_iff)

lemma bit_set_bits_loop:
  "bit (set_bits_loop cpe grp ts) k \<longleftrightarrow>
     bit cpe k \<or> (\<exists>(g, c) \<in> set ts. bit grp (g - 1) \<and> k = c - 1)"
  by (induction cpe grp ts rule: set_bits_loop.induct) (auto simp: Let_def bit_or_exp)

lemma SubdocBitIndexMap_ok: "gomap_ok SubdocBitIndexMap"
  by (simp add: gomap_ok_def SubdocBitIndexMap_def)

lemma SubdocBitIndexMap_indexes: "map snd SubdocBitIndexMap = [1..<42]"
  by code_simp

lemma map_of_map_snd: "map_of (map (\<lambda>(k, v). (k, f v)) m) k = map_option f (map_of m k)"
  by (induction m) auto

lemma GetSupportedMap_lookup:
  "map_of (GetSupportedMap b) k =
     map_option (\<lambda>index. bit b (index - 1)) (map_of SubdocBitIndexMap k)"
proof -
  have "GetSupportedMap b = map (\<lambda>(k, index). (k, bit b (index - 1))) SubdocBitIndexMap"
    by (simp add: GetSupportedMap_def)
  then show ?thesis by (simp add: map_of_map_snd)
qed

lemma IsSubdocSupported_GetSupportedMap:
  "IsSubdocSupported b k = gomap_get False (GetSupportedMap b) k"
  by (auto simp: IsSubdocSupported_def gomap_get_def GetSupportedMap_lookup split: option.splits)

lemma int_lt_exp_of_bits: "0 \<le> (b :: int) \<Longrightarrow> (\<And>k. bit b k \<Longrightarrow> k < n) \<Longrightarrow> b < 2 ^ n"
proof -
  assume "0 \<le> b" and bits: "\<And>k. bit b k \<Longrightarrow> k < n"
  have "take_bit n b = b"
    by (rule bit_eqI) (auto simp: bit_take_bit_iff dest: bits)
  then show "b < 2 ^ n" by (metis take_bit_int_less_exp)
qed

lemma set_bits_loop_nonneg: "0 \<le> cpe \<Longrightarrow> 0 \<le> set_bits_loop cpe grp ts"
  by (induction cpe grp ts rule: set_bits_loop.induct) (simp add: Let_def)+

lemma SetBitmapByGroup_nonneg: "0 \<le> cpe \<Longrightarrow> 0 \<le> SetBitmapByGroup cpe gid grp"
  by (simp add: SetBitmapByGroup_def set_bits_loop_nonneg split: option.splits)

text \<open>The tuples a group contributes: empty for a group the table does not know.\<close>

definition group_tuples :: "int \<Rightarrow> (nat \<times> nat) list" where
  "group_tuples gid = (case map_of SupportedDocsBitMaskMap gid of None \<Rightarrow> [] | Some ts \<Rightarrow> ts)"

lemma bit_SetBitmapByGroup:
  "bit (SetBitmapByGroup cpe gid grp) k \<longleftrightarrow>
     bit cpe k \<or> (\<exists>(g, c) \<in> set (group_tuples gid). bit grp (g - 1) \<and> k = c - 1)"
  by (cases "map_of SupportedDocsBitMaskMap gid")
     (auto simp: SetBitmapByGroup_def group_tuples_def bit_set_bits_loop)

lemma SupportedDocs_cpe_bits:
  "\<forall>(gid, ts) \<in> set SupportedDocsBitMaskMap. \<forall>(g, c) \<in> set ts. 1 \<le> g \<and> g \<le> 24 \<and> 1 \<le> c \<and> c \<le> 41"
  by (simp add: SupportedDocsBitMaskMap_def)

lemma group_tuples_bits: "(g, c) \<in> set (group_tuples gid) \<Longrightarrow> 1 \<le> g \<and> g \<le> 24 \<and> 1 \<le> c \<and> c \<le> 41"
  using SupportedDocs_cpe_bits
  by (fastforce simp: group_tuples_def dest: map_of_SomeD split: option.splits)

text \<open>The device bits that one element of the header stands for.\<close>

definition sid_bits :: "string \<Rightarrow> nat set" where
  "sid_bits sid =
     (case ParseFirmwareGroupBitarray sid of
        Inl _ \<Rightarrow> {}
      | Inr (gid, grp) \<Rightarrow> {c - 1 | g c. (g, c) \<in> set (group_tuples gid) \<and> bit grp (g - 1)})"

lemma bit_cpe_bitmap_loop:
  "cpe_bitmap_loop cpe sids = Inr b \<Longrightarrow>
     bit b k \<longleftrightarrow> bit cpe k \<or> (\<exists>sid \<in> set sids. k \<in> sid_bits sid)"
proof (induction cpe sids rule: cpe_bitmap_loop.induct)
  case (1 cpe)
  then show ?case by simp
next
  case (2 cpe sid sids)
  from "2.prems" obtain gid grp where p: "ParseFirmwareGroupBitarray sid = Inr (gid, grp)"
    and r: "cpe_bitmap_loop (SetBitmapByGroup cpe gid grp) sids = Inr b"
    by (auto split: sum.splits)
  from "2.IH"[OF p refl r] show ?case
    by (auto simp: bit_SetBitmapByGroup sid_bits_def p)
qed

lemma cpe_bitmap_loop_error:
  "(\<exists>e. cpe_bitmap_loop cpe sids = Inl e) \<longleftrightarrow> (\<exists>sid \<in> set sids. atoi sid = None)"
  by (induction cpe sids rule: cpe_bitmap_loop.induct)
     (auto simp: ParseFirmwareGroupBitarray_def split: option.splits sum.splits)

lemma cpe_bitmap_loop_nonneg: "cpe_bitmap_loop cpe sids = Inr b \<Longrightarrow> 0 \<le> cpe \<Longrightarrow> 0 \<le> b"
  by (induction cpe sids rule: cpe_bitmap_loop.induct)
     (auto simp: SetBitmapByGroup_nonneg split: sum.splits)

lemma sid_bits_range: "k \<in> sid_bits sid \<Longrightarrow> k < 41"
  by (auto simp: sid_bits_def split: sum.splits prod.splits dest: group_tuples_bits)

lemma GetCpeBitmap_bit:
  "snd (GetCpeBitmap s) = None \<Longrightarrow>
     bit (fst (GetCpeBitmap s)) k \<longleftrightarrow> (\<exists>sid \<in> set (go_split CHR '','' s). k \<in> sid_bits sid)"
  by (auto simp: GetCpeBitmap_def bit_cpe_bitmap_loop split: sum.splits)

lemma GetCpeBitmap_error:
  "snd (GetCpeBitmap s) = None \<longleftrightarrow> (\<forall>sid \<in> set (go_split CHR '','' s). atoi sid \<noteq> None)"
  using cpe_bitmap_loop_error[of 0 "go_split CHR '','' s"] by (auto simp: GetCpeBitmap_def split: sum.splits)

lemma GetCpeBitmap_range: "0 \<le> fst (GetCpeBitmap s) \<and> fst (GetCpeBitmap s) < 2 ^ 41"
proof (cases "cpe_bitmap_loop 0 (go_split CHR '','' s)")
  case (Inl e)
  then show ?thesis by (simp add: GetCpeBitmap_def)
next
  case (Inr b)
  have "0 \<le> b" using cpe_bitmap_loop_nonneg[OF Inr] by simp
  moreover have "b < 2 ^ 41"
    by (rule int_lt_exp_of_bits[OF \<open>0 \<le> b\<close>])
       (auto simp: bit_cpe_bitmap_loop[OF Inr] dest: sid_bits_range)
  ultimately show ?thesis using Inr by (simp add: GetCpeBitmap_def)
qed

subsection \<open>The supported map and the bitmap\<close>

lemma add_fresh_bit: "\<not> bit (b :: int) n \<Longrightarrow> b + 2 ^ n = b OR 2 ^ n"
  by (rule disjunctive_add_eq_or) simp

lemma bit_bitmap_sum:
  "distinct (map snd ms) \<Longrightarrow> (\<forall>(key, i) \<in> set ms. 1 \<le> i \<and> \<not> bit b (i - 1)) \<Longrightarrow>
   bit (bitmap_sum m b ms) k \<longleftrightarrow>
     bit b k \<or> (\<exists>(key, i) \<in> set ms. gomap_get False m key \<and> k = i - 1)"
proof (induction m b ms rule: bitmap_sum.induct)
  case (1 m b)
  then show ?case by simp
next
  case (2 m b key i rest)
  let ?b = "if gomap_get False m key then b + push_bit (i - 1) 1 else b"
  have b': "bit ?b j \<longleftrightarrow> bit b j \<or> (gomap_get False m key \<and> j = i - 1)" for j
    using "2.prems"(2) by (simp add: add_fresh_bit)
  have "\<forall>(key', i') \<in> set rest. 1 \<le> i' \<and> \<not> bit ?b (i' - 1)"
  proof (rule ballI, clarify, intro conjI)
    fix key' i' assume m': "(key', i') \<in> set rest"
    then have "i' \<in> snd ` set rest" by force
    then have "i' \<noteq> i" using "2.prems"(1) by auto
    moreover show "1 \<le> i'" using m' "2.prems"(2) by auto
    moreover have "1 \<le> i" "\<not> bit b (i' - 1)" using m' "2.prems"(2) by auto
    ultimately show "\<not> bit ?b (i' - 1)" unfolding b' by linarith
  qed
  moreover have "distinct (map snd rest)" using "2.prems"(1) by simp
  ultimately have "bit (bitmap_sum m ?b rest) k \<longleftrightarrow>
      bit ?b k \<or> (\<exists>(key, i) \<in> set rest. gomap_get False m key \<and> k = i - 1)"
    using "2.IH" by blast
  then show ?case unfolding bitmap_sum.simps b' by auto
qed

lemma bitmap_sum_nonneg: "0 \<le> b \<Longrightarrow> 0 \<le> bitmap_sum m b ms"
  by (induction m b ms rule: bitmap_sum.induct) (simp add: push_bit_nonnegative_int_iff)+

lemma SubdocBitIndexMap_distinct: "distinct (map snd SubdocBitIndexMap)"
  by (simp add: SubdocBitIndexMap_indexes)

lemma SubdocBitIndexMap_index: "(k, i) \<in> set SubdocBitIndexMap \<Longrightarrow> 1 \<le> i \<and> i < 42"
proof -
  assume "(k, i) \<in> set SubdocBitIndexMap"
  then have "i \<in> set (map snd SubdocBitIndexMap)" by force
  then show ?thesis by (simp add: SubdocBitIndexMap_indexes)
qed

lemma bit_GetBitmapFromSupportedMap:
  "bit (GetBitmapFromSupportedMap m) k \<longleftrightarrow>
     (\<exists>(key, i) \<in> set SubdocBitIndexMap. gomap_get False m key \<and> k = i - 1)"
proof -
  have "\<forall>(key, i) \<in> set SubdocBitIndexMap. 1 \<le> i \<and> \<not> bit (0 :: int) (i - 1)"
    by (auto dest: SubdocBitIndexMap_index)
  from bit_bitmap_sum[OF SubdocBitIndexMap_distinct this]
  show ?thesis by (simp add: GetBitmapFromSupportedMap_def)
qed

lemma SubdocBitIndexMap_inj:
  "(k, i) \<in> set SubdocBitIndexMap \<Longrightarrow> (k', i) \<in> set SubdocBitIndexMap \<Longrightarrow> k = k'"
  using SubdocBitIndexMap_distinct
  by (metis (mono_tags, lifting) distinct_map inj_onD prod.inject snd_conv)

lemma supported_map_round_trip:
  assumes "map_of SubdocBitIndexMap k = Some i"
  shows "map_of (GetSupportedMap (GetBitmapFromSupportedMap m)) k = Some (gomap_get False m k)"
proof -
  have ki: "(k, i) \<in> set SubdocBitIndexMap" using assms by (rule map_of_SomeD)
  have "bit (GetBitmapFromSupportedMap m) (i - 1) \<longleftrightarrow> gomap_get False m k"
  proof
    assume "bit (GetBitmapFromSupportedMap m) (i - 1)"
    then obtain key j where j: "(key, j) \<in> set SubdocBitIndexMap" "gomap_get False m key" "i - 1 = j - 1"
      unfolding bit_GetBitmapFromSupportedMap by auto
    then have "i = j" using SubdocBitIndexMap_index[OF ki] SubdocBitIndexMap_index[OF j(1)] by linarith
    then show "gomap_get False m k" using j ki SubdocBitIndexMap_inj by blast
  next
    assume "gomap_get False m k"
    then show "bit (GetBitmapFromSupportedMap m) (i - 1)"
      using ki unfolding bit_GetBitmapFromSupportedMap by auto
  qed
  then show ?thesis by (simp add: GetSupportedMap_lookup assms)
qed

lemma SubdocBitIndexMap_onto: "k < 41 \<Longrightarrow> \<exists>key. (key, Suc k) \<in> set SubdocBitIndexMap"
proof -
  assume "k < 41"
  then have "Suc k \<in> set (map snd SubdocBitIndexMap)" by (simp add: SubdocBitIndexMap_indexes)
  then show ?thesis by auto
qed

lemma bitmap_round_trip:
  assumes "0 \<le> b" "b < 2 ^ 41"
  shows "GetBitmapFromSupportedMap (GetSupportedMap b) = b"
proof (rule bit_eqI)
  fix n
  have lookup: "gomap_get False (GetSupportedMap b) key = bit b (i - 1)"
    if "(key, i) \<in> set SubdocBitIndexMap" for key i
    using that SubdocBitIndexMap_ok by (simp add: gomap_get_def GetSupportedMap_lookup gomap_in_set)
  have small: "bit b n \<Longrightarrow> n < 41"
    using assms by (metis bit_take_bit_iff take_bit_int_eq_self)
  have "bit (GetBitmapFromSupportedMap (GetSupportedMap b)) n \<longleftrightarrow>
      (\<exists>(key, i) \<in> set SubdocBitIndexMap. bit b (i - 1) \<and> n = i - 1)"
    unfolding bit_GetBitmapFromSupportedMap using lookup by auto
  also have "\<dots> \<longleftrightarrow> bit b n"
  proof
    assume "bit b n"
    then obtain key where "(key, Suc n) \<in> set SubdocBitIndexMap"
      using small SubdocBitIndexMap_onto by blast
    then show "\<exists>(key, i) \<in> set SubdocBitIndexMap. bit b (i - 1) \<and> n = i - 1"
      using \<open>bit b n\<close> by force
  qed auto
  finally show "bit (GetBitmapFromSupportedMap (GetSupportedMap b)) n = bit b n" .
qed

end
