(* ===== verification/Writer.thy ===== *)
theory Writer
  imports GoErrors
begin

text \<open>
  common/writer.go and the \<open>Multipart\<close> struct of common/struct.go: the multipart body the
  server sends, as the writer of package mime/multipart produces it (parts separated by the
  boundary, part headers in key order).
\<close>

record multipart =
  mp_bytes :: bytes
  mp_version :: string
  mp_name :: string
  mp_state :: int

definition CRLF :: string where
  "CRLF = [char_of (13 :: nat), char_of (10 :: nat)]"

definition Boundary :: string where
  "Boundary = ''2xKIxjfJuErFW+hmNCwEoMoY8I+ECM9efrV6EI4efSSW9QjI''"

definition MultipartContentType :: string where
  "MultipartContentType = ''multipart/mixed; boundary='' @ Boundary"

definition part_header :: "multipart \<Rightarrow> string" where
  "part_header m =
     ''Content-Type: application/msgpack'' @ CRLF
     @ ''Etag: '' @ mp_version m @ CRLF
     @ ''Namespace: '' @ mp_name m @ CRLF
     @ CRLF"

text \<open>\<open>CreatePart\<close> starts every part but the first on a new line.\<close>

fun write_parts :: "bool \<Rightarrow> multipart list \<Rightarrow> bytes" where
  "write_parts first [] = []"
| "write_parts first (m # ms) =
     (if first then [] else CRLF) @ ''--'' @ Boundary @ CRLF @ part_header m @ mp_bytes m
     @ write_parts False ms"

definition WriteMultipartBytes :: "multipart list \<Rightarrow> bytes" where
  "WriteMultipartBytes mparts = write_parts True mparts @ CRLF @ ''--'' @ Boundary @ ''--'' @ CRLF"

lemma WriteMultipartBytes_nonempty [simp]: "WriteMultipartBytes ms \<noteq> []"
  by (simp add: WriteMultipartBytes_def CRLF_def)

end
