(* ===== verification/Document.thy ===== *)
theory Document
  imports SubDocument RootDocument Bitmap Writer
begin

text \<open>
  common/document.go: the set of sub-documents of one device together with its root
  document, and the filters that decide what is sent to the device.
\<close>

record document =
  docmap :: "subdoc gomap"
  rootDocument :: "rootdoc option"

definition NewDocument :: "rootdoc option \<Rightarrow> document" where
  "NewDocument root = \<lparr>docmap = [], rootDocument = root\<rparr>"

definition SetSubDocument :: "document \<Rightarrow> string \<Rightarrow> subdoc \<Rightarrow> document" where
  "SetSubDocument d groupId subdoc = d\<lparr>docmap := gomap_put groupId subdoc (docmap d)\<rparr>"

fun SetSubDocuments :: "document \<Rightarrow> multipart list \<Rightarrow> document" where
  "SetSubDocuments d [] = d"
| "SetSubDocuments d (mpart # mparts) =
     SetSubDocuments
       (SetSubDocument d (mp_name mpart)
          (NewSubDocument (Some (mp_bytes mpart)) (Some (mp_version mpart)) None None None None))
       mparts"

definition doc_SubDocument :: "document \<Rightarrow> string \<Rightarrow> subdoc option" where
  "doc_SubDocument d subdocId = map_of (docmap d) subdocId"

definition doc_DeleteSubDocument :: "document \<Rightarrow> string \<Rightarrow> document" where
  "doc_DeleteSubDocument d groupId = d\<lparr>docmap := gomap_del groupId (docmap d)\<rparr>"

text \<open>\<open>range\<close> over the map, keeping the entries whose pointer field is set.\<close>

fun version_loop :: "string gomap \<Rightarrow> subdoc gomap \<Rightarrow> string gomap" where
  "version_loop vm [] = vm"
| "version_loop vm ((k, doc) # m) =
     version_loop (case sd_version doc of Some v \<Rightarrow> gomap_put k v vm | None \<Rightarrow> vm) m"

definition VersionMap :: "document \<Rightarrow> string gomap" where
  "VersionMap d = version_loop [] (docmap d)"

fun state_loop :: "int gomap \<Rightarrow> subdoc gomap \<Rightarrow> int gomap" where
  "state_loop sm [] = sm"
| "state_loop sm ((k, doc) # m) =
     state_loop (case sd_state doc of Some v \<Rightarrow> gomap_put k v sm | None \<Rightarrow> sm) m"

definition StateMap :: "document \<Rightarrow> int gomap" where
  "StateMap d = state_loop [] (docmap d)"

definition doc_Length :: "document \<Rightarrow> nat" where
  "doc_Length d = length (docmap d)"

definition SetRootDoc :: "document \<Rightarrow> rootdoc option \<Rightarrow> document" where
  "SetRootDoc d root = d\<lparr>rootDocument := root\<rparr>"

definition RootVersion :: "document \<Rightarrow> string" where
  "RootVersion d = (case rootDocument d of None \<Rightarrow> '''' | Some r \<Rightarrow> rd_version r)"

text \<open>The loop shared by the three filters: copy the entries that satisfy a test.\<close>

fun filter_loop :: "(string \<Rightarrow> subdoc \<Rightarrow> bool) \<Rightarrow> document \<Rightarrow> subdoc gomap \<Rightarrow> document" where
  "filter_loop P newdoc [] = newdoc"
| "filter_loop P newdoc ((subdocId, subDocument) # m) =
     filter_loop P (if P subdocId subDocument then SetSubDocument newdoc subdocId subDocument else newdoc) m"

definition FilterForMqttSend :: "document \<Rightarrow> document" where
  "FilterForMqttSend d =
     filter_loop (\<lambda>_ subDocument. case sd_state subDocument of None \<Rightarrow> False | Some state \<Rightarrow> state > Deployed)
       (NewDocument (rootDocument d)) (docmap d)"

definition FilterForGet :: "document \<Rightarrow> string gomap \<Rightarrow> document" where
  "FilterForGet d versionMap =
     (let newdoc = NewDocument (rootDocument d);
          deviceRootVersion = gomap_get '''' versionMap ''root''
      in if length deviceRootVersion > 0 \<and> deviceRootVersion = RootVersion d then newdoc
         else filter_loop
           (\<lambda>subdocId subDocument. case sd_version subDocument of
                None \<Rightarrow> False
              | Some version \<Rightarrow> version \<noteq> gomap_get '''' versionMap subdocId)
           newdoc (docmap d))"

definition FilterByBitmap :: "document \<Rightarrow> string list \<Rightarrow> document" where
  "FilterByBitmap d alwaysTrueSubdocIds =
     (case rootDocument d of
        None \<Rightarrow> d
      | Some rootdoc \<Rightarrow>
          (let supportedMap =
             gomap_puts (GetSupportedMap (rd_bitmap rootdoc)) (map (\<lambda>sid. (sid, True)) alwaysTrueSubdocIds)
           in filter_loop (\<lambda>subdocId _. gomap_get False supportedMap subdocId)
                (NewDocument (Some rootdoc)) (docmap d)))"

text \<open>
  \<open>Bytes\<close> dereferences the version of every sub-document: a nil version panics. An empty
  document has nil bytes.
\<close>

fun doc_mparts :: "subdoc gomap \<Rightarrow> multipart list option" where
  "doc_mparts [] = Some []"
| "doc_mparts ((subdocId, subdoc) # m) =
     (case sd_version subdoc of
        None \<Rightarrow> None
      | Some v \<Rightarrow> map_option
          ((#) \<lparr>mp_bytes = payload_bytes (sd_payload subdoc), mp_version = v, mp_name = subdocId, mp_state = 0\<rparr>)
          (doc_mparts m))"

definition doc_Bytes :: "document \<Rightarrow> bytes option result" where
  "doc_Bytes d =
     (if length (docmap d) = 0 then Ok None
      else (case doc_mparts (docmap d) of
          None \<Rightarrow> Panic
        | Some mparts \<Rightarrow> Ok (Some (WriteMultipartBytes mparts))))"

section \<open>Facts\<close>

definition doc_ok :: "document \<Rightarrow> bool" where
  "doc_ok d \<longleftrightarrow> gomap_ok (docmap d)"

lemma NewDocument_sel [simp]: "docmap (NewDocument r) = []" "rootDocument (NewDocument r) = r"
  by (simp_all add: NewDocument_def)

lemma doc_ok_New [simp]: "doc_ok (NewDocument r)"
  by (simp add: doc_ok_def)

lemma SetSubDocument_sel [simp]:
  "docmap (SetSubDocument d k s) = gomap_put k s (docmap d)"
  "rootDocument (SetSubDocument d k s) = rootDocument d"
  by (simp_all add: SetSubDocument_def)

lemma doc_Delete_sel [simp]:
  "docmap (doc_DeleteSubDocument d k) = gomap_del k (docmap d)"
  "rootDocument (doc_DeleteSubDocument d k) = rootDocument d"
  by (simp_all add: doc_DeleteSubDocument_def)

lemma SetRootDoc_sel [simp]:
  "docmap (SetRootDoc d r) = docmap d" "rootDocument (SetRootDoc d r) = r"
  by (simp_all add: SetRootDoc_def)

lemma doc_ok_set [simp]: "doc_ok d \<Longrightarrow> doc_ok (SetSubDocument d k s)"
  and doc_ok_del [simp]: "doc_ok d \<Longrightarrow> doc_ok (doc_DeleteSubDocument d k)"
  and doc_ok_root [simp]: "doc_ok (SetRootDoc d r) = doc_ok d"
  by (simp_all add: doc_ok_def)

lemma RootVersion_SetRootDoc [simp]:
  "RootVersion (SetRootDoc d r) = (case r of None \<Rightarrow> '''' | Some x \<Rightarrow> rd_version x)"
  by (simp add: RootVersion_def)

lemma filter_loop_eq:
  assumes "gomap_ok m" "fst ` set (docmap nd) \<inter> fst ` set m = {}"
  shows "filter_loop P nd m = nd\<lparr>docmap := docmap nd @ filter (\<lambda>(k, s). P k s) m\<rparr>"
  using assms
proof (induction P nd m rule: filter_loop.induct)
  case (1 P nd)
  then show ?case by simp
next
  case (2 P nd k s m)
  then have fresh: "k \<notin> fst ` set (docmap nd)" by auto
  show ?case
  proof (cases "P k s")
    case True
    with 2 fresh have "filter_loop P (SetSubDocument nd k s) m =
        (SetSubDocument nd k s)\<lparr>docmap := docmap (SetSubDocument nd k s) @ filter (\<lambda>(k, s). P k s) m\<rparr>"
      by (auto simp: gomap_put_fresh)
    with True fresh show ?thesis
      by (simp add: SetSubDocument_def gomap_put_fresh)
  next
    case False
    with 2 show ?thesis by auto
  qed
qed

lemma filter_loop_New:
  "gomap_ok m \<Longrightarrow> filter_loop P (NewDocument r) m = \<lparr>docmap = filter (\<lambda>(k, s). P k s) m, rootDocument = r\<rparr>"
  by (simp add: filter_loop_eq NewDocument_def)

lemma filter_loop_root [simp]: "rootDocument (filter_loop P nd m) = rootDocument nd"
  by (induction P nd m rule: filter_loop.induct) auto

lemma filter_loop_ok: "doc_ok nd \<Longrightarrow> doc_ok (filter_loop P nd m)"
  by (induction P nd m rule: filter_loop.induct) auto

text \<open>The test of \<open>FilterForGet\<close>: what the device does not have in this version.\<close>

definition device_lacks :: "string gomap \<Rightarrow> string \<Rightarrow> subdoc \<Rightarrow> bool" where
  "device_lacks versionMap k s \<longleftrightarrow>
     (\<exists>v. sd_version s = Some v \<and> v \<noteq> gomap_get '''' versionMap k)"

definition root_current :: "document \<Rightarrow> string gomap \<Rightarrow> bool" where
  "root_current d versionMap \<longleftrightarrow>
     gomap_get '''' versionMap ''root'' \<noteq> '''' \<and> gomap_get '''' versionMap ''root'' = RootVersion d"

lemma FilterForGet_docmap:
  assumes "doc_ok d"
  shows "docmap (FilterForGet d vm) =
    (if root_current d vm then [] else filter (\<lambda>(k, s). device_lacks vm k s) (docmap d))"
proof -
  have "(case sd_version s of None \<Rightarrow> False | Some v \<Rightarrow> v \<noteq> gomap_get '''' vm k) = device_lacks vm k s" for k s
    by (auto simp: device_lacks_def split: option.splits)
  then show ?thesis using assms
    by (auto simp: FilterForGet_def root_current_def filter_loop_New doc_ok_def)
qed

lemma FilterForGet_root [simp]: "rootDocument (FilterForGet d vm) = rootDocument d"
  by (simp add: FilterForGet_def Let_def)

lemma FilterForGet_ok: "doc_ok (FilterForGet d vm)"
  by (simp add: FilterForGet_def Let_def filter_loop_ok)

lemma FilterForMqttSend_docmap:
  "doc_ok d \<Longrightarrow> docmap (FilterForMqttSend d) =
     filter (\<lambda>(k, s). \<exists>st. sd_state s = Some st \<and> st > 1) (docmap d)"
  by (auto simp: FilterForMqttSend_def filter_loop_New doc_ok_def intro!: filter_cong split: option.splits)

lemma FilterForMqttSend_root [simp]: "rootDocument (FilterForMqttSend d) = rootDocument d"
  by (simp add: FilterForMqttSend_def)

lemma FilterForMqttSend_ok: "doc_ok (FilterForMqttSend d)"
  by (simp add: FilterForMqttSend_def filter_loop_ok)

lemma map_of_all_True: "map_of (map (\<lambda>sid. (sid, True)) xs) k = (if k \<in> set xs then Some True else None)"
  by (induction xs) auto

lemma supported_with_exempt:
  "gomap_get False (gomap_puts (GetSupportedMap b) (map (\<lambda>sid. (sid, True)) xs)) k \<longleftrightarrow>
     k \<in> set xs \<or> IsSubdocSupported b k"
  by (auto simp: IsSubdocSupported_GetSupportedMap gomap_get_def map_of_gomap_puts
      map_of_all_True rev_map map_add_def split: option.splits)

lemma FilterByBitmap_docmap:
  "doc_ok d \<Longrightarrow> docmap (FilterByBitmap d exempt) =
     (case rootDocument d of
        None \<Rightarrow> docmap d
      | Some r \<Rightarrow> filter (\<lambda>(k, s). k \<in> set exempt \<or> IsSubdocSupported (rd_bitmap r) k) (docmap d))"
  by (auto simp: FilterByBitmap_def filter_loop_New doc_ok_def supported_with_exempt split: option.splits)

lemma FilterByBitmap_root [simp]: "rootDocument (FilterByBitmap d exempt) = rootDocument d"
  by (simp add: FilterByBitmap_def split: option.splits)

lemma FilterByBitmap_ok: "doc_ok d \<Longrightarrow> doc_ok (FilterByBitmap d exempt)"
  by (simp add: FilterByBitmap_def filter_loop_ok Let_def split: option.splits)

lemma version_loop_ok: "gomap_ok vm \<Longrightarrow> gomap_ok (version_loop vm m)"
  by (induction vm m rule: version_loop.induct) (auto split: option.splits)

lemma VersionMap_ok: "gomap_ok (VersionMap d)"
  by (simp add: VersionMap_def version_loop_ok)

lemma map_of_version_loop:
  "gomap_ok m \<Longrightarrow> map_of (version_loop vm m) k =
     (case map_of m k of
        None \<Rightarrow> map_of vm k
      | Some s \<Rightarrow> (case sd_version s of None \<Rightarrow> map_of vm k | Some v \<Rightarrow> Some v))"
proof (induction vm m rule: version_loop.induct)
  case (1 vm)
  then show ?case by simp
next
  case (2 vm k' s m)
  have "map_of m k' = None" using 2 by (simp add: map_of_eq_None_iff)
  then show ?case using 2 by (auto split: option.splits)
qed

lemma map_of_VersionMap:
  "doc_ok d \<Longrightarrow> map_of (VersionMap d) k = Option.bind (map_of (docmap d) k) sd_version"
  by (auto simp: VersionMap_def map_of_version_loop doc_ok_def split: option.splits)

lemma state_loop_ok: "gomap_ok sm \<Longrightarrow> gomap_ok (state_loop sm m)"
  by (induction sm m rule: state_loop.induct) (auto split: option.splits)

lemma StateMap_ok: "gomap_ok (StateMap d)"
  by (simp add: StateMap_def state_loop_ok)

lemma map_of_state_loop:
  "gomap_ok m \<Longrightarrow> map_of (state_loop sm m) k =
     (case map_of m k of
        None \<Rightarrow> map_of sm k
      | Some s \<Rightarrow> (case sd_state s of None \<Rightarrow> map_of sm k | Some v \<Rightarrow> Some v))"
proof (induction sm m rule: state_loop.induct)
  case (1 sm)
  then show ?case by simp
next
  case (2 sm k' s m)
  have "map_of m k' = None" using 2 by (simp add: map_of_eq_None_iff)
  then show ?case using 2 by (auto split: option.splits)
qed

lemma map_of_StateMap:
  "doc_ok d \<Longrightarrow> map_of (StateMap d) k = Option.bind (map_of (docmap d) k) sd_state"
  by (auto simp: StateMap_def map_of_state_loop doc_ok_def split: option.splits)

lemma doc_mparts_names: "doc_mparts m = Some ps \<Longrightarrow> map mp_name ps = map fst m"
  by (induction m arbitrary: ps rule: doc_mparts.induct) (auto split: option.splits)

lemma doc_mparts_None: "doc_mparts m = None \<longleftrightarrow> (\<exists>(k, s) \<in> set m. sd_version s = None)"
  by (induction m rule: doc_mparts.induct) (auto split: option.splits)

lemma doc_Bytes_panic_iff: "doc_Bytes d = Panic \<longleftrightarrow> (\<exists>(k, s) \<in> set (docmap d). sd_version s = None)"
  by (auto simp: doc_Bytes_def doc_mparts_None[symmetric] split: option.splits)

lemma SetSubDocuments_ok: "doc_ok d \<Longrightarrow> doc_ok (SetSubDocuments d ms)"
  by (induction d ms rule: SetSubDocuments.induct) auto

lemma SetSubDocuments_root [simp]: "rootDocument (SetSubDocuments d ms) = rootDocument d"
  by (induction d ms rule: SetSubDocuments.induct) auto

lemma map_of_SetSubDocuments:
  "map_of (docmap (SetSubDocuments d ms)) k =
     (case find (\<lambda>m. mp_name m = k) (rev ms) of
        None \<Rightarrow> map_of (docmap d) k
      | Some m \<Rightarrow> Some (NewSubDocument (Some (mp_bytes m)) (Some (mp_version m)) None None None None))"
proof (induction d ms rule: SetSubDocuments.induct)
  case (1 d)
  then show ?case by simp
next
  case (2 d m ms)
  have "find P (xs @ [y]) = (case find P xs of None \<Rightarrow> (if P y then Some y else None) | Some z \<Rightarrow> Some z)"
    for P :: "multipart \<Rightarrow> bool" and xs y
    by (induction xs) auto
  then show ?case using 2 by (auto split: option.splits)
qed

end
