(* ===== verification/EventMessage.thy ===== *)
theory EventMessage
  imports GoErrors
begin

text \<open>common/event_message.go: the reports devices send about applied configurations.\<close>

record statereport =
  sr_url :: string
  sr_http_status_code :: int
  sr_request_timestamp :: int
  sr_version :: string
  sr_transaction_uuid :: string

record eventmessage =
  em_namespace :: "string option"
  em_application_status :: "string option"
  em_error_code :: "int option"
  em_error_details :: "string option"
  em_device_id :: string
  em_http_status_code :: "int option"
  em_transaction_uuid :: "string option"
  em_version :: "string option"
  em_reports :: "statereport list"
  em_metrics_agent :: "string option"

definition empty_event :: eventmessage where
  "empty_event = \<lparr>em_namespace = None, em_application_status = None, em_error_code = None,
     em_error_details = None, em_device_id = '''', em_http_status_code = None,
     em_transaction_uuid = None, em_version = None, em_reports = [], em_metrics_agent = None\<rparr>"

definition getCpeMac :: "eventmessage \<Rightarrow> string" where
  "getCpeMac m =
     (if length (em_device_id m) = 16 \<and> take 4 (em_device_id m) = ''mac:''
      then to_upper (drop 4 (em_device_id m)) else '''')"

definition event_Validate :: "eventmessage \<Rightarrow> bool \<Rightarrow> string \<times> goerr option" where
  "event_Validate m checkDeviceId =
     (let cpeMac = (if checkDeviceId then getCpeMac m else '''')
      in if checkDeviceId \<and> length cpeMac = 0
         then (cpeMac, Some (ErrText ''event without a valid device_id''))
         else if em_http_status_code m \<noteq> None then (cpeMac, None)
         else if length (em_reports m) > 0 then (cpeMac, None)
         else if em_namespace m \<noteq> None \<and> em_application_status m \<noteq> None then (cpeMac, None)
         else (cpeMac, Some (ErrText ''ill-formatted event'')))"

definition EventName :: "eventmessage \<Rightarrow> string" where
  "EventName m =
     (if length (em_reports m) > 0 then ''config-version-report''
      else if em_http_status_code m \<noteq> None then ''rootdoc-report''
      else if em_application_status m \<noteq> None then ''subdoc-report''
      else ''unknown'')"

lemma getCpeMac_length: "getCpeMac m = '''' \<or> length (getCpeMac m) = 12"
  by (simp add: getCpeMac_def)

lemma event_Validate_ok:
  "snd (event_Validate m True) = None \<longleftrightarrow>
     length (em_device_id m) = 16 \<and> take 4 (em_device_id m) = ''mac:'' \<and>
     (em_http_status_code m \<noteq> None \<or> em_reports m \<noteq> []
      \<or> em_namespace m \<noteq> None \<and> em_application_status m \<noteq> None)"
  by (auto simp: event_Validate_def getCpeMac_def to_upper_def Let_def)

lemma event_Validate_mac: "fst (event_Validate m True) = getCpeMac m"
  by (simp add: event_Validate_def Let_def)

end
