(* ===== verification/Headers.thy ===== *)
theory Headers
  imports GoErrors
begin

text \<open>
  http.Header as the program uses it, common/req_header.go, the string-valued part of
  util/dict.go and the header names of common/const_var.go that carry meaning.
\<close>

type_synonym header = "string list gomap"

text \<open>
  \<open>CanonicalHeaderKey\<close> of package net/textproto: a key made of token bytes is written with
  an upper-case letter at the start and after each hyphen; any other key is kept.
\<close>

definition is_token_char :: "char \<Rightarrow> bool" where
  "is_token_char c =
     (let n = of_char c :: nat in
        (48 \<le> n \<and> n \<le> 57) \<or> (65 \<le> n \<and> n \<le> 90) \<or> (97 \<le> n \<and> n \<le> 122)
        \<or> n \<in> {33, 35, 36, 37, 38, 39, 42, 43, 45, 46, 94, 95, 96, 124, 126})"

fun canon_loop :: "bool \<Rightarrow> string \<Rightarrow> string" where
  "canon_loop upper [] = []"
| "canon_loop upper (c # cs) =
     (let c' = (if upper then char_upper c else char_lower c) in c' # canon_loop (c' = CHR ''-'') cs)"

definition CanonicalHeaderKey :: "string \<Rightarrow> string" where
  "CanonicalHeaderKey k = (if list_all is_token_char k then canon_loop True k else k)"

definition hget :: "header \<Rightarrow> string \<Rightarrow> string" where
  "hget h k = (case gomap_get [] h (CanonicalHeaderKey k) of [] \<Rightarrow> '''' | v # _ \<Rightarrow> v)"

definition hset :: "header \<Rightarrow> string \<Rightarrow> string \<Rightarrow> header" where
  "hset h k v = gomap_put (CanonicalHeaderKey k) [v] h"

definition hadd :: "header \<Rightarrow> string \<Rightarrow> string \<Rightarrow> header" where
  "hadd h k v = gomap_put (CanonicalHeaderKey k) (gomap_get [] h (CanonicalHeaderKey k) @ [v]) h"

definition HeaderSupportedDocs :: string where "HeaderSupportedDocs = ''X-System-Supported-Docs''"
definition HeaderSchemaVersion :: string where "HeaderSchemaVersion = ''X-System-Schema-Version''"
definition HeaderModelName :: string where "HeaderModelName = ''X-System-Model-Name''"
definition HeaderPartnerID :: string where "HeaderPartnerID = ''X-System-PartnerID''"
definition HeaderFirmwareVersion :: string where "HeaderFirmwareVersion = ''X-System-Firmware-Version''"
definition HeaderProductClass :: string where "HeaderProductClass = ''X-System-Product-Class''"
definition HeaderAccountType :: string where "HeaderAccountType = ''X-System-Type''"
definition HeaderDeviceId :: string where "HeaderDeviceId = ''Device-Id''"
definition HeaderDocName :: string where "HeaderDocName = ''Doc-Name''"
definition HeaderIfNoneMatch :: string where "HeaderIfNoneMatch = ''If-None-Match''"

section \<open>ReqHeader\<close>

fun IsPrintable :: "bytes \<Rightarrow> bool" where
  "IsPrintable [] = True"
| "IsPrintable (c # cs) =
     (if (of_char c :: nat) < 32 \<or> (of_char c :: nat) > 126 then False else IsPrintable cs)"

text \<open>
  \<open>ReqHeader.Get\<close> discards a value with non-printable bytes: it returns the empty string and
  an error, which every caller logs and ignores.
\<close>

definition rheader_Get :: "header \<Rightarrow> string \<Rightarrow> string \<times> goerr option" where
  "rheader_Get h k =
     (let v = hget h k in
        if \<not> IsPrintable v
        then ('''', Some (ErrText (''header '' @ k @ '' contains non-printable characters and was discarded'')))
        else (v, None))"

section \<open>Fields\<close>

text \<open>
  The audit fields of a request are a map to dynamically typed values. Only the reads that
  steer the program are modelled; the writes made for the logs are not.
\<close>

datatype itf = IStr string | IInt int | IBool bool | IOther

type_synonym fields = "itf gomap"

definition dict_GetString :: "fields \<Rightarrow> string \<Rightarrow> string \<Rightarrow> string" where
  "dict_GetString d key dflt =
     (case map_of d key of Some (IStr x) \<Rightarrow> x | _ \<Rightarrow> dflt)"

section \<open>Facts\<close>

lemma hget_hset [simp]:
  "hget (hset h k v) k' = (if CanonicalHeaderKey k' = CanonicalHeaderKey k then v else hget h k')"
  by (simp add: hget_def hset_def)

lemma IsPrintable_iff: "IsPrintable s \<longleftrightarrow> (\<forall>c \<in> set s. 32 \<le> (of_char c :: nat) \<and> (of_char c :: nat) \<le> 126)"
  by (induction s rule: IsPrintable.induct) auto

lemma rheader_Get_printable: "IsPrintable (fst (rheader_Get h k))"
  by (simp add: rheader_Get_def Let_def)

lemma rheader_Get_value:
  "fst (rheader_Get h k) = (if IsPrintable (hget h k) then hget h k else '''')"
  by (simp add: rheader_Get_def Let_def)

end
