(* ===== verification/DbClient.thy ===== *)
theory DbClient
  imports Document EventMessage Headers
begin

text \<open>
  db/database_client.go: the interface between the services and the two database clients. A
  client is a record of operations over its own state, as a Go interface value is a table of
  methods; the services take it as an argument. The locales state what the services rely on.
\<close>

text \<open>Prometheus labels are a string map; \<open>SetSubDocument\<close> adds the feature label to them.\<close>

type_synonym labels = "string gomap"

record 's db_client =
  db_GetSubDocument :: "string \<Rightarrow> string \<Rightarrow> ('s, subdoc) prog"
  db_SetSubDocument :: "string \<Rightarrow> string \<Rightarrow> subdoc \<Rightarrow> int \<Rightarrow> labels \<Rightarrow> ('s, unit) prog"
  db_DeleteSubDocument :: "string \<Rightarrow> string \<Rightarrow> ('s, unit) prog"
  db_DeleteSubDocumentColumns :: "string \<Rightarrow> string \<Rightarrow> string list \<Rightarrow> ('s, unit) prog"
  db_GetDocument :: "string \<Rightarrow> bool \<Rightarrow> ('s, document option \<times> goerr option) prog"
  db_DeleteDocument :: "string \<Rightarrow> ('s, unit) prog"
  db_GetRootDocument :: "string \<Rightarrow> ('s, rootdoc) prog"
  db_SetRootDocument :: "string \<Rightarrow> rootdoc \<Rightarrow> ('s, unit) prog"
  db_DeleteRootDocument :: "string \<Rightarrow> ('s, unit) prog"
  db_SetRootDocumentVersion :: "string \<Rightarrow> string \<Rightarrow> ('s, unit) prog"
  db_SetRootDocumentBitmap :: "string \<Rightarrow> int \<Rightarrow> ('s, unit) prog"
  db_DeleteRootDocumentVersion :: "string \<Rightarrow> ('s, unit) prog"
  db_GetRootDocumentLabels :: "string \<Rightarrow> ('s, labels) prog"
  db_IsDbNotFound :: "goerr \<Rightarrow> bool"
  db_GetRefSubDocument :: "string \<Rightarrow> ('s, refsubdoc) prog"
  db_SetRefSubDocument :: "string \<Rightarrow> refsubdoc \<Rightarrow> ('s, unit) prog"
  db_DeleteRefSubDocument :: "string \<Rightarrow> ('s, unit) prog"
  db_BlockedSubdocIds :: "string list"
  db_StateCorrectionEnabled :: bool
  db_LockRootDocumentEnabled :: bool
  db_SupplementaryPrecookEnabled :: bool
  db_SupplementaryPrecookStateTTLDays :: int

section \<open>The contracts\<close>

text \<open>
  \<open>db_frame\<close>: an operation on one device leaves everything stored for the other devices
  alone, whatever its outcome, and reading changes nothing. \<open>subs s mac\<close> and \<open>roots s mac\<close>
  stand for what the database holds for a device, in any representation.
\<close>

locale db_frame =
  fixes c :: "'s db_client"
    and subs :: "'s \<Rightarrow> string \<Rightarrow> 'v"
    and roots :: "'s \<Rightarrow> string \<Rightarrow> 'w"
  assumes get_sub_pure: "snd (db_GetSubDocument c mac g s) = s"
    and get_doc_pure: "snd (db_GetDocument c mac b s) = s"
    and get_root_pure: "snd (db_GetRootDocument c mac s) = s"
    and get_labels_pure: "snd (db_GetRootDocumentLabels c mac s) = s"
    and get_ref_pure: "snd (db_GetRefSubDocument c ref s) = s"
    and set_sub_frame: "mac' \<noteq> mac \<Longrightarrow> subs (snd (db_SetSubDocument c mac g d st l s)) mac' = subs s mac'"
    and set_sub_roots: "roots (snd (db_SetSubDocument c mac g d st l s)) m = roots s m"
    and del_sub_frame: "mac' \<noteq> mac \<Longrightarrow> subs (snd (db_DeleteSubDocument c mac g s)) mac' = subs s mac'"
    and del_sub_roots: "roots (snd (db_DeleteSubDocument c mac g s)) m = roots s m"
    and del_cols_frame: "mac' \<noteq> mac \<Longrightarrow> subs (snd (db_DeleteSubDocumentColumns c mac g cs s)) mac' = subs s mac'"
    and del_cols_roots: "roots (snd (db_DeleteSubDocumentColumns c mac g cs s)) m = roots s m"
    and del_doc_frame: "mac' \<noteq> mac \<Longrightarrow> subs (snd (db_DeleteDocument c mac s)) mac' = subs s mac'"
    and del_doc_roots: "roots (snd (db_DeleteDocument c mac s)) m = roots s m"
    and set_root_frame: "mac' \<noteq> mac \<Longrightarrow> roots (snd (db_SetRootDocument c mac rd s)) mac' = roots s mac'"
    and set_root_subs: "subs (snd (db_SetRootDocument c mac rd s)) m = subs s m"
    and set_rver_frame: "mac' \<noteq> mac \<Longrightarrow> roots (snd (db_SetRootDocumentVersion c mac v s)) mac' = roots s mac'"
    and set_rver_subs: "subs (snd (db_SetRootDocumentVersion c mac v s)) m = subs s m"
    and del_rver_frame: "mac' \<noteq> mac \<Longrightarrow> roots (snd (db_DeleteRootDocumentVersion c mac s)) mac' = roots s mac'"
    and del_rver_subs: "subs (snd (db_DeleteRootDocumentVersion c mac s)) m = subs s m"
begin

text \<open>
  The frame condition of a device: everything stored for the others is as in \<open>s0\<close>.
\<close>

definition others_same :: "string \<Rightarrow> 's \<Rightarrow> 's \<Rightarrow> bool" where
  "others_same mac s0 s \<longleftrightarrow> (\<forall>m. m \<noteq> mac \<longrightarrow> subs s m = subs s0 m \<and> roots s m = roots s0 m)"

lemma others_same_refl [simp]: "others_same mac s s"
  by (simp add: others_same_def)

lemma keeps_pure: "(\<And>s. snd (m s) = s) \<Longrightarrow> keeps P m"
  by (simp add: keeps_def)

lemma frame_get_sub [keeps_intros]: "keeps P (db_GetSubDocument c mac g)"
  and frame_get_doc [keeps_intros]: "keeps P (db_GetDocument c mac b)"
  and frame_get_root [keeps_intros]: "keeps P (db_GetRootDocument c mac)"
  and frame_get_labels [keeps_intros]: "keeps P (db_GetRootDocumentLabels c mac)"
  and frame_get_ref [keeps_intros]: "keeps P (db_GetRefSubDocument c ref)"
  by (auto intro!: keeps_pure simp: get_sub_pure get_doc_pure get_root_pure get_labels_pure get_ref_pure)

lemma frame_set_sub [keeps_intros]: "keeps (others_same mac s0) (db_SetSubDocument c mac g d st l)"
  and frame_del_sub [keeps_intros]: "keeps (others_same mac s0) (db_DeleteSubDocument c mac g)"
  and frame_del_cols [keeps_intros]: "keeps (others_same mac s0) (db_DeleteSubDocumentColumns c mac g cs)"
  and frame_del_doc [keeps_intros]: "keeps (others_same mac s0) (db_DeleteDocument c mac)"
  and frame_set_root [keeps_intros]: "keeps (others_same mac s0) (db_SetRootDocument c mac rd)"
  and frame_set_rver [keeps_intros]: "keeps (others_same mac s0) (db_SetRootDocumentVersion c mac v)"
  and frame_del_rver [keeps_intros]: "keeps (others_same mac s0) (db_DeleteRootDocumentVersion c mac)"
  by (auto intro!: keepsI simp: others_same_def set_sub_frame set_sub_roots del_sub_frame del_sub_roots
      del_cols_frame del_cols_roots del_doc_frame del_doc_roots set_root_frame set_root_subs
      set_rver_frame set_rver_subs del_rver_frame del_rver_subs)

end

end
