(* ===== verification/Service.thy ===== *)
theory Service
  imports DbClient
begin

text \<open>
  db/service.go, first part: how a device's request is turned into the document to send
  (\<open>BuildGetDocument\<close>), with the parsing of its version list, the comparison of root
  documents, the state correction and the lock. Every definition takes the database client
  as an argument; clock readings (milliseconds) are arguments too.
\<close>

section \<open>SQL fragments\<close>

fun values_loop :: "nat \<Rightarrow> string" where
  "values_loop 0 = ''''"
| "values_loop (Suc n) = '',?'' @ values_loop n"

definition GetValuesStr :: "nat \<Rightarrow> string" where
  "GetValuesStr n = ''?'' @ values_loop (n - 1)"

definition GetColumnsStr :: "string list \<Rightarrow> string" where
  "GetColumnsStr columns =
     concat (map (\<lambda>(i, v). (if i > (0 :: nat) then '','' else '''') @ v) (zip [0..<length columns] columns))"

definition GetSetColumnsStr :: "string list \<Rightarrow> string" where
  "GetSetColumnsStr columns =
     concat (map (\<lambda>(i, v). (if i > (0 :: nat) then '','' else '''') @ v @ ''=?'') (zip [0..<length columns] columns))"

section \<open>Version maps\<close>

text \<open>
  The result of \<open>parseVersionMap\<close>: the map, the list of versions (only filled next to an
  error) and the error.
\<close>

definition parseVersionMap :: "header \<Rightarrow> string gomap \<times> string list \<times> goerr option" where
  "parseVersionMap rHeader =
     (let queryStr = fst (rheader_Get rHeader HeaderDocName);
          subdocIds = go_split CHR '','' queryStr
      in if length queryStr = 0 then ([], [], None)
         else
           (let ifNoneMatch = fst (rheader_Get rHeader HeaderIfNoneMatch);
                versions = go_split CHR '','' ifNoneMatch
            in if length subdocIds \<noteq> length versions
               then ([], versions, Some (NewError (GroupVersionMismatchError
                      (''numbers of elements mismatched  group_id='' @ queryStr @ ''  IF-NONE-MATCH='' @ ifNoneMatch))))
               else (gomap_puts [] (zip subdocIds versions), [], None)))"

fun rev_map_loop :: "string gomap \<Rightarrow> string gomap \<Rightarrow> string gomap" where
  "rev_map_loop rm [] = rm"
| "rev_map_loop rm ((k, v) # m) = rev_map_loop (gomap_put v k rm) m"

fun rebuild_loop :: "string gomap \<Rightarrow> string gomap \<Rightarrow> string list \<Rightarrow> string gomap" where
  "rebuild_loop revCloudMap m [] = m"
| "rebuild_loop revCloudMap m (v # vs) =
     rebuild_loop revCloudMap
       (case map_of revCloudMap v of Some subdocId \<Rightarrow> gomap_put subdocId v m | None \<Rightarrow> m) vs"

text \<open>\<open>versions[0]\<close> panics on an empty list.\<close>

definition RebuildDeviceVersionMap :: "string list \<Rightarrow> string gomap \<Rightarrow> string gomap option" where
  "RebuildDeviceVersionMap versions cloudVersionMap =
     (case versions of
        [] \<Rightarrow> None
      | v0 # _ \<Rightarrow> Some (rebuild_loop (rev_map_loop [] cloudVersionMap) [(''root'', v0)] versions))"

text \<open>
  The root version is the decimal 32-bit murmur3 hash of the versions, concatenated in the
  order of their keys; the hash function is a library and hence the argument \<open>h\<close>.
\<close>

definition GetMurmur3Hash :: "(bytes \<Rightarrow> nat) \<Rightarrow> bytes \<Rightarrow> string" where
  "GetMurmur3Hash h payload = itoa (int (h payload))"

definition HashRootVersion :: "(bytes \<Rightarrow> nat) \<Rightarrow> string gomap \<Rightarrow> string" where
  "HashRootVersion h versionMap =
     (let keys = sort (map fst versionMap)
      in GetMurmur3Hash h (concat (map (\<lambda>k. gomap_get '''' versionMap k) keys)))"

definition HashRootVersion_mparts :: "(bytes \<Rightarrow> nat) \<Rightarrow> multipart list \<Rightarrow> string" where
  "HashRootVersion_mparts h mparts =
     HashRootVersion h (gomap_puts [] (map (\<lambda>m. (mp_name m, mp_version m)) mparts))"

definition RefreshRootDocumentVersion :: "(bytes \<Rightarrow> nat) \<Rightarrow> document \<Rightarrow> document" where
  "RefreshRootDocumentVersion h doc =
     (let rootVersion = HashRootVersion h (VersionMap doc)
      in case rootDocument doc of
           None \<Rightarrow> doc
         | Some rootDoc \<Rightarrow> SetRootDoc doc (Some (rootDoc\<lparr>rd_version := rootVersion\<rparr>)))"

section \<open>BuildGetDocument\<close>

text \<open>The seven results of \<open>BuildGetDocument\<close>; a nil pointer is \<open>None\<close>.\<close>

record getdoc =
  gd_document :: "document option"
  gd_cloud :: "rootdoc option"
  gd_device :: "rootdoc option"
  gd_versions :: "string gomap"
  gd_upstream :: bool
  gd_messages :: "eventmessage list"
  gd_err :: "goerr option"

definition getdoc_fail ::
  "rootdoc option \<Rightarrow> rootdoc \<Rightarrow> string gomap \<Rightarrow> eventmessage list \<Rightarrow> goerr \<Rightarrow> getdoc" where
  "getdoc_fail cloud device vm messages e =
     \<lparr>gd_document = None, gd_cloud = cloud, gd_device = Some device, gd_versions = vm,
      gd_upstream = False, gd_messages = messages, gd_err = Some (NewError e)\<rparr>"

text \<open>The root document built from the request headers.\<close>

definition device_bitmap :: "string \<Rightarrow> int" where
  "device_bitmap supportedDocs = (if length supportedDocs > 0 then fst (GetCpeBitmap supportedDocs) else 0)"

definition device_root_document :: "header \<Rightarrow> fields \<Rightarrow> rootdoc" where
  "device_root_document inHeader flds =
     (let get = (\<lambda>k. fst (rheader_Get inHeader k));
          bitmap = device_bitmap (get HeaderSupportedDocs);
          schemaVersion = to_lower (get HeaderSchemaVersion);
          modelName = get HeaderModelName;
          partnerId = (if length (get HeaderPartnerID) = 0
                       then dict_GetString flds ''partner'' '''' else get HeaderPartnerID);
          firmwareVersion = get HeaderFirmwareVersion;
          productClass = get HeaderProductClass;
          accountType = get HeaderAccountType
      in NewRootDocument bitmap firmwareVersion modelName partnerId schemaVersion '''' ''''
           productClass accountType)"

text \<open>
  The device's version map, with the document when it had to be read to rebuild the map
  after a mismatch of the two header lists. \<open>Inl\<close> carries the map and the error to return.
\<close>

definition resolve_versions ::
  "'s db_client \<Rightarrow> header \<Rightarrow> string
     \<Rightarrow> ('s, (string gomap \<times> goerr) + (string gomap \<times> document option)) prog" where
  "resolve_versions c inHeader mac =
     (case parseVersionMap inHeader of
        (deviceVersionMap, versions, None) \<Rightarrow> ret (Inr (deviceVersionMap, None))
      | (deviceVersionMap, versions, Some err) \<Rightarrow>
          if errors_As_gvm err then
            tryE (db_GetDocument c mac False) throw (\<lambda>(document, gerr).
              case gerr of
                Some e \<Rightarrow> ret (Inl (deviceVersionMap, e))
              | None \<Rightarrow>
                  deref document (\<lambda>doc.
                    deref (RebuildDeviceVersionMap versions (VersionMap doc)) (\<lambda>vm.
                      ret (Inr (vm, Some doc)))))
          else ret (Inl (deviceVersionMap, err)))"

text \<open>
  The root document of the cloud: created from the device's (with an empty version) when the
  database has none. \<open>Inl\<close> carries the error to return.
\<close>

definition cloud_root_document ::
  "'s db_client \<Rightarrow> string \<Rightarrow> rootdoc \<Rightarrow> ('s, goerr + rootdoc) prog" where
  "cloud_root_document c mac deviceRootDocument =
     tryE (db_GetRootDocument c mac)
       (\<lambda>err.
          if \<not> db_IsDbNotFound c err then ret (Inl err)
          else
            (let clonedRootDoc = (root_Clone deviceRootDocument)\<lparr>rd_version := ''''\<rparr>
             in tryE (db_SetRootDocument c mac clonedRootDoc)
                  (\<lambda>e. ret (Inl e))
                  (\<lambda>_. ret (Inr (root_Clone clonedRootDoc)))))
       (\<lambda>rd. ret (Inr rd))"

definition success_event :: "string \<Rightarrow> string \<Rightarrow> string \<Rightarrow> eventmessage" where
  "success_event mac subdocId version = empty_event\<lparr>
     em_device_id := ''mac:'' @ mac, em_namespace := Some subdocId,
     em_application_status := Some ''success'', em_version := Some version\<rparr>"

text \<open>
  State correction: a sub-document whose stored version the device already reports, and which
  is still pending, in deployment or failed, is marked deployed. The error fields of the
  stored sub-document are dereferenced before the test.
\<close>

definition correct_subdoc :: "int \<Rightarrow> subdoc \<Rightarrow> int \<Rightarrow> string \<Rightarrow> subdoc" where
  "correct_subdoc updatedTime s cloudErrorCode cloudErrorDetails =
     s\<lparr>sd_state := Some Deployed, sd_updated_time := Some updatedTime,
       sd_error_code := (if cloudErrorCode > 0 then Some 0 else sd_error_code s),
       sd_error_details := (if length cloudErrorDetails > 0 then Some '''' else sd_error_details s)\<rparr>"

fun correction_loop ::
  "'s db_client \<Rightarrow> string \<Rightarrow> int \<Rightarrow> labels \<Rightarrow> string gomap \<Rightarrow> eventmessage list \<Rightarrow> subdoc gomap
     \<Rightarrow> ('s, goerr + eventmessage list) prog" where
  "correction_loop c mac updatedTime labels vm messages [] = ret (Inr messages)"
| "correction_loop c mac updatedTime labels vm messages ((subdocId, subdocument) # items) =
     (let cloudVersion = subdoc_GetVersion subdocument;
          cloudState = subdoc_GetState subdocument
      in if length cloudVersion = 0 then correction_loop c mac updatedTime labels vm messages items
         else
           deref (sd_error_code subdocument) (\<lambda>cloudErrorCode.
           deref (sd_error_details subdocument) (\<lambda>cloudErrorDetails.
             if cloudVersion = gomap_get '''' vm subdocId
                \<and> cloudState \<ge> PendingDownload \<and> cloudState \<le> Failure
             then tryE (db_SetSubDocument c mac subdocId
                          (correct_subdoc updatedTime subdocument cloudErrorCode cloudErrorDetails)
                          cloudState labels)
                    (\<lambda>err. ret (Inl err))
                    (\<lambda>_. correction_loop c mac updatedTime labels vm
                            (messages @ [success_event mac subdocId cloudVersion]) items)
             else correction_loop c mac updatedTime labels vm messages items)))"

definition state_correction ::
  "'s db_client \<Rightarrow> string \<Rightarrow> int \<Rightarrow> rootdoc \<Rightarrow> string gomap \<Rightarrow> document option
     \<Rightarrow> ('s, goerr + (document option \<times> eventmessage list)) prog" where
  "state_correction c mac updatedTime device vm document =
     (if \<not> db_StateCorrectionEnabled c then ret (Inr (document, []))
      else
        tryE
          (case document of
             Some d \<Rightarrow> ret (Some d, None)
           | None \<Rightarrow> db_GetDocument c mac False) throw
          (\<lambda>(document', gerr).
             case gerr of
               Some e \<Rightarrow>
                 if \<not> db_IsDbNotFound c e then ret (Inl e)
                 else deref document' (\<lambda>d. tryE
                        (correction_loop c mac updatedTime
                          [(''model'', rd_model_name device), (''fwversion'', rd_firmware_version device)]
                          vm [] (docmap d)) throw
                        (\<lambda>r. case r of Inl e \<Rightarrow> ret (Inl e) | Inr ms \<Rightarrow> ret (Inr (document', ms))))
             | None \<Rightarrow> deref document' (\<lambda>d. tryE
                        (correction_loop c mac updatedTime
                          [(''model'', rd_model_name device), (''fwversion'', rd_firmware_version device)]
                          vm [] (docmap d)) throw
                        (\<lambda>r. case r of Inl e \<Rightarrow> ret (Inl e) | Inr ms \<Rightarrow> ret (Inr (document', ms))))))"

text \<open>The document of a device unless it was read before; not found is an error here.\<close>

definition fetch_document ::
  "'s db_client \<Rightarrow> string \<Rightarrow> document option \<Rightarrow> ('s, goerr + document) prog" where
  "fetch_document c mac document =
     (case document of
        Some d \<Rightarrow> ret (Inr d)
      | None \<Rightarrow>
          tryE (db_GetDocument c mac False) throw
            (\<lambda>(document', gerr).
               case gerr of
                 Some e \<Rightarrow> ret (Inl e)
               | None \<Rightarrow> deref document' (\<lambda>d. ret (Inr d))))"

fun delete_all :: "document \<Rightarrow> string list \<Rightarrow> document" where
  "delete_all d [] = d"
| "delete_all d (subdocId # ids) = delete_all (doc_DeleteSubDocument d subdocId) ids"

text \<open>The last part of \<open>BuildGetDocument\<close>: the lock and the switch over the comparison.\<close>

definition finish_getdoc ::
  "'s db_client \<Rightarrow> string \<Rightarrow> int \<Rightarrow> root_cmp \<Rightarrow> rootdoc \<Rightarrow> rootdoc \<Rightarrow> string gomap
     \<Rightarrow> document option \<Rightarrow> eventmessage list \<Rightarrow> ('s, getdoc) prog" where
  "finish_getdoc c mac t_lock rootCmpEnum cloud device vm document messages =
     (let result = (\<lambda>doc up. \<lparr>gd_document = Some doc, gd_cloud = Some cloud, gd_device = Some device,
            gd_versions = vm, gd_upstream = up, gd_messages = messages, gd_err = None\<rparr>)
      in if root_Locked t_lock cloud \<and> db_LockRootDocumentEnabled c
         then ret (getdoc_fail (Some cloud) device vm messages ErrRootDocumentLocked)
         else
           (case rootCmpEnum of
              RootDocumentEquals \<Rightarrow> ret (result (NewDocument (Some cloud)) False)
            | RootDocumentMetaChanged \<Rightarrow>
                tryE (fetch_document c mac document) throw
                  (\<lambda>r. case r of
                     Inl e \<Rightarrow> ret (getdoc_fail (Some cloud) device vm messages e)
                   | Inr d \<Rightarrow> ret (result (SetRootDoc d (Some cloud)) True))
            | _ \<Rightarrow>
                tryE (fetch_document c mac document) throw
                  (\<lambda>r. case r of
                     Inl e \<Rightarrow> ret (getdoc_fail (Some cloud) device vm messages e)
                   | Inr d \<Rightarrow>
                       ret (result (delete_all (FilterForGet (SetRootDoc d (Some cloud)) vm)
                              (db_BlockedSubdocIds c)) False))))"

text \<open>
  The middle part: compare the device's root document with the cloud's, store changed
  metadata (never a version), correct states.
\<close>

definition compare_and_finish ::
  "'s db_client \<Rightarrow> header \<Rightarrow> string \<Rightarrow> int \<Rightarrow> int \<Rightarrow> rootdoc \<Rightarrow> rootdoc \<Rightarrow> string gomap
     \<Rightarrow> document option \<Rightarrow> ('s, getdoc) prog" where
  "compare_and_finish c inHeader mac t_correct t_lock cloud device vm document =
     (let rootCmpEnum = (if fst (rheader_Get inHeader ''User-Agent'') = ''mget''
                         then RootDocumentVersionOnlyChanged else root_Compare cloud device)
      in tryE (if \<not> root_Equals cloud device
               then db_SetRootDocument c mac ((root_Clone device)\<lparr>rd_version := ''''\<rparr>)
               else ret ())
           (\<lambda>err. ret (getdoc_fail (Some cloud) device vm [] err))
           (\<lambda>_. tryE (state_correction c mac t_correct device vm document) throw
              (\<lambda>r. case r of
                 Inl err \<Rightarrow> ret (getdoc_fail (Some cloud) device vm [] err)
               | Inr (document', messages) \<Rightarrow>
                   finish_getdoc c mac t_lock rootCmpEnum cloud device vm document' messages)))"

definition BuildGetDocument ::
  "'s db_client \<Rightarrow> header \<Rightarrow> fields \<Rightarrow> int \<Rightarrow> int \<Rightarrow> ('s, getdoc) prog" where
  "BuildGetDocument c inHeader flds t_correct t_lock =
     (let device0 = device_root_document inHeader flds;
          mac = fst (rheader_Get inHeader HeaderDeviceId)
      in tryE (resolve_versions c inHeader mac) throw
           (\<lambda>r. case r of
              Inl (vm, err) \<Rightarrow> ret (getdoc_fail None device0 vm [] err)
            | Inr (vm, document) \<Rightarrow>
                (let device = device0\<lparr>rd_version := gomap_get '''' vm ''root''\<rparr>
                 in tryE (cloud_root_document c mac device) throw
                      (\<lambda>cr. case cr of
                         Inl err \<Rightarrow> ret (getdoc_fail None device vm [] err)
                       | Inr cloud \<Rightarrow>
                           compare_and_finish c inHeader mac t_correct t_lock cloud device vm document))))"

end
