(* ===== verification/SqlEngine.thy ===== *)
theory SqlEngine
  imports Service "HOL-Library.Multiset"
begin

text \<open>
  The tables of db/sqlite/schema.go and the SQL statements the sqlite client sends. The
  engine itself (modernc.org/sqlite behind database/sql) is a library: it is the parameter
  \<open>'d engine\<close>, and the locale \<open>sql_engine\<close> states what the client relies on, which is the
  meaning of INSERT, UPDATE, DELETE and SELECT with equality conditions.
\<close>

section \<open>Tables and statements\<close>

type_synonym row = "string \<Rightarrow> sqlval"
type_synonym tables = "string \<Rightarrow> row list"

text \<open>
  \<open>SqliteCreateTableStatements\<close>: the columns of each table with their types, and its primary
  key. A column may be declared without a type.
\<close>

datatype coltype = CText | CInt | CTimestamp | CBlob | CNone

definition sqlite_schema :: "((string \<times> coltype) list \<times> string list) gomap" where
  "sqlite_schema =
     [(''xpc_group_config'',
        ([(''cpe_mac'', CText), (''group_id'', CText), (''params'', CText), (''updated_time'', CTimestamp),
          (''version'', CText), (''payload'', CBlob), (''state'', CInt), (''error_code'', CInt),
          (''error_details'', CText), (''expiry'', CTimestamp)],
         [''cpe_mac'', ''group_id''])),
      (''root_document'',
        ([(''cpe_mac'', CText), (''bitmap'', CInt), (''account_type'', CText), (''firmware_version'', CText),
          (''locked_till'', CTimestamp), (''model_name'', CText), (''partner_id'', CText),
          (''product_class'', CText), (''query_params'', CText), (''route'', CText),
          (''schema_version'', CNone), (''version'', CText)],
         [''cpe_mac''])),
      (''reference_document'',
        ([(''ref_id'', CText), (''payload'', CBlob), (''version'', CText)],
         [''ref_id'']))]"

definition table_columns :: "string \<Rightarrow> string list" where
  "table_columns t = map fst (fst (gomap_get ([], []) sqlite_schema t))"

definition column_type :: "string \<Rightarrow> string \<Rightarrow> coltype" where
  "column_type t c = gomap_get CNone (fst (gomap_get ([], []) sqlite_schema t)) c"

text \<open>The values the program binds to a column of a type: the client stores times as integers.\<close>

fun value_ok :: "coltype \<Rightarrow> sqlval \<Rightarrow> bool" where
  "value_ok CText (VText _) = True"
| "value_ok CInt (VInt _) = True"
| "value_ok CTimestamp (VInt _) = True"
| "value_ok CBlob (VBlob _) = True"
| "value_ok CNone (VText _) = True"
| "value_ok _ VNull = True"
| "value_ok _ _ = False"

text \<open>Only the key of the first table is declared NOT NULL.\<close>

definition table_not_null :: "string \<Rightarrow> string list" where
  "table_not_null t = (if t = ''xpc_group_config'' then [''cpe_mac'', ''group_id''] else [])"

definition table_key :: "string \<Rightarrow> string list" where
  "table_key t = snd (gomap_get ([], []) sqlite_schema t)"

definition has_columns :: "string \<Rightarrow> string list \<Rightarrow> bool" where
  "has_columns t cols \<longleftrightarrow> list_all (\<lambda>c. c \<in> set (table_columns t)) cols"

text \<open>
  A statement with its table, the columns it sets and the columns its condition compares
  with bound values; \<open>stmt_text\<close> is the text the client prepares.
\<close>

datatype stmt =
    InsertInto string "string list"
  | UpdateSet string "string list" "string list"
  | UpdateNull string "string list" "string list"
  | DeleteFrom string "string list"

datatype sqlquery = SelectFrom string "string list" "string list"

definition where_text :: "string list \<Rightarrow> string" where
  "where_text wcols = '' WHERE '' @ go_join '' AND '' (map (\<lambda>c. c @ ''=?'') wcols)"

fun stmt_text :: "stmt \<Rightarrow> string" where
  "stmt_text (InsertInto t cols) =
     ''INSERT INTO '' @ t @ ''('' @ GetColumnsStr cols @ '') VALUES('' @ GetValuesStr (length cols) @ '')''"
| "stmt_text (UpdateSet t cols wcols) = ''UPDATE '' @ t @ '' SET '' @ GetSetColumnsStr cols @ where_text wcols"
| "stmt_text (UpdateNull t cols wcols) =
     ''UPDATE '' @ t @ '' SET '' @ go_join '','' (map (\<lambda>c. c @ ''=NULL'') cols) @ where_text wcols"
| "stmt_text (DeleteFrom t wcols) = ''DELETE FROM '' @ t @ where_text wcols"

section \<open>Meaning\<close>

definition row_matches :: "string list \<Rightarrow> sqlval list \<Rightarrow> row \<Rightarrow> bool" where
  "row_matches wcols vals r \<longleftrightarrow> list_all2 (\<lambda>c v. r c = v \<and> v \<noteq> VNull) wcols vals"

fun set_row :: "string list \<Rightarrow> sqlval list \<Rightarrow> row \<Rightarrow> row" where
  "set_row (c # cs) (v # vs) r = set_row cs vs (r(c := v))"
| "set_row _ _ r = r"

definition key_unique :: "string \<Rightarrow> row list \<Rightarrow> bool" where
  "key_unique t rows \<longleftrightarrow> distinct (map (\<lambda>r. map r (table_key t)) rows)"

definition constraints_ok :: "string \<Rightarrow> row list \<Rightarrow> bool" where
  "constraints_ok t rows \<longleftrightarrow>
     key_unique t rows \<and> list_all (\<lambda>r. list_all (\<lambda>c. r c \<noteq> VNull) (table_not_null t)) rows"

definition update_where :: "string list \<Rightarrow> sqlval list \<Rightarrow> (row \<Rightarrow> row) \<Rightarrow> row list \<Rightarrow> row list" where
  "update_where wcols vals f rows = map (\<lambda>r. if row_matches wcols vals r then f r else r) rows"

text \<open>
  The effect of a statement on the tables, or \<open>None\<close> when it cannot be executed: an unknown
  column, a wrong number of bound values, an empty column list, a duplicate primary key, a NULL where none is allowed.
\<close>

fun sql_effect :: "stmt \<Rightarrow> sqlval list \<Rightarrow> tables \<Rightarrow> tables option" where
  "sql_effect (InsertInto t cols) vals T =
     (let rows = T t @ [set_row cols vals (\<lambda>_. VNull)]
      in if cols \<noteq> [] \<and> has_columns t cols \<and> distinct cols \<and> length vals = length cols \<and> constraints_ok t rows
         then Some (T(t := rows)) else None)"
| "sql_effect (UpdateSet t cols wcols) vals T =
     (let n = length cols;
          rows = update_where wcols (drop n vals) (set_row cols (take n vals)) (T t)
      in if cols \<noteq> [] \<and> has_columns t cols \<and> has_columns t wcols
            \<and> length vals = n + length wcols \<and> constraints_ok t rows
         then Some (T(t := rows)) else None)"
| "sql_effect (UpdateNull t cols wcols) vals T =
     (let rows = update_where wcols vals (set_row cols (replicate (length cols) VNull)) (T t)
      in if cols \<noteq> [] \<and> has_columns t cols \<and> has_columns t wcols
            \<and> length vals = length wcols \<and> constraints_ok t rows
         then Some (T(t := rows)) else None)"
| "sql_effect (DeleteFrom t wcols) vals T =
     (if has_columns t wcols \<and> length vals = length wcols
      then Some (T(t := filter (\<lambda>r. \<not> row_matches wcols vals r) (T t))) else None)"

fun sql_select :: "sqlquery \<Rightarrow> sqlval list \<Rightarrow> tables \<Rightarrow> sqlval list list option" where
  "sql_select (SelectFrom t cols wcols) vals T =
     (if has_columns t cols \<and> has_columns t wcols \<and> length vals = length wcols
      then Some (map (\<lambda>r. map r cols) (filter (row_matches wcols vals) (T t))) else None)"

section \<open>The engine\<close>

record 'd engine =
  eng_exec :: "stmt \<Rightarrow> sqlval list \<Rightarrow> 'd \<Rightarrow> goerr option \<times> 'd"
  eng_query :: "sqlquery \<Rightarrow> sqlval list \<Rightarrow> 'd \<Rightarrow> goerr + sqlval list list"
  eng_tables :: "'d \<Rightarrow> tables"

text \<open>
  What the client relies on. A statement that reports success has its effect, one that
  reports an error has none, a query reads the tables (in any order of rows) and its errors
  are never \<open>sql.ErrNoRows\<close>, which database/sql keeps for \<open>QueryRow\<close>. Any call may fail.
\<close>

locale sql_engine =
  fixes E :: "'d engine"
  assumes exec_ok: "eng_exec E st vs d = (None, d') \<Longrightarrow>
      sql_effect st vs (eng_tables E d) = Some (eng_tables E d')"
    and exec_err: "eng_exec E st vs d = (Some e, d') \<Longrightarrow> eng_tables E d' = eng_tables E d"
    and query_ok: "eng_query E q vs d = Inr rows \<Longrightarrow>
      \<exists>rows'. sql_select q vs (eng_tables E d) = Some rows' \<and> mset rows = mset rows'"
    and query_err: "eng_query E q vs d = Inl e \<Longrightarrow> \<not> errors_Is e ErrNoRows"
begin

text \<open>Two ways to use the law of statements: whatever the outcome, and with the effect.\<close>

lemma exec_cases:
  "eng_exec E st vs d = (r, d') \<Longrightarrow>
     eng_tables E d' = eng_tables E d \<or> sql_effect st vs (eng_tables E d) = Some (eng_tables E d')"
  using exec_ok exec_err by (cases r) auto

lemma exec_rejected:
  "sql_effect st vs (eng_tables E d) = None \<Longrightarrow>
     \<exists>e d'. eng_exec E st vs d = (Some e, d') \<and> eng_tables E d' = eng_tables E d"
  using exec_ok[of st vs d] exec_err[of st vs d]
  by (cases "eng_exec E st vs d"; cases "fst (eng_exec E st vs d)") auto

lemma query_select:
  "eng_query E q vs d = Inr rows \<Longrightarrow> sql_select q vs (eng_tables E d) = Some sel \<Longrightarrow> mset rows = mset sel"
  using query_ok by fastforce

end

text \<open>The tables kept in memory are an engine that never fails without cause.\<close>

definition mem_engine :: "tables engine" where
  "mem_engine = \<lparr>
     eng_exec = (\<lambda>st vs T. case sql_effect st vs T of
        None \<Rightarrow> (Some (ErrText ''SQL logic error''), T) | Some T' \<Rightarrow> (None, T')),
     eng_query = (\<lambda>q vs T. case sql_select q vs T of
        None \<Rightarrow> Inl (ErrText ''SQL logic error'') | Some rows \<Rightarrow> Inr rows),
     eng_tables = (\<lambda>T. T)\<rparr>"

interpretation mem: sql_engine mem_engine
  by unfold_locales (auto simp: mem_engine_def split: option.splits)

section \<open>Facts\<close>

lemma has_columns_simps [simp]:
  "has_columns t []" "has_columns t (c # cs) \<longleftrightarrow> c \<in> set (table_columns t) \<and> has_columns t cs"
  by (simp_all add: has_columns_def)

lemma has_columns_append [simp]: "has_columns t (xs @ ys) \<longleftrightarrow> has_columns t xs \<and> has_columns t ys"
  by (simp add: has_columns_def)

lemma table_columns_simps [simp]:
  "table_columns ''xpc_group_config'' = [''cpe_mac'', ''group_id'', ''params'', ''updated_time'', ''version'',
     ''payload'', ''state'', ''error_code'', ''error_details'', ''expiry'']"
  "table_columns ''root_document'' = [''cpe_mac'', ''bitmap'', ''account_type'', ''firmware_version'',
     ''locked_till'', ''model_name'', ''partner_id'', ''product_class'', ''query_params'', ''route'',
     ''schema_version'', ''version'']"
  "table_columns ''reference_document'' = [''ref_id'', ''payload'', ''version'']"
  "table_key ''xpc_group_config'' = [''cpe_mac'', ''group_id'']"
  "table_key ''root_document'' = [''cpe_mac'']"
  "table_key ''reference_document'' = [''ref_id'']"
  by (simp_all add: table_columns_def table_key_def sqlite_schema_def)

lemmas column_type_simps = column_type_def sqlite_schema_def

lemma row_matches_simps [simp]:
  "row_matches [] [] r" "row_matches (c # cs) (v # vs) r \<longleftrightarrow> r c = v \<and> v \<noteq> VNull \<and> row_matches cs vs r"
  by (simp_all add: row_matches_def)

lemma set_row_other: "c \<notin> set cols \<Longrightarrow> set_row cols vals r c = r c"
  by (induction cols vals r rule: set_row.induct) auto

lemma set_row_map_of:
  "distinct (map fst cvs) \<Longrightarrow> set_row (map fst cvs) (map snd cvs) r c =
     (case map_of cvs c of None \<Rightarrow> r c | Some v \<Rightarrow> v)"
proof (induction cvs arbitrary: r)
  case Nil
  then show ?case by simp
next
  case (Cons cv cvs)
  obtain k v where cv: "cv = (k, v)" by (cases cv)
  with Cons.prems have k: "k \<notin> set (map fst cvs)" and d: "distinct (map fst cvs)" by auto
  then have "map_of cvs k = None" by (simp add: map_of_eq_None_iff)
  moreover note Cons.IH[OF d, of "r(k := v)"]
  ultimately show ?case
    unfolding cv list.map fst_conv snd_conv set_row.simps
    by (simp only:) (auto split: option.splits)
qed

lemma set_row_null: "set_row cols (replicate (length cols) VNull) r c \<in> {r c, VNull}"
proof (induction cols arbitrary: r)
  case (Cons a cols)
  have "set_row cols (replicate (length cols) VNull) (r(a := VNull)) c \<in> {(r(a := VNull)) c, VNull}"
    by (rule Cons)
  moreover have "(r(a := VNull)) c \<in> {r c, VNull}" by simp
  ultimately show ?case by (auto simp del: fun_upd_apply)
qed simp

text \<open>
  The statements on one table leave the others alone, and those that compare a key column
  leave the rows with another key alone.
\<close>

fun stmt_table :: "stmt \<Rightarrow> string" where
  "stmt_table (InsertInto t _) = t"
| "stmt_table (UpdateSet t _ _) = t"
| "stmt_table (UpdateNull t _ _) = t"
| "stmt_table (DeleteFrom t _) = t"

lemma sql_effect_other_table:
  "sql_effect st vs T = Some T' \<Longrightarrow> t \<noteq> stmt_table st \<Longrightarrow> T' t = T t"
  by (cases st) (auto simp: Let_def split: if_splits)

definition rows_with :: "string \<Rightarrow> sqlval \<Rightarrow> row list \<Rightarrow> row list" where
  "rows_with c v rows = filter (\<lambda>r. r c = v) rows"

lemma rows_with_append [simp]: "rows_with c v (xs @ ys) = rows_with c v xs @ rows_with c v ys"
  by (simp add: rows_with_def)

lemma rows_with_update_where:
  assumes "\<And>r. row_matches wcols vals r \<Longrightarrow> r c \<noteq> v \<and> f r c \<noteq> v"
  shows "rows_with c v (update_where wcols vals f rows) = rows_with c v rows"
  using assms by (induction rows) (auto simp: rows_with_def update_where_def)

lemma rows_with_filter:
  assumes "\<And>r. row_matches wcols vals r \<Longrightarrow> r c \<noteq> v"
  shows "rows_with c v (filter (\<lambda>r. \<not> row_matches wcols vals r) rows) = rows_with c v rows"
  using assms by (induction rows) (auto simp: rows_with_def)

text \<open>
  Primary keys stay unique, and every column keeps to its type as long as the bound values do.
\<close>

definition keys_ok :: "tables \<Rightarrow> bool" where
  "keys_ok T \<longleftrightarrow> (\<forall>t. constraints_ok t (T t))"

lemma constraints_ok_filter: "constraints_ok t rows \<Longrightarrow> constraints_ok t (filter P rows)"
  by (auto simp: constraints_ok_def key_unique_def distinct_map_filter list_all_iff)

lemma keys_ok_effect: "sql_effect st vs T = Some T' \<Longrightarrow> keys_ok T \<Longrightarrow> keys_ok T'"
  by (cases st) (auto simp: keys_ok_def Let_def constraints_ok_filter split: if_splits)

definition row_typed :: "string \<Rightarrow> row \<Rightarrow> bool" where
  "row_typed t r \<longleftrightarrow> (\<forall>c. value_ok (column_type t c) (r c))"

definition types_ok :: "tables \<Rightarrow> bool" where
  "types_ok T \<longleftrightarrow> (\<forall>t. \<forall>r \<in> set (T t). row_typed t r)"

definition cols_typed :: "string \<Rightarrow> string list \<Rightarrow> sqlval list \<Rightarrow> bool" where
  "cols_typed t cols vals \<longleftrightarrow> (\<forall>(c, v) \<in> set (zip cols vals). value_ok (column_type t c) v)"

fun stmt_typed :: "stmt \<Rightarrow> sqlval list \<Rightarrow> bool" where
  "stmt_typed (InsertInto t cols) vals = cols_typed t cols vals"
| "stmt_typed (UpdateSet t cols wcols) vals = cols_typed t cols vals"
| "stmt_typed (UpdateNull t cols wcols) vals = True"
| "stmt_typed (DeleteFrom t wcols) vals = True"

lemma value_ok_VNull [simp]: "value_ok ty VNull"
  by (cases ty) auto

lemma cols_typed_simps [simp]:
  "cols_typed t [] vals" "cols_typed t cols []"
  "cols_typed t (c # cs) (v # vs) \<longleftrightarrow> value_ok (column_type t c) v \<and> cols_typed t cs vs"
  by (auto simp: cols_typed_def)

lemma cols_typed_take: "cols_typed t cols vals \<Longrightarrow> cols_typed t cols (take (length cols) vals)"
proof -
  have "zip cols (take (length cols) vals) = take (length cols) (zip cols vals)" by (simp add: take_zip)
  then show "cols_typed t cols vals \<Longrightarrow> cols_typed t cols (take (length cols) vals)"
    by (auto simp: cols_typed_def dest: in_set_takeD)
qed

lemma cols_typed_null: "cols_typed t cols (replicate n VNull)"
  by (auto simp: cols_typed_def dest: set_zip_rightD)

lemma row_typed_upd: "row_typed t r \<Longrightarrow> value_ok (column_type t c) v \<Longrightarrow> row_typed t (r(c := v))"
  by (simp add: row_typed_def)

lemma row_typed_set_row: "cols_typed t cols vals \<Longrightarrow> row_typed t r \<Longrightarrow> row_typed t (set_row cols vals r)"
  by (induction cols vals r rule: set_row.induct) (auto intro: row_typed_upd)

lemma row_typed_null: "row_typed t (\<lambda>_. VNull)"
  by (simp add: row_typed_def)

lemma types_ok_upd: "types_ok T \<Longrightarrow> (\<And>r. r \<in> set rows \<Longrightarrow> row_typed t r) \<Longrightarrow> types_ok (T(t := rows))"
  by (simp add: types_ok_def)

lemma types_ok_effect:
  assumes "sql_effect st vs T = Some T'" "stmt_typed st vs" "types_ok T"
  shows "types_ok T'"
proof -
  have T: "r \<in> set (T t) \<Longrightarrow> row_typed t r" for t r using assms(3) by (simp add: types_ok_def)
  show ?thesis
  proof (cases st)
    case (InsertInto t cols)
    with assms T show ?thesis
      by (auto simp: Let_def row_typed_set_row row_typed_null intro!: types_ok_upd split: if_splits)
  next
    case (UpdateSet t cols wcols)
    with assms T show ?thesis
      by (auto simp: Let_def update_where_def row_typed_set_row cols_typed_take intro!: types_ok_upd split: if_splits)
  next
    case (UpdateNull t cols wcols)
    with assms T show ?thesis
      by (auto simp: Let_def update_where_def row_typed_set_row cols_typed_null intro!: types_ok_upd split: if_splits)
  next
    case (DeleteFrom t wcols)
    with assms T show ?thesis by (auto intro!: types_ok_upd split: if_splits)
  qed
qed

definition tables_ok :: "tables \<Rightarrow> bool" where
  "tables_ok T \<longleftrightarrow> keys_ok T \<and> types_ok T"

lemma tables_ok_effect:
  "sql_effect st vs T = Some T' \<Longrightarrow> stmt_typed st vs \<Longrightarrow> tables_ok T \<Longrightarrow> tables_ok T'"
  by (auto simp: tables_ok_def keys_ok_effect types_ok_effect)

end
