(* ===== verification/ServiceUpdate.thy ===== *)
theory ServiceUpdate
  imports Service
begin

text \<open>
  db/service.go, second part, and db/cloud_input_mqtt.go: how reports from devices and
  documents from upstream change what is stored. Clock readings are arguments; where the
  code reads the clock once per loop iteration the argument is a function of the group.
\<close>

section \<open>Time\<close>

text \<open>
  \<open>time.Duration\<close> is a 64-bit count of nanoseconds and its products wrap; \<open>UnixMilli\<close> divides.
\<close>

definition unix_milli :: "int \<Rightarrow> int" where
  "unix_milli ns = ns div 1000000"

definition ttl_duration :: "int \<Rightarrow> int" where
  "ttl_duration days = wrap64 (wrap64 (days * 24) * 3600000000000)"

section \<open>UpdateDocumentState\<close>

text \<open>A 304 report: every sub-document that is not cleanly deployed is marked deployed.\<close>

fun http304_loop ::
  "'s db_client \<Rightarrow> string \<Rightarrow> int \<Rightarrow> labels \<Rightarrow> string list \<Rightarrow> subdoc gomap
     \<Rightarrow> ('s, string list \<times> goerr option) prog" where
  "http304_loop c cpeMac updatedTime labels ids [] = ret (ids, None)"
| "http304_loop c cpeMac updatedTime labels ids ((groupId, oldSubdoc) # items) =
     (if NeedsUpdateForHttp304 oldSubdoc
      then
        (let ids' = ids @ [groupId];
             newSubdoc = NewSubDocument None None (Some Deployed) (Some updatedTime) (Some 0) (Some '''')
         in deref (sd_state oldSubdoc) (\<lambda>oldState.
              tryE (db_SetSubDocument c cpeMac groupId newSubdoc oldState labels)
                (\<lambda>err. ret (ids', Some (NewError err)))
                (\<lambda>_. http304_loop c cpeMac updatedTime labels ids' items)))
      else http304_loop c cpeMac updatedTime labels ids items)"

text \<open>The metrics agent in the fields; a value that is not a string panics.\<close>

definition metrics_agent_field :: "fields \<Rightarrow> string option" where
  "metrics_agent_field flds =
     (case map_of flds ''metrics_agent'' of
        None \<Rightarrow> Some ''default''
      | Some (IStr s) \<Rightarrow> Some s
      | Some _ \<Rightarrow> None)"

text \<open>
  A sub-document report. \<open>report_state\<close> is the new state with the error fields to store, or
  the pending error.
\<close>

definition report_state :: "eventmessage \<Rightarrow> string \<Rightarrow> goerr + (int \<times> int option \<times> string option)" where
  "report_state m applicationStatus =
     (if applicationStatus = ''success'' then Inr (Deployed, Some 0, Some '''')
      else if applicationStatus = ''pending'' then Inl ErrPending
      else Inr (Failure, em_error_code m, em_error_details m))"

definition report_subdoc ::
  "'s db_client \<Rightarrow> string \<Rightarrow> eventmessage \<Rightarrow> int \<Rightarrow> int \<Rightarrow> subdoc" where
  "report_subdoc c targetGroupId m updatedTime now_ns =
     (case report_state m (the (em_application_status m)) of
        Inl _ \<Rightarrow> NewSubDocument None None None None None None
      | Inr (state, ec, ed) \<Rightarrow>
          (let newSubdoc = NewSubDocument None None (Some state) (Some updatedTime) ec ed
           in if db_SupplementaryPrecookEnabled c \<and> targetGroupId = ''telemetry'' \<and> state = Deployed
                 \<and> db_SupplementaryPrecookStateTTLDays c > 0
              then newSubdoc\<lparr>sd_expiry := Some (unix_milli
                     (now_ns + ttl_duration (db_SupplementaryPrecookStateTTLDays c)))\<rparr>
              else newSubdoc))"

text \<open>A report about another version than the stored one is ignored.\<close>

definition report_version_differs :: "subdoc \<Rightarrow> eventmessage \<Rightarrow> bool" where
  "report_version_differs subdoc m \<longleftrightarrow>
     (case (sd_version subdoc, em_version m) of (Some v, Some mv) \<Rightarrow> v \<noteq> mv | _ \<Rightarrow> False)"

definition apply_report ::
  "'s db_client \<Rightarrow> string \<Rightarrow> eventmessage \<Rightarrow> string \<Rightarrow> labels \<Rightarrow> int \<Rightarrow> int \<Rightarrow> subdoc
     \<Rightarrow> ('s, string list \<times> goerr option) prog" where
  "apply_report c cpeMac m targetGroupId labels updatedTime now_ns subdoc =
     (let oldState = (case sd_state subdoc of None \<Rightarrow> 0 | Some st \<Rightarrow> st);
          invalid = (case sd_state subdoc of None \<Rightarrow> False | Some st \<Rightarrow> st < Deployed \<or> st > Failure)
      in if invalid
         then ret ([], Some (NewError (Http404Error (''invalid state('' @ itoa oldState @ '') in db''))))
         else if report_version_differs subdoc m
         then ret ([], None)
         else if (case sd_updated_time subdoc of Some t \<Rightarrow> t < 0 | None \<Rightarrow> False)
         then ret ([], Some (NewError (Http404Error
                (''invalid updated_time('' @ itoa (the (sd_updated_time subdoc)) @ '') in db''))))
         else
           (let labels' = (case em_metrics_agent m of
                  Some a \<Rightarrow> gomap_put ''client'' a labels | None \<Rightarrow> labels)
            in tryE (db_SetSubDocument c cpeMac targetGroupId
                      (report_subdoc c targetGroupId m updatedTime now_ns) oldState labels')
                 (\<lambda>err. ret ([], Some (NewError err)))
                 (\<lambda>_. ret ([], None))))"

definition UpdateDocumentState ::
  "'s db_client \<Rightarrow> string \<Rightarrow> eventmessage \<Rightarrow> fields \<Rightarrow> int \<Rightarrow> int
     \<Rightarrow> ('s, string list \<times> goerr option) prog" where
  "UpdateDocumentState c cpeMac m flds updatedTime now_ns =
     (if length (em_reports m) > 0 then ret ([], None)
      else
        deref (metrics_agent_field flds) (\<lambda>metricsAgent.
        tryE (db_GetRootDocumentLabels c cpeMac)
          (\<lambda>err. ret ([], Some (NewError err)))
          (\<lambda>labels0.
             let labels = gomap_put ''client'' metricsAgent labels0 in
             case em_http_status_code m of
               Some code \<Rightarrow>
                 if code \<noteq> 304 then ret ([], None)
                 else tryE (db_GetDocument c cpeMac False) throw
                        (\<lambda>(doc, gerr).
                           case gerr of
                             Some err \<Rightarrow> ret ([], Some (NewError err))
                           | None \<Rightarrow> deref doc (\<lambda>d.
                               http304_loop c cpeMac updatedTime labels [] (docmap d)))
             | None \<Rightarrow>
                 (case (em_application_status m, em_namespace m) of
                    (Some status, Some targetGroupId) \<Rightarrow>
                      (case report_state m status of
                         Inl e \<Rightarrow> ret ([], Some (NewError e))
                       | Inr _ \<Rightarrow>
                           tryE (db_GetSubDocument c cpeMac targetGroupId)
                             (\<lambda>err. ret ([], Some (NewError err)))
                             (apply_report c cpeMac m targetGroupId labels updatedTime now_ns))
                  | _ \<Rightarrow> ret ([], Some (NewError (ErrText ''ill-formatted event'')))))))"

section \<open>Documents from upstream\<close>

text \<open>
  \<open>UpdateSubDocument\<close> stores a sub-document of the upstream answer in the state in-deployment,
  unless the device already reports the version and the database had it too.
\<close>

definition upstream_subdoc :: "subdoc \<Rightarrow> int \<Rightarrow> subdoc" where
  "upstream_subdoc newSubdoc updatedTime = newSubdoc\<lparr>
     sd_updated_time := Some updatedTime, sd_state := Some InDeployment,
     sd_error_code := Some 0, sd_error_details := Some ''''\<rparr>"

definition upstream_unchanged :: "string gomap \<Rightarrow> string \<Rightarrow> subdoc \<Rightarrow> subdoc option \<Rightarrow> bool" where
  "upstream_unchanged deviceVersionMap subdocId newSubdoc oldSubdoc \<longleftrightarrow>
     (let oldSubdocVersion = (case oldSubdoc of None \<Rightarrow> '''' | Some o' \<Rightarrow> subdoc_GetVersion o')
      in case map_of deviceVersionMap subdocId of
           None \<Rightarrow> False
         | Some deviceVersion \<Rightarrow>
             (case sd_version newSubdoc of
                None \<Rightarrow> False
              | Some v \<Rightarrow> deviceVersion = v \<and> oldSubdoc \<noteq> None \<and> deviceVersion = oldSubdocVersion))"

definition UpdateSubDocument ::
  "'s db_client \<Rightarrow> string \<Rightarrow> string \<Rightarrow> subdoc \<Rightarrow> subdoc option \<Rightarrow> string gomap \<Rightarrow> int \<Rightarrow> ('s, unit) prog" where
  "UpdateSubDocument c cpeMac subdocId newSubdoc oldSubdoc deviceVersionMap updatedTime =
     (let oldState = (case oldSubdoc of None \<Rightarrow> 0 | Some o' \<Rightarrow> subdoc_GetState o')
      in bindE (db_GetRootDocumentLabels c cpeMac) (\<lambda>labels0.
           let labels = gomap_put ''client'' ''default'' labels0 in
           if upstream_unchanged deviceVersionMap subdocId newSubdoc oldSubdoc then ret ()
           else bindE (db_SetSubDocument c cpeMac subdocId (upstream_subdoc newSubdoc updatedTime) oldState labels)
                  (\<lambda>_. ret ())))"

definition WriteDocumentFromUpstream ::
  "'s db_client \<Rightarrow> string \<Rightarrow> string \<Rightarrow> document \<Rightarrow> document \<Rightarrow> bool \<Rightarrow> string gomap
     \<Rightarrow> (string \<Rightarrow> int) \<Rightarrow> ('s, unit) prog" where
  "WriteDocumentFromUpstream c cpeMac upstreamRespEtag newDoc d toDelete versionMap now =
     bindE (if RootVersion d \<noteq> upstreamRespEtag
            then db_SetRootDocumentVersion c cpeMac upstreamRespEtag else ret ())
       (\<lambda>_. bindE (for_each (\<lambda>(subdocId, newSubdoc).
                 UpdateSubDocument c cpeMac subdocId newSubdoc (doc_SubDocument d subdocId) versionMap (now subdocId))
               (docmap newDoc))
         (\<lambda>_. if toDelete
               then for_each (db_DeleteSubDocument c cpeMac)
                      (filter (\<lambda>k. k \<notin> fst ` set (docmap newDoc)) (map fst (docmap d)))
               else ret ()))"

text \<open>A nil state panics in \<open>UpdateDocumentStateIndeployment\<close>.\<close>

definition indeployment_subdoc :: "int \<Rightarrow> subdoc" where
  "indeployment_subdoc updatedTime =
     NewSubDocument None None (Some InDeployment) (Some updatedTime) (Some 0) (Some '''')"

definition mark_indeployment ::
  "'s db_client \<Rightarrow> string \<Rightarrow> int \<Rightarrow> labels \<Rightarrow> string \<times> subdoc \<Rightarrow> ('s, unit) prog" where
  "mark_indeployment c cpeMac updatedTime labels = (\<lambda>(subdocId, subdoc).
     if (case sd_state subdoc of Some st \<Rightarrow> st = Deployed \<or> st = InDeployment | None \<Rightarrow> False) then ret ()
     else deref (sd_state subdoc) (\<lambda>oldState.
            db_SetSubDocument c cpeMac subdocId (indeployment_subdoc updatedTime) oldState labels))"

definition UpdateDocumentStateIndeployment ::
  "'s db_client \<Rightarrow> string \<Rightarrow> document \<Rightarrow> int \<Rightarrow> ('s, unit) prog" where
  "UpdateDocumentStateIndeployment c cpeMac d updatedTime =
     bindE (db_GetRootDocumentLabels c cpeMac) (\<lambda>labels0.
       for_each (mark_indeployment c cpeMac updatedTime (gomap_put ''client'' ''default'' labels0)) (docmap d))"

section \<open>Root documents at factory reset\<close>

definition preprocess_device_root :: "header \<Rightarrow> string \<Rightarrow> rootdoc" where
  "preprocess_device_root rHeader partnerId =
     NewRootDocument (device_bitmap (hget rHeader HeaderSupportedDocs))
       (hget rHeader HeaderFirmwareVersion) (hget rHeader HeaderModelName) partnerId
       (to_lower (hget rHeader HeaderSchemaVersion)) '''' ''''
       (hget rHeader HeaderProductClass) (hget rHeader HeaderAccountType)"

definition PreprocessRootDocument ::
  "'s db_client \<Rightarrow> header \<Rightarrow> string \<Rightarrow> string \<Rightarrow> ('s, rootdoc) prog" where
  "PreprocessRootDocument c rHeader mac partnerId =
     (let device = preprocess_device_root rHeader partnerId;
          store = (\<lambda>cloud. bindE (db_SetRootDocument c mac cloud) (\<lambda>_. ret cloud))
      in tryE (db_GetRootDocument c mac)
           (\<lambda>err. if \<not> db_IsDbNotFound c err then throw (NewError err) else store (root_Clone device))
           (\<lambda>cloud. store (root_Update cloud device)))"

section \<open>References to shared payloads\<close>

definition referenceIndicatorBytes :: bytes where
  "referenceIndicatorBytes = replicate 4 (char_of (0 :: nat))"

definition GetRefId :: "bytes \<Rightarrow> string option" where
  "GetRefId payload =
     (if length payload > 4
      then if take 4 payload = referenceIndicatorBytes then Some (drop 4 payload) else None
      else None)"

fun load_refs_loop ::
  "'s db_client \<Rightarrow> document \<Rightarrow> subdoc gomap \<Rightarrow> ('s, document) prog" where
  "load_refs_loop c newDocument [] = ret newDocument"
| "load_refs_loop c newDocument ((subdocId, subDocument) # items) =
     (case GetRefId (payload_bytes (sd_payload subDocument)) of
        None \<Rightarrow> load_refs_loop c (SetSubDocument newDocument subdocId subDocument) items
      | Some refId \<Rightarrow>
          tryE (db_GetRefSubDocument c refId)
            (\<lambda>err. if db_IsDbNotFound c err then load_refs_loop c newDocument items
                    else throw (NewError err))
            (\<lambda>refsubdocument.
               load_refs_loop c
                 (SetSubDocument newDocument subdocId (subDocument\<lparr>sd_payload := rs_payload refsubdocument\<rparr>))
                 items))"

definition LoadRefSubDocuments :: "'s db_client \<Rightarrow> document \<Rightarrow> ('s, document) prog" where
  "LoadRefSubDocuments c d = load_refs_loop c (NewDocument (rootDocument d)) (docmap d)"

section \<open>Documents sent over MQTT\<close>

definition BuildMqttSendDocument ::
  "'s db_client \<Rightarrow> string \<Rightarrow> ('s, document) prog" where
  "BuildMqttSendDocument c cpeMac =
     tryE (db_GetDocument c cpeMac False) throw
       (\<lambda>(doc, gerr).
          case gerr of
            Some err \<Rightarrow> throw (NewError err)
          | None \<Rightarrow> deref doc (\<lambda>d.
              let filtered = FilterForMqttSend d in
              if doc_Length filtered = 0 then ret filtered
              else
                (let filtered' = delete_all filtered (db_BlockedSubdocIds c)
                 in bindE (db_GetRootDocument c cpeMac)
                      (\<lambda>root. ret (SetRootDoc filtered' (Some root))))))"

definition UpdateStatesInBatch ::
  "'s db_client \<Rightarrow> string \<Rightarrow> string \<Rightarrow> (string \<Rightarrow> int) \<Rightarrow> int gomap \<Rightarrow> ('s, unit) prog" where
  "UpdateStatesInBatch c cpeMac metricsAgent now oldSubdocStateMap =
     for_each (\<lambda>(subdocId, oldState).
         tryE (db_GetRootDocumentLabels c cpeMac) throw (\<lambda>labels.
           db_SetSubDocument c cpeMac subdocId
             (NewSubDocument None None (Some InDeployment) (Some (now subdocId)) None None)
             oldState (gomap_put ''client'' metricsAgent labels)))
       oldSubdocStateMap"

section \<open>Facts\<close>

lemma delete_all_root [simp]: "rootDocument (delete_all d ids) = rootDocument d"
  by (induction d ids rule: delete_all.induct) auto

lemma delete_all_ok: "doc_ok d \<Longrightarrow> doc_ok (delete_all d ids)"
  by (induction d ids rule: delete_all.induct) auto

lemma gomap_del_filter: "gomap_del k m = filter (\<lambda>(k', _). k' \<noteq> k) m"
  by (simp add: gomap_del_def AList.delete_eq case_prod_unfold eq_commute)

lemma delete_all_docmap:
  "docmap (delete_all d ids) = filter (\<lambda>(k, _). k \<notin> set ids) (docmap d)"
proof (induction d ids rule: delete_all.induct)
  case (1 d)
  then show ?case by simp
next
  case (2 d k ids)
  then show ?case
    by (auto simp: gomap_del_filter case_prod_unfold intro: filter_cong)
qed

lemma RootVersion_delete_all [simp]: "RootVersion (delete_all d ids) = RootVersion d"
  by (simp add: RootVersion_def)

lemma ttl_duration_exact:
  assumes "0 < days" "days \<le> 106751"
  shows "ttl_duration days = days * 86400000000000"
  using assms by (simp add: ttl_duration_def wrap64_id in_int64_def)

lemma GetRefId_Some: "GetRefId p = Some r \<longleftrightarrow> p = referenceIndicatorBytes @ r \<and> r \<noteq> []"
  unfolding GetRefId_def referenceIndicatorBytes_def
  by (auto, metis append_take_drop_id)

context db_frame
begin

lemma frame_resolve [keeps_intros]: "keeps P (resolve_versions c h mac)"
  unfolding resolve_versions_def
  by (auto intro!: keeps_intros split: prod.splits option.splits)

lemma frame_fetch [keeps_intros]: "keeps P (fetch_document c mac d)"
  unfolding fetch_document_def
  by (auto intro!: keeps_intros split: prod.splits option.splits)

lemma frame_finish [keeps_intros]: "keeps P (finish_getdoc c mac t e cl dev vm doc ms)"
  unfolding finish_getdoc_def Let_def
  by (auto intro!: keeps_intros split: root_cmp.splits sum.splits)

lemma frame_correction_loop [keeps_intros]:
  "keeps (others_same mac s0) (correction_loop c mac t l vm ms items)"
proof (induction items arbitrary: ms)
  case Nil
  then show ?case by simp
next
  case (Cons it items)
  then show ?case
    by (cases it) (auto simp: Let_def intro!: keeps_intros)
qed

lemma frame_state_correction [keeps_intros]:
  "keeps (others_same mac s0) (state_correction c mac t dev vm doc)"
  unfolding state_correction_def
  by (auto intro!: keeps_intros split: prod.splits option.splits sum.splits)

lemma frame_cloud_root [keeps_intros]: "keeps (others_same mac s0) (cloud_root_document c mac dev)"
  unfolding cloud_root_document_def Let_def by (auto intro!: keeps_intros)

lemma frame_compare [keeps_intros]:
  "keeps (others_same mac s0) (compare_and_finish c h mac t t' cl dev vm doc)"
  unfolding compare_and_finish_def Let_def
  by (auto intro!: keeps_intros split: prod.splits sum.splits)

lemma frame_BuildGetDocument:
  "keeps (others_same (fst (rheader_Get h HeaderDeviceId)) s0) (BuildGetDocument c h flds t t')"
  unfolding BuildGetDocument_def Let_def
  by (auto intro!: keeps_intros split: prod.splits sum.splits)

lemma frame_http304_loop [keeps_intros]:
  "keeps (others_same mac s0) (http304_loop c mac t l ids items)"
proof (induction items arbitrary: ids)
  case Nil
  then show ?case by simp
next
  case (Cons it items)
  then show ?case
    by (cases it) (auto simp: Let_def intro!: keeps_intros)
qed

lemma frame_apply_report [keeps_intros]:
  "keeps (others_same mac s0) (apply_report c mac m g l t ns sd)"
  unfolding apply_report_def Let_def by (auto intro!: keeps_intros)

lemma frame_UpdateDocumentState:
  "keeps (others_same mac s0) (UpdateDocumentState c mac m flds t ns)"
  unfolding UpdateDocumentState_def Let_def
  by (auto intro!: keeps_intros split: prod.splits option.splits sum.splits)

lemma frame_UpdateSubDocument [keeps_intros]:
  "keeps (others_same mac s0) (UpdateSubDocument c mac g n old vm t)"
  unfolding UpdateSubDocument_def Let_def by (auto intro!: keeps_intros)

lemma frame_WriteDocumentFromUpstream:
  "keeps (others_same mac s0) (WriteDocumentFromUpstream c mac etag nd d del vm now)"
  unfolding WriteDocumentFromUpstream_def by (auto intro!: keeps_intros split: prod.splits)

lemma frame_UpdateDocumentStateIndeployment:
  "keeps (others_same mac s0) (UpdateDocumentStateIndeployment c mac d t)"
  unfolding UpdateDocumentStateIndeployment_def mark_indeployment_def
  by (auto intro!: keeps_intros split: prod.splits)

lemma frame_PreprocessRootDocument:
  "keeps (others_same mac s0) (PreprocessRootDocument c h mac p)"
  unfolding PreprocessRootDocument_def Let_def by (auto intro!: keeps_intros)

lemma frame_load_refs_loop: "keeps P (load_refs_loop c nd items)"
proof (induction items arbitrary: nd)
  case Nil
  then show ?case by simp
next
  case (Cons it items)
  then show ?case
    by (cases it) (auto intro!: keeps_intros split: option.splits)
qed

lemma frame_LoadRefSubDocuments: "keeps P (LoadRefSubDocuments c d)"
  unfolding LoadRefSubDocuments_def by (rule frame_load_refs_loop)

lemma frame_BuildMqttSendDocument: "keeps P (BuildMqttSendDocument c mac)"
  unfolding BuildMqttSendDocument_def Let_def
  by (auto intro!: keeps_intros split: prod.splits option.splits)

lemma frame_UpdateStatesInBatch:
  "keeps (others_same mac s0) (UpdateStatesInBatch c mac a now sm)"
  unfolding UpdateStatesInBatch_def by (auto intro!: keeps_intros split: prod.splits)

end

end
