(* ===== verification/Metrics.thy ===== *)
theory Metrics
  imports DbClient
begin

text \<open>
  common/metrics.go: the gauges and counters that follow the deployment states. A prometheus
  vector is a function from label values to a number; the float values are whole numbers
  below 2^53 and modelled as integers. The writes that only feed the log are left out.
\<close>

text \<open>The values of the labels feature, client, model and fwversion.\<close>

datatype labelkey = LabelKey string string string string

type_synonym gauge = "labelkey \<Rightarrow> int"
type_synonym watched_gauge = "labelkey \<times> string \<Rightarrow> int"

record metrics =
  stateDeployed :: gauge
  statePendingDownload :: gauge
  stateInDeployment :: gauge
  stateFailure :: gauge
  watchedStateDeployed :: watched_gauge
  watchedStatePendingDownload :: watched_gauge
  watchedStateInDeployment :: watched_gauge
  watchedStateFailure :: watched_gauge
  deployedIncCount :: gauge
  deployedDecCount :: gauge
  pendingIncCount :: gauge
  pendingDecCount :: gauge
  indeploymentIncCount :: gauge
  indeploymentDecCount :: gauge
  failureIncCount :: gauge
  failureDecCount :: gauge
  watchedCpes :: "string list"

definition new_metrics :: "string list \<Rightarrow> metrics" where
  "new_metrics cpes = \<lparr>stateDeployed = (\<lambda>_. 0), statePendingDownload = (\<lambda>_. 0),
     stateInDeployment = (\<lambda>_. 0), stateFailure = (\<lambda>_. 0),
     watchedStateDeployed = (\<lambda>_. 0), watchedStatePendingDownload = (\<lambda>_. 0),
     watchedStateInDeployment = (\<lambda>_. 0), watchedStateFailure = (\<lambda>_. 0),
     deployedIncCount = (\<lambda>_. 0), deployedDecCount = (\<lambda>_. 0),
     pendingIncCount = (\<lambda>_. 0), pendingDecCount = (\<lambda>_. 0),
     indeploymentIncCount = (\<lambda>_. 0), indeploymentDecCount = (\<lambda>_. 0),
     failureIncCount = (\<lambda>_. 0), failureDecCount = (\<lambda>_. 0), watchedCpes = cpes\<rparr>"

definition vec_add :: "int \<Rightarrow> 'k \<Rightarrow> ('k \<Rightarrow> int) \<Rightarrow> 'k \<Rightarrow> int" where
  "vec_add n k g = g(k := g k + n)"

definition DeployedInc :: "labelkey \<Rightarrow> string \<Rightarrow> bool \<Rightarrow> metrics \<Rightarrow> metrics" where
  "DeployedInc k mac isWatchedCpe m =
     (let m = m\<lparr>stateDeployed := vec_add 1 k (stateDeployed m)\<rparr>;
          m = (if isWatchedCpe
               then m\<lparr>watchedStateDeployed := vec_add 1 (k, mac) (watchedStateDeployed m)\<rparr> else m)
      in m\<lparr>deployedIncCount := vec_add 1 k (deployedIncCount m)\<rparr>)"

definition DeployedDec :: "labelkey \<Rightarrow> string \<Rightarrow> bool \<Rightarrow> metrics \<Rightarrow> metrics" where
  "DeployedDec k mac isWatchedCpe m = m\<lparr>deployedDecCount := vec_add 1 k (deployedDecCount m)\<rparr>"

definition PendingDownloadInc :: "labelkey \<Rightarrow> string \<Rightarrow> bool \<Rightarrow> metrics \<Rightarrow> metrics" where
  "PendingDownloadInc k mac isWatchedCpe m =
     (let m = m\<lparr>statePendingDownload := vec_add 1 k (statePendingDownload m)\<rparr>;
          m = (if isWatchedCpe
               then m\<lparr>watchedStatePendingDownload := vec_add 1 (k, mac) (watchedStatePendingDownload m)\<rparr> else m)
      in m\<lparr>pendingIncCount := vec_add 1 k (pendingIncCount m)\<rparr>)"

definition PendingDownloadDec :: "labelkey \<Rightarrow> string \<Rightarrow> bool \<Rightarrow> metrics \<Rightarrow> metrics" where
  "PendingDownloadDec k mac isWatchedCpe m =
     (let m = m\<lparr>statePendingDownload := vec_add (-1) k (statePendingDownload m)\<rparr>;
          m = (if isWatchedCpe
               then m\<lparr>watchedStatePendingDownload := vec_add (-1) (k, mac) (watchedStatePendingDownload m)\<rparr> else m)
      in m\<lparr>pendingDecCount := vec_add 1 k (pendingDecCount m)\<rparr>)"

definition InDeploymentInc :: "labelkey \<Rightarrow> string \<Rightarrow> bool \<Rightarrow> metrics \<Rightarrow> metrics" where
  "InDeploymentInc k mac isWatchedCpe m =
     (let m = m\<lparr>stateInDeployment := vec_add 1 k (stateInDeployment m)\<rparr>;
          m = (if isWatchedCpe
               then m\<lparr>watchedStateInDeployment := vec_add 1 (k, mac) (watchedStateInDeployment m)\<rparr> else m)
      in m\<lparr>indeploymentIncCount := vec_add 1 k (indeploymentIncCount m)\<rparr>)"

definition InDeploymentDec :: "labelkey \<Rightarrow> string \<Rightarrow> bool \<Rightarrow> metrics \<Rightarrow> metrics" where
  "InDeploymentDec k mac isWatchedCpe m =
     (let m = m\<lparr>stateInDeployment := vec_add (-1) k (stateInDeployment m)\<rparr>;
          m = (if isWatchedCpe
               then m\<lparr>watchedStateInDeployment := vec_add (-1) (k, mac) (watchedStateInDeployment m)\<rparr> else m)
      in m\<lparr>indeploymentDecCount := vec_add 1 k (indeploymentDecCount m)\<rparr>)"

definition FailureInc :: "labelkey \<Rightarrow> string \<Rightarrow> bool \<Rightarrow> metrics \<Rightarrow> metrics" where
  "FailureInc k mac isWatchedCpe m =
     (let m = m\<lparr>stateFailure := vec_add 1 k (stateFailure m)\<rparr>;
          m = (if isWatchedCpe
               then m\<lparr>watchedStateFailure := vec_add 1 (k, mac) (watchedStateFailure m)\<rparr> else m)
      in m\<lparr>failureIncCount := vec_add 1 k (failureIncCount m)\<rparr>)"

definition FailureDec :: "labelkey \<Rightarrow> string \<Rightarrow> bool \<Rightarrow> metrics \<Rightarrow> metrics" where
  "FailureDec k mac isWatchedCpe m = m\<lparr>failureDecCount := vec_add 1 k (failureDecCount m)\<rparr>"

definition stateMetricsLabels :: "string list" where
  "stateMetricsLabels = [''feature'', ''client'', ''model'', ''fwversion'']"

fun rectify_loop :: "string list \<Rightarrow> labels \<Rightarrow> labels" where
  "rectify_loop [] ls = ls"
| "rectify_loop (x # xs) ls =
     rectify_loop xs (case map_of ls x of None \<Rightarrow> gomap_put x ''unknown'' ls | Some _ \<Rightarrow> ls)"

definition RectifyLabels :: "labels \<Rightarrow> labels" where
  "RectifyLabels ls = rectify_loop stateMetricsLabels ls"

text \<open>
  \<open>With(labels)\<close> panics unless the label names are exactly those of the vector.
\<close>

definition label_key :: "labels \<Rightarrow> labelkey option" where
  "label_key ls =
     (if list_all (\<lambda>(k, _). k \<in> set stateMetricsLabels) ls
         \<and> list_all (\<lambda>x. map_of ls x \<noteq> None) stateMetricsLabels
      then Some (LabelKey (gomap_get '''' ls ''feature'') (gomap_get '''' ls ''client'')
                 (gomap_get '''' ls ''model'') (gomap_get '''' ls ''fwversion''))
      else None)"

definition dec_old_state :: "int \<Rightarrow> labelkey \<Rightarrow> string \<Rightarrow> bool \<Rightarrow> metrics \<Rightarrow> metrics" where
  "dec_old_state oldState k mac w m =
     (if oldState = Deployed then DeployedDec k mac w m
      else if oldState = PendingDownload then PendingDownloadDec k mac w m
      else if oldState = InDeployment then InDeploymentDec k mac w m
      else if oldState = Failure then FailureDec k mac w m
      else m)"

definition inc_new_state :: "int \<Rightarrow> labelkey \<Rightarrow> string \<Rightarrow> bool \<Rightarrow> metrics \<Rightarrow> metrics" where
  "inc_new_state newState k mac w m =
     (if newState = Deployed then DeployedInc k mac w m
      else if newState = PendingDownload then PendingDownloadInc k mac w m
      else if newState = InDeployment then InDeploymentInc k mac w m
      else if newState = Failure then FailureInc k mac w m
      else m)"

text \<open>\<open>None\<close> is the panic of a vector asked for other labels than its own.\<close>

definition UpdateStateMetrics ::
  "int \<Rightarrow> int \<Rightarrow> labels \<Rightarrow> string \<Rightarrow> metrics \<Rightarrow> metrics option" where
  "UpdateStateMetrics oldState newState labels cpeMac m =
     (let isWatchedCpe = list_ex (\<lambda>x. x = cpeMac) (watchedCpes m)
      in case label_key (RectifyLabels labels) of
           None \<Rightarrow> None
         | Some k \<Rightarrow>
             Some (if oldState \<noteq> newState
                   then inc_new_state newState k cpeMac isWatchedCpe (dec_old_state oldState k cpeMac isWatchedCpe m)
                   else m))"

text \<open>\<open>GetStateCounter\<close>: the four gauges for one set of labels.\<close>

record statecounter =
  sc_deployed :: int
  sc_pending_download :: int
  sc_in_deployment :: int
  sc_failure :: int

definition GetStateCounter :: "labels \<Rightarrow> metrics \<Rightarrow> statecounter option" where
  "GetStateCounter labels m =
     (case label_key labels of
        None \<Rightarrow> None
      | Some k \<Rightarrow> Some \<lparr>sc_deployed = stateDeployed m k, sc_pending_download = statePendingDownload m k,
                        sc_in_deployment = stateInDeployment m k, sc_failure = stateFailure m k\<rparr>)"

definition ResetStateGauges :: "metrics \<Rightarrow> metrics" where
  "ResetStateGauges m = m\<lparr>stateDeployed := (\<lambda>_. 0), statePendingDownload := (\<lambda>_. 0),
     stateInDeployment := (\<lambda>_. 0), stateFailure := (\<lambda>_. 0)\<rparr>"

section \<open>Facts\<close>

text \<open>
  What every update keeps: two gauges are the difference of their counters, the other two
  count only entries into their state.
\<close>

definition metrics_inv :: "metrics \<Rightarrow> bool" where
  "metrics_inv m \<longleftrightarrow> (\<forall>k.
     statePendingDownload m k = pendingIncCount m k - pendingDecCount m k \<and>
     stateInDeployment m k = indeploymentIncCount m k - indeploymentDecCount m k \<and>
     stateDeployed m k = deployedIncCount m k \<and>
     stateFailure m k = failureIncCount m k)"

lemma vec_add_apply [simp]: "vec_add n k g k' = (if k' = k then g k + n else g k')"
  by (simp add: vec_add_def)

lemmas metrics_ops = DeployedInc_def DeployedDec_def PendingDownloadInc_def PendingDownloadDec_def
  InDeploymentInc_def InDeploymentDec_def FailureInc_def FailureDec_def

lemma metrics_inv_new: "metrics_inv (new_metrics cpes)"
  by (simp add: metrics_inv_def new_metrics_def)

lemma metrics_inv_dec: "metrics_inv m \<Longrightarrow> metrics_inv (dec_old_state st k mac w m)"
  by (simp add: metrics_inv_def dec_old_state_def metrics_ops Let_def)

lemma metrics_inv_inc: "metrics_inv m \<Longrightarrow> metrics_inv (inc_new_state st k mac w m)"
  by (simp add: metrics_inv_def inc_new_state_def metrics_ops Let_def)

lemma metrics_inv_update:
  "metrics_inv m \<Longrightarrow> UpdateStateMetrics o' n ls mac m = Some m' \<Longrightarrow> metrics_inv m'"
  by (auto simp: UpdateStateMetrics_def Let_def metrics_inv_dec metrics_inv_inc split: option.splits if_splits)

lemma watchedCpes_dec [simp]: "watchedCpes (dec_old_state st k mac w m) = watchedCpes m"
  and watchedCpes_inc [simp]: "watchedCpes (inc_new_state st k mac w m) = watchedCpes m"
  by (simp_all add: dec_old_state_def inc_new_state_def metrics_ops Let_def)

lemma map_of_rectify_loop:
  "map_of (rectify_loop xs ls) x =
     (case map_of ls x of Some v \<Rightarrow> Some v | None \<Rightarrow> if x \<in> set xs then Some ''unknown'' else None)"
  by (induction xs ls rule: rectify_loop.induct) (auto split: option.splits)

text \<open>A sequence of updates, each with the old and the new state, the labels and the device.\<close>

fun update_all :: "(int \<times> int \<times> labels \<times> string) list \<Rightarrow> metrics \<Rightarrow> metrics option" where
  "update_all [] m = Some m"
| "update_all ((old, new, ls, mac) # us) m =
     (case UpdateStateMetrics old new ls mac m of None \<Rightarrow> None | Some m' \<Rightarrow> update_all us m')"

lemma update_all_inv: "metrics_inv m \<Longrightarrow> update_all us m = Some m' \<Longrightarrow> metrics_inv m'"
  by (induction us m rule: update_all.induct) (auto simp: metrics_inv_update split: option.splits)

end
