(* ===== verification/SqliteClient.thy ===== *)
theory SqliteClient
  imports SqlEngine ServiceUpdate Metrics
begin

text \<open>
  db/sqlite/document.go, root_document.go and refsubdocument.go: the database client over the
  SQL engine. Every operation is the one statement (or the sequence of statements) the code
  sends, with the rows scanned back into the program's records. The semaphore around each
  operation is modelled in theory Semaphore, the creation of the tables in theory Schema.
\<close>

record 'd sqlite =
  sq_db :: 'd
  sq_metrics :: "metrics option"

record sqlite_config =
  blockedSubdocIds :: "string list"
  stateCorrectionEnabled :: bool
  lockRootDocumentEnabled :: bool
  supplementaryPrecookEnabled :: bool
  supplementaryPrecookStateTTLDays :: int

definition sq_exec :: "'d engine \<Rightarrow> stmt \<Rightarrow> sqlval list \<Rightarrow> ('d sqlite, unit) prog" where
  "sq_exec E st vals = (\<lambda>s. case eng_exec E st vals (sq_db s) of
      (None, d) \<Rightarrow> (Ok (), s\<lparr>sq_db := d\<rparr>)
    | (Some e, d) \<Rightarrow> (Err (NewError e), s\<lparr>sq_db := d\<rparr>))"

definition sq_query :: "'d engine \<Rightarrow> sqlquery \<Rightarrow> sqlval list \<Rightarrow> ('d sqlite, sqlval list list) prog" where
  "sq_query E q vals = (\<lambda>s. case eng_query E q vals (sq_db s) of
      Inl e \<Rightarrow> (Err (NewError e), s)
    | Inr rows \<Rightarrow> (Ok rows, s))"

definition sq_IsDbNotFound :: "goerr \<Rightarrow> bool" where
  "sq_IsDbNotFound err = errors_Is err ErrNoRows"

section \<open>Scanning\<close>

text \<open>
  \<open>Rows.Scan\<close> into \<open>sql.NullString\<close>, \<open>sql.NullInt64\<close> and \<open>[]byte\<close>, with the conversions
  of database/sql; a text that is not a number does not scan into an integer.
\<close>

fun scan_string :: "sqlval \<Rightarrow> string option" where
  "scan_string VNull = None"
| "scan_string (VInt i) = Some (itoa i)"
| "scan_string (VText t) = Some t"
| "scan_string (VBlob b) = Some b"

fun scan_bytes :: "sqlval \<Rightarrow> bytes option" where
  "scan_bytes VNull = None"
| "scan_bytes (VInt i) = Some (itoa i)"
| "scan_bytes (VText t) = Some t"
| "scan_bytes (VBlob b) = Some b"

definition scan_number :: "string \<Rightarrow> goerr + int option" where
  "scan_number t = (case atoi t of
     None \<Rightarrow> Inl (ErrText ''sql: Scan error: invalid syntax'') | Some i \<Rightarrow> Inr (Some i))"

fun scan_int :: "sqlval \<Rightarrow> goerr + int option" where
  "scan_int VNull = Inr None"
| "scan_int (VInt i) = Inr (Some i)"
| "scan_int (VText t) = scan_number t"
| "scan_int (VBlob b) = scan_number b"

definition scan_error :: goerr where
  "scan_error = ErrText ''sql: wrong number of destination arguments in Scan''"

definition or_scan :: "goerr + 'a \<Rightarrow> ('a \<Rightarrow> goerr + 'b) \<Rightarrow> goerr + 'b" where
  "or_scan m k = (case m of Inl e \<Rightarrow> Inl e | Inr x \<Rightarrow> k x)"

section \<open>Sub-documents\<close>

definition subdoc_columns :: "string list" where
  "subdoc_columns = [''payload'', ''state'', ''updated_time'', ''version'', ''error_code'', ''error_details'', ''expiry'']"

text \<open>A row of \<open>subdoc_columns\<close>.\<close>

definition scan_subdoc :: "sqlval list \<Rightarrow> goerr + subdoc" where
  "scan_subdoc row =
     (case row of
        [b1, ni1, nt1, ns1, ni2, ns2, nt2] \<Rightarrow>
          or_scan (scan_int ni1) (\<lambda>i1.
          or_scan (scan_int nt1) (\<lambda>ts.
          or_scan (scan_int ni2) (\<lambda>i2.
          or_scan (scan_int nt2) (\<lambda>expiry.
            (let doc = NewSubDocument (scan_bytes b1) (scan_string ns1) i1 ts i2 (scan_string ns2)
             in Inr (if expiry \<noteq> None then doc\<lparr>sd_expiry := expiry\<rparr> else doc))))))
      | _ \<Rightarrow> Inl scan_error)"

definition scan_refsubdoc :: "sqlval list \<Rightarrow> goerr + refsubdoc" where
  "scan_refsubdoc row =
     (case row of [b1, ns1] \<Rightarrow> Inr (NewRefSubDocument (scan_bytes b1) (scan_string ns1)) | _ \<Rightarrow> Inl scan_error)"

text \<open>\<open>if !rows.Next() \<dots> rows.Scan(\<dots>)\<close>: the first row, or \<open>sql.ErrNoRows\<close>.\<close>

definition first_row :: "(sqlval list \<Rightarrow> goerr + 'a) \<Rightarrow> sqlval list list \<Rightarrow> ('s, 'a) prog" where
  "first_row scan rows =
     (case rows of
        [] \<Rightarrow> throw ErrNoRows
      | r # _ \<Rightarrow> (case scan r of Inl e \<Rightarrow> throw (NewError e) | Inr x \<Rightarrow> ret x))"

definition sq_GetRefSubDocument :: "'d engine \<Rightarrow> string \<Rightarrow> ('d sqlite, refsubdoc) prog" where
  "sq_GetRefSubDocument E refId =
     tryE (sq_query E (SelectFrom ''reference_document'' [''payload'', ''version''] [''ref_id'']) [VText refId])
       throw (first_row scan_refsubdoc)"

text \<open>
  A payload that refers to a shared one is replaced by it; a reference that is not there
  leaves the payload as it is.
\<close>

definition sq_resolve_ref :: "'d engine \<Rightarrow> subdoc \<Rightarrow> ('d sqlite, subdoc) prog" where
  "sq_resolve_ref E doc =
     (case GetRefId (payload_bytes (sd_payload doc)) of
        None \<Rightarrow> ret doc
      | Some refId \<Rightarrow>
          tryE (sq_GetRefSubDocument E refId)
            (\<lambda>err. if \<not> sq_IsDbNotFound err then throw (NewError err) else ret doc)
            (\<lambda>refsubdocument. ret (doc\<lparr>sd_payload := rs_payload refsubdocument\<rparr>)))"

definition sq_GetSubDocument :: "'d engine \<Rightarrow> string \<Rightarrow> string \<Rightarrow> ('d sqlite, subdoc) prog" where
  "sq_GetSubDocument E cpeMac groupId =
     tryE (sq_query E (SelectFrom ''xpc_group_config'' subdoc_columns [''cpe_mac'', ''group_id''])
             [VText cpeMac, VText groupId]) throw
       (\<lambda>rows. tryE (first_row scan_subdoc rows) throw (sq_resolve_ref E))"

text \<open>The columns of the non-nil fields, with their values, in the order of the code.\<close>

definition opt_col :: "string \<Rightarrow> ('a \<Rightarrow> sqlval) \<Rightarrow> 'a option \<Rightarrow> (string \<times> sqlval) list" where
  "opt_col name f p = (case p of None \<Rightarrow> [] | Some x \<Rightarrow> [(name, f x)])"

definition insert_subdoc_cols :: "string \<Rightarrow> string \<Rightarrow> subdoc \<Rightarrow> (string \<times> sqlval) list" where
  "insert_subdoc_cols cpeMac groupId doc =
     [(''cpe_mac'', VText cpeMac), (''group_id'', VText groupId)]
     @ opt_col ''payload'' VBlob (sd_payload doc)
     @ opt_col ''version'' VText (sd_version doc)
     @ opt_col ''state'' VInt (sd_state doc)
     @ opt_col ''updated_time'' VInt (sd_updated_time doc)
     @ opt_col ''expiry'' VInt (sd_expiry doc)
     @ opt_col ''error_code'' VInt (sd_error_code doc)
     @ opt_col ''error_details'' VText (sd_error_details doc)"

definition sq_insertSubDocument :: "'d engine \<Rightarrow> string \<Rightarrow> string \<Rightarrow> subdoc \<Rightarrow> ('d sqlite, unit) prog" where
  "sq_insertSubDocument E cpeMac groupId doc =
     (let cvs = insert_subdoc_cols cpeMac groupId doc
      in sq_exec E (InsertInto ''xpc_group_config'' (map fst cvs)) (map snd cvs))"

definition update_subdoc_cols :: "subdoc \<Rightarrow> (string \<times> sqlval) list" where
  "update_subdoc_cols doc =
     opt_col ''payload'' VBlob (sd_payload doc)
     @ opt_col ''version'' VText (sd_version doc)
     @ opt_col ''state'' VInt (sd_state doc)
     @ opt_col ''updated_time'' VInt (sd_updated_time doc)
     @ opt_col ''error_code'' VInt (sd_error_code doc)
     @ opt_col ''error_details'' VText (sd_error_details doc)"

definition sq_updateSubDocument :: "'d engine \<Rightarrow> string \<Rightarrow> string \<Rightarrow> subdoc \<Rightarrow> ('d sqlite, unit) prog" where
  "sq_updateSubDocument E cpeMac groupId doc =
     (let cvs = update_subdoc_cols doc
      in sq_exec E (UpdateSet ''xpc_group_config'' (map fst cvs) [''cpe_mac'', ''group_id''])
           (map snd cvs @ [VText cpeMac, VText groupId]))"

definition default_labels :: labels where
  "default_labels = [(''model'', ''unknown''), (''fwversion'', ''unknown''), (''client'', ''default'')]"

definition sq_count_state ::
  "string \<Rightarrow> string \<Rightarrow> subdoc \<Rightarrow> int \<Rightarrow> labels \<Rightarrow> ('d sqlite, unit) prog" where
  "sq_count_state cpeMac groupId doc oldState labels = (\<lambda>s.
     case (sq_metrics s, sd_state doc) of
       (Some m, Some newState) \<Rightarrow>
         (case UpdateStateMetrics oldState newState (gomap_put ''feature'' groupId labels) cpeMac m of
            None \<Rightarrow> (Panic, s)
          | Some m' \<Rightarrow> (Ok (), s\<lparr>sq_metrics := Some m'\<rparr>))
     | _ \<Rightarrow> (Ok (), s))"

definition sq_SetSubDocument ::
  "'d engine \<Rightarrow> string \<Rightarrow> string \<Rightarrow> subdoc \<Rightarrow> int \<Rightarrow> labels option \<Rightarrow> ('d sqlite, unit) prog" where
  "sq_SetSubDocument E cpeMac groupId doc oldState labels_arg =
     (let labels = (case labels_arg of None \<Rightarrow> default_labels | Some l \<Rightarrow> l);
          count = (\<lambda>_. sq_count_state cpeMac groupId doc oldState labels)
      in tryE (sq_GetSubDocument E cpeMac groupId)
           (\<lambda>err. if sq_IsDbNotFound err
                   then bindE (sq_insertSubDocument E cpeMac groupId doc) count
                   else throw (NewError err))
           (\<lambda>_. bindE (sq_updateSubDocument E cpeMac groupId doc) count))"

definition sq_DeleteSubDocument :: "'d engine \<Rightarrow> string \<Rightarrow> string \<Rightarrow> ('d sqlite, unit) prog" where
  "sq_DeleteSubDocument E cpeMac groupId =
     sq_exec E (DeleteFrom ''xpc_group_config'' [''cpe_mac'', ''group_id'']) [VText cpeMac, VText groupId]"

definition sq_DeleteSubDocumentColumns ::
  "'d engine \<Rightarrow> string \<Rightarrow> string \<Rightarrow> string list \<Rightarrow> ('d sqlite, unit) prog" where
  "sq_DeleteSubDocumentColumns E cpeMac groupId columns =
     (if length columns = 0 then ret ()
      else sq_exec E (UpdateNull ''xpc_group_config'' columns [''cpe_mac'', ''group_id''])
             [VText cpeMac, VText groupId])"

definition sq_DeleteDocument :: "'d engine \<Rightarrow> string \<Rightarrow> ('d sqlite, unit) prog" where
  "sq_DeleteDocument E cpeMac = sq_exec E (DeleteFrom ''xpc_group_config'' [''cpe_mac'']) [VText cpeMac]"

text \<open>\<open>GetDocument\<close> reads no expiry. An empty result comes with \<open>sql.ErrNoRows\<close>.\<close>

definition document_columns :: "string list" where
  "document_columns = [''group_id'', ''payload'', ''state'', ''updated_time'', ''version'', ''error_code'', ''error_details'']"

definition scan_document_row :: "sqlval list \<Rightarrow> goerr + (string \<times> subdoc)" where
  "scan_document_row row =
     (case row of
        [ns0, b1, ni1, nt1, ns1, ni2, ns2] \<Rightarrow>
          or_scan (scan_int ni1) (\<lambda>i1.
          or_scan (scan_int nt1) (\<lambda>ts.
          or_scan (scan_int ni2) (\<lambda>i2.
            Inr (case scan_string ns0 of None \<Rightarrow> '''' | Some g \<Rightarrow> g,
                 NewSubDocument (scan_bytes b1) (scan_string ns1) i1 ts i2 (scan_string ns2)))))
      | _ \<Rightarrow> Inl scan_error)"

fun scan_document :: "document \<Rightarrow> sqlval list list \<Rightarrow> goerr + document" where
  "scan_document d [] = Inr d"
| "scan_document d (r # rows) =
     or_scan (scan_document_row r) (\<lambda>(groupId, doc). scan_document (SetSubDocument d groupId doc) rows)"

definition sq_GetDocument :: "'d engine \<Rightarrow> string \<Rightarrow> ('d sqlite, document option \<times> goerr option) prog" where
  "sq_GetDocument E cpeMac =
     tryE (sq_query E (SelectFrom ''xpc_group_config'' document_columns [''cpe_mac'']) [VText cpeMac])
       (\<lambda>err. ret (None, Some err))
       (\<lambda>rows. case scan_document (NewDocument None) rows of
            Inl e \<Rightarrow> ret (None, Some (NewError e))
          | Inr d \<Rightarrow> if doc_Length d = 0 then ret (Some d, Some (NewError ErrNoRows)) else ret (Some d, None))"

section \<open>Root documents\<close>

definition root_columns :: "string list" where
  "root_columns = [''bitmap'', ''firmware_version'', ''model_name'', ''partner_id'', ''schema_version'',
     ''version'', ''product_class'', ''account_type'']"

definition str_or_empty :: "string option \<Rightarrow> string" where
  "str_or_empty p = (case p of None \<Rightarrow> '''' | Some t \<Rightarrow> t)"

definition scan_rootdoc :: "sqlval list \<Rightarrow> goerr + rootdoc" where
  "scan_rootdoc row =
     (case row of
        [ni, ns1, ns2, ns3, ns4, ns5, ns6, ns7] \<Rightarrow>
          or_scan (scan_int ni) (\<lambda>bitmap.
            Inr (NewRootDocument (case bitmap of None \<Rightarrow> 0 | Some b \<Rightarrow> b)
              (str_or_empty (scan_string ns1)) (str_or_empty (scan_string ns2))
              (str_or_empty (scan_string ns3)) (str_or_empty (scan_string ns4))
              (str_or_empty (scan_string ns5)) '''' (str_or_empty (scan_string ns6))
              (str_or_empty (scan_string ns7))))
      | _ \<Rightarrow> Inl scan_error)"

definition sq_GetRootDocument :: "'d engine \<Rightarrow> string \<Rightarrow> ('d sqlite, rootdoc) prog" where
  "sq_GetRootDocument E cpeMac =
     tryE (sq_query E (SelectFrom ''root_document'' root_columns [''cpe_mac'']) [VText cpeMac])
       throw (first_row scan_rootdoc)"

definition sq_insertRootDocumentVersion :: "'d engine \<Rightarrow> string \<Rightarrow> string \<Rightarrow> ('d sqlite, unit) prog" where
  "sq_insertRootDocumentVersion E cpeMac version =
     sq_exec E (InsertInto ''root_document'' [''cpe_mac'', ''version'']) [VText cpeMac, VText version]"

definition sq_updateRootDocumentVersion :: "'d engine \<Rightarrow> string \<Rightarrow> string \<Rightarrow> ('d sqlite, unit) prog" where
  "sq_updateRootDocumentVersion E cpeMac version =
     sq_exec E (UpdateSet ''root_document'' [''version''] [''cpe_mac'']) [VText version, VText cpeMac]"

definition sq_SetRootDocumentVersion :: "'d engine \<Rightarrow> string \<Rightarrow> string \<Rightarrow> ('d sqlite, unit) prog" where
  "sq_SetRootDocumentVersion E cpeMac version =
     tryE (sq_GetRootDocument E cpeMac)
       (\<lambda>err. if sq_IsDbNotFound err then sq_insertRootDocumentVersion E cpeMac version
               else throw (NewError err))
       (\<lambda>_. sq_updateRootDocumentVersion E cpeMac version)"

definition sq_insertRootDocumentBitmap :: "'d engine \<Rightarrow> string \<Rightarrow> int \<Rightarrow> ('d sqlite, unit) prog" where
  "sq_insertRootDocumentBitmap E cpeMac bitmap =
     sq_exec E (InsertInto ''root_document'' [''cpe_mac'', ''bitmap'']) [VText cpeMac, VInt bitmap]"

definition sq_updateRootDocumentBitmap :: "'d engine \<Rightarrow> string \<Rightarrow> int \<Rightarrow> ('d sqlite, unit) prog" where
  "sq_updateRootDocumentBitmap E cpeMac bitmap =
     sq_exec E (UpdateSet ''root_document'' [''bitmap''] [''cpe_mac'']) [VInt bitmap, VText cpeMac]"

definition sq_SetRootDocumentBitmap :: "'d engine \<Rightarrow> string \<Rightarrow> int \<Rightarrow> ('d sqlite, unit) prog" where
  "sq_SetRootDocumentBitmap E cpeMac bitmap =
     tryE (sq_GetRootDocument E cpeMac)
       (\<lambda>err. if sq_IsDbNotFound err then sq_insertRootDocumentBitmap E cpeMac bitmap
               else throw (NewError err))
       (\<lambda>_. sq_updateRootDocumentBitmap E cpeMac bitmap)"

definition sq_DeleteRootDocument :: "'d engine \<Rightarrow> string \<Rightarrow> ('d sqlite, unit) prog" where
  "sq_DeleteRootDocument E cpeMac = sq_exec E (DeleteFrom ''root_document'' [''cpe_mac'']) [VText cpeMac]"

definition sq_DeleteRootDocumentVersion :: "'d engine \<Rightarrow> string \<Rightarrow> ('d sqlite, unit) prog" where
  "sq_DeleteRootDocumentVersion E cpeMac =
     tryE (sq_GetRootDocument E cpeMac)
       (\<lambda>err. if sq_IsDbNotFound err then ret () else throw (NewError err))
       (\<lambda>_. sq_exec E (UpdateNull ''root_document'' [''version''] [''cpe_mac'']) [VText cpeMac])"

definition root_cols :: "rootdoc \<Rightarrow> (string \<times> sqlval) list" where
  "root_cols rd =
     [(''bitmap'', VInt (rd_bitmap rd)), (''firmware_version'', VText (rd_firmware_version rd)),
      (''model_name'', VText (rd_model_name rd)), (''partner_id'', VText (rd_partner_id rd)),
      (''schema_version'', VText (rd_schema_version rd)), (''version'', VText (rd_version rd)),
      (''product_class'', VText (rd_product_class rd)), (''account_type'', VText (rd_account_type rd))]"

definition sq_insertRootDocument :: "'d engine \<Rightarrow> string \<Rightarrow> rootdoc \<Rightarrow> ('d sqlite, unit) prog" where
  "sq_insertRootDocument E cpeMac rd =
     sq_exec E (InsertInto ''root_document'' (''cpe_mac'' # map fst (root_cols rd)))
       (VText cpeMac # map snd (root_cols rd))"

definition sq_updateRootDocument :: "'d engine \<Rightarrow> string \<Rightarrow> rootdoc \<Rightarrow> ('d sqlite, unit) prog" where
  "sq_updateRootDocument E cpeMac rd =
     sq_exec E (UpdateSet ''root_document'' (map fst (root_cols rd)) [''cpe_mac''])
       (map snd (root_cols rd) @ [VText cpeMac])"

definition sq_SetRootDocument :: "'d engine \<Rightarrow> string \<Rightarrow> rootdoc \<Rightarrow> ('d sqlite, unit) prog" where
  "sq_SetRootDocument E cpeMac inRootdoc =
     tryE (sq_GetRootDocument E cpeMac)
       (\<lambda>err. if \<not> sq_IsDbNotFound err then throw (NewError err)
               else bindE (sq_insertRootDocument E cpeMac inRootdoc) (\<lambda>_. ret ()))
       (\<lambda>rootdoc. bindE (sq_updateRootDocument E cpeMac (root_Update rootdoc inRootdoc)) (\<lambda>_. ret ()))"

definition sq_GetRootDocumentLabels :: "'d engine \<Rightarrow> string \<Rightarrow> ('d sqlite, labels) prog" where
  "sq_GetRootDocumentLabels E cpeMac =
     bindE (sq_GetRootDocument E cpeMac)
       (\<lambda>rdoc. ret [(''model'', rd_model_name rdoc), (''fwversion'', rd_firmware_version rdoc)])"

section \<open>Shared payloads\<close>

definition refsubdoc_cols :: "refsubdoc \<Rightarrow> (string \<times> sqlval) list" where
  "refsubdoc_cols d = opt_col ''payload'' VBlob (rs_payload d) @ opt_col ''version'' VText (rs_version d)"

definition sq_insertRefSubDocument :: "'d engine \<Rightarrow> string \<Rightarrow> refsubdoc \<Rightarrow> ('d sqlite, unit) prog" where
  "sq_insertRefSubDocument E refId refsubdoc =
     (let cvs = (''ref_id'', VText refId) # refsubdoc_cols refsubdoc
      in sq_exec E (InsertInto ''reference_document'' (map fst cvs)) (map snd cvs))"

text \<open>
  The condition names a column the table does not have, and two columns for one value.
\<close>

definition sq_updateRefSubDocument :: "'d engine \<Rightarrow> string \<Rightarrow> refsubdoc \<Rightarrow> ('d sqlite, unit) prog" where
  "sq_updateRefSubDocument E refId doc =
     (let cvs = refsubdoc_cols doc
      in sq_exec E (UpdateSet ''reference_document'' (map fst cvs) [''cpe_mac'', ''ref_id''])
           (map snd cvs @ [VText refId]))"

definition sq_SetRefSubDocument :: "'d engine \<Rightarrow> string \<Rightarrow> refsubdoc \<Rightarrow> ('d sqlite, unit) prog" where
  "sq_SetRefSubDocument E refId refsubdoc =
     tryE (sq_GetRefSubDocument E refId)
       (\<lambda>err. if sq_IsDbNotFound err
               then bindE (sq_insertRefSubDocument E refId refsubdoc) (\<lambda>_. ret ())
               else throw (NewError err))
       (\<lambda>_. bindE (sq_updateRefSubDocument E refId refsubdoc) (\<lambda>_. ret ()))"

definition sq_DeleteRefSubDocument :: "'d engine \<Rightarrow> string \<Rightarrow> ('d sqlite, unit) prog" where
  "sq_DeleteRefSubDocument E refId = sq_exec E (DeleteFrom ''reference_document'' [''ref_id'']) [VText refId]"

section \<open>The client\<close>

definition sqlite_client :: "'d engine \<Rightarrow> sqlite_config \<Rightarrow> 'd sqlite db_client" where
  "sqlite_client E cfg = \<lparr>
     db_GetSubDocument = sq_GetSubDocument E,
     db_SetSubDocument = (\<lambda>mac g d st l. sq_SetSubDocument E mac g d st (Some l)),
     db_DeleteSubDocument = sq_DeleteSubDocument E,
     db_DeleteSubDocumentColumns = sq_DeleteSubDocumentColumns E,
     db_GetDocument = (\<lambda>mac xargs. sq_GetDocument E mac),
     db_DeleteDocument = sq_DeleteDocument E,
     db_GetRootDocument = sq_GetRootDocument E,
     db_SetRootDocument = sq_SetRootDocument E,
     db_DeleteRootDocument = sq_DeleteRootDocument E,
     db_SetRootDocumentVersion = sq_SetRootDocumentVersion E,
     db_SetRootDocumentBitmap = sq_SetRootDocumentBitmap E,
     db_DeleteRootDocumentVersion = sq_DeleteRootDocumentVersion E,
     db_GetRootDocumentLabels = sq_GetRootDocumentLabels E,
     db_IsDbNotFound = sq_IsDbNotFound,
     db_GetRefSubDocument = sq_GetRefSubDocument E,
     db_SetRefSubDocument = sq_SetRefSubDocument E,
     db_DeleteRefSubDocument = sq_DeleteRefSubDocument E,
     db_BlockedSubdocIds = blockedSubdocIds cfg,
     db_StateCorrectionEnabled = stateCorrectionEnabled cfg,
     db_LockRootDocumentEnabled = lockRootDocumentEnabled cfg,
     db_SupplementaryPrecookEnabled = supplementaryPrecookEnabled cfg,
     db_SupplementaryPrecookStateTTLDays = supplementaryPrecookStateTTLDays cfg\<rparr>"

end
