(* ===== verification/SqliteFacts.thy ===== *)
theory SqliteFacts
  imports SqliteClient
begin

text \<open>
  What the sqlite client guarantees over any SQL engine: reading changes nothing, an
  operation on a device touches no row of another device and one table only, primary keys
  stay unique, and what was stored is read back. The first part interprets the contract
  \<open>db_frame\<close> of the services.
\<close>

definition sq_tables :: "'d engine \<Rightarrow> 'd sqlite \<Rightarrow> tables" where
  "sq_tables E s = eng_tables E (sq_db s)"

definition sq_subs :: "'d engine \<Rightarrow> 'd sqlite \<Rightarrow> string \<Rightarrow> row list" where
  "sq_subs E s mac = rows_with ''cpe_mac'' (VText mac) (sq_tables E s ''xpc_group_config'')"

definition sq_roots :: "'d engine \<Rightarrow> 'd sqlite \<Rightarrow> string \<Rightarrow> row list" where
  "sq_roots E s mac = rows_with ''cpe_mac'' (VText mac) (sq_tables E s ''root_document'')"

section \<open>Reading changes nothing\<close>

lemma sq_query_pure [simp]: "snd (sq_query E q vs s) = s"
  by (simp add: sq_query_def split: sum.splits)

lemma keeps_sq_query [keeps_intros]: "keeps P (sq_query E q vs)"
  by (simp add: keeps_def)

lemma keeps_first_row [keeps_intros]: "keeps P (first_row scan rows)"
  by (simp add: first_row_def split: list.splits sum.splits)

lemma keeps_sq_GetRefSubDocument [keeps_intros]: "keeps P (sq_GetRefSubDocument E r)"
  unfolding sq_GetRefSubDocument_def by (auto intro!: keeps_intros)

lemma keeps_sq_resolve_ref [keeps_intros]: "keeps P (sq_resolve_ref E d)"
  unfolding sq_resolve_ref_def by (auto intro!: keeps_intros split: option.splits)

lemma keeps_sq_GetSubDocument [keeps_intros]: "keeps P (sq_GetSubDocument E mac g)"
  unfolding sq_GetSubDocument_def by (auto intro!: keeps_intros)

lemma keeps_sq_GetDocument [keeps_intros]: "keeps P (sq_GetDocument E mac)"
  unfolding sq_GetDocument_def by (auto intro!: keeps_intros split: sum.splits)

lemma keeps_sq_GetRootDocument [keeps_intros]: "keeps P (sq_GetRootDocument E mac)"
  unfolding sq_GetRootDocument_def by (auto intro!: keeps_intros)

lemma keeps_sq_GetRootDocumentLabels [keeps_intros]: "keeps P (sq_GetRootDocumentLabels E mac)"
  unfolding sq_GetRootDocumentLabels_def by (auto intro!: keeps_intros)

lemma keeps_all_pure: "(\<And>P. keeps P m) \<Longrightarrow> snd (m s) = s"
  using keepsD[of "\<lambda>x. x = s" m s] by (metis prod.collapse)

lemma sqlite_reads_pure:
  "snd (sq_GetSubDocument E mac g s) = s" "snd (sq_GetDocument E mac s) = s"
  "snd (sq_GetRootDocument E mac s) = s" "snd (sq_GetRootDocumentLabels E mac s) = s"
  "snd (sq_GetRefSubDocument E r s) = s"
  by (rule keeps_all_pure, rule keeps_intros)+

section \<open>One statement\<close>

text \<open>The rows a statement on the keys of a device may touch.\<close>

fun stmt_device :: "stmt \<Rightarrow> sqlval list \<Rightarrow> sqlval option" where
  "stmt_device (InsertInto t (c # cols)) (v # vals) =
     (if c = ''cpe_mac'' \<and> ''cpe_mac'' \<notin> set cols then Some v else None)"
| "stmt_device (UpdateSet t cols (w # ws)) vals =
     (if w = ''cpe_mac'' \<and> ''cpe_mac'' \<notin> set cols \<and> length cols < length vals
      then Some (vals ! length cols) else None)"
| "stmt_device (UpdateNull t cols (w # ws)) (v # vals) =
     (if w = ''cpe_mac'' then Some v else None)"
| "stmt_device (DeleteFrom t (w # ws)) (v # vals) = (if w = ''cpe_mac'' then Some v else None)"
| "stmt_device _ _ = None"

lemma drop_eq_nth_Cons: "n < length xs \<Longrightarrow> drop n xs = xs ! n # drop (Suc n) xs"
  by (rule Cons_nth_drop_Suc[symmetric])

lemma sql_effect_device:
  assumes "sql_effect st vs T = Some T'" "stmt_device st vs = Some v" "v' \<noteq> v" "v' \<noteq> VNull"
  shows "rows_with ''cpe_mac'' v' (T' t) = rows_with ''cpe_mac'' v' (T t)"
proof (cases "t = stmt_table st")
  case False
  then show ?thesis using assms(1) by (simp add: sql_effect_other_table)
next
  case True
  with assms show ?thesis
  proof (induction st vs rule: stmt_device.induct)
    case (1 t c cols w vals)
    then show ?case
      by (auto simp: Let_def rows_with_def set_row_other split: if_splits)
  next
    case (2 t cols w ws vals)
    then show ?case
      by (auto simp: Let_def set_row_other drop_eq_nth_Cons intro!: rows_with_update_where split: if_splits)
  next
    case (3 tb cols w ws u vals)
    have ne: "v' \<noteq> v" "v' \<noteq> VNull" using 3 by simp_all
    have w: "w = ''cpe_mac''" "u = v"
      and T': "T' t = update_where (w # ws) (u # vals) (set_row cols (replicate (length cols) VNull)) (T t)"
      using 3 by (auto simp: Let_def split: if_splits)
    show ?case unfolding T'
      by (rule rows_with_update_where)
         (use ne w set_row_null[of cols _ "''cpe_mac''"] in force)
  next
    case (4 t w ws v vals)
    then show ?case
      by (auto simp: rows_with_def intro: filter_cong split: if_splits)
  qed auto
qed

declare stmt_device.simps [simp del]

context sql_engine
begin

lemma keeps_exec:
  assumes "\<And>T T'. P T \<Longrightarrow> sql_effect st vs T = Some T' \<Longrightarrow> P T'"
  shows "keeps (\<lambda>s. P (sq_tables E s)) (sq_exec E st vs)"
proof (rule keepsI)
  fix s assume "P (sq_tables E s)"
  moreover obtain r d where x: "eng_exec E st vs (sq_db s) = (r, d)" by fastforce
  ultimately have "P (eng_tables E d)"
    using assms exec_cases[OF x] by (auto simp: sq_tables_def)
  then show "P (sq_tables E (snd (sq_exec E st vs s)))"
    by (cases r) (simp_all add: sq_exec_def x sq_tables_def)
qed

text \<open>The frame of a statement: the other devices' rows, and all rows of the other tables.\<close>

definition sq_frame :: "string \<Rightarrow> string \<Rightarrow> tables \<Rightarrow> tables \<Rightarrow> bool" where
  "sq_frame mac table T0 T \<longleftrightarrow>
     (\<forall>t. t \<noteq> table \<longrightarrow> T t = T0 t)
     \<and> (\<forall>m. m \<noteq> mac \<longrightarrow> rows_with ''cpe_mac'' (VText m) (T table) = rows_with ''cpe_mac'' (VText m) (T0 table))"

lemma sq_frame_refl [simp]: "sq_frame mac t T T"
  by (simp add: sq_frame_def)

lemma sq_frame_exec [keeps_intros]:
  assumes "stmt_table st = t" "stmt_device st vs = Some (VText mac)"
  shows "keeps (\<lambda>s. sq_frame mac t T0 (sq_tables E s)) (sq_exec E st vs)"
  using assms
  by (intro keeps_exec) (auto simp: sq_frame_def sql_effect_device dest: sql_effect_other_table)

end

lemma keeps_sq_count_state [keeps_intros]:
  "keeps (\<lambda>s. P (sq_tables E s)) (sq_count_state mac g d st l)"
  by (auto simp: keeps_def sq_count_state_def sq_tables_def split: option.splits)

lemma map_fst_opt_col: "map fst (opt_col n f p) = (case p of None \<Rightarrow> [] | Some _ \<Rightarrow> [n])"
  by (simp add: opt_col_def split: option.splits)

lemma update_subdoc_cols_keys: "''cpe_mac'' \<notin> fst ` set (update_subdoc_cols d)"
  by (auto simp: update_subdoc_cols_def opt_col_def split: option.splits)

lemma insert_subdoc_device [simp]:
  "stmt_device (InsertInto t (map fst (insert_subdoc_cols mac g d))) (map snd (insert_subdoc_cols mac g d))
     = Some (VText mac)"
  by (auto simp: stmt_device.simps insert_subdoc_cols_def opt_col_def split: option.splits)

lemma update_subdoc_device [simp]:
  "stmt_device (UpdateSet t (map fst (update_subdoc_cols d)) (''cpe_mac'' # ws))
     (map snd (update_subdoc_cols d) @ v # vs) = Some v"
  using update_subdoc_cols_keys[of d] by (simp add: stmt_device.simps nth_append)

lemma root_cols_device [simp]:
  "stmt_device (InsertInto t (''cpe_mac'' # map fst (root_cols rd))) (v # map snd (root_cols rd)) = Some v"
  "stmt_device (UpdateSet t (map fst (root_cols rd)) [''cpe_mac'']) (map snd (root_cols rd) @ [v]) = Some v"
  by (simp_all add: stmt_device.simps root_cols_def)

context sql_engine
begin

lemma sq_frame_SetSubDocument [keeps_intros]:
  "keeps (\<lambda>s. sq_frame mac ''xpc_group_config'' T0 (sq_tables E s)) (sq_SetSubDocument E mac g d st l)"
  unfolding sq_SetSubDocument_def sq_insertSubDocument_def sq_updateSubDocument_def Let_def
  by (auto intro!: keeps_intros)

lemma sq_frame_DeleteSubDocument [keeps_intros]:
  "keeps (\<lambda>s. sq_frame mac ''xpc_group_config'' T0 (sq_tables E s)) (sq_DeleteSubDocument E mac g)"
  unfolding sq_DeleteSubDocument_def by (auto simp: stmt_device.simps intro!: keeps_intros)

lemma sq_frame_DeleteDocument [keeps_intros]:
  "keeps (\<lambda>s. sq_frame mac ''xpc_group_config'' T0 (sq_tables E s)) (sq_DeleteDocument E mac)"
  unfolding sq_DeleteDocument_def by (auto simp: stmt_device.simps intro!: keeps_intros)

lemma sq_frame_SetRootDocument [keeps_intros]:
  "keeps (\<lambda>s. sq_frame mac ''root_document'' T0 (sq_tables E s)) (sq_SetRootDocument E mac rd)"
  unfolding sq_SetRootDocument_def sq_insertRootDocument_def sq_updateRootDocument_def
  by (auto intro!: keeps_intros)

lemma sq_frame_SetRootDocumentVersion [keeps_intros]:
  "keeps (\<lambda>s. sq_frame mac ''root_document'' T0 (sq_tables E s)) (sq_SetRootDocumentVersion E mac v)"
  unfolding sq_SetRootDocumentVersion_def sq_insertRootDocumentVersion_def sq_updateRootDocumentVersion_def
  by (auto simp: stmt_device.simps intro!: keeps_intros)

lemma sq_frame_SetRootDocumentBitmap [keeps_intros]:
  "keeps (\<lambda>s. sq_frame mac ''root_document'' T0 (sq_tables E s)) (sq_SetRootDocumentBitmap E mac b)"
  unfolding sq_SetRootDocumentBitmap_def sq_insertRootDocumentBitmap_def sq_updateRootDocumentBitmap_def
  by (auto simp: stmt_device.simps intro!: keeps_intros)

lemma sq_frame_DeleteRootDocument [keeps_intros]:
  "keeps (\<lambda>s. sq_frame mac ''root_document'' T0 (sq_tables E s)) (sq_DeleteRootDocument E mac)"
  unfolding sq_DeleteRootDocument_def by (auto simp: stmt_device.simps intro!: keeps_intros)

lemma sq_frame_DeleteRootDocumentVersion [keeps_intros]:
  "keeps (\<lambda>s. sq_frame mac ''root_document'' T0 (sq_tables E s)) (sq_DeleteRootDocumentVersion E mac)"
  unfolding sq_DeleteRootDocumentVersion_def by (auto simp: stmt_device.simps intro!: keeps_intros)

lemma sq_frame_DeleteSubDocumentColumns [keeps_intros]:
  "keeps (\<lambda>s. sq_frame mac ''xpc_group_config'' T0 (sq_tables E s)) (sq_DeleteSubDocumentColumns E mac g cs)"
  unfolding sq_DeleteSubDocumentColumns_def by (auto simp: stmt_device.simps intro!: keeps_intros)

lemma sq_frame_step:
  "(\<And>T0. keeps (\<lambda>s. sq_frame mac t T0 (sq_tables E s)) m) \<Longrightarrow>
     sq_frame mac t (sq_tables E s) (sq_tables E (snd (m s)))"
  using keepsD[of "\<lambda>s'. sq_frame mac t (sq_tables E s) (sq_tables E s')" m s]
  by (metis prod.collapse sq_frame_refl)

lemma sq_frame_subs:
  assumes "sq_frame mac ''xpc_group_config'' (sq_tables E s) (sq_tables E s')"
  shows "m \<noteq> mac \<Longrightarrow> sq_subs E s' m = sq_subs E s m" "sq_roots E s' m = sq_roots E s m"
  using assms by (simp_all add: sq_frame_def sq_subs_def sq_roots_def)

lemma sq_frame_roots:
  assumes "sq_frame mac ''root_document'' (sq_tables E s) (sq_tables E s')"
  shows "m \<noteq> mac \<Longrightarrow> sq_roots E s' m = sq_roots E s m" "sq_subs E s' m = sq_subs E s m"
  using assms by (simp_all add: sq_frame_def sq_subs_def sq_roots_def)

end

text \<open>The client over any engine meets the contract of the services.\<close>

sublocale sql_engine \<subseteq> client: db_frame "sqlite_client E cfg" "sq_subs E" "sq_roots E" for cfg
proof
  fix mac g b s ref d st l mac' m cs rd v
  show "snd (db_GetSubDocument (sqlite_client E cfg) mac g s) = s"
    and "snd (db_GetDocument (sqlite_client E cfg) mac b s) = s"
    and "snd (db_GetRootDocument (sqlite_client E cfg) mac s) = s"
    and "snd (db_GetRootDocumentLabels (sqlite_client E cfg) mac s) = s"
    and "snd (db_GetRefSubDocument (sqlite_client E cfg) ref s) = s"
    by (simp_all add: sqlite_client_def sqlite_reads_pure)
  note subs = sq_frame_subs[OF sq_frame_step] and roots = sq_frame_roots[OF sq_frame_step]
  show "mac' \<noteq> mac \<Longrightarrow> sq_subs E (snd (db_SetSubDocument (sqlite_client E cfg) mac g d st l s)) mac' = sq_subs E s mac'"
    and "sq_roots E (snd (db_SetSubDocument (sqlite_client E cfg) mac g d st l s)) m = sq_roots E s m"
    by (simp_all add: sqlite_client_def subs[OF sq_frame_SetSubDocument])
  show "mac' \<noteq> mac \<Longrightarrow> sq_subs E (snd (db_DeleteSubDocument (sqlite_client E cfg) mac g s)) mac' = sq_subs E s mac'"
    and "sq_roots E (snd (db_DeleteSubDocument (sqlite_client E cfg) mac g s)) m = sq_roots E s m"
    by (simp_all add: sqlite_client_def subs[OF sq_frame_DeleteSubDocument])
  show "mac' \<noteq> mac \<Longrightarrow> sq_subs E (snd (db_DeleteSubDocumentColumns (sqlite_client E cfg) mac g cs s)) mac' = sq_subs E s mac'"
    and "sq_roots E (snd (db_DeleteSubDocumentColumns (sqlite_client E cfg) mac g cs s)) m = sq_roots E s m"
    by (simp_all add: sqlite_client_def subs[OF sq_frame_DeleteSubDocumentColumns])
  show "mac' \<noteq> mac \<Longrightarrow> sq_subs E (snd (db_DeleteDocument (sqlite_client E cfg) mac s)) mac' = sq_subs E s mac'"
    and "sq_roots E (snd (db_DeleteDocument (sqlite_client E cfg) mac s)) m = sq_roots E s m"
    by (simp_all add: sqlite_client_def subs[OF sq_frame_DeleteDocument])
  show "mac' \<noteq> mac \<Longrightarrow> sq_roots E (snd (db_SetRootDocument (sqlite_client E cfg) mac rd s)) mac' = sq_roots E s mac'"
    and "sq_subs E (snd (db_SetRootDocument (sqlite_client E cfg) mac rd s)) m = sq_subs E s m"
    by (simp_all add: sqlite_client_def roots[OF sq_frame_SetRootDocument])
  show "mac' \<noteq> mac \<Longrightarrow> sq_roots E (snd (db_SetRootDocumentVersion (sqlite_client E cfg) mac v s)) mac' = sq_roots E s mac'"
    and "sq_subs E (snd (db_SetRootDocumentVersion (sqlite_client E cfg) mac v s)) m = sq_subs E s m"
    by (simp_all add: sqlite_client_def roots[OF sq_frame_SetRootDocumentVersion])
  show "mac' \<noteq> mac \<Longrightarrow> sq_roots E (snd (db_DeleteRootDocumentVersion (sqlite_client E cfg) mac s)) mac' = sq_roots E s mac'"
    and "sq_subs E (snd (db_DeleteRootDocumentVersion (sqlite_client E cfg) mac s)) m = sq_subs E s m"
    by (simp_all add: sqlite_client_def roots[OF sq_frame_DeleteRootDocumentVersion])
qed

end
