(* ===== verification/SqliteStore.thy ===== *)
theory SqliteStore
  imports SqliteFacts
begin

text \<open>
  The sqlite client as a store: the abstract content of the tables is a map from devices and
  groups to sub-documents, and one from devices to root documents. The lemmas give the effect
  of the operations on that content; \<open>tables_ok\<close> (unique keys, typed columns) is the
  invariant they rest on.
\<close>

section \<open>The invariant\<close>

lemma cols_typed_append:
  "length cs = length vs \<Longrightarrow> cols_typed t (cs @ ds) (vs @ ws) \<longleftrightarrow> cols_typed t cs vs \<and> cols_typed t ds ws"
  by (auto simp: cols_typed_def)

lemma cols_typed_extra: "length cs = length vs \<Longrightarrow> cols_typed t cs (vs @ ws) = cols_typed t cs vs"
  using cols_typed_append[of cs vs t "[]" ws] by simp

lemma cols_typed_opt_col:
  "(\<And>x. value_ok (column_type t n) (f x)) \<Longrightarrow> cols_typed t (map fst (opt_col n f p)) (map snd (opt_col n f p))"
  by (auto simp: opt_col_def split: option.splits)

lemma insert_subdoc_typed:
  "cols_typed ''xpc_group_config'' (map fst (insert_subdoc_cols mac g d)) (map snd (insert_subdoc_cols mac g d))"
  unfolding insert_subdoc_cols_def
  by (simp add: cols_typed_append cols_typed_opt_col column_type_simps)

lemma update_subdoc_typed:
  "cols_typed ''xpc_group_config'' (map fst (update_subdoc_cols d)) (map snd (update_subdoc_cols d))"
  unfolding update_subdoc_cols_def
  by (simp add: cols_typed_append cols_typed_opt_col column_type_simps)

lemma root_cols_typed:
  "cols_typed ''root_document'' (map fst (root_cols rd)) (map snd (root_cols rd))"
  by (simp add: root_cols_def column_type_simps)

lemma refsubdoc_cols_typed:
  "cols_typed ''reference_document'' (map fst (refsubdoc_cols d)) (map snd (refsubdoc_cols d))"
  unfolding refsubdoc_cols_def
  by (simp add: cols_typed_append cols_typed_opt_col column_type_simps)

context sql_engine
begin

lemma tables_ok_exec [keeps_intros]:
  "stmt_typed st vs \<Longrightarrow> keeps (\<lambda>s. tables_ok (sq_tables E s)) (sq_exec E st vs)"
  by (rule keeps_exec) (rule tables_ok_effect)

lemma tables_ok_SetSubDocument:
  "keeps (\<lambda>s. tables_ok (sq_tables E s)) (sq_SetSubDocument E mac g d st l)"
  unfolding sq_SetSubDocument_def sq_insertSubDocument_def sq_updateSubDocument_def Let_def
  by (auto intro!: keeps_intros simp: insert_subdoc_typed update_subdoc_typed cols_typed_extra)

lemma tables_ok_DeleteSubDocument: "keeps (\<lambda>s. tables_ok (sq_tables E s)) (sq_DeleteSubDocument E mac g)"
  and tables_ok_DeleteSubDocumentColumns:
    "keeps (\<lambda>s. tables_ok (sq_tables E s)) (sq_DeleteSubDocumentColumns E mac g cs)"
  and tables_ok_DeleteDocument: "keeps (\<lambda>s. tables_ok (sq_tables E s)) (sq_DeleteDocument E mac)"
  and tables_ok_DeleteRootDocument: "keeps (\<lambda>s. tables_ok (sq_tables E s)) (sq_DeleteRootDocument E mac)"
  and tables_ok_DeleteRootDocumentVersion:
    "keeps (\<lambda>s. tables_ok (sq_tables E s)) (sq_DeleteRootDocumentVersion E mac)"
  and tables_ok_DeleteRefSubDocument: "keeps (\<lambda>s. tables_ok (sq_tables E s)) (sq_DeleteRefSubDocument E r)"
  unfolding sq_DeleteSubDocument_def sq_DeleteSubDocumentColumns_def sq_DeleteDocument_def
    sq_DeleteRootDocument_def sq_DeleteRootDocumentVersion_def sq_DeleteRefSubDocument_def
  by (auto intro!: keeps_intros)

lemma tables_ok_SetRootDocument: "keeps (\<lambda>s. tables_ok (sq_tables E s)) (sq_SetRootDocument E mac rd)"
  unfolding sq_SetRootDocument_def sq_insertRootDocument_def sq_updateRootDocument_def
  by (auto intro!: keeps_intros simp: root_cols_typed cols_typed_extra)
     (simp add: column_type_simps)

lemma tables_ok_SetRootDocumentVersion:
  "keeps (\<lambda>s. tables_ok (sq_tables E s)) (sq_SetRootDocumentVersion E mac v)"
  unfolding sq_SetRootDocumentVersion_def sq_insertRootDocumentVersion_def sq_updateRootDocumentVersion_def
  by (auto intro!: keeps_intros simp: column_type_simps)

lemma tables_ok_SetRootDocumentBitmap:
  "keeps (\<lambda>s. tables_ok (sq_tables E s)) (sq_SetRootDocumentBitmap E mac b)"
  unfolding sq_SetRootDocumentBitmap_def sq_insertRootDocumentBitmap_def sq_updateRootDocumentBitmap_def
  by (auto intro!: keeps_intros simp: column_type_simps)

lemma tables_ok_SetRefSubDocument:
  "keeps (\<lambda>s. tables_ok (sq_tables E s)) (sq_SetRefSubDocument E r d)"
  unfolding sq_SetRefSubDocument_def sq_insertRefSubDocument_def sq_updateRefSubDocument_def Let_def
  by (auto intro!: keeps_intros simp: refsubdoc_cols_typed cols_typed_extra)
     (simp add: column_type_simps)

end

section \<open>The abstract content\<close>

fun int_of_val :: "sqlval \<Rightarrow> int option" where
  "int_of_val (VInt i) = Some i"
| "int_of_val _ = None"

definition row_subdoc :: "row \<Rightarrow> subdoc" where
  "row_subdoc r = \<lparr>
     sd_payload = scan_bytes (r ''payload''), sd_version = scan_string (r ''version''),
     sd_state = int_of_val (r ''state''), sd_updated_time = int_of_val (r ''updated_time''),
     sd_error_code = int_of_val (r ''error_code''), sd_error_details = scan_string (r ''error_details''),
     sd_expiry = int_of_val (r ''expiry'')\<rparr>"

definition sub_rows :: "tables \<Rightarrow> string \<Rightarrow> string \<Rightarrow> row list" where
  "sub_rows T mac g =
     filter (row_matches [''cpe_mac'', ''group_id''] [VText mac, VText g]) (T ''xpc_group_config'')"

definition stored_sub :: "tables \<Rightarrow> string \<Rightarrow> string \<Rightarrow> subdoc option" where
  "stored_sub T mac g = (case sub_rows T mac g of [] \<Rightarrow> None | r # _ \<Rightarrow> Some (row_subdoc r))"

definition row_rootdoc :: "row \<Rightarrow> rootdoc" where
  "row_rootdoc r = NewRootDocument (case int_of_val (r ''bitmap'') of None \<Rightarrow> 0 | Some b \<Rightarrow> b)
     (str_or_empty (scan_string (r ''firmware_version''))) (str_or_empty (scan_string (r ''model_name'')))
     (str_or_empty (scan_string (r ''partner_id''))) (str_or_empty (scan_string (r ''schema_version'')))
     (str_or_empty (scan_string (r ''version''))) ''''
     (str_or_empty (scan_string (r ''product_class''))) (str_or_empty (scan_string (r ''account_type'')))"

definition root_rows :: "tables \<Rightarrow> string \<Rightarrow> row list" where
  "root_rows T mac = filter (row_matches [''cpe_mac''] [VText mac]) (T ''root_document'')"

definition stored_root :: "tables \<Rightarrow> string \<Rightarrow> rootdoc option" where
  "stored_root T mac = (case root_rows T mac of [] \<Rightarrow> None | r # _ \<Rightarrow> Some (row_rootdoc r))"

lemma scan_int_typed: "value_ok CInt v \<or> value_ok CTimestamp v \<Longrightarrow> scan_int v = Inr (int_of_val v)"
  by (cases v) auto

lemma row_typed_int:
  assumes "row_typed ''xpc_group_config'' r"
    "c = ''state'' \<or> c = ''updated_time'' \<or> c = ''error_code'' \<or> c = ''expiry''"
  shows "scan_int (r c) = Inr (int_of_val (r c))"
proof -
  have "value_ok (column_type ''xpc_group_config'' c) (r c)" using assms(1) by (simp add: row_typed_def)
  then show ?thesis using assms(2) by (intro scan_int_typed) (auto simp: column_type_simps)
qed

lemma scan_subdoc_row:
  "row_typed ''xpc_group_config'' r \<Longrightarrow> scan_subdoc (map r subdoc_columns) = Inr (row_subdoc r)"
  by (auto simp: scan_subdoc_def subdoc_columns_def or_scan_def row_typed_int row_subdoc_def NewSubDocument_def Let_def)

lemma scan_rootdoc_row:
  assumes "row_typed ''root_document'' r"
  shows "scan_rootdoc (map r root_columns) = Inr (row_rootdoc r)"
proof -
  have "value_ok (column_type ''root_document'' ''bitmap'') (r ''bitmap'')"
    using assms by (simp add: row_typed_def)
  then have "scan_int (r ''bitmap'') = Inr (int_of_val (r ''bitmap''))"
    by (intro scan_int_typed) (simp add: column_type_simps)
  then show ?thesis by (simp add: scan_rootdoc_def root_columns_def or_scan_def row_rootdoc_def)
qed

text \<open>A primary key selects at most one row.\<close>

lemma filter_unique:
  assumes "distinct (map f xs)" and same: "\<And>x y. P x \<Longrightarrow> P y \<Longrightarrow> f x = f y"
  shows "filter P xs = [] \<or> (\<exists>x. filter P xs = [x])"
proof (cases "filter P xs")
  case (Cons a ys)
  have "distinct (map f (filter P xs))" using assms(1) by (rule distinct_map_filter)
  then have "f a \<notin> f ` set ys" by (simp add: Cons)
  moreover have "f y = f a" if "y \<in> set ys" for y
  proof (rule same)
    have "y \<in> set (filter P xs)" "a \<in> set (filter P xs)" using that by (simp_all add: Cons)
    then show "P y" "P a" by (simp_all only: set_filter mem_Collect_eq)
  qed
  ultimately have "set ys = {}" by (metis equals0I image_eqI)
  then have "ys = []" by (simp only: set_empty)
  then show ?thesis by (simp add: Cons)
qed simp

lemma filter_single_set: "filter P xs = [r] \<Longrightarrow> r \<in> set xs"
  by (metis filter_is_subset list.set_intros(1) subset_iff)

lemma sub_rows_cases:
  assumes "keys_ok T"
  obtains "sub_rows T mac g = []" | r where "sub_rows T mac g = [r]" "r \<in> set (T ''xpc_group_config'')"
proof -
  have "key_unique ''xpc_group_config'' (T ''xpc_group_config'')" using assms by (simp add: keys_ok_def constraints_ok_def)
  then have "sub_rows T mac g = [] \<or> (\<exists>r. sub_rows T mac g = [r])"
    unfolding sub_rows_def key_unique_def by (rule filter_unique) auto
  moreover have "sub_rows T mac g = [r] \<Longrightarrow> r \<in> set (T ''xpc_group_config'')" for r
    unfolding sub_rows_def by (rule filter_single_set)
  ultimately show ?thesis using that by blast
qed

lemma root_rows_cases:
  assumes "keys_ok T"
  obtains "root_rows T mac = []" | r where "root_rows T mac = [r]" "r \<in> set (T ''root_document'')"
proof -
  have "key_unique ''root_document'' (T ''root_document'')" using assms by (simp add: keys_ok_def constraints_ok_def)
  then have "root_rows T mac = [] \<or> (\<exists>r. root_rows T mac = [r])"
    unfolding root_rows_def key_unique_def by (rule filter_unique) auto
  moreover have "root_rows T mac = [r] \<Longrightarrow> r \<in> set (T ''root_document'')" for r
    unfolding root_rows_def by (rule filter_single_set)
  ultimately show ?thesis using that by blast
qed

end
