(* ===== verification/SqliteEffects.thy ===== *)
theory SqliteEffects
  imports SqliteStore
begin

text \<open>
  The effect of the sqlite operations on the abstract content: what each returns and what a
  later read finds.
\<close>

text \<open>What storing over an existing row leaves: a set field wins, the expiry is not written.\<close>

definition store_subdoc :: "subdoc \<Rightarrow> subdoc option \<Rightarrow> subdoc" where
  "store_subdoc new old =
     (case old of None \<Rightarrow> new | Some o' \<Rightarrow> (subdoc_merge new o')\<lparr>sd_expiry := sd_expiry o'\<rparr>)"

lemma row_subdoc_insert:
  "row_subdoc (set_row (map fst (insert_subdoc_cols mac g d)) (map snd (insert_subdoc_cols mac g d)) (\<lambda>_. VNull)) = d"
  by (cases d) (simp add: row_subdoc_def insert_subdoc_cols_def opt_col_def split: option.splits)

lemma row_subdoc_update:
  "row_subdoc (set_row (map fst (update_subdoc_cols d)) (map snd (update_subdoc_cols d)) r)
     = store_subdoc d (Some (row_subdoc r))"
  by (cases d) (simp add: row_subdoc_def store_subdoc_def subdoc_merge_def update_subdoc_cols_def opt_col_def
      split: option.splits)

lemma insert_subdoc_keys:
  "set_row (map fst (insert_subdoc_cols mac g d)) (map snd (insert_subdoc_cols mac g d)) r ''cpe_mac'' = VText mac"
  "set_row (map fst (insert_subdoc_cols mac g d)) (map snd (insert_subdoc_cols mac g d)) r ''group_id'' = VText g"
  by (simp_all add: insert_subdoc_cols_def opt_col_def split: option.splits)

lemma update_subdoc_group: "''group_id'' \<notin> fst ` set (update_subdoc_cols d)"
  by (auto simp: update_subdoc_cols_def opt_col_def split: option.splits)

lemma update_subdoc_row_keys [simp]:
  "set_row (map fst (update_subdoc_cols d)) vs r ''cpe_mac'' = r ''cpe_mac''"
  "set_row (map fst (update_subdoc_cols d)) vs r ''group_id'' = r ''group_id''"
  using update_subdoc_cols_keys[of d] update_subdoc_group[of d] by (simp_all add: set_row_other)

lemma row_root_insert:
  "row_rootdoc (set_row (''cpe_mac'' # map fst (root_cols rd)) (VText mac # map snd (root_cols rd)) (\<lambda>_. VNull))
     = rd\<lparr>rd_query_params := '''', rd_locked_till := 0\<rparr>"
  by (cases rd) (simp add: row_rootdoc_def root_cols_def str_or_empty_def NewRootDocument_def)

lemma row_root_update:
  "row_rootdoc (set_row (map fst (root_cols rd)) (map snd (root_cols rd)) r)
     = rd\<lparr>rd_query_params := '''', rd_locked_till := 0\<rparr>"
  by (cases rd) (simp add: row_rootdoc_def root_cols_def str_or_empty_def NewRootDocument_def)

section \<open>Statements on one key\<close>

lemma filter_update_same:
  "(\<And>r. row_matches ws vs r \<Longrightarrow> row_matches ws vs (f r)) \<Longrightarrow>
     filter (row_matches ws vs) (update_where ws vs f xs) = map f (filter (row_matches ws vs) xs)"
  by (induction xs) (simp_all add: update_where_def)

lemma filter_update_other:
  "(\<And>r. row_matches ws vs r \<Longrightarrow> \<not> row_matches ws' vs' r \<and> \<not> row_matches ws' vs' (f r)) \<Longrightarrow>
     filter (row_matches ws' vs') (update_where ws vs f xs) = filter (row_matches ws' vs') xs"
  by (induction xs) (simp_all add: update_where_def)

lemma sub_rows_update:
  assumes "\<And>r. f r ''cpe_mac'' = r ''cpe_mac''" "\<And>r. f r ''group_id'' = r ''group_id''"
  shows "sub_rows (T(''xpc_group_config'' :=
            update_where [''cpe_mac'', ''group_id''] [VText mac, VText g] f (T ''xpc_group_config''))) m k
         = (if m = mac \<and> k = g then map f (sub_rows T m k) else sub_rows T m k)"
proof (cases "m = mac \<and> k = g")
  case True
  have "sub_rows (T(''xpc_group_config'' :=
      update_where [''cpe_mac'', ''group_id''] [VText mac, VText g] f (T ''xpc_group_config''))) mac g
      = map f (sub_rows T mac g)"
    using assms unfolding sub_rows_def fun_upd_same by (intro filter_update_same) auto
  with True show ?thesis by simp
next
  case False
  then have "sub_rows (T(''xpc_group_config'' :=
      update_where [''cpe_mac'', ''group_id''] [VText mac, VText g] f (T ''xpc_group_config''))) m k = sub_rows T m k"
    using assms unfolding sub_rows_def fun_upd_same by (intro filter_update_other) auto
  with False show ?thesis by (simp only: if_False)
qed

lemma sub_rows_insert:
  assumes "r ''cpe_mac'' = VText mac" "r ''group_id'' = VText g"
  shows "sub_rows (T(''xpc_group_config'' := T ''xpc_group_config'' @ [r])) m k =
     (if m = mac \<and> k = g then sub_rows T m k @ [r] else sub_rows T m k)"
  using assms by (simp add: sub_rows_def)

lemma sub_rows_delete:
  "sub_rows (T(''xpc_group_config'' := filter (\<lambda>r. \<not> row_matches [''cpe_mac'', ''group_id''] [VText mac, VText g] r)
        (T ''xpc_group_config''))) m k =
     (if m = mac \<and> k = g then [] else sub_rows T m k)"
  by (auto simp: sub_rows_def filter_empty_conv intro!: filter_cong)

lemma sub_rows_delete_device:
  "sub_rows (T(''xpc_group_config'' := filter (\<lambda>r. \<not> row_matches [''cpe_mac''] [VText mac] r)
        (T ''xpc_group_config''))) m k =
     (if m = mac then [] else sub_rows T m k)"
  by (auto simp: sub_rows_def filter_empty_conv intro!: filter_cong)

lemma root_rows_update:
  assumes "\<And>r. f r ''cpe_mac'' = r ''cpe_mac''"
  shows "root_rows (T(''root_document'' :=
            update_where [''cpe_mac''] [VText mac] f (T ''root_document''))) m
         = (if m = mac then map f (root_rows T m) else root_rows T m)"
proof (cases "m = mac")
  case True
  have "root_rows (T(''root_document'' :=
      update_where [''cpe_mac''] [VText mac] f (T ''root_document''))) mac = map f (root_rows T mac)"
    using assms unfolding root_rows_def fun_upd_same by (intro filter_update_same) auto
  with True show ?thesis by simp
next
  case False
  then have "root_rows (T(''root_document'' :=
      update_where [''cpe_mac''] [VText mac] f (T ''root_document''))) m = root_rows T m"
    using assms unfolding root_rows_def fun_upd_same by (intro filter_update_other) auto
  with False show ?thesis by (simp only: if_False)
qed

lemma root_rows_insert:
  assumes "r ''cpe_mac'' = VText mac"
  shows "root_rows (T(''root_document'' := T ''root_document'' @ [r])) m =
     (if m = mac then root_rows T m @ [r] else root_rows T m)"
  using assms by (simp add: root_rows_def)

section \<open>Reading\<close>

lemma mset_single_eq: "mset xs = mset [a] \<Longrightarrow> xs = [a]"
  by (metis mset_single_iff mset.simps(1) mset.simps(2))

lemma mset_Nil_eq: "mset xs = mset [] \<Longrightarrow> xs = []"
  by simp

context sql_engine
begin

lemma sq_exec_Ok:
  assumes "sq_exec E st vs s = (Ok u, s')"
  shows "sql_effect st vs (sq_tables E s) = Some (sq_tables E s')" "sq_metrics s' = sq_metrics s"
  using assms exec_ok[of st vs "sq_db s"]
  by (auto simp: sq_exec_def sq_tables_def split: prod.splits option.splits)

lemma query_sub_rows:
  assumes "sq_query E (SelectFrom ''xpc_group_config'' subdoc_columns [''cpe_mac'', ''group_id''])
             [VText mac, VText g] s = (Ok rows, s')"
  shows "s' = s" "mset rows = mset (map (\<lambda>r. map r subdoc_columns) (sub_rows (sq_tables E s) mac g))"
proof -
  have q: "eng_query E (SelectFrom ''xpc_group_config'' subdoc_columns [''cpe_mac'', ''group_id''])
             [VText mac, VText g] (sq_db s) = Inr rows" and "s' = s"
    using assms by (auto simp: sq_query_def split: sum.splits)
  then show "s' = s" by simp
  show "mset rows = mset (map (\<lambda>r. map r subdoc_columns) (sub_rows (sq_tables E s) mac g))"
    by (rule query_select[OF q]) (simp add: sub_rows_def sq_tables_def subdoc_columns_def)
qed

lemma sq_query_not_found: "sq_query E q vs s = (Err e, s') \<Longrightarrow> \<not> sq_IsDbNotFound e"
  using query_err by (auto simp: sq_query_def sq_IsDbNotFound_def split: sum.splits)

text \<open>The row a read of one sub-document starts from.\<close>

lemma first_subdoc_row:
  assumes ok: "tables_ok (sq_tables E s)"
    and q: "sq_query E (SelectFrom ''xpc_group_config'' subdoc_columns [''cpe_mac'', ''group_id''])
             [VText mac, VText g] s = (Ok rows, s')"
  shows "first_row scan_subdoc rows t =
     (case stored_sub (sq_tables E s) mac g of None \<Rightarrow> (Err ErrNoRows, t) | Some d \<Rightarrow> (Ok d, t))"
proof -
  let ?T = "sq_tables E s"
  have keys: "keys_ok ?T" and types: "types_ok ?T" using ok by (simp_all add: tables_ok_def)
  note m = query_sub_rows(2)[OF q]
  from keys show ?thesis
  proof (cases rule: sub_rows_cases[where mac = mac and g = g])
    case 1
    then have "rows = []" using m by simp
    then show ?thesis using 1 by (simp add: first_row_def stored_sub_def)
  next
    case (2 r)
    then have "rows = [map r subdoc_columns]" using m by (intro mset_single_eq) simp
    moreover have "row_typed ''xpc_group_config'' r" using types 2 by (simp add: types_ok_def)
    ultimately show ?thesis using 2 by (simp add: first_row_def stored_sub_def scan_subdoc_row)
  qed
qed

lemma sq_GetSubDocument_cases:
  assumes "tables_ok (sq_tables E s)"
  shows "(\<exists>e. sq_GetSubDocument E mac g s = (Err e, s) \<and> \<not> sq_IsDbNotFound e) \<or>
    sq_GetSubDocument E mac g s =
      (case stored_sub (sq_tables E s) mac g of None \<Rightarrow> (Err ErrNoRows, s) | Some d \<Rightarrow> sq_resolve_ref E d s)"
proof (cases "sq_query E (SelectFrom ''xpc_group_config'' subdoc_columns [''cpe_mac'', ''group_id''])
             [VText mac, VText g] s")
  case (Pair r s')
  then have "s' = s" using sq_query_pure by (metis snd_conv)
  show ?thesis
  proof (cases r)
    case (Ok rows)
    then show ?thesis
      using Pair \<open>s' = s\<close> first_subdoc_row[OF assms, of mac g rows s s]
      by (auto simp: sq_GetSubDocument_def tryE_def split: option.splits)
  next
    case (Err e)
    then show ?thesis using Pair \<open>s' = s\<close> sq_query_not_found
      by (auto simp: sq_GetSubDocument_def tryE_def)
  next
    case Panic
    then show ?thesis using Pair by (auto simp: sq_query_def split: sum.splits)
  qed
qed

lemma resolve_ref_not_found: "sq_resolve_ref E d s = (Err e, s') \<Longrightarrow> \<not> sq_IsDbNotFound e"
  by (auto simp: sq_resolve_ref_def tryE_def sq_IsDbNotFound_def
      split: option.splits prod.splits outcome.splits if_splits)

lemma sq_GetSubDocument_found:
  assumes "tables_ok (sq_tables E s)" "sq_GetSubDocument E mac g s = (Ok d, s')"
  shows "stored_sub (sq_tables E s) mac g \<noteq> None"
  using sq_GetSubDocument_cases[OF assms(1), of mac g] assms(2) by (auto split: option.splits)

lemma sq_GetSubDocument_missing:
  assumes "tables_ok (sq_tables E s)" "sq_GetSubDocument E mac g s = (Err e, s')" "sq_IsDbNotFound e"
  shows "stored_sub (sq_tables E s) mac g = None"
  using sq_GetSubDocument_cases[OF assms(1), of mac g] assms(2,3) resolve_ref_not_found
  by (fastforce split: option.splits)

lemma sq_GetSubDocument_state: "sq_GetSubDocument E mac g s = (r, s') \<Longrightarrow> s' = s"
  using sqlite_reads_pure(1)[of E mac g s] by simp

lemma sq_GetRootDocument_state: "sq_GetRootDocument E mac s = (r, s') \<Longrightarrow> s' = s"
  using sqlite_reads_pure(3)[of E mac s] by simp

section \<open>Writing\<close>

lemma sq_count_state_tables: "sq_count_state mac g d st l s = (r, s') \<Longrightarrow> sq_tables E s' = sq_tables E s"
  by (auto simp: sq_count_state_def sq_tables_def split: option.splits)

lemma sq_insertSubDocument_effect:
  assumes "sq_insertSubDocument E mac g d s = (Ok u, s')" "stored_sub (sq_tables E s) mac g = None"
  shows "stored_sub (sq_tables E s') m k =
    (if m = mac \<and> k = g then Some d else stored_sub (sq_tables E s) m k)"
proof -
  let ?r = "set_row (map fst (insert_subdoc_cols mac g d)) (map snd (insert_subdoc_cols mac g d)) (\<lambda>_. VNull)"
  have T': "sq_tables E s' = (sq_tables E s)(''xpc_group_config'' := sq_tables E s ''xpc_group_config'' @ [?r])"
    using assms(1) by (auto simp: sq_insertSubDocument_def Let_def dest!: sq_exec_Ok(1) split: if_splits)
  have "sub_rows (sq_tables E s') m k =
      (if m = mac \<and> k = g then sub_rows (sq_tables E s) m k @ [?r] else sub_rows (sq_tables E s) m k)"
    unfolding T' by (rule sub_rows_insert) (simp_all only: insert_subdoc_keys)
  moreover have "sub_rows (sq_tables E s) mac g = []"
    using assms(2) by (simp add: stored_sub_def split: list.splits)
  ultimately show ?thesis by (simp add: stored_sub_def row_subdoc_insert)
qed

lemma sq_updateSubDocument_effect:
  assumes "sq_updateSubDocument E mac g d s = (Ok u, s')"
  shows "stored_sub (sq_tables E s') m k =
    (if m = mac \<and> k = g then map_option (\<lambda>o'. store_subdoc d (Some o')) (stored_sub (sq_tables E s) m k)
     else stored_sub (sq_tables E s) m k)"
proof -
  let ?f = "set_row (map fst (update_subdoc_cols d)) (map snd (update_subdoc_cols d))"
  have T': "sq_tables E s' = (sq_tables E s)(''xpc_group_config'' :=
      update_where [''cpe_mac'', ''group_id''] [VText mac, VText g] ?f (sq_tables E s ''xpc_group_config''))"
    using assms(1) by (auto simp: sq_updateSubDocument_def Let_def dest!: sq_exec_Ok(1) split: if_splits)
  have "sub_rows (sq_tables E s') m k =
      (if m = mac \<and> k = g then map ?f (sub_rows (sq_tables E s) m k) else sub_rows (sq_tables E s) m k)"
    unfolding T' by (rule sub_rows_update) (simp_all only: update_subdoc_row_keys)
  then show ?thesis by (simp add: stored_sub_def row_subdoc_update split: list.splits)
qed

lemma sq_SetSubDocument_effect:
  assumes ok: "tables_ok (sq_tables E s)" and set: "sq_SetSubDocument E mac g d st l s = (Ok u, s')"
  shows "stored_sub (sq_tables E s') m k =
    (if m = mac \<and> k = g then Some (store_subdoc d (stored_sub (sq_tables E s) mac g))
     else stored_sub (sq_tables E s) m k)"
proof -
  from set consider
      (upd) x s1 s2 v where "sq_GetSubDocument E mac g s = (Ok x, s1)"
        "sq_updateSubDocument E mac g d s1 = (Ok v, s2)" "sq_tables E s' = sq_tables E s2"
    | (ins) e s1 s2 v where "sq_GetSubDocument E mac g s = (Err e, s1)" "sq_IsDbNotFound e"
        "sq_insertSubDocument E mac g d s1 = (Ok v, s2)" "sq_tables E s' = sq_tables E s2"
    unfolding sq_SetSubDocument_def Let_def
    by (auto simp: tryE_eq_Ok bindE_eq_Ok split: if_splits dest!: sq_count_state_tables)
  then show ?thesis
  proof cases
    case upd
    moreover have "s1 = s" using upd(1) by (rule sq_GetSubDocument_state)
    moreover obtain o' where "stored_sub (sq_tables E s) mac g = Some o'"
      using sq_GetSubDocument_found[OF ok upd(1)] by auto
    ultimately show ?thesis by (simp add: sq_updateSubDocument_effect)
  next
    case ins
    moreover have s1: "s1 = s" using ins(1) by (rule sq_GetSubDocument_state)
    moreover have n: "stored_sub (sq_tables E s) mac g = None"
      using sq_GetSubDocument_missing[OF ok ins(1,2)] .
    ultimately show ?thesis
      using sq_insertSubDocument_effect[of mac g d s v s2 m k] by (simp add: store_subdoc_def)
  qed
qed

lemma sq_DeleteSubDocument_effect:
  assumes "sq_DeleteSubDocument E mac g s = (Ok u, s')"
  shows "stored_sub (sq_tables E s') m k = (if m = mac \<and> k = g then None else stored_sub (sq_tables E s) m k)"
proof -
  have T': "sq_tables E s' = (sq_tables E s)(''xpc_group_config'' :=
      filter (\<lambda>r. \<not> row_matches [''cpe_mac'', ''group_id''] [VText mac, VText g] r) (sq_tables E s ''xpc_group_config''))"
    using assms unfolding sq_DeleteSubDocument_def by (auto dest!: sq_exec_Ok(1) split: if_splits)
  show ?thesis unfolding stored_sub_def T' sub_rows_delete by simp
qed

lemma sq_DeleteDocument_effect:
  assumes "sq_DeleteDocument E mac s = (Ok u, s')"
  shows "stored_sub (sq_tables E s') m k = (if m = mac then None else stored_sub (sq_tables E s) m k)"
proof -
  have T': "sq_tables E s' = (sq_tables E s)(''xpc_group_config'' :=
      filter (\<lambda>r. \<not> row_matches [''cpe_mac''] [VText mac] r) (sq_tables E s ''xpc_group_config''))"
    using assms unfolding sq_DeleteDocument_def by (auto dest!: sq_exec_Ok(1) split: if_splits)
  show ?thesis unfolding stored_sub_def T' sub_rows_delete_device by simp
qed

text \<open>What is stored is read back, unless the read itself fails.\<close>

lemma sq_set_then_get:
  assumes ok: "tables_ok (sq_tables E s)" and set: "sq_SetSubDocument E mac g d st l s = (Ok u, s')"
    and get: "sq_GetSubDocument E mac g s' = (r, s'')"
    and noref: "GetRefId (payload_bytes (sd_payload (store_subdoc d (stored_sub (sq_tables E s) mac g)))) = None"
  shows "r = Ok (store_subdoc d (stored_sub (sq_tables E s) mac g)) \<or> (\<exists>e. r = Err e \<and> \<not> sq_IsDbNotFound e)"
proof -
  have "tables_ok (sq_tables E s')"
    using keepsD[OF tables_ok_SetSubDocument ok set] .
  from sq_GetSubDocument_cases[OF this, of mac g] get noref show ?thesis
    by (auto simp: sq_SetSubDocument_effect[OF ok set] sq_resolve_ref_def)
qed

end

end
