(* ===== verification/SqliteDocs.thy ===== *)
theory SqliteDocs
  imports SqliteEffects
begin

text \<open>
  Whole documents, root documents and shared payloads in the sqlite client: what
  \<open>GetDocument\<close> returns, the effect of the root document operations, and why a stored
  reference cannot be updated.
\<close>

section \<open>GetDocument\<close>

lemma mset_map_ex:
  "mset rows = mset (map f xs) \<Longrightarrow> \<exists>ys. rows = map f ys \<and> mset ys = mset xs"
proof (induction rows arbitrary: xs)
  case Nil
  then show ?case by auto
next
  case (Cons a rows)
  then have "a \<in> set (map f xs)" by (metis list.set_intros(1) set_mset_mset)
  then obtain x where x: "x \<in> set xs" "a = f x" by auto
  have "mset xs = mset (x # remove1 x xs)" using x by simp
  then have "mset (map f xs) = mset (map f (x # remove1 x xs))" by (metis mset_map)
  then have "mset (a # rows) = mset (map f (x # remove1 x xs))" using Cons.prems by (simp only:)
  then have "mset rows = mset (map f (remove1 x xs))" unfolding x(2) list.map mset.simps(2)
    by (simp only: add_mset_add_mset_same_iff)
  then obtain ys where "rows = map f ys" "mset ys = mset (remove1 x xs)" using Cons.IH by blast
  then have "a # rows = map f (x # ys)" "mset (x # ys) = mset xs" using x by simp_all
  then show ?case by (intro exI[of _ "x # ys"] conjI)
qed

definition device_rows :: "tables \<Rightarrow> string \<Rightarrow> row list" where
  "device_rows T mac = filter (row_matches [''cpe_mac''] [VText mac]) (T ''xpc_group_config'')"

definition row_group :: "row \<Rightarrow> string" where
  "row_group r = str_or_empty (scan_string (r ''group_id''))"

definition doc_row_subdoc :: "row \<Rightarrow> subdoc" where
  "doc_row_subdoc r = (row_subdoc r)\<lparr>sd_expiry := None\<rparr>"

lemma scan_document_row_typed:
  "row_typed ''xpc_group_config'' r \<Longrightarrow>
     scan_document_row (map r document_columns) = Inr (row_group r, doc_row_subdoc r)"
  by (simp add: scan_document_row_def document_columns_def or_scan_def row_typed_int row_subdoc_def
      doc_row_subdoc_def NewSubDocument_def row_group_def str_or_empty_def)

lemma scan_document_rows:
  "(\<And>r. r \<in> set rs \<Longrightarrow> row_typed ''xpc_group_config'' r) \<Longrightarrow>
     scan_document d (map (\<lambda>r. map r document_columns) rs) =
       Inr (d\<lparr>docmap := gomap_puts (docmap d) (map (\<lambda>r. (row_group r, doc_row_subdoc r)) rs)\<rparr>)"
  by (induction rs arbitrary: d) (simp_all add: or_scan_def scan_document_row_typed SetSubDocument_def)

lemma device_rows_key:
  "r \<in> set (device_rows T mac) \<longleftrightarrow> r \<in> set (T ''xpc_group_config'') \<and> r ''cpe_mac'' = VText mac"
  by (auto simp: device_rows_def)

definition groups_ok :: "tables \<Rightarrow> bool" where
  "groups_ok T \<longleftrightarrow> (\<forall>r \<in> set (T ''xpc_group_config''). \<exists>g. r ''group_id'' = VText g)"

lemma groups_ok_tables:
  assumes "tables_ok T"
  shows "groups_ok T"
  unfolding groups_ok_def
proof
  fix r assume r: "r \<in> set (T ''xpc_group_config'')"
  then have "value_ok (column_type ''xpc_group_config'' ''group_id'') (r ''group_id'')"
    using assms by (simp add: tables_ok_def types_ok_def row_typed_def)
  moreover have "constraints_ok ''xpc_group_config'' (T ''xpc_group_config'')"
    using assms by (simp add: tables_ok_def keys_ok_def)
  then have "r ''group_id'' \<noteq> VNull"
    using r by (simp add: constraints_ok_def table_not_null_def list_all_iff)
  ultimately show "\<exists>g. r ''group_id'' = VText g"
    by (cases "r ''group_id''") (simp_all add: column_type_simps)
qed

lemma row_group_text: "r ''group_id'' = VText g \<Longrightarrow> row_group r = g"
  by (simp add: row_group_def str_or_empty_def)

lemma device_rows_distinct:
  assumes "keys_ok T" "groups_ok T"
  shows "distinct (map row_group (device_rows T mac))"
proof -
  have d: "distinct (map (\<lambda>r. map r [''cpe_mac'', ''group_id'']) (device_rows T mac))"
    using assms(1) unfolding keys_ok_def constraints_ok_def key_unique_def device_rows_def
    by (metis distinct_map_filter table_columns_simps(4))
  have "inj_on row_group (set (device_rows T mac))"
  proof (rule inj_onI)
    fix a b assume a: "a \<in> set (device_rows T mac)" and b: "b \<in> set (device_rows T mac)"
      and eq: "row_group a = row_group b"
    obtain ga gb where "a ''group_id'' = VText ga" "b ''group_id'' = VText gb"
      using a b assms(2) unfolding groups_ok_def device_rows_key by blast
    with eq a b have "map a [''cpe_mac'', ''group_id''] = map b [''cpe_mac'', ''group_id'']"
      by (simp add: row_group_text device_rows_key)
    with d a b show "a = b" by (auto simp: distinct_map dest: inj_onD)
  qed
  moreover have "distinct (device_rows T mac)" using d by (simp only: distinct_map)
  ultimately show ?thesis by (simp add: distinct_map)
qed

lemma stored_sub_device_row:
  assumes "keys_ok T" "groups_ok T" "r \<in> set (device_rows T mac)"
  shows "stored_sub T mac (row_group r) = Some (row_subdoc r)"
proof -
  obtain g where g: "r ''group_id'' = VText g"
    using assms(2,3) unfolding groups_ok_def device_rows_key by blast
  have r: "r \<in> set (sub_rows T mac g)" using assms(3) g by (simp add: sub_rows_def device_rows_key)
  from assms(1) show ?thesis
  proof (cases rule: sub_rows_cases[where mac = mac and g = g])
    case 1
    then show ?thesis using r by simp
  next
    case (2 r')
    then show ?thesis using r g by (simp add: stored_sub_def row_group_text)
  qed
qed

lemma stored_sub_device_none:
  assumes "\<And>r. r \<in> set (device_rows T mac) \<Longrightarrow> row_group r \<noteq> g"
  shows "stored_sub T mac g = None"
proof (cases "sub_rows T mac g")
  case Nil
  then show ?thesis by (simp add: stored_sub_def)
next
  case (Cons r rs)
  then have "r \<in> set (sub_rows T mac g)" by simp
  then have "r \<in> set (device_rows T mac)" "row_group r = g"
    by (auto simp: sub_rows_def device_rows_key row_group_text)
  with assms show ?thesis by blast
qed

text \<open>The map a permutation of the device's rows gives is the stored content.\<close>

lemma map_of_device_rows:
  assumes "keys_ok T" "groups_ok T" "mset rs = mset (device_rows T mac)"
  shows "map_of (map (\<lambda>r. (row_group r, doc_row_subdoc r)) rs) g
     = map_option (\<lambda>d. d\<lparr>sd_expiry := None\<rparr>) (stored_sub T mac g)"
    and "gomap_ok (map (\<lambda>r. (row_group r, doc_row_subdoc r)) rs)"
proof -
  let ?m = "map (\<lambda>r. (row_group r, doc_row_subdoc r)) rs"
  have s: "set rs = set (device_rows T mac)" using assms(3) by (metis set_mset_mset)
  have "distinct (map row_group rs)"
    using device_rows_distinct[OF assms(1,2), of mac] assms(3)
    by (metis mset_map mset_eq_imp_distinct_iff)
  then show ok: "gomap_ok ?m" by (simp add: gomap_ok_def comp_def)
  show "map_of ?m g = map_option (\<lambda>d. d\<lparr>sd_expiry := None\<rparr>) (stored_sub T mac g)"
  proof (cases "\<exists>r \<in> set rs. row_group r = g")
    case True
    then obtain r where r: "r \<in> set rs" "row_group r = g" by blast
    then have "(g, doc_row_subdoc r) \<in> set ?m" by force
    with ok have "map_of ?m g = Some (doc_row_subdoc r)" by (simp only: gomap_in_set)
    moreover have "stored_sub T mac g = Some (row_subdoc r)"
      using stored_sub_device_row[OF assms(1,2)] r s by blast
    ultimately show ?thesis by (simp add: doc_row_subdoc_def)
  next
    case False
    then have "map_of ?m g = None" by (auto simp: map_of_eq_None_iff)
    moreover have "stored_sub T mac g = None" by (rule stored_sub_device_none) (use False s in blast)
    ultimately show ?thesis by simp
  qed
qed

context sql_engine
begin

lemma sq_GetDocument_content:
  assumes ok: "tables_ok (sq_tables E s)"
    and get: "sq_GetDocument E mac s = (Ok (Some d, e), s')"
  shows "s' = s" "doc_ok d" "rootDocument d = None"
    "map_of (docmap d) g = map_option (\<lambda>x. x\<lparr>sd_expiry := None\<rparr>) (stored_sub (sq_tables E s) mac g)"
    "e = (if docmap d = [] then Some (NewError ErrNoRows) else None)"
proof -
  let ?T = "sq_tables E s" and ?q = "SelectFrom ''xpc_group_config'' document_columns [''cpe_mac'']"
  show s': "s' = s" using sqlite_reads_pure(2)[of E mac s] get by simp
  from get obtain rows where rows: "eng_query E ?q [VText mac] (sq_db s) = Inr rows"
    and scan: "scan_document (NewDocument None) rows = Inr d"
    and e: "e = (if docmap d = [] then Some (NewError ErrNoRows) else None)"
    by (auto simp: sq_GetDocument_def sq_query_def tryE_def doc_Length_def
        split: sum.splits if_splits)
  have "mset rows = mset (map (\<lambda>r. map r document_columns) (device_rows ?T mac))"
    by (rule query_select[OF rows]) (simp add: device_rows_def sq_tables_def document_columns_def)
  then obtain rs where rs: "rows = map (\<lambda>r. map r document_columns) rs" "mset rs = mset (device_rows ?T mac)"
    using mset_map_ex by blast
  have keys: "keys_ok ?T" and types: "types_ok ?T" using ok by (simp_all add: tables_ok_def)
  have groups: "groups_ok ?T" using ok by (rule groups_ok_tables)
  have "set rs = set (device_rows ?T mac)" using rs(2) by (metis set_mset_mset)
  then have "row_typed ''xpc_group_config'' r" if "r \<in> set rs" for r
    using that types by (simp add: device_rows_key types_ok_def)
  with scan rs(1) have d: "d = (NewDocument None)\<lparr>docmap :=
      gomap_puts [] (map (\<lambda>r. (row_group r, doc_row_subdoc r)) rs)\<rparr>"
    by (simp add: scan_document_rows)
  note m = map_of_device_rows[OF keys groups rs(2)]
  have "docmap d = map (\<lambda>r. (row_group r, doc_row_subdoc r)) rs"
    unfolding d using m(2) by (simp add: gomap_puts_fresh)
  then show "doc_ok d" "map_of (docmap d) g = map_option (\<lambda>x. x\<lparr>sd_expiry := None\<rparr>) (stored_sub ?T mac g)"
    using m by (simp_all add: doc_ok_def)
  show "rootDocument d = None" by (simp add: d)
  show "e = (if docmap d = [] then Some (NewError ErrNoRows) else None)" by (rule e)
qed

section \<open>Root documents\<close>

lemma query_root_rows:
  assumes "sq_query E (SelectFrom ''root_document'' root_columns [''cpe_mac'']) [VText mac] s = (Ok rows, s')"
  shows "mset rows = mset (map (\<lambda>r. map r root_columns) (root_rows (sq_tables E s) mac))"
proof -
  have "eng_query E (SelectFrom ''root_document'' root_columns [''cpe_mac'']) [VText mac] (sq_db s) = Inr rows"
    using assms by (auto simp: sq_query_def split: sum.splits)
  then show ?thesis
    by (rule query_select) (simp add: root_rows_def sq_tables_def root_columns_def)
qed

lemma first_root_row:
  assumes ok: "tables_ok (sq_tables E s)"
    and q: "sq_query E (SelectFrom ''root_document'' root_columns [''cpe_mac'']) [VText mac] s = (Ok rows, s')"
  shows "first_row scan_rootdoc rows t =
     (case stored_root (sq_tables E s) mac of None \<Rightarrow> (Err ErrNoRows, t) | Some d \<Rightarrow> (Ok d, t))"
proof -
  let ?T = "sq_tables E s"
  have keys: "keys_ok ?T" and types: "types_ok ?T" using ok by (simp_all add: tables_ok_def)
  note m = query_root_rows[OF q]
  from keys show ?thesis
  proof (cases rule: root_rows_cases[where mac = mac])
    case 1
    then have "rows = []" using m by simp
    then show ?thesis using 1 by (simp add: first_row_def stored_root_def)
  next
    case (2 r)
    then have "rows = [map r root_columns]" using m by (intro mset_single_eq) simp
    moreover have "row_typed ''root_document'' r" using types 2 by (simp add: types_ok_def)
    ultimately show ?thesis using 2 by (simp add: first_row_def stored_root_def scan_rootdoc_row)
  qed
qed

lemma sq_GetRootDocument_cases:
  assumes "tables_ok (sq_tables E s)"
  shows "(\<exists>e. sq_GetRootDocument E mac s = (Err e, s) \<and> \<not> sq_IsDbNotFound e) \<or>
    sq_GetRootDocument E mac s =
      (case stored_root (sq_tables E s) mac of None \<Rightarrow> (Err ErrNoRows, s) | Some d \<Rightarrow> (Ok d, s))"
proof (cases "sq_query E (SelectFrom ''root_document'' root_columns [''cpe_mac'']) [VText mac] s")
  case (Pair r s')
  then have "s' = s" using sq_query_pure by (metis snd_conv)
  show ?thesis
  proof (cases r)
    case (Ok rows)
    then show ?thesis
      using Pair \<open>s' = s\<close> first_root_row[OF assms, of mac rows s s]
      by (auto simp: sq_GetRootDocument_def tryE_def split: option.splits)
  next
    case (Err e)
    then show ?thesis using Pair \<open>s' = s\<close> sq_query_not_found
      by (auto simp: sq_GetRootDocument_def tryE_def)
  next
    case Panic
    then show ?thesis using Pair by (auto simp: sq_query_def split: sum.splits)
  qed
qed

lemma sq_GetRootDocument_found:
  "tables_ok (sq_tables E s) \<Longrightarrow> sq_GetRootDocument E mac s = (Ok d, s') \<Longrightarrow>
     s' = s \<and> stored_root (sq_tables E s) mac = Some d"
  using sq_GetRootDocument_cases[of s mac] by (auto split: option.splits)

lemma sq_GetRootDocument_missing:
  "tables_ok (sq_tables E s) \<Longrightarrow> sq_GetRootDocument E mac s = (Err e, s') \<Longrightarrow> sq_IsDbNotFound e \<Longrightarrow>
     s' = s \<and> stored_root (sq_tables E s) mac = None"
  using sq_GetRootDocument_cases[of s mac] by (auto split: option.splits)

end

text \<open>How a new row and an updated one read as a root document.\<close>

definition root_row :: "rootdoc \<Rightarrow> rootdoc" where
  "root_row rd = rd\<lparr>rd_query_params := '''', rd_locked_till := 0\<rparr>"

definition empty_root :: rootdoc where
  "empty_root = NewRootDocument 0 '''' '''' '''' '''' '''' '''' '''' ''''"

definition store_root :: "rootdoc \<Rightarrow> rootdoc option \<Rightarrow> rootdoc" where
  "store_root new old = (case old of None \<Rightarrow> root_row new | Some o' \<Rightarrow> root_row (root_Update o' new))"

definition store_root_version :: "string \<Rightarrow> rootdoc option \<Rightarrow> rootdoc" where
  "store_root_version v old = (case old of None \<Rightarrow> empty_root | Some o' \<Rightarrow> o')\<lparr>rd_version := v\<rparr>"

lemma row_root_version:
  "row_rootdoc (r(''version'' := VText v)) = (row_rootdoc r)\<lparr>rd_version := v\<rparr>"
  by (simp add: row_rootdoc_def NewRootDocument_def str_or_empty_def)

lemma row_root_new: "row_rootdoc ((\<lambda>_. VNull)(''cpe_mac'' := VText mac)) = empty_root"
  by (simp add: row_rootdoc_def str_or_empty_def empty_root_def)

context sql_engine
begin

lemma root_insert_effect:
  assumes "sq_exec E (InsertInto ''root_document'' (''cpe_mac'' # cols)) (VText mac # vals) s = (Ok u, s')"
    "stored_root (sq_tables E s) mac = None"
  shows "stored_root (sq_tables E s') m =
     (if m = mac then Some (row_rootdoc (set_row cols vals ((\<lambda>_. VNull)(''cpe_mac'' := VText mac))))
      else stored_root (sq_tables E s) m)"
proof -
  let ?r = "set_row cols vals ((\<lambda>_. VNull)(''cpe_mac'' := VText mac))"
  have k: "''cpe_mac'' \<notin> set cols"
    and T': "sq_tables E s' = (sq_tables E s)(''root_document'' := sq_tables E s ''root_document'' @ [?r])"
    using sq_exec_Ok(1)[OF assms(1)] by (auto simp: Let_def split: if_splits)
  have "root_rows (sq_tables E s') m =
      (if m = mac then root_rows (sq_tables E s) m @ [?r] else root_rows (sq_tables E s) m)"
    unfolding T' by (rule root_rows_insert) (simp add: set_row_other k)
  moreover have "root_rows (sq_tables E s) mac = []"
    using assms(2) by (simp add: stored_root_def split: list.splits)
  ultimately show ?thesis by (simp add: stored_root_def)
qed

lemma root_update_effect:
  assumes "sq_exec E (UpdateSet ''root_document'' cols [''cpe_mac'']) (vals @ [VText mac]) s = (Ok u, s')"
    "''cpe_mac'' \<notin> set cols" "length vals = length cols"
    "\<And>r. row_rootdoc (set_row cols vals r) = F (row_rootdoc r)"
  shows "stored_root (sq_tables E s') m =
     (if m = mac then map_option F (stored_root (sq_tables E s) m) else stored_root (sq_tables E s) m)"
proof -
  let ?f = "set_row cols vals"
  have T': "sq_tables E s' = (sq_tables E s)(''root_document'' :=
      update_where [''cpe_mac''] [VText mac] ?f (sq_tables E s ''root_document''))"
    using sq_exec_Ok(1)[OF assms(1)] assms(3) by (auto simp: Let_def split: if_splits)
  have "root_rows (sq_tables E s') m =
      (if m = mac then map ?f (root_rows (sq_tables E s) m) else root_rows (sq_tables E s) m)"
    unfolding T' by (rule root_rows_update) (simp add: set_row_other assms(2))
  then show ?thesis by (simp add: stored_root_def assms(4) split: list.splits)
qed

lemma sq_SetRootDocument_effect:
  assumes ok: "tables_ok (sq_tables E s)" and set: "sq_SetRootDocument E mac rd s = (Ok u, s')"
  shows "stored_root (sq_tables E s') m =
    (if m = mac then Some (store_root rd (stored_root (sq_tables E s) mac)) else stored_root (sq_tables E s) m)"
proof -
  from set consider
      (upd) x s1 v where "sq_GetRootDocument E mac s = (Ok x, s1)"
        "sq_updateRootDocument E mac (root_Update x rd) s1 = (Ok v, s')"
    | (ins) e s1 v where "sq_GetRootDocument E mac s = (Err e, s1)" "sq_IsDbNotFound e"
        "sq_insertRootDocument E mac rd s1 = (Ok v, s')"
    unfolding sq_SetRootDocument_def by (auto simp: tryE_eq_Ok bindE_eq_Ok split: if_splits)
  then show ?thesis
  proof cases
    case upd
    then have s1: "s1 = s" and x: "stored_root (sq_tables E s) mac = Some x"
      using sq_GetRootDocument_found[OF ok upd(1)] by auto
    let ?rd = "root_Update x rd"
    have c: "''cpe_mac'' \<notin> set (map fst (root_cols ?rd))" by (simp add: root_cols_def)
    have "stored_root (sq_tables E s') m =
       (if m = mac then map_option (\<lambda>_. root_row ?rd) (stored_root (sq_tables E s) m)
        else stored_root (sq_tables E s) m)"
      using upd(2) c unfolding sq_updateRootDocument_def s1
      by (rule root_update_effect) (simp_all only: length_map row_root_update root_row_def)
    then show ?thesis by (simp add: x store_root_def)
  next
    case ins
    then have s1: "s1 = s" and n: "stored_root (sq_tables E s) mac = None"
      using sq_GetRootDocument_missing[OF ok ins(1,2)] by auto
    have "row_rootdoc (set_row (map fst (root_cols rd)) (map snd (root_cols rd)) r) = root_row rd" for r
      by (simp only: row_root_update root_row_def)
    with ins(3) n show ?thesis
      unfolding sq_insertRootDocument_def s1 by (simp add: root_insert_effect store_root_def)
  qed
qed

lemma sq_SetRootDocumentVersion_effect:
  assumes ok: "tables_ok (sq_tables E s)" and set: "sq_SetRootDocumentVersion E mac v s = (Ok u, s')"
  shows "stored_root (sq_tables E s') m =
    (if m = mac then Some (store_root_version v (stored_root (sq_tables E s) mac)) else stored_root (sq_tables E s) m)"
proof -
  from set consider
      (upd) x s1 where "sq_GetRootDocument E mac s = (Ok x, s1)"
        "sq_updateRootDocumentVersion E mac v s1 = (Ok u, s')"
    | (ins) e s1 where "sq_GetRootDocument E mac s = (Err e, s1)" "sq_IsDbNotFound e"
        "sq_insertRootDocumentVersion E mac v s1 = (Ok u, s')"
    unfolding sq_SetRootDocumentVersion_def by (auto simp: tryE_eq_Ok split: if_splits)
  then show ?thesis
  proof cases
    case upd
    then have s1: "s1 = s" and x: "stored_root (sq_tables E s) mac = Some x"
      using sq_GetRootDocument_found[OF ok upd(1)] by auto
    have "sq_exec E (UpdateSet ''root_document'' [''version''] [''cpe_mac'']) ([VText v] @ [VText mac]) s = (Ok u, s')"
      using upd(2) by (simp add: sq_updateRootDocumentVersion_def s1)
    then have "stored_root (sq_tables E s') m =
       (if m = mac then map_option (\<lambda>r. r\<lparr>rd_version := v\<rparr>) (stored_root (sq_tables E s) m)
        else stored_root (sq_tables E s) m)"
      by (rule root_update_effect) (simp_all add: row_root_version del: fun_upd_apply)
    then show ?thesis by (simp add: x store_root_version_def)
  next
    case ins
    then have s1: "s1 = s" and n: "stored_root (sq_tables E s) mac = None"
      using sq_GetRootDocument_missing[OF ok ins(1,2)] by auto
    with ins(3) show ?thesis
      unfolding sq_insertRootDocumentVersion_def
      by (simp add: root_insert_effect store_root_version_def row_root_version row_root_new del: fun_upd_apply)
  qed
qed

section \<open>Shared payloads\<close>

text \<open>The statement that updates a reference names a column its table lacks: it never runs.\<close>

lemma sq_updateRefSubDocument_fails:
  "\<exists>e s'. sq_updateRefSubDocument E r d s = (Err e, s') \<and> sq_tables E s' = sq_tables E s"
proof -
  let ?st = "UpdateSet ''reference_document'' (map fst (refsubdoc_cols d)) [''cpe_mac'', ''ref_id'']"
    and ?vs = "map snd (refsubdoc_cols d) @ [VText r]"
  have "sql_effect ?st ?vs (eng_tables E (sq_db s)) = None" by simp
  from exec_rejected[OF this] show ?thesis
    by (auto simp: sq_updateRefSubDocument_def Let_def sq_exec_def sq_tables_def)
qed

lemma sq_SetRefSubDocument_existing:
  assumes "sq_GetRefSubDocument E r s = (Ok old, s)"
  shows "\<exists>e s'. sq_SetRefSubDocument E r d s = (Err e, s') \<and> sq_tables E s' = sq_tables E s"
  using sq_updateRefSubDocument_fails[of r d s]
  by (auto simp: sq_SetRefSubDocument_def tryE_def bindE_def assms split: prod.splits)

end

end
