(* ===== verification/DbStore.thy ===== *)
theory DbStore
  imports ServiceUpdate
begin

text \<open>
  The second contract between the services and a database client: \<open>db_store\<close> extends
  \<open>db_frame\<close> with the content of the database (a map from device and group to sub-document,
  and one from device to root document) and the effect of the operations on it. The
  functional behaviour of the services is proved once inside it.
\<close>

text \<open>What storing over an existing sub-document keeps: a nil field keeps what is stored.\<close>

definition merges :: "(subdoc \<Rightarrow> subdoc option \<Rightarrow> subdoc) \<Rightarrow> bool" where
  "merges store \<longleftrightarrow> (\<forall>new old.
     (let o' = (case old of None \<Rightarrow> NewSubDocument None None None None None None | Some x \<Rightarrow> x) in
        sd_payload (store new old) = opt_or (sd_payload new) (sd_payload o') \<and>
        sd_version (store new old) = opt_or (sd_version new) (sd_version o') \<and>
        sd_state (store new old) = opt_or (sd_state new) (sd_state o') \<and>
        sd_updated_time (store new old) = opt_or (sd_updated_time new) (sd_updated_time o') \<and>
        sd_error_code (store new old) = opt_or (sd_error_code new) (sd_error_code o') \<and>
        sd_error_details (store new old) = opt_or (sd_error_details new) (sd_error_details o')))"

locale db_store = db_frame c subs roots
  for c :: "'s db_client" and subs :: "'s \<Rightarrow> string \<Rightarrow> 'v" and roots :: "'s \<Rightarrow> string \<Rightarrow> 'w" +
  fixes inv :: "'s \<Rightarrow> bool"
    and content :: "'s \<Rightarrow> string \<Rightarrow> string \<Rightarrow> subdoc option"
    and rootc :: "'s \<Rightarrow> string \<Rightarrow> rootdoc option"
    and store :: "subdoc \<Rightarrow> subdoc option \<Rightarrow> subdoc"
    and rstore :: "rootdoc \<Rightarrow> rootdoc option \<Rightarrow> rootdoc"
    and rvstore :: "string \<Rightarrow> rootdoc option \<Rightarrow> rootdoc"
  assumes inv_set_sub: "inv s \<Longrightarrow> inv (snd (db_SetSubDocument c mac g d st l s))"
    and inv_del_sub: "inv s \<Longrightarrow> inv (snd (db_DeleteSubDocument c mac g s))"
    and inv_set_root: "inv s \<Longrightarrow> inv (snd (db_SetRootDocument c mac rd s))"
    and inv_set_rver: "inv s \<Longrightarrow> inv (snd (db_SetRootDocumentVersion c mac v s))"
    and set_sub_ok: "inv s \<Longrightarrow> db_SetSubDocument c mac g d st l s = (Ok u, s') \<Longrightarrow>
      content s' m k = (if m = mac \<and> k = g then Some (store d (content s m k)) else content s m k)"
    and del_sub_ok: "inv s \<Longrightarrow> db_DeleteSubDocument c mac g s = (Ok u, s') \<Longrightarrow>
      content s' m k = (if m = mac \<and> k = g then None else content s m k)"
    and set_sub_rootc: "rootc (snd (db_SetSubDocument c mac g d st l s)) m = rootc s m"
    and del_sub_rootc: "rootc (snd (db_DeleteSubDocument c mac g s)) m = rootc s m"
    and set_root_content: "content (snd (db_SetRootDocument c mac rd s)) m k = content s m k"
    and set_rver_content: "content (snd (db_SetRootDocumentVersion c mac v s)) m k = content s m k"
    and get_sub_ok: "inv s \<Longrightarrow> db_GetSubDocument c mac g s = (Ok d, s') \<Longrightarrow>
      \<exists>d0. content s mac g = Some d0 \<and> d = d0\<lparr>sd_payload := sd_payload d\<rparr>"
    and get_doc_ok: "inv s \<Longrightarrow> db_GetDocument c mac b s = (Ok (Some doc, ge), s') \<Longrightarrow>
      doc_ok doc \<and> (\<forall>k. map_of (docmap doc) k = map_option (\<lambda>x. x\<lparr>sd_expiry := None\<rparr>) (content s mac k))"
    and get_root_ok: "inv s \<Longrightarrow> db_GetRootDocument c mac s = (Ok rd, s') \<Longrightarrow> rootc s mac = Some rd"
    and get_root_missing: "inv s \<Longrightarrow> db_GetRootDocument c mac s = (Err e, s') \<Longrightarrow>
      db_IsDbNotFound c e \<Longrightarrow> rootc s mac = None"
    and set_root_ok: "inv s \<Longrightarrow> db_SetRootDocument c mac rd s = (Ok u, s') \<Longrightarrow>
      rootc s' m = (if m = mac then Some (rstore rd (rootc s m)) else rootc s m)"
    and set_root_err: "inv s \<Longrightarrow> db_SetRootDocument c mac rd s = (r, s') \<Longrightarrow> \<not> is_ok r \<Longrightarrow> rootc s' m = rootc s m"
    and set_rver_ok: "inv s \<Longrightarrow> db_SetRootDocumentVersion c mac v s = (Ok u, s') \<Longrightarrow>
      rootc s' m = (if m = mac then Some (rvstore v (rootc s m)) else rootc s m)"
    and store_merges: "merges store"
    and rstore_version: "rd_version (rstore rd old) =
      upd_str (case old of None \<Rightarrow> '''' | Some o' \<Rightarrow> rd_version o') (rd_version rd)"
    and rvstore_version: "rd_version (rvstore v old) = v"
begin

lemma get_labels_state: "db_GetRootDocumentLabels c mac s = (r, s') \<Longrightarrow> s' = s"
  using get_labels_pure[of mac s] by simp

lemma get_root_state: "db_GetRootDocument c mac s = (r, s') \<Longrightarrow> s' = s"
  using get_root_pure[of mac s] by simp

lemma get_sub_state: "db_GetSubDocument c mac g s = (r, s') \<Longrightarrow> s' = s"
  using get_sub_pure[of mac g s] by simp

lemma get_doc_state: "db_GetDocument c mac b s = (r, s') \<Longrightarrow> s' = s"
  using get_doc_pure[of mac b s] by simp

text \<open>A stored sub-document: what is kept of the old one.\<close>

lemma store_sel:
  "sd_state (store new (Some o')) = opt_or (sd_state new) (sd_state o')"
  "sd_version (store new (Some o')) = opt_or (sd_version new) (sd_version o')"
  "sd_payload (store new (Some o')) = opt_or (sd_payload new) (sd_payload o')"
  "sd_updated_time (store new (Some o')) = opt_or (sd_updated_time new) (sd_updated_time o')"
  "sd_error_code (store new (Some o')) = opt_or (sd_error_code new) (sd_error_code o')"
  "sd_error_details (store new (Some o')) = opt_or (sd_error_details new) (sd_error_details o')"
  using store_merges unfolding merges_def
  by (auto dest!: spec[of _ new] dest: spec[of _ "Some o'"] simp: Let_def)

section \<open>Documents from upstream\<close>

text \<open>The content a device has for a group after the upstream sub-document was processed.\<close>

definition upstream_content ::
  "string gomap \<Rightarrow> document \<Rightarrow> (string \<Rightarrow> int) \<Rightarrow> string \<Rightarrow> subdoc \<Rightarrow> subdoc option \<Rightarrow> subdoc option" where
  "upstream_content vm d now k n old =
     (if upstream_unchanged vm k n (doc_SubDocument d k) then old
      else Some (store (upstream_subdoc n (now k)) old))"

lemma UpdateSubDocument_ok:
  assumes "inv s" "UpdateSubDocument c mac g n (doc_SubDocument d g) vm (now g) s = (Ok u, s')"
  shows "inv s'" "rootc s' m = rootc s m"
    "content s' m k = (if m = mac \<and> k = g then upstream_content vm d now g n (content s m k) else content s m k)"
proof -
  from assms(2) consider
      (same) "upstream_unchanged vm g n (doc_SubDocument d g)" "s' = s"
    | (set) st l v where "\<not> upstream_unchanged vm g n (doc_SubDocument d g)"
        "db_SetSubDocument c mac g (upstream_subdoc n (now g)) st l s = (Ok v, s')"
    unfolding UpdateSubDocument_def Let_def
    by (auto simp: bindE_eq_Ok split: if_splits dest!: get_labels_state)
  then have "inv s' \<and> rootc s' m = rootc s m \<and> content s' m k =
      (if m = mac \<and> k = g then upstream_content vm d now g n (content s m k) else content s m k)"
  proof cases
    case same
    then show ?thesis using assms(1) by (simp add: upstream_content_def)
  next
    case set
    have "inv s'" using inv_set_sub[OF assms(1)] set(2) by (metis snd_conv)
    moreover have "rootc s' m = rootc s m" using set_sub_rootc set(2) by (metis snd_conv)
    ultimately show ?thesis
      using set(1) set_sub_ok[OF assms(1) set(2)] by (simp add: upstream_content_def)
  qed
  then show "inv s'" "rootc s' m = rootc s m"
    "content s' m k = (if m = mac \<and> k = g then upstream_content vm d now g n (content s m k) else content s m k)"
    by simp_all
qed

lemma upstream_loop_ok:
  assumes "inv s" "gomap_ok items"
    "for_each (\<lambda>(g, n). UpdateSubDocument c mac g n (doc_SubDocument d g) vm (now g)) items s = (Ok u, s')"
  shows "inv s' \<and> rootc s' m = rootc s m \<and> content s' m k =
    (if m = mac then (case map_of items k of None \<Rightarrow> content s m k
                      | Some n \<Rightarrow> upstream_content vm d now k n (content s m k))
     else content s m k)"
  using assms
proof (induction items arbitrary: s)
  case Nil
  then show ?case by simp
next
  case (Cons it items)
  obtain g n where it: "it = (g, n)" by (cases it)
  from Cons.prems(3) obtain v s1 where
      h: "UpdateSubDocument c mac g n (doc_SubDocument d g) vm (now g) s = (Ok v, s1)"
    and t: "for_each (\<lambda>(g, n). UpdateSubDocument c mac g n (doc_SubDocument d g) vm (now g)) items s1 = (Ok u, s')"
    by (auto simp: it bindE_eq_Ok)
  have g: "map_of items g = None" and ok: "gomap_ok items"
    using Cons.prems(2) by (simp_all add: it map_of_eq_None_iff)
  note step = UpdateSubDocument_ok[where now = now and d = d, OF Cons.prems(1) h]
  from Cons.IH[OF step(1) ok t] show ?case
    using g step(2)[of m] step(3)[of m k] by (auto simp: it split: option.splits)
qed

lemma delete_loop_ok:
  assumes "inv s" "for_each (db_DeleteSubDocument c mac) ids s = (Ok u, s')"
  shows "inv s' \<and> rootc s' m = rootc s m \<and>
    content s' m k = (if m = mac \<and> k \<in> set ids then None else content s m k)"
  using assms
proof (induction ids arbitrary: s)
  case Nil
  then show ?case by simp
next
  case (Cons g ids)
  then obtain v s1 where h: "db_DeleteSubDocument c mac g s = (Ok v, s1)"
    and t: "for_each (db_DeleteSubDocument c mac) ids s1 = (Ok u, s')"
    by (auto simp: bindE_eq_Ok)
  have "inv s1" "rootc s1 m = rootc s m"
    using inv_del_sub[OF Cons.prems(1), of mac g] del_sub_rootc[of mac g s m] h by simp_all
  with Cons.IH[OF _ t] del_sub_ok[OF Cons.prems(1) h, of m k] show ?case by auto
qed

lemma WriteDocumentFromUpstream_ok:
  assumes inv: "inv s" and nd: "doc_ok nd"
    and run: "WriteDocumentFromUpstream c mac etag nd d toDelete vm now s = (Ok u, s')"
  shows "content s' mac k =
      (case map_of (docmap nd) k of
         Some n \<Rightarrow> upstream_content vm d now k n (content s mac k)
       | None \<Rightarrow> if toDelete \<and> map_of (docmap d) k \<noteq> None then None else content s mac k)"
    and "RootVersion d \<noteq> etag \<Longrightarrow> \<exists>r. rootc s' mac = Some r \<and> rd_version r = etag"
    and "RootVersion d = etag \<Longrightarrow> rootc s' mac = rootc s mac"
proof -
  let ?dead = "filter (\<lambda>k. k \<notin> fst ` set (docmap nd)) (map fst (docmap d))"
  from run obtain s1 s2 u1 u2 where
      root: "(if RootVersion d \<noteq> etag then db_SetRootDocumentVersion c mac etag else ret ()) s = (Ok u1, s1)"
    and loop: "for_each (\<lambda>(g, n). UpdateSubDocument c mac g n (doc_SubDocument d g) vm (now g)) (docmap nd) s1 = (Ok u2, s2)"
    and del: "(if toDelete then for_each (db_DeleteSubDocument c mac) ?dead else ret ()) s2 = (Ok u, s')"
    unfolding WriteDocumentFromUpstream_def by (auto simp: bindE_eq_Ok)
  have i1: "inv s1" and c1: "content s1 m k = content s m k" for m k
    using inv_set_rver[OF inv, of mac etag] set_rver_content[of mac etag s] root inv
    by (auto split: if_splits)
  have i2: "inv s2" and r2: "rootc s2 mac = rootc s1 mac" and c2: "content s2 mac k =
      (case map_of (docmap nd) k of None \<Rightarrow> content s1 mac k
       | Some n \<Rightarrow> upstream_content vm d now k n (content s1 mac k))"
    using upstream_loop_ok[OF i1 _ loop, of mac k] nd by (simp_all add: doc_ok_def)
  have r3: "rootc s' mac = rootc s2 mac" and c3: "content s' mac k =
      (if toDelete \<and> k \<in> set ?dead then None else content s2 mac k)"
    using delete_loop_ok[OF i2, of mac ?dead u s' mac k] del by (auto split: if_splits)
  have "k \<in> set ?dead \<longleftrightarrow> map_of (docmap nd) k = None \<and> map_of (docmap d) k \<noteq> None"
    by (auto simp: map_of_eq_None_iff image_iff)
  with c1 c2 c3 show "content s' mac k =
      (case map_of (docmap nd) k of
         Some n \<Rightarrow> upstream_content vm d now k n (content s mac k)
       | None \<Rightarrow> if toDelete \<and> map_of (docmap d) k \<noteq> None then None else content s mac k)"
    by (auto split: option.splits)
  show "RootVersion d \<noteq> etag \<Longrightarrow> \<exists>r. rootc s' mac = Some r \<and> rd_version r = etag"
    using root set_rver_ok[OF inv, of mac etag u1 s1 mac] r2 r3 by (simp add: rvstore_version)
  show "RootVersion d = etag \<Longrightarrow> rootc s' mac = rootc s mac"
    using root r2 r3 by simp
qed

section \<open>Loops over the stored document\<close>

text \<open>
  The loops of a 304 report and of \<open>UpdateDocumentStateIndeployment\<close> store over the entries
  of a document read before; both are this lemma with their own test.
\<close>

lemma store_step:
  assumes "inv s" "db_SetSubDocument c mac g n st l s = (Ok u, s')"
  shows "inv s'" "rootc s' m = rootc s m"
    "content s' m k = (if m = mac \<and> k = g then Some (store n (content s m k)) else content s m k)"
  using inv_set_sub[OF assms(1), of mac g n st l] set_sub_rootc[of mac g n st l s m] set_sub_ok[OF assms] assms(2)
  by simp_all

definition deployed_subdoc :: "int \<Rightarrow> subdoc" where
  "deployed_subdoc t = NewSubDocument None None (Some Deployed) (Some t) (Some 0) (Some '''')"

lemma http304_loop_ok:
  assumes "inv s" "gomap_ok items" "http304_loop c mac t l ids items s = (Ok (ids', None), s')"
  shows "inv s' \<and> rootc s' m = rootc s m \<and>
    ids' = ids @ map fst (filter (\<lambda>(k, d). NeedsUpdateForHttp304 d) items) \<and>
    content s' m k =
      (if m = mac \<and> (\<exists>d. map_of items k = Some d \<and> NeedsUpdateForHttp304 d)
       then Some (store (deployed_subdoc t) (content s m k)) else content s m k)"
  using assms
proof (induction items arbitrary: s ids)
  case Nil
  then show ?case by simp
next
  case (Cons it items)
  obtain g d where it: "it = (g, d)" by (cases it)
  have g: "map_of items g = None" and ok: "gomap_ok items"
    using Cons.prems(2) by (simp_all add: it map_of_eq_None_iff)
  show ?case
  proof (cases "NeedsUpdateForHttp304 d")
    case False
    with Cons.prems(3) have "http304_loop c mac t l ids items s = (Ok (ids', None), s')"
      by (simp add: it)
    from Cons.IH[OF Cons.prems(1) ok this] show ?thesis using False g by (auto simp: it)
  next
    case True
    with Cons.prems(3) obtain st u s1 where
        h: "db_SetSubDocument c mac g (deployed_subdoc t) st l s = (Ok u, s1)"
      and r: "http304_loop c mac t l (ids @ [g]) items s1 = (Ok (ids', None), s')"
      by (auto simp: it Let_def deref_eq_Ok tryE_eq_Ok deployed_subdoc_def)
    note step = store_step[OF Cons.prems(1) h]
    from Cons.IH[OF step(1) ok r] show ?thesis
      using True g step(2)[of m] step(3)[of m k] by (auto simp: it)
  qed
qed

lemma indeployment_loop_ok:
  assumes "inv s" "gomap_ok items" "for_each (mark_indeployment c mac t l) items s = (Ok u, s')"
  shows "inv s' \<and> rootc s' m = rootc s m \<and>
    content s' m k =
      (if m = mac \<and> (\<exists>d. map_of items k = Some d \<and> sd_state d \<noteq> Some Deployed \<and> sd_state d \<noteq> Some InDeployment)
       then Some (store (indeployment_subdoc t) (content s m k)) else content s m k)"
  using assms
proof (induction items arbitrary: s)
  case Nil
  then show ?case by simp
next
  case (Cons it items)
  obtain g d where it: "it = (g, d)" by (cases it)
  have g: "map_of items g = None" and ok: "gomap_ok items"
    using Cons.prems(2) by (simp_all add: it map_of_eq_None_iff)
  from Cons.prems(3) obtain v s1 where h: "mark_indeployment c mac t l (g, d) s = (Ok v, s1)"
    and r: "for_each (mark_indeployment c mac t l) items s1 = (Ok u, s')"
    by (auto simp: it bindE_eq_Ok)
  show ?case
  proof (cases "sd_state d = Some Deployed \<or> sd_state d = Some InDeployment")
    case True
    then have "s1 = s" using h by (auto simp: mark_indeployment_def)
    with Cons.IH[OF Cons.prems(1) ok] r show ?thesis using True g by (auto simp: it)
  next
    case False
    with h obtain st where "db_SetSubDocument c mac g (indeployment_subdoc t) st l s = (Ok v, s1)"
      by (auto simp: mark_indeployment_def deref_eq_Ok split: option.splits if_splits)
    note step = store_step[OF Cons.prems(1) this]
    from Cons.IH[OF step(1) ok r] show ?thesis
      using False g step(2)[of m] step(3)[of m k] by (auto simp: it)
  qed
qed

section \<open>Reports\<close>

lemma NeedsUpdate_expiry [simp]: "NeedsUpdateForHttp304 (d\<lparr>sd_expiry := e\<rparr>) = NeedsUpdateForHttp304 d"
  by (simp add: NeedsUpdateForHttp304_def)

lemma UpdateDocumentState_304_ok:
  assumes inv: "inv s" and m: "em_reports m = []" "em_http_status_code m = Some 304"
    and run: "UpdateDocumentState c mac m flds t ns s = (Ok (ids, None), s')"
  shows "content s' mac k =
      (case content s mac k of
         None \<Rightarrow> None
       | Some d \<Rightarrow> if NeedsUpdateForHttp304 d then Some (store (deployed_subdoc t) (Some d)) else Some d)"
    and "k \<in> set ids \<longleftrightarrow> (\<exists>d. content s mac k = Some d \<and> NeedsUpdateForHttp304 d)"
proof -
  from run m obtain l d s1 where
      doc: "db_GetDocument c mac False s = (Ok (Some d, None), s1)"
    and loop: "http304_loop c mac t l [] (docmap d) s1 = (Ok (ids, None), s')"
    unfolding UpdateDocumentState_def Let_def
    by (auto simp: deref_eq_Ok tryE_eq_Ok split: option.splits dest!: get_labels_state)
  have s1: "s1 = s" using get_doc_state[OF doc] .
  have ok: "gomap_ok (docmap d)"
    and d: "map_of (docmap d) k = map_option (\<lambda>x. x\<lparr>sd_expiry := None\<rparr>) (content s mac k)"
    using get_doc_ok[OF inv doc] by (simp_all add: doc_ok_def)
  note l = http304_loop_ok[OF inv ok loop[unfolded s1], of mac k]
  then show "content s' mac k =
      (case content s mac k of
         None \<Rightarrow> None
       | Some d \<Rightarrow> if NeedsUpdateForHttp304 d then Some (store (deployed_subdoc t) (Some d)) else Some d)"
    by (auto simp: d split: option.splits)
  have "k \<in> set ids \<longleftrightarrow> (\<exists>x. (k, x) \<in> set (docmap d) \<and> NeedsUpdateForHttp304 x)"
    using l by force
  then show "k \<in> set ids \<longleftrightarrow> (\<exists>d. content s mac k = Some d \<and> NeedsUpdateForHttp304 d)"
    by (auto simp: gomap_in_set[OF ok] d)
qed

lemma UpdateDocumentState_report_ok:
  assumes inv: "inv s" and m: "em_reports m = []" "em_http_status_code m = None"
    and run: "UpdateDocumentState c mac m flds t ns s = (Ok (ids, None), s')"
  shows "\<exists>g d. em_namespace m = Some g \<and> content s mac g = Some d \<and>
    (if report_version_differs d m then s' = s
     else content s' mac = (content s mac)(g := Some (store (report_subdoc c g m t ns) (Some d))))"
proof -
  from run m obtain g l d s1 where g: "em_namespace m = Some g"
    and sub: "db_GetSubDocument c mac g s = (Ok d, s1)"
    and app: "apply_report c mac m g l t ns d s1 = (Ok (ids, None), s')"
    unfolding UpdateDocumentState_def Let_def
    by (cases "em_application_status m"; cases "em_namespace m";
        cases "report_state m (the (em_application_status m))")
       (auto simp: deref_eq_Ok tryE_eq_Ok dest!: get_labels_state)
  have s1: "s1 = s" using get_sub_state[OF sub] .
  obtain d0 where d0: "content s mac g = Some d0" "d = d0\<lparr>sd_payload := sd_payload d\<rparr>"
    using get_sub_ok[OF inv sub] by blast
  have "sd_version (d0\<lparr>sd_payload := p\<rparr>) = sd_version d0" for p by simp
  with d0(2) have v: "report_version_differs d m = report_version_differs d0 m"
    unfolding report_version_differs_def by metis
  let ?mis = "report_version_differs d m"
  have "s' = s" if "?mis"
    using app that unfolding apply_report_def Let_def s1 by (auto split: if_splits option.splits)
  moreover have "content s' mac = (content s mac)(g := Some (store (report_subdoc c g m t ns) (Some d0)))"
    if "\<not> ?mis"
  proof -
    note differs = that
    obtain st l' u where "db_SetSubDocument c mac g (report_subdoc c g m t ns) st l' s = (Ok u, s')"
      using app differs unfolding apply_report_def Let_def s1
      by (auto simp: tryE_eq_Ok split: if_splits)
    from store_step(3)[OF inv this] show ?thesis by (simp add: d0(1) fun_eq_iff)
  qed
  ultimately show ?thesis using g d0(1) v by auto
qed

section \<open>The stored root version\<close>

text \<open>What a device reports never changes the root version the server has stored.\<close>

definition root_version_is :: "string \<Rightarrow> string \<Rightarrow> 's \<Rightarrow> bool" where
  "root_version_is mac v s \<longleftrightarrow>
     inv s \<and> (case rootc s mac of None \<Rightarrow> '''' | Some r \<Rightarrow> rd_version r) = v"

lemma root_version_set_sub [keeps_intros]: "keeps (root_version_is mac v) (db_SetSubDocument c mac' g d st l)"
  by (rule keepsI) (simp add: root_version_is_def inv_set_sub set_sub_rootc)

lemma root_version_set_root [keeps_intros]:
  "rd_version rd = '''' \<Longrightarrow> keeps (root_version_is mac v) (db_SetRootDocument c mac' rd)"
proof (rule keepsI)
  fix s assume v: "rd_version rd = ''''" and s: "root_version_is mac v s"
  then have i: "inv s" by (simp add: root_version_is_def)
  obtain r s' where x: "db_SetRootDocument c mac' rd s = (r, s')" by fastforce
  have "inv s'" using inv_set_root[OF i, of mac' rd] x by simp
  moreover have "(case rootc s' mac of None \<Rightarrow> '''' | Some r \<Rightarrow> rd_version r) = v"
  proof (cases "is_ok r")
    case True
    then obtain u where "r = Ok u" by (auto simp: is_ok_iff)
    then show ?thesis using set_root_ok[OF i, of mac' rd u s' mac] x v s
      by (auto simp: root_version_is_def rstore_version split: option.splits)
  next
    case False
    then show ?thesis using set_root_err[OF i x, of mac] s by (simp add: root_version_is_def)
  qed
  ultimately show "root_version_is mac v (snd (db_SetRootDocument c mac' rd s))"
    by (simp add: x root_version_is_def)
qed

lemma root_version_resolve [keeps_intros]: "keeps (root_version_is mac v) (cloud_root_document c mac' dev)"
  unfolding cloud_root_document_def Let_def by (auto intro!: keeps_intros)

lemma root_version_correction_loop [keeps_intros]:
  "keeps (root_version_is mac v) (correction_loop c mac' t l vm ms items)"
proof (induction items arbitrary: ms)
  case Nil
  then show ?case by simp
next
  case (Cons it items)
  then show ?case by (cases it) (auto simp: Let_def intro!: keeps_intros)
qed

lemma root_version_state_correction [keeps_intros]:
  "keeps (root_version_is mac v) (state_correction c mac' t dev vm doc)"
  unfolding state_correction_def
  by (auto intro!: keeps_intros split: prod.splits option.splits sum.splits)

lemma root_version_compare [keeps_intros]:
  "keeps (root_version_is mac v) (compare_and_finish c h mac' t t' cl dev vm doc)"
  unfolding compare_and_finish_def Let_def
  by (auto intro!: keeps_intros split: prod.splits sum.splits)

lemma BuildGetDocument_root_version: "keeps (root_version_is mac v) (BuildGetDocument c h flds t t')"
  unfolding BuildGetDocument_def Let_def
  by (auto intro!: keeps_intros split: prod.splits sum.splits)

end

end
