(* ===== verification/SqliteContract.thy ===== *)
theory SqliteContract
  imports SqliteDocs DbStore
begin

text \<open>
  The sqlite client, over any SQL engine, meets the contract \<open>db_store\<close> of the services; with
  the tables in memory as the engine this gives instances of both contracts.
\<close>

lemma opt_or_None [simp]: "opt_or x None = x"
  by (cases x) simp_all

lemma merges_store_subdoc: "merges store_subdoc"
  by (auto simp: merges_def store_subdoc_def Let_def split: option.splits)

lemma store_root_version_sel:
  "rd_version (store_root rd old) = upd_str (case old of None \<Rightarrow> '''' | Some o' \<Rightarrow> rd_version o') (rd_version rd)"
  "rd_version (store_root_version v old) = v"
  by (auto simp: store_root_def root_row_def store_root_version_def upd_str_def split: option.splits)

lemma stored_root_same: "T' ''root_document'' = T ''root_document'' \<Longrightarrow> stored_root T' m = stored_root T m"
  by (simp add: stored_root_def root_rows_def)

lemma stored_sub_same: "T' ''xpc_group_config'' = T ''xpc_group_config'' \<Longrightarrow> stored_sub T' m k = stored_sub T m k"
  by (simp add: stored_sub_def sub_rows_def)

context sql_engine
begin

lemma sq_frame_stored:
  "sq_frame mac ''xpc_group_config'' (sq_tables E s) (sq_tables E s') \<Longrightarrow>
     stored_root (sq_tables E s') m = stored_root (sq_tables E s) m"
  "sq_frame mac ''root_document'' (sq_tables E s) (sq_tables E s') \<Longrightarrow>
     stored_sub (sq_tables E s') m k = stored_sub (sq_tables E s) m k"
  by (auto simp: sq_frame_def intro: stored_root_same stored_sub_same)

lemma sq_exec_not_ok: "sq_exec E st vs s = (r, s') \<Longrightarrow> \<not> is_ok r \<Longrightarrow> sq_tables E s' = sq_tables E s"
  using exec_err[of st vs "sq_db s"]
  by (auto simp: sq_exec_def sq_tables_def split: prod.splits option.splits)

lemma sq_SetRootDocument_not_ok:
  assumes "sq_SetRootDocument E mac rd s = (r, s')" "\<not> is_ok r"
  shows "sq_tables E s' = sq_tables E s"
proof -
  obtain q s1 where g: "sq_GetRootDocument E mac s = (q, s1)" by fastforce
  then have "s1 = s" by (rule sq_GetRootDocument_state)
  with assms g show ?thesis
    unfolding sq_SetRootDocument_def sq_insertRootDocument_def sq_updateRootDocument_def
    by (auto simp: tryE_def bindE_def split: outcome.splits if_splits prod.splits dest: sq_exec_not_ok)
qed

lemma sq_GetSubDocument_content:
  assumes "tables_ok (sq_tables E s)" "sq_GetSubDocument E mac g s = (Ok d, s')"
  shows "\<exists>d0. stored_sub (sq_tables E s) mac g = Some d0 \<and> d = d0\<lparr>sd_payload := sd_payload d\<rparr>"
proof -
  have res: "sq_resolve_ref E d0 s = (Ok d, s') \<Longrightarrow> d = d0\<lparr>sd_payload := sd_payload d\<rparr>" for d0
    by (auto simp: sq_resolve_ref_def tryE_eq_Ok split: option.splits if_splits)
  from sq_GetSubDocument_cases[OF assms(1), of mac g] assms(2) show ?thesis
    by (auto split: option.splits intro!: res)
qed

end

sublocale sql_engine \<subseteq> store: db_store "sqlite_client E cfg" "sq_subs E" "sq_roots E"
  "\<lambda>s. tables_ok (sq_tables E s)" "\<lambda>s. stored_sub (sq_tables E s)" "\<lambda>s. stored_root (sq_tables E s)"
  store_subdoc store_root store_root_version for cfg
proof
  fix s s' mac g d st l rd v u m k b doc ge e r
  note inv = keepsD[of "\<lambda>s. tables_ok (sq_tables E s)", OF _ _ surjective_pairing]
  show "tables_ok (sq_tables E s) \<Longrightarrow> tables_ok (sq_tables E (snd (db_SetSubDocument (sqlite_client E cfg) mac g d st l s)))"
    by (simp add: sqlite_client_def inv[OF tables_ok_SetSubDocument])
  show "tables_ok (sq_tables E s) \<Longrightarrow> tables_ok (sq_tables E (snd (db_DeleteSubDocument (sqlite_client E cfg) mac g s)))"
    by (simp add: sqlite_client_def inv[OF tables_ok_DeleteSubDocument])
  show "tables_ok (sq_tables E s) \<Longrightarrow> tables_ok (sq_tables E (snd (db_SetRootDocument (sqlite_client E cfg) mac rd s)))"
    by (simp add: sqlite_client_def inv[OF tables_ok_SetRootDocument])
  show "tables_ok (sq_tables E s) \<Longrightarrow> tables_ok (sq_tables E (snd (db_SetRootDocumentVersion (sqlite_client E cfg) mac v s)))"
    by (simp add: sqlite_client_def inv[OF tables_ok_SetRootDocumentVersion])
  show "tables_ok (sq_tables E s) \<Longrightarrow> db_SetSubDocument (sqlite_client E cfg) mac g d st l s = (Ok u, s') \<Longrightarrow>
      stored_sub (sq_tables E s') m k =
        (if m = mac \<and> k = g then Some (store_subdoc d (stored_sub (sq_tables E s) m k)) else stored_sub (sq_tables E s) m k)"
    by (auto simp: sqlite_client_def sq_SetSubDocument_effect)
  show "tables_ok (sq_tables E s) \<Longrightarrow> db_DeleteSubDocument (sqlite_client E cfg) mac g s = (Ok u, s') \<Longrightarrow>
      stored_sub (sq_tables E s') m k = (if m = mac \<and> k = g then None else stored_sub (sq_tables E s) m k)"
    by (simp add: sqlite_client_def sq_DeleteSubDocument_effect)
  show "stored_root (sq_tables E (snd (db_SetSubDocument (sqlite_client E cfg) mac g d st l s))) m = stored_root (sq_tables E s) m"
    by (simp add: sqlite_client_def sq_frame_stored(1)[OF sq_frame_step[OF sq_frame_SetSubDocument]])
  show "stored_root (sq_tables E (snd (db_DeleteSubDocument (sqlite_client E cfg) mac g s))) m = stored_root (sq_tables E s) m"
    by (simp add: sqlite_client_def sq_frame_stored(1)[OF sq_frame_step[OF sq_frame_DeleteSubDocument]])
  show "stored_sub (sq_tables E (snd (db_SetRootDocument (sqlite_client E cfg) mac rd s))) m k = stored_sub (sq_tables E s) m k"
    by (simp add: sqlite_client_def sq_frame_stored(2)[OF sq_frame_step[OF sq_frame_SetRootDocument]])
  show "stored_sub (sq_tables E (snd (db_SetRootDocumentVersion (sqlite_client E cfg) mac v s))) m k = stored_sub (sq_tables E s) m k"
    by (simp add: sqlite_client_def sq_frame_stored(2)[OF sq_frame_step[OF sq_frame_SetRootDocumentVersion]])
  show "tables_ok (sq_tables E s) \<Longrightarrow> db_GetSubDocument (sqlite_client E cfg) mac g s = (Ok d, s') \<Longrightarrow>
      \<exists>d0. stored_sub (sq_tables E s) mac g = Some d0 \<and> d = d0\<lparr>sd_payload := sd_payload d\<rparr>"
    by (simp add: sqlite_client_def sq_GetSubDocument_content)
  show "tables_ok (sq_tables E s) \<Longrightarrow> db_GetDocument (sqlite_client E cfg) mac b s = (Ok (Some doc, ge), s') \<Longrightarrow>
      doc_ok doc \<and> (\<forall>k. map_of (docmap doc) k = map_option (\<lambda>x. x\<lparr>sd_expiry := None\<rparr>) (stored_sub (sq_tables E s) mac k))"
    by (simp add: sqlite_client_def sq_GetDocument_content)
  show "tables_ok (sq_tables E s) \<Longrightarrow> db_GetRootDocument (sqlite_client E cfg) mac s = (Ok rd, s') \<Longrightarrow>
      stored_root (sq_tables E s) mac = Some rd"
    by (simp add: sqlite_client_def sq_GetRootDocument_found)
  show "tables_ok (sq_tables E s) \<Longrightarrow> db_GetRootDocument (sqlite_client E cfg) mac s = (Err e, s') \<Longrightarrow>
      db_IsDbNotFound (sqlite_client E cfg) e \<Longrightarrow> stored_root (sq_tables E s) mac = None"
    by (simp add: sqlite_client_def sq_GetRootDocument_missing)
  show "tables_ok (sq_tables E s) \<Longrightarrow> db_SetRootDocument (sqlite_client E cfg) mac rd s = (Ok u, s') \<Longrightarrow>
      stored_root (sq_tables E s') m =
        (if m = mac then Some (store_root rd (stored_root (sq_tables E s) m)) else stored_root (sq_tables E s) m)"
    by (auto simp: sqlite_client_def sq_SetRootDocument_effect)
  show "tables_ok (sq_tables E s) \<Longrightarrow> db_SetRootDocument (sqlite_client E cfg) mac rd s = (r, s') \<Longrightarrow> \<not> is_ok r \<Longrightarrow>
      stored_root (sq_tables E s') m = stored_root (sq_tables E s) m"
    by (simp add: sqlite_client_def sq_SetRootDocument_not_ok)
  show "tables_ok (sq_tables E s) \<Longrightarrow> db_SetRootDocumentVersion (sqlite_client E cfg) mac v s = (Ok u, s') \<Longrightarrow>
      stored_root (sq_tables E s') m =
        (if m = mac then Some (store_root_version v (stored_root (sq_tables E s) m)) else stored_root (sq_tables E s) m)"
    by (auto simp: sqlite_client_def sq_SetRootDocumentVersion_effect)
qed (simp_all add: merges_store_subdoc store_root_version_sel)

text \<open>Both contracts on the client over the tables in memory.\<close>

interpretation mem_frame: db_frame "sqlite_client mem_engine cfg" "sq_subs mem_engine" "sq_roots mem_engine" for cfg
  by (rule mem.client.db_frame_axioms)

interpretation mem_store: db_store "sqlite_client mem_engine cfg" "sq_subs mem_engine" "sq_roots mem_engine"
  "\<lambda>s. tables_ok (sq_tables mem_engine s)" "\<lambda>s. stored_sub (sq_tables mem_engine s)"
  "\<lambda>s. stored_root (sq_tables mem_engine s)" store_subdoc store_root store_root_version for cfg
  by (rule mem.store.db_store_axioms)

end
