(* ===== verification/Requests.thy ===== *)
theory Requests
  imports DbStore
begin

text \<open>
  Sequences of requests: the services as a step relation on the state of the database, with
  the two invariants that hold along every run, device isolation and the range of the stored
  deployment states. The second needs one more law of the client, \<open>db_states\<close>.
\<close>

section \<open>Steps and runs\<close>

text \<open>
  One constructor per entry point of db/service.go and db/cloud_input_mqtt.go that changes
  what is stored, with the arguments the handlers pass and the clock readings.
\<close>

datatype request =
    GetDoc header fields int int
  | Report string eventmessage fields int int
  | Upstream string string document document bool "string gomap" "string \<Rightarrow> int"
  | Indeploy string document int
  | Preprocess header string string
  | BatchStates string string "string \<Rightarrow> int" "int gomap"

fun request_mac :: "request \<Rightarrow> string" where
  "request_mac (GetDoc h _ _ _) = fst (rheader_Get h HeaderDeviceId)"
| "request_mac (Report mac _ _ _ _) = mac"
| "request_mac (Upstream mac _ _ _ _ _ _) = mac"
| "request_mac (Indeploy mac _ _) = mac"
| "request_mac (Preprocess _ mac _) = mac"
| "request_mac (BatchStates mac _ _ _) = mac"

inductive serves :: "'s db_client \<Rightarrow> request \<Rightarrow> 's \<Rightarrow> 's \<Rightarrow> bool" for c where
  get: "BuildGetDocument c h flds t t' s = (r, s') \<Longrightarrow> serves c (GetDoc h flds t t') s s'"
| report: "UpdateDocumentState c mac m flds t ns s = (r, s') \<Longrightarrow> serves c (Report mac m flds t ns) s s'"
| upstream: "WriteDocumentFromUpstream c mac etag nd d del vm now s = (r, s') \<Longrightarrow>
    serves c (Upstream mac etag nd d del vm now) s s'"
| indeploy: "UpdateDocumentStateIndeployment c mac d t s = (r, s') \<Longrightarrow> serves c (Indeploy mac d t) s s'"
| preprocess: "PreprocessRootDocument c h mac p s = (r, s') \<Longrightarrow> serves c (Preprocess h mac p) s s'"
| batch: "UpdateStatesInBatch c mac a now sm s = (r, s') \<Longrightarrow> serves c (BatchStates mac a now sm) s s'"

inductive runs :: "'s db_client \<Rightarrow> request list \<Rightarrow> 's \<Rightarrow> 's \<Rightarrow> bool" for c where
  empty: "runs c [] s s"
| more: "serves c q s s1 \<Longrightarrow> runs c qs s1 s' \<Longrightarrow> runs c (q # qs) s s'"

inductive_cases runs_ConsE: "runs c (q # qs) s s'"
inductive_simps runs_Nil [simp]: "runs c [] s s'"

text \<open>Every request can be served: a run exists from every state.\<close>

lemma serves_total: "\<exists>s'. serves c q s s'"
proof (cases q)
  case (GetDoc h flds t t')
  then show ?thesis by (auto intro: serves.get[OF surjective_pairing])
next
  case (Report mac m flds t ns)
  then show ?thesis by (auto intro: serves.report[OF surjective_pairing])
next
  case (Upstream mac etag nd d del vm now)
  then show ?thesis by (auto intro: serves.upstream[OF surjective_pairing])
next
  case (Indeploy mac d t)
  then show ?thesis by (auto intro: serves.indeploy[OF surjective_pairing])
next
  case (Preprocess h mac p)
  then show ?thesis by (auto intro: serves.preprocess[OF surjective_pairing])
next
  case (BatchStates mac a now sm)
  then show ?thesis by (auto intro: serves.batch[OF surjective_pairing])
qed

lemma runs_total: "\<exists>s'. runs c qs s s'"
proof (induction qs arbitrary: s)
  case Nil
  then show ?case by simp
next
  case (Cons q qs)
  obtain s1 where q: "serves c q s s1" using serves_total[of c q s] by auto
  obtain s2 where "runs c qs s1 s2" using Cons[of s1] by auto
  with q show ?case by (auto intro: runs.more)
qed

lemma runs_keeps:
  assumes "runs c qs s s'" "P s"
    and "\<And>q s s'. q \<in> set qs \<Longrightarrow> serves c q s s' \<Longrightarrow> P s \<Longrightarrow> P s'"
  shows "P s'"
  using assms by (induction rule: runs.induct) auto

context db_frame
begin

lemma serves_isolated:
  assumes "serves c q s s'" "m \<noteq> request_mac q"
  shows "subs s' m = subs s m \<and> roots s' m = roots s m"
proof -
  from assms(1) have "others_same (request_mac q) s s'"
  proof cases
    case (get h flds t t' r)
    then show ?thesis using keepsD[OF frame_BuildGetDocument others_same_refl] by simp
  next
    case (report mac m flds t ns r)
    then show ?thesis using keepsD[OF frame_UpdateDocumentState others_same_refl] by simp
  next
    case (upstream mac etag nd d del vm now r)
    then show ?thesis using keepsD[OF frame_WriteDocumentFromUpstream others_same_refl] by simp
  next
    case (indeploy mac d t r)
    then show ?thesis using keepsD[OF frame_UpdateDocumentStateIndeployment others_same_refl] by simp
  next
    case (preprocess h mac p r)
    then show ?thesis using keepsD[OF frame_PreprocessRootDocument others_same_refl] by simp
  next
    case (batch mac a now sm r)
    then show ?thesis using keepsD[OF frame_UpdateStatesInBatch others_same_refl] by simp
  qed
  with assms(2) show ?thesis by (simp add: others_same_def)
qed

lemma runs_isolated:
  assumes "runs c qs s s'" "m \<notin> request_mac ` set qs"
  shows "subs s' m = subs s m \<and> roots s' m = roots s m"
  using assms
proof (induction rule: runs.induct)
  case (empty s)
  then show ?case by simp
next
  case (more q s s1 qs s')
  then show ?case using serves_isolated[OF more.hyps(1), of m] by auto
qed

end

section \<open>Deployment states\<close>

text \<open>
  \<open>db_states\<close> adds what a failed or panicking store may leave behind: the old content or the
  new one, never anything else.
\<close>

locale db_states = db_store c subs roots inv content rootc store rstore rvstore
  for c :: "'s db_client" and subs :: "'s \<Rightarrow> string \<Rightarrow> 'v" and roots :: "'s \<Rightarrow> string \<Rightarrow> 'w"
    and inv :: "'s \<Rightarrow> bool" and content :: "'s \<Rightarrow> string \<Rightarrow> string \<Rightarrow> subdoc option"
    and rootc :: "'s \<Rightarrow> string \<Rightarrow> rootdoc option" and store :: "subdoc \<Rightarrow> subdoc option \<Rightarrow> subdoc"
    and rstore :: "rootdoc \<Rightarrow> rootdoc option \<Rightarrow> rootdoc" and rvstore :: "string \<Rightarrow> rootdoc option \<Rightarrow> rootdoc" +
  assumes set_sub_any: "inv s \<Longrightarrow>
      content (snd (db_SetSubDocument c mac g d st l s)) m k = content s m k \<or>
      m = mac \<and> k = g \<and>
        content (snd (db_SetSubDocument c mac g d st l s)) m k = Some (store d (content s m k))"
    and del_sub_any: "inv s \<Longrightarrow>
      content (snd (db_DeleteSubDocument c mac g s)) m k \<in> {content s m k, None}"

definition state_ok :: "int option \<Rightarrow> bool" where
  "state_ok st \<longleftrightarrow> (case st of None \<Rightarrow> True | Some i \<Rightarrow> Deployed \<le> i \<and> i \<le> Failure)"

lemma state_ok_simps [simp]:
  "state_ok None" "state_ok (Some i) \<longleftrightarrow> 1 \<le> i \<and> i \<le> 4"
  by (simp_all add: state_ok_def)

lemma state_ok_opt_or: "state_ok x \<Longrightarrow> state_ok y \<Longrightarrow> state_ok (opt_or x y)"
  by (cases x) simp_all

context db_states
begin

definition states_ok :: "'s \<Rightarrow> bool" where
  "states_ok s \<longleftrightarrow> inv s \<and> (\<forall>m k d. content s m k = Some d \<longrightarrow> state_ok (sd_state d))"

lemma store_state_ok:
  assumes "state_ok (sd_state d)" "\<And>x. old = Some x \<Longrightarrow> state_ok (sd_state x)"
  shows "state_ok (sd_state (store d old))"
proof -
  have "sd_state (store d old) =
      opt_or (sd_state d) (sd_state (case old of None \<Rightarrow> NewSubDocument None None None None None None | Some x \<Rightarrow> x))"
    using store_merges by (simp add: merges_def Let_def)
  then show ?thesis using assms by (auto intro: state_ok_opt_or split: option.splits)
qed

lemma states_ok_set_sub [keeps_intros]:
  assumes "state_ok (sd_state d)"
  shows "keeps states_ok (db_SetSubDocument c mac g d st l)"
proof (rule keepsI)
  fix s assume s: "states_ok s"
  then have i: "inv s" by (simp add: states_ok_def)
  have "state_ok (sd_state x)" if "content (snd (db_SetSubDocument c mac g d st l s)) m k = Some x" for m k x
    using set_sub_any[OF i, of mac g d st l m k] that s store_state_ok[OF assms]
    by (auto simp: states_ok_def)
  then show "states_ok (snd (db_SetSubDocument c mac g d st l s))"
    using inv_set_sub[OF i] by (simp add: states_ok_def)
qed

lemma states_ok_del_sub [keeps_intros]: "keeps states_ok (db_DeleteSubDocument c mac g)"
proof (rule keepsI)
  fix s assume s: "states_ok s"
  then have i: "inv s" by (simp add: states_ok_def)
  have "state_ok (sd_state x)" if "content (snd (db_DeleteSubDocument c mac g s)) m k = Some x" for m k x
    using del_sub_any[OF i, of mac g m k] that s by (auto simp: states_ok_def)
  then show "states_ok (snd (db_DeleteSubDocument c mac g s))"
    using inv_del_sub[OF i] by (simp add: states_ok_def)
qed

lemma states_ok_set_root [keeps_intros]: "keeps states_ok (db_SetRootDocument c mac rd)"
  and states_ok_set_rver [keeps_intros]: "keeps states_ok (db_SetRootDocumentVersion c mac v)"
  by (auto intro!: keepsI simp: states_ok_def inv_set_root inv_set_rver set_root_content set_rver_content)

lemma states_ok_correction_loop [keeps_intros]: "keeps states_ok (correction_loop c mac t l vm ms items)"
proof (induction items arbitrary: ms)
  case Nil
  then show ?case by simp
next
  case (Cons it items)
  then show ?case
    by (cases it) (auto simp: Let_def correct_subdoc_def intro!: keeps_intros)
qed

lemma states_ok_state_correction [keeps_intros]: "keeps states_ok (state_correction c mac t dev vm doc)"
  unfolding state_correction_def
  by (auto intro!: keeps_intros split: prod.splits option.splits sum.splits)

lemma states_ok_cloud_root [keeps_intros]: "keeps states_ok (cloud_root_document c mac dev)"
  unfolding cloud_root_document_def Let_def by (auto intro!: keeps_intros)

lemma states_ok_compare [keeps_intros]: "keeps states_ok (compare_and_finish c h mac t t' cl dev vm doc)"
  unfolding compare_and_finish_def Let_def
  by (auto intro!: keeps_intros split: prod.splits sum.splits)

lemma states_ok_BuildGetDocument: "keeps states_ok (BuildGetDocument c h flds t t')"
  unfolding BuildGetDocument_def Let_def
  by (auto intro!: keeps_intros split: prod.splits sum.splits)

lemma states_ok_http304_loop [keeps_intros]: "keeps states_ok (http304_loop c mac t l ids items)"
proof (induction items arbitrary: ids)
  case Nil
  then show ?case by simp
next
  case (Cons it items)
  then show ?case by (cases it) (auto simp: Let_def intro!: keeps_intros)
qed

lemma report_subdoc_state: "state_ok (sd_state (report_subdoc c g m t ns))"
  by (auto simp: report_subdoc_def report_state_def Let_def)

lemma states_ok_apply_report [keeps_intros]: "keeps states_ok (apply_report c mac m g l t ns sd)"
  unfolding apply_report_def Let_def by (auto intro!: keeps_intros simp: report_subdoc_state)

lemma states_ok_UpdateDocumentState: "keeps states_ok (UpdateDocumentState c mac m flds t ns)"
  unfolding UpdateDocumentState_def Let_def
  by (auto intro!: keeps_intros split: prod.splits option.splits sum.splits)

lemma states_ok_UpdateSubDocument [keeps_intros]: "keeps states_ok (UpdateSubDocument c mac g n old vm t)"
  unfolding UpdateSubDocument_def Let_def by (auto intro!: keeps_intros simp: upstream_subdoc_def)

lemma states_ok_WriteDocumentFromUpstream:
  "keeps states_ok (WriteDocumentFromUpstream c mac etag nd d del vm now)"
  unfolding WriteDocumentFromUpstream_def by (auto intro!: keeps_intros split: prod.splits)

lemma states_ok_Indeployment: "keeps states_ok (UpdateDocumentStateIndeployment c mac d t)"
  unfolding UpdateDocumentStateIndeployment_def mark_indeployment_def
  by (auto intro!: keeps_intros simp: indeployment_subdoc_def split: prod.splits)

lemma states_ok_Preprocess: "keeps states_ok (PreprocessRootDocument c h mac p)"
  unfolding PreprocessRootDocument_def Let_def by (auto intro!: keeps_intros)

lemma states_ok_UpdateStatesInBatch: "keeps states_ok (UpdateStatesInBatch c mac a now sm)"
  unfolding UpdateStatesInBatch_def by (auto intro!: keeps_intros split: prod.splits)

lemma serves_states_ok: "serves c q s s' \<Longrightarrow> states_ok s \<Longrightarrow> states_ok s'"
  by (induction rule: serves.induct)
     (metis keepsD states_ok_BuildGetDocument, metis keepsD states_ok_UpdateDocumentState,
      metis keepsD states_ok_WriteDocumentFromUpstream, metis keepsD states_ok_Indeployment,
      metis keepsD states_ok_Preprocess, metis keepsD states_ok_UpdateStatesInBatch)

lemma runs_states_ok: "runs c qs s s' \<Longrightarrow> states_ok s \<Longrightarrow> states_ok s'"
  by (erule runs_keeps) (auto intro: serves_states_ok)

end

end
