(* ===== verification/ServiceFacts.thy ===== *)
theory ServiceFacts
  imports DbStore "HOL-Library.Multiset"
begin

text \<open>
  What the read path of the services guarantees: the root version does not depend on the
  order of a map, a rebuilt version map repeats the device's own versions, the documents
  that \<open>BuildGetDocument\<close> returns come from the stored content, and references are replaced
  by the payloads they name.
\<close>

section \<open>Root versions\<close>

lemma sort_keys_perm: "mset m = mset m' \<Longrightarrow> sort (map fst m) = sort (map fst m')"
  by (metis mset_map properties_for_sort sorted_sort mset_sort)

lemma gomap_get_perm:
  assumes "gomap_ok m" "mset m = mset m'"
  shows "gomap_get z m k = gomap_get z m' k"
proof -
  have "distinct (map fst m')" using assms unfolding gomap_ok_def by (metis mset_eq_imp_distinct_iff mset_map)
  moreover have "set m = set m'" using assms(2) by (metis set_mset_mset)
  ultimately have "map_of m = map_of m'" using assms(1) unfolding gomap_ok_def by (simp add: map_of_inject_set)
  then show ?thesis by (simp add: gomap_get_def)
qed

lemma HashRootVersion_perm:
  assumes "gomap_ok m" "mset m = mset m'"
  shows "HashRootVersion h m = HashRootVersion h m'"
proof -
  have "gomap_get [] m = gomap_get [] m'" by (rule ext) (rule gomap_get_perm[OF assms])
  then show ?thesis unfolding HashRootVersion_def Let_def using sort_keys_perm[OF assms(2)] by simp
qed

text \<open>
  Only the concatenation of the versions in key order counts: two maps whose versions differ
  may have the same root version whatever the hash function is.
\<close>

lemma HashRootVersion_concat:
  "sort (map fst m) = ks \<Longrightarrow> HashRootVersion h m = itoa (int (h (concat (map (gomap_get '''' m) ks))))"
  by (simp add: HashRootVersion_def GetMurmur3Hash_def)

section \<open>Version maps\<close>

lemma map_of_rev_map_loop:
  "map_of (rev_map_loop rm m) v =
     (case find (\<lambda>(k, w). w = v) (rev m) of Some (k, _) \<Rightarrow> Some k | None \<Rightarrow> map_of rm v)"
proof (induction rm m rule: rev_map_loop.induct)
  case (1 rm)
  then show ?case by simp
next
  case (2 rm k w m)
  have app: "find P (xs @ [y]) = (case find P xs of None \<Rightarrow> (if P y then Some y else None) | Some z \<Rightarrow> Some z)"
    for P :: "string \<times> string \<Rightarrow> bool" and xs y
    by (induction xs) auto
  show ?case using 2 by (auto simp: app split: option.splits)
qed

lemma rebuild_loop_keys:
  "map_of (rebuild_loop rm m vs) k = Some v \<Longrightarrow>
     map_of m k = Some v \<or> (v \<in> set vs \<and> map_of rm v = Some k)"
proof (induction rm m vs rule: rebuild_loop.induct)
  case (1 rm m)
  then show ?case by simp
next
  case (2 rm m w vs)
  then show ?case by (fastforce split: option.splits if_splits)
qed

lemma rev_map_Some: "map_of (rev_map_loop [] m) v = Some k \<Longrightarrow> (k, v) \<in> set m"
  by (auto simp: map_of_rev_map_loop split: option.splits dest!: find_in)

text \<open>
  Every entry of a rebuilt map is the root with the first version, or a version of the device
  that the cloud stores for that very sub-document.
\<close>

lemma RebuildDeviceVersionMap_sound:
  assumes "RebuildDeviceVersionMap versions cloud = Some vm" "map_of vm k = Some v"
  shows "(k = ''root'' \<and> v = hd versions) \<or> (v \<in> set versions \<and> (k, v) \<in> set cloud)"
proof -
  from assms(1) obtain v0 vs where v: "versions = v0 # vs"
    and vm: "vm = rebuild_loop (rev_map_loop [] cloud) [(''root'', v0)] versions"
    by (auto simp: RebuildDeviceVersionMap_def split: list.splits)
  from rebuild_loop_keys[OF assms(2)[unfolded vm]] show ?thesis
    using v by (auto split: if_splits dest: rev_map_Some)
qed

section \<open>What BuildGetDocument returns\<close>

context db_store
begin

definition doc_matches :: "'s \<Rightarrow> string \<Rightarrow> document \<Rightarrow> bool" where
  "doc_matches s mac d \<longleftrightarrow>
     doc_ok d \<and> (\<forall>k. map_of (docmap d) k = map_option (\<lambda>x. x\<lparr>sd_expiry := None\<rparr>) (content s mac k))"

lemma get_doc_matches:
  "inv s \<Longrightarrow> db_GetDocument c mac b s = (Ok (Some d, e), s') \<Longrightarrow> s' = s \<and> doc_matches s mac d"
  using get_doc_ok get_doc_state by (auto simp: doc_matches_def)

lemma doc_matches_content:
  "(\<And>k. content s' mac k = content s mac k) \<Longrightarrow> doc_matches s' mac d = doc_matches s mac d"
  by (simp add: doc_matches_def)

definition opt_matches :: "'s \<Rightarrow> string \<Rightarrow> document option \<Rightarrow> bool" where
  "opt_matches s mac od \<longleftrightarrow> (case od of None \<Rightarrow> True | Some d \<Rightarrow> doc_matches s mac d)"

lemma resolve_versions_ok:
  assumes "inv s" "resolve_versions c h mac s = (Ok (Inr (vm, doc)), s')"
  shows "s' = s \<and> opt_matches s mac doc"
  using assms unfolding resolve_versions_def
  by (auto simp: tryE_eq_Ok deref_eq_Ok opt_matches_def split: prod.splits option.splits if_splits
      dest: get_doc_matches)

lemma cloud_root_ok:
  assumes "inv s" "cloud_root_document c mac dev s = (Ok (Inr cloud), s')"
  shows "inv s' \<and> (\<forall>k. content s' mac k = content s mac k)"
  using assms unfolding cloud_root_document_def Let_def
  by (auto simp: tryE_eq_Ok split: if_splits dest!: get_root_state)
     (metis inv_set_root snd_conv, metis set_root_content snd_conv)

lemma fetch_document_ok:
  assumes "inv s" "opt_matches s mac doc" "fetch_document c mac doc s = (Ok (Inr d), s')"
  shows "s' = s \<and> doc_matches s mac d"
  using assms unfolding fetch_document_def
  by (auto simp: tryE_eq_Ok deref_eq_Ok opt_matches_def split: option.splits dest: get_doc_matches)

lemma state_correction_off:
  "\<not> db_StateCorrectionEnabled c \<Longrightarrow> state_correction c mac t dev vm doc s = (Ok (Inr (doc, [])), s)"
  by (simp add: state_correction_def)

lemma state_correction_doc:
  assumes "inv s" "opt_matches s mac doc" "state_correction c mac t dev vm doc s = (Ok (Inr (doc', ms)), s')"
    "db_StateCorrectionEnabled c"
  shows "\<exists>d. doc' = Some d \<and> doc_matches s mac d"
  using assms unfolding state_correction_def opt_matches_def
  by (auto simp: tryE_eq_Ok deref_eq_Ok case_apps split: if_splits dest: get_doc_matches)

text \<open>
  The documents of the last step: everything comes from the document read before, nothing
  blocked is in it, and only what the device lacks is.
\<close>

definition sendable :: "'s \<Rightarrow> string \<Rightarrow> string gomap \<Rightarrow> bool \<Rightarrow> document \<Rightarrow> bool" where
  "sendable s mac vm upstream d \<longleftrightarrow>
     doc_ok d \<and> (\<forall>k x. map_of (docmap d) k = Some x \<longrightarrow>
        (\<exists>y. content s mac k = Some y \<and> x = y\<lparr>sd_expiry := None\<rparr>)
        \<and> (\<not> upstream \<longrightarrow> k \<notin> set (db_BlockedSubdocIds c) \<and> device_lacks vm k x))"

lemma sendable_all: "doc_matches s mac d \<Longrightarrow> sendable s mac vm True (SetRootDoc d r)"
  by (auto simp: sendable_def doc_matches_def)

lemma sendable_filtered:
  assumes "doc_matches s mac d"
  shows "sendable s mac vm False (delete_all (FilterForGet (SetRootDoc d r) vm) (db_BlockedSubdocIds c))"
proof -
  have ok: "doc_ok (SetRootDoc d r)" using assms by (simp add: doc_matches_def)
  then have gd: "gomap_ok (docmap d)" by (simp add: doc_ok_def)
  show ?thesis
    unfolding sendable_def
  proof (intro conjI[OF delete_all_ok[OF FilterForGet_ok]] allI impI)
    fix k x assume m: "map_of (docmap (delete_all (FilterForGet (SetRootDoc d r) vm) (db_BlockedSubdocIds c))) k = Some x"
    then have "(k, x) \<in> set (docmap (delete_all (FilterForGet (SetRootDoc d r) vm) (db_BlockedSubdocIds c)))"
      by (rule map_of_SomeD)
    then have "k \<notin> set (db_BlockedSubdocIds c)" "(k, x) \<in> set (docmap d)" "device_lacks vm k x"
      by (auto simp: delete_all_docmap FilterForGet_docmap[OF ok] split: if_splits)
    moreover from this have "map_of (docmap d) k = Some x" using gd by (simp add: gomap_in_set)
    ultimately show "(\<exists>y. content s mac k = Some y \<and> x = y\<lparr>sd_expiry := None\<rparr>) \<and>
        (\<not> False \<longrightarrow> k \<notin> set (db_BlockedSubdocIds c) \<and> device_lacks vm k x)"
      using assms by (auto simp: doc_matches_def)
  qed
qed

lemma finish_getdoc_sendable:
  assumes fetch: "\<And>d s2. fetch_document c mac doc s = (Ok (Inr d), s2) \<Longrightarrow> doc_matches s0 mac d"
    and run: "finish_getdoc c mac t cmp cl dev vm doc ms s = (Ok g, s')" and d: "gd_document g = Some d"
  shows "gd_versions g = vm \<and> sendable s0 mac vm (gd_upstream g) d"
proof -
  have empty: "sendable s0 mac vm up (NewDocument r)" for up r by (simp add: sendable_def)
  show ?thesis
  proof (cases "root_Locked t cl \<and> db_LockRootDocumentEnabled c")
    case True
    then show ?thesis using run d by (auto simp: finish_getdoc_def getdoc_fail_def)
  next
    case False
    with run d fetch show ?thesis
      unfolding finish_getdoc_def Let_def
      by (auto simp: tryE_eq_Ok getdoc_fail_def empty sendable_all sendable_filtered case_apps
          split: root_cmp.splits)
  qed
qed

lemma compare_and_finish_sendable:
  assumes i: "inv s" and m: "opt_matches s mac doc"
    and run: "compare_and_finish c h mac t t' cl dev vm doc s = (Ok g, s')" and d: "gd_document g = Some d"
  shows "gd_versions g = vm \<and> sendable s mac vm (gd_upstream g) d"
proof -
  from run d obtain s1 s2 doc' ms cmp u where
      set: "(if \<not> root_Equals cl dev then db_SetRootDocument c mac ((root_Clone dev)\<lparr>rd_version := ''''\<rparr>)
             else ret ()) s = (Ok u, s1)"
    and cor: "state_correction c mac t dev vm doc s1 = (Ok (Inr (doc', ms)), s2)"
    and fin: "finish_getdoc c mac t' cmp cl dev vm doc' ms s2 = (Ok g, s')"
    unfolding compare_and_finish_def Let_def
    by (auto simp: tryE_eq_Ok getdoc_fail_def case_apps)
  have c1: "content s1 mac k = content s mac k" for k
    using set set_root_content[of mac "(root_Clone dev)\<lparr>rd_version := ''''\<rparr>" s mac k] by (auto split: if_splits)
  have i1: "inv s1" using set i inv_set_root[OF i, of mac "(root_Clone dev)\<lparr>rd_version := ''''\<rparr>"]
    by (auto split: if_splits)
  have m1: "opt_matches s1 mac doc" using m doc_matches_content[of s1 mac s] c1
    by (auto simp: opt_matches_def split: option.splits)
  have same: "doc_matches s1 mac x = doc_matches s mac x" for x by (rule doc_matches_content) (rule c1)
  show ?thesis
  proof (rule finish_getdoc_sendable[OF _ fin d])
    fix x s3 assume f: "fetch_document c mac doc' s2 = (Ok (Inr x), s3)"
    show "doc_matches s mac x"
    proof (cases "db_StateCorrectionEnabled c")
      case True
      from state_correction_doc[OF i1 m1 cor this] obtain y where y: "doc' = Some y" "doc_matches s1 mac y"
        by blast
      then have "x = y" using f by (simp add: fetch_document_def)
      then show ?thesis using y(2) same by blast
    next
      case False
      then have "doc' = doc" "s2 = s1" using cor by (simp_all add: state_correction_off)
      then show ?thesis using fetch_document_ok[OF i1 m1] f same by blast
    qed
  qed
qed

lemma BuildGetDocument_sendable:
  assumes "inv s" "BuildGetDocument c h flds t t' s = (Ok g, s')" "gd_document g = Some d"
  shows "sendable s (fst (rheader_Get h HeaderDeviceId)) (gd_versions g) (gd_upstream g) d"
proof -
  let ?mac = "fst (rheader_Get h HeaderDeviceId)"
  from assms(2,3) obtain vm doc s1 cloud dev s2 where
      res: "resolve_versions c h ?mac s = (Ok (Inr (vm, doc)), s1)"
    and cl: "cloud_root_document c ?mac dev s1 = (Ok (Inr cloud), s2)"
    and cmp: "compare_and_finish c h ?mac t t' cloud dev vm doc s2 = (Ok g, s')"
    unfolding BuildGetDocument_def Let_def
    by (auto simp: tryE_eq_Ok getdoc_fail_def case_apps)
  note r = resolve_versions_ok[OF assms(1) res]
  have i1: "inv s1" using r assms(1) by simp
  note k = cloud_root_ok[OF i1 cl]
  have same: "content s2 ?mac k = content s ?mac k" for k using k r by simp
  have "opt_matches s2 ?mac doc" using r doc_matches_content[OF same]
    by (auto simp: opt_matches_def split: option.splits)
  from compare_and_finish_sendable[OF _ this cmp assms(3)] k
  have "gd_versions g = vm \<and> sendable s2 ?mac vm (gd_upstream g) d" by blast
  then show ?thesis using same by (auto simp: sendable_def)
qed

end

section \<open>References replaced by payloads\<close>

text \<open>What a sub-document becomes: unchanged, with the payload it refers to, or dropped.\<close>

definition loaded_subdoc :: "'s db_client \<Rightarrow> 's \<Rightarrow> subdoc \<Rightarrow> subdoc option" where
  "loaded_subdoc c s d =
     (case GetRefId (payload_bytes (sd_payload d)) of
        None \<Rightarrow> Some d
      | Some r \<Rightarrow>
          (case fst (db_GetRefSubDocument c r s) of
             Ok ref \<Rightarrow> Some (d\<lparr>sd_payload := rs_payload ref\<rparr>)
           | _ \<Rightarrow> None))"

context db_frame
begin

lemma get_ref_state: "db_GetRefSubDocument c r s = (x, s') \<Longrightarrow> s' = s"
  using get_ref_pure[of r s] by simp

lemma load_refs_step:
  assumes "load_refs_loop c nd ((k, x) # items) s = (Ok d', s')"
  shows "load_refs_loop c (case loaded_subdoc c s x of None \<Rightarrow> nd | Some y \<Rightarrow> SetSubDocument nd k y) items s = (Ok d', s')"
proof (cases "GetRefId (payload_bytes (sd_payload x))")
  case None
  then show ?thesis using assms by (simp add: loaded_subdoc_def)
next
  case (Some r)
  obtain q s1 where q: "db_GetRefSubDocument c r s = (q, s1)" by fastforce
  moreover have "s1 = s" using q by (rule get_ref_state)
  ultimately show ?thesis using assms Some
    by (auto simp: loaded_subdoc_def tryE_def split: outcome.splits if_splits)
qed

lemma load_refs_loop_content:
  assumes "load_refs_loop c nd items s = (Ok d', s')" "gomap_ok items" "doc_ok nd"
    "\<And>k. k \<in> fst ` set items \<Longrightarrow> map_of (docmap nd) k = None"
  shows "s' = s \<and> doc_ok d' \<and> rootDocument d' = rootDocument nd \<and>
    map_of (docmap d') k = (case map_of items k of None \<Rightarrow> map_of (docmap nd) k | Some x \<Rightarrow> loaded_subdoc c s x)"
  using assms
proof (induction items arbitrary: nd)
  case Nil
  then show ?case by simp
next
  case (Cons it items)
  obtain g x where it: "it = (g, x)" by (cases it)
  let ?nd = "case loaded_subdoc c s x of None \<Rightarrow> nd | Some y \<Rightarrow> SetSubDocument nd g y"
  have run: "load_refs_loop c ?nd items s = (Ok d', s')"
    using Cons.prems(1) unfolding it by (rule load_refs_step)
  have ok: "gomap_ok items" and fresh: "g \<notin> fst ` set items" using Cons.prems(2) by (simp_all add: it)
  have nd: "doc_ok ?nd" "rootDocument ?nd = rootDocument nd"
    using Cons.prems(3) by (simp_all split: option.splits)
  have none: "map_of (docmap ?nd) k' = None" if "k' \<in> fst ` set items" for k'
    using that fresh Cons.prems(4)[of k'] it by (auto split: option.splits)
  have g: "map_of (docmap nd) g = None" using Cons.prems(4) by (simp add: it)
  have "map_of items g = None" using fresh by (simp add: map_of_eq_None_iff)
  then show ?case using Cons.IH[OF run ok nd(1) none] nd(2) g
    by (auto simp: it split: option.splits)
qed

lemma LoadRefSubDocuments_content:
  assumes "LoadRefSubDocuments c d s = (Ok d', s')" "doc_ok d"
  shows "s' = s" "doc_ok d'" "rootDocument d' = rootDocument d"
    "map_of (docmap d') k = Option.bind (map_of (docmap d) k) (loaded_subdoc c s)"
  using load_refs_loop_content[of "NewDocument (rootDocument d)" "docmap d" s d' s' k] assms
  by (auto simp: LoadRefSubDocuments_def doc_ok_def split: option.splits)

end

end
