(* ===== verification/SqliteServices.thy ===== *)
theory SqliteServices
  imports SqliteContract Requests ServiceFacts
begin

text \<open>
  The services on the sqlite client: the last contract is discharged here, and the lemmas of
  the contracts are stated over the tables for any SQL engine.
\<close>

context sql_engine
begin

lemma sq_exec_unchanged: "sq_exec E st vs s = (r, s') \<Longrightarrow> r \<noteq> Ok () \<Longrightarrow> sq_tables E s' = sq_tables E s"
  by (rule sq_exec_not_ok) (auto simp: is_ok_iff)

lemma sq_SetSubDocument_any:
  assumes ok: "tables_ok (sq_tables E s)" and set: "sq_SetSubDocument E mac g d st l s = (r, s')"
  shows "stored_sub (sq_tables E s') m k = stored_sub (sq_tables E s) m k \<or>
    m = mac \<and> k = g \<and>
      stored_sub (sq_tables E s') m k = Some (store_subdoc d (stored_sub (sq_tables E s) m k))"
proof -
  obtain q s1 where g: "sq_GetSubDocument E mac g s = (q, s1)" by fastforce
  have s1: "s1 = s" using g by (rule sq_GetSubDocument_state)
  from g set consider
      (same) "sq_tables E s' = sq_tables E s"
    | (upd) x u s2 where "q = Ok x" "sq_updateSubDocument E mac g d s = (Ok u, s2)" "sq_tables E s' = sq_tables E s2"
    | (ins) e u s2 where "q = Err e" "sq_IsDbNotFound e" "sq_insertSubDocument E mac g d s = (Ok u, s2)"
        "sq_tables E s' = sq_tables E s2"
    unfolding sq_SetSubDocument_def s1 Let_def tryE_def bindE_def
    by (auto split: outcome.splits if_splits prod.splits
        dest!: sq_count_state_tables sq_exec_unchanged
        simp: sq_insertSubDocument_def sq_updateSubDocument_def Let_def)
  then show ?thesis
  proof cases
    case same
    then show ?thesis by simp
  next
    case upd
    then obtain o' where "stored_sub (sq_tables E s) mac g = Some o'"
      using sq_GetSubDocument_found[OF ok, of mac g x s1] g by auto
    then show ?thesis using upd sq_updateSubDocument_effect[OF upd(2), of m k] by auto
  next
    case ins
    then have "stored_sub (sq_tables E s) mac g = None"
      using sq_GetSubDocument_missing[OF ok, of mac g e s1] g by auto
    then show ?thesis using ins sq_insertSubDocument_effect[OF ins(3), of m k] by (auto simp: store_subdoc_def)
  qed
qed

lemma sq_DeleteSubDocument_any:
  "sq_DeleteSubDocument E mac g s = (r, s') \<Longrightarrow>
     stored_sub (sq_tables E s') m k \<in> {stored_sub (sq_tables E s) m k, None}"
proof (cases r)
  case (Ok u)
  assume "sq_DeleteSubDocument E mac g s = (r, s')"
  then show ?thesis using Ok by (auto simp: sq_DeleteSubDocument_effect)
qed (auto simp: sq_DeleteSubDocument_def dest!: sq_exec_unchanged)

end

sublocale sql_engine \<subseteq> states: db_states "sqlite_client E cfg" "sq_subs E" "sq_roots E"
  "\<lambda>s. tables_ok (sq_tables E s)" "\<lambda>s. stored_sub (sq_tables E s)" "\<lambda>s. stored_root (sq_tables E s)"
  store_subdoc store_root store_root_version for cfg
proof
  fix s mac g d st l m k
  show "tables_ok (sq_tables E s) \<Longrightarrow>
      stored_sub (sq_tables E (snd (db_SetSubDocument (sqlite_client E cfg) mac g d st l s))) m k = stored_sub (sq_tables E s) m k \<or>
      m = mac \<and> k = g \<and>
        stored_sub (sq_tables E (snd (db_SetSubDocument (sqlite_client E cfg) mac g d st l s))) m k =
          Some (store_subdoc d (stored_sub (sq_tables E s) m k))"
    by (simp only: sqlite_client_def db_client.simps) (rule sq_SetSubDocument_any[OF _ surjective_pairing])
  show "stored_sub (sq_tables E (snd (db_DeleteSubDocument (sqlite_client E cfg) mac g s))) m k
      \<in> {stored_sub (sq_tables E s) m k, None}"
    by (simp only: sqlite_client_def db_client.simps) (rule sq_DeleteSubDocument_any[OF surjective_pairing])
qed

interpretation mem_states: db_states "sqlite_client mem_engine cfg" "sq_subs mem_engine" "sq_roots mem_engine"
  "\<lambda>s. tables_ok (sq_tables mem_engine s)" "\<lambda>s. stored_sub (sq_tables mem_engine s)"
  "\<lambda>s. stored_root (sq_tables mem_engine s)" store_subdoc store_root store_root_version for cfg
  by (rule mem.states.db_states_axioms)

section \<open>The contracts' lemmas over the tables\<close>

text \<open>A sub-document of a report from upstream, as the tables hold it.\<close>

definition upstream_stored ::
  "string gomap \<Rightarrow> document \<Rightarrow> (string \<Rightarrow> int) \<Rightarrow> string \<Rightarrow> subdoc \<Rightarrow> subdoc option \<Rightarrow> subdoc option" where
  "upstream_stored vm d now k n old =
     (if upstream_unchanged vm k n (doc_SubDocument d k) then old
      else Some (store_subdoc (upstream_subdoc n (now k)) old))"

definition stored_states_ok :: "tables \<Rightarrow> bool" where
  "stored_states_ok T \<longleftrightarrow> (\<forall>m k d. stored_sub T m k = Some d \<longrightarrow> state_ok (sd_state d))"

context sql_engine
begin

lemmas sqlite_runs_isolated = client.runs_isolated
lemmas sqlite_upstream = store.WriteDocumentFromUpstream_ok[unfolded store.upstream_content_def]
lemmas sqlite_report_304 = store.UpdateDocumentState_304_ok[unfolded store.deployed_subdoc_def]
lemmas sqlite_report = store.UpdateDocumentState_report_ok
lemmas sqlite_load_refs = client.LoadRefSubDocuments_content
lemmas sqlite_sendable = store.BuildGetDocument_sendable[unfolded store.sendable_def]

lemma sqlite_runs_states:
  "runs (sqlite_client E cfg) qs s s' \<Longrightarrow> tables_ok (sq_tables E s) \<Longrightarrow> stored_states_ok (sq_tables E s) \<Longrightarrow>
     tables_ok (sq_tables E s') \<and> stored_states_ok (sq_tables E s')"
  using states.runs_states_ok[of cfg qs s s'] by (simp add: states.states_ok_def stored_states_ok_def)

lemma sqlite_getdoc_root_version:
  "tables_ok (sq_tables E s) \<Longrightarrow> BuildGetDocument (sqlite_client E cfg) h flds t t' s = (r, s') \<Longrightarrow>
     (case stored_root (sq_tables E s') mac of None \<Rightarrow> '''' | Some rd \<Rightarrow> rd_version rd) =
     (case stored_root (sq_tables E s) mac of None \<Rightarrow> '''' | Some rd \<Rightarrow> rd_version rd)"
  using keepsD[OF store.BuildGetDocument_root_version[of mac _ cfg h flds t t']]
  by (fastforce simp: store.root_version_is_def)

end

end
