(* ===== verification/Validators.thy ===== *)
theory Validators
  imports Headers
begin

text \<open>
  util/validator.go and util/list.go: the checks on what a request carries. A mac address is
  checked byte by byte: a byte above 127 starts a rune above 70 or an invalid one, so the
  loop over runes rejects it as this one does.
\<close>

section \<open>Mac addresses\<close>

fun mac_loop :: "bool \<Rightarrow> string \<Rightarrow> bool option" where
  "mac_loop allZeroes [] = Some allZeroes"
| "mac_loop allZeroes (c # cs) =
     (let r = of_char c :: nat
      in if r < 48 \<or> r > 70 \<or> (r > 57 \<and> r < 65) then None
         else mac_loop (if r \<noteq> 48 then False else allZeroes) cs)"

definition ValidateMac :: "string \<Rightarrow> bool" where
  "ValidateMac mac =
     (if length mac \<noteq> 12 then False
      else (case mac_loop True mac of
          None \<Rightarrow> False
        | Some allZeroes \<Rightarrow> if allZeroes then False else True))"

section \<open>Query parameters\<close>

text \<open>\<open>url.Values\<close> is a map from names to lists; \<open>Get\<close> yields the first value or nothing.\<close>

type_synonym url_values = "string list gomap"

definition values_Get :: "url_values \<Rightarrow> string \<Rightarrow> string" where
  "values_Get vs k = (case map_of vs k of Some (v # _) \<Rightarrow> v | _ \<Rightarrow> '''')"

definition SupportedPokeDocs :: "string list" where
  "SupportedPokeDocs = [''primary'', ''telemetry'', ''root'']"

definition SupportedPokeRoutes :: "string list" where
  "SupportedPokeRoutes = [''mqtt'']"

definition invalid_query_parameter :: "string \<Rightarrow> goerr" where
  "invalid_query_parameter n = NewError (ErrText (''invalid query parameter: '' @ n))"

definition ValidatePokeQuery :: "url_values \<Rightarrow> goerr + string" where
  "ValidatePokeQuery vs =
     (let docStr = values_Get vs ''doc'';
          routeStr = values_Get vs ''route''
      in if length docStr > 0
         then (case find (\<lambda>n. n \<notin> set SupportedPokeDocs) (go_split CHR '','' docStr) of
                 Some n \<Rightarrow> Inl (invalid_query_parameter n)
               | None \<Rightarrow> Inr docStr)
         else if length routeStr > 0
         then (if routeStr \<notin> set SupportedPokeRoutes then Inl (invalid_query_parameter routeStr)
               else Inr routeStr)
         else Inr ''root'')"

text \<open>
  \<open>ValidateQueryParams\<close> also notes the group ids in the fields and in the request header;
  both are returned next to the error.
\<close>

definition ValidateQueryParams ::
  "url_values \<Rightarrow> header \<Rightarrow> int gomap \<Rightarrow> fields \<Rightarrow> header \<times> fields \<times> goerr option" where
  "ValidateQueryParams query rHeader validSubdocIdMap flds =
     (let bad = Some (NewError ErrInvalidQueryParams)
      in case map_of query ''group_id'' of
           None \<Rightarrow> (rHeader, flds, bad)
         | Some [] \<Rightarrow> (rHeader, flds, bad)
         | Some (g # _) \<Rightarrow>
             (let flds' = gomap_put ''group_id'' (IStr g) flds;
                  rHeader' = hset rHeader HeaderDocName g;
                  subdocIds = go_split CHR '','' g;
                  ifNoneMatch = hget rHeader' HeaderIfNoneMatch;
                  versions = go_split CHR '','' ifNoneMatch
              in if length subdocIds = 0 then (rHeader', flds', bad)
                 else if length subdocIds > 0 \<and> hd subdocIds \<noteq> ''root'' then (rHeader', flds', bad)
                 else if list_ex (\<lambda>s. map_of validSubdocIdMap s = None) (tl subdocIds) then (rHeader', flds', bad)
                 else if length ifNoneMatch = 0 then (rHeader', flds', bad)
                 else if length versions \<noteq> length subdocIds then (rHeader', flds', bad)
                 else (rHeader', flds', None)))"

section \<open>Lists\<close>

text \<open>\<open>Contains\<close> compares an element with a collection of its own type, and is false otherwise.\<close>

datatype elem = EStr string | EInt int | EOther
datatype elems = LStr "string list" | LInt "int list" | LOther

fun Contains :: "elems \<Rightarrow> elem \<Rightarrow> bool" where
  "Contains (LStr es) (EStr x) = list_ex (\<lambda>e. e = x) es"
| "Contains (LInt es) (EInt x) = list_ex (\<lambda>e. e = x) es"
| "Contains _ _ = False"

fun ContainsInt :: "int list \<Rightarrow> int \<Rightarrow> bool" where
  "ContainsInt [] x = False"
| "ContainsInt (d # data) x = (if d = x then True else ContainsInt data x)"

section \<open>Facts\<close>

text \<open>A mac character is one of the digits 0-9 and the letters A-F.\<close>

definition mac_char :: "char \<Rightarrow> bool" where
  "mac_char c \<longleftrightarrow> (CHR ''0'' \<le> c \<and> c \<le> CHR ''9'') \<or> (CHR ''A'' \<le> c \<and> c \<le> CHR ''F'')"

lemma mac_char_code:
  "(let r = of_char c :: nat in r < 48 \<or> r > 70 \<or> (r > 57 \<and> r < 65)) \<longleftrightarrow> \<not> mac_char c"
  by (auto simp: mac_char_def less_eq_char_def)

lemma char_zero_code: "(of_char c :: nat) = 48 \<longleftrightarrow> c = CHR ''0''"
proof -
  have "(of_char (CHR ''0'') :: nat) = 48" by simp
  then show ?thesis by (metis of_char_eq_iff)
qed

lemma mac_loop_eq:
  "mac_loop z cs = (if list_all mac_char cs then Some (z \<and> list_all (\<lambda>c. c = CHR ''0'') cs) else None)"
proof (induction z cs rule: mac_loop.induct)
  case (1 z)
  then show ?case by simp
next
  case (2 z c cs)
  show ?case
  proof (cases "mac_char c")
    case False
    then show ?thesis using mac_char_code[of c] by (simp add: Let_def)
  next
    case True
    then show ?thesis using 2 mac_char_code[of c] char_zero_code[of c] by (auto simp: Let_def)
  qed
qed

lemma ValidateMac_iff:
  "ValidateMac mac \<longleftrightarrow> length mac = 12 \<and> list_all mac_char mac \<and> mac \<noteq> replicate 12 (CHR ''0'')"
proof -
  have z: "list_all (\<lambda>c. c = CHR ''0'') mac \<longleftrightarrow> mac = replicate (length mac) (CHR ''0'')"
    by (induction mac) auto
  show ?thesis
  proof (cases "length mac = 12")
    case True
    then show ?thesis using z by (simp add: ValidateMac_def mac_loop_eq)
  qed (simp add: ValidateMac_def)
qed

lemma mac_char_upper: "mac_char c \<Longrightarrow> char_upper c = c"
  by (auto simp: mac_char_def char_upper_def less_eq_char_def Let_def)

lemma ValidateMac_upper: "ValidateMac mac \<Longrightarrow> to_upper mac = mac"
  by (auto simp: ValidateMac_iff to_upper_def list_all_iff mac_char_upper intro!: map_idI)

text \<open>A poke query is accepted only with known documents or the known route.\<close>

lemma ValidatePokeQuery_Inr:
  "ValidatePokeQuery vs = Inr r \<Longrightarrow>
     r = ''root'' \<or> r \<in> set SupportedPokeRoutes \<or> set (go_split CHR '','' r) \<subseteq> set SupportedPokeDocs"
  by (auto simp: ValidatePokeQuery_def Let_def find_None_iff split: if_splits option.splits)

text \<open>Accepted query parameters let the two header lists be paired up without a mismatch.\<close>

lemma ValidateQueryParams_ok:
  assumes "ValidateQueryParams query h vm flds = (h', flds', None)"
  shows "\<exists>g gs. map_of query ''group_id'' = Some (g # gs) \<and> h' = hset h HeaderDocName g
    \<and> hd (go_split CHR '','' g) = ''root''
    \<and> (\<forall>s \<in> set (tl (go_split CHR '','' g)). map_of vm s \<noteq> None)
    \<and> hget h' HeaderIfNoneMatch \<noteq> ''''
    \<and> length (go_split CHR '','' (hget h' HeaderIfNoneMatch)) = length (go_split CHR '','' g)"
  using assms
  by (auto simp: ValidateQueryParams_def Let_def list_ex_iff split: option.splits list.splits if_splits)

lemma Contains_string [simp]: "Contains (LStr es) (EStr x) \<longleftrightarrow> x \<in> set es"
  by (auto simp: list_ex_iff)

lemma ContainsInt_iff: "ContainsInt data x \<longleftrightarrow> x \<in> set data"
  by (induction data x rule: ContainsInt.induct) auto

end
