(* ===== verification/HttpText.thy ===== *)
theory HttpText
  imports Headers
begin

text \<open>
  The text functions of util/string.go and util/parser.go and the message writer of
  common/http_stream.go: query strings for telemetry, mac address arithmetic, the splicing of
  telemetry profiles, and HTTP messages as byte sequences.
\<close>

section \<open>Package strings and bytes\<close>

fun str_contains :: "string \<Rightarrow> string \<Rightarrow> bool" where
  "str_contains [] sub = (sub = [])"
| "str_contains (c # s) sub = (has_prefix (c # s) sub \<or> str_contains s sub)"

text \<open>\<open>Split\<close> at every occurrence of a non-empty separator, from the left.\<close>

function split_on :: "bytes \<Rightarrow> bytes \<Rightarrow> bytes \<Rightarrow> bytes list" where
  "split_on sep cur s =
     (if sep \<noteq> [] \<and> s \<noteq> [] \<and> has_prefix s sep then cur # split_on sep [] (drop (length sep) s)
      else (case s of [] \<Rightarrow> [cur] | c # s' \<Rightarrow> split_on sep (cur @ [c]) s'))"
  by pat_completeness auto
termination by (relation "measure (\<lambda>(sep, cur, s). length s)") auto

declare split_on.simps [simp del]

definition bytes_Split :: "bytes \<Rightarrow> bytes \<Rightarrow> bytes list" where
  "bytes_Split s sep = split_on sep [] s"

definition ReplaceAll :: "string \<Rightarrow> string \<Rightarrow> string \<Rightarrow> string" where
  "ReplaceAll s old new = go_join new (bytes_Split s old)"

text \<open>\<open>TrimSpace\<close>: the UTF-8 encodings of the white space runes.\<close>

definition byte :: "nat \<Rightarrow> char" where
  "byte n = char_of n"

definition space_seqs :: "bytes list" where
  "space_seqs =
     map (map byte)
       ([[9], [10], [11], [12], [13], [32], [194, 133], [194, 160], [225, 154, 128],
         [226, 128, 168], [226, 128, 169], [226, 128, 175], [226, 129, 159], [227, 128, 128]]
        @ map (\<lambda>n. [226, 128, n]) [128..<139])"

function trim_left :: "bytes list \<Rightarrow> bytes \<Rightarrow> bytes" where
  "trim_left seqs s =
     (case find (\<lambda>q. q \<noteq> [] \<and> has_prefix s q) seqs of
        None \<Rightarrow> s
      | Some q \<Rightarrow> if s = [] then s else trim_left seqs (drop (length q) s))"
  by pat_completeness auto
termination
  by (relation "measure (\<lambda>(seqs, s). length s)") (auto simp: find_Some_iff)

declare trim_left.simps [simp del]

definition TrimSpace :: "string \<Rightarrow> string" where
  "TrimSpace s = rev (trim_left (map rev space_seqs) (rev (trim_left space_seqs s)))"

section \<open>Mac addresses as numbers\<close>

text \<open>\<open>strconv.ParseInt(s, 16, 64)\<close>: an optional sign and hexadecimal digits of either case.\<close>

definition hex_val :: "char \<Rightarrow> nat option" where
  "hex_val c =
     (let n = of_char c :: nat
      in if 48 \<le> n \<and> n \<le> 57 then Some (n - 48)
         else if 65 \<le> n \<and> n \<le> 70 then Some (n - 55)
         else if 97 \<le> n \<and> n \<le> 102 then Some (n - 87) else None)"

fun parse_hex_digits :: "nat \<Rightarrow> string \<Rightarrow> nat option" where
  "parse_hex_digits acc [] = Some acc"
| "parse_hex_digits acc (c # cs) =
     (case hex_val c of None \<Rightarrow> None | Some d \<Rightarrow> parse_hex_digits (16 * acc + d) cs)"

definition ParseHex :: "string \<Rightarrow> int option" where
  "ParseHex s =
     (let neg = (s \<noteq> [] \<and> hd s = CHR ''-'');
          ds = (if s \<noteq> [] \<and> (hd s = CHR ''-'' \<or> hd s = CHR ''+'') then tl s else s)
      in if ds = [] then None
         else (case parse_hex_digits 0 ds of
             None \<Rightarrow> None
           | Some n \<Rightarrow> (let i = (if neg then - int n else int n) in if in_int64 i then Some i else None)))"

definition hex_char :: "nat \<Rightarrow> char" where
  "hex_char d = char_of (if d < 10 then 48 + d else 55 + d)"

text \<open>The last \<open>k\<close> upper-case hexadecimal digits of a number, and all of its digits.\<close>

fun hex_fixed :: "nat \<Rightarrow> nat \<Rightarrow> string" where
  "hex_fixed 0 n = []"
| "hex_fixed (Suc k) n = hex_fixed k (n div 16) @ [hex_char (n mod 16)]"

fun hex_len :: "nat \<Rightarrow> nat" where
  "hex_len n = (if n < 16 then 1 else Suc (hex_len (n div 16)))"

declare hex_len.simps [simp del]

text \<open>\<open>%012X\<close>: at least twelve places, the sign included.\<close>

definition fmt_012X :: "int \<Rightarrow> string" where
  "fmt_012X i =
     (if i < 0 then CHR ''-'' # (let n = nat (- i) in hex_fixed (max 11 (hex_len n)) n)
      else (let n = nat i in hex_fixed (max 12 (hex_len n)) n))"

definition GetMacDiff :: "string \<Rightarrow> string \<Rightarrow> int" where
  "GetMacDiff wanMac mac =
     (let wanMacVal = (case ParseHex wanMac of Some x \<Rightarrow> x | None \<Rightarrow> 0);
          macVal = (case ParseHex mac of Some x \<Rightarrow> x | None \<Rightarrow> 0)
      in wrap64 (wanMacVal - macVal))"

definition GetEstbMacAddress :: "string \<Rightarrow> string" where
  "GetEstbMacAddress mac =
     (case ParseHex mac of None \<Rightarrow> mac | Some i \<Rightarrow> fmt_012X (wrap64 (i + 2)))"

text \<open>Slicing beyond the end of a string panics.\<close>

definition ToColonMac :: "string \<Rightarrow> string option" where
  "ToColonMac d =
     (if length d < 12 then None
      else Some (go_join '':'' (map (\<lambda>i. take 2 (drop (2 * i) d)) [0..<6])))"

section \<open>Telemetry\<close>

definition HeaderProfileVersion :: string where "HeaderProfileVersion = ''X-System-Telemetry-Profile-Version''"
definition HeaderAccountID :: string where "HeaderAccountID = ''X-System-AccountID''"
definition HeaderWanMac :: string where "HeaderWanMac = ''X-System-Wan-Mac''"

definition telemetryFields :: "(string \<times> string) list" where
  "telemetryFields =
     [(''version'', HeaderProfileVersion), (''model'', HeaderModelName),
      (''accountId'', HeaderAccountID), (''firmwareVersion'', HeaderFirmwareVersion)]"

text \<open>\<open>url.QueryEscape\<close>.\<close>

definition unreserved :: "char \<Rightarrow> bool" where
  "unreserved c \<longleftrightarrow>
     (let n = of_char c :: nat in 48 \<le> n \<and> n \<le> 57 \<or> 65 \<le> n \<and> n \<le> 90 \<or> 97 \<le> n \<and> n \<le> 122)
     \<or> c \<in> set ''-_.~''"

definition escape_char :: "char \<Rightarrow> string" where
  "escape_char c =
     (if c = CHR '' '' then ''+''
      else if unreserved c then [c]
      else CHR ''%'' # hex_fixed 2 (of_char c))"

definition QueryEscape :: "string \<Rightarrow> string" where
  "QueryEscape s = concat (map escape_char s)"

definition telemetry_params :: "header \<Rightarrow> string \<Rightarrow> string \<Rightarrow> string list" where
  "telemetry_params h mac partnerId =
     (let firmwareVersion = hget h HeaderFirmwareVersion;
          headerWanMac = to_upper (hget h HeaderWanMac)
      in (if str_contains firmwareVersion ''PROD'' then [''env=PROD'']
          else if str_contains firmwareVersion ''DEV'' then [''env=DEV''] else [])
         @ (if length partnerId > 0 then [''partnerId='' @ partnerId] else [])
         @ map (\<lambda>(name, key). name @ ''='' @ hget h key) telemetryFields
         @ (if length (hget h HeaderWanMac) > 0
            then [''estbMacAddress='' @ headerWanMac]
                 @ (if GetMacDiff headerWanMac mac = 2 then [''ecmMacAddress='' @ mac] else [])
            else [''estbMacAddress='' @ GetEstbMacAddress mac, ''ecmMacAddress='' @ mac]))"

definition GetTelemetryQueryString :: "header \<Rightarrow> string \<Rightarrow> string \<Rightarrow> string \<Rightarrow> string" where
  "GetTelemetryQueryString h mac queryParams partnerId =
     (let ret = go_join ''&'' (telemetry_params h mac partnerId);
          ret = (if length queryParams > 0 \<and> length ret > 0 then ret @ ''&'' @ queryParams else ret)
      in ReplaceAll (ReplaceAll (QueryEscape ret) ''%3D'' ''='') ''%26'' ''&'')"

definition baseProfileStr :: string where
  "baseProfileStr = ''{'' @ [CHR 0x22] @ ''profiles'' @ [CHR 0x22] @ '':[''"

text \<open>
  \<open>AppendProfiles\<close> splices the second profile list into the first. \<open>None\<close> is the panic of
  slicing a first text that is white space only.
\<close>

definition AppendProfiles :: "bytes \<Rightarrow> bytes \<Rightarrow> bytes option" where
  "AppendProfiles pbytes sbytes =
     (let s = TrimSpace pbytes;
          tail = (if length sbytes > 2
                  then (if length pbytes > 20 then '','' else '''') @ take (length sbytes - 2) (drop 1 sbytes)
                  else '''') @ '']}''
      in if length pbytes < 3 then Some (baseProfileStr @ tail)
         else if length s < 2 then None
         else Some (take (length s - 2) s @ tail))"

definition GetAPIName :: "string \<Rightarrow> string" where
  "GetAPIName queryStr =
     (if str_contains queryStr ''slow'' then ''slowpoke''
      else if str_contains queryStr ''root'' \<and> str_contains queryStr ''telemetry'' then ''poke_both''
      else if str_contains queryStr ''telemetry'' then ''poke_telemetry''
      else if str_contains queryStr ''mqtt'' then ''poke_mqtt''
      else ''poke'')"

section \<open>HTTP messages\<close>

definition CRLFb :: bytes where
  "CRLFb = [byte 13, byte 10]"

definition CRLFCRLF :: bytes where
  "CRLFCRLF = CRLFb @ CRLFb"

definition parse_header_line :: "header \<Rightarrow> bytes \<Rightarrow> header" where
  "parse_header_line h line =
     (case go_split CHR '':'' line of
        [_] \<Rightarrow> h
      | prefix # rest \<Rightarrow> hadd h prefix (TrimSpace (go_join '':'' rest))
      | [] \<Rightarrow> h)"

text \<open>The second result is nil when there is no empty line.\<close>

definition ParseHttp :: "bytes \<Rightarrow> header \<times> bytes option" where
  "ParseHttp bbytes =
     (let streams = bytes_Split bbytes CRLFCRLF;
          h = fold (\<lambda>line h. parse_header_line h line) (bytes_Split (hd streams) CRLFb) []
      in case streams of _ # body # _ \<Rightarrow> (h, Some body) | _ \<Rightarrow> (h, None))"

text \<open>
  \<open>Header.Write\<close>: sorted keys, one line per value, line breaks in values made spaces and
  ASCII white space trimmed.
\<close>

definition ascii_space :: "char \<Rightarrow> bool" where
  "ascii_space c \<longleftrightarrow> c \<in> {CHR '' '', byte 9, byte 10, byte 13}"

definition header_value :: "string \<Rightarrow> string" where
  "header_value v =
     rev (dropWhile ascii_space (rev (dropWhile ascii_space
       (map (\<lambda>c. if c = byte 10 \<or> c = byte 13 then CHR '' '' else c) v))))"

definition header_Write :: "header \<Rightarrow> bytes" where
  "header_Write h =
     concat (map (\<lambda>k. concat (map (\<lambda>v. k @ '': '' @ header_value v @ CRLFb) (gomap_get [] h k)))
       (filter (\<lambda>k. k \<noteq> [] \<and> list_all is_token_char k) (sort (map fst h))))"

definition BuildHttp :: "header \<Rightarrow> bytes \<Rightarrow> bytes" where
  "BuildHttp h bbytes = go_join CRLFb [header_Write h, bbytes]"

text \<open>\<open>http.StatusText\<close>.\<close>

definition status_texts :: "(int \<times> string) list" where
  "status_texts =
     [(100, ''Continue''), (101, ''Switching Protocols''), (102, ''Processing''), (103, ''Early Hints''),
      (200, ''OK''), (201, ''Created''), (202, ''Accepted''), (203, ''Non-Authoritative Information''),
      (204, ''No Content''), (205, ''Reset Content''), (206, ''Partial Content''), (207, ''Multi-Status''),
      (208, ''Already Reported''), (226, ''IM Used''), (300, ''Multiple Choices''), (301, ''Moved Permanently''),
      (302, ''Found''), (303, ''See Other''), (304, ''Not Modified''), (305, ''Use Proxy''),
      (307, ''Temporary Redirect''), (308, ''Permanent Redirect''), (400, ''Bad Request''),
      (401, ''Unauthorized''), (402, ''Payment Required''), (403, ''Forbidden''), (404, ''Not Found''),
      (405, ''Method Not Allowed''), (406, ''Not Acceptable''), (407, ''Proxy Authentication Required''),
      (408, ''Request Timeout''), (409, ''Conflict''), (410, ''Gone''), (411, ''Length Required''),
      (412, ''Precondition Failed''), (413, ''Request Entity Too Large''), (414, ''Request URI Too Long''),
      (415, ''Unsupported Media Type''), (416, ''Requested Range Not Satisfiable''),
      (417, ''Expectation Failed''), (418, ''I'' @ [CHR 0x27] @ ''m a teapot''), (421, ''Misdirected Request''),
      (422, ''Unprocessable Entity''), (423, ''Locked''), (424, ''Failed Dependency''), (425, ''Too Early''),
      (426, ''Upgrade Required''), (428, ''Precondition Required''), (429, ''Too Many Requests''),
      (431, ''Request Header Fields Too Large''), (451, ''Unavailable For Legal Reasons''),
      (500, ''Internal Server Error''), (501, ''Not Implemented''), (502, ''Bad Gateway''),
      (503, ''Service Unavailable''), (504, ''Gateway Timeout''), (505, ''HTTP Version Not Supported''),
      (506, ''Variant Also Negotiates''), (507, ''Insufficient Storage''), (508, ''Loop Detected''),
      (510, ''Not Extended''), (511, ''Network Authentication Required'')]"

definition StatusText :: "int \<Rightarrow> string" where
  "StatusText code = (case map_of status_texts code of Some t \<Rightarrow> t | None \<Rightarrow> '''')"

text \<open>\<open>%03d\<close>.\<close>

definition fmt_03d :: "int \<Rightarrow> string" where
  "fmt_03d i =
     (let s = itoa (abs i); w = (if i < 0 then 2 else 3)
      in (if i < 0 then ''-'' else '''') @ replicate (w - length s) (CHR ''0'') @ s)"

definition writeStatusLine :: "int \<Rightarrow> bytes" where
  "writeStatusLine code =
     ''HTTP/1.1 '' @
     (if StatusText code \<noteq> '''' then itoa code @ '' '' @ StatusText code @ CRLFb
      else fmt_03d code @ '' status code '' @ itoa code @ CRLFb)"

text \<open>The formatted date is an argument.\<close>

definition BuildPayloadAsHttp :: "string \<Rightarrow> int \<Rightarrow> header \<Rightarrow> bytes \<Rightarrow> bytes" where
  "BuildPayloadAsHttp date status h rbytes =
     writeStatusLine status @ header_Write h @ ''Date: '' @ date @ CRLFb
     @ ''Content-Length: '' @ itoa (int (length rbytes)) @ CRLFCRLF @ rbytes"

section \<open>Facts\<close>

lemma has_prefix_iff: "has_prefix s p \<longleftrightarrow> (\<exists>r. s = p @ r)"
  unfolding has_prefix_def by (metis append_eq_conv_conj append_take_drop_id)

lemma str_contains_iff: "str_contains s sub \<longleftrightarrow> (\<exists>pre post. s = pre @ sub @ post)"
proof (induction s sub rule: str_contains.induct)
  case (1 sub)
  then show ?case by simp
next
  case (2 c s sub)
  show ?case
  proof
    assume "str_contains (c # s) sub"
    then consider "has_prefix (c # s) sub" | "str_contains s sub" by auto
    then show "\<exists>pre post. c # s = pre @ sub @ post"
    proof cases
      case 1
      then show ?thesis unfolding has_prefix_iff by (metis append_Nil)
    next
      case 2
      with "2.IH" show ?thesis by (metis append_Cons)
    qed
  next
    assume "\<exists>pre post. c # s = pre @ sub @ post"
    then obtain pre post where e: "c # s = pre @ sub @ post" by blast
    show "str_contains (c # s) sub"
    proof (cases pre)
      case Nil
      then have "has_prefix (c # s) sub" using e by (auto simp only: has_prefix_iff append_Nil)
      then show ?thesis by simp
    next
      case (Cons x xs)
      then show ?thesis using e "2.IH" by auto
    qed
  qed
qed

text \<open>Splitting at the first occurrence of the separator.\<close>

lemma split_on_first:
  assumes "sep \<noteq> []" "\<And>i. i < length pre \<Longrightarrow> \<not> has_prefix (drop i (pre @ sep @ rest)) sep"
  shows "split_on sep cur (pre @ sep @ rest) = (cur @ pre) # split_on sep [] rest"
  using assms(2)
proof (induction pre arbitrary: cur)
  case Nil
  have "has_prefix (sep @ rest) sep" by (simp add: has_prefix_def)
  then show ?case using assms(1) by (simp add: split_on.simps[of sep cur "sep @ rest"])
next
  case (Cons c pre)
  from Cons.prems[of 0] have "\<not> has_prefix (c # pre @ sep @ rest) sep" by simp
  then have "split_on sep cur ((c # pre) @ sep @ rest) = split_on sep (cur @ [c]) (pre @ sep @ rest)"
    by (simp add: split_on.simps[of sep cur "c # pre @ sep @ rest"])
  also have "\<dots> = ((cur @ [c]) @ pre) # split_on sep [] rest"
  proof (rule Cons.IH)
    fix i assume "i < length pre"
    with Cons.prems[of "Suc i"] show "\<not> has_prefix (drop i (pre @ sep @ rest)) sep" by simp
  qed
  finally show ?case by simp
qed

lemma split_on_none:
  "(\<And>i. i < length s \<Longrightarrow> \<not> has_prefix (drop i s) sep) \<Longrightarrow> split_on sep cur s = [cur @ s]"
proof (induction s arbitrary: cur)
  case Nil
  then show ?case by (simp add: split_on.simps[of sep cur "[]"])
next
  case (Cons c s)
  from Cons.prems[of 0] have "\<not> has_prefix (c # s) sep" by simp
  moreover have "split_on sep (cur @ [c]) s = [(cur @ [c]) @ s]"
  proof (rule Cons.IH)
    fix i assume "i < length s"
    with Cons.prems[of "Suc i"] show "\<not> has_prefix (drop i s) sep" by simp
  qed
  ultimately show ?case by (simp add: split_on.simps[of sep cur "c # s"])
qed

text \<open>No occurrence of a separator before the point \<open>length pre\<close>.\<close>

definition first_at :: "bytes \<Rightarrow> bytes \<Rightarrow> bytes \<Rightarrow> bool" where
  "first_at sep pre rest \<longleftrightarrow> list_all (\<lambda>i. \<not> has_prefix (drop i (pre @ sep @ rest)) sep) [0..<length pre]"

lemma first_at_iff: "first_at sep pre rest \<longleftrightarrow> (\<forall>i < length pre. \<not> has_prefix (drop i (pre @ sep @ rest)) sep)"
  by (auto simp: first_at_def list_all_iff)

lemma CRLFCRLF_nonempty [simp]: "CRLFCRLF \<noteq> []"
  by (simp add: CRLFCRLF_def CRLFb_def)

text \<open>The body of a parsed message ends at the next empty line, wherever the message ends.\<close>

lemma ParseHttp_body:
  assumes "first_at CRLFCRLF head body"
  shows "snd (ParseHttp (head @ CRLFCRLF @ body)) = Some (hd (bytes_Split body CRLFCRLF))"
proof -
  have "bytes_Split (head @ CRLFCRLF @ body) CRLFCRLF = head # bytes_Split body CRLFCRLF"
    using split_on_first[of CRLFCRLF head body "[]"] assms by (simp add: first_at_iff bytes_Split_def)
  moreover obtain b bs where "bytes_Split body CRLFCRLF = b # bs"
  proof (cases "bytes_Split body CRLFCRLF")
    case Nil
    have "split_on sep cur s \<noteq> []" for sep cur s
      by (induction sep cur s rule: split_on.induct) (subst split_on.simps, auto split: list.splits)
    with Nil show ?thesis by (simp add: bytes_Split_def)
  qed blast
  ultimately show ?thesis by (simp add: ParseHttp_def Let_def)
qed

lemma ParseHttp_truncates:
  assumes "first_at CRLFCRLF head (b @ CRLFCRLF @ r)" "first_at CRLFCRLF b r"
  shows "snd (ParseHttp (head @ CRLFCRLF @ b @ CRLFCRLF @ r)) = Some b"
  using ParseHttp_body[OF assms(1)] split_on_first[of CRLFCRLF b r "[]"] assms(2)
  by (simp add: bytes_Split_def first_at_iff)

section \<open>Mac addresses\<close>

lemma hex_val_char: "d < 16 \<Longrightarrow> hex_val (hex_char d) = Some d"
  by (auto simp: hex_val_def hex_char_def Let_def)

lemma parse_hex_append:
  "parse_hex_digits acc (xs @ ys) =
    (case parse_hex_digits acc xs of None \<Rightarrow> None | Some n \<Rightarrow> parse_hex_digits n ys)"
  by (induction acc xs rule: parse_hex_digits.induct) (auto split: option.splits)

lemma length_hex_fixed [simp]: "length (hex_fixed k n) = k"
  by (induction k n rule: hex_fixed.induct) auto

lemma parse_hex_fixed: "n < 16 ^ k \<Longrightarrow> parse_hex_digits 0 (hex_fixed k n) = Some n"
proof (induction k n rule: hex_fixed.induct)
  case (1 n)
  then show ?case by simp
next
  case (2 k n)
  have "n div 16 < 16 ^ k" using 2 by (simp add: less_mult_imp_div_less mult.commute)
  with 2 show ?case by (simp add: parse_hex_append hex_val_char)
qed

lemma hex_fixed_hd: "k \<noteq> 0 \<Longrightarrow> hex_val (hd (hex_fixed k n)) \<noteq> None"
proof (induction k n rule: hex_fixed.induct)
  case (2 k n)
  have "hex_fixed k (n div 16) \<noteq> []" if "k \<noteq> 0"
    using that by (metis length_hex_fixed list.size(3))
  with 2 show ?case by (cases "k = 0") (simp_all add: hex_val_char hd_append)
qed simp

lemma hex_len_bound: "n < 16 ^ k \<Longrightarrow> 0 < k \<Longrightarrow> hex_len n \<le> k"
proof (induction n arbitrary: k rule: hex_len.induct)
  case (1 n)
  show ?case
  proof (cases "n < 16")
    case True
    then show ?thesis using 1 by (simp add: hex_len.simps[of n])
  next
    case False
    obtain k' where k: "k = Suc k'" using "1.prems" by (cases k) auto
    have "0 < k'" using False "1.prems"(1) k by (cases k') auto
    moreover have "n div 16 < 16 ^ k'" using "1.prems"(1) k by (simp add: less_mult_imp_div_less mult.commute)
    ultimately have "hex_len (n div 16) \<le> k'" using "1.IH" False by blast
    then show ?thesis using False k by (simp add: hex_len.simps[of n])
  qed
qed

lemma ParseHex_fixed:
  assumes "n < 16 ^ k" "0 < k" "int n < 2 ^ 63"
  shows "ParseHex (hex_fixed k n) = Some (int n)"
proof -
  let ?s = "hex_fixed k n"
  have ne: "?s \<noteq> []" using assms(2) by (metis length_hex_fixed length_0_conv less_numeral_extra(3))
  have "hex_val (hd ?s) \<noteq> None" using assms(2) hex_fixed_hd by blast
  then have "hd ?s \<noteq> CHR ''-''" "hd ?s \<noteq> CHR ''+''" by (auto simp: hex_val_def)
  moreover have "in_int64 (int n)" using assms(3) by (simp add: in_int64_def)
  ultimately show ?thesis using ne by (simp add: ParseHex_def parse_hex_fixed[OF assms(1)])
qed

text \<open>
  The estb mac address of a twelve-digit mac address is its successor's successor, printed
  with twelve digits unless the address is one of the last two.
\<close>

lemma GetEstbMacAddress_parse:
  assumes "ParseHex mac = Some i" "0 \<le> i" "i + 2 < 16 ^ 12"
  shows "length (GetEstbMacAddress mac) = 12" "ParseHex (GetEstbMacAddress mac) = Some (i + 2)"
    "GetMacDiff (GetEstbMacAddress mac) mac = 2"
proof -
  have w: "wrap64 (i + 2) = i + 2" using assms by (intro wrap64_id) (simp add: in_int64_def)
  have n: "nat (i + 2) < 16 ^ 12" using assms by (simp add: nat_less_iff)
  then have "max 12 (hex_len (nat (i + 2))) = 12" using hex_len_bound[of "nat (i + 2)" 12] by simp
  then have e: "GetEstbMacAddress mac = hex_fixed 12 (nat (i + 2))"
    using assms by (simp add: GetEstbMacAddress_def w fmt_012X_def Let_def)
  then show "length (GetEstbMacAddress mac) = 12" by simp
  show p: "ParseHex (GetEstbMacAddress mac) = Some (i + 2)"
    unfolding e using ParseHex_fixed[OF n] assms by simp
  show "GetMacDiff (GetEstbMacAddress mac) mac = 2"
    by (simp add: GetMacDiff_def p assms wrap64_def)
qed

end
