(* ===== verification/Sample.thy ===== *)
theory Sample
  imports SqliteServices Validators HttpText
begin

text \<open>
  Concrete data for the witnesses: a sqlite client over the tables in memory with two
  devices, and the facts about it that the witnesses need.
\<close>

definition sample_cfg :: sqlite_config where
  "sample_cfg = \<lparr>blockedSubdocIds = [''moca''], stateCorrectionEnabled = False,
     lockRootDocumentEnabled = True, supplementaryPrecookEnabled = True,
     supplementaryPrecookStateTTLDays = 7\<rparr>"

definition sample_mac :: string where "sample_mac = ''001122334455''"
definition other_mac :: string where "other_mac = ''AABBCCDDEEFF''"

definition sample_root :: rootdoc where
  "sample_root = NewRootDocument 3 ''fw1'' ''m1'' ''p1'' ''s1'' ''10'' '''' ''c1'' ''a1''"

definition lan_subdoc :: subdoc where
  "lan_subdoc = NewSubDocument (Some ''abc'') (Some ''v1'') (Some PendingDownload) (Some 5) (Some 0) (Some '''')"

definition sample_empty :: "tables sqlite" where
  "sample_empty = \<lparr>sq_db = (\<lambda>_. []), sq_metrics = None\<rparr>"

definition sample_root_state :: "tables sqlite" where
  "sample_root_state = snd (sq_SetRootDocument mem_engine sample_mac sample_root sample_empty)"

definition sample_state :: "tables sqlite" where
  "sample_state = snd (sq_SetSubDocument mem_engine sample_mac ''lan'' lan_subdoc 0 None sample_root_state)"

lemma empty_tables_ok: "tables_ok (sq_tables mem_engine sample_empty)"
  by (simp add: tables_ok_def keys_ok_def types_ok_def constraints_ok_def key_unique_def sq_tables_def
      mem_engine_def sample_empty_def)

lemma sample_tables_ok:
  "tables_ok (sq_tables mem_engine sample_root_state)" "tables_ok (sq_tables mem_engine sample_state)"
proof -
  note k = keepsD[of "\<lambda>s. tables_ok (sq_tables mem_engine s)", OF _ _ surjective_pairing]
  show r: "tables_ok (sq_tables mem_engine sample_root_state)"
    unfolding sample_root_state_def by (rule k[OF mem.tables_ok_SetRootDocument empty_tables_ok])
  show "tables_ok (sq_tables mem_engine sample_state)"
    unfolding sample_state_def by (rule k[OF mem.tables_ok_SetSubDocument r])
qed

definition new_lan :: document where
  "new_lan = SetSubDocument (NewDocument None) ''lan''
     (NewSubDocument (Some ''def'') (Some ''v2'') None None None None)"

definition old_lan :: document where
  "old_lan = SetSubDocument (NewDocument (Some sample_root)) ''lan'' lan_subdoc"

lemma sample_write_ok:
  "fst (WriteDocumentFromUpstream (sqlite_client mem_engine sample_cfg) sample_mac ''20'' new_lan old_lan True []
     (\<lambda>_. 9) sample_state) = Ok ()"
  by code_simp

end
