(* ===== verification/Responses.thy ===== *)
theory Responses
  imports HttpText Writer RootDocument
begin

text \<open>
  http/response_writer.go and http/response.go: the response writer that a handler gets, with
  the record that the middleware wraps around it, and the functions that write answers. A
  handler is a call that threads the database and the writer (\<open>'s web\<close>).
\<close>

section \<open>JSON text\<close>

text \<open>
  What \<open>json.Marshal\<close> writes for the values of the answers: the members of a struct in their
  order, those of a map sorted by key. Texts are ASCII or valid UTF-8, whose bytes above 127
  are copied.
\<close>

datatype jval =
    JNull
  | JBool bool
  | JInt int
  | JStr string
  | JList "jval list"
  | JObj "(string \<times> jval) list"

definition hex_lower :: "nat \<Rightarrow> char" where
  "hex_lower d = (if d < 10 then char_of (48 + d) else char_of (87 + d))"

definition json_char :: "char \<Rightarrow> string" where
  "json_char c =
     (let n = of_char c :: nat; bs = CHR 0x5C
      in if c = CHR 0x22 \<or> c = bs then [bs, c]
         else if n = 8 then [bs, CHR ''b''] else if n = 12 then [bs, CHR ''f'']
         else if n = 10 then [bs, CHR ''n''] else if n = 13 then [bs, CHR ''r'']
         else if n = 9 then [bs, CHR ''t'']
         else if n < 32 \<or> n \<in> {38, 60, 62}
         then [bs] @ ''u00'' @ [hex_lower (n div 16), hex_lower (n mod 16)]
         else [c])"

definition json_string :: "string \<Rightarrow> string" where
  "json_string s = [CHR 0x22] @ concat (map json_char s) @ [CHR 0x22]"

fun json_marshal :: "jval \<Rightarrow> bytes" where
  "json_marshal JNull = ''null''"
| "json_marshal (JBool b) = (if b then ''true'' else ''false'')"
| "json_marshal (JInt i) = itoa i"
| "json_marshal (JStr s) = json_string s"
| "json_marshal (JList vs) = ''['' @ go_join '','' (map json_marshal vs) @ '']''"
| "json_marshal (JObj ms) =
     ''{'' @ go_join '','' (map (\<lambda>(k, v). json_string k @ '':'' @ json_marshal v) ms) @ ''}''"

definition json_map :: "(string \<times> jval) list \<Rightarrow> jval" where
  "json_map ms = JObj (sort_key fst ms)"

definition rootdoc_json :: "rootdoc \<Rightarrow> jval" where
  "rootdoc_json d = JObj
     [(''bitmap'', JInt (rd_bitmap d)), (''firmware_version'', JStr (rd_firmware_version d)),
      (''model_name'', JStr (rd_model_name d)), (''partner_id'', JStr (rd_partner_id d)),
      (''schema_version'', JStr (rd_schema_version d)), (''version'', JStr (rd_version d)),
      (''query_params'', JStr (rd_query_params d)), (''locked_till'', JInt (rd_locked_till d)),
      (''product_class'', JStr (rd_product_class d)), (''account_type'', JStr (rd_account_type d))]"

section \<open>The writer\<close>

text \<open>
  The writer of package net/http: the header map, the status with the header that was sent
  with it, the body. \<open>WriteHeader\<close> panics on a code outside of 100 to 999, sends informational
  codes at once and keeps the first of the others. A body is refused after 101, 204 and 304.
\<close>

record net_writer =
  nw_header :: header
  nw_sent :: "(int \<times> header) option"
  nw_body :: bytes

definition net_WriteHeader :: "int \<Rightarrow> net_writer \<Rightarrow> net_writer option" where
  "net_WriteHeader code w =
     (if nw_sent w \<noteq> None then Some w
      else if code < 100 \<or> code > 999 then None
      else if code \<le> 199 \<and> code \<noteq> 101 then Some w
      else Some (w\<lparr>nw_sent := Some (code, nw_header w)\<rparr>))"

definition body_allowed :: "int \<Rightarrow> bool" where
  "body_allowed code \<longleftrightarrow> \<not> (100 \<le> code \<and> code \<le> 199) \<and> code \<noteq> 204 \<and> code \<noteq> 304"

text \<open>The writer after a \<open>Write\<close>, and whether it was accepted.\<close>

definition net_Write :: "bytes \<Rightarrow> net_writer \<Rightarrow> net_writer \<times> bool" where
  "net_Write b w =
     (let w1 = (case nw_sent w of None \<Rightarrow> w\<lparr>nw_sent := Some (200, nw_header w)\<rparr> | Some _ \<Rightarrow> w)
      in if length b = 0 then (w1, True)
         else if (case nw_sent w1 of Some (code, _) \<Rightarrow> body_allowed code | None \<Rightarrow> True)
         then (w1\<lparr>nw_body := nw_body w1 @ b\<rparr>, True)
         else (w1, False))"

text \<open>
  \<open>XResponseWriter\<close>; the start time is only logged. A writer that the middleware did not
  wrap has no such record, which is what the casts of the handlers test.
\<close>

record xwriter =
  xw_status :: int
  xw_length :: nat
  xw_response :: bytes
  xw_bodyBytes :: bytes
  xw_token :: string
  xw_audit :: fields
  xw_partnerId :: string

record writer =
  w_net :: net_writer
  w_x :: "xwriter option"

definition NewXResponseWriter :: "net_writer \<Rightarrow> string \<Rightarrow> fields \<Rightarrow> writer" where
  "NewXResponseWriter w token audit =
     \<lparr>w_net = w, w_x = Some \<lparr>xw_status = 0, xw_length = 0, xw_response = [], xw_bodyBytes = [],
        xw_token = token, xw_audit = audit, xw_partnerId = ''''\<rparr>\<rparr>"

definition xw_WriteHeader :: "int \<Rightarrow> writer \<Rightarrow> writer option" where
  "xw_WriteHeader status w =
     map_option (\<lambda>n. w\<lparr>w_net := n, w_x := map_option (\<lambda>x. x\<lparr>xw_status := status\<rparr>) (w_x w)\<rparr>)
       (net_WriteHeader status (w_net w))"

definition xw_Write :: "bytes \<Rightarrow> writer \<Rightarrow> writer" where
  "xw_Write b w =
     (let (n, accepted) = net_Write b (w_net w);
          x1 = map_option (\<lambda>x. if xw_status x = 0 then x\<lparr>xw_status := 200\<rparr> else x) (w_x w)
      in w\<lparr>w_net := n,
           w_x := (if accepted
                   then map_option (\<lambda>x. x\<lparr>xw_length := xw_length x + length b, xw_response := b\<rparr>) x1
                   else x1)\<rparr>)"

definition SetPartnerId :: "string \<Rightarrow> xwriter \<Rightarrow> xwriter" where
  "SetPartnerId partnerId x =
     x\<lparr>xw_partnerId := partnerId, xw_audit := gomap_put ''partner'' (IStr partnerId) (xw_audit x)\<rparr>"

definition AuditData :: "xwriter \<Rightarrow> string \<Rightarrow> string option" where
  "AuditData x k =
     (case map_of (xw_audit x) k of None \<Rightarrow> Some '''' | Some (IStr v) \<Rightarrow> Some v | Some _ \<Rightarrow> None)"

section \<open>Calls on database and writer\<close>

record 's web =
  web_db :: 's
  web_w :: writer

definition on_db :: "('s, 'a) prog \<Rightarrow> ('s web, 'a) prog" where
  "on_db m = (\<lambda>s. case m (web_db s) of (r, d) \<Rightarrow> (r, s\<lparr>web_db := d\<rparr>))"

definition on_w :: "(writer \<Rightarrow> writer) \<Rightarrow> ('s web, unit) prog" where
  "on_w f = (\<lambda>s. (Ok (), s\<lparr>web_w := f (web_w s)\<rparr>))"

definition with_w :: "(writer \<Rightarrow> ('s web, 'a) prog) \<Rightarrow> ('s web, 'a) prog" where
  "with_w k = (\<lambda>s. k (web_w s) s)"

definition seqE :: "('s, unit) prog \<Rightarrow> ('s, 'a) prog \<Rightarrow> ('s, 'a) prog" where
  "seqE m k = tryE m throw (\<lambda>_. k)"

definition set_header :: "string \<Rightarrow> string \<Rightarrow> ('s web, unit) prog" where
  "set_header k v = on_w (\<lambda>w. w\<lparr>w_net := (w_net w)\<lparr>nw_header := hset (nw_header (w_net w)) k v\<rparr>\<rparr>)"

definition w_WriteHeader :: "int \<Rightarrow> ('s web, unit) prog" where
  "w_WriteHeader status = with_w (\<lambda>w.
     case xw_WriteHeader status w of None \<Rightarrow> panic | Some w' \<Rightarrow> on_w (\<lambda>_. w'))"

definition w_Write :: "bytes \<Rightarrow> ('s web, unit) prog" where
  "w_Write b = on_w (xw_Write b)"

section \<open>Answers\<close>

text \<open>
  A value that only the logs read is \<open>IOther\<close>.
\<close>

definition SetAuditValue :: "string \<Rightarrow> itf \<Rightarrow> ('s web, unit) prog" where
  "SetAuditValue key v =
     on_w (\<lambda>w. w\<lparr>w_x := map_option (\<lambda>x. x\<lparr>xw_audit := gomap_put key v (xw_audit x)\<rparr>) (w_x w)\<rparr>)"

text \<open>\<open>FieldsGetString\<close>: \<open>None\<close> is the panic of the type assertion.\<close>

definition FieldsGetString :: "fields \<Rightarrow> string \<Rightarrow> string \<Rightarrow> string option" where
  "FieldsGetString flds keyName dflt =
     (case map_of flds keyName of None \<Rightarrow> Some dflt | Some (IStr v) \<Rightarrow> Some v | Some _ \<Rightarrow> None)"

definition HeaderMoracide :: string where "HeaderMoracide = ''X-Cl-Experiment''"
definition HeaderContentType :: string where "HeaderContentType = ''Content-Type''"
definition HeaderEtag :: string where "HeaderEtag = ''Etag''"
definition HeaderApplicationJson :: string where "HeaderApplicationJson = ''application/json''"
definition HeaderApplicationMsgpack :: string where "HeaderApplicationMsgpack = ''application/msgpack''"

definition addMoracideTagsAsResponseHeaders :: "('s web, unit) prog" where
  "addMoracideTagsAsResponseHeaders = with_w (\<lambda>w.
     case w_x w of
       None \<Rightarrow> ret ()
     | Some x \<Rightarrow>
         deref (FieldsGetString (xw_audit x) ''resp_moracide_tag'' '''') (\<lambda>m0.
         deref (if length m0 = 0 then FieldsGetString (xw_audit x) ''req_moracide_tag'' '''' else Some m0) (\<lambda>moracide.
           if length moracide > 0 then set_header HeaderMoracide moracide else ret ())))"

text \<open>The marshalling of the values modelled here does not fail.\<close>

definition WriteByMarshal :: "int \<Rightarrow> jval \<Rightarrow> ('s web, unit) prog" where
  "WriteByMarshal status v =
     seqE (set_header HeaderContentType HeaderApplicationJson)
       (seqE addMoracideTagsAsResponseHeaders
         (seqE (w_WriteHeader status) (w_Write (json_marshal v))))"

text \<open>The JSON members with the tag \<open>omitempty\<close>.\<close>

definition omit_str :: "string \<Rightarrow> string \<Rightarrow> (string \<times> jval) list" where
  "omit_str k v = (if v = '''' then [] else [(k, JStr v)])"

definition omit_int :: "string \<Rightarrow> int \<Rightarrow> (string \<times> jval) list" where
  "omit_int k v = (if v = 0 then [] else [(k, JInt v)])"

definition omit_nil :: "string \<Rightarrow> jval option \<Rightarrow> (string \<times> jval) list" where
  "omit_nil k v = (case v of None \<Rightarrow> [] | Some x \<Rightarrow> [(k, x)])"

definition HttpResponse :: "int \<Rightarrow> string \<Rightarrow> jval option \<Rightarrow> jval" where
  "HttpResponse status message dat =
     JObj ([(''status'', JInt status)] @ omit_str ''message'' message @ omit_nil ''data'' dat)"

definition HttpErrorResponse :: "int \<Rightarrow> string \<Rightarrow> jval option \<Rightarrow> jval" where
  "HttpErrorResponse status message errs =
     JObj ([(''status'', JInt status)] @ omit_str ''message'' message @ omit_nil ''errors'' errs)"

definition WriteOkResponse :: "jval option \<Rightarrow> ('s web, unit) prog" where
  "WriteOkResponse dat =
     seqE (SetAuditValue ''response'' IOther) (WriteByMarshal 200 (HttpResponse 200 (StatusText 200) dat))"

definition WriteAcceptedResponse :: "('s web, unit) prog" where
  "WriteAcceptedResponse =
     seqE (SetAuditValue ''response'' IOther) (WriteByMarshal 202 (HttpResponse 202 (StatusText 202) None))"

definition state_texts :: "string list" where
  "state_texts = ['''', ''deployed'', ''pending download'', ''in deployment'', ''failure'']"

text \<open>\<open>common.States[state]\<close> panics outside of the array.\<close>

definition WriteOkResponseByTemplate ::
  "string \<Rightarrow> int \<Rightarrow> int \<Rightarrow> int option \<Rightarrow> string option \<Rightarrow> ('s web, unit) prog" where
  "WriteOkResponseByTemplate dataStr state updatedTime errorCode errorDetails =
     deref (if 0 \<le> state \<and> state < 5 then Some (state_texts ! nat state) else None) (\<lambda>stateText.
       (let s = (if length dataStr > 0 then dataStr else ''null'');
            q = [CHR 0x22];
            head = ''{'' @ q @ ''status'' @ q @ '':200,'' @ q @ ''message'' @ q @ '':'' @ q @ ''OK'' @ q @ '','' @ q
                   @ ''data'' @ q @ '':'' @ s @ '','' @ q @ ''state'' @ q @ '':'' @ q @ stateText @ q @ '','' @ q
                   @ ''updated_time'' @ q @ '':'' @ itoa updatedTime;
            rbytes = (case (errorCode, errorDetails) of
                 (Some ec, Some ed) \<Rightarrow>
                   if ec > 0 \<and> length ed > 0
                   then head @ '','' @ q @ ''error_code'' @ q @ '':'' @ itoa ec @ '','' @ q
                        @ ''error_details'' @ q @ '':'' @ q @ ed @ q @ ''}''
                   else head @ ''}''
               | _ \<Rightarrow> head @ ''}'')
        in seqE (SetAuditValue ''response'' IOther)
             (seqE (set_header HeaderContentType HeaderApplicationJson)
               (seqE addMoracideTagsAsResponseHeaders
                 (seqE (w_WriteHeader 200) (w_Write rbytes))))))"

definition WriteContentTypeAndResponse :: "bytes \<Rightarrow> string \<Rightarrow> string \<Rightarrow> ('s web, unit) prog" where
  "WriteContentTypeAndResponse rbytes version contentType =
     seqE (set_header HeaderContentType contentType)
       (seqE addMoracideTagsAsResponseHeaders
         (seqE (set_header HeaderEtag version)
           (seqE (w_WriteHeader 200) (w_Write rbytes))))"

text \<open>
  The text of an error holds source positions and its JSON form the fields of library types;
  both are arguments, in one record.
\<close>

record err_forms =
  ef_text :: "goerr \<Rightarrow> string"
  ef_json :: "goerr \<Rightarrow> jval"

definition WriteErrorResponse :: "err_forms \<Rightarrow> int \<Rightarrow> goerr option \<Rightarrow> ('s web, unit) prog" where
  "WriteErrorResponse ef status err =
     (let errstr = (case err of None \<Rightarrow> '''' | Some e \<Rightarrow> ef_text ef e)
      in seqE (SetAuditValue ''response'' IOther)
           (WriteByMarshal status (HttpErrorResponse status (StatusText status) (Some (JStr errstr)))))"

definition http_Error :: "err_forms \<Rightarrow> int \<Rightarrow> goerr option \<Rightarrow> ('s web, unit) prog" where
  "http_Error ef status err =
     (if status = 204 \<or> status = 304 \<or> status = 403 then w_WriteHeader status
      else if status = 202
      then seqE (SetAuditValue ''response'' IOther)
             (WriteByMarshal status (case err of None \<Rightarrow> JNull | Some e \<Rightarrow> ef_json ef e))
      else WriteErrorResponse ef status err)"

definition WriteResponseBytes :: "bytes \<Rightarrow> int \<Rightarrow> string option \<Rightarrow> ('s web, unit) prog" where
  "WriteResponseBytes rbytes statusCode contentType =
     seqE (case contentType of None \<Rightarrow> ret () | Some t \<Rightarrow> set_header HeaderContentType t)
       (seqE addMoracideTagsAsResponseHeaders
         (seqE (w_WriteHeader statusCode) (w_Write rbytes)))"

definition WriteFactoryResetResponse :: "('s web, unit) prog" where
  "WriteFactoryResetResponse =
     seqE (set_header HeaderContentType MultipartContentType)
       (seqE addMoracideTagsAsResponseHeaders
         (seqE (w_WriteHeader 200) (w_Write [])))"

section \<open>What an answer does\<close>

text \<open>The status that the client gets; a handler that writes nothing answers 200.\<close>

definition sent_status :: "writer \<Rightarrow> int" where
  "sent_status w = (case nw_sent (w_net w) of None \<Rightarrow> 200 | Some (code, _) \<Rightarrow> code)"

definition moracide_ok :: "writer \<Rightarrow> bool" where
  "moracide_ok w = (case w_x w of None \<Rightarrow> True
     | Some x \<Rightarrow> FieldsGetString (xw_audit x) ''resp_moracide_tag'' '''' \<noteq> None
               \<and> FieldsGetString (xw_audit x) ''req_moracide_tag'' '''' \<noteq> None)"

definition fresh :: "writer \<Rightarrow> bool" where
  "fresh w \<longleftrightarrow> nw_sent (w_net w) = None \<and> nw_body (w_net w) = [] \<and> moracide_ok w"

text \<open>
  \<open>answers code m\<close>: on a fresh writer \<open>m\<close> returns normally, leaves the database alone and has
  sent \<open>code\<close>, which is also the status that the record notes. \<open>prepares m\<close>: it returns
  normally and only touches the header and the fields.
\<close>

definition answered :: "int \<Rightarrow> writer \<Rightarrow> bool" where
  "answered code w \<longleftrightarrow> nw_sent (w_net w) \<noteq> None \<and> sent_status w = code
     \<and> (case w_x w of None \<Rightarrow> True | Some x \<Rightarrow> xw_status x = code)"

definition answers :: "int \<Rightarrow> ('s web, unit) prog \<Rightarrow> bool" where
  "answers code m \<longleftrightarrow> (\<forall>s. fresh (web_w s) \<longrightarrow> (\<exists>w. m s = (Ok (), s\<lparr>web_w := w\<rparr>) \<and> answered code w))"

definition like :: "writer \<Rightarrow> writer \<Rightarrow> bool" where
  "like w w' \<longleftrightarrow> moracide_ok w' \<and> nw_sent (w_net w') = nw_sent (w_net w) \<and> nw_body (w_net w') = nw_body (w_net w)
     \<and> map_option xw_status (w_x w') = map_option xw_status (w_x w)"

definition prepares :: "('s web, unit) prog \<Rightarrow> bool" where
  "prepares m \<longleftrightarrow> (\<forall>s. moracide_ok (web_w s) \<longrightarrow> (\<exists>w. m s = (Ok (), s\<lparr>web_w := w\<rparr>) \<and> like (web_w s) w))"

lemma like_refl [simp]: "moracide_ok w \<Longrightarrow> like w w"
  by (simp add: like_def)

lemma like_trans: "like w w' \<Longrightarrow> like w' w'' \<Longrightarrow> like w w''"
  by (simp add: like_def)

lemma like_ok: "like w w' \<Longrightarrow> moracide_ok w'"
  by (simp add: like_def)

lemma like_fresh: "like w w' \<Longrightarrow> fresh w \<Longrightarrow> fresh w'"
  by (simp add: like_def fresh_def)

lemma fresh_ok: "fresh w \<Longrightarrow> moracide_ok w"
  by (simp add: fresh_def)

lemma web_w_same [simp]: "s\<lparr>web_w := web_w s\<rparr> = s"
  by simp

lemma prepares_ret [simp, intro]: "prepares (ret ())"
  unfolding prepares_def
proof (intro allI impI)
  fix s :: "'a web" assume "moracide_ok (web_w s)"
  then have "ret () s = (Ok (), s\<lparr>web_w := web_w s\<rparr>) \<and> like (web_w s) (web_w s)" by simp
  then show "\<exists>w. ret () s = (Ok (), s\<lparr>web_w := w\<rparr>) \<and> like (web_w s) w" ..
qed

lemma prepares_on_w: "(\<And>w. moracide_ok w \<Longrightarrow> like w (f w)) \<Longrightarrow> prepares (on_w f)"
  by (auto simp: prepares_def on_w_def)

lemma prepares_set_header [simp, intro]: "prepares (set_header k v)"
  unfolding set_header_def by (rule prepares_on_w) (auto simp: like_def moracide_ok_def split: option.splits)

lemma prepares_audit [simp, intro]:
  assumes "k \<noteq> ''resp_moracide_tag''" "k \<noteq> ''req_moracide_tag''"
  shows "prepares (SetAuditValue k v)"
  unfolding SetAuditValue_def
proof (rule prepares_on_w)
  fix w :: writer
  assume "moracide_ok w"
  then show "like w (w\<lparr>w_x := map_option (\<lambda>x. x\<lparr>xw_audit := gomap_put k v (xw_audit x)\<rparr>) (w_x w)\<rparr>)"
    using assms by (cases "w_x w") (auto simp: like_def moracide_ok_def FieldsGetString_def)
qed

lemma seqE_run: "m s = (Ok (), s') \<Longrightarrow> seqE m n s = n s'"
  by (simp add: seqE_def tryE_def)

lemma web_w_twice: "s\<lparr>web_w := w, web_w := w'\<rparr> = s\<lparr>web_w := w'\<rparr>"
  by simp

lemma prepares_then:
  assumes "prepares m" "moracide_ok (web_w s)"
  obtains w where "seqE m n s = n (s\<lparr>web_w := w\<rparr>)" "like (web_w s) w"
  using assms unfolding prepares_def by (metis seqE_run)

lemma prepares_seq:
  fixes m n :: "('s web, unit) prog"
  shows "prepares m \<Longrightarrow> prepares n \<Longrightarrow> prepares (seqE m n)"
  unfolding prepares_def[of "seqE m n"]
proof (intro allI impI)
  fix s :: "'s web" assume m: "prepares m" and n: "prepares n" and f: "moracide_ok (web_w s)"
  obtain w where w: "seqE m n s = n (s\<lparr>web_w := w\<rparr>)" "like (web_w s) w" by (rule prepares_then[OF m f])
  then have "moracide_ok (web_w (s\<lparr>web_w := w\<rparr>))" by (simp add: like_ok)
  with n obtain w' where "n (s\<lparr>web_w := w\<rparr>) = (Ok (), s\<lparr>web_w := w, web_w := w'\<rparr>)" "like w w'"
    unfolding prepares_def by fastforce
  then show "\<exists>w. seqE m n s = (Ok (), s\<lparr>web_w := w\<rparr>) \<and> like (web_w s) w"
    unfolding w(1) web_w_twice using like_trans[OF w(2)] by blast
qed

lemma prepares_moracide [simp, intro]: "prepares addMoracideTagsAsResponseHeaders"
  unfolding prepares_def
proof (intro allI impI)
  fix s :: "'a web" assume f: "moracide_ok (web_w s)"
  show "\<exists>w. addMoracideTagsAsResponseHeaders s = (Ok (), s\<lparr>web_w := w\<rparr>) \<and> like (web_w s) w"
  proof (cases "w_x (web_w s)")
    case None
    have "addMoracideTagsAsResponseHeaders s = ret () s"
      by (simp add: addMoracideTagsAsResponseHeaders_def with_w_def None)
    then show ?thesis using prepares_ret f unfolding prepares_def by metis
  next
    case (Some x)
    then obtain a b where ab: "FieldsGetString (xw_audit x) ''resp_moracide_tag'' '''' = Some a"
        "FieldsGetString (xw_audit x) ''req_moracide_tag'' '''' = Some b"
      using f by (auto simp: moracide_ok_def)
    let ?m = "if length a = 0 then b else a"
    have "addMoracideTagsAsResponseHeaders s =
        (if length ?m > 0 then set_header HeaderMoracide ?m else ret ()) s"
      by (simp add: addMoracideTagsAsResponseHeaders_def with_w_def Some ab)
    moreover have "prepares ((if length ?m > 0 then set_header HeaderMoracide ?m else ret ()) :: ('a web, unit) prog)"
      by simp
    ultimately show ?thesis using f unfolding prepares_def by metis
  qed
qed

lemma answers_seq:
  fixes m n :: "('s web, unit) prog"
  shows "prepares m \<Longrightarrow> answers c n \<Longrightarrow> answers c (seqE m n)"
  unfolding answers_def[of c "seqE m n"]
proof (intro allI impI)
  fix s :: "'s web" assume m: "prepares m" and n: "answers c n" and f: "fresh (web_w s)"
  obtain w where w: "seqE m n s = n (s\<lparr>web_w := w\<rparr>)" "like (web_w s) w"
    by (rule prepares_then[OF m fresh_ok[OF f]])
  then have "fresh (web_w (s\<lparr>web_w := w\<rparr>))" using like_fresh[OF w(2) f] by simp
  with n obtain w' where "n (s\<lparr>web_w := w\<rparr>) = (Ok (), s\<lparr>web_w := w, web_w := w'\<rparr>)" "answered c w'"
    unfolding answers_def by blast
  then show "\<exists>w. seqE m n s = (Ok (), s\<lparr>web_w := w\<rparr>) \<and> answered c w"
    unfolding w(1) web_w_twice by blast
qed

definition final_status :: "int \<Rightarrow> bool" where
  "final_status c \<longleftrightarrow> c = 101 \<or> (200 \<le> c \<and> c \<le> 999)"

lemma xw_WriteHeader_fresh:
  assumes "final_status c" "fresh w"
  obtains w' where "xw_WriteHeader c w = Some w'" "answered c w'"
  using assms
  by (auto simp: xw_WriteHeader_def net_WriteHeader_def final_status_def fresh_def answered_def sent_status_def
      split: option.splits)

lemma answers_WriteHeader: "final_status c \<Longrightarrow> answers c (w_WriteHeader c)"
  unfolding answers_def w_WriteHeader_def with_w_def on_w_def
  by (metis (no_types, lifting) option.simps(5) xw_WriteHeader_fresh)

lemma xw_Write_answered: "final_status c \<Longrightarrow> answered c w \<Longrightarrow> answered c (xw_Write b w)"
  by (auto simp: xw_Write_def net_Write_def answered_def sent_status_def Let_def final_status_def
      split: option.splits if_splits)

lemma answers_write:
  assumes "final_status c"
  shows "answers c (seqE (w_WriteHeader c) (w_Write b))"
  unfolding answers_def
proof (intro allI impI)
  fix s :: "'a web" assume "fresh (web_w s)"
  with answers_WriteHeader[OF assms] obtain w where
      w: "w_WriteHeader c s = (Ok (), s\<lparr>web_w := w\<rparr>)" "answered c w"
    unfolding answers_def by blast
  have "seqE (w_WriteHeader c) (w_Write b) s = (Ok (), s\<lparr>web_w := xw_Write b w\<rparr>)"
    using w(1) by (simp add: seqE_run w_Write_def on_w_def)
  with xw_Write_answered[OF assms w(2)]
  show "\<exists>w. seqE (w_WriteHeader c) (w_Write b) s = (Ok (), s\<lparr>web_w := w\<rparr>) \<and> answered c w" by blast
qed

lemma answers_marshal: "final_status c \<Longrightarrow> answers c (WriteByMarshal c v)"
  by (simp add: WriteByMarshal_def answers_seq answers_write)

text \<open>
  The effect of writing JSON to a writer that may have been used: the first status stays, the
  text is appended, and the record notes the status of this answer.
\<close>

definition adds_answer :: "int \<Rightarrow> bytes \<Rightarrow> writer \<Rightarrow> writer \<Rightarrow> bool" where
  "adds_answer c b w w' \<longleftrightarrow> moracide_ok w'
     \<and> map_option fst (nw_sent (w_net w')) = Some (case nw_sent (w_net w) of None \<Rightarrow> c | Some x \<Rightarrow> fst x)
     \<and> nw_body (w_net w') = nw_body (w_net w) @ b
     \<and> map_option xw_status (w_x w') = map_option (\<lambda>_. c) (w_x w)"

lemma write_adds:
  assumes "final_status c" "body_allowed c" "moracide_ok w"
    and "\<And>x. nw_sent (w_net w) = Some x \<Longrightarrow> body_allowed (fst x)"
  shows "\<exists>w1. xw_WriteHeader c w = Some w1 \<and> adds_answer c b w (xw_Write b w1)"
  using assms
  by (auto simp: xw_WriteHeader_def net_WriteHeader_def xw_Write_def net_Write_def adds_answer_def Let_def
      final_status_def moracide_ok_def split: option.splits if_splits)

definition open_body :: "writer \<Rightarrow> bool" where
  "open_body w \<longleftrightarrow> moracide_ok w \<and> (case nw_sent (w_net w) of None \<Rightarrow> True | Some x \<Rightarrow> body_allowed (fst x))"

definition adds :: "int \<Rightarrow> bytes \<Rightarrow> ('s web, unit) prog \<Rightarrow> bool" where
  "adds c b m \<longleftrightarrow> (\<forall>s. open_body (web_w s) \<longrightarrow>
     (\<exists>w. m s = (Ok (), s\<lparr>web_w := w\<rparr>) \<and> adds_answer c b (web_w s) w))"

lemma adds_seq:
  fixes m n :: "('s web, unit) prog"
  shows "prepares m \<Longrightarrow> adds c b n \<Longrightarrow> adds c b (seqE m n)"
  unfolding adds_def[of c b "seqE m n"]
proof (intro allI impI)
  fix s :: "'s web" assume m: "prepares m" and n: "adds c b n" and f: "open_body (web_w s)"
  then have "moracide_ok (web_w s)" by (simp add: open_body_def)
  then obtain w where w: "seqE m n s = n (s\<lparr>web_w := w\<rparr>)" "like (web_w s) w"
    by (rule prepares_then[OF m])
  have "open_body (web_w (s\<lparr>web_w := w\<rparr>))" using w(2) f by (simp add: open_body_def like_def)
  with n obtain w' where w': "n (s\<lparr>web_w := w\<rparr>) = (Ok (), s\<lparr>web_w := w, web_w := w'\<rparr>)" "adds_answer c b w w'"
    unfolding adds_def by fastforce
  have "adds_answer c b (web_w s) w'"
    using w'(2) w(2) unfolding adds_answer_def like_def by (cases "w_x w"; cases "w_x (web_w s)") simp_all
  then show "\<exists>w. seqE m n s = (Ok (), s\<lparr>web_w := w\<rparr>) \<and> adds_answer c b (web_w s) w"
    using w'(1) unfolding w(1) web_w_twice by blast
qed

lemma adds_write:
  assumes "final_status c" "body_allowed c"
  shows "adds c b (seqE (w_WriteHeader c) (w_Write b))"
  unfolding adds_def
proof (intro allI impI)
  fix s :: "'a web" assume o: "open_body (web_w s)"
  have "\<exists>w1. xw_WriteHeader c (web_w s) = Some w1 \<and> adds_answer c b (web_w s) (xw_Write b w1)"
    by (rule write_adds[OF assms]) (use o in \<open>simp_all add: open_body_def\<close>)
  then obtain w1 where w1: "xw_WriteHeader c (web_w s) = Some w1" "adds_answer c b (web_w s) (xw_Write b w1)" by blast
  have "seqE (w_WriteHeader c) (w_Write b) s = (Ok (), s\<lparr>web_w := xw_Write b w1\<rparr>)"
    by (simp add: seqE_def tryE_def w_WriteHeader_def with_w_def w1(1) on_w_def w_Write_def)
  with w1(2) show "\<exists>w. seqE (w_WriteHeader c) (w_Write b) s = (Ok (), s\<lparr>web_w := w\<rparr>) \<and> adds_answer c b (web_w s) w"
    by blast
qed

lemma adds_marshal: "final_status c \<Longrightarrow> body_allowed c \<Longrightarrow> adds c (json_marshal v) (WriteByMarshal c v)"
  by (simp add: WriteByMarshal_def adds_seq adds_write)

lemma adds_error500:
  "adds 500 (json_marshal (HttpErrorResponse 500 (StatusText 500) (Some (JStr (case e of None \<Rightarrow> '''' | Some e \<Rightarrow> ef_text ef e)))))
     (http_Error ef 500 e)"
  by (simp add: http_Error_def WriteErrorResponse_def Let_def adds_seq adds_marshal body_allowed_def final_status_def)

lemma adds_ok: "adds 200 (json_marshal (HttpResponse 200 (StatusText 200) d)) (WriteOkResponse d)"
  by (simp add: WriteOkResponse_def adds_seq adds_marshal body_allowed_def final_status_def)

text \<open>Two answers after one another.\<close>

lemma adds_twice:
  assumes a: "adds c b m" and a': "adds c' b' n" and f: "fresh (web_w s)" "body_allowed c"
  shows "\<exists>w. seqE m n s = (Ok (), s\<lparr>web_w := w\<rparr>) \<and> sent_status w = c \<and> nw_body (w_net w) = b @ b'
    \<and> map_option xw_status (w_x w) = map_option (\<lambda>_. c') (w_x (web_w s))"
proof -
  have "open_body (web_w s)" using f(1) by (simp add: open_body_def fresh_def)
  with a obtain w where w: "m s = (Ok (), s\<lparr>web_w := w\<rparr>)" "adds_answer c b (web_w s) w"
    unfolding adds_def by blast
  have "open_body (web_w (s\<lparr>web_w := w\<rparr>))"
    using w(2) f by (auto simp: adds_answer_def open_body_def fresh_def split: option.splits)
  with a' obtain w' where w': "n (s\<lparr>web_w := w\<rparr>) = (Ok (), s\<lparr>web_w := w, web_w := w'\<rparr>)" "adds_answer c' b' w w'"
    unfolding adds_def by fastforce
  have "sent_status w' = c"
    using w(2) w'(2) f(1) by (auto simp: adds_answer_def sent_status_def fresh_def split: option.splits)
  moreover have "nw_body (w_net w') = b @ b'" using w(2) w'(2) f(1) by (simp add: adds_answer_def fresh_def)
  moreover have "map_option xw_status (w_x w') = map_option (\<lambda>_. c') (w_x (web_w s))"
    using w(2) w'(2) unfolding adds_answer_def by (cases "w_x w"; cases "w_x (web_w s)") simp_all
  ultimately show ?thesis using w(1) w'(1) by (auto simp: seqE_def tryE_def)
qed

lemma final_status_codes [simp]:
  "final_status 200" "final_status 202" "final_status 204" "final_status 304" "final_status 400"
  "final_status 403" "final_status 404" "final_status 409" "final_status 500" "final_status 521"
  by (simp_all add: final_status_def)

lemma answers_ok [simp, intro]: "answers 200 (WriteOkResponse d)"
  by (simp add: WriteOkResponse_def answers_seq answers_marshal)

lemma answers_accepted [simp, intro]: "answers 202 WriteAcceptedResponse"
  by (simp add: WriteAcceptedResponse_def answers_seq answers_marshal)

lemma answers_error [intro]: "final_status c \<Longrightarrow> answers c (http_Error ef c err)"
  by (auto simp: http_Error_def WriteErrorResponse_def Let_def intro!: answers_seq answers_marshal answers_WriteHeader)

lemma answers_bytes [intro]: "final_status c \<Longrightarrow> answers c (WriteResponseBytes b c ct)"
  by (auto simp: WriteResponseBytes_def intro!: answers_seq answers_write split: option.splits)

text \<open>The answer to an error is its own status or 500.\<close>

lemma http_status_of_range: "http_status_of e \<in> {400, 404, 500}"
  by (simp add: http_status_of_def)

text \<open>What is kept through a call on the database, and an answer with its status.\<close>

lemma on_db_apply: "on_db m s = (fst (m (web_db s)), s\<lparr>web_db := snd (m (web_db s))\<rparr>)"
  by (simp add: on_db_def split: prod.splits)

lemma on_db_keeps: "keeps P m \<Longrightarrow> keeps (\<lambda>s. P (web_db s)) (on_db m)"
  by (simp add: keeps_def on_db_apply)

lemma web_db_on_w [simp]: "web_db (snd (on_w f s)) = web_db s"
  by (simp add: on_w_def)

lemma keeps_db_on_w [keeps_intros, intro]: "keeps (\<lambda>s. P (web_db s)) (on_w f)"
  by (simp add: keeps_def)

lemma keeps_with_w [keeps_intros]: "(\<And>w. keeps P (k w)) \<Longrightarrow> keeps P (with_w k)"
  by (simp add: keeps_def with_w_def)

lemma keeps_seqE [keeps_intros]: "keeps P m \<Longrightarrow> keeps P n \<Longrightarrow> keeps P (seqE m n)"
  unfolding seqE_def by (intro keeps_intros)

lemma keeps_answers:
  "keeps (\<lambda>s. P (web_db s)) (set_header k v)"
  "keeps (\<lambda>s. P (web_db s)) (SetAuditValue k i)"
  "keeps (\<lambda>s. P (web_db s)) (w_Write b)"
  by (simp_all add: set_header_def SetAuditValue_def w_Write_def keeps_db_on_w)

lemma keeps_WriteHeader: "keeps (\<lambda>s. P (web_db s)) (w_WriteHeader c)"
  by (auto simp: w_WriteHeader_def intro!: keeps_intros split: option.splits)

lemma keeps_moracide: "keeps (\<lambda>s. P (web_db s)) addMoracideTagsAsResponseHeaders"
  by (auto simp: addMoracideTagsAsResponseHeaders_def split: option.splits intro!: keeps_intros keeps_answers)

lemma keeps_http [keeps_intros]:
  "keeps (\<lambda>s. P (web_db s)) (WriteByMarshal c v)"
  "keeps (\<lambda>s. P (web_db s)) (WriteOkResponse d)"
  "keeps (\<lambda>s. P (web_db s)) WriteAcceptedResponse"
  "keeps (\<lambda>s. P (web_db s)) (http_Error ef c err)"
  "keeps (\<lambda>s. P (web_db s)) (WriteResponseBytes rb c ct)"
proof -
  show m: "keeps (\<lambda>s. P (web_db s)) (WriteByMarshal c v)" for c v
    by (auto simp: WriteByMarshal_def intro!: keeps_seqE keeps_answers keeps_WriteHeader keeps_moracide)
  then show "keeps (\<lambda>s. P (web_db s)) (WriteOkResponse d)" "keeps (\<lambda>s. P (web_db s)) WriteAcceptedResponse"
      "keeps (\<lambda>s. P (web_db s)) (http_Error ef c err)"
    by (auto simp: WriteOkResponse_def WriteAcceptedResponse_def http_Error_def WriteErrorResponse_def Let_def
        intro!: keeps_seqE keeps_answers keeps_WriteHeader)
  show "keeps (\<lambda>s. P (web_db s)) (WriteResponseBytes rb c ct)"
    by (auto simp: WriteResponseBytes_def intro!: keeps_seqE keeps_answers keeps_WriteHeader keeps_moracide split: option.splits)
qed

text \<open>The two ways to use an answer: what a call on the database left, and what was answered.\<close>

lemma on_db_eq: "on_db m s = (r, s') \<longleftrightarrow> (\<exists>d. m (web_db s) = (r, d) \<and> s' = s\<lparr>web_db := d\<rparr>)"
  by (auto simp: on_db_def split: prod.splits)

lemma answersD:
  assumes "answers c m" "fresh (web_w s)" "m s = (r, s')"
  shows "r = Ok ()" "web_db s' = web_db s" "answered c (web_w s')" "sent_status (web_w s') = c"
proof -
  from assms obtain w where w: "s' = s\<lparr>web_w := w\<rparr>" "r = Ok ()" "answered c w"
    unfolding answers_def by fastforce
  then show "r = Ok ()" "web_db s' = web_db s" "answered c (web_w s')" "sent_status (web_w s') = c"
    by (simp_all add: answered_def)
qed

text \<open>The first status that was sent stays.\<close>

definition sent :: "int \<times> header \<Rightarrow> 's web \<Rightarrow> bool" where
  "sent x s \<longleftrightarrow> nw_sent (w_net (web_w s)) = Some x"

lemma keeps_sent_on_w: "(\<And>w. nw_sent (w_net w) = Some x \<Longrightarrow> nw_sent (w_net (f w)) = Some x) \<Longrightarrow> keeps (sent x) (on_w f)"
  by (simp add: keeps_def sent_def on_w_def)

lemma keeps_sent_basic:
  "keeps (sent x) (set_header k v)" "keeps (sent x) (SetAuditValue k i)" "keeps (sent x) (w_Write b)"
  unfolding set_header_def SetAuditValue_def w_Write_def
  by (rule keeps_sent_on_w, auto simp: xw_Write_def net_Write_def Let_def split: prod.splits if_splits)+

lemma keeps_sent_WriteHeader: "keeps (sent x) (w_WriteHeader c)"
  unfolding keeps_def w_WriteHeader_def with_w_def
  by (auto simp: sent_def on_w_def xw_WriteHeader_def net_WriteHeader_def split: option.splits if_splits)

lemma keeps_sent_moracide: "keeps (sent x) addMoracideTagsAsResponseHeaders"
  by (auto simp: addMoracideTagsAsResponseHeaders_def split: option.splits intro!: keeps_intros keeps_sent_basic)

lemma keeps_sent_answers:
  "keeps (sent x) (WriteByMarshal c v)" "keeps (sent x) (WriteOkResponse d)" "keeps (sent x) (http_Error ef c err)"
  by (auto simp: WriteByMarshal_def WriteOkResponse_def http_Error_def WriteErrorResponse_def Let_def
      intro!: keeps_seqE keeps_sent_basic keeps_sent_WriteHeader keeps_sent_moracide)

text \<open>A second answer does not change the status that was sent.\<close>

lemma second_answer:
  assumes "answers c m" "fresh (web_w s)" "\<And>x. keeps (sent x) n" "seqE m n s = (r, s')"
  shows "sent_status (web_w s') = c"
proof -
  from assms(1,2) obtain w where w: "m s = (Ok (), s\<lparr>web_w := w\<rparr>)" "answered c w"
    unfolding answers_def by blast
  then obtain x where x: "nw_sent (w_net w) = Some x" "fst x = c"
    by (auto simp: answered_def sent_status_def split: option.splits)
  have "n (s\<lparr>web_w := w\<rparr>) = (r, s')" using assms(4) w(1) by (simp add: seqE_def tryE_def)
  moreover have "sent x (s\<lparr>web_w := w\<rparr>)" using x(1) by (simp add: sent_def)
  ultimately have "sent x s'" using keepsD[OF assms(3)] by blast
  then show ?thesis using x(2) by (auto simp: sent_def sent_status_def split: option.splits prod.splits)
qed

end
