(* ===== verification/WebServer.thy ===== *)
theory WebServer
  imports Responses Validators ServiceUpdate
begin

text \<open>
  http/webconfig_server.go and http/validator.go: the configuration of the server, the request
  as the handlers see it, and the checks that the handlers of documents share.
\<close>

section \<open>The server\<close>

text \<open>
  \<open>WebconfigServer\<close> embeds the database client; the connectors, the token manager and the
  producer are arguments of the handlers that use them. The hash and the forms of errors are
  library functions.
\<close>

record 's server =
  DatabaseClient :: "'s db_client"
  appName :: string
  validateMacEnabled :: bool
  validPartners :: "string list"
  upstreamEnabled :: bool
  jwksEnabled :: bool
  kafkaProducerEnabled :: bool
  kafkaProducerTopic :: string
  supplementaryAppendingEnabled :: bool
  upstreamProfilesEnabled :: bool
  queryParamsValidationEnabled :: bool
  minTrust :: int
  validSubdocIdMap :: "int gomap"
  filterOutputByBitmapEnabled :: bool
  defaultEmptyProfileEnabled :: bool
  bitmapFilterExemptSubdocIds :: "string list"
  murmur3 :: "bytes \<Rightarrow> nat"
  errs :: err_forms

text \<open>The route variables, the header, the parsed query, the method and the body of a request.\<close>

record http_request =
  rq_vars :: "string gomap"
  rq_header :: header
  rq_query :: url_values
  rq_raw_query :: string
  rq_method :: string
  rq_body :: "bytes option"

definition HeaderSubdocumentVersion :: string where "HeaderSubdocumentVersion = ''X-Subdocument-Version''"
definition HeaderSubdocumentState :: string where "HeaderSubdocumentState = ''X-Subdocument-State''"
definition HeaderSubdocumentUpdatedTime :: string where
  "HeaderSubdocumentUpdatedTime = ''X-Subdocument-Updated-Time''"
definition HeaderSubdocumentErrorCode :: string where "HeaderSubdocumentErrorCode = ''X-Subdocument-Error-Code''"
definition HeaderSubdocumentErrorDetails :: string where
  "HeaderSubdocumentErrorDetails = ''X-Subdocument-Error-Details''"
definition HeaderSubdocumentExpiry :: string where "HeaderSubdocumentExpiry = ''X-Subdocument-Expiry''"
definition HeaderSubdocumentOldState :: string where "HeaderSubdocumentOldState = ''X-Subdocument-Old-State''"
definition HeaderMetricsAgent :: string where "HeaderMetricsAgent = ''X-Metrics-Agent''"
definition HeaderRefSubdocumentVersion :: string where "HeaderRefSubdocumentVersion = ''X-Refsubdocument-Version''"

section \<open>Checks\<close>

text \<open>
  \<open>Validate\<close>: the upper-case mac, the group and the body. The writer must be the wrapped one.
\<close>

definition Validate ::
  "'s server \<Rightarrow> writer \<Rightarrow> http_request \<Rightarrow> bool \<Rightarrow> goerr + (string \<times> string \<times> bytes)" where
  "Validate sv w r validateContent =
     (let mac = to_upper (gomap_get '''' (rq_vars r) ''mac'');
          subdocId = gomap_get '''' (rq_vars r) ''subdoc_id''
      in if validateMacEnabled sv \<and> \<not> ValidateMac mac then Inl (NewError (Http400Error ''invalid mac''))
         else (case w_x w of
             None \<Rightarrow> Inl (NewError (Http500Error ''responsewriter cast error''))
           | Some xw \<Rightarrow>
               if \<not> validateContent then Inr (mac, subdocId, [])
               else if hget (rq_header r) HeaderContentType \<noteq> HeaderApplicationMsgpack
               then Inl (NewError (Http400Error ''content-type not msgpack''))
               else if length (xw_bodyBytes xw) = 0 then Inl (NewError (Http400Error ''empty body''))
               else Inr (mac, subdocId, xw_bodyBytes xw)))"

definition ValidateRefData :: "writer \<Rightarrow> http_request \<Rightarrow> bool \<Rightarrow> goerr + (string \<times> bytes)" where
  "ValidateRefData w r validateContent =
     (let refId = gomap_get '''' (rq_vars r) ''ref''
      in case w_x w of
           None \<Rightarrow> Inl (NewError (Http500Error ''responsewriter cast error''))
         | Some xw \<Rightarrow>
             if \<not> validateContent then Inr (refId, [])
             else if hget (rq_header r) HeaderContentType \<noteq> HeaderApplicationMsgpack
             then Inl (NewError (Http400Error ''content-type not msgpack''))
             else if length (xw_bodyBytes xw) = 0 then Inl (NewError (Http400Error ''empty body''))
             else Inr (refId, xw_bodyBytes xw))"

definition ValidatePartner :: "'s server \<Rightarrow> string \<Rightarrow> goerr option" where
  "ValidatePartner sv parsedPartner =
     (if length (validPartners sv) = 0 then None
      else (let partner = to_lower parsedPartner
            in if partner \<in> set (validPartners sv) then None
               else Some (ErrText (''invalid partner '' @ partner))))"

text \<open>What every handler of documents does with a failed check.\<close>

definition reject :: "'s server \<Rightarrow> goerr \<Rightarrow> ('d web, unit) prog" where
  "reject sv err = http_Error (errs sv) (http_status_of err) (Some (NewError err))"

text \<open>
  \<open>GetDocument\<close> of the client returns a document and an error; a nil document without an
  error would panic when it is used.
\<close>

definition read_document :: "'s db_client \<Rightarrow> string \<Rightarrow> bool \<Rightarrow> ('s, document) prog" where
  "read_document c mac expiry = tryE (db_GetDocument c mac expiry) throw (\<lambda>(d, gerr).
     case gerr of Some e \<Rightarrow> throw e | None \<Rightarrow> deref d ret)"

text \<open>Running a handler on a request that nothing was answered to yet.\<close>

definition new_net_writer :: net_writer where
  "new_net_writer = \<lparr>nw_header = [], nw_sent = None, nw_body = []\<rparr>"

section \<open>Facts\<close>

lemma answers_reject [simp, intro]: "answers (http_status_of e) (reject sv e)"
proof -
  have "final_status (http_status_of e)" by (simp add: http_status_of_def)
  then show ?thesis unfolding reject_def by (rule answers_error)
qed

lemma keeps_reject [keeps_intros]: "keeps (\<lambda>s. P (web_db s)) (reject sv e)"
  by (auto simp: reject_def intro!: keeps_intros)

lemma Validate_codes: "Validate sv w r b = Inl e \<Longrightarrow> http_status_of e \<in> {400, 500}"
  by (auto simp: Validate_def Let_def http_status_of_def split: if_splits option.splits)

lemma Validate_Inr:
  "Validate sv w r b = Inr (mac, g, bs) \<Longrightarrow>
     mac = to_upper (gomap_get '''' (rq_vars r) ''mac'') \<and> g = gomap_get '''' (rq_vars r) ''subdoc_id''
     \<and> (validateMacEnabled sv \<longrightarrow> ValidateMac mac) \<and> (b \<longrightarrow> bs \<noteq> [])"
  by (auto simp: Validate_def Let_def split: if_splits option.splits)

lemma new_writer_fresh [simp]: "FieldsGetString flds ''resp_moracide_tag'' '''' \<noteq> None \<Longrightarrow>
  FieldsGetString flds ''req_moracide_tag'' '''' \<noteq> None \<Longrightarrow> fresh (NewXResponseWriter new_net_writer tok flds)"
  by (simp add: fresh_def new_net_writer_def NewXResponseWriter_def moracide_ok_def)

end
