(* ===== verification/DocumentHandlers.thy ===== *)
theory DocumentHandlers
  imports WebServer
begin

text \<open>
  http/document_handler.go: reading, storing and deleting sub-documents over HTTP. After every
  change the handlers hash the versions that are stored into a new root version.
\<close>

definition set_header_opt :: "string \<Rightarrow> string option \<Rightarrow> ('s web, unit) prog" where
  "set_header_opt k v = (case v of None \<Rightarrow> ret () | Some x \<Rightarrow> set_header k x)"

definition writeStateHeaders :: "subdoc \<Rightarrow> ('s web, unit) prog" where
  "writeStateHeaders d =
     seqE (set_header_opt HeaderSubdocumentVersion (sd_version d))
    (seqE (set_header_opt HeaderSubdocumentState (map_option itoa (sd_state d)))
    (seqE (set_header_opt HeaderSubdocumentUpdatedTime (map_option itoa (sd_updated_time d)))
    (seqE (set_header_opt HeaderSubdocumentErrorCode (map_option itoa (sd_error_code d)))
    (seqE (set_header_opt HeaderSubdocumentErrorDetails (sd_error_details d))
          (set_header_opt HeaderSubdocumentExpiry (map_option itoa (sd_expiry d)))))))"

definition GetSubDocumentHandler :: "'s server \<Rightarrow> http_request \<Rightarrow> ('s web, unit) prog" where
  "GetSubDocumentHandler sv r = with_w (\<lambda>w.
     case Validate sv w r False of
       Inl err \<Rightarrow> reject sv err
     | Inr (mac, subdocId, _) \<Rightarrow>
         tryE (on_db (db_GetSubDocument (DatabaseClient sv) mac subdocId))
           (\<lambda>err. if db_IsDbNotFound (DatabaseClient sv) err then http_Error (errs sv) 404 None
                  else seqE (SetAuditValue ''error'' IOther) (http_Error (errs sv) 500 (Some (NewError err))))
           (\<lambda>subdoc.
              seqE (set_header HeaderContentType HeaderApplicationMsgpack)
             (seqE (writeStateHeaders subdoc)
             (seqE (w_WriteHeader 200) (w_Write (payload_bytes (sd_payload subdoc)))))))"

section \<open>POST\<close>

text \<open>
  What a POST stores, from the headers: \<open>Inl\<close> is the error of an expiry that is no number. An
  unreadable state keeps the default, the text null stores none.
\<close>

definition posted_state :: "header \<Rightarrow> int option" where
  "posted_state h =
     (let x = hget h HeaderSubdocumentState
      in if length x > 0
         then (if x = ''null'' then None
               else (case atoi x of Some i \<Rightarrow> Some i | None \<Rightarrow> Some PendingDownload))
         else Some PendingDownload)"

definition posted_version :: "(bytes \<Rightarrow> nat) \<Rightarrow> header \<Rightarrow> bytes \<Rightarrow> string" where
  "posted_version m3 h bbytes =
     (let version = hget h HeaderSubdocumentVersion
      in if length version = 0 then GetMurmur3Hash m3 bbytes else version)"

definition posted_subdoc :: "(bytes \<Rightarrow> nat) \<Rightarrow> header \<Rightarrow> bytes \<Rightarrow> int \<Rightarrow> goerr + subdoc" where
  "posted_subdoc m3 h bbytes now_ns =
     (let subdoc = NewSubDocument (Some bbytes) (Some (posted_version m3 h bbytes)) (posted_state h)
            (Some (unix_milli now_ns)) (Some 0) (Some '''');
          expiryTmsStr = hget h HeaderSubdocumentExpiry
      in if length expiryTmsStr > 0
         then (case atoi expiryTmsStr of
                 None \<Rightarrow> Inl (ErrText ''strconv.Atoi: invalid syntax'')
               | Some expiryTms \<Rightarrow> Inr (subdoc\<lparr>sd_expiry := Some expiryTms\<rparr>))
         else Inr subdoc)"

definition posted_old_state :: "header \<Rightarrow> int" where
  "posted_old_state h =
     (let x = hget h HeaderSubdocumentOldState
      in if length x > 0 then (case atoi x of Some i \<Rightarrow> i | None \<Rightarrow> 0) else 0)"

definition posted_agent :: "header \<Rightarrow> string" where
  "posted_agent h = (let a = hget h HeaderMetricsAgent in if length a = 0 then ''default'' else a)"

text \<open>
  The devices of a request: the mac and those of the query parameter \<open>device_id\<close>, as they are
  written there. An empty value list would panic.
\<close>

definition request_devices :: "string \<Rightarrow> url_values \<Rightarrow> string list option" where
  "request_devices mac query =
     (case map_of query ''device_id'' of
        None \<Rightarrow> Some [mac]
      | Some [] \<Rightarrow> None
      | Some (x # _) \<Rightarrow> Some (mac # go_split CHR '','' x))"

text \<open>One round of the loop: store, read the document back, hash its versions, store the hash.\<close>

definition document_or_new :: "'s db_client \<Rightarrow> string \<Rightarrow> ('s, document) prog" where
  "document_or_new c deviceId = tryE (read_document c deviceId True)
     (\<lambda>err. if db_IsDbNotFound c err then ret (NewDocument None) else throw (NewError err)) ret"

definition post_device ::
  "'s db_client \<Rightarrow> (bytes \<Rightarrow> nat) \<Rightarrow> string \<Rightarrow> string \<Rightarrow> subdoc \<Rightarrow> int \<Rightarrow> string \<Rightarrow> ('s, string) prog" where
  "post_device c m3 metricsAgent subdocId subdoc oldState deviceId =
     bindE (db_GetRootDocumentLabels c deviceId) (\<lambda>labels.
     bindE (db_SetSubDocument c deviceId subdocId subdoc oldState (gomap_put ''client'' metricsAgent labels)) (\<lambda>_.
     tryE (document_or_new c deviceId) throw
       (\<lambda>doc. let newRootVersion = HashRootVersion m3 (VersionMap (SetSubDocument doc subdocId subdoc))
               in bindE (db_SetRootDocumentVersion c deviceId newRootVersion) (\<lambda>_. ret newRootVersion))))"

fun post_loop ::
  "(string \<Rightarrow> ('s, string) prog) \<Rightarrow> string gomap \<Rightarrow> string \<Rightarrow> string list \<Rightarrow> ('s, string gomap \<times> string) prog" where
  "post_loop post rootVersionMap newRootVersion [] = ret (rootVersionMap, newRootVersion)"
| "post_loop post rootVersionMap newRootVersion (deviceId # deviceIds) =
     tryE (post deviceId) throw (\<lambda>v. post_loop post (gomap_put deviceId v rootVersionMap) v deviceIds)"

definition root_version_answer :: "string gomap \<Rightarrow> string \<Rightarrow> jval" where
  "root_version_answer rootVersionMap newRootVersion = JObj [(''root_version'',
     if length rootVersionMap = 1 then JStr newRootVersion
     else json_map (map (\<lambda>(k, v). (k, JStr v)) rootVersionMap))]"

definition PostSubDocumentHandler :: "'s server \<Rightarrow> http_request \<Rightarrow> int \<Rightarrow> ('s web, unit) prog" where
  "PostSubDocumentHandler sv r now_ns = with_w (\<lambda>w.
     case Validate sv w r True of
       Inl err \<Rightarrow> reject sv err
     | Inr (mac, subdocId, bbytes) \<Rightarrow>
         deref (request_devices mac (rq_query r)) (\<lambda>deviceIds.
           case posted_subdoc (murmur3 sv) (rq_header r) bbytes now_ns of
             Inl err \<Rightarrow> http_Error (errs sv) 400 (Some (NewError err))
           | Inr subdoc \<Rightarrow>
               tryE (on_db (post_loop
                      (post_device (DatabaseClient sv) (murmur3 sv) (posted_agent (rq_header r)) subdocId subdoc
                        (posted_old_state (rq_header r)))
                      [] '''' deviceIds))
                 (\<lambda>err. http_Error (errs sv) 500 (Some err))
                 (\<lambda>(rootVersionMap, newRootVersion).
                    WriteByMarshal 200 (root_version_answer rootVersionMap newRootVersion))))"

section \<open>DELETE\<close>

text \<open>
  The end of both delete handlers. When the root version of a device without sub-documents
  cannot be removed, an error is answered and then the success is written over it.
\<close>

definition after_delete :: "'s server \<Rightarrow> string \<Rightarrow> ('s web, unit) prog" where
  "after_delete sv mac =
     (let c = DatabaseClient sv
      in tryE (on_db (read_document c mac False))
           (\<lambda>err. if db_IsDbNotFound c err
              then seqE (tryE (on_db (db_DeleteRootDocumentVersion c mac))
                           (\<lambda>e. http_Error (errs sv) 500 (Some (NewError e))) ret)
                     (WriteOkResponse None)
              else http_Error (errs sv) 500 (Some (NewError err)))
           (\<lambda>doc. tryE (on_db (db_SetRootDocumentVersion c mac (HashRootVersion (murmur3 sv) (VersionMap doc))))
              (\<lambda>err. http_Error (errs sv) 500 (Some (NewError err)))
              (\<lambda>_. WriteOkResponse None)))"

definition delete_failed :: "'s server \<Rightarrow> goerr \<Rightarrow> ('s web, unit) prog" where
  "delete_failed sv err =
     (if db_IsDbNotFound (DatabaseClient sv) err then http_Error (errs sv) 404 None
      else http_Error (errs sv) 500 (Some (NewError err)))"

definition DeleteSubDocumentHandler :: "'s server \<Rightarrow> http_request \<Rightarrow> ('s web, unit) prog" where
  "DeleteSubDocumentHandler sv r = with_w (\<lambda>w.
     case Validate sv w r False of
       Inl err \<Rightarrow> reject sv err
     | Inr (mac, subdocId, _) \<Rightarrow>
         tryE (on_db (db_DeleteSubDocument (DatabaseClient sv) mac subdocId))
           (delete_failed sv) (\<lambda>_. after_delete sv mac))"

definition DeleteDocumentHandler :: "'s server \<Rightarrow> http_request \<Rightarrow> ('s web, unit) prog" where
  "DeleteDocumentHandler sv r = with_w (\<lambda>w.
     let mac = to_upper (gomap_get '''' (rq_vars r) ''mac'')
     in if \<not> ValidateMac mac then http_Error (errs sv) 400 (Some (NewError (Http400Error ''invalid mac'')))
        else (case w_x w of
            None \<Rightarrow> http_Error (errs sv) 500 (Some (NewError (Http500Error ''responsewriter cast error'')))
          | Some _ \<Rightarrow>
              tryE (on_db (db_DeleteDocument (DatabaseClient sv) mac))
                (delete_failed sv) (\<lambda>_. after_delete sv mac)))"

end
