(* ===== verification/HandlerFacts.thy ===== *)
theory HandlerFacts
  imports DocumentHandlers SqliteServices
begin

text \<open>
  The document handlers keep the root version of a device equal to the hash of the versions
  that are stored for it. The contract \<open>db_versions\<close> adds to \<open>db_store\<close> what deleting does;
  the sqlite client meets it over any SQL engine.
\<close>

section \<open>Root versions and stored versions\<close>

text \<open>
  \<open>hashed m3 cont rt\<close>: the root document is there and its version is the hash of the versions
  in \<open>cont\<close>, a map from groups to sub-documents.
\<close>

definition hashed :: "(bytes \<Rightarrow> nat) \<Rightarrow> (string \<Rightarrow> subdoc option) \<Rightarrow> rootdoc option \<Rightarrow> bool" where
  "hashed m3 cont rt \<longleftrightarrow> (\<exists>vm r. gomap_ok vm \<and> (\<forall>k. map_of vm k = Option.bind (cont k) sd_version)
     \<and> rt = Some r \<and> rd_version r = HashRootVersion m3 vm)"

lemma hashed_cong: "(\<And>k. cont' k = cont k) \<Longrightarrow> rt' = rt \<Longrightarrow> hashed m3 cont' rt' = hashed m3 cont rt"
  by (simp add: hashed_def)

locale db_versions = db_store c subs roots inv content rootc store rstore rvstore
  for c :: "'s db_client" and subs :: "'s \<Rightarrow> string \<Rightarrow> 'v" and roots :: "'s \<Rightarrow> string \<Rightarrow> 'w"
    and inv content rootc store rstore rvstore +
  assumes inv_del_doc: "inv s \<Longrightarrow> inv (snd (db_DeleteDocument c mac s))"
    and inv_del_rver: "inv s \<Longrightarrow> inv (snd (db_DeleteRootDocumentVersion c mac s))"
    and del_doc_ok: "inv s \<Longrightarrow> db_DeleteDocument c mac s = (Ok u, s') \<Longrightarrow>
      content s' m k = (if m = mac then None else content s m k)"
    and del_rver_ok: "inv s \<Longrightarrow> db_DeleteRootDocumentVersion c mac s = (Ok u, s') \<Longrightarrow>
      rootc s' mac = map_option (\<lambda>r. r\<lparr>rd_version := ''''\<rparr>) (rootc s mac)"
    and del_rver_content: "content (snd (db_DeleteRootDocumentVersion c mac s)) m k = content s m k"
    and get_doc_missing: "inv s \<Longrightarrow> db_GetDocument c mac b s = (Ok (d, Some e), s') \<Longrightarrow>
      db_IsDbNotFound c e \<Longrightarrow> content s mac k = None"
    and get_doc_returns: "fst (db_GetDocument c mac b s) \<noteq> Err e"
begin

lemma read_document_Ok:
  assumes "inv s" "read_document c mac b s = (Ok d, s')"
  shows "s' = s" "doc_ok d" "Option.bind (map_of (docmap d) k) sd_version = Option.bind (content s mac k) sd_version"
proof -
  from assms(2) obtain ge where g: "db_GetDocument c mac b s = (Ok (Some d, ge), s')"
    unfolding read_document_def by (auto simp: tryE_eq_Ok case_apps deref_eq_Ok split: option.splits)
  show "s' = s" using get_doc_state[OF g] .
  show "doc_ok d" using get_doc_ok[OF assms(1) g] by blast
  have "map_of (docmap d) k = map_option (\<lambda>x. x\<lparr>sd_expiry := None\<rparr>) (content s mac k)"
    using get_doc_ok[OF assms(1) g] by blast
  then show "Option.bind (map_of (docmap d) k) sd_version = Option.bind (content s mac k) sd_version"
    by (cases "content s mac k") auto
qed

lemma read_document_missing:
  assumes "inv s" "read_document c mac b s = (Err e, s')" "db_IsDbNotFound c e"
  shows "s' = s" "content s mac k = None"
proof -
  obtain r s1 where g: "db_GetDocument c mac b s = (r, s1)" by fastforce
  with assms(2) get_doc_returns[of mac b s] obtain d where "r = Ok (d, Some e)" "s1 = s'"
    unfolding read_document_def tryE_def
    by (cases r) (auto simp: deref_def split: option.splits)
  with g have g': "db_GetDocument c mac b s = (Ok (d, Some e), s')" by simp
  show "s' = s" using get_doc_state[OF g'] .
  show "content s mac k = None" by (rule get_doc_missing[OF assms(1) g' assms(3)])
qed

section \<open>POST\<close>

lemma post_root_ok:
  assumes inv: "inv s1" and d: "doc_ok d"
    and vers: "\<And>k. Option.bind (map_of (docmap (SetSubDocument d g n)) k) sd_version = Option.bind (content s1 mac k) sd_version"
    and set: "db_SetRootDocumentVersion c mac (HashRootVersion m3 (VersionMap (SetSubDocument d g n))) s1 = (Ok u, s')"
  shows "inv s'" "content s' m k = content s1 m k" "hashed m3 (content s' mac) (rootc s' mac)"
    "m \<noteq> mac \<Longrightarrow> rootc s' m = rootc s1 m"
proof -
  let ?vm = "VersionMap (SetSubDocument d g n)"
  show "inv s'" and cont: "content s' m k = content s1 m k" for m k
    using inv_set_rver[OF inv, of mac "HashRootVersion m3 ?vm"]
      set_rver_content[of mac "HashRootVersion m3 ?vm" s1] set by simp_all
  note r = set_rver_ok[OF inv set]
  show "m \<noteq> mac \<Longrightarrow> rootc s' m = rootc s1 m" by (simp add: r)
  have "map_of ?vm k = Option.bind (content s' mac k) sd_version" for k
    using d vers[of k] by (simp only: map_of_VersionMap doc_ok_set cont)
  moreover have "rootc s' mac = Some (rvstore (HashRootVersion m3 ?vm) (rootc s1 mac))"
    by (simp add: r)
  ultimately show "hashed m3 (content s' mac) (rootc s' mac)"
    unfolding hashed_def using VersionMap_ok rvstore_version by blast
qed

lemma document_or_new_Ok:
  assumes inv: "inv s" and run: "document_or_new c mac s = (Ok d, s')"
  shows "s' = s" "doc_ok d" "Option.bind (map_of (docmap d) k) sd_version = Option.bind (content s mac k) sd_version"
proof -
  from run consider (found) "read_document c mac True s = (Ok d, s')"
    | (new) e where "read_document c mac True s = (Err e, s')" "db_IsDbNotFound c e" "d = NewDocument None"
    unfolding document_or_new_def by (auto simp: tryE_eq_Ok split: if_splits)
  then have "s' = s \<and> doc_ok d
      \<and> Option.bind (map_of (docmap d) k) sd_version = Option.bind (content s mac k) sd_version"
  proof cases
    case found
    then show ?thesis using read_document_Ok[OF inv found] by blast
  next
    case new
    then show ?thesis using read_document_missing[OF inv new(1,2)] by simp
  qed
  then show "s' = s" "doc_ok d"
    "Option.bind (map_of (docmap d) k) sd_version = Option.bind (content s mac k) sd_version" by blast+
qed

lemma post_device_ok:
  assumes inv: "inv s" and n: "sd_version n \<noteq> None"
    and run: "post_device c m3 agent g n st mac s = (Ok v, s')"
  shows "inv s'" "hashed m3 (content s' mac) (rootc s' mac)"
    "content s' m k = (if m = mac \<and> k = g then Some (store n (content s m k)) else content s m k)"
    "m \<noteq> mac \<Longrightarrow> rootc s' m = rootc s m"
proof -
  from run obtain l s0 where l: "db_GetRootDocumentLabels c mac s = (Ok l, s0)"
    and run1: "bindE (db_SetSubDocument c mac g n st (gomap_put ''client'' agent l)) (\<lambda>_.
       tryE (document_or_new c mac) throw
       (\<lambda>doc. let newRootVersion = HashRootVersion m3 (VersionMap (SetSubDocument doc g n))
               in bindE (db_SetRootDocumentVersion c mac newRootVersion) (\<lambda>_. ret newRootVersion))) s0 = (Ok v, s')"
    unfolding post_device_def bindE_eq_Ok by blast
  have s0: "s0 = s" using get_labels_state[OF l] .
  from run1 obtain u1 s1 d s2 where
      set: "db_SetSubDocument c mac g n st (gomap_put ''client'' agent l) s = (Ok u1, s1)"
    and doc: "document_or_new c mac s1 = (Ok d, s2)"
    and run2: "bindE (db_SetRootDocumentVersion c mac (HashRootVersion m3 (VersionMap (SetSubDocument d g n))))
       (\<lambda>_. ret (HashRootVersion m3 (VersionMap (SetSubDocument d g n)))) s2 = (Ok v, s')"
    unfolding s0 bindE_eq_Ok tryE_eq_Ok Let_def by auto
  note step = store_step[OF inv set]
  note dn = document_or_new_Ok[OF step(1) doc]
  from run2 obtain u where
      root: "db_SetRootDocumentVersion c mac (HashRootVersion m3 (VersionMap (SetSubDocument d g n))) s1 = (Ok u, s')"
    unfolding dn(1) bindE_eq_Ok by auto
  have sv: "sd_version (store n old) = sd_version n" for old
    using store_merges n unfolding merges_def by (auto simp: Let_def)
  have vers: "Option.bind (map_of (docmap (SetSubDocument d g n)) k) sd_version = Option.bind (content s1 mac k) sd_version" for k
    using step(3)[of mac k] dn(3)[of k] by (simp add: sv)
  note r = post_root_ok[OF step(1) dn(2) vers root]
  show "inv s'" "hashed m3 (content s' mac) (rootc s' mac)" by (rule r)+
  show "content s' m k = (if m = mac \<and> k = g then Some (store n (content s m k)) else content s m k)"
    using r(2) step(3)[of m k] by simp
  show "m \<noteq> mac \<Longrightarrow> rootc s' m = rootc s m" using r(4) step(2)[of m] by simp
qed

text \<open>After the loop every device of the request is up to date, and nothing else changed.\<close>

definition posted :: "(bytes \<Rightarrow> nat) \<Rightarrow> string \<Rightarrow> subdoc \<Rightarrow> 's \<Rightarrow> 's \<Rightarrow> string \<Rightarrow> bool" where
  "posted m3 g n s s' m \<longleftrightarrow> hashed m3 (content s' m) (rootc s' m)
     \<and> (\<exists>old. content s' m g = Some (store n old)) \<and> (\<forall>k. k \<noteq> g \<longrightarrow> content s' m k = content s m k)"

lemma post_loop_ok:
  assumes "inv s" "sd_version n \<noteq> None"
    "post_loop (post_device c m3 agent g n st) rvm v macs s = (Ok res, s')"
  shows "inv s' \<and> (if m \<in> set macs then posted m3 g n s s' m
    else rootc s' m = rootc s m \<and> (\<forall>k. content s' m k = content s m k))"
  using assms
proof (induction macs arbitrary: s rvm v)
  case Nil
  then show ?case by simp
next
  case (Cons mac macs)
  from Cons.prems(3) obtain w s1 where
      h: "post_device c m3 agent g n st mac s = (Ok w, s1)"
    and t: "post_loop (post_device c m3 agent g n st) (gomap_put mac w rvm) w macs s1 = (Ok res, s')"
    by (auto simp: tryE_eq_Ok)
  note step = post_device_ok[OF Cons.prems(1,2) h]
  note IH = Cons.IH[OF step(1) Cons.prems(2) t]
  show ?case
  proof (cases "m \<in> set macs")
    case True
    then show ?thesis using IH step(3)[of m] by (simp add: posted_def)
  next
    case False
    show ?thesis
    proof (cases "m = mac")
      case True
      have "hashed m3 (content s' m) (rootc s' m) = hashed m3 (content s1 m) (rootc s1 m)"
        using IH False by (intro hashed_cong) auto
      then show ?thesis using True False IH step(2) step(3)[of m] by (auto simp: posted_def)
    next
      case False
      then show ?thesis using \<open>m \<notin> set macs\<close> IH step(3)[of m] step(4)[of m] by auto
    qed
  qed
qed

section \<open>DELETE\<close>

text \<open>After a successful delete: no sub-document is left and the version is cleared, or it is the hash.\<close>

definition up_to_date :: "(bytes \<Rightarrow> nat) \<Rightarrow> 's \<Rightarrow> string \<Rightarrow> bool" where
  "up_to_date m3 s mac \<longleftrightarrow> hashed m3 (content s mac) (rootc s mac)
     \<or> (\<forall>k. content s mac k = None) \<and> (case rootc s mac of None \<Rightarrow> True | Some r \<Rightarrow> rd_version r = '''')"

lemma set_hash_ok:
  assumes inv: "inv s" and d: "doc_ok d"
    and vers: "\<And>k. Option.bind (map_of (docmap d) k) sd_version = Option.bind (content s mac k) sd_version"
    and set: "db_SetRootDocumentVersion c mac (HashRootVersion m3 (VersionMap d)) s = (Ok u, s')"
  shows "content s' m k = content s m k" "up_to_date m3 s' mac"
proof -
  show cont: "content s' m k = content s m k" for m k
    using set_rver_content[of mac "HashRootVersion m3 (VersionMap d)" s] set by simp
  have "map_of (VersionMap d) k = Option.bind (content s' mac k) sd_version" for k
    using d vers[of k] by (simp only: map_of_VersionMap cont)
  moreover have "rootc s' mac = Some (rvstore (HashRootVersion m3 (VersionMap d)) (rootc s mac))"
    by (simp add: set_rver_ok[OF inv set])
  ultimately show "up_to_date m3 s' mac"
    unfolding up_to_date_def hashed_def using VersionMap_ok rvstore_version by blast
qed

lemma after_delete_ok:
  assumes inv: "inv (web_db s)" and w: "fresh (web_w s)" and c: "DatabaseClient sv = c"
    and run: "after_delete sv mac s = (r, s')" and st: "r = Ok ()" "sent_status (web_w s') = 200"
  shows "content (web_db s') m k = content (web_db s) m k \<and> up_to_date (murmur3 sv) (web_db s') mac"
proof -
  have e500: "answers 500 (http_Error (errs sv) 500 e :: ('s web, unit) prog)" for e by (simp add: answers_error)
  note no500 = answersD(4)[OF e500]
  obtain q d1 where rd: "read_document c mac False (web_db s) = (q, d1)" by fastforce
  show ?thesis
  proof (cases q)
    case (Ok d)
    note ro = read_document_Ok[OF inv rd[unfolded Ok]]
    from run have "tryE (on_db (db_SetRootDocumentVersion c mac (HashRootVersion (murmur3 sv) (VersionMap d))))
        (\<lambda>err. http_Error (errs sv) 500 (Some (NewError err))) (\<lambda>_. WriteOkResponse None) s = (r, s')"
      using rd Ok ro(1) by (simp add: after_delete_def c Let_def tryE_def on_db_def)
    then consider (set) u d2 where
          "db_SetRootDocumentVersion c mac (HashRootVersion (murmur3 sv) (VersionMap d)) (web_db s) = (Ok u, d2)"
          "WriteOkResponse None (s\<lparr>web_db := d2\<rparr>) = (r, s')"
      | (err) e d2 where "http_Error (errs sv) 500 (Some (NewError e)) (s\<lparr>web_db := d2\<rparr>) = (r, s')"
      unfolding st(1) tryE_eq_Ok on_db_eq by blast
    then show ?thesis
    proof cases
      case set
      have "web_db s' = d2" using answersD(2)[OF answers_ok _ set(2)] w by simp
      then show ?thesis using set_hash_ok[OF inv ro(2,3) set(1)] by simp
    next
      case err
      then show ?thesis using no500[OF _ err] w st(2) by simp
    qed
  next
    case (Err e)
    show ?thesis
    proof (cases "db_IsDbNotFound c e")
      case False
      then have "http_Error (errs sv) 500 (Some (NewError e)) (s\<lparr>web_db := d1\<rparr>) = (r, s')"
        using run rd Err by (simp add: after_delete_def c Let_def tryE_def on_db_def)
      from no500[OF _ this] w st(2) show ?thesis by simp
    next
      case True
      note rm = read_document_missing[OF inv rd[unfolded Err] True]
      obtain q2 d2 where dv: "db_DeleteRootDocumentVersion c mac (web_db s) = (q2, d2)" by fastforce
      have run2: "seqE (tryE (on_db (db_DeleteRootDocumentVersion c mac))
          (\<lambda>e. http_Error (errs sv) 500 (Some (NewError e))) ret) (WriteOkResponse None) s = (r, s')"
        using run rd Err True rm(1) by (simp add: after_delete_def c Let_def tryE_def on_db_def)
      show ?thesis
      proof (cases q2)
        case (Ok u)
        then have "WriteOkResponse None (s\<lparr>web_db := d2\<rparr>) = (r, s')"
          using run2 dv by (simp add: seqE_def tryE_def on_db_def)
        then have d2: "web_db s' = d2" using answersD(2)[OF answers_ok _ \<open>WriteOkResponse None (s\<lparr>web_db := d2\<rparr>) = (r, s')\<close>] w by simp
        have cont: "content d2 m k = content (web_db s) m k" for m k
          using del_rver_content[of mac "web_db s" m k] dv by simp
        have "rootc d2 mac = map_option (\<lambda>r. r\<lparr>rd_version := ''''\<rparr>) (rootc (web_db s) mac)"
          using del_rver_ok[OF inv] dv Ok by blast
        then show ?thesis using cont rm(2) unfolding d2 up_to_date_def
          by (auto split: option.splits)
      next
        case (Err e2)
        then have "seqE (http_Error (errs sv) 500 (Some (NewError e2))) (WriteOkResponse None) (s\<lparr>web_db := d2\<rparr>) = (r, s')"
          using run2 dv by (simp add: seqE_def tryE_def on_db_def)
        from second_answer[OF e500 _ keeps_sent_answers(2) this] w st(2) show ?thesis by simp
      next
        case Panic
        then show ?thesis using run2 dv st(1) by (simp add: seqE_def tryE_def on_db_def)
      qed
    qed
  next
    case Panic
    then show ?thesis using run rd st(1) by (simp add: after_delete_def Let_def tryE_def on_db_def c)
  qed
qed

section \<open>The handlers\<close>

lemma posted_subdoc_version: "posted_subdoc m3 h bs t = Inr n \<Longrightarrow> sd_version n \<noteq> None"
  by (auto simp: posted_subdoc_def Let_def NewSubDocument_def split: if_splits option.splits)

lemma PostSubDocumentHandler_ok:
  assumes inv: "inv (web_db s)" and w: "fresh (web_w s)" and c: "DatabaseClient sv = c"
    and run: "PostSubDocumentHandler sv r t s = (res, s')" and st: "res = Ok ()" "sent_status (web_w s') = 200"
  shows "\<exists>mac g bs ids n. Validate sv (web_w s) r True = Inr (mac, g, bs) \<and> request_devices mac (rq_query r) = Some ids
    \<and> posted_subdoc (murmur3 sv) (rq_header r) bs t = Inr n
    \<and> (\<forall>m \<in> set ids. posted (murmur3 sv) g n (web_db s) (web_db s') m)"
proof (cases "Validate sv (web_w s) r True")
  case (Inl e)
  then have "reject sv e s = (res, s')" using run by (simp add: PostSubDocumentHandler_def with_w_def)
  from answersD(4)[OF answers_reject w this] st(2) http_status_of_range[of e] show ?thesis by simp
next
  case (Inr v)
  obtain mac g bs where v: "v = (mac, g, bs)" by (cases v)
  from run st(1) obtain ids where ids: "request_devices mac (rq_query r) = Some ids"
    unfolding PostSubDocumentHandler_def with_w_def Inr v by (cases "request_devices mac (rq_query r)") simp_all
  have e: "answers k (http_Error (errs sv) k x :: ('s web, unit) prog)" if "final_status k" for k x
    using that by (rule answers_error)
  show ?thesis
  proof (cases "posted_subdoc (murmur3 sv) (rq_header r) bs t")
    case err: (Inl x)
    have "http_Error (errs sv) 400 (Some (NewError x)) s = (res, s')"
      using run by (simp add: PostSubDocumentHandler_def with_w_def Inr v ids err)
    from answersD(4)[OF e w this] st(2) show ?thesis by simp
  next
    case n: (Inr n)
    let ?loop = "post_loop (post_device c (murmur3 sv) (posted_agent (rq_header r)) g n
        (posted_old_state (rq_header r))) [] '''' ids"
    obtain q d where l: "?loop (web_db s) = (q, d)" by fastforce
    show ?thesis
    proof (cases q)
      case (Ok x)
      obtain rvm v' where x: "x = (rvm, v')" by (cases x)
      have "WriteByMarshal 200 (root_version_answer rvm v') (s\<lparr>web_db := d\<rparr>) = (res, s')"
        using run l by (simp add: PostSubDocumentHandler_def with_w_def Inr v ids n tryE_def on_db_def c Ok x)
      from answersD(2)[OF answers_marshal _ this] w have "web_db s' = d" by simp
      then show ?thesis
        using post_loop_ok[OF inv posted_subdoc_version[OF n] l[unfolded Ok]] Inr v ids n by fastforce
    next
      case (Err x)
      have "http_Error (errs sv) 500 (Some x) (s\<lparr>web_db := d\<rparr>) = (res, s')"
        using run l by (simp add: PostSubDocumentHandler_def with_w_def Inr v ids n tryE_def on_db_def c Err)
      from answersD(4)[OF e _ this] w st(2) show ?thesis by simp
    next
      case Panic
      then show ?thesis
        using run l st(1) by (simp add: PostSubDocumentHandler_def with_w_def Inr v ids n tryE_def on_db_def c)
    qed
  qed
qed

lemma delete_failed_codes: "answers (if db_IsDbNotFound (DatabaseClient sv) e then 404 else 500) (delete_failed sv e)"
  by (simp add: delete_failed_def answers_error)

text \<open>The common shape of the two delete handlers.\<close>

lemma delete_then_ok:
  assumes w: "fresh (web_w s)" and c: "DatabaseClient sv = c"
    and run: "tryE (on_db m) (delete_failed sv) (\<lambda>_. after_delete sv mac) s = (res, s')"
    and st: "res = Ok ()" "sent_status (web_w s') = 200"
    and inv: "\<And>u d. m (web_db s) = (Ok u, d) \<Longrightarrow> inv d"
  shows "\<exists>u d. m (web_db s) = (Ok u, d) \<and> (\<forall>m' k. content (web_db s') m' k = content d m' k)
    \<and> up_to_date (murmur3 sv) (web_db s') mac"
proof -
  obtain q d where m: "m (web_db s) = (q, d)" by fastforce
  show ?thesis
  proof (cases q)
    case (Ok u)
    then have r: "after_delete sv mac (s\<lparr>web_db := d\<rparr>) = (res, s')"
      using run m by (simp add: tryE_def on_db_def)
    have i: "inv (web_db (s\<lparr>web_db := d\<rparr>))" using inv m Ok by simp
    have f: "fresh (web_w (s\<lparr>web_db := d\<rparr>))" using w by simp
    from after_delete_ok[OF i f c r st] m Ok show ?thesis by simp
  next
    case (Err e)
    then have "delete_failed sv e (s\<lparr>web_db := d\<rparr>) = (res, s')" using run m by (simp add: tryE_def on_db_def)
    from answersD(4)[OF delete_failed_codes _ this] w st(2) show ?thesis by (simp split: if_splits)
  next
    case Panic
    then show ?thesis using run m st(1) by (simp add: tryE_def on_db_def)
  qed
qed

lemma DeleteSubDocumentHandler_ok:
  assumes inv: "inv (web_db s)" and w: "fresh (web_w s)" and c: "DatabaseClient sv = c"
    and run: "DeleteSubDocumentHandler sv r s = (res, s')" and st: "res = Ok ()" "sent_status (web_w s') = 200"
  shows "\<exists>mac g bs. Validate sv (web_w s) r False = Inr (mac, g, bs)
    \<and> (\<forall>m k. content (web_db s') m k = (if m = mac \<and> k = g then None else content (web_db s) m k))
    \<and> up_to_date (murmur3 sv) (web_db s') mac"
proof (cases "Validate sv (web_w s) r False")
  case (Inl e)
  then have "reject sv e s = (res, s')" using run by (simp add: DeleteSubDocumentHandler_def with_w_def)
  from answersD(4)[OF answers_reject w this] st(2) http_status_of_range[of e] show ?thesis by simp
next
  case (Inr v)
  obtain mac g bs where v: "v = (mac, g, bs)" by (cases v)
  have "tryE (on_db (db_DeleteSubDocument c mac g)) (delete_failed sv) (\<lambda>_. after_delete sv mac) s = (res, s')"
    using run by (simp add: DeleteSubDocumentHandler_def with_w_def Inr v c)
  from delete_then_ok[OF w c this st] inv_del_sub[OF inv, of mac g] obtain u d where
      d: "db_DeleteSubDocument c mac g (web_db s) = (Ok u, d)" "\<forall>m' k. content (web_db s') m' k = content d m' k"
        "up_to_date (murmur3 sv) (web_db s') mac"
    by fastforce
  with del_sub_ok[OF inv d(1)] Inr v show ?thesis by simp
qed

lemma DeleteDocumentHandler_ok:
  assumes inv: "inv (web_db s)" and w: "fresh (web_w s)" and c: "DatabaseClient sv = c"
    and run: "DeleteDocumentHandler sv r s = (res, s')" and st: "res = Ok ()" "sent_status (web_w s') = 200"
    and mac: "mac = to_upper (gomap_get '''' (rq_vars r) ''mac'')"
  shows "ValidateMac mac \<and> (\<forall>m k. content (web_db s') m k = (if m = mac then None else content (web_db s) m k))
    \<and> up_to_date (murmur3 sv) (web_db s') mac"
proof -
  have e: "answers k (http_Error (errs sv) k x :: ('s web, unit) prog)" if "final_status k" for k x
    using that by (rule answers_error)
  show ?thesis
  proof (cases "ValidateMac mac \<and> w_x (web_w s) \<noteq> None")
    case False
    then obtain k x where "http_Error (errs sv) k x s = (res, s')" "k \<in> {400, 500}"
      using run by (auto simp: DeleteDocumentHandler_def with_w_def mac Let_def split: if_splits option.splits)
    with answersD(4)[OF e w this(1)] st(2) show ?thesis by auto
  next
    case True
    then have "tryE (on_db (db_DeleteDocument c mac)) (delete_failed sv) (\<lambda>_. after_delete sv mac) s = (res, s')"
      using run by (auto simp: DeleteDocumentHandler_def with_w_def c mac Let_def)
    from delete_then_ok[OF w c this st] inv_del_doc[OF inv, of mac] obtain u d where
        d: "db_DeleteDocument c mac (web_db s) = (Ok u, d)" "\<forall>m' k. content (web_db s') m' k = content d m' k"
          "up_to_date (murmur3 sv) (web_db s') mac"
      by fastforce
    with del_doc_ok[OF inv d(1)] True show ?thesis by simp
  qed
qed

end

section \<open>On the sqlite client\<close>

lemma row_root_null_version:
  "row_rootdoc (set_row [''version''] (replicate (length [''version'']) VNull) r) = (row_rootdoc r)\<lparr>rd_version := ''''\<rparr>"
  by (simp add: row_rootdoc_def NewRootDocument_def str_or_empty_def)

context sql_engine
begin

lemma sq_DeleteRootDocumentVersion_effect:
  assumes ok: "tables_ok (sq_tables E s)" and run: "sq_DeleteRootDocumentVersion E mac s = (Ok u, s')"
  shows "stored_root (sq_tables E s') mac = map_option (\<lambda>r. r\<lparr>rd_version := ''''\<rparr>) (stored_root (sq_tables E s) mac)"
proof -
  from run consider
      (upd) x s1 where "sq_GetRootDocument E mac s = (Ok x, s1)"
        "sq_exec E (UpdateNull ''root_document'' [''version''] [''cpe_mac'']) [VText mac] s1 = (Ok u, s')"
    | (none) e where "sq_GetRootDocument E mac s = (Err e, s')" "sq_IsDbNotFound e"
    unfolding sq_DeleteRootDocumentVersion_def by (auto simp: tryE_eq_Ok split: if_splits)
  then show ?thesis
  proof cases
    case none
    then show ?thesis using sq_GetRootDocument_missing[OF ok none] by simp
  next
    case upd
    let ?f = "set_row [''version''] (replicate (length [''version'']) VNull)"
    have s1: "s1 = s" using sq_GetRootDocument_found[OF ok upd(1)] by simp
    have T': "sq_tables E s' = (sq_tables E s)(''root_document'' :=
        update_where [''cpe_mac''] [VText mac] ?f (sq_tables E s ''root_document''))"
      using sq_exec_Ok(1)[OF upd(2)[unfolded s1]] by (auto simp: Let_def split: if_splits)
    have "root_rows (sq_tables E s') mac = (if mac = mac then map ?f (root_rows (sq_tables E s) mac)
        else root_rows (sq_tables E s) mac)"
      unfolding T' by (rule root_rows_update) (simp add: set_row_other)
    then show ?thesis
      by (simp only: stored_root_def) (simp add: row_root_null_version[simplified] split: list.splits)
  qed
qed

lemma sq_GetDocument_returns: "fst (sq_GetDocument E mac s) \<noteq> Err e"
  by (auto simp: sq_GetDocument_def tryE_def sq_query_def split: sum.splits prod.splits outcome.splits if_splits)

lemma sq_GetDocument_missing:
  assumes ok: "tables_ok (sq_tables E s)"
    and get: "sq_GetDocument E mac s = (Ok (d, Some e), s')" "sq_IsDbNotFound e"
  shows "stored_sub (sq_tables E s) mac k = None"
proof (cases d)
  case (Some doc)
  note c = sq_GetDocument_content[OF ok get(1)[unfolded Some]]
  have "docmap doc = []" using c(5) by (simp split: if_splits)
  then show ?thesis using c(4)[of k] by simp
next
  case None
  let ?T = "sq_tables E s" and ?q = "SelectFrom ''xpc_group_config'' document_columns [''cpe_mac'']"
  obtain q s1 where q: "sq_query E ?q [VText mac] s = (q, s1)" by fastforce
  show ?thesis
  proof (cases q)
    case (Ok rows)
    have "eng_query E ?q [VText mac] (sq_db s) = Inr rows"
      using q Ok by (auto simp: sq_query_def split: sum.splits)
    then have "mset rows = mset (map (\<lambda>r. map r document_columns) (device_rows ?T mac))"
      by (rule query_select) (simp add: device_rows_def sq_tables_def document_columns_def)
    then obtain rs where rs: "rows = map (\<lambda>r. map r document_columns) rs" "mset rs = mset (device_rows ?T mac)"
      using mset_map_ex by blast
    have "set rs = set (device_rows ?T mac)" using rs(2) by (metis set_mset_mset)
    then have "row_typed ''xpc_group_config'' r" if "r \<in> set rs" for r
      using that ok by (simp add: device_rows_key tables_ok_def types_ok_def)
    then show ?thesis using get(1) q Ok None
      by (auto simp: sq_GetDocument_def tryE_def rs(1) scan_document_rows split: if_splits)
  next
    case (Err e')
    then show ?thesis using get q sq_query_not_found by (auto simp: sq_GetDocument_def tryE_def)
  next
    case Panic
    then show ?thesis using q by (auto simp: sq_query_def split: sum.splits)
  qed
qed

end

sublocale sql_engine \<subseteq> versions: db_versions "sqlite_client E cfg" "sq_subs E" "sq_roots E"
  "\<lambda>s. tables_ok (sq_tables E s)" "\<lambda>s. stored_sub (sq_tables E s)" "\<lambda>s. stored_root (sq_tables E s)"
  store_subdoc store_root store_root_version for cfg
proof
  fix s s' mac u m k b d e
  note inv = keepsD[of "\<lambda>s. tables_ok (sq_tables E s)", OF _ _ surjective_pairing]
  show "tables_ok (sq_tables E s) \<Longrightarrow> tables_ok (sq_tables E (snd (db_DeleteDocument (sqlite_client E cfg) mac s)))"
    by (simp add: sqlite_client_def inv[OF tables_ok_DeleteDocument])
  show "tables_ok (sq_tables E s) \<Longrightarrow> tables_ok (sq_tables E (snd (db_DeleteRootDocumentVersion (sqlite_client E cfg) mac s)))"
    by (simp add: sqlite_client_def inv[OF tables_ok_DeleteRootDocumentVersion])
  show "tables_ok (sq_tables E s) \<Longrightarrow> db_DeleteDocument (sqlite_client E cfg) mac s = (Ok u, s') \<Longrightarrow>
      stored_sub (sq_tables E s') m k = (if m = mac then None else stored_sub (sq_tables E s) m k)"
    by (simp add: sqlite_client_def sq_DeleteDocument_effect)
  show "tables_ok (sq_tables E s) \<Longrightarrow> db_DeleteRootDocumentVersion (sqlite_client E cfg) mac s = (Ok u, s') \<Longrightarrow>
      stored_root (sq_tables E s') mac = map_option (\<lambda>r. r\<lparr>rd_version := ''''\<rparr>) (stored_root (sq_tables E s) mac)"
    by (simp add: sqlite_client_def sq_DeleteRootDocumentVersion_effect)
  show "stored_sub (sq_tables E (snd (db_DeleteRootDocumentVersion (sqlite_client E cfg) mac s))) m k = stored_sub (sq_tables E s) m k"
    by (simp add: sqlite_client_def sq_frame_stored(2)[OF sq_frame_step[OF sq_frame_DeleteRootDocumentVersion]])
  show "tables_ok (sq_tables E s) \<Longrightarrow> db_GetDocument (sqlite_client E cfg) mac b s = (Ok (d, Some e), s') \<Longrightarrow>
      db_IsDbNotFound (sqlite_client E cfg) e \<Longrightarrow> stored_sub (sq_tables E s) mac k = None"
    by (simp add: sqlite_client_def sq_GetDocument_missing)
  show "fst (db_GetDocument (sqlite_client E cfg) mac b s) \<noteq> Err e"
    by (simp add: sqlite_client_def sq_GetDocument_returns)
qed

interpretation mem_versions: db_versions "sqlite_client mem_engine cfg" "sq_subs mem_engine" "sq_roots mem_engine"
  "\<lambda>s. tables_ok (sq_tables mem_engine s)" "\<lambda>s. stored_sub (sq_tables mem_engine s)"
  "\<lambda>s. stored_root (sq_tables mem_engine s)" store_subdoc store_root store_root_version for cfg
  by (rule mem.versions.db_versions_axioms)

text \<open>What the properties rest on, over the tables.\<close>

definition root_hashed :: "(bytes \<Rightarrow> nat) \<Rightarrow> tables \<Rightarrow> string \<Rightarrow> bool" where
  "root_hashed m3 T mac \<longleftrightarrow> hashed m3 (stored_sub T mac) (stored_root T mac)"

definition root_up_to_date :: "(bytes \<Rightarrow> nat) \<Rightarrow> tables \<Rightarrow> string \<Rightarrow> bool" where
  "root_up_to_date m3 T mac \<longleftrightarrow> root_hashed m3 T mac
     \<or> (\<forall>k. stored_sub T mac k = None) \<and> (case stored_root T mac of None \<Rightarrow> True | Some r \<Rightarrow> rd_version r = '''')"

context sql_engine
begin

lemmas sqlite_post = versions.PostSubDocumentHandler_ok[unfolded versions.posted_def, folded root_hashed_def]
lemmas sqlite_delete_sub = versions.DeleteSubDocumentHandler_ok[unfolded versions.up_to_date_def,
    folded root_hashed_def, folded root_up_to_date_def]
lemmas sqlite_delete_doc = versions.DeleteDocumentHandler_ok[unfolded versions.up_to_date_def,
    folded root_hashed_def, folded root_up_to_date_def]

end

end
