(* ===== verification/HttpClient.thy ===== *)
theory HttpClient
  imports Responses
begin

text \<open>
  http/http_client.go: one call of a remote service and the loop that repeats it. The network
  is a parameter: a transport maps a request to an exchange and a new state of the network.
\<close>

section \<open>The network\<close>

text \<open>
  What \<open>http.Client.Do\<close> and reading the body can yield: an error of one of the kinds that the
  code tells apart, with its text, or a response whose body was read or not.
\<close>

datatype exchange =
    TimedOut string
  | ConnectionClosed string
  | ConnectionFailed string
  | OtherFailure string
  | Response int header "string + bytes"

record call =
  cl_method :: string
  cl_url :: string
  cl_header :: header
  cl_body :: bytes

text \<open>
  The transport, the test whether a request can be built for a URL, and the two reads of JSON
  that decide something: the object in a body (empty when there is none) and the message of
  the first entry of its member parameters.
\<close>

record 'n network =
  nt_send :: "call \<Rightarrow> 'n \<Rightarrow> exchange \<times> 'n"
  nt_url_ok :: "string \<Rightarrow> bool"
  nt_json_object :: "bytes \<Rightarrow> fields"
  nt_first_message :: "bytes \<Rightarrow> string"

text \<open>The audit fields of the request are shared with the writer; a call may add to them.\<close>

record 'n remote =
  rm_fields :: fields
  rm_net :: 'n

section \<open>The client\<close>

record do_result =
  dr_bytes :: "bytes option"
  dr_header :: "header option"
  dr_cont :: bool
  dr_err :: "goerr option"

definition do_err :: "bytes option \<Rightarrow> bool \<Rightarrow> goerr \<Rightarrow> do_result" where
  "do_err b cont e = \<lparr>dr_bytes = b, dr_header = None, dr_cont = cont, dr_err = Some (NewError e)\<rparr>"

record http_client =
  hc_retries :: int
  hc_statusHandlers :: "(int \<times> (bytes \<Rightarrow> do_result)) list"
  hc_userAgent :: string

definition HeaderTraceparent :: string where "HeaderTraceparent = ''Traceparent''"
definition HeaderTracestate :: string where "HeaderTracestate = ''Tracestate''"
definition HeaderUserAgent :: string where "HeaderUserAgent = ''User-Agent''"

definition set_nonempty :: "string \<Rightarrow> string \<Rightarrow> header \<Rightarrow> header" where
  "set_nonempty k v h = (if length v > 0 then hset h k v else h)"

text \<open>\<open>None\<close> is the panic of \<open>FieldsGetString\<close> on a value that is no string.\<close>

definition addMoracideTags :: "header \<Rightarrow> fields \<Rightarrow> header option" where
  "addMoracideTags h flds =
     (let h1 = set_nonempty HeaderTraceparent (dict_GetString flds ''out_traceparent'' '''') h;
          h2 = set_nonempty HeaderTracestate (dict_GetString flds ''out_tracestate'' '''') h1
      in map_option (\<lambda>moracide. set_nonempty HeaderMoracide moracide h2)
           (FieldsGetString flds ''req_moracide_tag'' ''''))"

definition addMoracideTagsFromResponse :: "header \<Rightarrow> fields \<Rightarrow> fields" where
  "addMoracideTagsFromResponse h flds =
     (let moracide = hget h HeaderMoracide
      in if length moracide > 0 then gomap_put ''resp_moracide_tag'' (IStr moracide) flds else flds)"

text \<open>
  A transaction id: the trace id of the request or a fresh one, and the time in microseconds,
  in fifteen hexadecimal digits or more. \<open>None\<close> is the panic of the type assertion.
\<close>

definition trace_id_or :: "fields \<Rightarrow> string \<Rightarrow> string option" where
  "trace_id_or flds uuid =
     map_option (\<lambda>x. if length x = 0 then uuid else x) (FieldsGetString flds ''xmoney_trace_id'' '''')"

definition fmt_015x :: "nat \<Rightarrow> string" where
  "fmt_015x n = to_lower (hex_fixed (max 15 (hex_len n)) n)"

definition transaction_id :: "string \<Rightarrow> nat \<Rightarrow> string" where
  "transaction_id xmTraceId micros = xmTraceId @ ''_____'' @ fmt_015x micros"

text \<open>
  The header that is sent. \<open>tick\<close> is a fresh identifier and the clock. The user agent of the
  audit fields only decides what is logged, but it must be a string.
\<close>

definition request_header ::
  "http_client \<Rightarrow> header option \<Rightarrow> fields \<Rightarrow> string \<Rightarrow> string \<times> nat \<Rightarrow> header option" where
  "request_header c h flds loggerName tick =
     (let h0 = (case h of None \<Rightarrow> [] | Some x \<Rightarrow> x);
          h1 = (if loggerName = ''webpa'' \<or> loggerName = ''asyncwebpa''
                then map_option (\<lambda>xm. hset h0 ''X-Webpa-Transaction-Id'' (transaction_id xm (snd tick)))
                       (trace_id_or flds (fst tick))
                else Some h0)
      in Option.bind h1 (\<lambda>x. Option.bind (addMoracideTags x flds) (\<lambda>y.
           map_option (\<lambda>_. set_nonempty HeaderUserAgent (hc_userAgent c) y) (FieldsGetString flds ''user_agent'' ''''))))"

definition StatusHandler :: "http_client \<Rightarrow> int \<Rightarrow> (bytes \<Rightarrow> do_result) option" where
  "StatusHandler c status = map_of (hc_statusHandlers c) status"

text \<open>
  The classification of a response that was read: a registered handler decides, 400 and above
  are errors (of which 400, 403 and 404 are final), above 200 is a final error too.
\<close>

definition classify :: "'n network \<Rightarrow> http_client \<Rightarrow> int \<Rightarrow> header \<Rightarrow> bytes \<Rightarrow> do_result" where
  "classify N c status h rbytes =
     (case StatusHandler c status of
        Some f \<Rightarrow> f rbytes
      | None \<Rightarrow>
          if status \<ge> 400 then
            (let resp = nt_json_object N rbytes;
                 m = dict_GetString resp ''message'' '''';
                 errorMessage = (if length rbytes > 0 \<and> length resp > 0
                                 then (if length m = 0 then rbytes else m) else StatusText status)
             in do_err (Some rbytes) (status \<notin> {403, 400, 404}) (RemoteHttpError status errorMessage))
          else if status > 200 then
            (let m = nt_first_message N rbytes;
                 message = (if length m = 0 then StatusText status else m)
             in do_err (Some rbytes) False (RemoteHttpError status message))
          else \<lparr>dr_bytes = Some rbytes, dr_header = Some h, dr_cont = False, dr_err = None\<rparr>)"

text \<open>An error while reading the body is a gateway timeout when its text says so.\<close>

definition body_error :: "string \<Rightarrow> goerr" where
  "body_error t = (if str_contains (to_lower t) ''timeout'' then RemoteHttpError 504 t else ErrDriver t)"

fun outcome_of :: "'n network \<Rightarrow> http_client \<Rightarrow> exchange \<Rightarrow> do_result" where
  "outcome_of N c (TimedOut t) = do_err None True (RemoteHttpError 504 t)"
| "outcome_of N c (ConnectionClosed t) = do_err None True (RemoteHttpError 502 t)"
| "outcome_of N c (ConnectionFailed t) = do_err None True (RemoteHttpError 503 t)"
| "outcome_of N c (OtherFailure t) = do_err None True (ErrDriver t)"
| "outcome_of N c (Response status h (Inl t)) = do_err None True (body_error t)"
| "outcome_of N c (Response status h (Inr rbytes)) = classify N c status h rbytes"

fun exchange_header :: "exchange \<Rightarrow> header option" where
  "exchange_header (Response _ h _) = Some h"
| "exchange_header _ = None"

definition method_ok :: "string \<Rightarrow> bool" where
  "method_ok meth \<longleftrightarrow> meth \<in> {''GET'', ''POST'', ''PATCH'', ''DELETE''}"

definition has_body :: "string \<Rightarrow> bool" where
  "has_body meth \<longleftrightarrow> meth = ''POST'' \<or> meth = ''PATCH''"

definition exchange_once :: "'n network \<Rightarrow> http_client \<Rightarrow> call \<Rightarrow> ('n remote, do_result) prog" where
  "exchange_once N c q = (\<lambda>s.
     case nt_send N q (rm_net s) of
       (x, net) \<Rightarrow>
         (Ok (outcome_of N c x),
          \<lparr>rm_fields = (case exchange_header x of
               None \<Rightarrow> rm_fields s | Some rh \<Rightarrow> addMoracideTagsFromResponse rh (rm_fields s)),
           rm_net = net\<rparr>))"

definition http_Do ::
  "'n network \<Rightarrow> http_client \<Rightarrow> string \<Rightarrow> string \<Rightarrow> header option \<Rightarrow> bytes \<Rightarrow> string \<Rightarrow> string \<times> nat
     \<Rightarrow> ('n remote, do_result) prog" where
  "http_Do N c meth url h bbytes loggerName tick = (\<lambda>s.
     if \<not> method_ok meth then (Ok (do_err None False (ErrText (''method='' @ meth))), s)
     else if \<not> nt_url_ok N url then (Ok (do_err None True (ErrDriver ''invalid request'')), s)
     else (case request_header c h (rm_fields s) loggerName tick of
         None \<Rightarrow> (Panic, s)
       | Some reqHeader \<Rightarrow>
           exchange_once N c \<lparr>cl_method = meth, cl_url = url, cl_header = reqHeader,
             cl_body = (if has_body meth then bbytes else [])\<rparr> s))"

text \<open>
  The loop counts from 0 to \<open>retries\<close> inclusively and ends with the first result that is not
  to be continued; with a negative count nothing is sent and the zero result is returned.
\<close>

definition zero_result :: do_result where
  "zero_result = \<lparr>dr_bytes = None, dr_header = None, dr_cont = False, dr_err = None\<rparr>"

fun retry_loop ::
  "(nat \<Rightarrow> ('s, do_result) prog) \<Rightarrow> nat \<Rightarrow> nat \<Rightarrow> do_result \<Rightarrow> ('s, do_result) prog" where
  "retry_loop body 0 i prev = ret prev"
| "retry_loop body (Suc n) i prev =
     tryE (body i) throw (\<lambda>r. if \<not> dr_cont r then ret r else retry_loop body n (Suc i) r)"

definition wrap_err :: "do_result \<Rightarrow> do_result" where
  "wrap_err r = r\<lparr>dr_err := map_option NewError (dr_err r)\<rparr>"

definition DoWithRetries ::
  "'n network \<Rightarrow> http_client \<Rightarrow> string \<Rightarrow> string \<Rightarrow> header option \<Rightarrow> bytes \<Rightarrow> string \<Rightarrow> (nat \<Rightarrow> string \<times> nat)
     \<Rightarrow> ('n remote, do_result) prog" where
  "DoWithRetries N c meth url h bbytes loggerName ticks =
     tryE (retry_loop (\<lambda>i. http_Do N c meth url h bbytes loggerName (ticks i))
             (nat (hc_retries c + 1)) 0 zero_result)
       throw (\<lambda>r. ret (wrap_err r))"


section \<open>Facts\<close>

text \<open>A call returns a result or panics; it uses the network at most once.\<close>

lemma exchange_once_net: "rm_net (snd (exchange_once N c q s)) = snd (nt_send N q (rm_net s))"
  by (simp add: exchange_once_def split: prod.splits)

lemma exchange_once_result: "fst (exchange_once N c q s) = Ok (outcome_of N c (fst (nt_send N q (rm_net s))))"
  by (simp add: exchange_once_def split: prod.splits)

text \<open>The three ways a call can go.\<close>

lemma http_Do_cases:
  obtains (rejected) r where "http_Do N c meth url h b l tick s = (Ok r, s)" "dr_err r \<noteq> None"
  | (panics) "http_Do N c meth url h b l tick s = (Panic, s)" "request_header c h (rm_fields s) l tick = None"
  | (sends) q where "http_Do N c meth url h b l tick s = exchange_once N c q s"
proof -
  note d = http_Do_def[of N c meth url h b l tick]
  consider (m) "\<not> method_ok meth" | (u) "method_ok meth" "\<not> nt_url_ok N url"
    | (n) "method_ok meth" "nt_url_ok N url" "request_header c h (rm_fields s) l tick = None"
    | (x) rqh where "method_ok meth" "nt_url_ok N url" "request_header c h (rm_fields s) l tick = Some rqh"
    by (cases "request_header c h (rm_fields s) l tick") auto
  then show ?thesis
  proof cases
    case m
    then show ?thesis by (intro rejected) (simp_all add: d, simp add: do_err_def)
  next
    case u
    then show ?thesis by (intro rejected) (simp_all add: d, simp add: do_err_def)
  next
    case n
    then show ?thesis by (intro panics) (simp_all add: d)
  next
    case x
    then show ?thesis by (intro sends) (simp add: d)
  qed
qed

text \<open>\<open>request_header\<close> panics only on fields of the wrong type.\<close>

definition trace_fields_ok :: "fields \<Rightarrow> bool" where
  "trace_fields_ok flds \<longleftrightarrow> FieldsGetString flds ''xmoney_trace_id'' '''' \<noteq> None
     \<and> FieldsGetString flds ''req_moracide_tag'' '''' \<noteq> None
    \<and> FieldsGetString flds ''user_agent'' '''' \<noteq> None"

lemma http_Do_returns:
  assumes "trace_fields_ok (rm_fields s)"
  shows "\<exists>r s'. http_Do N c meth url h b l tick s = (Ok r, s') \<and> trace_fields_ok (rm_fields s')"
proof -
  have r: "request_header c h (rm_fields s) l tick \<noteq> None"
    using assms by (auto simp: request_header_def trace_fields_ok_def trace_id_or_def addMoracideTags_def Let_def)
  have t: "trace_fields_ok (addMoracideTagsFromResponse rh (rm_fields s))" for rh
    using assms by (auto simp: addMoracideTagsFromResponse_def trace_fields_ok_def FieldsGetString_def Let_def)
  have "\<exists>r s'. exchange_once N c q s = (Ok r, s') \<and> trace_fields_ok (rm_fields s')" for q
    using t assms by (auto simp: exchange_once_def split: prod.splits option.splits)
  then show ?thesis using r assms by (metis http_Do_cases)
qed

text \<open>
  \<open>attempts body n i s\<close>: the number of calls that the loop makes, read off from its run.
\<close>

fun attempts :: "(nat \<Rightarrow> ('s, do_result) prog) \<Rightarrow> nat \<Rightarrow> nat \<Rightarrow> 's \<Rightarrow> nat" where
  "attempts body 0 i s = 0"
| "attempts body (Suc n) i s =
     (case body i s of
        (Ok r, s') \<Rightarrow> if dr_cont r then Suc (attempts body n (Suc i) s') else 1
      | _ \<Rightarrow> 1)"

lemma attempts_le: "attempts body n i s \<le> n"
proof (induction n arbitrary: i s)
  case 0
  then show ?case by simp
next
  case (Suc n)
  then show ?case by (auto split: prod.splits outcome.splits)
qed

text \<open>
  What the loop returns: the result of its last call, which is final unless all calls were
  used up; every call before it was to be continued.
\<close>

lemma retry_loop_last:
  assumes "retry_loop body n i prev s = (Ok r, s')" "n > 0"
  shows "\<exists>j s1. i \<le> j \<and> j < i + n \<and> body j s1 = (Ok r, s') \<and> attempts body n i s = Suc (j - i)
    \<and> (dr_cont r \<longrightarrow> Suc j = i + n)"
  using assms
proof (induction body n i prev arbitrary: s rule: retry_loop.induct)
  case (1 body i prev)
  then show ?case by simp
next
  case (2 body n i prev)
  from "2.prems"(1) obtain r0 s0 where b: "body i s = (Ok r0, s0)"
    and t: "(if \<not> dr_cont r0 then ret r0 else retry_loop body n (Suc i) r0) s0 = (Ok r, s')"
    by (auto simp: tryE_eq_Ok)
  show ?case
  proof (cases "dr_cont r0 \<and> n > 0")
    case True
    with t have "retry_loop body n (Suc i) r0 s0 = (Ok r, s')" by simp
    from "2.IH"[OF _ this] True obtain j s1 where
        j: "Suc i \<le> j" "j < Suc i + n" "body j s1 = (Ok r, s')" "attempts body n (Suc i) s0 = Suc (j - Suc i)"
          "dr_cont r \<longrightarrow> Suc j = Suc i + n"
      by blast
    then have "attempts body (Suc n) i s = Suc (j - i)" using b True by simp
    then show ?thesis using j by (intro exI[of _ j] exI[of _ s1]) auto
  next
    case False
    then have "r = r0 \<and> s' = s0 \<and> (dr_cont r \<longrightarrow> n = 0) \<and> attempts body (Suc n) i s = 1"
      using t b by (auto split: if_splits)
    then show ?thesis using b by (intro exI[of _ i] exI[of _ s]) auto
  qed
qed

text \<open>With calls that keep an invariant under which they return, the loop returns.\<close>

lemma retry_loop_returns:
  assumes "\<And>j t. I t \<Longrightarrow> \<exists>r t'. body j t = (Ok r, t') \<and> I t'" "I s"
  shows "\<exists>r s'. retry_loop body n i prev s = (Ok r, s') \<and> I s'"
  using assms
proof (induction body n i prev arbitrary: s rule: retry_loop.induct)
  case (1 body i prev)
  then show ?case by simp
next
  case (2 body n i prev)
  obtain r t where b: "body i s = (Ok r, t)" "I t" using "2.prems" by blast
  show ?case
  proof (cases "dr_cont r")
    case True
    then show ?thesis using "2.IH"[OF _ "2.prems"(1) b(2)] b by (simp add: tryE_def)
  qed (simp add: tryE_def b)
qed

text \<open>
  The network with a record of the calls it was asked to make, to state what is sent.
  \<open>extends P n xs ys\<close>: \<open>ys\<close> is \<open>xs\<close> with at most \<open>n\<close> more entries, all of which satisfy \<open>P\<close>.
\<close>

definition recorded :: "'n network \<Rightarrow> ('n \<times> call list) network" where
  "recorded N =
     \<lparr>nt_send = (\<lambda>q s. let r = nt_send N q (fst s) in (fst r, (snd r, snd s @ [q]))),
      nt_url_ok = nt_url_ok N, nt_json_object = nt_json_object N, nt_first_message = nt_first_message N\<rparr>"

definition extends :: "('c \<Rightarrow> bool) \<Rightarrow> nat \<Rightarrow> 'c list \<Rightarrow> 'c list \<Rightarrow> bool" where
  "extends P n xs ys \<longleftrightarrow> (\<exists>cs. ys = xs @ cs \<and> length cs \<le> n \<and> list_all P cs)"

lemma extends_refl [simp]: "extends P n xs xs"
  by (simp add: extends_def)

lemma extends_one: "P c \<Longrightarrow> n > 0 \<Longrightarrow> extends P n xs (xs @ [c])"
  by (simp add: extends_def)

lemma extends_trans: "extends P n xs ys \<Longrightarrow> extends P m ys zs \<Longrightarrow> extends P (n + m) xs zs"
  unfolding extends_def by (metis add_mono append_assoc length_append list_all_append)

lemma retry_loop_extends:
  assumes "\<And>j t. extends P 1 (calls t) (calls (snd (body j t)))"
  shows "extends P n (calls s) (calls (snd (retry_loop body n i prev s)))"
  using assms
proof (induction body n i prev arbitrary: s rule: retry_loop.induct)
  case (1 body i prev)
  then show ?case by simp
next
  case (2 body n i prev)
  obtain q t where b: "body i s = (q, t)" by fastforce
  have one: "extends P 1 (calls s) (calls t)" using "2.prems"[of s i] b by simp
  then have stop: "extends P (Suc n) (calls s) (calls t)"
    using extends_trans[OF one, of n "calls t"] by simp
  have more: "extends P (Suc n) (calls s) (calls (snd (retry_loop body n (Suc i) r t)))" if "dr_cont r" for r
    using extends_trans[OF one "2.IH"[of r t]] that "2.prems" by simp
  show ?case using b stop more by (cases q) (simp_all add: tryE_def)
qed

lemma http_Do_extends:
  "extends (\<lambda>q. cl_method q = meth \<and> cl_url q = url \<and> cl_body q = (if has_body meth then b else [])) 1
     (snd (rm_net s)) (snd (rm_net (snd (http_Do (recorded N) c meth url h b l tick s))))"
  by (auto simp: http_Do_def exchange_once_def recorded_def Let_def extends_one split: option.splits)

lemma http_Do_success:
  assumes "http_Do N c meth url h b l tick s = (Ok r, s')" "dr_err r = None" "hc_statusHandlers c = []"
  shows "\<exists>q status rh rb. nt_send N q (rm_net s) = (Response status rh (Inr rb), rm_net s') \<and> status \<le> 200
    \<and> dr_bytes r = Some rb \<and> dr_header r = Some rh \<and> \<not> dr_cont r"
proof -
  obtain q where e: "exchange_once N c q s = (Ok r, s')"
    using assms(1,2) by (cases rule: http_Do_cases[of N c meth url h b l tick s]) auto
  obtain x net where x: "nt_send N q (rm_net s) = (x, net)" by fastforce
  have rs: "r = outcome_of N c x" "rm_net s' = net"
    using e x by (auto simp: exchange_once_def)
  have "\<exists>status rh rb. x = Response status rh (Inr rb) \<and> status \<le> 200
      \<and> dr_bytes r = Some rb \<and> dr_header r = Some rh \<and> \<not> dr_cont r"
    using assms(2,3) rs(1)
    by (cases "(N, c, x)" rule: outcome_of.cases)
      (auto simp: do_err_def classify_def StatusHandler_def Let_def split: if_splits)
  then show ?thesis using x rs(2) by blast
qed

text \<open>The loop as a whole.\<close>

lemma DoWithRetries_ok:
  assumes run: "DoWithRetries N c meth url h b l ticks s = (Ok r, s')" and err: "dr_err r = None"
    and c: "hc_retries c \<ge> 0" "hc_statusHandlers c = []"
  shows "\<exists>q n status rh rb. nt_send N q n = (Response status rh (Inr rb), rm_net s') \<and> status \<le> 200
    \<and> dr_bytes r = Some rb \<and> dr_header r = Some rh"
proof -
  let ?body = "\<lambda>i. http_Do N c meth url h b l (ticks i)"
  from run obtain r0 where l: "retry_loop ?body (nat (hc_retries c + 1)) 0 zero_result s = (Ok r0, s')"
    and r: "r = wrap_err r0"
    unfolding DoWithRetries_def by (auto simp: tryE_eq_Ok)
  have "nat (hc_retries c + 1) > 0" using c(1) by simp
  from retry_loop_last[OF l this] obtain j s1 where b: "?body j s1 = (Ok r0, s')" by blast
  have e: "dr_err r0 = None" using err by (simp add: r wrap_err_def)
  have "dr_bytes r = dr_bytes r0" "dr_header r = dr_header r0" by (simp_all add: r wrap_err_def)
  with http_Do_success[OF b e c(2)] show ?thesis by metis
qed


lemma DoWithRetries_extends:
  "extends (\<lambda>q. cl_method q = meth \<and> cl_url q = url \<and> cl_body q = (if has_body meth then b else []))
     (nat (hc_retries c + 1)) (snd (rm_net s))
     (snd (rm_net (snd (DoWithRetries (recorded N) c meth url h b l ticks s))))"
  (is "extends ?P _ _ _")
proof -
  let ?body = "\<lambda>i. http_Do (recorded N) c meth url h b l (ticks i)"
  have "extends ?P (nat (hc_retries c + 1)) (snd (rm_net s))
      (snd (rm_net (snd (retry_loop ?body (nat (hc_retries c + 1)) 0 zero_result s))))"
    by (rule retry_loop_extends[where calls = "\<lambda>t. snd (rm_net t)"]) (rule http_Do_extends)
  then show ?thesis
    unfolding DoWithRetries_def tryE_def
    by (cases "retry_loop ?body (nat (hc_retries c + 1)) 0 zero_result s") (auto split: outcome.splits)
qed

lemma DoWithRetries_returns:
  assumes "trace_fields_ok (rm_fields s)"
  shows "\<exists>r s'. DoWithRetries N c meth url h b l ticks s = (Ok r, s')"
proof -
  let ?body = "\<lambda>i. http_Do N c meth url h b l (ticks i)"
  have "\<exists>r s'. retry_loop ?body (nat (hc_retries c + 1)) 0 zero_result s = (Ok r, s') \<and> trace_fields_ok (rm_fields s')"
    by (rule retry_loop_returns) (auto intro: http_Do_returns assms)
  then show ?thesis unfolding DoWithRetries_def tryE_def by auto
qed

end
