(* ===== verification/Connectors.thy ===== *)
theory Connectors
  imports HttpClient
begin

text \<open>
  The clients of the four remote services, over http/http_client.go: upstream, mqtt and xconf
  (http/upstream_connector.go, http/mqtt_connector.go, http/xconf_connector.go), and webpa with
  its own retries (http/webpa_connector.go). URL templates are formatting functions.
\<close>

section \<open>Upstream, mqtt and xconf\<close>

record connector =
  cn_client :: http_client
  cn_host :: string
  cn_url :: "string list \<Rightarrow> string"

definition HeaderAuditid :: string where "HeaderAuditid = ''X-Auditid''"
definition HeaderSourceAppName :: string where "HeaderSourceAppName = ''X-Source-App-Name''"

text \<open>A field that is there must be a string; an empty one is not sent.\<close>

definition set_from_field :: "fields \<Rightarrow> string \<Rightarrow> string \<Rightarrow> header \<Rightarrow> header option" where
  "set_from_field flds key name h =
     map_option (\<lambda>v. set_nonempty name v h) (FieldsGetString flds key '''')"

definition upstream_header :: "fields \<Rightarrow> header \<Rightarrow> header option" where
  "upstream_header flds h =
     Option.bind (set_from_field flds ''audit_id'' HeaderAuditid h) (set_from_field flds ''app_name'' HeaderSourceAppName)"

definition with_fields :: "(fields \<Rightarrow> ('n remote, 'a) prog) \<Rightarrow> ('n remote, 'a) prog" where
  "with_fields k = (\<lambda>s. k (rm_fields s) s)"

definition PostUpstream ::
  "'n network \<Rightarrow> connector \<Rightarrow> string \<Rightarrow> header \<Rightarrow> bytes \<Rightarrow> (nat \<Rightarrow> string \<times> nat) \<Rightarrow> ('n remote, do_result) prog" where
  "PostUpstream N c mac h bbytes ticks = with_fields (\<lambda>flds.
     deref (upstream_header flds h) (\<lambda>h'.
       tryE (DoWithRetries N (cn_client c) ''POST'' (cn_url c [cn_host c, mac]) (Some h') bbytes ''upstream'' ticks)
         throw (\<lambda>r. ret (wrap_err r))))"

definition GetUpstreamProfiles ::
  "'n network \<Rightarrow> connector \<Rightarrow> string \<Rightarrow> string \<Rightarrow> header \<Rightarrow> (nat \<Rightarrow> string \<times> nat) \<Rightarrow> ('n remote, do_result) prog" where
  "GetUpstreamProfiles N c mac queryParams h ticks = with_fields (\<lambda>flds.
     deref (upstream_header flds h) (\<lambda>h'.
       tryE (DoWithRetries N (cn_client c) ''GET'' (cn_url c [cn_host c, mac, queryParams]) (Some h') [] ''upstream'' ticks)
         throw (\<lambda>r. ret (wrap_err r))))"

definition GetProfiles ::
  "'n network \<Rightarrow> connector \<Rightarrow> string \<Rightarrow> (nat \<Rightarrow> string \<times> nat) \<Rightarrow> ('n remote, do_result) prog" where
  "GetProfiles N c urlSuffix ticks =
     tryE (DoWithRetries N (cn_client c) ''GET'' (cn_url c [cn_host c, urlSuffix]) None [] ''xconf'' ticks)
       throw (\<lambda>r. ret (wrap_err r))"

definition mqtt_header :: "fields \<Rightarrow> string \<times> nat \<Rightarrow> header option" where
  "mqtt_header flds tick =
     Option.bind (trace_id_or flds (fst tick)) (\<lambda>xm.
     Option.bind (FieldsGetString flds ''out_traceparent'' '''') (\<lambda>tp.
     map_option (\<lambda>ts.
       hset (hset (hset (hset [] ''X-Webpa-Transaction-Id'' (transaction_id xm (snd tick)))
         ''X-Moneytrace'' (''trace-id='' @ xm @ '';parent-id=0;span-id=0;span-name=mqtt''))
         HeaderTraceparent tp) HeaderTracestate ts)
       (FieldsGetString flds ''out_tracestate'' '''')))"

definition PostMqtt ::
  "'n network \<Rightarrow> connector \<Rightarrow> string \<Rightarrow> bytes \<Rightarrow> string \<times> nat \<Rightarrow> (nat \<Rightarrow> string \<times> nat) \<Rightarrow> ('n remote, do_result) prog" where
  "PostMqtt N c cpeMac bbytes tick ticks = with_fields (\<lambda>flds.
     deref (mqtt_header flds tick) (\<lambda>h.
       tryE (DoWithRetries N (cn_client c) ''POST'' (cn_url c [cn_host c, cpeMac]) (Some h) bbytes ''mqtt'' ticks)
         throw (\<lambda>r. ret (wrap_err r))))"

section \<open>Webpa\<close>

text \<open>
  \<open>syncHandle520\<close> and \<open>asyncHandle520\<close>: a response 520 that is not one of two known refusals
  is turned into 524; only the asynchronous client may repeat it.
\<close>

definition handle520 :: "'n network \<Rightarrow> bool \<Rightarrow> bytes \<Rightarrow> do_result" where
  "handle520 N async rbytes =
     (let m = nt_first_message N rbytes
      in if m = ''Error unsupported namespace'' \<or> m = ''Request rejected''
         then do_err (Some rbytes) False (RemoteHttpError 520 rbytes)
         else do_err (Some rbytes) async (RemoteHttpError 524 rbytes))"

definition syncHandle520 :: "'n network \<Rightarrow> bytes \<Rightarrow> do_result" where
  "syncHandle520 N = handle520 N False"

definition asyncHandle520 :: "'n network \<Rightarrow> bytes \<Rightarrow> do_result" where
  "asyncHandle520 N = handle520 N True"

record webpa =
  wp_syncClient :: http_client
  wp_asyncClient :: http_client
  wp_host :: string
  wp_url :: "string list \<Rightarrow> string"
  wp_retries :: int
  wp_asyncPokeEnabled :: bool
  wp_apiVersion :: string

definition remote_status :: "goerr option \<Rightarrow> int option" where
  "remote_status err = Option.bind err (\<lambda>e. map_option fst (errors_As_remote e))"

text \<open>
  The rounds of the synchronous retry: it ends with a result that is not to be continued,
  unless that is a 524. With no rounds there is no error.
\<close>

fun sync_loop ::
  "(nat \<Rightarrow> ('s, do_result) prog) \<Rightarrow> nat \<Rightarrow> nat \<Rightarrow> do_result \<Rightarrow> ('s, do_result) prog" where
  "sync_loop body 0 i prev = ret prev"
| "sync_loop body (Suc n) i prev =
     tryE (body i) throw (\<lambda>r.
       if \<not> dr_cont r \<and> remote_status (dr_err r) \<noteq> Some 524 then ret r else sync_loop body n (Suc i) r)"

definition SyncDoWithRetries ::
  "'n network \<Rightarrow> webpa \<Rightarrow> string \<Rightarrow> string \<Rightarrow> header \<Rightarrow> bytes \<Rightarrow> (nat \<Rightarrow> string \<times> nat) \<Rightarrow> ('n remote, do_result) prog" where
  "SyncDoWithRetries N c meth url h bbytes ticks =
     tryE (sync_loop (\<lambda>i. http_Do N (wp_syncClient c) meth url (Some h) bbytes ''webpa'' (ticks i))
             (nat (wp_retries c)) 1 zero_result)
       throw (\<lambda>r. ret (wrap_err r))"

text \<open>The background retry; its result is only logged.\<close>

definition AsyncDoWithRetries ::
  "'n network \<Rightarrow> webpa \<Rightarrow> string \<Rightarrow> string \<Rightarrow> header \<Rightarrow> bytes \<Rightarrow> (nat \<Rightarrow> string \<times> nat) \<Rightarrow> ('n remote, unit) prog" where
  "AsyncDoWithRetries N c meth url h bbytes ticks =
     tryE (retry_loop (\<lambda>i. http_Do N (wp_asyncClient c) meth url (Some h) bbytes ''asyncwebpa'' (ticks i))
             (nat (wp_retries c)) 1 zero_result)
       throw (\<lambda>_. ret ())"

text \<open>
  The result of a PATCH: the transaction id, the error, and whether the background retry was
  started (which takes a place in the queue of the connector first).
\<close>

record patch_result =
  pa_transaction :: string
  pa_err :: "goerr option"
  pa_async :: bool

definition patched :: "string \<Rightarrow> goerr option \<Rightarrow> bool \<Rightarrow> patch_result" where
  "patched txn err async = \<lparr>pa_transaction = txn, pa_err = err, pa_async = async\<rparr>"

definition patch_header :: "fields \<Rightarrow> header \<Rightarrow> string \<times> nat \<Rightarrow> (header \<times> string) option" where
  "patch_header flds h tick =
     Option.bind (FieldsGetString flds ''trace_id'' '''') (\<lambda>_.
       map_option (\<lambda>xm. let txn = transaction_id xm (snd tick) in (hset h ''X-Webpa-Transaction-Id'' txn, txn))
         (trace_id_or flds (fst tick)))"

definition Patch ::
  "'n network \<Rightarrow> webpa \<Rightarrow> header \<Rightarrow> string \<Rightarrow> bytes \<Rightarrow> string \<times> nat \<Rightarrow> (nat \<Rightarrow> string \<times> nat)
     \<Rightarrow> ('n remote, patch_result) prog" where
  "Patch N c rHeader cpeMac bbytes tick ticks = with_fields (\<lambda>flds.
     deref (patch_header flds rHeader tick) (\<lambda>(h, txn).
       (let url = wp_url c [wp_host c, wp_apiVersion c, cpeMac]
        in tryE (http_Do N (wp_syncClient c) ''PATCH'' url (Some h) bbytes ''webpa'' (ticks 0)) throw (\<lambda>r.
             case dr_err r of
               None \<Rightarrow> ret (patched txn None False)
             | Some err \<Rightarrow>
                 if remote_status (Some err) = Some 524 then
                   (if wp_asyncPokeEnabled c then ret (patched txn (Some (NewError err)) True)
                    else tryE (SyncDoWithRetries N c ''PATCH'' url h bbytes ticks) throw (\<lambda>r2.
                      case dr_err r2 of
                        Some e2 \<Rightarrow> ret (patched txn (Some (NewError e2)) False)
                      | None \<Rightarrow> ret (patched txn (Some (NewError err)) False)))
                 else if dr_cont r then
                   tryE (DoWithRetries N (wp_syncClient c) ''PATCH'' url (Some h) bbytes ''webpa'' ticks) throw (\<lambda>r2.
                     ret (patched txn (map_option NewError (dr_err r2)) False))
                 else ret (patched txn (Some (NewError err)) False)))))"

definition PokeBodyTemplate :: "string \<Rightarrow> string" where
  "PokeBodyTemplate v =
     (let q = (\<lambda>s. [CHR 0x22] @ s @ [CHR 0x22])
      in ''{'' @ q ''parameters'' @ '':[{'' @ q ''dataType'' @ '':0,'' @ q ''name'' @ '':''
         @ q ''Device.X_RDK_WebConfig.ForceSync'' @ '','' @ q ''value'' @ '':'' @ q v @ ''}]}'')"

definition Poke ::
  "'n network \<Rightarrow> webpa \<Rightarrow> header \<Rightarrow> string \<Rightarrow> string \<Rightarrow> string \<times> nat \<Rightarrow> (nat \<Rightarrow> string \<times> nat)
     \<Rightarrow> ('n remote, string \<times> goerr option) prog" where
  "Poke N c rHeader cpeMac pokeStr tick ticks =
     tryE (Patch N c rHeader cpeMac (PokeBodyTemplate pokeStr) tick ticks) throw (\<lambda>r.
       case pa_err r of
         Some e \<Rightarrow> ret ('''', Some (NewError e))
       | None \<Rightarrow> ret (pa_transaction r, None))"

section \<open>Facts\<close>

text \<open>
  A PATCH whose first call ended in 524 is reported as an error, however the retries end.
\<close>

lemma Patch_524:
  assumes h: "patch_header (rm_fields s) rHeader tick = Some (h, txn)"
    and first: "http_Do N (wp_syncClient c) ''PATCH'' (wp_url c [wp_host c, wp_apiVersion c, mac]) (Some h) b ''webpa''
      (ticks 0) s = (Ok r, s1)" "dr_err r = Some err" "remote_status (Some err) = Some 524"
    and run: "Patch N c rHeader mac b tick ticks s = (Ok p, s')"
  shows "pa_err p \<noteq> None \<and> pa_transaction p = txn"
  using run h first
  by (auto simp: Patch_def with_fields_def Let_def tryE_def patched_def split: prod.splits outcome.splits option.splits if_splits)

lemma Patch_ok:
  assumes "Patch N c rHeader mac b tick ticks s = (Ok p, s')" "pa_err p = None"
  shows "\<not> pa_async p"
  using assms
  by (auto simp: Patch_def with_fields_def Let_def tryE_eq_Ok deref_eq_Ok patched_def case_apps
      split: prod.splits option.splits if_splits)

end
