(* ===== verification/HttpSample.thy ===== *)
theory HttpSample
  imports Sample HandlerFacts Connectors
begin

text \<open>
  Concrete data for the witnesses about the HTTP handlers: a server over the sqlite client in
  memory, and requests to it.
\<close>

definition sample_server :: "tables sqlite server" where
  "sample_server = \<lparr>DatabaseClient = sqlite_client mem_engine sample_cfg, appName = ''webconfig'',
     validateMacEnabled = True, validPartners = [], upstreamEnabled = False, jwksEnabled = False,
     kafkaProducerEnabled = False, kafkaProducerTopic = '''', supplementaryAppendingEnabled = True,
     upstreamProfilesEnabled = False, queryParamsValidationEnabled = False, minTrust = 0,
     validSubdocIdMap = [(''lan'', 2)], filterOutputByBitmapEnabled = False,
     defaultEmptyProfileEnabled = False, bitmapFilterExemptSubdocIds = [], murmur3 = length,
     errs = \<lparr>ef_text = (\<lambda>_. ''error''), ef_json = (\<lambda>_. JNull)\<rparr>\<rparr>"

definition sample_writer :: "bytes \<Rightarrow> writer" where
  "sample_writer body =
     (let w = NewXResponseWriter new_net_writer '''' []
      in w\<lparr>w_x := map_option (\<lambda>x. x\<lparr>xw_bodyBytes := body\<rparr>) (w_x w)\<rparr>)"

definition sample_web :: "tables sqlite \<Rightarrow> bytes \<Rightarrow> tables sqlite web" where
  "sample_web s body = \<lparr>web_db = s, web_w = sample_writer body\<rparr>"

definition sample_request :: "string \<Rightarrow> http_request" where
  "sample_request g = \<lparr>rq_vars = [(''mac'', sample_mac), (''subdoc_id'', g)],
     rq_header = [(''Content-Type'', [''application/msgpack''])], rq_query = [], rq_raw_query = '''',
     rq_method = ''POST'', rq_body = None\<rparr>"

lemma sample_web_sel [simp]: "web_db (sample_web s b) = s" "web_w (sample_web s b) = sample_writer b"
  by (simp_all add: sample_web_def)

lemma sample_writer_fresh [simp]: "fresh (sample_writer b)"
  by (simp add: sample_writer_def NewXResponseWriter_def new_net_writer_def fresh_def moracide_ok_def
      FieldsGetString_def)

lemma sample_server_db [simp]: "DatabaseClient sample_server = sqlite_client mem_engine sample_cfg"
  by (simp add: sample_server_def)

text \<open>An engine that refuses to clear columns; any engine may fail at any statement.\<close>

definition no_null_engine :: "tables engine" where
  "no_null_engine = mem_engine\<lparr>eng_exec := (\<lambda>st vs T. case st of
     UpdateNull _ _ _ \<Rightarrow> (Some (ErrText ''disk I/O error''), T) | _ \<Rightarrow> eng_exec mem_engine st vs T)\<rparr>"

interpretation no_null: sql_engine no_null_engine
  by unfold_locales (auto simp: no_null_engine_def mem_engine_def split: option.splits stmt.splits if_splits)

definition no_null_server :: "tables sqlite server" where
  "no_null_server = sample_server\<lparr>DatabaseClient := sqlite_client no_null_engine sample_cfg\<rparr>"

text \<open>
  A network that counts the calls: the first one gets the given exchange, all later ones get
  200. Its clients repeat twice.
\<close>

definition sample_network :: "exchange \<Rightarrow> nat network" where
  "sample_network x =
     \<lparr>nt_send = (\<lambda>q n. (if n = 0 then x else Response 200 [] (Inr ''done''), Suc n)),
      nt_url_ok = (\<lambda>_. True), nt_json_object = (\<lambda>_. []), nt_first_message = (\<lambda>_. '''')\<rparr>"

definition sample_client :: http_client where
  "sample_client = \<lparr>hc_retries = 2, hc_statusHandlers = [], hc_userAgent = ''webconfig''\<rparr>"

definition sample_webpa :: webpa where
  "sample_webpa =
     (let c = \<lambda>async. sample_client\<lparr>hc_statusHandlers := [(520, handle520 (sample_network (TimedOut '''')) async)]\<rparr>
      in \<lparr>wp_syncClient = c False, wp_asyncClient = c True, wp_host = ''webpa'', wp_url = concat,
          wp_retries = 2, wp_asyncPokeEnabled = False, wp_apiVersion = ''v2''\<rparr>)"

end
