(* ===== verification/Multiparts.thy ===== *)
theory Multiparts
  imports Connectors ServiceUpdate
begin

text \<open>
  util/multipart.go: reading a multipart body, with the readers of packages mime and
  mime/multipart as parameters, and the multipart answer with a telemetry profile.
\<close>

section \<open>Reading\<close>

text \<open>
  \<open>mm_media\<close> is \<open>mime.ParseMediaType\<close>. \<open>mm_parts\<close> yields, for a boundary and a body, the
  header and the bytes of the parts that could be read, and the error that ended the reading
  unless it was the end of the body.
\<close>

record mime_reader =
  mm_media :: "string \<Rightarrow> goerr + (string \<times> string gomap)"
  mm_parts :: "string \<Rightarrow> bytes \<Rightarrow> (header \<times> bytes) list \<times> goerr option"

text \<open>A part without a namespace is skipped.\<close>

fun named_parts :: "(header \<times> bytes) list \<Rightarrow> multipart list" where
  "named_parts [] = []"
| "named_parts ((h, b) # ps) =
     (let subdocId = hget h ''Namespace''
      in if length subdocId = 0 then named_parts ps
         else \<lparr>mp_bytes = b, mp_version = hget h ''Etag'', mp_name = subdocId, mp_state = 0\<rparr> # named_parts ps)"

definition ParseMultipartAsList :: "mime_reader \<Rightarrow> header \<Rightarrow> bytes \<Rightarrow> goerr + multipart list" where
  "ParseMultipartAsList M h bbytes =
     (if length bbytes = 0 then Inr []
      else case mm_media M (hget h HeaderContentType) of
          Inl err \<Rightarrow> Inl (NewError err)
        | Inr (mediaType, params) \<Rightarrow>
            if \<not> has_prefix mediaType ''multipart/'' then Inr []
            else case mm_parts M (gomap_get '''' params ''boundary'') bbytes of
                (ps, Some err) \<Rightarrow> Inl (NewError err)
              | (ps, None) \<Rightarrow> Inr (named_parts ps))"

text \<open>With two parts of one name the last one stays.\<close>

definition ParseMultipart :: "mime_reader \<Rightarrow> header \<Rightarrow> bytes \<Rightarrow> goerr + multipart gomap" where
  "ParseMultipart M h bbytes =
     (case ParseMultipartAsList M h bbytes of
        Inl err \<Rightarrow> Inl (NewError err)
      | Inr mparts \<Rightarrow> Inr (gomap_puts [] (map (\<lambda>p. (mp_name p, p)) mparts)))"

section \<open>Telemetry\<close>

text \<open>
  The conversions of encoding/json and msgpack: the profile as msgpack bytes (or the error of
  bad JSON), the JSON text of the parameter list that holds them, and its msgpack form.
\<close>

record telemetry_codec =
  tc_payload :: "bytes \<Rightarrow> goerr + bytes"
  tc_parameters_json :: "bytes \<Rightarrow> bytes"
  tc_output :: "bytes \<Rightarrow> bytes"

definition TelemetryBytesToMultipart ::
  "telemetry_codec \<Rightarrow> (bytes \<Rightarrow> nat) \<Rightarrow> bytes \<Rightarrow> goerr + multipart" where
  "TelemetryBytesToMultipart T m3 telemetryBytes =
     (case tc_payload T telemetryBytes of
        Inl err \<Rightarrow> Inl err
      | Inr rbytes \<Rightarrow>
          Inr \<lparr>mp_bytes = tc_output T rbytes, mp_version = GetMurmur3Hash m3 (tc_parameters_json T rbytes),
               mp_name = ''telemetry'', mp_state = 0\<rparr>)"

section \<open>Facts\<close>

lemma named_parts_names: "m \<in> set (named_parts ps) \<Longrightarrow> mp_name m \<noteq> ''''"
  by (induction ps rule: named_parts.induct) (auto simp: Let_def split: if_splits)

lemma ParseMultipartAsList_names:
  "ParseMultipartAsList M h b = Inr ms \<Longrightarrow> m \<in> set ms \<Longrightarrow> mp_name m \<noteq> ''''"
  by (auto simp: ParseMultipartAsList_def named_parts_names split: if_splits sum.splits option.splits prod.splits)

end
