(* ===== verification/ConfigResponse.thy ===== *)
theory ConfigResponse
  imports Multiparts WebServer ServiceFacts
begin

text \<open>
  http/multipart.go: the answer to the GET of a device, with and without an upstream service,
  and at a factory reset.
\<close>

section \<open>The state and the services\<close>

text \<open>
  What a request may change: the database, the audit fields with the network, and the
  messages that were handed to the kafka producer.
\<close>

record producer_message =
  pm_topic :: string
  pm_key :: string
  pm_event :: eventmessage

record ('s, 'n) backend =
  be_db :: 's
  be_remote :: "'n remote"
  be_sent :: "producer_message list"

definition at_db :: "('s, 'a) prog \<Rightarrow> (('s, 'n) backend, 'a) prog" where
  "at_db m = (\<lambda>s. case m (be_db s) of (r, d) \<Rightarrow> (r, s\<lparr>be_db := d\<rparr>))"

definition at_net :: "('n remote, 'a) prog \<Rightarrow> (('s, 'n) backend, 'a) prog" where
  "at_net m = (\<lambda>s. case m (be_remote s) of (r, d) \<Rightarrow> (r, s\<lparr>be_remote := d\<rparr>))"

definition be_fields :: "('s, 'n) backend \<Rightarrow> fields" where
  "be_fields s = rm_fields (be_remote s)"

definition put_field :: "string \<Rightarrow> itf \<Rightarrow> (('s, 'n) backend, unit) prog" where
  "put_field k v = (\<lambda>s. (Ok (), s\<lparr>be_remote := (be_remote s)\<lparr>rm_fields := gomap_put k v (be_fields s)\<rparr>\<rparr>))"

definition err_such :: "(goerr \<Rightarrow> bool) \<Rightarrow> goerr option \<Rightarrow> goerr option" where
  "err_such P err = Option.bind err (\<lambda>e. if P e then Some e else None)"

definition of_result :: "'a result \<Rightarrow> ('s, 'a) prog" where
  "of_result r = (\<lambda>s. (r, s))"

definition of_sum :: "goerr + 'a \<Rightarrow> ('s, 'a) prog" where
  "of_sum r = (case r of Inl e \<Rightarrow> throw e | Inr x \<Rightarrow> ret x)"

text \<open>
  The parts of the server that the database does not know: connectors, the generator of
  tokens (a nil token manager is \<open>None\<close>) and the libraries.
\<close>

record 'n services =
  sx_net :: "'n network"
  sx_upstream :: connector
  sx_xconf :: connector
  sx_mqtt :: connector
  sx_webpa :: webpa
  sx_generate :: "(string \<Rightarrow> int \<Rightarrow> string option \<Rightarrow> string) option"
  sx_mime :: mime_reader
  sx_telemetry :: telemetry_codec

text \<open>The clock readings and random values of one request.\<close>

record ticks =
  tk_correct :: int
  tk_lock :: int
  tk_deploy :: int
  tk_write :: "string \<Rightarrow> int"
  tk_uuid :: "nat \<Rightarrow> string"
  tk_call :: "nat \<Rightarrow> string \<times> nat"

section \<open>Messages to kafka\<close>

text \<open>A message whose device id has not sixteen characters is skipped.\<close>

definition success_message :: "'s server \<Rightarrow> string \<Rightarrow> eventmessage \<Rightarrow> producer_message option" where
  "success_message sv uuid m =
     (if length (em_device_id m) \<noteq> 16 then None
      else Some \<lparr>pm_topic = kafkaProducerTopic sv, pm_key = to_lower (drop 4 (em_device_id m)),
             pm_event = m\<lparr>em_transaction_uuid := Some (appName sv @ ''_____'' @ uuid)\<rparr>\<rparr>)"

fun success_messages :: "'s server \<Rightarrow> (nat \<Rightarrow> string) \<Rightarrow> nat \<Rightarrow> eventmessage list \<Rightarrow> producer_message list" where
  "success_messages sv uuid i [] = []"
| "success_messages sv uuid i (m # ms) =
     (case success_message sv (uuid i) m of
        None \<Rightarrow> success_messages sv uuid (Suc i) ms
      | Some p \<Rightarrow> p # success_messages sv uuid (Suc i) ms)"

definition ForwardSuccessKafkaMessages ::
  "'s server \<Rightarrow> (nat \<Rightarrow> string) \<Rightarrow> eventmessage list \<Rightarrow> (('s, 'n) backend, unit) prog" where
  "ForwardSuccessKafkaMessages sv uuid ms =
     (\<lambda>s. (Ok (), s\<lparr>be_sent := be_sent s @ success_messages sv uuid 0 ms\<rparr>))"

section \<open>Replies\<close>

text \<open>The four results of \<open>BuildWebconfigResponse\<close>; nil bytes are \<open>None\<close>.\<close>

record reply =
  rp_status :: int
  rp_header :: header
  rp_bytes :: "bytes option"
  rp_err :: "goerr option"

definition reply_with :: "int \<Rightarrow> header \<Rightarrow> bytes option \<Rightarrow> ('s, reply) prog" where
  "reply_with status h b = ret \<lparr>rp_status = status, rp_header = h, rp_bytes = b, rp_err = None\<rparr>"

definition reply_err :: "int \<Rightarrow> header \<Rightarrow> bytes option \<Rightarrow> goerr \<Rightarrow> ('s, reply) prog" where
  "reply_err status h b e =
     ret \<lparr>rp_status = status, rp_header = h, rp_bytes = b, rp_err = Some (NewError e)\<rparr>"

definition multipart_header :: "string \<Rightarrow> header" where
  "multipart_header etag = hset (hset [] HeaderContentType MultipartContentType) HeaderEtag etag"

definition by_bitmap :: "'s server \<Rightarrow> document \<Rightarrow> document" where
  "by_bitmap sv d =
     (if filterOutputByBitmapEnabled sv then FilterByBitmap d (bitmapFilterExemptSubdocIds sv) else d)"

section \<open>Without an upstream service\<close>

text \<open>
  When the metadata changed, the stored root document with the new metadata is the one of the
  document. \<open>None\<close> is the panic on a nil pointer.
\<close>

definition with_metadata :: "getdoc \<Rightarrow> document option option" where
  "with_metadata g =
     (if \<not> gd_upstream g then Some (gd_document g)
      else case (gd_cloud g, gd_device g, gd_document g) of
          (Some cloud, Some device, Some d) \<Rightarrow>
            Some (Some (SetRootDoc d (Some (root_UpdateMetadata (root_Clone cloud) device))))
        | _ \<Rightarrow> None)"

definition send_document ::
  "'s server \<Rightarrow> string \<Rightarrow> string \<Rightarrow> int \<Rightarrow> document \<Rightarrow> ('s, reply) prog" where
  "send_document sv mac userAgent t d =
     tryE (of_result (doc_Bytes d)) (reply_err 500 [] None) (\<lambda>respBytes.
       tryE (if userAgent \<noteq> ''mget'' then UpdateDocumentStateIndeployment (DatabaseClient sv) mac d t else ret ())
         (reply_err 500 [] None)
         (\<lambda>_. reply_with 200 (multipart_header (RootVersion d)) respBytes))"

definition answer_local ::
  "'s server \<Rightarrow> string \<Rightarrow> string \<Rightarrow> int \<Rightarrow> getdoc \<Rightarrow> ('s, reply) prog" where
  "answer_local sv mac userAgent t g =
     (let c = DatabaseClient sv
      in deref (with_metadata g) (\<lambda>document.
           case gd_err g of
             Some err \<Rightarrow> reply_err (if \<not> db_IsDbNotFound c err then 500 else 404) [] None err
           | None \<Rightarrow>
               deref document (\<lambda>d.
                 if doc_Length d = 0 then reply_with 304 [] None
                 else tryE (LoadRefSubDocuments c (delete_all d (db_BlockedSubdocIds c)))
                        (reply_err 500 [] None)
                        (\<lambda>d'. if doc_Length (by_bitmap sv d') = 0 then reply_with 404 [] None
                               else send_document sv mac userAgent t (by_bitmap sv d')))))"

section \<open>With an upstream service\<close>

definition HeaderTransactionId :: string where "HeaderTransactionId = ''Transaction-Id''"
definition HeaderUpstreamResponse :: string where "HeaderUpstreamResponse = ''X-Upstream-Response''"
definition HeaderUpstreamNewPartnerId :: string where "HeaderUpstreamNewPartnerId = ''X-Upstream-New-Partner-Id''"
definition SkipDbUpdate :: string where "SkipDbUpdate = ''skip-db-update''"

definition put_all :: "(string \<times> string) list \<Rightarrow> header \<Rightarrow> header" where
  "put_all kvs h = foldl (\<lambda>h' (k, v). hset h' k v) h kvs"

text \<open>The headers with the old or the new metadata; \<open>tag\<close> is \<open>New\<close> or \<open>Old\<close>.\<close>

definition metadata_headers :: "string \<Rightarrow> rootdoc option \<Rightarrow> header \<Rightarrow> header" where
  "metadata_headers tag r h =
     (case r of
        None \<Rightarrow> h
      | Some rd \<Rightarrow> put_all
          [(''X-Upstream-'' @ tag @ ''-Bitmap'', itoa (rd_bitmap rd)),
           (''X-Upstream-'' @ tag @ ''-Firmware-Version'', rd_firmware_version rd),
           (''X-Upstream-'' @ tag @ ''-Model-Name'', rd_model_name rd),
           (''X-Upstream-'' @ tag @ ''-Partner-Id'', rd_partner_id rd),
           (''X-Upstream-'' @ tag @ ''-Schema-Version'', rd_schema_version rd)] h)"

text \<open>The token of the device is passed on, or one for a day is made.\<close>

definition token_header :: "'n services \<Rightarrow> header \<Rightarrow> string \<Rightarrow> header \<Rightarrow> header" where
  "token_header sx rHeader mac h =
     (case sx_generate sx of
        None \<Rightarrow> h
      | Some generate \<Rightarrow>
          (let token = hget rHeader ''Authorization''
           in if length token > 0 then hset h ''Authorization'' token
              else hset h ''Authorization'' (''Bearer '' @ generate mac 86400 None)))"

definition request_to_upstream ::
  "'n services \<Rightarrow> header \<Rightarrow> fields \<Rightarrow> string \<Rightarrow> string \<Rightarrow> getdoc \<Rightarrow> header option" where
  "request_to_upstream sx rHeader flds mac rootVersion g =
     (let h1 = put_all [(HeaderContentType, MultipartContentType), (HeaderEtag, rootVersion)] rHeader
      in map_option (\<lambda>h2.
           let h3 = set_nonempty HeaderTransactionId (hget rHeader HeaderTransactionId) h2;
               h4 = token_header sx rHeader mac h3
           in metadata_headers ''Old'' (gd_cloud g) (metadata_headers ''New'' (gd_device g) h4))
         (set_from_field flds ''audit_id'' HeaderAuditid h1))"

definition upstream_failed :: "goerr \<Rightarrow> ('s, reply) prog" where
  "upstream_failed err =
     (case remote_status (Some err) of
        Some st \<Rightarrow> reply_err st [] None err
      | None \<Rightarrow> reply_err 500 [] None err)"

definition get_header :: "header option \<Rightarrow> header" where
  "get_header h = (case h of None \<Rightarrow> [] | Some x \<Rightarrow> x)"

definition nil_bytes :: "bytes option \<Rightarrow> bytes" where
  "nil_bytes b = (case b of None \<Rightarrow> [] | Some x \<Rightarrow> x)"

text \<open>The bitmap of the device, or else the stored one; \<open>None\<close> is the panic on a nil pointer.\<close>

definition final_bitmap :: "getdoc \<Rightarrow> int option" where
  "final_bitmap g = Option.bind (gd_device g) (\<lambda>n.
     if rd_bitmap n \<noteq> 0 then Some (rd_bitmap n) else map_option rd_bitmap (gd_cloud g))"

definition store_unless_skipped ::
  "'s db_client \<Rightarrow> string \<Rightarrow> header \<Rightarrow> document \<Rightarrow> document \<Rightarrow> bool \<Rightarrow> string gomap \<Rightarrow> (string \<Rightarrow> int)
     \<Rightarrow> ('s, unit) prog" where
  "store_unless_skipped c mac h newDoc old toDelete vm now =
     (if hget h HeaderUpstreamResponse \<noteq> SkipDbUpdate
      then WriteDocumentFromUpstream c mac (hget h HeaderEtag) newDoc old toDelete vm now
      else ret ())"

definition finish_upstream ::
  "'s server \<Rightarrow> 'n services \<Rightarrow> string \<Rightarrow> ticks \<Rightarrow> getdoc \<Rightarrow> document \<Rightarrow> bytes option \<Rightarrow> do_result
     \<Rightarrow> ('s, reply) prog" where
  "finish_upstream sv sx mac tk g document respBytes r =
     (let c = DatabaseClient sv;
          h = get_header (dr_header r)
      in case ParseMultipartAsList (sx_mime sx) h (nil_bytes (dr_bytes r)) of
           Inl err \<Rightarrow> reply_err 500 [] respBytes err
         | Inr mparts \<Rightarrow>
             deref (final_bitmap g) (\<lambda>bitmap.
               (let root = NewRootDocument bitmap '''' '''' '''' '''' (hget h HeaderEtag) '''' '''' '''';
                    final = SetSubDocuments (NewDocument (Some root)) mparts
                in tryE (store_unless_skipped c mac h final document False (gd_versions g) (tk_write tk))
                     (reply_err 500 h (dr_bytes r))
                     (\<lambda>_. let filtered = by_bitmap sv
                              (delete_all (FilterForGet final (gd_versions g)) (db_BlockedSubdocIds c))
                          in if doc_Length filtered = 0 then reply_with 304 h None
                             else tryE (LoadRefSubDocuments c filtered) (reply_err 500 h None)
                                    (\<lambda>d. tryE (of_result (doc_Bytes d)) (reply_err 500 h None)
                                      (reply_with 200 h))))))"

text \<open>The document that is sent or posted, its bytes and the status so far.\<close>

definition outgoing ::
  "'s server \<Rightarrow> bool \<Rightarrow> document \<Rightarrow> ('s, document \<times> bytes option \<times> int) prog" where
  "outgoing sv postUpstream document =
     (if doc_Length document > 0
      then tryE (if \<not> postUpstream then LoadRefSubDocuments (DatabaseClient sv) document else ret document) throw
             (\<lambda>d. tryE (of_result (doc_Bytes (by_bitmap sv d))) throw (\<lambda>b. ret (by_bitmap sv d, b, 200)))
      else ret (document, None, if length (RootVersion document) = 0 then 404 else 304))"

definition post_document ::
  "'s server \<Rightarrow> 'n services \<Rightarrow> header \<Rightarrow> string \<Rightarrow> ticks \<Rightarrow> getdoc \<Rightarrow> document \<Rightarrow> bytes option
     \<Rightarrow> (('s, 'n) backend, reply) prog" where
  "post_document sv sx rHeader mac tk g document respBytes = (\<lambda>s.
     deref (request_to_upstream sx rHeader (be_fields s) mac (RootVersion document) g) (\<lambda>upstreamHeader.
       tryE (at_net (PostUpstream (sx_net sx) (sx_upstream sx) mac upstreamHeader (nil_bytes respBytes) (tk_call tk)))
         throw
         (\<lambda>r. case dr_err r of
            Some err \<Rightarrow> upstream_failed err
          | None \<Rightarrow> at_db (finish_upstream sv sx mac tk g document respBytes r))) s)"

definition answer_known ::
  "'s server \<Rightarrow> 'n services \<Rightarrow> header \<Rightarrow> string \<Rightarrow> ticks \<Rightarrow> getdoc \<Rightarrow> string \<Rightarrow> document \<Rightarrow> bool
     \<Rightarrow> (('s, 'n) backend, reply) prog" where
  "answer_known sv sx rHeader mac tk g userAgent document postUpstream =
     tryE (at_db (outgoing sv postUpstream document)) (reply_err 500 [] None) (\<lambda>(d, respBytes, respStatus).
       if userAgent = ''mget'' then reply_with respStatus (multipart_header (RootVersion d)) respBytes
       else if \<not> postUpstream
       then tryE (at_db (UpdateDocumentStateIndeployment (DatabaseClient sv) mac d (tk_deploy tk)))
              (reply_err 500 [] None)
              (\<lambda>_. reply_with (if doc_Length d = 0 then 304 else respStatus)
                     (multipart_header (RootVersion d)) respBytes)
       else post_document sv sx rHeader mac tk g d respBytes)"

text \<open>Not found is no error here: the upstream service may know the device.\<close>

definition answer_upstream ::
  "'s server \<Rightarrow> 'n services \<Rightarrow> header \<Rightarrow> string \<Rightarrow> ticks \<Rightarrow> getdoc \<Rightarrow> (('s, 'n) backend, reply) prog" where
  "answer_upstream sv sx rHeader mac tk g =
     (let c = DatabaseClient sv;
          userAgent = hget rHeader HeaderUserAgent;
          document = (case gd_document g of
              None \<Rightarrow> NewDocument (Some (NewRootDocument 0 '''' '''' '''' '''' '''' '''' '''' ''''))
            | Some d \<Rightarrow> d);
          postUpstream = (gd_upstream g \<or> gd_err g \<noteq> None) \<and> userAgent \<noteq> ''mget''
      in case err_such (\<lambda>e. \<not> db_IsDbNotFound c e) (gd_err g) of
           Some err \<Rightarrow> reply_err 500 [] None err
         | None \<Rightarrow> answer_known sv sx rHeader mac tk g userAgent document postUpstream)"

section \<open>Factory reset\<close>

definition factory_partner :: "header \<Rightarrow> fields \<Rightarrow> string" where
  "factory_partner rHeader flds =
     (let p = hget rHeader HeaderPartnerID in if length p = 0 then dict_GetString flds ''partner'' '''' else p)"

definition request_to_factory ::
  "'n services \<Rightarrow> header \<Rightarrow> fields \<Rightarrow> string \<Rightarrow> string \<Rightarrow> string \<Rightarrow> header option" where
  "request_to_factory sx rHeader flds mac partnerId rootVersion =
     (let h1 = put_all [(HeaderContentType, MultipartContentType), (HeaderEtag, rootVersion),
                        (HeaderUpstreamNewPartnerId, partnerId)] rHeader
      in map_option (token_header sx rHeader mac) (set_from_field flds ''audit_id'' HeaderAuditid h1))"

definition finish_factory ::
  "'s server \<Rightarrow> 'n services \<Rightarrow> string \<Rightarrow> ticks \<Rightarrow> rootdoc \<Rightarrow> document \<Rightarrow> bytes option \<Rightarrow> do_result
     \<Rightarrow> ('s, reply) prog" where
  "finish_factory sv sx mac tk root document oldDocBytes r =
     (let c = DatabaseClient sv;
          h = get_header (dr_header r)
      in case ParseMultipartAsList (sx_mime sx) h (nil_bytes (dr_bytes r)) of
           Inl err \<Rightarrow> reply_err 500 [] oldDocBytes err
         | Inr mparts \<Rightarrow>
             (let finalRoot = (root_Clone root)\<lparr>rd_version := hget h HeaderEtag\<rparr>;
                  final = delete_all (SetSubDocuments (NewDocument (Some finalRoot)) mparts) (db_BlockedSubdocIds c)
              in tryE (store_unless_skipped c mac h final document True [] (tk_write tk))
                   (reply_err 500 h (dr_bytes r))
                   (\<lambda>_. if doc_Length final = 0 then reply_with 404 h None
                         else tryE (LoadRefSubDocuments c final) (reply_err 500 h None)
                                (\<lambda>d. tryE (of_result (doc_Bytes (by_bitmap sv d))) (reply_err 500 h None)
                                  (reply_with 200 h)))))"

text \<open>The stored root document and the document with it; \<open>Inr\<close> is an early reply.\<close>

definition factory_document ::
  "'s server \<Rightarrow> header \<Rightarrow> string \<Rightarrow> string \<Rightarrow> ('s, (rootdoc \<times> document) + reply) prog" where
  "factory_document sv rHeader mac partnerId =
     (let c = DatabaseClient sv;
          done_with = (\<lambda>m. tryE m throw (\<lambda>r. ret (Inr r)))
      in tryE (PreprocessRootDocument c rHeader mac partnerId)
           (\<lambda>err. done_with (reply_err 500 [] None err))
           (\<lambda>root. tryE (db_GetDocument c mac False)
              (\<lambda>err. done_with (if db_IsDbNotFound c err then reply_with 404 [] None else reply_err 500 [] None err))
              (\<lambda>(document, gerr). case gerr of
                 Some err \<Rightarrow>
                   done_with (if db_IsDbNotFound c err then reply_with 404 [] None else reply_err 500 [] None err)
               | None \<Rightarrow> ret (Inl (root, case document of
                     None \<Rightarrow> NewDocument (Some root) | Some d \<Rightarrow> SetRootDoc d (Some root))))))"

definition BuildFactoryResetResponse ::
  "'s server \<Rightarrow> 'n services \<Rightarrow> header \<Rightarrow> ticks \<Rightarrow> (('s, 'n) backend, reply) prog" where
  "BuildFactoryResetResponse sv sx rHeader tk = (\<lambda>s.
     let c = DatabaseClient sv;
         mac = hget rHeader HeaderDeviceId;
         partnerId = factory_partner rHeader (be_fields s)
     in tryE (at_db (factory_document sv rHeader mac partnerId)) throw (\<lambda>x. case x of
          Inr r \<Rightarrow> ret r
        | Inl (root, document) \<Rightarrow>
            tryE (of_result (doc_Bytes document)) (reply_err 500 [] None) (\<lambda>oldDocBytes.
              if \<not> upstreamEnabled sv
              then tryE (at_db (db_DeleteDocument c mac)) (reply_err 500 [] None) (\<lambda>_. reply_with 404 [] None)
              else (\<lambda>s'. deref (request_to_factory sx rHeader (be_fields s') mac partnerId (RootVersion document))
                (\<lambda>upstreamHeader.
                  tryE (at_net (PostUpstream (sx_net sx) (sx_upstream sx) mac upstreamHeader (nil_bytes oldDocBytes)
                      (tk_call tk))) throw
                    (\<lambda>r. case dr_err r of
                       Some err \<Rightarrow> upstream_failed err
                     | None \<Rightarrow> at_db (finish_factory sv sx mac tk root document oldDocBytes r))) s'))) s)"

section \<open>The reply to a device\<close>

definition rewrap :: "reply \<Rightarrow> reply" where
  "rewrap r = r\<lparr>rp_err := map_option NewError (rp_err r)\<rparr>"

definition BuildWebconfigResponse ::
  "'s server \<Rightarrow> 'n services \<Rightarrow> header \<Rightarrow> ticks \<Rightarrow> (('s, 'n) backend, reply) prog" where
  "BuildWebconfigResponse sv sx rHeader tk =
     seqE (put_field ''for_device'' (IBool True)) (seqE (put_field ''is_primary'' (IBool True)) (\<lambda>s.
       let c = DatabaseClient sv;
           mac = hget rHeader HeaderDeviceId;
           userAgent = hget rHeader HeaderUserAgent;
           ifNoneMatch = hget rHeader HeaderIfNoneMatch
       in (if ifNoneMatch = ''NONE'' \<or> ifNoneMatch = ''NONE-REBOOT''
           then tryE (BuildFactoryResetResponse sv sx rHeader tk) throw (\<lambda>r. ret (rewrap r))
           else tryE (at_db (BuildGetDocument c rHeader (be_fields s) (tk_correct tk) (tk_lock tk))) throw (\<lambda>g.
             seqE (if kafkaProducerEnabled sv \<and> db_StateCorrectionEnabled c \<and> length (gd_messages g) > 0
                   then ForwardSuccessKafkaMessages sv (tk_uuid tk) (gd_messages g) else ret ())
               (case err_such (\<lambda>e. errors_Is e ErrRootDocumentLocked) (gd_err g) of
                  Some err \<Rightarrow> reply_err 409 [] None err
                | None \<Rightarrow>
                    if \<not> upstreamEnabled sv then at_db (answer_local sv mac userAgent (tk_deploy tk) g)
                    else answer_upstream sv sx rHeader mac tk g))) s))"

section \<open>Facts\<close>

lemma reply_with_apply [simp]:
  "reply_with st h b s = (Ok \<lparr>rp_status = st, rp_header = h, rp_bytes = b, rp_err = None\<rparr>, s)"
  by (simp add: reply_with_def)

lemma reply_err_apply [simp]:
  "reply_err st h b e s = (Ok \<lparr>rp_status = st, rp_header = h, rp_bytes = b, rp_err = Some (NewError e)\<rparr>, s)"
  by (simp add: reply_err_def)

lemma at_db_eq: "at_db m s = (r, s') \<longleftrightarrow> (\<exists>d. m (be_db s) = (r, d) \<and> s' = s\<lparr>be_db := d\<rparr>)"
  by (auto simp: at_db_def split: prod.splits)

lemma at_net_eq: "at_net m s = (r, s') \<longleftrightarrow> (\<exists>d. m (be_remote s) = (r, d) \<and> s' = s\<lparr>be_remote := d\<rparr>)"
  by (auto simp: at_net_def split: prod.splits)

lemma of_result_eq [simp]: "of_result r s = (q, s') \<longleftrightarrow> r = q \<and> s' = s"
  by (auto simp: of_result_def)

lemma seqE_eq_Ok: "seqE m n s = (Ok x, s') \<longleftrightarrow> (\<exists>u s1. m s = (Ok u, s1) \<and> n s1 = (Ok x, s'))"
  by (auto simp: seqE_def tryE_eq_Ok)

lemma by_bitmap_ok: "doc_ok d \<Longrightarrow> doc_ok (by_bitmap sv d)"
  by (simp add: by_bitmap_def FilterByBitmap_ok)

lemma by_bitmap_entries:
  "doc_ok d \<Longrightarrow> map_of (docmap (by_bitmap sv d)) k = Some x \<Longrightarrow> map_of (docmap d) k = Some x"
  by (auto simp: by_bitmap_def FilterByBitmap_docmap doc_ok_def map_of_filter_key
      split: if_splits option.splits)

text \<open>Loading a reference changes the payload only.\<close>

lemma loaded_subdoc_sel:
  "loaded_subdoc c s x = Some y \<Longrightarrow> sd_version y = sd_version x \<and> sd_state y = sd_state x"
  by (auto simp: loaded_subdoc_def split: option.splits outcome.splits)

lemma loaded_subdoc_plain:
  "loaded_subdoc c s x = Some y \<Longrightarrow> GetRefId (payload_bytes (sd_payload x)) = None \<Longrightarrow> y = x"
  by (simp add: loaded_subdoc_def)

lemma with_metadata_Some:
  assumes "with_metadata g = Some (Some d)"
  shows "\<exists>d0. gd_document g = Some d0 \<and> docmap d = docmap d0"
  using assms by (auto simp: with_metadata_def split: if_splits option.splits)

end
