(* ===== verification/ConfigFacts.thy ===== *)
theory ConfigFacts
  imports ConfigResponse HandlerFacts
begin

text \<open>
  What the answer to a GET sends and what it leaves behind: proved over the contract
  \<open>db_store\<close> and stated for the sqlite client over any SQL engine.
\<close>

text \<open>
  \<open>sent_doc c cont d0 cont' d\<close>: the document \<open>d\<close> that is sent has only entries of the document
  \<open>d0\<close> that was read, none of them blocked, and each is deployed, was in deployment before, or
  is stored in deployment afterwards.
\<close>

definition sent_doc ::
  "'s db_client \<Rightarrow> (string \<Rightarrow> subdoc option) \<Rightarrow> document \<Rightarrow> document \<Rightarrow> bool" where
  "sent_doc c cont' d0 d \<longleftrightarrow> docmap d \<noteq> [] \<and> doc_ok d \<and>
     (\<forall>k x. map_of (docmap d) k = Some x \<longrightarrow>
        k \<notin> set (db_BlockedSubdocIds c)
        \<and> (\<exists>y. map_of (docmap d0) k = Some y \<and> sd_version x = sd_version y \<and> sd_state x = sd_state y
            \<and> (GetRefId (payload_bytes (sd_payload y)) = None \<longrightarrow> x = y))
        \<and> (sd_state x \<noteq> Some Deployed \<and> sd_state x \<noteq> Some InDeployment \<longrightarrow>
            (\<exists>z. cont' k = Some z \<and> sd_state z = Some InDeployment)))"

context db_store
begin

lemma UpdateDocumentStateIndeployment_ok:
  assumes inv: "inv s" and ok: "doc_ok d" and run: "UpdateDocumentStateIndeployment c mac d t s = (Ok u, s')"
    and x: "map_of (docmap d) k = Some x" "sd_state x \<noteq> Some Deployed" "sd_state x \<noteq> Some InDeployment"
  shows "\<exists>z. content s' mac k = Some z \<and> sd_state z = Some InDeployment"
proof -
  from run obtain l v where
      "for_each (mark_indeployment c mac t (gomap_put ''client'' ''default'' l)) (docmap d) s = (Ok v, s')"
    unfolding UpdateDocumentStateIndeployment_def by (auto simp: bindE_eq_Ok dest!: get_labels_state)
  from indeployment_loop_ok[OF inv _ this, of mac k] ok x
  have "content s' mac k = Some (store (indeployment_subdoc t) (content s mac k))"
    by (simp add: doc_ok_def)
  moreover have "sd_state (store (indeployment_subdoc t) old) = Some InDeployment" for old
    using store_merges by (simp add: merges_def Let_def indeployment_subdoc_def NewSubDocument_def)
  ultimately show ?thesis by blast
qed

lemma send_document_ok:
  assumes inv: "inv s" and ok: "doc_ok d" and ua: "ua \<noteq> ''mget''" and c: "DatabaseClient sv = c"
    and run: "send_document sv mac ua t d s = (Ok r, s')" and st: "rp_status r = 200"
  shows "doc_Bytes d = Ok (rp_bytes r)"
    "map_of (docmap d) k = Some x \<Longrightarrow> sd_state x \<noteq> Some Deployed \<Longrightarrow> sd_state x \<noteq> Some InDeployment \<Longrightarrow>
      \<exists>z. content s' mac k = Some z \<and> sd_state z = Some InDeployment"
proof -
  from run st ua c obtain b u where b: "doc_Bytes d = Ok b" "rp_bytes r = b"
    and upd: "UpdateDocumentStateIndeployment c mac d t s = (Ok u, s')"
    unfolding send_document_def by (fastforce simp: tryE_eq_Ok)
  show "doc_Bytes d = Ok (rp_bytes r)" using b by simp
  show "map_of (docmap d) k = Some x \<Longrightarrow> sd_state x \<noteq> Some Deployed \<Longrightarrow> sd_state x \<noteq> Some InDeployment \<Longrightarrow>
      \<exists>z. content s' mac k = Some z \<and> sd_state z = Some InDeployment"
    by (rule UpdateDocumentStateIndeployment_ok[OF inv ok upd])
qed

lemma answer_local_sent:
  assumes inv: "inv s" and ua: "ua \<noteq> ''mget''" and c: "DatabaseClient sv = c"
    and g: "\<And>d0. gd_document g = Some d0 \<Longrightarrow> doc_ok d0"
    and run: "answer_local sv mac ua t g s = (Ok r, s')" and st: "rp_status r = 200"
  shows "\<exists>d0 d. gd_document g = Some d0 \<and> doc_Bytes d = Ok (rp_bytes r) \<and> sent_doc c (content s' mac) d0 d"
proof -
  from run st obtain d1 d2 s1 where w: "with_metadata g = Some (Some d1)"
    and load: "LoadRefSubDocuments c (delete_all d1 (db_BlockedSubdocIds c)) s = (Ok d2, s1)"
    and n: "doc_Length (by_bitmap sv d2) \<noteq> 0"
    and snd: "send_document sv mac ua t (by_bitmap sv d2) s1 = (Ok r, s')"
    unfolding answer_local_def Let_def c
    by (auto simp: deref_eq_Ok tryE_eq_Ok case_apps split: if_splits option.splits)
  obtain d0 where d0: "gd_document g = Some d0" "docmap d1 = docmap d0" using with_metadata_Some[OF w] by blast
  have ok0: "doc_ok d0" using g d0(1) .
  have ok1: "doc_ok (delete_all d1 (db_BlockedSubdocIds c))"
    using ok0 d0(2) by (intro delete_all_ok) (simp add: doc_ok_def)
  note l = LoadRefSubDocuments_content[OF load ok1]
  have s1: "s1 = s" and ok2: "doc_ok d2" using l(1,2) .
  have ok3: "doc_ok (by_bitmap sv d2)" using ok2 by (rule by_bitmap_ok)
  have i1: "inv s1" using inv s1 by simp
  note snd' = send_document_ok[OF i1 ok3 ua c snd st]
  have entry: "k \<notin> set (db_BlockedSubdocIds c)
      \<and> (\<exists>y. map_of (docmap d0) k = Some y \<and> sd_version x = sd_version y \<and> sd_state x = sd_state y
          \<and> (GetRefId (payload_bytes (sd_payload y)) = None \<longrightarrow> x = y))"
    if x: "map_of (docmap (by_bitmap sv d2)) k = Some x" for k x
  proof -
    have "map_of (docmap d2) k = Some x" using by_bitmap_entries[OF ok2 x] .
    then obtain y where y: "map_of (docmap (delete_all d1 (db_BlockedSubdocIds c))) k = Some y"
      "loaded_subdoc c s y = Some x"
      using l(4)[of k] by (cases "map_of (docmap (delete_all d1 (db_BlockedSubdocIds c))) k") auto
    have "(k, y) \<in> set (docmap d0)" "k \<notin> set (db_BlockedSubdocIds c)"
      using map_of_SomeD[OF y(1)] d0(2) by (auto simp: delete_all_docmap)
    moreover from this ok0 have "map_of (docmap d0) k = Some y" by (simp add: doc_ok_def gomap_in_set)
    moreover have "GetRefId (payload_bytes (sd_payload y)) = None \<longrightarrow> x = y"
      by (intro impI) (rule loaded_subdoc_plain[OF y(2)])
    ultimately show ?thesis using loaded_subdoc_sel[OF y(2)]
      by (intro conjI exI[of _ y]) simp_all
  qed
  have "docmap (by_bitmap sv d2) \<noteq> []" using n by (simp add: doc_Length_def)
  with ok3 entry snd'(2) have "sent_doc c (content s' mac) d0 (by_bitmap sv d2)"
    unfolding sent_doc_def by blast
  with d0(1) snd'(1) show ?thesis by blast
qed

lemma BuildGetDocument_inv:
  "inv s \<Longrightarrow> BuildGetDocument c h flds t t' s = (r, s') \<Longrightarrow> inv s'"
  using keepsD[OF BuildGetDocument_root_version[of "[]" _ h flds t t']] by (auto simp: root_version_is_def)

lemma BuildWebconfigResponse_local:
  assumes inv: "inv (be_db s)" and c: "DatabaseClient sv = c" and up: "\<not> upstreamEnabled sv"
    and nm: "hget h HeaderIfNoneMatch \<noteq> ''NONE''" "hget h HeaderIfNoneMatch \<noteq> ''NONE-REBOOT''"
    and run: "BuildWebconfigResponse sv sx h tk s = (Ok r, s')"
  shows "rm_net (be_remote s') = rm_net (be_remote s) \<and> (\<exists>g d1 flds.
      BuildGetDocument c h flds (tk_correct tk) (tk_lock tk) (be_db s) = (Ok g, d1)
    \<and> (if err_such (\<lambda>e. errors_Is e ErrRootDocumentLocked) (gd_err g) \<noteq> None
       then rp_status r = 409 \<and> be_db s' = d1
       else answer_local sv (hget h HeaderDeviceId) (hget h HeaderUserAgent) (tk_deploy tk) g d1 = (Ok r, be_db s')))"
proof -
  let ?f = "gomap_put ''is_primary'' (IBool True) (gomap_put ''for_device'' (IBool True) (be_fields s))"
  let ?s1 = "s\<lparr>be_remote := (be_remote s)\<lparr>rm_fields := ?f\<rparr>\<rparr>"
  have f: "be_fields ?s1 = ?f" by (simp add: be_fields_def)
  have same: "be_db ?s1 = be_db s" "rm_net (be_remote ?s1) = rm_net (be_remote s)" by simp_all
  from run nm obtain g s2 u s3 where
      get: "at_db (BuildGetDocument c h ?f (tk_correct tk) (tk_lock tk)) ?s1 = (Ok g, s2)"
    and fwd: "(if kafkaProducerEnabled sv \<and> db_StateCorrectionEnabled c \<and> length (gd_messages g) > 0
        then ForwardSuccessKafkaMessages sv (tk_uuid tk) (gd_messages g) else ret ()) s2 = (Ok u, s3)"
    and ans: "(case err_such (\<lambda>e. errors_Is e ErrRootDocumentLocked) (gd_err g) of
          Some err \<Rightarrow> reply_err 409 [] None err
        | None \<Rightarrow>
            if \<not> upstreamEnabled sv
            then at_db (answer_local sv (hget h HeaderDeviceId) (hget h HeaderUserAgent) (tk_deploy tk) g)
            else answer_upstream sv sx h (hget h HeaderDeviceId) tk g) s3 = (Ok r, s')"
    unfolding BuildWebconfigResponse_def put_field_def be_fields_def Let_def c
    by (auto simp: seqE_eq_Ok tryE_eq_Ok)
  from get obtain d1 where g: "BuildGetDocument c h ?f (tk_correct tk) (tk_lock tk) (be_db s) = (Ok g, d1)"
    and s2: "be_db s2 = d1" "be_remote s2 = be_remote ?s1"
    using same by (auto simp: at_db_eq)
  have s3: "be_db s3 = d1" "be_remote s3 = be_remote ?s1"
    using fwd s2 by (auto simp: ForwardSuccessKafkaMessages_def split: if_splits)
  have net: "rm_net (be_remote s') = rm_net (be_remote s)"
    using ans s3 same(2) up by (auto simp: at_db_eq split: option.splits)
  have "if err_such (\<lambda>e. errors_Is e ErrRootDocumentLocked) (gd_err g) \<noteq> None
       then rp_status r = 409 \<and> be_db s' = d1
       else answer_local sv (hget h HeaderDeviceId) (hget h HeaderUserAgent) (tk_deploy tk) g d1 = (Ok r, be_db s')"
    using ans s3(1) up by (auto simp: at_db_eq split: option.splits)
  with g net show ?thesis by blast
qed

lemma BuildWebconfigResponse_sent:
  assumes inv: "inv (be_db s)" and c: "DatabaseClient sv = c" and up: "\<not> upstreamEnabled sv"
    and nm: "hget h HeaderIfNoneMatch \<noteq> ''NONE''" "hget h HeaderIfNoneMatch \<noteq> ''NONE-REBOOT''"
    and mac: "IsPrintable (hget h HeaderDeviceId)" "mac = hget h HeaderDeviceId"
    and ua: "hget h HeaderUserAgent \<noteq> ''mget''"
    and run: "BuildWebconfigResponse sv sx h tk s = (Ok r, s')" and st: "rp_status r = 200"
  shows "rm_net (be_remote s') = rm_net (be_remote s) \<and> (\<exists>d0 d.
      doc_Bytes d = Ok (rp_bytes r) \<and> sent_doc c (content (be_db s') mac) d0 d
    \<and> (\<forall>k y. map_of (docmap d0) k = Some y \<longrightarrow>
         (\<exists>z. content (be_db s) mac k = Some z \<and> y = z\<lparr>sd_expiry := None\<rparr>)))"
proof -
  note b = BuildWebconfigResponse_local[OF inv c up nm run]
  from b st obtain g d1 flds where
      get: "BuildGetDocument c h flds (tk_correct tk) (tk_lock tk) (be_db s) = (Ok g, d1)"
    and ans: "answer_local sv mac (hget h HeaderUserAgent) (tk_deploy tk) g d1 = (Ok r, be_db s')"
    using mac(2) by (auto split: if_splits)
  have m: "fst (rheader_Get h HeaderDeviceId) = mac" using mac by (simp add: rheader_Get_value)
  have send: "sendable (be_db s) mac (gd_versions g) (gd_upstream g) d" if "gd_document g = Some d" for d
    using BuildGetDocument_sendable[OF inv get that] m by simp
  have ok: "doc_ok d" if "gd_document g = Some d" for d using send[OF that] by (simp add: sendable_def)
  have i1: "inv d1" using BuildGetDocument_inv[OF inv get] .
  from answer_local_sent[OF i1 ua c ok ans st] send b show ?thesis
    unfolding sendable_def by blast
qed

end

context sql_engine
begin

lemmas sqlite_sent = store.BuildWebconfigResponse_sent

end

section \<open>Isolation\<close>

text \<open>What only concerns the database is kept by everything that does not touch it.\<close>

definition db_has :: "('s \<Rightarrow> bool) \<Rightarrow> ('s, 'n) backend \<Rightarrow> bool" where
  "db_has P s = P (be_db s)"

lemma keeps_at_db [keeps_intros]: "keeps P m \<Longrightarrow> keeps (db_has P) (at_db m)"
  by (simp add: keeps_def at_db_def db_has_def split: prod.split) (metis snd_conv)

lemma keeps_at_net [keeps_intros]: "keeps (db_has P) (at_net m)"
  and keeps_put_field [keeps_intros]: "keeps (db_has P) (put_field k v)"
  and keeps_forward_success [keeps_intros]: "keeps (db_has P) (ForwardSuccessKafkaMessages sv u ms)"
  by (auto simp: keeps_def at_net_def put_field_def ForwardSuccessKafkaMessages_def db_has_def split: prod.splits)

lemma keeps_reading: "(\<And>x. keeps P (k x)) \<Longrightarrow> keeps P (\<lambda>s. deref (g s) k s)"
  by (auto simp: keeps_def deref_def split: option.splits)

lemma keeps_run: "P s \<Longrightarrow> keeps P m \<Longrightarrow> P (snd (m s))"
  by (simp add: keeps_def)

lemma keeps_of_result [keeps_intros]: "keeps P (of_result r)"
  by (simp add: keeps_def of_result_def)

lemma keeps_replies [keeps_intros]: "keeps P (reply_with st h b)" "keeps P (reply_err st h b e)"
  "keeps P (upstream_failed e)"
  by (simp_all add: reply_with_def reply_err_def upstream_failed_def split: option.splits)

context db_frame
begin

lemma frame_store_unless_skipped [keeps_intros]:
  "keeps (others_same mac s0) (store_unless_skipped c mac h nd old del vm now)"
  unfolding store_unless_skipped_def by (intro keeps_intros frame_WriteDocumentFromUpstream)

lemma frame_send_document [keeps_intros]:
  assumes sv: "DatabaseClient sv = c"
  shows "keeps (others_same mac s0) (send_document sv mac ua t d)"
  unfolding send_document_def sv by (intro keeps_intros frame_UpdateDocumentStateIndeployment)

lemma frame_answer_local [keeps_intros]:
  assumes sv: "DatabaseClient sv = c"
  shows "keeps (others_same mac s0) (answer_local sv mac ua t g)"
  unfolding answer_local_def Let_def sv
  by (auto intro!: keeps_intros sv frame_LoadRefSubDocuments split: option.splits)

lemma frame_finish_upstream [keeps_intros]:
  assumes sv: "DatabaseClient sv = c"
  shows "keeps (others_same mac s0) (finish_upstream sv sx mac tk g d b r)"
  unfolding finish_upstream_def Let_def sv
  by (auto intro!: keeps_intros sv frame_LoadRefSubDocuments split: sum.splits)

lemma frame_finish_factory [keeps_intros]:
  assumes sv: "DatabaseClient sv = c"
  shows "keeps (others_same mac s0) (finish_factory sv sx mac tk root d b r)"
  unfolding finish_factory_def Let_def sv
  by (auto intro!: keeps_intros sv frame_LoadRefSubDocuments split: sum.splits)

lemma frame_outgoing [keeps_intros]:
  assumes sv: "DatabaseClient sv = c"
  shows "keeps P (outgoing sv up d)"
  unfolding outgoing_def sv by (auto intro!: keeps_intros sv frame_LoadRefSubDocuments)

lemma frame_post_document [keeps_intros]:
  assumes sv: "DatabaseClient sv = c"
  shows "keeps (db_has (others_same mac s0)) (post_document sv sx h mac tk g d b)"
  unfolding post_document_def sv
  by (rule keepsI, erule keeps_run) (auto intro!: keeps_intros sv split: option.splits)

lemma frame_answer_upstream [keeps_intros]:
  assumes sv: "DatabaseClient sv = c"
  shows "keeps (db_has (others_same mac s0)) (answer_upstream sv sx h mac tk g)"
  unfolding answer_upstream_def answer_known_def Let_def sv
  by (auto intro!: keeps_intros sv frame_UpdateDocumentStateIndeployment split: option.splits)

lemma frame_factory_document [keeps_intros]:
  assumes sv: "DatabaseClient sv = c"
  shows "keeps (others_same mac s0) (factory_document sv h mac p)"
  unfolding factory_document_def Let_def sv
  by (auto intro!: keeps_intros sv frame_PreprocessRootDocument split: option.splits)

lemma frame_BuildFactoryResetResponse [keeps_intros]:
  assumes sv: "DatabaseClient sv = c" and mac: "mac = hget h HeaderDeviceId"
  shows "keeps (db_has (others_same mac s0)) (BuildFactoryResetResponse sv sx h tk)"
  unfolding BuildFactoryResetResponse_def Let_def mac[symmetric] sv
  by (rule keepsI, erule keeps_run)
     (auto intro!: keeps_intros keeps_reading sv split: sum.splits option.splits)

lemma frame_BuildWebconfigResponse:
  assumes sv: "DatabaseClient sv = c" and mac: "mac = hget h HeaderDeviceId" "IsPrintable mac"
  shows "keeps (db_has (others_same mac s0)) (BuildWebconfigResponse sv sx h tk)"
proof -
  have get: "keeps (others_same mac s0) (BuildGetDocument c h flds t t')" for flds t t'
    using frame_BuildGetDocument[of h s0 flds t t'] mac by (simp add: rheader_Get_value)
  show ?thesis
    unfolding BuildWebconfigResponse_def Let_def mac(1)[symmetric] sv
    by (intro keeps_seqE keeps_put_field, rule keepsI, erule keeps_run)
       (auto intro!: keeps_intros sv mac get split: option.splits)
qed

end

end
