(* ===== verification/Handlers.thy ===== *)
theory Handlers
  imports DocumentHandlers
begin

text \<open>
  The short handlers: http/rootdocument_handler.go, http/refsubdocument_handler.go,
  http/supported_groups_handler.go, http/token_handler.go and http/simple_handler.go.
\<close>

section \<open>Root documents\<close>

definition invalid_mac :: goerr where
  "invalid_mac = NewError (Http400Error ''invalid mac'')"

definition route_mac :: "http_request \<Rightarrow> string" where
  "route_mac r = gomap_get '''' (rq_vars r) ''mac''"

text \<open>The mac of the route is checked as it is written: a lower-case one is refused.\<close>

definition GetRootDocumentHandler :: "'s server \<Rightarrow> http_request \<Rightarrow> ('s web, unit) prog" where
  "GetRootDocumentHandler sv r =
     (let mac = route_mac r
      in if validateMacEnabled sv \<and> \<not> ValidateMac mac then http_Error (errs sv) 400 (Some invalid_mac)
         else tryE (on_db (db_GetRootDocument (DatabaseClient sv) (to_upper mac)))
                (\<lambda>err. if db_IsDbNotFound (DatabaseClient sv) err then http_Error (errs sv) 404 None
                       else http_Error (errs sv) 500 (Some err))
                (\<lambda>rootdoc. WriteOkResponse (Some (rootdoc_json rootdoc))))"

text \<open>
  \<open>parse\<close> is \<open>json.Unmarshal\<close> into a pointer: the text null leaves it nil, and reading its
  model name panics.
\<close>

definition PostRootDocumentHandler ::
  "'s server \<Rightarrow> (bytes \<Rightarrow> goerr + rootdoc option) \<Rightarrow> http_request \<Rightarrow> ('s web, unit) prog" where
  "PostRootDocumentHandler sv parse r = with_w (\<lambda>w.
     let mac = route_mac r
     in if validateMacEnabled sv \<and> \<not> ValidateMac mac then http_Error (errs sv) 400 (Some invalid_mac)
        else (case w_x w of
            None \<Rightarrow> http_Error (errs sv) 500 (Some (NewError (Http500Error ''responsewriter cast error'')))
          | Some xw \<Rightarrow>
              if length (xw_bodyBytes xw) = 0
              then http_Error (errs sv) 400 (Some (NewError (Http400Error ''empty body'')))
              else (case parse (xw_bodyBytes xw) of
                  Inl err \<Rightarrow> http_Error (errs sv) 400 (Some (NewError err))
                | Inr p \<Rightarrow> deref p (\<lambda>rootdoc.
                    tryE (on_db (db_SetRootDocument (DatabaseClient sv) (to_upper mac) rootdoc))
                      (\<lambda>err. http_Error (errs sv) 500 (Some (NewError err)))
                      (\<lambda>_. WriteOkResponse (Some (rootdoc_json rootdoc)))))))"

section \<open>Shared payloads\<close>

definition GetRefSubDocumentHandler :: "'s server \<Rightarrow> http_request \<Rightarrow> ('s web, unit) prog" where
  "GetRefSubDocumentHandler sv r = with_w (\<lambda>w.
     case ValidateRefData w r False of
       Inl err \<Rightarrow> reject sv err
     | Inr (refId, _) \<Rightarrow>
         tryE (on_db (db_GetRefSubDocument (DatabaseClient sv) refId))
           (\<lambda>err. if db_IsDbNotFound (DatabaseClient sv) err then http_Error (errs sv) 404 None
                  else seqE (SetAuditValue ''error'' IOther) (http_Error (errs sv) 500 (Some (NewError err))))
           (\<lambda>refsubdoc.
              seqE (set_header HeaderContentType HeaderApplicationMsgpack)
             (seqE (set_header_opt HeaderRefSubdocumentVersion (rs_version refsubdoc))
             (seqE (w_WriteHeader 200) (w_Write (payload_bytes (rs_payload refsubdoc)))))))"

definition PostRefSubDocumentHandler :: "'s server \<Rightarrow> http_request \<Rightarrow> ('s web, unit) prog" where
  "PostRefSubDocumentHandler sv r = with_w (\<lambda>w.
     case ValidateRefData w r True of
       Inl err \<Rightarrow> reject sv err
     | Inr (refId, bbytes) \<Rightarrow>
         (let refsubdoc = NewRefSubDocument (Some bbytes)
                (Some (posted_version (murmur3 sv) (rq_header r) bbytes))
          in tryE (on_db (db_SetRefSubDocument (DatabaseClient sv) refId refsubdoc))
               (\<lambda>err. http_Error (errs sv) 500 (Some (NewError err)))
               (\<lambda>_. WriteOkResponse None)))"

definition DeleteRefSubDocumentHandler :: "'s server \<Rightarrow> http_request \<Rightarrow> ('s web, unit) prog" where
  "DeleteRefSubDocumentHandler sv r = with_w (\<lambda>w.
     case ValidateRefData w r False of
       Inl err \<Rightarrow> reject sv err
     | Inr (refId, _) \<Rightarrow>
         tryE (on_db (db_DeleteRefSubDocument (DatabaseClient sv) refId))
           (delete_failed sv) (\<lambda>_. WriteOkResponse None))"

section \<open>Supported groups\<close>

definition groups_json :: "int \<Rightarrow> jval" where
  "groups_json bitmap = JObj [(''bitmap'', JInt bitmap),
     (''groups'', json_map (map (\<lambda>(k, b). (k, JBool b)) (GetSupportedMap bitmap)))]"

definition GetSupportedGroupsHandler :: "'s server \<Rightarrow> http_request \<Rightarrow> ('s web, unit) prog" where
  "GetSupportedGroupsHandler sv r =
     (let mac = to_upper (route_mac r)
      in if \<not> ValidateMac mac then http_Error (errs sv) 400 (Some (NewError (ErrText ''invalid mac'')))
         else tryE (on_db (db_GetRootDocument (DatabaseClient sv) mac))
                (\<lambda>err. if db_IsDbNotFound (DatabaseClient sv) err then http_Error (errs sv) 404 (errors_Unwrap err)
                       else http_Error (errs sv) 500 (Some err))
                (\<lambda>rdoc. WriteOkResponse (Some (groups_json (rd_bitmap rdoc)))))"

section \<open>Tokens\<close>

text \<open>\<open>parse\<close> is \<open>json.Unmarshal\<close> into the mac, the ttl and the partner; a nil manager panics.\<close>

definition CreateTokenHandler ::
  "'s server \<Rightarrow> (string \<Rightarrow> int \<Rightarrow> string option \<Rightarrow> string) option \<Rightarrow> (bytes \<Rightarrow> goerr + (string \<times> int \<times> string))
     \<Rightarrow> ('s web, unit) prog" where
  "CreateTokenHandler sv m parse = with_w (\<lambda>w.
     case w_x w of
       None \<Rightarrow> http_Error (errs sv) 500 (Some (NewError (ErrText ''responsewriter cast error'')))
     | Some xw \<Rightarrow>
         (case parse (xw_bodyBytes xw) of
            Inl err \<Rightarrow> http_Error (errs sv) 500 (Some err)
          | Inr (mac, ttl, partnerId) \<Rightarrow>
              deref m (\<lambda>generate. WriteOkResponse (Some (JStr
                (generate (to_lower mac) ttl (if length partnerId > 0 then Some partnerId else None)))))))"

section \<open>Simple answers\<close>

definition VersionHandler :: "string \<Rightarrow> string \<Rightarrow> string \<Rightarrow> string \<Rightarrow> string \<Rightarrow> string \<Rightarrow> ('s web, unit) prog" where
  "VersionHandler commit built binary branch binaryBuilt openLib = WriteOkResponse (Some (JObj
     ([(''code_git_commit'', JStr commit), (''build_time'', JStr built), (''binary_version'', JStr binary),
       (''binary_branch'', JStr branch), (''binary_build_time'', JStr binaryBuilt)]
      @ omit_str ''open_lib_version'' openLib)))"

definition MonitorHandler :: "('s web, unit) prog" where
  "MonitorHandler = set_header ''Content-length'' ''0''"

definition getValue :: "goerr + string" where
  "getValue = Inl (NewError (ErrText ''hello world ERR''))"

definition NotificationHandler :: "'s server \<Rightarrow> ('s web, unit) prog" where
  "NotificationHandler sv = (case getValue of
     Inl err \<Rightarrow> http_Error (errs sv) 500 (Some (NewError err)) | Inr _ \<Rightarrow> WriteOkResponse None)"

definition ServerConfigHandler :: "bytes \<Rightarrow> ('s web, unit) prog" where
  "ServerConfigHandler configBytes = seqE (w_WriteHeader 200) (w_Write configBytes)"

end
