(* ===== verification/ConfigHandlers.thy ===== *)
theory ConfigHandlers
  imports ConfigResponse Handlers HttpText
begin

text \<open>
  The handlers that use the remote services: http/multipart.go (the GET of a device),
  http/supplementary_handler.go (telemetry profiles) and http/poke_handler.go, with
  \<open>Document.HttpBytes\<close> of common/document.go.
\<close>

section \<open>The audit fields\<close>

text \<open>
  The audit fields belong to the writer; a function that gets them runs on the backend with
  these fields and leaves them in the writer.
\<close>

definition with_audit :: "(('s, 'n) backend, 'a) prog \<Rightarrow> (('s, 'n) backend web, 'a) prog" where
  "with_audit m = (\<lambda>s.
     case w_x (web_w s) of
       None \<Rightarrow> on_db m s
     | Some x \<Rightarrow>
         (case m ((web_db s)\<lparr>be_remote := (be_remote (web_db s))\<lparr>rm_fields := xw_audit x\<rparr>\<rparr>) of
            (r, b) \<Rightarrow> (r, s\<lparr>web_db := b, web_w := (web_w s)\<lparr>w_x := Some (x\<lparr>xw_audit := be_fields b\<rparr>)\<rparr>\<rparr>)))"

definition audit_of :: "writer \<Rightarrow> fields" where
  "audit_of w = (case w_x w of None \<Rightarrow> [] | Some x \<Rightarrow> xw_audit x)"

definition set_headers :: "header \<Rightarrow> ('s web, unit) prog" where
  "set_headers h = for_each (\<lambda>k. set_header k (hget h k)) (map fst h)"

definition no_writer :: "string \<Rightarrow> goerr" where
  "no_writer t = ErrText (t @ '' responsewriter cast error'')"

section \<open>Telemetry profiles\<close>

definition HeaderReqUrl :: string where "HeaderReqUrl = ''X-Req-Url''"
definition HeaderSupplementaryService :: string where
  "HeaderSupplementaryService = ''X-System-SupplementaryService-Sync''"

definition notFoundProfileText :: bytes where
  "notFoundProfileText = ''{'' @ [CHR 0x22] @ ''profiles'' @ [CHR 0x22] @ '':[]}''"

text \<open>The multipart answer with one part.\<close>

definition send_telemetry ::
  "(bytes \<Rightarrow> nat) \<Rightarrow> string \<Rightarrow> multipart \<Rightarrow> header \<Rightarrow> ('s web, unit) prog" where
  "send_telemetry m3 uuid mpart resHeader =
     (let x = hget resHeader HeaderReqUrl
      in seqE (SetAuditValue ''telemetry_version'' (IStr (mp_version mpart)))
        (seqE (set_header HeaderContentType MultipartContentType)
        (seqE (set_header HeaderEtag (GetMurmur3Hash m3 uuid))
        (seqE (if length x > 0 then set_header HeaderReqUrl x else ret ())
        (seqE (w_WriteHeader 200) (w_Write (WriteMultipartBytes [mpart])))))))"

text \<open>
  The stored profile is marked as being delivered; errors of these writes are ignored. The
  old expiry and error fields are cleared.
\<close>

definition delivered_columns :: "subdoc \<Rightarrow> string list" where
  "delivered_columns d =
     (if sd_expiry d \<noteq> None then [''expiry''] else [])
     @ (if sd_error_code d \<noteq> None then [''error_code''] else [])
     @ (if sd_error_details d \<noteq> None then [''error_details''] else [])"

definition mark_delivered :: "'s db_client \<Rightarrow> string \<Rightarrow> int \<Rightarrow> subdoc \<Rightarrow> int \<Rightarrow> ('s, unit) prog" where
  "mark_delivered c mac updatedTime telemetry state =
     (let ignore = (\<lambda>_. ret ()); cols = delivered_columns telemetry
      in tryE (db_GetRootDocumentLabels c mac) ignore (\<lambda>labels.
           seqE (tryE (db_SetSubDocument c mac ''telemetry'' (indeployment_subdoc updatedTime) state
                        (gomap_put ''client'' ''default'' labels)) ignore ret)
             (if length cols > 0
              then tryE (db_DeleteSubDocumentColumns c mac ''telemetry'' cols) ignore ret else ret ())))"

text \<open>
  The answer from the stored profile, if there is one: 304 for a deployed profile that has not
  expired, the payload for one that is still to be deployed. \<open>None\<close>: go on with the services.
\<close>

definition precooked_answer ::
  "'s server \<Rightarrow> string \<Rightarrow> ticks \<Rightarrow> int \<Rightarrow> subdoc \<Rightarrow> (('s, 'n) backend web, unit) prog option" where
  "precooked_answer sv mac tk now telemetry =
     (case sd_state telemetry of
        None \<Rightarrow> None
      | Some state \<Rightarrow>
          if state = Deployed
          then (case sd_expiry telemetry of
              None \<Rightarrow> Some (w_WriteHeader 304)
            | Some e \<Rightarrow> if e \<le> now then None else Some (w_WriteHeader 304))
          else if (state = PendingDownload \<or> state = InDeployment \<or> state = Failure)
                  \<and> length (payload_bytes (sd_payload telemetry)) > 0
          then Some (seqE (on_db (at_db (mark_delivered (DatabaseClient sv) mac (tk_deploy tk) telemetry state)))
                 (send_telemetry (murmur3 sv) (tk_uuid tk 0)
                   \<lparr>mp_bytes = payload_bytes (sd_payload telemetry), mp_version = subdoc_GetVersion telemetry,
                    mp_name = ''telemetry'', mp_state = state\<rparr> []))
          else None)"

text \<open>The first profiles: the answer of xconf, or that it has none. \<open>Inl\<close> is the error answer.\<close>

definition base_profile ::
  "'s server \<Rightarrow> do_result \<Rightarrow> (int \<times> goerr) + (bytes \<times> bool)" where
  "base_profile sv r =
     (case dr_err r of
        None \<Rightarrow> Inr (nil_bytes (dr_bytes r), False)
      | Some err \<Rightarrow>
          (case errors_As_remote err of
             None \<Rightarrow> Inl (500, NewError err)
           | Some (code, msg) \<Rightarrow>
               if code = 404 \<and> (upstreamProfilesEnabled sv \<or> defaultEmptyProfileEnabled sv)
               then Inr (nil_bytes (dr_bytes r), True)
               else Inl (code, RemoteHttpError code msg)))"

text \<open>The second profiles, with nil bytes for not found.\<close>

definition extra_profile :: "do_result \<Rightarrow> (int \<times> goerr) + bytes option" where
  "extra_profile r =
     (case dr_err r of
        None \<Rightarrow> Inr (dr_bytes r)
      | Some err \<Rightarrow>
          (case errors_As_remote err of
             None \<Rightarrow> Inl (500, NewError err)
           | Some (code, msg) \<Rightarrow> if code = 404 then Inr None else Inl (code, RemoteHttpError code msg)))"

definition finish_profile ::
  "'s server \<Rightarrow> 'n services \<Rightarrow> ticks \<Rightarrow> bool \<Rightarrow> bytes option \<Rightarrow> bytes \<Rightarrow> header \<Rightarrow> ('t web, unit) prog" where
  "finish_profile sv sx tk xconfNotFound extra profileBytes resHeader =
     (if xconfNotFound \<and> extra = None \<and> \<not> defaultEmptyProfileEnabled sv then http_Error (errs sv) 404 None
      else
        (let p = (if length profileBytes = 0 \<and> defaultEmptyProfileEnabled sv then notFoundProfileText else profileBytes)
         in case TelemetryBytesToMultipart (sx_telemetry sx) (murmur3 sv) p of
              Inl err \<Rightarrow> http_Error (errs sv) 500 (Some (NewError err))
            | Inr mpart \<Rightarrow> send_telemetry (murmur3 sv) (tk_uuid tk 0) mpart resHeader))"

text \<open>\<open>AppendProfiles\<close> may panic.\<close>

definition profiles_answer ::
  "'s server \<Rightarrow> 'n services \<Rightarrow> ticks \<Rightarrow> string \<Rightarrow> http_request \<Rightarrow> rootdoc option
     \<Rightarrow> (('s, 'n) backend web, unit) prog" where
  "profiles_answer sv sx tk mac r rootdoc =
     (let p = hget (rq_header r) HeaderPartnerID;
          partnerId = (case ValidatePartner sv p of None \<Rightarrow> p | Some _ \<Rightarrow> '''');
          stored = (case rootdoc of None \<Rightarrow> '''' | Some d \<Rightarrow> rd_query_params d);
          queryParams = (if supplementaryAppendingEnabled sv then stored else '''');
          urlSuffix = GetTelemetryQueryString (rq_header r) mac queryParams partnerId
      in seqE (SetAuditValue ''is_telemetry'' (IBool True))
         (tryE (with_audit (at_net (GetProfiles (sx_net sx) (sx_xconf sx) urlSuffix (tk_call tk)))) throw (\<lambda>res.
           case base_profile sv res of
             Inl (code, err) \<Rightarrow> http_Error (errs sv) code (Some err)
           | Inr (baseBytes, xconfNotFound) \<Rightarrow>
               (let resHeader = get_header (dr_header res)
                in if upstreamProfilesEnabled sv \<and> length stored > 0
                   then tryE (with_audit (at_net (GetUpstreamProfiles (sx_net sx) (sx_upstream sx) mac queryParams
                            (rq_header r) (tk_call tk)))) throw (\<lambda>res2.
                     case extra_profile res2 of
                       Inl (code, err) \<Rightarrow> http_Error (errs sv) code (Some err)
                     | Inr extra \<Rightarrow>
                         deref (AppendProfiles (if xconfNotFound then notFoundProfileText else baseBytes)
                             (nil_bytes extra)) (\<lambda>profileBytes.
                           finish_profile sv sx tk xconfNotFound extra profileBytes resHeader))
                   else finish_profile sv sx tk xconfNotFound None baseBytes resHeader))))"

text \<open>
  The handler. An error of the database other than not found ends it; \<open>now\<close> is the clock in
  milliseconds.
\<close>

definition or_missing :: "'s db_client \<Rightarrow> ('s, 'a) prog \<Rightarrow> ('s, 'a option) prog" where
  "or_missing c m = tryE m (\<lambda>err. if db_IsDbNotFound c err then ret None else throw err) (\<lambda>x. ret (Some x))"

definition MultipartSupplementaryHandler ::
  "'s server \<Rightarrow> 'n services \<Rightarrow> ticks \<Rightarrow> int \<Rightarrow> http_request \<Rightarrow> (('s, 'n) backend web, unit) prog" where
  "MultipartSupplementaryHandler sv sx tk now r = with_w (\<lambda>w.
     let c = DatabaseClient sv;
         failed = (\<lambda>err. http_Error (errs sv) 500 (Some (NewError err)))
     in case map_of (rq_vars r) ''mac'' of
          None \<Rightarrow> http_Error (errs sv) 404 None
        | Some m \<Rightarrow>
            (let mac = to_upper m;
                 services = tryE (if supplementaryAppendingEnabled sv \<or> upstreamProfilesEnabled sv
                        then on_db (at_db (or_missing c (db_GetRootDocument c mac))) else ret None)
                      failed (profiles_answer sv sx tk mac r)
             in if w_x w = None then failed (no_writer ''MultipartConfigHandler()'')
                else if db_SupplementaryPrecookEnabled c
                then tryE (on_db (at_db (or_missing c (db_GetSubDocument c mac ''telemetry'')))) failed (\<lambda>t.
                  case Option.bind t (precooked_answer sv mac tk now) of
                    Some answer \<Rightarrow> answer
                  | None \<Rightarrow> services)
                else services))"

section \<open>The GET of a device\<close>

definition MultipartConfigHandler ::
  "'s server \<Rightarrow> 'n services \<Rightarrow> ticks \<Rightarrow> int \<Rightarrow> http_request \<Rightarrow> (('s, 'n) backend web, unit) prog" where
  "MultipartConfigHandler sv sx tk now r =
     (if length (hget (rq_header r) HeaderSupplementaryService) > 0
      then MultipartSupplementaryHandler sv sx tk now r
      else with_w (\<lambda>w.
        let mac = to_upper (route_mac r);
            rHeader = hset (rq_header r) HeaderDeviceId mac
        in case w_x w of
             None \<Rightarrow> http_Error (errs sv) 500 (Some (no_writer ''MultipartConfigHandler()''))
           | Some xw \<Rightarrow>
               (case ValidateQueryParams (rq_query r) rHeader (validSubdocIdMap sv)
                   (gomap_put ''cpe_mac'' (IStr mac) (xw_audit xw)) of
                  (rHeader', flds, err) \<Rightarrow>
                    seqE (on_w (\<lambda>w'. w'\<lparr>w_x := Some (xw\<lparr>xw_audit := flds\<rparr>)\<rparr>))
                      (case (if queryParamsValidationEnabled sv then err else None) of
                         Some e \<Rightarrow>
                           if errors_Is e ErrInvalidQueryParams then http_Error (errs sv) 400 None
                           else http_Error (errs sv) 500 (Some e)
                       | None \<Rightarrow>
                           (let h = (if length (hget rHeader' HeaderSchemaVersion) = 0
                                     then hset rHeader' HeaderSchemaVersion ''none'' else rHeader')
                            in tryE (with_audit (BuildWebconfigResponse sv sx h tk)) throw (\<lambda>reply.
                                 if rp_status reply = 404 then http_Error (errs sv) 404 None
                                 else if rp_status reply = 409 then w_WriteHeader 409
                                 else seqE (set_headers (rp_header reply))
                                   (case (rp_err reply, rp_bytes reply) of
                                      (Some err', None) \<Rightarrow> http_Error (errs sv) (rp_status reply) (Some (NewError err'))
                                    | _ \<Rightarrow> seqE (w_WriteHeader (rp_status reply))
                                            (w_Write (nil_bytes (rp_bytes reply))))))))))"

section \<open>Pokes\<close>

text \<open>
  \<open>Document.HttpBytes\<close>: the whole document as an HTTP message. Arguments: a fresh identifier
  with the clock in microseconds, the clock in seconds and the formatted date. The outer
  \<open>None\<close> is a panic (a nil version, a trace id that is no string). The application name is a
  string whenever the middleware has set it.
\<close>

definition app_name_text :: "fields \<Rightarrow> string" where
  "app_name_text flds = dict_GetString flds ''app_name'' ''%!s(<nil>)''"

definition http_bytes_header :: "document \<Rightarrow> fields \<Rightarrow> string \<times> nat \<Rightarrow> int \<Rightarrow> header option" where
  "http_bytes_header d flds tick now_s =
     (let rootVersion = (case rootDocument d of None \<Rightarrow> itoa now_s | Some _ \<Rightarrow> RootVersion d)
      in map_option (\<lambda>x.
           let traceId = (if length x = 0 then fst tick else x);
               txn = transaction_id traceId (snd tick)
           in put_all [(HeaderContentType, MultipartContentType), (''Etag'', rootVersion),
                (HeaderTransactionId, txn), (''X-Webpa-Transaction-Id'', txn),
                (''X-Moneytrace'',
                  ''trace-id='' @ traceId @ '';parent-id=0;span-id=0;span-name='' @ app_name_text flds)] [])
         (FieldsGetString flds ''trace_id'' ''''))"

definition doc_HttpBytes :: "document \<Rightarrow> fields \<Rightarrow> string \<times> nat \<Rightarrow> int \<Rightarrow> string \<Rightarrow> bytes option" where
  "doc_HttpBytes d flds tick now_s date =
     Option.bind (doc_mparts (docmap d)) (\<lambda>mparts.
       map_option (\<lambda>h. BuildPayloadAsHttp date 200 h (WriteMultipartBytes mparts))
         (http_bytes_header d flds tick now_s))"

text \<open>How a poke ends early: nothing to send, or an error answer.\<close>

datatype poke_end = NothingPending | PokeFails int "goerr option"

definition poke_answer :: "'s server \<Rightarrow> poke_end \<Rightarrow> ('t web, unit) prog" where
  "poke_answer sv e = (case e of
     NothingPending \<Rightarrow> WriteResponseBytes [] 204 None
   | PokeFails code err \<Rightarrow> http_Error (errs sv) code err)"

text \<open>One device of a poke over mqtt; \<open>Inl\<close> is an early answer.\<close>

definition poke_device ::
  "'s server \<Rightarrow> 'n services \<Rightarrow> ticks \<Rightarrow> int \<Rightarrow> string \<Rightarrow> string \<Rightarrow> string
     \<Rightarrow> (('s, 'n) backend, poke_end + unit) prog" where
  "poke_device sv sx tk now_s date metricsAgent deviceId =
     (let c = DatabaseClient sv; stop = (\<lambda>code err. ret (Inl (PokeFails code err)))
      in tryE (at_db (BuildMqttSendDocument c deviceId))
           (\<lambda>err. if db_IsDbNotFound c err then stop 404 None else stop 500 (Some (NewError err)))
           (\<lambda>document.
              if doc_Length document = 0 then ret (Inl NothingPending)
              else (\<lambda>s. deref (doc_HttpBytes document (be_fields s) (tk_call tk 0) now_s date) (\<lambda>mbytes.
                tryE (at_net (PostMqtt (sx_net sx) (sx_mqtt sx) deviceId mbytes (tk_call tk 0) (tk_call tk))) throw (\<lambda>r.
                  case dr_err r of
                    Some err \<Rightarrow>
                      (case remote_status (Some err) of
                         Some code \<Rightarrow> stop code (Some (NewError err))
                       | None \<Rightarrow> stop 500 (Some (NewError err)))
                  | None \<Rightarrow>
                      tryE (at_db (UpdateStatesInBatch c deviceId metricsAgent (tk_write tk) (StateMap document)))
                        (\<lambda>err. stop 500 (Some (NewError err)))
                        (\<lambda>_. ret (Inr ())))) s)))"

fun poke_devices ::
  "(string \<Rightarrow> ('s, poke_end + unit) prog) \<Rightarrow> string list \<Rightarrow> ('s, poke_end + unit) prog" where
  "poke_devices poke [] = ret (Inr ())"
| "poke_devices poke (deviceId # ids) =
     tryE (poke deviceId) throw (\<lambda>r. case r of Inl x \<Rightarrow> ret (Inl x) | Inr _ \<Rightarrow> poke_devices poke ids)"

text \<open>The answer to an error of webpa: a message of the device is passed on.\<close>

definition poke_error :: "'s server \<Rightarrow> 'n services \<Rightarrow> goerr \<Rightarrow> ('t web, unit) prog" where
  "poke_error sv sx err =
     (case errors_As_remote err of
        None \<Rightarrow> http_Error (errs sv) 500 (Some (NewError err))
      | Some (code, msg) \<Rightarrow>
          (let status = (if code = 404 then 521 else code);
               tr181Message = nt_first_message (sx_net sx) msg
           in if length tr181Message > 0
              then seqE (SetAuditValue ''response'' IOther)
                     (WriteByMarshal code (HttpErrorResponse code '''' (Some (JStr tr181Message))))
              else http_Error (errs sv) status (Some (RemoteHttpError code msg))))"

text \<open>
  A poke without query parameters goes out only when something is pending: \<open>Inl\<close> is the answer
  that ends it.
\<close>

definition smart_poke ::
  "'s server \<Rightarrow> string \<Rightarrow> ('s, poke_end + document) prog" where
  "smart_poke sv mac =
     (let c = DatabaseClient sv
      in tryE (BuildMqttSendDocument c mac)
           (\<lambda>err. ret (Inl (if db_IsDbNotFound c err then PokeFails 204 None else PokeFails 500 (Some (NewError err)))))
           (\<lambda>document. ret (if doc_Length document = 0 then Inl NothingPending else Inr document)))"

definition send_poke ::
  "'s server \<Rightarrow> 'n services \<Rightarrow> ticks \<Rightarrow> http_request \<Rightarrow> string \<Rightarrow> string \<Rightarrow> string
     \<Rightarrow> (('s, 'n) backend web, unit) prog" where
  "send_poke sv sx tk r mac token pokeStr =
     (if length token = 0 then http_Error (errs sv) 403 None
      else tryE (with_audit (at_net (Poke (sx_net sx) (sx_webpa sx) (rq_header r) mac pokeStr (tk_call tk 0) (tk_call tk))))
             throw
             (\<lambda>(transactionId, err). case err of
                Some e \<Rightarrow> poke_error sv sx e
              | None \<Rightarrow> WriteOkResponse (Some (JObj [(''transaction_id'', JStr transactionId)]))))"

definition PokeHandler ::
  "'s server \<Rightarrow> 'n services \<Rightarrow> ticks \<Rightarrow> int \<Rightarrow> string \<Rightarrow> http_request \<Rightarrow> (('s, 'n) backend web, unit) prog" where
  "PokeHandler sv sx tk now_s date r = with_w (\<lambda>w.
     let mac = to_upper (route_mac r)
     in if \<not> ValidateMac mac then http_Error (errs sv) 400 (Some (Http400Error ''invalid mac''))
        else case ValidatePokeQuery (rq_query r) of
            Inl err \<Rightarrow> http_Error (errs sv) 400 (Some err)
          | Inr pokeStr \<Rightarrow>
              (case w_x w of
                 None \<Rightarrow> http_Error (errs sv) 500 (Some (NewError (no_writer ''PokeHandler()'')))
               | Some xw \<Rightarrow>
                   seqE (SetAuditValue ''API'' (IStr (GetAPIName (rq_raw_query r))))
                     (deref (metrics_agent_field (xw_audit xw)) (\<lambda>metricsAgent.
                      deref (request_devices mac (rq_query r)) (\<lambda>deviceIds.
                        if pokeStr = ''mqtt''
                        then tryE (with_audit (poke_devices (poke_device sv sx tk now_s date metricsAgent) deviceIds)) throw
                               (\<lambda>x. case x of
                                  Inl e \<Rightarrow> poke_answer sv e
                                | Inr _ \<Rightarrow> WriteAcceptedResponse)
                        else if length (rq_query r) = 0
                        then tryE (on_db (at_db (smart_poke sv mac))) throw (\<lambda>x. case x of
                               Inl e \<Rightarrow> poke_answer sv e
                             | Inr document \<Rightarrow>
                                 seqE (SetAuditValue ''pending_subdocs''
                                        (IStr (go_join ''.'' (sort (map fst (StateMap document))))))
                                   (send_poke sv sx tk r mac (xw_token xw) pokeStr))
                        else send_poke sv sx tk r mac (xw_token xw) pokeStr)))))"

end
