(* ===== verification/Base64.thy ===== *)
theory Base64
  imports GoErrors
begin

text \<open>
  Package encoding/base64 as the program uses it (\<open>StdEncoding\<close>), with the round trip that
  the cipher codec and the token reader rely on.
\<close>

definition b64_alphabet :: string where
  "b64_alphabet = ''ABCDEFGHIJKLMNOPQRSTUVWXYZabcdefghijklmnopqrstuvwxyz0123456789+/''"

definition b64_char :: "nat \<Rightarrow> char" where
  "b64_char n = b64_alphabet ! n"

text \<open>The value of a character, or nothing for a character outside of the alphabet.\<close>

fun index_from :: "nat \<Rightarrow> char \<Rightarrow> string \<Rightarrow> nat option" where
  "index_from i c [] = None"
| "index_from i c (x # xs) = (if x = c then Some i else index_from (Suc i) c xs)"

definition b64_val :: "char \<Rightarrow> nat option" where
  "b64_val c = index_from 0 c b64_alphabet"

abbreviation byte_val :: "char \<Rightarrow> nat" where "byte_val c \<equiv> of_char c"

definition pad_char :: char where "pad_char = CHR ''=''"

fun b64_encode :: "bytes \<Rightarrow> string" where
  "b64_encode [] = []"
| "b64_encode [a] =
     [b64_char (byte_val a div 4), b64_char (byte_val a mod 4 * 16), pad_char, pad_char]"
| "b64_encode [a, b] =
     [b64_char (byte_val a div 4), b64_char (byte_val a mod 4 * 16 + byte_val b div 16),
      b64_char (byte_val b mod 16 * 4), pad_char]"
| "b64_encode (a # b # c # r) =
     [b64_char (byte_val a div 4), b64_char (byte_val a mod 4 * 16 + byte_val b div 16),
      b64_char (byte_val b mod 16 * 4 + byte_val c div 64), b64_char (byte_val c mod 64)] @ b64_encode r"

definition first_byte :: "nat \<Rightarrow> nat \<Rightarrow> char" where
  "first_byte s1 s2 = char_of (s1 * 4 + s2 div 16)"

definition second_byte :: "nat \<Rightarrow> nat \<Rightarrow> char" where
  "second_byte s2 s3 = char_of (s2 mod 16 * 16 + s3 div 4)"

definition third_byte :: "nat \<Rightarrow> nat \<Rightarrow> char" where
  "third_byte s3 s4 = char_of (s3 mod 4 * 64 + s4)"

text \<open>A group of four characters; padding is allowed at the very end only.\<close>

fun b64_groups :: "string \<Rightarrow> bytes option" where
  "b64_groups [] = Some []"
| "b64_groups (c1 # c2 # c3 # c4 # r) =
     (case (b64_val c1, b64_val c2) of
        (Some s1, Some s2) \<Rightarrow>
          if r = [] \<and> c3 = pad_char \<and> c4 = pad_char then Some [first_byte s1 s2]
          else (case b64_val c3 of
              None \<Rightarrow> None
            | Some s3 \<Rightarrow>
                if r = [] \<and> c4 = pad_char then Some [first_byte s1 s2, second_byte s2 s3]
                else (case b64_val c4 of
                    None \<Rightarrow> None
                  | Some s4 \<Rightarrow>
                      map_option (\<lambda>bs. first_byte s1 s2 # second_byte s2 s3 # third_byte s3 s4 # bs) (b64_groups r)))
      | _ \<Rightarrow> None)"
| "b64_groups _ = None"

text \<open>Line ends are skipped.\<close>

definition b64_decode :: "string \<Rightarrow> bytes option" where
  "b64_decode s = b64_groups (filter (\<lambda>c. byte_val c \<noteq> 10 \<and> byte_val c \<noteq> 13) s)"

section \<open>Facts\<close>

lemma b64_char_all: "list_all (\<lambda>n. b64_val (b64_char n) = Some n \<and> b64_char n \<noteq> pad_char
    \<and> byte_val (b64_char n) \<noteq> 10 \<and> byte_val (b64_char n) \<noteq> 13) [0..<64]"
  by code_simp

lemma b64_char_facts:
  assumes "n < 64"
  shows "b64_val (b64_char n) = Some n" "b64_char n \<noteq> pad_char"
    "byte_val (b64_char n) \<noteq> 10" "byte_val (b64_char n) \<noteq> 13"
  using b64_char_all assms by (simp_all add: list_all_iff)

lemma byte_val_less: "byte_val c < 256"
  using of_char_mod_256[of c, where 'a = nat] by (metis mod_less_divisor zero_less_numeral)

lemma sextets:
  assumes "a < 256" "b < 256" "c < (256 :: nat)"
  shows "a div 4 < 64" "a mod 4 * 16 < 64" "a mod 4 * 16 + b div 16 < 64" "b mod 16 * 4 < 64"
    "b mod 16 * 4 + c div 64 < 64" "c mod 64 < 64"
  using assms by (auto simp: less_mult_imp_div_less)

lemma bytes_back:
  assumes "a < 256" "b < 256" "c < (256 :: nat)"
  shows "a div 4 * 4 + (a mod 4 * 16) div 16 = a"
    "a div 4 * 4 + (a mod 4 * 16 + b div 16) div 16 = a"
    "(a mod 4 * 16 + b div 16) mod 16 * 16 + (b mod 16 * 4) div 4 = b"
    "(a mod 4 * 16 + b div 16) mod 16 * 16 + (b mod 16 * 4 + c div 64) div 4 = b"
    "(b mod 16 * 4 + c div 64) mod 4 * 64 + c mod 64 = c"
proof -
  have b: "b div 16 < 16" and c: "c div 64 < 4" using assms by (simp_all add: less_mult_imp_div_less)
  show "a div 4 * 4 + (a mod 4 * 16) div 16 = a" by simp
  show "a div 4 * 4 + (a mod 4 * 16 + b div 16) div 16 = a" using b by (simp add: div_mult_self3)
  show "(a mod 4 * 16 + b div 16) mod 16 * 16 + (b mod 16 * 4) div 4 = b" using b by simp
  show "(a mod 4 * 16 + b div 16) mod 16 * 16 + (b mod 16 * 4 + c div 64) div 4 = b"
    using b c by simp
  show "(b mod 16 * 4 + c div 64) mod 4 * 64 + c mod 64 = c" using c by simp
qed

lemma b64_groups_encode: "b64_groups (b64_encode bs) = Some bs"
proof (induction bs rule: b64_encode.induct)
  case 1
  then show ?case by simp
next
  case (2 a)
  note l = byte_val_less[of a]
  show ?case using sextets[OF l l l] bytes_back[OF l l l]
    by (simp add: b64_char_facts first_byte_def)
next
  case (3 a b)
  note l = byte_val_less[of a] byte_val_less[of b] byte_val_less[of b]
  show ?case using sextets[OF l] bytes_back[OF l]
    by (simp add: b64_char_facts first_byte_def second_byte_def)
next
  case (4 a b c r)
  note l = byte_val_less[of a] byte_val_less[of b] byte_val_less[of c]
  show ?case using sextets[OF l] bytes_back[OF l] 4
    by (simp add: b64_char_facts first_byte_def second_byte_def third_byte_def)
qed

lemma b64_encode_plain: "c \<in> set (b64_encode bs) \<Longrightarrow> byte_val c \<noteq> 10 \<and> byte_val c \<noteq> 13"
proof (induction bs rule: b64_encode.induct)
  case 1
  then show ?case by simp
next
  case (2 a)
  note l = byte_val_less[of a]
  show ?case using 2 sextets[OF l l l] by (auto simp: b64_char_facts pad_char_def)
next
  case (3 a b)
  note l = byte_val_less[of a] byte_val_less[of b] byte_val_less[of b]
  show ?case using 3 sextets[OF l] by (auto simp: b64_char_facts pad_char_def)
next
  case (4 a b c' r)
  note l = byte_val_less[of a] byte_val_less[of b] byte_val_less[of c']
  show ?case using 4 sextets[OF l] by (auto simp: b64_char_facts)
qed

theorem b64_round_trip: "b64_decode (b64_encode bs) = Some bs"
proof -
  have "filter (\<lambda>c. byte_val c \<noteq> 10 \<and> byte_val c \<noteq> 13) (b64_encode bs) = b64_encode bs"
    using b64_encode_plain by (intro filter_True) blast
  then show ?thesis by (simp add: b64_decode_def b64_groups_encode)
qed

end
