(* ===== verification/Tokens.thy ===== *)
theory Tokens
  imports Base64 Responses
begin

text \<open>
  security/token.go and security/jwks_manager.go: what a token must have to be accepted. The
  JWT library, the keys and the signature check are parameters; claims are JSON objects.
\<close>

section \<open>The library and the manager\<close>

type_synonym claims = "(string \<times> jval) list"

text \<open>
  \<open>jw_unverified\<close> reads the header and the claims of a token without a check, \<open>jw_verified\<close>
  checks signature and times with a key, \<open>jw_keyset\<close> with the keys of a JWKS server, and
  \<open>jw_sign\<close> signs claims.
\<close>

record 'k jwt =
  jw_unverified :: "string \<Rightarrow> goerr + (claims \<times> claims)"
  jw_verified :: "'k \<Rightarrow> string \<Rightarrow> goerr + claims"
  jw_keyset :: "string \<Rightarrow> goerr + claims"
  jw_sign :: "claims \<Rightarrow> claims \<Rightarrow> goerr + string"

record 'k token_manager =
  decodeKeys :: "'k gomap"
  apiKids :: "string list"
  apiCapabilities :: "string list"
  cpeKids :: "string list"
  cpeCapabilities :: "string list"

section \<open>Making tokens\<close>

text \<open>
  \<open>Generate\<close> ignores its \<open>ttl\<close>: a token is valid for 24 hours. \<open>partner\<close> is the optional
  argument, \<open>now\<close> the clock in seconds and \<open>uuid\<close> a fresh identifier. When signing fails the
  token is empty.
\<close>

definition token_claims :: "string \<Rightarrow> string option \<Rightarrow> int \<Rightarrow> string \<Rightarrow> claims" where
  "token_claims mac partner now uuid =
     [(''kid'', JStr ''webconfig_key''), (''mac'', JStr mac),
      (''partner-id'', JStr (case partner of None \<Rightarrow> ''comcast'' | Some p \<Rightarrow> p)),
      (''serial'', JStr ''ABCNDGE''), (''trust'', JInt 1000), (''uuid'', JStr ''1234567891234''),
      (''capabilities'', JList [JStr ''x1:issuer:test:.*:all'']), (''iss'', JStr ''themis''),
      (''sub'', JStr ''client:supplied''), (''aud'', JList [JStr ''XMiDT'']), (''exp'', JInt (now + 24 * 3600)),
      (''nbf'', JInt now), (''iat'', JInt now), (''jti'', JStr uuid)]"

definition Generate :: "'k jwt \<Rightarrow> string \<Rightarrow> int \<Rightarrow> string option \<Rightarrow> int \<Rightarrow> string \<Rightarrow> string" where
  "Generate J mac ttl partner now uuid =
     (case jw_sign J [(''alg'', JStr ''RS256''), (''kid'', JStr ''webconfig_key'')] (token_claims mac partner now uuid) of
        Inl _ \<Rightarrow> ''''
      | Inr t \<Rightarrow> t)"

section \<open>Reading headers\<close>

definition PaddingB64 :: "string \<Rightarrow> string" where
  "PaddingB64 input =
     (if length input mod 4 = 2 then input @ ''=='' else if length input mod 4 = 3 then input @ ''='' else input)"

text \<open>\<open>object\<close> is \<open>json.Unmarshal\<close> into a map.\<close>

definition ParseKidFromTokenHeader :: "(bytes \<Rightarrow> goerr + claims) \<Rightarrow> string \<Rightarrow> goerr + string" where
  "ParseKidFromTokenHeader object tokenString =
     (let elements = go_split CHR ''.'' tokenString
      in if length elements \<noteq> 3 then Inl (NewError (ErrText ''illegal jwt token''))
         else case b64_decode (PaddingB64 (elements ! 0)) of
             None \<Rightarrow> Inl (NewError (ErrDriver ''illegal base64 data''))
           | Some rbytes \<Rightarrow>
               (case object rbytes of
                  Inl err \<Rightarrow> Inl (NewError err)
                | Inr headers \<Rightarrow>
                    (case map_of headers ''kid'' of
                       Some (JStr kid) \<Rightarrow> Inr kid
                     | _ \<Rightarrow> Inl (NewError ErrNotOK))))"

section \<open>Checking tokens\<close>

text \<open>The key id of the header must be known, and one capability must be among the required ones.\<close>

definition check_kid :: "string list \<Rightarrow> claims \<Rightarrow> goerr + string" where
  "check_kid validKids header =
     (case map_of header ''kid'' of
        None \<Rightarrow> Inl (NewError (ErrText ''missing kid in token''))
      | Some (JStr kid) \<Rightarrow>
          if list_ex (\<lambda>k. kid = k) validKids then Inr kid
          else Inl (NewError (ErrText (''token kid='' @ kid @ '', not in validKids'')))
      | Some _ \<Rightarrow> Inl (NewError (ErrText ''error in reading kid from header'')))"

definition capable :: "string list \<Rightarrow> claims \<Rightarrow> bool" where
  "capable requiredCapabilities uclaims =
     (case map_of uclaims ''capabilities'' of
        Some (JList capvalues) \<Rightarrow> list_ex (\<lambda>v. list_ex (\<lambda>rc. v = JStr rc) requiredCapabilities) capvalues
      | _ \<Rightarrow> False)"

definition mac_matches :: "string \<Rightarrow> claims \<Rightarrow> bool" where
  "mac_matches mac claims =
     (case map_of claims ''mac'' of Some (JStr m) \<Rightarrow> to_lower mac = to_lower m | _ \<Rightarrow> False)"

text \<open>The partner and the trust of a checked token; \<open>None\<close> is the panic on a partner that is no string.\<close>

definition token_partner :: "claims \<Rightarrow> string option" where
  "token_partner claims =
     (case map_of claims ''partner-id'' of None \<Rightarrow> Some ''comcast'' | Some (JStr p) \<Rightarrow> Some p | Some _ \<Rightarrow> None)"

definition ToInt :: "jval \<Rightarrow> int" where
  "ToInt v = (case v of JInt i \<Rightarrow> i | _ \<Rightarrow> 0)"

definition token_trust :: "claims \<Rightarrow> int" where
  "token_trust claims = (case map_of claims ''trust'' of None \<Rightarrow> 0 | Some v \<Rightarrow> ToInt v)"

text \<open>
  \<open>VerifyToken\<close>: an error, or the partner and the trust. \<open>mac\<close> is the optional last argument.
\<close>

definition VerifyToken ::
  "'k jwt \<Rightarrow> 'k gomap \<Rightarrow> string list \<Rightarrow> string list \<Rightarrow> string \<Rightarrow> string option
     \<Rightarrow> (goerr + (string \<times> int)) option" where
  "VerifyToken J keys validKids requiredCapabilities tokenString mac =
     (case jw_unverified J tokenString of
        Inl err \<Rightarrow> Some (Inl (NewError err))
      | Inr (header, uclaims) \<Rightarrow>
          (case check_kid validKids header of
             Inl err \<Rightarrow> Some (Inl err)
           | Inr kid \<Rightarrow>
               if length requiredCapabilities > 0 \<and> \<not> capable requiredCapabilities uclaims
               then Some (Inl (NewError (ErrText ''token without proper capabilities'')))
               else (case map_of keys kid of
                   None \<Rightarrow> Some (Inl (NewError (ErrText (''key object missing, kid='' @ kid))))
                 | Some key \<Rightarrow>
                     (case jw_verified J key tokenString of
                        Inl err \<Rightarrow> Some (Inl (NewError err))
                      | Inr claims \<Rightarrow>
                          if (case mac of None \<Rightarrow> False | Some m \<Rightarrow> \<not> mac_matches m claims)
                          then Some (Inl (NewError (ErrText ''mac in token does not match'')))
                          else map_option (\<lambda>partner. Inr (partner, token_trust claims)) (token_partner claims)))))"

definition VerifyApiToken :: "'k jwt \<Rightarrow> 'k token_manager \<Rightarrow> string \<Rightarrow> (goerr + (string \<times> int)) option" where
  "VerifyApiToken J m token =
     map_option (map_sum NewError id) (VerifyToken J (decodeKeys m) (apiKids m) (apiCapabilities m) token None)"

definition VerifyCpeToken ::
  "'k jwt \<Rightarrow> 'k token_manager \<Rightarrow> string \<Rightarrow> string \<Rightarrow> (goerr + (string \<times> int)) option" where
  "VerifyCpeToken J m token mac =
     map_option (map_sum NewError id) (VerifyToken J (decodeKeys m) (cpeKids m) (cpeCapabilities m) token (Some mac))"

text \<open>The mac and the partner of a token, each when it is not empty; \<open>None\<close> is a panic.\<close>

definition claim_entry :: "string \<Rightarrow> string \<Rightarrow> claims \<Rightarrow> string gomap option" where
  "claim_entry name key claims =
     (case map_of claims name of
        None \<Rightarrow> Some []
      | Some (JStr v) \<Rightarrow> Some (if length v > 0 then [(key, v)] else [])
      | Some _ \<Rightarrow> None)"

definition ParseCpeToken :: "'k jwt \<Rightarrow> 'k token_manager \<Rightarrow> string \<Rightarrow> (goerr + string gomap) option" where
  "ParseCpeToken J m tokenStr =
     (case jw_unverified J tokenStr of
        Inl err \<Rightarrow> Some (Inl (NewError err))
      | Inr (header, _) \<Rightarrow>
          Option.bind (case map_of header ''kid'' of None \<Rightarrow> Some '''' | Some (JStr k) \<Rightarrow> Some k | Some _ \<Rightarrow> None) (\<lambda>kid.
            if length kid = 0 then Some (Inl (NewError (ErrText ''error in reading kid from header'')))
            else if kid \<notin> set (cpeKids m) then Some (Inl (NewError (ErrText (''token kid='' @ kid @ '', not in validKids''))))
            else (case map_of (decodeKeys m) kid of
                None \<Rightarrow> Some (Inl (NewError (ErrText (''key object missing, kid='' @ kid))))
              | Some key \<Rightarrow>
                  (case jw_verified J key tokenStr of
                     Inl err \<Rightarrow> Some (Inl (NewError err))
                   | Inr claims \<Rightarrow>
                       Option.bind (claim_entry ''mac'' ''mac'' claims) (\<lambda>a.
                         map_option (\<lambda>b. Inr (a @ b)) (claim_entry ''partner-id'' ''partner'' claims))))))"

section \<open>Key sets\<close>

text \<open>The capabilities in order: one that is no string panics unless an accepted one came before.\<close>

fun any_capability :: "string list \<Rightarrow> jval list \<Rightarrow> bool option" where
  "any_capability caps [] = Some False"
| "any_capability caps (JStr s # vs) = (if s \<in> set caps then Some True else any_capability caps vs)"
| "any_capability caps (_ # vs) = None"

definition jwks_VerifyApiToken :: "'k jwt \<Rightarrow> string list \<Rightarrow> string \<Rightarrow> (goerr + unit) option" where
  "jwks_VerifyApiToken J caps tokenStr =
     (case jw_keyset J tokenStr of
        Inl err \<Rightarrow> Some (Inl (NewError err))
      | Inr claims \<Rightarrow>
          (case map_of claims ''capabilities'' of
             Some (JList vs) \<Rightarrow> map_option (\<lambda>b. if b then Inr () else Inl NoCapabilitiesError) (any_capability caps vs)
           | _ \<Rightarrow> Some (Inl NoCapabilitiesError)))"

section \<open>Facts\<close>

text \<open>What is known of an accepted token.\<close>

lemma VerifyToken_Inr:
  assumes "VerifyToken J keys kids caps token mac = Some (Inr (partner, trust))"
  shows "\<exists>header uclaims kid key claims.
      jw_unverified J token = Inr (header, uclaims) \<and> map_of header ''kid'' = Some (JStr kid) \<and> kid \<in> set kids
    \<and> (caps = [] \<or> capable caps uclaims) \<and> map_of keys kid = Some key \<and> jw_verified J key token = Inr claims
    \<and> (\<forall>m. mac = Some m \<longrightarrow> mac_matches m claims) \<and> token_partner claims = Some partner \<and> trust = token_trust claims"
  using assms unfolding VerifyToken_def check_kid_def
  by (auto split: sum.splits option.splits jval.splits if_splits simp: list_ex_iff)

end
