(* ===== verification/Middleware.thy ===== *)
theory Middleware
  imports Tokens WebServer
begin

text \<open>
  The middleware of http/webconfig_server.go: what every request goes through before its
  handler. What \<open>logRequestEnds\<close> and the loggers do with the fields is not modelled: nothing
  of it reaches the answer.
\<close>

section \<open>The start of a request\<close>

text \<open>The tracing context of package tracing and the address data of a request.\<close>

record request_meta =
  me_path :: string
  me_remote_ip :: string
  me_host :: string
  me_audit_id :: string
  me_TraceID :: string
  me_ReqTraceparent :: string
  me_ReqTracestate :: string
  me_OutTraceparent :: string
  me_OutTracestate :: string
  me_ReqMoracideTag :: string

definition bearer_token :: "header \<Rightarrow> string" where
  "bearer_token h =
     (let elements = go_split CHR '' '' (hget h ''Authorization'')
      in if length elements = 2 \<and> elements ! 0 = ''Bearer'' then elements ! 1 else '''')"

definition money_trace_id :: "header \<Rightarrow> string" where
  "money_trace_id h =
     (let tracePart = hd (go_split CHR '';'' (hget h ''X-Moneytrace''));
          elements = go_split CHR ''='' tracePart
      in if length elements = 2 \<and> elements ! 0 = ''trace-id'' then elements ! 1 else '''')"

definition put_nonempty :: "string \<Rightarrow> string \<Rightarrow> fields \<Rightarrow> fields" where
  "put_nonempty k v flds = (if length v > 0 then gomap_put k (IStr v) flds else flds)"

definition base_fields :: "string \<Rightarrow> request_meta \<Rightarrow> http_request \<Rightarrow> fields" where
  "base_fields app me r =
     (let auditId = hget (rq_header r) ''X-Auditid'';
          xmTraceId = money_trace_id (rq_header r)
      in [(''path'', IStr (me_path me)), (''method'', IStr (rq_method r)),
          (''audit_id'', IStr (if length auditId = 0 then me_audit_id me else auditId)),
          (''remote_ip'', IStr (me_remote_ip me)), (''host_name'', IStr (me_host me)), (''header'', IOther),
          (''logger'', IStr ''request''),
          (''trace_id'', IStr (if length (me_TraceID me) = 0 then xmTraceId else me_TraceID me)),
          (''app_name'', IStr app), (''traceparent'', IStr (me_ReqTraceparent me)),
          (''tracestate'', IStr (me_ReqTracestate me)), (''out_traceparent'', IStr (me_OutTraceparent me)),
          (''out_tracestate'', IStr (me_OutTracestate me)), (''req_moracide_tag'', IStr (me_ReqMoracideTag me)),
          (''xpc_trace'', IOther)])"

text \<open>The groups of the route: a device or a set of configurations.\<close>

definition route_fields :: "http_request \<Rightarrow> fields \<Rightarrow> fields" where
  "route_fields r flds =
     (let params = rq_vars r;
          gtype = gomap_get '''' params ''gtype'';
          gid = gomap_get '''' params ''gid'';
          f1 = (if gtype = ''cpe'' then gomap_put ''cpe_mac'' (IStr (to_upper gid)) flds
                else if gtype = ''configset'' then gomap_put ''csid'' (IStr (to_lower gid)) flds else flds)
      in case map_of params ''mac'' of None \<Rightarrow> f1 | Some mac \<Rightarrow> gomap_put ''cpe_mac'' (IStr (to_upper mac)) f1)"

definition request_fields :: "string \<Rightarrow> request_meta \<Rightarrow> http_request \<Rightarrow> fields" where
  "request_fields app me r =
     (let h = rq_header r
      in route_fields r
          (put_nonempty ''xmoney_trace_id'' (money_trace_id h)
          (put_nonempty ''src_app_name'' (hget h ''X-Source-App-Name'')
          (put_nonempty ''webconfig_transaction_id'' (hget h ''X-Webconfig-Transaction-Id'')
          (put_nonempty ''metrics_agent'' (hget h HeaderMetricsAgent)
          (put_nonempty ''user_agent'' (hget h ''User-Agent'') (base_fields app me r)))))))"

text \<open>The body of a POST is kept in the writer; \<open>None\<close> is no body or one that cannot be read.\<close>

definition read_body :: "http_request \<Rightarrow> writer \<Rightarrow> writer" where
  "read_body r w =
     (if rq_method r = ''POST''
      then (case rq_body r of
          None \<Rightarrow> w
        | Some b \<Rightarrow> w\<lparr>w_x := map_option (\<lambda>x. x\<lparr>xw_bodyBytes := b\<rparr>) (w_x w)\<rparr>)
      else w)"

definition logRequestStarts :: "'s server \<Rightarrow> request_meta \<Rightarrow> http_request \<Rightarrow> ('t web, unit) prog" where
  "logRequestStarts sv me r = on_w (\<lambda>w.
     read_body r (NewXResponseWriter (w_net w) (bearer_token (rq_header r)) (request_fields (appName sv) me r)))"

definition NoAuthMiddleware ::
  "'s server \<Rightarrow> request_meta \<Rightarrow> http_request \<Rightarrow> ('t web, unit) prog \<Rightarrow> ('t web, unit) prog" where
  "NoAuthMiddleware sv me r next = seqE (logRequestStarts sv me r) next"

definition TestingMiddleware :: "http_request \<Rightarrow> ('t web, unit) prog \<Rightarrow> ('t web, unit) prog" where
  "TestingMiddleware r next =
     seqE (on_w (\<lambda>w. read_body r (NewXResponseWriter (w_net w) (bearer_token (rq_header r))
             (put_nonempty ''metrics_agent'' (hget (rq_header r) HeaderMetricsAgent) [])))) next"

section \<open>Tokens of devices\<close>

text \<open>An answer that goes past the record of the middleware.\<close>

definition on_raw :: "('t web, unit) prog \<Rightarrow> ('t web, unit) prog" where
  "on_raw m = (\<lambda>s.
     case m (s\<lparr>web_w := (web_w s)\<lparr>w_x := None\<rparr>\<rparr>) of
       (r, s') \<Rightarrow> (r, s'\<lparr>web_w := (web_w s')\<lparr>w_x := w_x (web_w s)\<rparr>\<rparr>))"

definition forbid :: "'s server \<Rightarrow> ('t web, unit) prog" where
  "forbid sv = http_Error (errs sv) 403 None"

definition refuse_token :: "'s server \<Rightarrow> ('t web, unit) prog" where
  "refuse_token sv =
     seqE (SetAuditValue ''error'' IOther) (seqE (SetAuditValue ''logger'' (IStr ''token'')) (forbid sv))"

text \<open>
  What follows a verified token: an unknown partner is only noted, a low trust refuses.
\<close>

definition admit_device ::
  "'s server \<Rightarrow> string \<Rightarrow> int \<Rightarrow> ('t web, unit) prog \<Rightarrow> ('t web, unit) prog" where
  "admit_device sv partnerId trust next =
     (let unknown = ValidatePartner sv partnerId \<noteq> None;
          low = trust < minTrust sv
      in seqE (SetAuditValue ''src_partner'' (IStr partnerId))
        (seqE (SetAuditValue ''trust'' (IInt trust))
        (seqE (on_w (\<lambda>w. w\<lparr>w_x := map_option (SetPartnerId (if unknown then ''unknown'' else partnerId)) (w_x w)\<rparr>))
        (if low then refuse_token sv
         else seqE (if unknown then SetAuditValue ''error'' IOther else ret ()) next))))"

definition CpeMiddleware ::
  "'s server \<Rightarrow> 'k jwt \<Rightarrow> 'k token_manager \<Rightarrow> request_meta \<Rightarrow> http_request
     \<Rightarrow> ('t web, unit) prog \<Rightarrow> ('t web, unit) prog" where
  "CpeMiddleware sv J m me r next = seqE (logRequestStarts sv me r)
     (let token = bearer_token (rq_header r)
      in case map_of (rq_vars r) ''mac'' of
           None \<Rightarrow> forbid sv
         | Some mac0 \<Rightarrow>
             (let mac = to_upper mac0
              in if validateMacEnabled sv \<and> \<not> ValidateMac mac
                 then on_raw (http_Error (errs sv) 400 (Some (NewError (Http400Error ''invalid mac''))))
                 else if length token > 0
                 then deref (VerifyCpeToken J m token (to_lower mac)) (\<lambda>v.
                   case v of
                     Inr (partnerId, trust) \<Rightarrow> admit_device sv partnerId trust next
                   | Inl _ \<Rightarrow> refuse_token sv)
                 else refuse_token sv))"

definition TestingCpeMiddleware ::
  "'s server \<Rightarrow> 'k jwt \<Rightarrow> 'k token_manager \<Rightarrow> http_request \<Rightarrow> ('t web, unit) prog \<Rightarrow> ('t web, unit) prog" where
  "TestingCpeMiddleware sv J m r next =
     seqE (on_w (\<lambda>w. NewXResponseWriter (w_net w) '''' []))
       (let token = bearer_token (rq_header r)
        in if length token = 0 then forbid sv
           else case map_of (rq_vars r) ''mac'' of
               None \<Rightarrow> forbid sv
             | Some mac \<Rightarrow>
                 if length mac \<noteq> 12 then forbid sv
                 else deref (VerifyCpeToken J m token (to_lower mac)) (\<lambda>v.
                   case v of Inr _ \<Rightarrow> next | Inl _ \<Rightarrow> forbid sv))"

section \<open>Tokens of the API\<close>

definition ws_VerifyApiToken ::
  "'s server \<Rightarrow> 'k jwt \<Rightarrow> 'k token_manager \<Rightarrow> string list \<Rightarrow> string \<Rightarrow> (goerr + unit) option" where
  "ws_VerifyApiToken sv J m caps token =
     (if jwksEnabled sv then map_option (map_sum NewError id) (jwks_VerifyApiToken J caps token)
      else map_option (map_sum NewError (\<lambda>_. ())) (VerifyApiToken J m token))"

definition ApiMiddleware ::
  "'s server \<Rightarrow> 'k jwt \<Rightarrow> 'k token_manager \<Rightarrow> string list \<Rightarrow> request_meta \<Rightarrow> http_request
     \<Rightarrow> ('t web, unit) prog \<Rightarrow> ('t web, unit) prog" where
  "ApiMiddleware sv J m caps me r next = seqE (logRequestStarts sv me r)
     (let token = bearer_token (rq_header r)
      in if length token > 0
         then deref (ws_VerifyApiToken sv J m caps token) (\<lambda>v. case v of Inr _ \<Rightarrow> next | Inl _ \<Rightarrow> forbid sv)
         else forbid sv)"

section \<open>Facts\<close>

text \<open>
  The record that the middleware makes can be answered through: nothing was sent and the tags
  in its fields are strings.
\<close>

lemma put_nonempty_get:
  "FieldsGetString (put_nonempty k v flds) k' d = (if k' = k \<and> v \<noteq> '''' then Some v else FieldsGetString flds k' d)"
  by (simp add: put_nonempty_def FieldsGetString_def)

lemma route_fields_get:
  "k \<noteq> ''cpe_mac'' \<Longrightarrow> k \<noteq> ''csid'' \<Longrightarrow> FieldsGetString (route_fields r flds) k d = FieldsGetString flds k d"
  by (simp add: route_fields_def FieldsGetString_def Let_def split: option.splits)

lemma request_fields_tags:
  "FieldsGetString (request_fields app me r) ''resp_moracide_tag'' '''' \<noteq> None"
  "FieldsGetString (request_fields app me r) ''req_moracide_tag'' '''' \<noteq> None"
  by (simp_all add: request_fields_def Let_def route_fields_get put_nonempty_get base_fields_def)
     (simp_all add: FieldsGetString_def)

lemma starts_fresh:
  assumes "fresh (web_w s)"
  shows "\<exists>w. logRequestStarts sv me r s = (Ok (), s\<lparr>web_w := w\<rparr>) \<and> fresh w"
proof -
  let ?w = "read_body r (NewXResponseWriter (w_net (web_w s)) (bearer_token (rq_header r))
      (request_fields (appName sv) me r))"
  have "logRequestStarts sv me r s = (Ok (), s\<lparr>web_w := ?w\<rparr>)" by (simp add: logRequestStarts_def on_w_def)
  moreover have "fresh ?w"
    using assms request_fields_tags[of "appName sv" me r]
    by (auto simp: read_body_def NewXResponseWriter_def fresh_def moracide_ok_def split: option.splits)
  ultimately show ?thesis by blast
qed

lemma answers_forbid [simp, intro]: "answers 403 (forbid sv)"
  unfolding forbid_def by (rule answers_error) simp

lemma answers_refuse [simp, intro]: "answers 403 (refuse_token sv)"
  unfolding refuse_token_def by (intro answers_seq prepares_audit) auto

text \<open>\<open>gated P next m\<close>: on a fresh writer \<open>m\<close> answers 400 or 403 without touching the database, or
  \<open>P\<close> holds and it runs \<open>next\<close> on the same database.\<close>

definition gated :: "bool \<Rightarrow> ('t web, unit) prog \<Rightarrow> ('t web, unit) prog \<Rightarrow> bool" where
  "gated P next m \<longleftrightarrow> (\<forall>s. fresh (web_w s) \<longrightarrow>
     (\<exists>w. fst (m s) = Ok () \<and> snd (m s) = s\<lparr>web_w := w\<rparr> \<and> sent_status w \<in> {400, 403})
     \<or> m s = (Panic, snd (m s)) \<and> web_db (snd (m s)) = web_db s
     \<or> P \<and> (\<exists>w. fresh w \<and> m s = next (s\<lparr>web_w := w\<rparr>)))"

lemma gated_answers: "answers c m \<Longrightarrow> c = 400 \<or> c = 403 \<Longrightarrow> gated P next m"
  unfolding gated_def answers_def answered_def by (metis fst_conv insert_iff snd_conv)

lemma gated_panic: "gated P next panic"
  by (simp add: gated_def panic_def)

lemma gated_next: "P \<Longrightarrow> gated P next next"
  unfolding gated_def by (metis web_w_same)

lemma gated_seq:
  fixes m n :: "('t web, unit) prog"
  assumes "prepares m" "gated P next n"
  shows "gated P next (seqE m n)"
  unfolding gated_def
proof (intro allI impI)
  fix s :: "'t web" assume f: "fresh (web_w s)"
  obtain w where w: "seqE m n s = n (s\<lparr>web_w := w\<rparr>)" "like (web_w s) w"
    by (rule prepares_then[OF assms(1) fresh_ok[OF f]])
  have "fresh (web_w (s\<lparr>web_w := w\<rparr>))" using like_fresh[OF w(2) f] by simp
  with assms(2) show "(\<exists>w. fst (seqE m n s) = Ok () \<and> snd (seqE m n s) = s\<lparr>web_w := w\<rparr> \<and> sent_status w \<in> {400, 403})
     \<or> seqE m n s = (Panic, snd (seqE m n s)) \<and> web_db (snd (seqE m n s)) = web_db s
     \<or> P \<and> (\<exists>w. fresh w \<and> seqE m n s = next (s\<lparr>web_w := w\<rparr>))"
    unfolding w(1) gated_def by fastforce
qed

lemma gated_raw: "final_status 400 \<Longrightarrow> gated P next (on_raw (http_Error ef 400 e))"
  unfolding gated_def
proof (intro allI impI disjI1)
  fix s :: "'a web" assume f: "fresh (web_w s)"
  let ?s = "s\<lparr>web_w := (web_w s)\<lparr>w_x := None\<rparr>\<rparr>"
  have "fresh (web_w ?s)" using f by (simp add: fresh_def moracide_ok_def)
  moreover have "answers 400 (http_Error ef 400 e :: ('a web, unit) prog)" by (rule answers_error) simp
  ultimately obtain w where w: "http_Error ef 400 e ?s = (Ok (), ?s\<lparr>web_w := w\<rparr>)" "answered 400 w"
    unfolding answers_def by blast
  then have "on_raw (http_Error ef 400 e) s = (Ok (), s\<lparr>web_w := w\<lparr>w_x := w_x (web_w s)\<rparr>\<rparr>)"
    by (simp add: on_raw_def)
  moreover have "sent_status (w\<lparr>w_x := w_x (web_w s)\<rparr>) = 400"
    using w(2) by (simp add: answered_def sent_status_def)
  ultimately show "\<exists>w. fst (on_raw (http_Error ef 400 e) s) = Ok ()
      \<and> snd (on_raw (http_Error ef 400 e) s) = s\<lparr>web_w := w\<rparr> \<and> sent_status w \<in> {400, 403}"
    by fastforce
qed

lemma gated_starts:
  fixes n :: "('t web, unit) prog"
  assumes "gated P next n"
  shows "gated P next (seqE (logRequestStarts sv me r) n)"
  unfolding gated_def
proof (intro allI impI)
  fix s :: "'t web" assume "fresh (web_w s)"
  from starts_fresh[OF this] obtain w0 where w0: "logRequestStarts sv me r s = (Ok (), s\<lparr>web_w := w0\<rparr>)" "fresh w0"
    by blast
  let ?m = "seqE (logRequestStarts sv me r) n"
  have run: "?m s = n (s\<lparr>web_w := w0\<rparr>)" using w0(1) by (rule seqE_run)
  have "fresh (web_w (s\<lparr>web_w := w0\<rparr>))" using w0(2) by simp
  with assms show "(\<exists>w. fst (?m s) = Ok () \<and> snd (?m s) = s\<lparr>web_w := w\<rparr> \<and> sent_status w \<in> {400, 403})
     \<or> ?m s = (Panic, snd (?m s)) \<and> web_db (snd (?m s)) = web_db s
     \<or> P \<and> (\<exists>w. fresh w \<and> ?m s = next (s\<lparr>web_w := w\<rparr>))"
    unfolding run gated_def by fastforce
qed

text \<open>A device passes with a token that is valid for its mac and trusted enough.\<close>

definition device_passes ::
  "'s server \<Rightarrow> 'k jwt \<Rightarrow> 'k token_manager \<Rightarrow> http_request \<Rightarrow> bool" where
  "device_passes sv J m r \<longleftrightarrow> (\<exists>mac partner trust.
     map_of (rq_vars r) ''mac'' = Some mac \<and> (validateMacEnabled sv \<longrightarrow> ValidateMac (to_upper mac))
     \<and> VerifyCpeToken J m (bearer_token (rq_header r)) (to_lower (to_upper mac)) = Some (Inr (partner, trust))
     \<and> minTrust sv \<le> trust)"

lemma CpeMiddleware_gated: "gated (device_passes sv J m r) next (CpeMiddleware sv J m me r next)"
proof -
  let ?P = "device_passes sv J m r"
  have refuse: "gated ?P next (refuse_token sv)" and forbid: "gated ?P next (forbid sv)"
    by (rule gated_answers, blast, simp)+
  have partner: "prepares (on_w (\<lambda>w. w\<lparr>w_x := map_option (SetPartnerId p) (w_x w)\<rparr>))" for p
    by (rule prepares_on_w) (auto simp: like_def moracide_ok_def SetPartnerId_def FieldsGetString_def split: option.splits)
  have admit: "gated ?P next (admit_device sv p t next)" if "\<not> t < minTrust sv \<Longrightarrow> ?P" for p t
    unfolding admit_device_def Let_def
    by (intro gated_seq prepares_audit partner) (auto intro!: gated_seq gated_next refuse that)
  have passes: ?P if "map_of (rq_vars r) ''mac'' = Some mac" "validateMacEnabled sv \<longrightarrow> ValidateMac (to_upper mac)"
    "VerifyCpeToken J m (bearer_token (rq_header r)) (to_lower (to_upper mac)) = Some (Inr (p, t))"
    "\<not> t < minTrust sv" for mac p t
    using that by (auto simp: device_passes_def)
  show ?thesis
    unfolding CpeMiddleware_def Let_def
    by (rule gated_starts)
       (auto split: option.splits sum.splits simp: deref_def
         intro!: gated_raw refuse forbid gated_panic admit passes)
qed

lemma device_passes_token:
  assumes "device_passes sv J m r"
  shows "\<exists>mac header uclaims kid key claims. map_of (rq_vars r) ''mac'' = Some mac
    \<and> jw_unverified J (bearer_token (rq_header r)) = Inr (header, uclaims) \<and> map_of header ''kid'' = Some (JStr kid)
    \<and> kid \<in> set (cpeKids m) \<and> (cpeCapabilities m = [] \<or> capable (cpeCapabilities m) uclaims)
    \<and> map_of (decodeKeys m) kid = Some key \<and> jw_verified J key (bearer_token (rq_header r)) = Inr claims
    \<and> mac_matches (to_lower (to_upper mac)) claims \<and> minTrust sv \<le> token_trust claims"
proof -
  from assms obtain mac partner trust where mac: "map_of (rq_vars r) ''mac'' = Some mac" "minTrust sv \<le> trust"
    and v: "VerifyCpeToken J m (bearer_token (rq_header r)) (to_lower (to_upper mac)) = Some (Inr (partner, trust))"
    unfolding device_passes_def by blast
  from v obtain y where y: "VerifyToken J (decodeKeys m) (cpeKids m) (cpeCapabilities m) (bearer_token (rq_header r))
      (Some (to_lower (to_upper mac))) = Some y" "map_sum NewError id y = Inr (partner, trust)"
    by (auto simp: VerifyCpeToken_def)
  then have "VerifyToken J (decodeKeys m) (cpeKids m) (cpeCapabilities m) (bearer_token (rq_header r))
      (Some (to_lower (to_upper mac))) = Some (Inr (partner, trust))"
    by (cases y) simp_all
  from VerifyToken_Inr[OF this] mac show ?thesis by blast
qed

text \<open>The API asks for a token that the configured check accepts.\<close>

definition api_passes ::
  "'s server \<Rightarrow> 'k jwt \<Rightarrow> 'k token_manager \<Rightarrow> string list \<Rightarrow> http_request \<Rightarrow> bool" where
  "api_passes sv J m caps r \<longleftrightarrow>
     bearer_token (rq_header r) \<noteq> '''' \<and> ws_VerifyApiToken sv J m caps (bearer_token (rq_header r)) = Some (Inr ())"

lemma ApiMiddleware_gated: "gated (api_passes sv J m caps r) next (ApiMiddleware sv J m caps me r next)"
proof -
  let ?P = "api_passes sv J m caps r"
  have forbid: "gated ?P next (forbid sv)"
    by (rule gated_answers, blast, simp)
  have passes: ?P if "bearer_token (rq_header r) \<noteq> ''''"
    "ws_VerifyApiToken sv J m caps (bearer_token (rq_header r)) = Some (Inr u)" for u
    using that by (simp add: api_passes_def)
  show ?thesis
    unfolding ApiMiddleware_def Let_def
    by (rule gated_starts)
       (auto split: option.splits sum.splits simp: deref_def intro!: forbid gated_panic gated_next passes)
qed

end
