(* ===== verification/Router.thy ===== *)
theory Router
  imports Prelude
begin

text \<open>
  http/router.go: the routes of the server, each with the middleware in front of its handlers.
  The matching of github.com/gorilla/mux is what the routes use of it: literal segments,
  variables for one non-empty segment, the first route whose path matches.
\<close>

datatype segment = Lit string | Var string

datatype guard = Unguarded | Testing | NoAuth | Api | Cpe

datatype handler =
    Monitor | Version | ServerConfig | CreateToken | Notification | MultipartConfig | SupportedGroups
  | GetSub | PostSub | DeleteSub | PokeDevice | GetRoot | PostRoot | DeleteDoc | GetRef | PostRef | DeleteRef

record route =
  rt_path :: "segment list"
  rt_guard :: guard
  rt_methods :: "(string list \<times> handler) list"

record router_flags =
  tokenApiEnabled :: bool
  deviceApiTokenAuthEnabled :: bool
  serverApiTokenAuthEnabled :: bool

definition server_guard :: "router_flags \<Rightarrow> bool \<Rightarrow> guard" where
  "server_guard f testOnly = (if testOnly then Testing else if serverApiTokenAuthEnabled f then Api else NoAuth)"

definition device_guard :: "router_flags \<Rightarrow> bool \<Rightarrow> guard" where
  "device_guard f testOnly = (if testOnly then Testing else if deviceApiTokenAuthEnabled f then Cpe else NoAuth)"

definition device_path :: "segment list \<Rightarrow> segment list" where
  "device_path rest = [Lit ''api'', Lit ''v1'', Lit ''device'', Var ''mac''] @ rest"

definition plain :: "string \<Rightarrow> string list \<Rightarrow> handler \<Rightarrow> route" where
  "plain name methods h = \<lparr>rt_path = [Lit name], rt_guard = Unguarded, rt_methods = [(methods, h)]\<rparr>"

definition AddBaseRoutes :: "router_flags \<Rightarrow> bool \<Rightarrow> route list" where
  "AddBaseRoutes f testOnly =
     [plain ''monitor'' [''HEAD'', ''GET''] Monitor, plain ''healthz'' [''HEAD'', ''GET''] Monitor,
      plain ''version'' [''GET''] Version, plain ''config'' [''GET''] ServerConfig]
     @ (if tokenApiEnabled f
        then [\<lparr>rt_path = [Lit ''api'', Lit ''v1'', Lit ''token''], rt_guard = NoAuth,
               rt_methods = [([''POST''], CreateToken)]\<rparr>] else [])
     @ [plain ''notif'' [''GET''] Notification,
        \<lparr>rt_path = device_path [Lit ''config''], rt_guard = device_guard f testOnly,
         rt_methods = [([''GET''], MultipartConfig)]\<rparr>,
        \<lparr>rt_path = device_path [Lit ''supported_groups''], rt_guard = server_guard f testOnly,
         rt_methods = [([''GET''], SupportedGroups)]\<rparr>]"

definition GetRouter :: "router_flags \<Rightarrow> bool \<Rightarrow> route list" where
  "GetRouter f testOnly = AddBaseRoutes f testOnly @
     [\<lparr>rt_path = device_path [Lit ''document'', Var ''subdoc_id''], rt_guard = server_guard f testOnly,
       rt_methods = [([''GET''], GetSub), ([''POST''], PostSub), ([''DELETE''], DeleteSub)]\<rparr>,
      \<lparr>rt_path = device_path [Lit ''poke''], rt_guard = server_guard f testOnly,
       rt_methods = [([''POST''], PokeDevice)]\<rparr>,
      \<lparr>rt_path = device_path [Lit ''rootdocument''], rt_guard = server_guard f testOnly,
       rt_methods = [([''GET''], GetRoot), ([''POST''], PostRoot)]\<rparr>,
      \<lparr>rt_path = device_path [Lit ''document''], rt_guard = server_guard f testOnly,
       rt_methods = [([''DELETE''], DeleteDoc)]\<rparr>,
      \<lparr>rt_path = [Lit ''api'', Lit ''v1'', Lit ''reference'', Var ''ref'', Lit ''document''],
       rt_guard = server_guard f testOnly,
       rt_methods = [([''GET''], GetRef), ([''POST''], PostRef), ([''DELETE''], DeleteRef)]\<rparr>]"

text \<open>The variables of a path, in order.\<close>

fun match_path :: "segment list \<Rightarrow> string list \<Rightarrow> string gomap option" where
  "match_path [] [] = Some []"
| "match_path (Lit s # ps) (x # xs) = (if x = s then match_path ps xs else None)"
| "match_path (Var v # ps) (x # xs) = (if x = '''' then None else map_option ((#) (v, x)) (match_path ps xs))"
| "match_path _ _ = None"

datatype dispatched = NotFound | MethodNotAllowed | Found guard handler "string gomap"

fun dispatch :: "route list \<Rightarrow> string list \<Rightarrow> string \<Rightarrow> dispatched" where
  "dispatch [] path meth = NotFound"
| "dispatch (rt # rts) path meth =
     (case match_path (rt_path rt) path of
        None \<Rightarrow> dispatch rts path meth
      | Some vars \<Rightarrow>
          (case find (\<lambda>(ms, h). meth \<in> set ms) (rt_methods rt) of
             Some (ms, h) \<Rightarrow> Found (rt_guard rt) h vars
           | None \<Rightarrow> (case dispatch rts path meth of NotFound \<Rightarrow> MethodNotAllowed | d \<Rightarrow> d)))"

section \<open>Facts\<close>

text \<open>The handlers that read or change what is stored for devices.\<close>

definition touches_data :: "handler \<Rightarrow> bool" where
  "touches_data h \<longleftrightarrow> h \<notin> {Monitor, Version, ServerConfig, CreateToken, Notification}"

lemma dispatch_Found:
  "dispatch rts path meth = Found g h vars \<Longrightarrow>
     \<exists>rt \<in> set rts. \<exists>ms. g = rt_guard rt \<and> (ms, h) \<in> set (rt_methods rt) \<and> meth \<in> set ms
       \<and> match_path (rt_path rt) path = Some vars"
proof (induction rts path meth rule: dispatch.induct)
  case (1 path meth)
  then show ?case by simp
next
  case (2 rt rts path meth)
  show ?case
  proof (cases "match_path (rt_path rt) path")
    case None
    then show ?thesis using 2 by auto
  next
    case (Some vs)
    show ?thesis
    proof (cases "find (\<lambda>(ms, h). meth \<in> set ms) (rt_methods rt)")
      case None
      with Some 2(3) have "dispatch rts path meth = Found g h vars" by (auto split: dispatched.splits)
      then show ?thesis using 2(2)[OF Some None] by auto
    next
      case f: (Some x)
      obtain ms h' where x: "x = (ms, h')" by (cases x)
      have "(ms, h') \<in> set (rt_methods rt) \<and> meth \<in> set ms"
        using find_in[OF f] by (simp add: x)
      then show ?thesis using Some f 2(3) x by auto
    qed
  qed
qed

lemma routes_guarded:
  assumes "serverApiTokenAuthEnabled f" "deviceApiTokenAuthEnabled f" "rt \<in> set (GetRouter f False)"
    "(ms, h) \<in> set (rt_methods rt)" "touches_data h"
  shows "rt_guard rt = (if h = MultipartConfig then Cpe else Api)"
  using assms by (auto simp: GetRouter_def AddBaseRoutes_def plain_def server_guard_def device_guard_def touches_data_def
      split: if_splits)

end
