(* ===== verification/Gateway.thy ===== *)
theory Gateway
  imports Middleware Router
begin

text \<open>
  The composition of http/router.go with the middleware: the route of a request, its guard and
  then its handler. \<open>run\<close> stands for the handlers; the tracing middleware of the poke route
  is modelled in theory Tracing; here tracing is switched off.
\<close>

definition guarded ::
  "'s server \<Rightarrow> 'k jwt \<Rightarrow> 'k token_manager \<Rightarrow> string list \<Rightarrow> request_meta \<Rightarrow> guard \<Rightarrow> http_request
     \<Rightarrow> ('t web, unit) prog \<Rightarrow> ('t web, unit) prog" where
  "guarded sv J m caps me g r next =
     (case g of
        Unguarded \<Rightarrow> next
      | Testing \<Rightarrow> TestingMiddleware r next
      | NoAuth \<Rightarrow> NoAuthMiddleware sv me r next
      | Api \<Rightarrow> ApiMiddleware sv J m caps me r next
      | Cpe \<Rightarrow> CpeMiddleware sv J m me r next)"

text \<open>\<open>None\<close>: no route, or none for the method; the router answers itself.\<close>

definition serve ::
  "'s server \<Rightarrow> 'k jwt \<Rightarrow> 'k token_manager \<Rightarrow> string list \<Rightarrow> request_meta \<Rightarrow> route list
     \<Rightarrow> (handler \<Rightarrow> http_request \<Rightarrow> ('t web, unit) prog) \<Rightarrow> string list \<Rightarrow> http_request \<Rightarrow> ('t web, unit) prog option" where
  "serve sv J m caps me routes run path r =
     (case dispatch routes path (rq_method r) of
        Found g h vars \<Rightarrow>
          (let r' = r\<lparr>rq_vars := vars\<rparr> in Some (guarded sv J m caps me g r' (run h r')))
      | _ \<Rightarrow> None)"

section \<open>Facts\<close>

text \<open>What a handler of device data may rely on when both token checks are switched on.\<close>

lemma serve_gated:
  assumes "serverApiTokenAuthEnabled f" "deviceApiTokenAuthEnabled f"
    and "dispatch (GetRouter f False) path (rq_method r) = Found g h vars" "touches_data h"
  shows "\<exists>k. serve sv J m caps me (GetRouter f False) run path r = Some k
    \<and> gated (if h = MultipartConfig then device_passes sv J m (r\<lparr>rq_vars := vars\<rparr>)
        else api_passes sv J m caps (r\<lparr>rq_vars := vars\<rparr>)) (run h (r\<lparr>rq_vars := vars\<rparr>)) k"
proof -
  from dispatch_Found[OF assms(3)] obtain rt ms where
      rt: "rt \<in> set (GetRouter f False)" "g = rt_guard rt" "(ms, h) \<in> set (rt_methods rt)"
    by blast
  have "g = (if h = MultipartConfig then Cpe else Api)"
    using routes_guarded[OF assms(1,2) rt(1,3) assms(4)] rt(2) by simp
  then show ?thesis
    by (simp add: serve_def assms(3) guarded_def CpeMiddleware_gated ApiMiddleware_gated Let_def)
qed

end
