(* ===== verification/KafkaConsumer.thy ===== *)
theory KafkaConsumer
  imports ConfigFacts HttpText
begin

text \<open>
  kafka/consumer.go with \<open>getEventName\<close> of kafka/kafka_consumer_group.go: what a consumer does
  with the messages of a claim. Messages are requests of devices over mqtt and the reports of
  what they applied. The broker library is what it hands to the consumer: a sequence of
  selections, each a message, a closed channel or the end of the session. The rate limiter
  only waits and the log lines are left out.
\<close>

section \<open>Messages\<close>

record kafka_message =
  km_key :: bytes
  km_value :: bytes
  km_headers :: "(bytes \<times> bytes) list"
  km_topic :: string
  km_partition :: int
  km_offset :: int

text \<open>The first header with the key rpt decides.\<close>

fun rpt_event :: "(bytes \<times> bytes) list \<Rightarrow> string \<times> string" where
  "rpt_event [] = (''unknown-no-rpt'', '''')"
| "rpt_event ((k, v) # hs) =
     (if k = ''rpt''
      then (if v = ''x/fr/webconfig/get'' then (''mqtt-get'', v)
            else if v = ''x/fr/webconfig/poke'' then (''mqtt-state'', v)
            else (''unknown-rpt'', v))
      else rpt_event hs)"

definition getEventName :: "kafka_message \<Rightarrow> string \<times> string" where
  "getEventName message =
     (if length (km_headers message) > 0 then rpt_event (km_headers message) else (''webpa-state'', ''''))"

text \<open>The clock readings, the date of the answer and the audit id of one message.\<close>

record kafka_ticks =
  kt_get :: ticks
  kt_updated :: int
  kt_now_ns :: int
  kt_date :: string
  kt_call :: "string \<times> nat"
  kt_audit_id :: string
  kt_lag :: int
  kt_duration :: int

section \<open>Reports\<close>

text \<open>
  \<open>decode\<close> is \<open>json.Unmarshal\<close> into an event. The results of \<open>handleNotification\<close>: the event,
  the sub-documents that were updated, and the error.
\<close>

type_synonym handled = "eventmessage option \<times> string list \<times> goerr option"

definition handleNotification ::
  "'s server \<Rightarrow> (bytes \<Rightarrow> goerr + eventmessage) \<Rightarrow> kafka_ticks \<Rightarrow> bytes \<Rightarrow> (('s, 'n) backend, handled) prog" where
  "handleNotification sv decode kt bbytes =
     (case decode bbytes of
        Inl err \<Rightarrow> ret (None, [], Some (NewError err))
      | Inr m \<Rightarrow> seqE (put_field ''body'' IOther)
          (case event_Validate m True of
             (_, Some err) \<Rightarrow> ret (None, [], Some (NewError err))
           | (cpeMac, None) \<Rightarrow>
               if em_error_details m = Some ''max_retry_reached'' then ret (Some m, [], None)
               else seqE (put_field ''cpemac'' (IStr cpeMac)) (seqE (put_field ''cpe_mac'' (IStr cpeMac)) (\<lambda>s.
                 tryE (at_db (UpdateDocumentState (DatabaseClient sv) cpeMac m (be_fields s) (kt_updated kt) (kt_now_ns kt)))
                   throw (\<lambda>(ids, err). ret (Some m, ids, map_option NewError err)) s))))"

section \<open>Requests over mqtt\<close>

definition message_mac :: "header \<Rightarrow> string" where
  "message_mac h =
     (let d = hget h HeaderDeviceId in to_upper (if length d = 0 then hget h ''Mac'' else d))"

definition config_path :: "string \<Rightarrow> string \<Rightarrow> string" where
  "config_path cpeMac params =
     ''/api/v1/device/'' @ cpeMac @ ''/config'' @ (if length params > 0 then ''?group_id='' @ params else '''')"

definition put_field_if :: "string \<Rightarrow> string \<Rightarrow> (('s, 'n) backend, unit) prog" where
  "put_field_if k x = (if length x > 0 then put_field k (IStr x) else ret ())"

text \<open>The header of the request as the services see it.\<close>

definition request_rheader :: "header \<Rightarrow> header" where
  "request_rheader h =
     (let h1 = hset h HeaderDeviceId (message_mac h)
      in if length (hget h1 HeaderSchemaVersion) = 0 then hset h1 HeaderSchemaVersion ''none'' else h1)"

text \<open>The message that is posted back: the error text stands in for bytes that are nil.\<close>

definition mqtt_answer :: "'s server \<Rightarrow> string \<Rightarrow> string \<Rightarrow> reply \<Rightarrow> bytes" where
  "mqtt_answer sv date transactionId r =
     (let respBytes = (case (rp_err r, rp_bytes r) of
            (Some err, None) \<Rightarrow> ef_text (errs sv) err
          | (_, b) \<Rightarrow> nil_bytes b);
          h = (if length transactionId > 0 then hset (rp_header r) ''Transaction-ID'' transactionId else rp_header r)
      in BuildPayloadAsHttp date (rp_status r) h respBytes)"

definition handleGetMessage ::
  "'s server \<Rightarrow> 'n services \<Rightarrow> kafka_ticks \<Rightarrow> bytes \<Rightarrow> (('s, 'n) backend, handled) prog" where
  "handleGetMessage sv sx kt inbytes =
     (let h = fst (ParseHttp inbytes);
          params = hget h HeaderDocName;
          cpeMac = message_mac h;
          agent = hget h HeaderMetricsAgent;
          transactionId = hget h ''Transaction-ID'';
          m = empty_event\<lparr>em_metrics_agent := (if length agent > 0 then Some agent else None)\<rparr>
      in seqE (put_field ''cpemac'' (IStr cpeMac))
        (seqE (put_field ''cpe_mac'' (IStr cpeMac))
        (seqE (put_field ''path'' (IStr (config_path cpeMac params)))
        (seqE (put_field_if ''metrics_agent'' agent)
        (seqE (put_field_if ''transaction_id'' transactionId)
        (seqE (put_field_if ''trace_id'' transactionId)
        (seqE (put_field ''header'' IOther)
        (tryE (BuildWebconfigResponse sv sx (request_rheader h) (kt_get kt)) throw (\<lambda>r.
          seqE (put_field ''status'' (IInt (rp_status r)))
            (tryE (at_net (PostMqtt (sx_net sx) (sx_mqtt sx) cpeMac (mqtt_answer sv (kt_date kt) transactionId r)
                     (kt_call kt) (tk_call (kt_get kt))))
               throw (\<lambda>d. ret (Some m, [], map_option NewError (dr_err d)))))))))))))"

section \<open>One message\<close>

text \<open>
  The state of a consumer: the server behind it, the offsets it marked as processed, and its
  metrics. A counter counts the events by name, status and partition; the observations of lag
  and duration are kept in order.
\<close>

record kafka_metrics =
  eventCounter :: "string \<times> string \<times> string \<Rightarrow> int"
  kafkaLag :: "((string \<times> string \<times> string) \<times> int) list"
  kafkaDuration :: "((string \<times> string) \<times> int) list"

record ('s, 'n) consumer =
  cs_backend :: "('s, 'n) backend"
  cs_marked :: "(string \<times> int \<times> int) list"
  cs_metrics :: "kafka_metrics option"

definition at_backend :: "(('s, 'n) backend, 'a) prog \<Rightarrow> (('s, 'n) consumer, 'a) prog" where
  "at_backend m = (\<lambda>s. case m (cs_backend s) of (r, b) \<Rightarrow> (r, s\<lparr>cs_backend := b\<rparr>))"

definition kafka_fields :: "string \<Rightarrow> string \<Rightarrow> kafka_ticks \<Rightarrow> kafka_message \<Rightarrow> fields" where
  "kafka_fields app cluster kt message =
     [(''logger'', IStr ''kafka''), (''app_name'', IStr app), (''kafka_lag'', IInt (kt_lag kt)),
      (''kafka_key'', IStr (km_key message)), (''topic'', IStr (km_topic message)),
      (''audit_id'', IStr (kt_audit_id kt)), (''cluster_name'', IStr cluster),
      (''kafka_partition'', IOther), (''kafka_offset'', IOther),
      (''message_length'', IInt (int (length (km_value message))))]"

definition with_new_fields :: "fields \<Rightarrow> (('s, 'n) backend, unit) prog" where
  "with_new_fields flds = (\<lambda>s. (Ok (), s\<lparr>be_remote := (be_remote s)\<lparr>rm_fields := flds\<rparr>\<rparr>))"

text \<open>The handler of a message; one of an unknown kind is discarded.\<close>

definition dispatch_message ::
  "'s server \<Rightarrow> 'n services \<Rightarrow> (bytes \<Rightarrow> goerr + eventmessage) \<Rightarrow> kafka_ticks \<Rightarrow> kafka_message
     \<Rightarrow> (('s, 'n) backend, handled) prog" where
  "dispatch_message sv sx decode kt message =
     (let eventName = fst (getEventName message)
      in if eventName = ''mqtt-get'' then handleGetMessage sv sx kt (km_value message)
         else if eventName = ''mqtt-state''
         then (let (h, bbytes) = ParseHttp (km_value message)
               in seqE (put_field ''destination'' (IStr (hget h ''Destination'')))
                    (handleNotification sv decode kt (nil_bytes bbytes)))
         else if eventName = ''webpa-state'' then handleNotification sv decode kt (km_value message)
         else ret (None, [], None))"

definition MarkMessage :: "kafka_message \<Rightarrow> (('s, 'n) consumer, unit) prog" where
  "MarkMessage message = (\<lambda>s. (Ok (), s\<lparr>cs_marked :=
     cs_marked s @ [(km_topic message, km_partition message, km_offset message)]\<rparr>))"

definition observe :: "string \<Rightarrow> kafka_ticks \<Rightarrow> kafka_message \<Rightarrow> eventmessage \<Rightarrow> bool \<Rightarrow> kafka_metrics \<Rightarrow> kafka_metrics" where
  "observe eventName kt message m success km =
     (let agent = (case em_metrics_agent m of None \<Rightarrow> ''default'' | Some a \<Rightarrow> a);
          partition = itoa (km_partition message);
          k = (eventName, if success then ''success'' else ''fail'', partition)
      in km\<lparr>kafkaLag := kafkaLag km @ [((eventName, agent, partition), kt_lag kt)],
            kafkaDuration := kafkaDuration km @ [((eventName, agent), kt_duration kt)],
            eventCounter := (eventCounter km)(k := eventCounter km k + 1)\<rparr>)"

definition count_message ::
  "string \<Rightarrow> kafka_ticks \<Rightarrow> kafka_message \<Rightarrow> handled \<Rightarrow> (('s, 'n) consumer, unit) prog" where
  "count_message eventName kt message r = (\<lambda>s. (Ok (),
     case r of
       (Some m, _, err) \<Rightarrow> s\<lparr>cs_metrics := map_option (observe eventName kt message m (err = None)) (cs_metrics s)\<rparr>
     | _ \<Rightarrow> s))"

text \<open>
  What is handed to the producer: the event, and for a 304 report one success event for each
  sub-document that was updated.
\<close>

definition ForwardKafkaMessage :: "'s server \<Rightarrow> bytes \<Rightarrow> eventmessage \<Rightarrow> producer_message" where
  "ForwardKafkaMessage sv kbytes m = \<lparr>pm_topic = kafkaProducerTopic sv, pm_key = kbytes, pm_event = m\<rparr>"

definition success_report :: "eventmessage \<Rightarrow> string \<Rightarrow> eventmessage" where
  "success_report m subdocId = empty_event\<lparr>em_namespace := Some subdocId,
     em_application_status := Some ''success'', em_device_id := em_device_id m,
     em_transaction_uuid := em_transaction_uuid m, em_version := em_version m\<rparr>"

definition forwarded :: "'s server \<Rightarrow> kafka_message \<Rightarrow> handled \<Rightarrow> producer_message list" where
  "forwarded sv message r =
     (case r of
        (Some m, ids, None) \<Rightarrow>
          if kafkaProducerEnabled sv
          then map (ForwardKafkaMessage sv (km_key message))
                 (m # (if length (em_reports m) = 0 \<and> em_http_status_code m = Some 304 \<and> length ids > 0
                       then map (success_report m) ids else []))
          else []
      | _ \<Rightarrow> [])"

definition send_all :: "producer_message list \<Rightarrow> (('s, 'n) backend, unit) prog" where
  "send_all ps = (\<lambda>s. (Ok (), s\<lparr>be_sent := be_sent s @ ps\<rparr>))"

definition consume_message ::
  "'s server \<Rightarrow> 'n services \<Rightarrow> string \<Rightarrow> (bytes \<Rightarrow> goerr + eventmessage) \<Rightarrow> kafka_ticks \<Rightarrow> kafka_message
     \<Rightarrow> (('s, 'n) consumer, unit) prog" where
  "consume_message sv sx cluster decode kt message =
     (let eventName = fst (getEventName message)
      in seqE (at_backend (with_new_fields (kafka_fields (appName sv) cluster kt message)))
        (tryE (at_backend (dispatch_message sv sx decode kt message)) throw (\<lambda>r.
           seqE (MarkMessage message)
          (seqE (count_message eventName kt message r)
             (at_backend (send_all (forwarded sv message r)))))))"

section \<open>The loop\<close>

text \<open>
  What one round of the loop selects. The \<open>break\<close> for a nil message leaves the selection only:
  on a closed channel the loop goes round until the session ends. The result tells whether
  the loop has returned after these selections.
\<close>

datatype selected = Message kafka_ticks kafka_message | ChannelClosed | SessionDone

fun ConsumeClaim ::
  "'s server \<Rightarrow> 'n services \<Rightarrow> string \<Rightarrow> (bytes \<Rightarrow> goerr + eventmessage) \<Rightarrow> selected list
     \<Rightarrow> (('s, 'n) consumer, bool) prog" where
  "ConsumeClaim sv sx cluster decode [] = ret False"
| "ConsumeClaim sv sx cluster decode (Message kt message # es) =
     seqE (consume_message sv sx cluster decode kt message) (ConsumeClaim sv sx cluster decode es)"
| "ConsumeClaim sv sx cluster decode (ChannelClosed # es) = ConsumeClaim sv sx cluster decode es"
| "ConsumeClaim sv sx cluster decode (SessionDone # es) = ret True"

section \<open>Isolation\<close>

text \<open>
  The devices a message is about: the one of the report, or the one that asks. A report that
  cannot be decoded is about none.
\<close>

definition message_devices :: "(bytes \<Rightarrow> goerr + eventmessage) \<Rightarrow> kafka_message \<Rightarrow> string \<Rightarrow> bool" where
  "message_devices decode message mac \<longleftrightarrow>
     (let (h, body) = ParseHttp (km_value message);
          report = (\<lambda>b. case decode b of Inl _ \<Rightarrow> True | Inr m \<Rightarrow> getCpeMac m = mac);
          name = fst (getEventName message)
      in (name = ''mqtt-get'' \<longrightarrow> message_mac h = mac \<and> IsPrintable mac)
       \<and> (name = ''mqtt-state'' \<longrightarrow> report (nil_bytes body))
       \<and> (name = ''webpa-state'' \<longrightarrow> report (km_value message)))"

lemma request_rheader_device: "hget (request_rheader h) HeaderDeviceId = message_mac h"
proof -
  have "CanonicalHeaderKey HeaderDeviceId \<noteq> CanonicalHeaderKey HeaderSchemaVersion" by code_simp
  then show ?thesis by (simp add: request_rheader_def Let_def)
qed

definition consumer_has :: "(('s, 'n) backend \<Rightarrow> bool) \<Rightarrow> ('s, 'n) consumer \<Rightarrow> bool" where
  "consumer_has P s = P (cs_backend s)"

lemma keeps_at_backend [keeps_intros]: "keeps P m \<Longrightarrow> keeps (consumer_has P) (at_backend m)"
  by (simp add: keeps_def at_backend_def consumer_has_def split: prod.split) (metis snd_conv)

lemma keeps_mark [keeps_intros]: "keeps (consumer_has P) (MarkMessage message)"
  and keeps_count [keeps_intros]: "keeps (consumer_has P) (count_message e kt message r)"
  and keeps_send_all [keeps_intros]: "keeps (db_has Q) (send_all ps)"
  and keeps_new_fields [keeps_intros]: "keeps (db_has Q) (with_new_fields flds)"
  and keeps_put_field_if [keeps_intros]: "keeps (db_has Q) (put_field_if k x)"
  by (auto simp: keeps_def MarkMessage_def count_message_def send_all_def with_new_fields_def put_field_if_def
      put_field_def ret_def consumer_has_def db_has_def split: option.splits prod.splits)

context db_frame
begin

lemma frame_handleNotification [keeps_intros]:
  assumes sv: "DatabaseClient sv = c" and mac: "\<And>m. decode b = Inr m \<Longrightarrow> getCpeMac m = mac"
  shows "keeps (db_has (others_same mac s0)) (handleNotification sv decode kt b)"
proof (cases "decode b")
  case (Inl e)
  then show ?thesis by (simp add: handleNotification_def)
next
  case (Inr m)
  have v: "fst (event_Validate m True) = mac" using mac[OF Inr] by (simp add: event_Validate_mac)
  have run: "keeps (db_has (others_same mac s0)) (\<lambda>s. tryE (at_db (UpdateDocumentState c mac m (be_fields s)
      (kt_updated kt) (kt_now_ns kt))) throw (\<lambda>(ids, err). ret (Some m, ids, map_option NewError err)) s)"
    by (rule keepsI, erule keeps_run)
       (auto intro!: keeps_intros frame_UpdateDocumentState split: prod.splits)
  show ?thesis
    unfolding handleNotification_def Inr sum.case sv
    using v by (auto intro!: keeps_intros run split: prod.splits option.splits)
qed

lemma frame_handleGetMessage [keeps_intros]:
  assumes sv: "DatabaseClient sv = c" and mac: "message_mac (fst (ParseHttp b)) = mac" "IsPrintable mac"
  shows "keeps (db_has (others_same mac s0)) (handleGetMessage sv sx kt b)"
  unfolding handleGetMessage_def Let_def
  by (intro keeps_intros frame_BuildWebconfigResponse)
     (simp_all add: sv mac request_rheader_device)

lemma frame_consume_message [keeps_intros]:
  assumes sv: "DatabaseClient sv = c" and mac: "message_devices decode message mac"
  shows "keeps (consumer_has (db_has (others_same mac s0))) (consume_message sv sx cluster decode kt message)"
proof -
  have "keeps (db_has (others_same mac s0)) (dispatch_message sv sx decode kt message)"
    unfolding dispatch_message_def Let_def
    using mac by (auto simp: message_devices_def Let_def split: prod.splits sum.splits
        intro!: keeps_intros frame_handleGetMessage frame_handleNotification sv)
  then show ?thesis
    unfolding consume_message_def Let_def by (intro keeps_intros)
qed

text \<open>A session over messages about one device leaves the others alone.\<close>

lemma frame_ConsumeClaim:
  assumes "DatabaseClient sv = c" "\<forall>kt message. Message kt message \<in> set es \<longrightarrow> message_devices decode message mac"
  shows "keeps (consumer_has (db_has (others_same mac s0))) (ConsumeClaim sv sx cluster decode es)"
  using assms(2)
proof (induction es)
  case (Cons e es)
  then show ?case
    by (cases e) (auto intro!: keeps_intros frame_consume_message[OF assms(1)])
qed simp

end

section \<open>Marks and forwarded events\<close>

definition position_of :: "kafka_message \<Rightarrow> string \<times> int \<times> int" where
  "position_of message = (km_topic message, km_partition message, km_offset message)"

lemma at_backend_eq: "at_backend m s = (r, s') \<longleftrightarrow> (\<exists>b. m (cs_backend s) = (r, b) \<and> s' = s\<lparr>cs_backend := b\<rparr>)"
  by (auto simp: at_backend_def split: prod.splits)

text \<open>What is left of a message that did not panic, with the result of its handler.\<close>

lemma consume_message_Ok:
  assumes "consume_message sv sx cluster decode kt message s = (Ok u, s')"
  shows "\<exists>r b. dispatch_message sv sx decode kt message
        ((cs_backend s)\<lparr>be_remote := (be_remote (cs_backend s))\<lparr>rm_fields := kafka_fields (appName sv) cluster kt message\<rparr>\<rparr>)
        = (Ok r, b)
      \<and> cs_marked s' = cs_marked s @ [position_of message]
      \<and> cs_backend s' = b\<lparr>be_sent := be_sent b @ forwarded sv message r\<rparr>
      \<and> cs_metrics s' = (case fst r of None \<Rightarrow> cs_metrics s
          | Some m \<Rightarrow> map_option (observe (fst (getEventName message)) kt message m (snd (snd r) = None)) (cs_metrics s))"
proof -
  let ?b0 = "(cs_backend s)\<lparr>be_remote := (be_remote (cs_backend s))\<lparr>rm_fields := kafka_fields (appName sv) cluster kt message\<rparr>\<rparr>"
  from assms obtain r b where d: "dispatch_message sv sx decode kt message ?b0 = (Ok r, b)"
    unfolding consume_message_def Let_def
    by (auto simp: seqE_eq_Ok tryE_eq_Ok at_backend_eq with_new_fields_def)
  obtain m ids err where r: "r = (m, ids, err)" by (cases r)
  from assms d show ?thesis
    unfolding consume_message_def Let_def r
    by (cases m) (auto simp: seqE_def tryE_def at_backend_def with_new_fields_def MarkMessage_def count_message_def
        send_all_def position_of_def intro!: exI[of _ "(m, ids, err)"])
qed

lemma report_valid:
  assumes "em_device_id m = ''mac:'' @ d" "length d = 12" "em_http_status_code m = Some code"
  shows "event_Validate m True = (to_upper d, None)"
proof -
  have "d \<noteq> []" using assms(2) by auto
  then show ?thesis using assms by (simp add: event_Validate_def getCpeMac_def to_upper_def Let_def)
qed

text \<open>Every message that the loop gets is marked, once and in order, whatever its handler said.\<close>

fun delivered :: "selected list \<Rightarrow> kafka_message list" where
  "delivered [] = []"
| "delivered (Message kt message # es) = message # delivered es"
| "delivered (ChannelClosed # es) = delivered es"
| "delivered (SessionDone # es) = []"

lemma ConsumeClaim_marks:
  "ConsumeClaim sv sx cluster decode es s = (Ok b, s') \<Longrightarrow>
     cs_marked s' = cs_marked s @ map position_of (delivered es) \<and> (b \<longleftrightarrow> SessionDone \<in> set es)"
proof (induction es arbitrary: s)
  case (Cons e es)
  show ?case
  proof (cases e)
    case (Message kt message)
    with Cons.prems obtain u s1 where
        "consume_message sv sx cluster decode kt message s = (Ok u, s1)"
      and "ConsumeClaim sv sx cluster decode es s1 = (Ok b, s')"
      by (auto simp: seqE_eq_Ok)
    then show ?thesis using Cons.IH Message by (auto dest!: consume_message_Ok)
  qed (use Cons in auto)
qed simp

lemma handleNotification_run:
  assumes "decode b = Inr m" "em_device_id m = ''mac:'' @ d" "length d = 12" "em_http_status_code m = Some code"
    and "em_error_details m \<noteq> Some ''max_retry_reached''"
    and "handleNotification sv decode kt b s = (Ok r, s')"
  shows "\<exists>flds ids err. UpdateDocumentState (DatabaseClient sv) (to_upper d) m flds (kt_updated kt) (kt_now_ns kt) (be_db s)
        = (Ok (ids, err), be_db s')
      \<and> be_sent s' = be_sent s \<and> r = (Some m, ids, map_option NewError err)"
proof -
  have "event_Validate m True = (to_upper d, None)"
    using assms(2-4) by (rule report_valid)
  then show ?thesis
    using assms(1,5,6) unfolding handleNotification_def
    by (auto simp: seqE_eq_Ok tryE_eq_Ok at_db_eq put_field_def be_fields_def split: prod.splits) blast
qed

context db_store
begin

text \<open>
  A 304 report: its message is marked; either its handler failed and nothing is forwarded, or
  the event is, followed by one success event for each sub-document that was not cleanly
  deployed.
\<close>

lemma consume_304:
  assumes inv: "inv (be_db (cs_backend s))" and sv: "DatabaseClient sv = c" "kafkaProducerEnabled sv"
    and hd: "km_headers message = []" and dec: "decode (km_value message) = Inr m"
    and dev: "em_device_id m = ''mac:'' @ d" "length d = 12"
    and m: "em_reports m = []" "em_http_status_code m = Some 304" "em_error_details m \<noteq> Some ''max_retry_reached''"
    and run: "consume_message sv sx cluster decode kt message s = (Ok u, s')"
  shows "cs_marked s' = cs_marked s @ [position_of message]
    \<and> (be_sent (cs_backend s') = be_sent (cs_backend s)
      \<or> (\<exists>ids. be_sent (cs_backend s') = be_sent (cs_backend s)
            @ map (ForwardKafkaMessage sv (km_key message)) (m # map (success_report m) ids)
          \<and> (\<forall>k. k \<in> set ids \<longleftrightarrow> (\<exists>x. content (be_db (cs_backend s)) (to_upper d) k = Some x \<and> NeedsUpdateForHttp304 x))))"
proof -
  from consume_message_Ok[OF run] obtain r b where
      dis: "dispatch_message sv sx decode kt message ((cs_backend s)\<lparr>be_remote := (be_remote (cs_backend s))\<lparr>rm_fields :=
          kafka_fields (appName sv) cluster kt message\<rparr>\<rparr>) = (Ok r, b)"
    and mk: "cs_marked s' = cs_marked s @ [position_of message]"
    and sent: "cs_backend s' = b\<lparr>be_sent := be_sent b @ forwarded sv message r\<rparr>"
    by blast
  have name: "fst (getEventName message) = ''webpa-state''" by (simp add: getEventName_def hd)
  from dis name obtain flds ids err where
      upd: "UpdateDocumentState c (to_upper d) m flds (kt_updated kt) (kt_now_ns kt) (be_db (cs_backend s)) = (Ok (ids, err), be_db b)"
    and bs: "be_sent b = be_sent (cs_backend s)" and r: "r = (Some m, ids, map_option NewError err)"
    using handleNotification_run[where decode = decode, OF dec dev m(2,3)] sv(1)
    by (fastforce simp: dispatch_message_def)
  show ?thesis
  proof (cases err)
    case None
    have "k \<in> set ids \<longleftrightarrow> (\<exists>x. content (be_db (cs_backend s)) (to_upper d) k = Some x \<and> NeedsUpdateForHttp304 x)" for k
      using UpdateDocumentState_304_ok(2)[OF inv m(1,2) upd[unfolded None]] .
    moreover have "forwarded sv message r = map (ForwardKafkaMessage sv (km_key message)) (m # map (success_report m) ids)"
      using sv(2) m(1,2) by (simp add: r None forwarded_def)
    ultimately show ?thesis using mk sent bs by auto
  next
    case (Some e)
    then have "forwarded sv message r = []" by (simp add: r forwarded_def)
    then show ?thesis using mk sent bs by simp
  qed
qed

text \<open>A report whose update of the database failed is marked all the same, and forwarded to nobody.\<close>

end

lemma consume_lost:
  assumes hd: "km_headers message = []" and dec: "decode (km_value message) = Inr m"
    and dev: "em_device_id m = ''mac:'' @ d" "length d = 12"
    and m: "em_http_status_code m = Some code" "em_error_details m \<noteq> Some ''max_retry_reached''"
    and upd: "\<And>flds. map_of flds ''metrics_agent'' = None \<Longrightarrow> UpdateDocumentState (DatabaseClient sv) (to_upper d) m flds (kt_updated kt) (kt_now_ns kt)
        (be_db (cs_backend s)) = (Ok (ids, Some err), d1)"
  shows "\<exists>s'. consume_message sv sx cluster decode kt message s = (Ok (), s')
    \<and> cs_marked s' = cs_marked s @ [position_of message] \<and> be_db (cs_backend s') = d1
    \<and> be_sent (cs_backend s') = be_sent (cs_backend s)"
proof -
  have "event_Validate m True = (to_upper d, None)"
    using dev m(1) by (rule report_valid)
  moreover have "fst (getEventName message) = ''webpa-state''" by (simp add: getEventName_def hd)
  ultimately show ?thesis
    using dec m(2)
    by (simp add: consume_message_def dispatch_message_def handleNotification_def at_backend_def seqE_def tryE_def
        at_db_def put_field_def with_new_fields_def MarkMessage_def count_message_def send_all_def forwarded_def
        position_of_def be_fields_def kafka_fields_def upd Let_def)
qed

context sql_engine
begin

lemmas sqlite_consume_304 = store.consume_304

lemma sqlite_claim_isolated:
  assumes "DatabaseClient sv = sqlite_client E cfg"
    and "\<forall>kt message. Message kt message \<in> set es \<longrightarrow> message_devices decode message mac"
    and "ConsumeClaim sv sx cluster decode es s = (r, s')" "m \<noteq> mac"
  shows "sq_subs E (be_db (cs_backend s')) m = sq_subs E (be_db (cs_backend s)) m
    \<and> sq_roots E (be_db (cs_backend s')) m = sq_roots E (be_db (cs_backend s)) m"
proof -
  let ?P = "consumer_has (db_has (client.others_same mac (be_db (cs_backend s))))"
  have "?P s" by (simp add: consumer_has_def db_has_def)
  from keepsD[OF client.frame_ConsumeClaim[OF assms(1,2)] this assms(3)] assms(4)
  show ?thesis by (simp add: consumer_has_def db_has_def client.others_same_def)
qed

end

end
