(* ===== verification/CqlEngine.thy ===== *)
theory CqlEngine
  imports SqlEngine
begin

text \<open>
  The tables of db/cassandra/schema.go and the CQL statements of the Cassandra client. The
  session (github.com/gocql/gocql with the cluster behind it) is a library: it is the
  parameter \<open>'d cql\<close>, and the locale \<open>cql_engine\<close> states what the client relies on. It promises
  less than the SQL engine: a statement that reports an error (a timeout) may still have had
  its effect, and a query may deliver some rows before it fails.
\<close>

section \<open>Tables and statements\<close>

definition cassandra_schema :: "((string \<times> coltype) list \<times> string list) gomap" where
  "cassandra_schema =
     [(''xpc_group_config'',
        ([(''cpe_mac'', CText), (''group_id'', CText), (''error_code'', CInt), (''error_details'', CText),
          (''expiry'', CTimestamp), (''payload'', CBlob), (''state'', CInt), (''updated_time'', CTimestamp),
          (''version'', CText)],
         [''cpe_mac'', ''group_id''])),
      (''root_document'',
        ([(''cpe_mac'', CText), (''bitmap'', CInt), (''account_type'', CText), (''firmware_version'', CText),
          (''locked_till'', CTimestamp), (''model_name'', CText), (''partner_id'', CText),
          (''product_class'', CText), (''query_params'', CText), (''route'', CText),
          (''schema_version'', CText), (''version'', CText)],
         [''cpe_mac''])),
      (''reference_document'',
        ([(''ref_id'', CText), (''payload'', CBlob), (''version'', CText)],
         [''ref_id'']))]"

definition cql_columns :: "string \<Rightarrow> string list" where
  "cql_columns t = map fst (fst (gomap_get ([], []) cassandra_schema t))"

definition cql_key :: "string \<Rightarrow> string list" where
  "cql_key t = snd (gomap_get ([], []) cassandra_schema t)"

datatype cql_stmt =
    CqlInsert string "string list"
  | CqlDelete string "string list"
  | CqlDeleteColumns string "string list" "string list"

section \<open>Meaning\<close>

text \<open>An INSERT writes over the row with the same key, if there is one.\<close>

definition upsert :: "string list \<Rightarrow> string list \<Rightarrow> sqlval list \<Rightarrow> row list \<Rightarrow> row list" where
  "upsert key cols vals rows =
     (let new = set_row cols vals (\<lambda>_. VNull); kv = map new key
      in if list_ex (row_matches key kv) rows then update_where key kv (set_row cols vals) rows
         else rows @ [new])"

definition columns_known :: "string \<Rightarrow> string list \<Rightarrow> bool" where
  "columns_known t cols \<longleftrightarrow> list_all (\<lambda>c. c \<in> set (cql_columns t)) cols"

fun cql_effect :: "cql_stmt \<Rightarrow> sqlval list \<Rightarrow> tables \<Rightarrow> tables option" where
  "cql_effect (CqlInsert t cols) vals T =
     (if columns_known t cols \<and> distinct cols \<and> set (cql_key t) \<subseteq> set cols \<and> length vals = length cols
         \<and> VNull \<notin> set (map (set_row cols vals (\<lambda>_. VNull)) (cql_key t))
      then Some (T(t := upsert (cql_key t) cols vals (T t))) else None)"
| "cql_effect (CqlDelete t wcols) vals T =
     (if columns_known t wcols \<and> length vals = length wcols
      then Some (T(t := filter (\<lambda>r. \<not> row_matches wcols vals r) (T t))) else None)"
| "cql_effect (CqlDeleteColumns t cols wcols) vals T =
     (if columns_known t cols \<and> set cols \<inter> set (cql_key t) = {} \<and> wcols = cql_key t \<and> length vals = length wcols
      then Some (T(t := update_where wcols vals (set_row cols (replicate (length cols) VNull)) (T t))) else None)"

fun cql_select :: "sqlquery \<Rightarrow> sqlval list \<Rightarrow> tables \<Rightarrow> sqlval list list option" where
  "cql_select (SelectFrom t cols wcols) vals T =
     (if columns_known t cols \<and> columns_known t wcols \<and> length vals = length wcols
      then Some (map (\<lambda>r. map r cols) (filter (row_matches wcols vals) (T t))) else None)"

section \<open>The session\<close>

record 'd cql =
  cql_exec :: "cql_stmt \<Rightarrow> sqlval list \<Rightarrow> 'd \<Rightarrow> goerr option \<times> 'd"
  cql_query :: "sqlquery \<Rightarrow> sqlval list \<Rightarrow> 'd \<Rightarrow> sqlval list list \<times> goerr option"
  cql_tables :: "'d \<Rightarrow> tables"

locale cql_engine =
  fixes E :: "'d cql"
  assumes exec_ok: "cql_exec E st vs d = (None, d') \<Longrightarrow>
      cql_effect st vs (cql_tables E d) = Some (cql_tables E d')"
    and exec_err: "cql_exec E st vs d = (Some e, d') \<Longrightarrow>
      cql_tables E d' = cql_tables E d \<or> cql_effect st vs (cql_tables E d) = Some (cql_tables E d')"
    and query_ok: "cql_query E q vs d = (rows, None) \<Longrightarrow>
      \<exists>rows'. cql_select q vs (cql_tables E d) = Some rows' \<and> mset rows = mset rows'"
    and query_err: "cql_query E q vs d = (rows, Some e) \<Longrightarrow> \<not> errors_Is e ErrNoRows"
begin

lemma exec_cases:
  "cql_exec E st vs d = (r, d') \<Longrightarrow>
     cql_tables E d' = cql_tables E d \<or> cql_effect st vs (cql_tables E d) = Some (cql_tables E d')"
  using exec_ok exec_err by (cases r) auto

end

text \<open>Tables in memory, as a session that never fails without cause.\<close>

definition mem_cql :: "tables cql" where
  "mem_cql = \<lparr>
     cql_exec = (\<lambda>st vs T. case cql_effect st vs T of
        None \<Rightarrow> (Some (ErrText ''Invalid query''), T) | Some T' \<Rightarrow> (None, T')),
     cql_query = (\<lambda>q vs T. case cql_select q vs T of
        None \<Rightarrow> ([], Some (ErrText ''Invalid query'')) | Some rows \<Rightarrow> (rows, None)),
     cql_tables = (\<lambda>T. T)\<rparr>"

interpretation mem_cluster: cql_engine mem_cql
  by unfold_locales (auto simp: mem_cql_def split: option.splits)

section \<open>Facts\<close>

lemma columns_known_simps [simp]:
  "columns_known t []" "columns_known t (c # cs) \<longleftrightarrow> c \<in> set (cql_columns t) \<and> columns_known t cs"
  "columns_known t (xs @ ys) \<longleftrightarrow> columns_known t xs \<and> columns_known t ys"
  by (auto simp: columns_known_def)

lemma cql_columns_simps [simp]:
  "cql_columns ''xpc_group_config'' = [''cpe_mac'', ''group_id'', ''error_code'', ''error_details'', ''expiry'',
     ''payload'', ''state'', ''updated_time'', ''version'']"
  "cql_columns ''root_document'' = [''cpe_mac'', ''bitmap'', ''account_type'', ''firmware_version'',
     ''locked_till'', ''model_name'', ''partner_id'', ''product_class'', ''query_params'', ''route'',
     ''schema_version'', ''version'']"
  "cql_columns ''reference_document'' = [''ref_id'', ''payload'', ''version'']"
  "cql_key ''xpc_group_config'' = [''cpe_mac'', ''group_id'']"
  "cql_key ''root_document'' = [''cpe_mac'']"
  "cql_key ''reference_document'' = [''ref_id'']"
  by (simp_all add: cql_columns_def cql_key_def cassandra_schema_def)

fun cql_table :: "cql_stmt \<Rightarrow> string" where
  "cql_table (CqlInsert t _) = t"
| "cql_table (CqlDelete t _) = t"
| "cql_table (CqlDeleteColumns t _ _) = t"

lemma cql_effect_other_table: "cql_effect st vs T = Some T' \<Longrightarrow> t \<noteq> cql_table st \<Longrightarrow> T' t = T t"
  by (cases st) (auto split: if_splits)

text \<open>The device a statement is about: the value of its first column, which is the partition key.\<close>

fun cql_device :: "cql_stmt \<Rightarrow> sqlval list \<Rightarrow> sqlval option" where
  "cql_device (CqlInsert t (c # cols)) (v # vals) =
     (if c = ''cpe_mac'' \<and> ''cpe_mac'' \<notin> set cols \<and> ''cpe_mac'' \<in> set (cql_key t) then Some v else None)"
| "cql_device (CqlDelete t (w # ws)) (v # vals) = (if w = ''cpe_mac'' then Some v else None)"
| "cql_device (CqlDeleteColumns t cols (w # ws)) (v # vals) = (if w = ''cpe_mac'' then Some v else None)"
| "cql_device _ _ = None"

lemma row_matches_key: "row_matches key kv r \<Longrightarrow> length kv = length key \<Longrightarrow> c \<in> set key \<Longrightarrow> kv = map f key \<Longrightarrow> r c = f c"
  by (auto simp: row_matches_def list_all2_conv_all_nth in_set_conv_nth)

lemma rows_with_upsert:
  assumes "c \<in> set key" "set_row cols vals (\<lambda>_. VNull) c \<noteq> v"
    and "\<And>r. r c \<noteq> v \<Longrightarrow> set_row cols vals r c \<noteq> v"
  shows "rows_with c v (upsert key cols vals rows) = rows_with c v rows"
proof -
  have "r c \<noteq> v" if "row_matches key (map (set_row cols vals (\<lambda>_. VNull)) key) r" for r
    using row_matches_key[OF that _ assms(1), of "set_row cols vals (\<lambda>_. VNull)"] assms(2) by simp
  then show ?thesis
    using assms(2,3) by (auto simp: upsert_def Let_def rows_with_update_where) (simp add: rows_with_def)
qed

lemma cql_effect_device:
  assumes "cql_effect st vs T = Some T'" "cql_device st vs = Some v" "v' \<noteq> v" "v' \<noteq> VNull"
  shows "rows_with ''cpe_mac'' v' (T' t) = rows_with ''cpe_mac'' v' (T t)"
proof (cases "t = cql_table st")
  case False
  then show ?thesis using assms(1) by (simp add: cql_effect_other_table)
next
  case True
  with assms show ?thesis
  proof (induction st vs rule: cql_device.induct)
    case (1 t' c cols u vals)
    then have "c = ''cpe_mac''" "''cpe_mac'' \<notin> set cols" "''cpe_mac'' \<in> set (cql_key t')" "u = v" "t = t'"
      by (auto split: if_splits)
    with 1 show ?case
      by (auto simp: set_row_other intro!: rows_with_upsert split: if_splits)
  next
    case (2 t' w ws u vals)
    then show ?case by (auto simp: rows_with_def intro: filter_cong split: if_splits)
  next
    case (3 t' cols w ws u vals)
    have ne: "v' \<noteq> v" "v' \<noteq> VNull" using 3 by simp_all
    have w: "w = ''cpe_mac''" "u = v"
      and T': "T' t = update_where (w # ws) (u # vals) (set_row cols (replicate (length cols) VNull)) (T t)"
      using 3 by (auto split: if_splits)
    show ?case unfolding T'
      by (rule rows_with_update_where)
         (use ne w set_row_null[of cols _ "''cpe_mac''"] in force)
  qed auto
qed

declare cql_device.simps [simp del]

end
