(* ===== verification/AesCodec.thy ===== *)
theory AesCodec
  imports Base64
begin

text \<open>
  security/aes_codec.go: encryption of texts for the logs. The block cipher in CBC mode and
  SHA-1 are library functions and hence arguments; what the codec relies on is the predicate
  \<open>cipher_ok\<close>.
\<close>

section \<open>The codec\<close>

record cipher =
  ci_enc :: "bytes \<Rightarrow> bytes \<Rightarrow> bytes \<Rightarrow> bytes"
  ci_dec :: "bytes \<Rightarrow> bytes \<Rightarrow> bytes \<Rightarrow> bytes"
  ci_sha1 :: "bytes \<Rightarrow> bytes"

record aes_codec =
  ac_key :: "bytes option"

definition BlockSize :: nat where "BlockSize = 16"

text \<open>\<open>aes.NewCipher\<close> accepts three key sizes.\<close>

definition aes_key_ok :: "bytes \<Rightarrow> bool" where
  "aes_key_ok k \<longleftrightarrow> length k = 16 \<or> length k = 24 \<or> length k = 32"

definition NewAesCodec :: "string \<Rightarrow> goerr + aes_codec" where
  "NewAesCodec enckeyB64 =
     (if length enckeyB64 = 0 then Inl (NewError (ErrText ''No env''))
      else case b64_decode enckeyB64 of
          None \<Rightarrow> Inl (NewError (ErrDriver ''illegal base64 data''))
        | Some key \<Rightarrow> Inr \<lparr>ac_key = Some key\<rparr>)"

definition zero_byte :: char where "zero_byte = char_of (0 :: nat)"
definition mark_byte :: char where "mark_byte = char_of (128 :: nat)"

text \<open>A text that fills its last block is not padded.\<close>

definition Padding :: "bytes \<Rightarrow> nat \<Rightarrow> bytes" where
  "Padding ciphertext blockSize =
     (let padding = blockSize - length ciphertext mod blockSize
      in if padding = 0 then ciphertext
         else if padding = 1 then ciphertext @ [mark_byte]
         else ciphertext @ [mark_byte] @ replicate (padding - 1) zero_byte)"

text \<open>
  The loop that removes the padding, from the end: it stops at the first byte that is neither
  of the two; \<open>None\<close> is the panic of an index below zero.
\<close>

fun unpad :: "bytes \<Rightarrow> bytes option" where
  "unpad [] = None"
| "unpad (c # cs) = (if c = zero_byte \<or> c = mark_byte then unpad cs else Some (rev (c # cs)))"

definition Digest :: "cipher \<Rightarrow> bytes \<Rightarrow> bytes \<Rightarrow> bytes" where
  "Digest C iv plaintext = ci_sha1 C (iv @ plaintext)"

definition hashedIvPlain :: "cipher \<Rightarrow> bytes \<Rightarrow> bytes \<Rightarrow> bytes" where
  "hashedIvPlain C iv plaintext =
     (let x = Digest C iv plaintext @ plaintext
      in if length x mod BlockSize \<noteq> 0 then Padding x BlockSize else x)"

definition EncryptBytes :: "cipher \<Rightarrow> aes_codec \<Rightarrow> bytes \<Rightarrow> bytes \<Rightarrow> goerr + bytes" where
  "EncryptBytes C c iv plainbytes =
     (let key = (case ac_key c of None \<Rightarrow> [] | Some k \<Rightarrow> k)
      in if \<not> aes_key_ok key then Inl (ErrDriver ''invalid key size'')
         else Inr (iv @ ci_enc C key iv (hashedIvPlain C iv plainbytes)))"

definition Encrypt :: "cipher \<Rightarrow> aes_codec \<Rightarrow> bytes \<Rightarrow> bytes \<Rightarrow> goerr + string" where
  "Encrypt C c iv plaintext =
     (case ac_key c of
        None \<Rightarrow> Inr (b64_encode plaintext)
      | Some _ \<Rightarrow> map_sum id b64_encode (EncryptBytes C c iv plaintext))"

definition DecryptBytes :: "cipher \<Rightarrow> aes_codec \<Rightarrow> bytes \<Rightarrow> bytes result" where
  "DecryptBytes C c encbytes =
     (let key = (case ac_key c of None \<Rightarrow> [] | Some k \<Rightarrow> k);
          iv = take BlockSize encbytes;
          body = drop BlockSize encbytes
      in if \<not> aes_key_ok key then Err (ErrDriver ''invalid key size'')
         else if length encbytes < BlockSize then Err (ErrText ''ciphertext too short'')
         else if length body mod BlockSize \<noteq> 0 then Err (ErrText ''ciphertext is not a multiple of the block size'')
         else case unpad (rev (ci_dec C key iv body)) of
             None \<Rightarrow> Panic
           | Some x \<Rightarrow> if length x < 21 then Err (ErrText ''decrypt error'') else Ok (drop 20 x))"

definition Decrypt :: "cipher \<Rightarrow> aes_codec \<Rightarrow> string \<Rightarrow> bytes result" where
  "Decrypt C c encryptedB64 =
     (case b64_decode encryptedB64 of
        None \<Rightarrow> Err (ErrDriver ''illegal base64 data'')
      | Some ciphertext \<Rightarrow>
          (case ac_key c of None \<Rightarrow> Ok ciphertext | Some _ \<Rightarrow> DecryptBytes C c ciphertext))"

section \<open>Facts\<close>

text \<open>What the libraries promise: decryption inverts encryption on whole blocks.\<close>

definition cipher_ok :: "cipher \<Rightarrow> bool" where
  "cipher_ok C \<longleftrightarrow> (\<forall>k iv x. aes_key_ok k \<and> length iv = BlockSize \<and> length x mod BlockSize = 0 \<longrightarrow>
       ci_dec C k iv (ci_enc C k iv x) = x \<and> length (ci_enc C k iv x) = length x)
     \<and> (\<forall>x. length (ci_sha1 C x) = 20)"

definition is_pad :: "char \<Rightarrow> bool" where
  "is_pad c \<longleftrightarrow> c = zero_byte \<or> c = mark_byte"

text \<open>A text without the bytes 0 and 128 at its end.\<close>

definition strip_pad :: "bytes \<Rightarrow> bytes" where
  "strip_pad x = rev (dropWhile is_pad (rev x))"

lemma unpad_strip: "unpad (rev x) = (if strip_pad x = [] then None else Some (strip_pad x))"
proof -
  have "unpad y = (if dropWhile is_pad y = [] then None else Some (rev (dropWhile is_pad y)))" for y
  proof (induction y)
    case (Cons c y)
    then show ?case by (simp add: is_pad_def[of c])
  qed simp
  then show ?thesis by (simp add: strip_pad_def)
qed

lemma strip_pad_all: "list_all is_pad z \<Longrightarrow> strip_pad (x @ z) = strip_pad x"
proof -
  assume "list_all is_pad z"
  then have "dropWhile is_pad (rev z @ rev x) = dropWhile is_pad (rev x)"
    by (intro dropWhile_append2) (simp add: list_all_iff)
  then show ?thesis by (simp add: strip_pad_def)
qed

lemma strip_pad_append:
  "strip_pad (h @ x) = (if strip_pad x = [] then strip_pad h else h @ strip_pad x)"
  by (auto simp: strip_pad_def dropWhile_append)

lemma length_strip_pad: "length (strip_pad x) \<le> length x"
  using length_dropWhile_le[of is_pad "rev x"] by (simp add: strip_pad_def)

lemma Padding_length:
  assumes "b > 0" "length x mod b \<noteq> 0"
  shows "length (Padding x b) mod b = 0"
proof -
  define p where "p = b - length x mod b"
  have p: "p > 0" using assms by (simp add: p_def)
  have "length (Padding x b) = length x + p"
    using p by (auto simp: Padding_def Let_def p_def[symmetric])
  also have "\<dots> = length x div b * b + b"
    using assms mod_less_divisor[of b "length x"] div_mult_mod_eq[of "length x" b] unfolding p_def by linarith
  finally show ?thesis by simp
qed

lemma Padding_strip: "strip_pad (Padding x b) = strip_pad x"
proof -
  have "list_all is_pad ([mark_byte] @ replicate n zero_byte)" for n
    by (simp add: list_all_iff is_pad_def)
  from strip_pad_all[OF this] strip_pad_all[of "[mark_byte]" x] show ?thesis
    by (simp add: Padding_def Let_def is_pad_def)
qed

lemma hashed_blocks: "length (hashedIvPlain C iv p) mod BlockSize = 0"
  by (auto simp: hashedIvPlain_def Let_def BlockSize_def intro: Padding_length)

lemma hashed_strip: "strip_pad (hashedIvPlain C iv p) =
    (if strip_pad p = [] then strip_pad (Digest C iv p) else Digest C iv p @ strip_pad p)"
  by (simp add: hashedIvPlain_def Let_def Padding_strip strip_pad_append)

text \<open>
  What comes back: the text without the bytes 0 and 128 at its end, and no text at all (an
  error or a panic) when nothing else is in it.
\<close>

lemma Decrypt_Encrypt:
  assumes C: "cipher_ok C" and k: "ac_key c = Some k" "aes_key_ok k" and iv: "length iv = BlockSize"
    and enc: "Encrypt C c iv p = Inr e"
  shows "strip_pad p \<noteq> [] \<Longrightarrow> Decrypt C c e = Ok (strip_pad p)"
    "strip_pad p = [] \<Longrightarrow> \<not> is_ok (Decrypt C c e)"
proof -
  let ?x = "hashedIvPlain C iv p" and ?d = "Digest C iv p"
  have e: "b64_decode e = Some (iv @ ci_enc C k iv ?x)"
    using enc k by (auto simp: Encrypt_def EncryptBytes_def b64_round_trip)
  have x: "ci_dec C k iv (ci_enc C k iv ?x) = ?x" "length (ci_enc C k iv ?x) mod BlockSize = 0"
    using C k(2) iv hashed_blocks[of C iv p] unfolding cipher_ok_def by auto
  have d: "length ?d = 20" using C by (simp add: cipher_ok_def Digest_def)
  have run: "Decrypt C c e = (case unpad (rev ?x) of None \<Rightarrow> Panic
      | Some y \<Rightarrow> if length y < 21 then Err (ErrText ''decrypt error'') else Ok (drop 20 y))"
    using e k iv x by (simp add: Decrypt_def DecryptBytes_def)
  show "strip_pad p \<noteq> [] \<Longrightarrow> Decrypt C c e = Ok (strip_pad p)"
  proof -
    assume p: "strip_pad p \<noteq> []"
    then have "length (strip_pad p) \<ge> 1" by (cases "strip_pad p") auto
    then show ?thesis using p d by (simp add: run unpad_strip hashed_strip)
  qed
  show "strip_pad p = [] \<Longrightarrow> \<not> is_ok (Decrypt C c e)"
    using d length_strip_pad[of ?d] by (simp add: run unpad_strip hashed_strip)
qed

end
