(* ===== verification/CassandraClient.thy ===== *)
theory CassandraClient
  imports CqlEngine SqliteClient AesCodec
begin

text \<open>
  db/cassandra/document.go, root_document.go and refsubdocument.go: the second database client,
  over the CQL session. Unlike the sqlite client it writes without reading first, encrypts the
  payloads of some groups, filters expired sub-documents, and gives nil columns the zero value
  of their type. The clock and the random source are parts of its state.
\<close>

record cassandra_config = sqlite_config +
  encryptedSubdocIds :: "string list"
  aesCodec :: aes_codec
  aesCipher :: cipher

record 'd cassandra =
  ca_db :: 'd
  ca_metrics :: "metrics option"
  ca_now_ns :: int
  ca_iv :: "nat \<Rightarrow> bytes"
  ca_drawn :: nat

definition ca_exec :: "'d cql \<Rightarrow> cql_stmt \<Rightarrow> sqlval list \<Rightarrow> ('d cassandra, unit) prog" where
  "ca_exec E st vals = (\<lambda>s. case cql_exec E st vals (ca_db s) of
      (None, d) \<Rightarrow> (Ok (), s\<lparr>ca_db := d\<rparr>)
    | (Some e, d) \<Rightarrow> (Err (NewError e), s\<lparr>ca_db := d\<rparr>))"

text \<open>
  \<open>Query(\<dots>).Scan\<close>: the first row, or the error of the query, or \<open>gocql.ErrNotFound\<close>, which is
  the not-found sentinel \<open>ErrNoRows\<close> of this client.
\<close>

definition ca_first_row :: "'d cql \<Rightarrow> sqlquery \<Rightarrow> sqlval list \<Rightarrow> ('d cassandra, sqlval list) prog" where
  "ca_first_row E q vals = (\<lambda>s. case cql_query E q vals (ca_db s) of
      (_, Some e) \<Rightarrow> (Err e, s)
    | ([], None) \<Rightarrow> (Err ErrNoRows, s)
    | (r # _, None) \<Rightarrow> (Ok r, s))"

definition ca_IsDbNotFound :: "goerr \<Rightarrow> bool" where
  "ca_IsDbNotFound err = errors_Is err ErrNoRows"

section \<open>Scanning\<close>

text \<open>Into a string, an int and a byte slice: NULL becomes the zero value.\<close>

definition cq_text :: "sqlval \<Rightarrow> string" where
  "cq_text v = (case v of VText t \<Rightarrow> t | _ \<Rightarrow> '''')"

definition cq_int :: "sqlval \<Rightarrow> int" where
  "cq_int v = (case v of VInt i \<Rightarrow> i | _ \<Rightarrow> 0)"

definition cq_blob :: "sqlval \<Rightarrow> bytes" where
  "cq_blob v = (case v of VBlob b \<Rightarrow> b | _ \<Rightarrow> [])"

text \<open>
  Into a time: milliseconds since 1970, or the zero time. \<open>UnixNano\<close> wraps; only positive
  results of \<open>UnixNano() / 1000000\<close> are used, and the one of the zero time is negative.
\<close>

definition cq_time :: "sqlval \<Rightarrow> int option" where
  "cq_time v = (case v of VInt ms \<Rightarrow> Some ms | _ \<Rightarrow> None)"

definition positive_millis :: "int option \<Rightarrow> int option" where
  "positive_millis t =
     Option.bind t (\<lambda>ms. let x = wrap64 (ms * 1000000) div 1000000 in if x > 0 then Some x else None)"

section \<open>Sub-documents\<close>

definition IsEncryptedGroup :: "cassandra_config \<Rightarrow> string \<Rightarrow> bool" where
  "IsEncryptedGroup cfg subdocId \<longleftrightarrow> subdocId \<in> set (encryptedSubdocIds cfg)"

definition stored_payload :: "cassandra_config \<Rightarrow> string \<Rightarrow> bytes \<Rightarrow> bytes result" where
  "stored_payload cfg groupId payload =
     (if IsEncryptedGroup cfg groupId then DecryptBytes (aesCipher cfg) (aesCodec cfg) payload else Ok payload)"

definition ca_GetRefSubDocument :: "'d cql \<Rightarrow> string \<Rightarrow> ('d cassandra, refsubdoc) prog" where
  "ca_GetRefSubDocument E refId =
     bindE (ca_first_row E (SelectFrom ''reference_document'' [''payload'', ''version''] [''ref_id'']) [VText refId])
       (\<lambda>row. let payload = cq_blob (row ! 0)
              in if length payload = 0 then throw (NewError ErrNoRows)
                 else ret (NewRefSubDocument (Some payload) (Some (cq_text (row ! 1)))))"

definition ca_resolve_ref :: "'d cql \<Rightarrow> bytes \<Rightarrow> ('d cassandra, bytes option) prog" where
  "ca_resolve_ref E payload =
     (case GetRefId payload of
        None \<Rightarrow> ret (Some payload)
      | Some refId \<Rightarrow>
          tryE (ca_GetRefSubDocument E refId)
            (\<lambda>err. if \<not> ca_IsDbNotFound err then throw (NewError err) else ret (Some payload))
            (\<lambda>refsubdocument. ret (rs_payload refsubdocument)))"

definition ca_subdoc_columns :: "string list" where
  "ca_subdoc_columns = [''payload'', ''version'', ''state'', ''updated_time'', ''error_code'', ''error_details'', ''expiry'']"

text \<open>The fields of a row of these columns, but the payload and the expiry.\<close>

definition row_fields :: "bytes option \<Rightarrow> sqlval list \<Rightarrow> subdoc" where
  "row_fields payload row =
     NewSubDocument payload (Some (cq_text (row ! 1))) (Some (cq_int (row ! 2))) (positive_millis (cq_time (row ! 3)))
       (Some (cq_int (row ! 4))) (Some (cq_text (row ! 5)))"

definition with_expiry :: "int option \<Rightarrow> subdoc \<Rightarrow> subdoc" where
  "with_expiry e d = (case e of None \<Rightarrow> d | Some x \<Rightarrow> d\<lparr>sd_expiry := Some x\<rparr>)"

definition ca_GetSubDocument :: "'d cql \<Rightarrow> cassandra_config \<Rightarrow> string \<Rightarrow> string \<Rightarrow> ('d cassandra, subdoc) prog" where
  "ca_GetSubDocument E cfg cpeMac groupId =
     bindE (ca_first_row E (SelectFrom ''xpc_group_config'' ca_subdoc_columns [''cpe_mac'', ''group_id''])
              [VText cpeMac, VText groupId])
       (\<lambda>row. if length (cq_blob (row ! 0)) = 0 then throw (NewError ErrNoRows)
              else bindE (Pair (stored_payload cfg groupId (cq_blob (row ! 0))))
                (\<lambda>plain. tryE (ca_resolve_ref E plain) throw
                  (\<lambda>payload. ret (with_expiry (positive_millis (cq_time (row ! 6))) (row_fields payload row)))))"

text \<open>\<open>io.ReadFull(rand.Reader, iv)\<close>.\<close>

definition draw_iv :: "('d cassandra, bytes) prog" where
  "draw_iv = (\<lambda>s. (Ok (ca_iv s (ca_drawn s)), s\<lparr>ca_drawn := Suc (ca_drawn s)\<rparr>))"

definition payload_col ::
  "cassandra_config \<Rightarrow> string \<Rightarrow> bytes option \<Rightarrow> ('d cassandra, (string \<times> sqlval) list) prog" where
  "payload_col cfg groupId payload =
     (if length (payload_bytes payload) = 0 then ret []
      else if IsEncryptedGroup cfg groupId
      then tryE draw_iv throw (\<lambda>iv.
             case EncryptBytes (aesCipher cfg) (aesCodec cfg) iv (payload_bytes payload) of
               Inl err \<Rightarrow> throw (NewError err)
             | Inr encbytes \<Rightarrow> ret [(''payload'', VBlob encbytes)])
      else ret [(''payload'', VBlob (payload_bytes payload))])"

text \<open>A time before 1970 is refused.\<close>

definition time_col :: "string \<Rightarrow> int option \<Rightarrow> ('d cassandra, (string \<times> sqlval) list) prog" where
  "time_col name t =
     (case t of
        None \<Rightarrow> ret []
      | Some utime \<Rightarrow> if utime < 0 then throw (NewError (ErrText (''invalid '' @ name))) else ret [(name, VInt utime)])"

definition ca_count_state ::
  "string \<Rightarrow> string \<Rightarrow> subdoc \<Rightarrow> int \<Rightarrow> labels option \<Rightarrow> ('d cassandra, unit) prog" where
  "ca_count_state cpeMac groupId doc oldState labels = (\<lambda>s.
     case (ca_metrics s, sd_state doc) of
       (Some m, Some newState) \<Rightarrow>
         (case Option.bind labels (\<lambda>l. UpdateStateMetrics oldState newState (gomap_put ''feature'' groupId l) cpeMac m) of
            None \<Rightarrow> (Panic, s)
          | Some m' \<Rightarrow> (Ok (), s\<lparr>ca_metrics := Some m'\<rparr>))
     | _ \<Rightarrow> (Ok (), s))"

definition ca_insert_cols ::
  "string \<Rightarrow> string \<Rightarrow> subdoc \<Rightarrow> (string \<times> sqlval) list \<Rightarrow> (string \<times> sqlval) list \<Rightarrow> (string \<times> sqlval) list
     \<Rightarrow> (string \<times> sqlval) list" where
  "ca_insert_cols cpeMac groupId doc payload updated expiry =
     [(''cpe_mac'', VText cpeMac), (''group_id'', VText groupId)]
     @ payload
     @ opt_col ''version'' VText (sd_version doc)
     @ opt_col ''state'' VInt (sd_state doc)
     @ updated
     @ opt_col ''error_code'' VInt (sd_error_code doc)
     @ opt_col ''error_details'' VText (sd_error_details doc)
     @ expiry"

definition ca_SetSubDocument ::
  "'d cql \<Rightarrow> cassandra_config \<Rightarrow> string \<Rightarrow> string \<Rightarrow> subdoc \<Rightarrow> int \<Rightarrow> labels option \<Rightarrow> ('d cassandra, unit) prog" where
  "ca_SetSubDocument E cfg cpeMac groupId doc oldState labels =
     tryE (payload_col cfg groupId (sd_payload doc)) throw (\<lambda>payload.
     tryE (time_col ''updated_time'' (sd_updated_time doc)) throw (\<lambda>updated.
     tryE (time_col ''expiry'' (sd_expiry doc)) throw (\<lambda>expiry.
       let cvs = ca_insert_cols cpeMac groupId doc payload updated expiry
       in tryE (ca_exec E (CqlInsert ''xpc_group_config'' (map fst cvs)) (map snd cvs)) throw
            (\<lambda>_. ca_count_state cpeMac groupId doc oldState labels))))"

definition ca_DeleteSubDocument :: "'d cql \<Rightarrow> string \<Rightarrow> string \<Rightarrow> ('d cassandra, unit) prog" where
  "ca_DeleteSubDocument E cpeMac groupId =
     ca_exec E (CqlDelete ''xpc_group_config'' [''cpe_mac'', ''group_id'']) [VText cpeMac, VText groupId]"

definition ca_DeleteSubDocumentColumns ::
  "'d cql \<Rightarrow> string \<Rightarrow> string \<Rightarrow> string list \<Rightarrow> ('d cassandra, unit) prog" where
  "ca_DeleteSubDocumentColumns E cpeMac groupId columns =
     (if length columns = 0 then ret ()
      else ca_exec E (CqlDeleteColumns ''xpc_group_config'' columns [''cpe_mac'', ''group_id''])
             [VText cpeMac, VText groupId])"

definition ca_DeleteDocument :: "'d cql \<Rightarrow> string \<Rightarrow> ('d cassandra, unit) prog" where
  "ca_DeleteDocument E cpeMac = ca_exec E (CqlDelete ''xpc_group_config'' [''cpe_mac'']) [VText cpeMac]"

text \<open>
  \<open>GetDocument\<close>. A row without a payload is passed over, as is one that cannot be decrypted and
  one that has expired, unless the caller asks for those too. The iterator is never closed, so
  that an error of the query is not seen: the rows it delivered are all there is.
\<close>

definition ca_document_columns :: "string list" where
  "ca_document_columns = [''group_id'', ''payload'', ''version'', ''state'', ''updated_time'', ''error_code'',
     ''error_details'', ''expiry'']"

definition has_expired :: "int \<Rightarrow> int option \<Rightarrow> bool" where
  "has_expired now_ns t = (case t of None \<Rightarrow> False | Some ms \<Rightarrow> ms * 1000000 < now_ns)"

definition ca_document_row ::
  "cassandra_config \<Rightarrow> bool \<Rightarrow> int \<Rightarrow> sqlval list \<Rightarrow> document \<Rightarrow> document result" where
  "ca_document_row cfg includeExpiry now_ns row doc =
     (let groupId = cq_text (row ! 0);
          fields = tl row;
          expiry = cq_time (fields ! 6)
      in if length (cq_blob (fields ! 0)) = 0 then Ok doc
         else case stored_payload cfg groupId (cq_blob (fields ! 0)) of
             Err _ \<Rightarrow> Ok doc
           | Panic \<Rightarrow> Panic
           | Ok payload \<Rightarrow>
               if positive_millis expiry \<noteq> None \<and> \<not> includeExpiry \<and> has_expired now_ns expiry then Ok doc
               else Ok (SetSubDocument doc groupId (with_expiry (positive_millis expiry) (row_fields (Some payload) fields))))"

fun ca_scan_document ::
  "cassandra_config \<Rightarrow> bool \<Rightarrow> int \<Rightarrow> sqlval list list \<Rightarrow> document \<Rightarrow> document result" where
  "ca_scan_document cfg includeExpiry now_ns [] doc = Ok doc"
| "ca_scan_document cfg includeExpiry now_ns (row # rows) doc =
     (case ca_document_row cfg includeExpiry now_ns row doc of
        Ok doc' \<Rightarrow> ca_scan_document cfg includeExpiry now_ns rows doc'
      | r \<Rightarrow> r)"

definition ca_GetDocument ::
  "'d cql \<Rightarrow> cassandra_config \<Rightarrow> string \<Rightarrow> bool \<Rightarrow> ('d cassandra, document option \<times> goerr option) prog" where
  "ca_GetDocument E cfg cpeMac includeExpiry = (\<lambda>s.
     let rows = fst (cql_query E (SelectFrom ''xpc_group_config'' ca_document_columns [''cpe_mac'']) [VText cpeMac] (ca_db s))
     in case ca_scan_document cfg includeExpiry (ca_now_ns s) rows (NewDocument None) of
          Ok doc \<Rightarrow> (Ok (Some doc, if doc_Length doc = 0 then Some (NewError ErrNoRows) else None), s)
        | Err e \<Rightarrow> (Err e, s)
        | Panic \<Rightarrow> (Panic, s))"

section \<open>Root documents\<close>

definition ca_root_columns :: "string list" where
  "ca_root_columns = [''bitmap'', ''firmware_version'', ''model_name'', ''partner_id'', ''schema_version'', ''version'',
     ''query_params'', ''locked_till'', ''product_class'', ''account_type'']"

definition ca_scan_root :: "sqlval list \<Rightarrow> rootdoc" where
  "ca_scan_root row =
     \<lparr>rd_bitmap = cq_int (row ! 0), rd_firmware_version = cq_text (row ! 1), rd_model_name = cq_text (row ! 2),
      rd_partner_id = cq_text (row ! 3), rd_schema_version = cq_text (row ! 4), rd_version = cq_text (row ! 5),
      rd_query_params = cq_text (row ! 6),
      rd_locked_till = (case cq_time (row ! 7) of None \<Rightarrow> 0 | Some ms \<Rightarrow> ms),
      rd_product_class = cq_text (row ! 8), rd_account_type = cq_text (row ! 9)\<rparr>"

definition ca_GetRootDocument :: "'d cql \<Rightarrow> string \<Rightarrow> ('d cassandra, rootdoc) prog" where
  "ca_GetRootDocument E cpeMac =
     bindE (ca_first_row E (SelectFrom ''root_document'' ca_root_columns [''cpe_mac'']) [VText cpeMac])
       (\<lambda>row. ret (ca_scan_root row))"

definition ca_SetRootDocument :: "'d cql \<Rightarrow> string \<Rightarrow> rootdoc \<Rightarrow> ('d cassandra, unit) prog" where
  "ca_SetRootDocument E cpeMac rdoc =
     (let columnMap = root_NonEmptyColumnMap rdoc
      in ca_exec E (CqlInsert ''root_document'' (''cpe_mac'' # map fst columnMap)) (VText cpeMac # map snd columnMap))"

definition ca_DeleteRootDocument :: "'d cql \<Rightarrow> string \<Rightarrow> ('d cassandra, unit) prog" where
  "ca_DeleteRootDocument E cpeMac = ca_exec E (CqlDelete ''root_document'' [''cpe_mac'']) [VText cpeMac]"

definition ca_SetRootDocumentVersion :: "'d cql \<Rightarrow> string \<Rightarrow> string \<Rightarrow> ('d cassandra, unit) prog" where
  "ca_SetRootDocumentVersion E cpeMac version =
     ca_exec E (CqlInsert ''root_document'' [''cpe_mac'', ''version'']) [VText cpeMac, VText version]"

definition ca_SetRootDocumentBitmap :: "'d cql \<Rightarrow> string \<Rightarrow> int \<Rightarrow> ('d cassandra, unit) prog" where
  "ca_SetRootDocumentBitmap E cpeMac bitmap =
     ca_exec E (CqlInsert ''root_document'' [''cpe_mac'', ''bitmap'']) [VText cpeMac, VInt bitmap]"

text \<open>A nil pointer is bound as NULL.\<close>

definition or_null :: "('a \<Rightarrow> sqlval) \<Rightarrow> 'a option \<Rightarrow> sqlval" where
  "or_null f p = (case p of None \<Rightarrow> VNull | Some x \<Rightarrow> f x)"

definition ca_SetRootDocumentVersionBitmap ::
  "'d cql \<Rightarrow> string \<Rightarrow> string option \<Rightarrow> int option \<Rightarrow> ('d cassandra, unit) prog" where
  "ca_SetRootDocumentVersionBitmap E cpeMac version bitmap =
     ca_exec E (CqlInsert ''root_document'' [''cpe_mac'', ''version'', ''bitmap''])
       [VText cpeMac, or_null VText version, or_null VInt bitmap]"

definition ca_GetRootDocumentVersionBitmap :: "'d cql \<Rightarrow> string \<Rightarrow> ('d cassandra, string \<times> int) prog" where
  "ca_GetRootDocumentVersionBitmap E cpeMac =
     bindE (ca_first_row E (SelectFrom ''root_document'' [''version'', ''bitmap''] [''cpe_mac'']) [VText cpeMac])
       (\<lambda>row. ret (cq_text (row ! 0), cq_int (row ! 1)))"

definition ca_DeleteRootDocumentVersion :: "'d cql \<Rightarrow> string \<Rightarrow> ('d cassandra, unit) prog" where
  "ca_DeleteRootDocumentVersion E cpeMac =
     ca_exec E (CqlDeleteColumns ''root_document'' [''version''] [''cpe_mac'']) [VText cpeMac]"

definition ca_DeleteRootDocumentBitmap :: "'d cql \<Rightarrow> string \<Rightarrow> ('d cassandra, unit) prog" where
  "ca_DeleteRootDocumentBitmap E cpeMac =
     ca_exec E (CqlDeleteColumns ''root_document'' [''bitmap''] [''cpe_mac'']) [VText cpeMac]"

text \<open>Unlike the sqlite client this one has labels for a device that is not there.\<close>

definition ca_GetRootDocumentLabels :: "'d cql \<Rightarrow> string \<Rightarrow> ('d cassandra, labels) prog" where
  "ca_GetRootDocumentLabels E cpeMac =
     tryE (ca_GetRootDocument E cpeMac)
       (\<lambda>err. if \<not> ca_IsDbNotFound err then throw (NewError err)
               else ret [(''model'', ''unknown''), (''fwversion'', ''unknown'')])
       (\<lambda>rdoc. ret [(''model'', rd_model_name rdoc), (''fwversion'', rd_firmware_version rdoc)])"

section \<open>Shared payloads\<close>

definition ca_ref_cols :: "string \<Rightarrow> refsubdoc \<Rightarrow> (string \<times> sqlval) list" where
  "ca_ref_cols refId refsubdoc =
     [(''ref_id'', VText refId)]
     @ (if length (payload_bytes (rs_payload refsubdoc)) > 0
        then [(''payload'', VBlob (payload_bytes (rs_payload refsubdoc)))] else [])
     @ opt_col ''version'' VText (rs_version refsubdoc)"

definition ca_SetRefSubDocument :: "'d cql \<Rightarrow> string \<Rightarrow> refsubdoc \<Rightarrow> ('d cassandra, unit) prog" where
  "ca_SetRefSubDocument E refId refsubdoc =
     (let cvs = ca_ref_cols refId refsubdoc
      in ca_exec E (CqlInsert ''reference_document'' (map fst cvs)) (map snd cvs))"

definition ca_DeleteRefSubDocument :: "'d cql \<Rightarrow> string \<Rightarrow> ('d cassandra, unit) prog" where
  "ca_DeleteRefSubDocument E refId = ca_exec E (CqlDelete ''reference_document'' [''ref_id'']) [VText refId]"

section \<open>The client\<close>

definition cassandra_client :: "'d cql \<Rightarrow> cassandra_config \<Rightarrow> 'd cassandra db_client" where
  "cassandra_client E cfg = \<lparr>
     db_GetSubDocument = ca_GetSubDocument E cfg,
     db_SetSubDocument = (\<lambda>mac g d st l. ca_SetSubDocument E cfg mac g d st (Some l)),
     db_DeleteSubDocument = ca_DeleteSubDocument E,
     db_DeleteSubDocumentColumns = ca_DeleteSubDocumentColumns E,
     db_GetDocument = ca_GetDocument E cfg,
     db_DeleteDocument = ca_DeleteDocument E,
     db_GetRootDocument = ca_GetRootDocument E,
     db_SetRootDocument = ca_SetRootDocument E,
     db_DeleteRootDocument = ca_DeleteRootDocument E,
     db_SetRootDocumentVersion = ca_SetRootDocumentVersion E,
     db_SetRootDocumentBitmap = ca_SetRootDocumentBitmap E,
     db_DeleteRootDocumentVersion = ca_DeleteRootDocumentVersion E,
     db_GetRootDocumentLabels = ca_GetRootDocumentLabels E,
     db_IsDbNotFound = ca_IsDbNotFound,
     db_GetRefSubDocument = ca_GetRefSubDocument E,
     db_SetRefSubDocument = ca_SetRefSubDocument E,
     db_DeleteRefSubDocument = ca_DeleteRefSubDocument E,
     db_BlockedSubdocIds = blockedSubdocIds cfg,
     db_StateCorrectionEnabled = stateCorrectionEnabled cfg,
     db_LockRootDocumentEnabled = lockRootDocumentEnabled cfg,
     db_SupplementaryPrecookEnabled = supplementaryPrecookEnabled cfg,
     db_SupplementaryPrecookStateTTLDays = supplementaryPrecookStateTTLDays cfg\<rparr>"

end
