(* ===== verification/CassandraFacts.thy ===== *)
theory CassandraFacts
  imports CassandraClient SqliteFacts Requests HandlerFacts
begin

text \<open>
  What the Cassandra client guarantees over any CQL session. It meets the contract \<open>db_frame\<close>
  of the services, so that all that is proved inside that contract holds for it as for the
  sqlite client; and an error while a document is read is not seen.
\<close>

definition ca_tables :: "'d cql \<Rightarrow> 'd cassandra \<Rightarrow> tables" where
  "ca_tables E s = cql_tables E (ca_db s)"

definition ca_subs :: "'d cql \<Rightarrow> 'd cassandra \<Rightarrow> string \<Rightarrow> row list" where
  "ca_subs E s mac = rows_with ''cpe_mac'' (VText mac) (ca_tables E s ''xpc_group_config'')"

definition ca_roots :: "'d cql \<Rightarrow> 'd cassandra \<Rightarrow> string \<Rightarrow> row list" where
  "ca_roots E s mac = rows_with ''cpe_mac'' (VText mac) (ca_tables E s ''root_document'')"

section \<open>Reading changes nothing\<close>

lemma keeps_ca_first_row [keeps_intros]: "keeps P (ca_first_row E q vs)"
  by (auto simp: keeps_def ca_first_row_def split: prod.splits option.splits list.splits)

lemma keeps_ca_GetRefSubDocument [keeps_intros]: "keeps P (ca_GetRefSubDocument E r)"
  unfolding ca_GetRefSubDocument_def Let_def by (auto intro!: keeps_intros)

lemma keeps_ca_resolve_ref [keeps_intros]: "keeps P (ca_resolve_ref E p)"
  unfolding ca_resolve_ref_def by (auto intro!: keeps_intros split: option.splits)

lemma keeps_ca_GetSubDocument [keeps_intros]: "keeps P (ca_GetSubDocument E cfg mac g)"
  unfolding ca_GetSubDocument_def by (auto intro!: keeps_intros)

lemma keeps_ca_GetDocument [keeps_intros]: "keeps P (ca_GetDocument E cfg mac b)"
  by (auto simp: keeps_def ca_GetDocument_def Let_def split: outcome.splits)

lemma keeps_ca_GetRootDocument [keeps_intros]: "keeps P (ca_GetRootDocument E mac)"
  unfolding ca_GetRootDocument_def by (auto intro!: keeps_intros)

lemma keeps_ca_GetRootDocumentLabels [keeps_intros]: "keeps P (ca_GetRootDocumentLabels E mac)"
  unfolding ca_GetRootDocumentLabels_def by (auto intro!: keeps_intros)

lemma cassandra_reads_pure:
  "snd (ca_GetSubDocument E cfg mac g s) = s" "snd (ca_GetDocument E cfg mac b s) = s"
  "snd (ca_GetRootDocument E mac s) = s" "snd (ca_GetRootDocumentLabels E mac s) = s"
  "snd (ca_GetRefSubDocument E r s) = s"
  by (rule keeps_all_pure, rule keeps_intros)+

section \<open>One table, one device\<close>

definition ca_frame :: "string \<Rightarrow> string \<Rightarrow> tables \<Rightarrow> tables \<Rightarrow> bool" where
  "ca_frame mac table T0 T \<longleftrightarrow>
     (\<forall>t. t \<noteq> table \<longrightarrow> T t = T0 t)
     \<and> (\<forall>m. m \<noteq> mac \<longrightarrow> rows_with ''cpe_mac'' (VText m) (T table) = rows_with ''cpe_mac'' (VText m) (T0 table))"

definition tables_has :: "'d cql \<Rightarrow> (tables \<Rightarrow> bool) \<Rightarrow> 'd cassandra \<Rightarrow> bool" where
  "tables_has E P s = P (ca_tables E s)"

lemma keeps_ca_count_state [keeps_intros]: "keeps (tables_has E P) (ca_count_state mac g d st l)"
  by (auto simp: keeps_def ca_count_state_def tables_has_def ca_tables_def split: option.splits)

lemma keeps_draw_iv [keeps_intros]: "keeps (tables_has E P) draw_iv"
  by (auto simp: keeps_def draw_iv_def tables_has_def ca_tables_def)

lemma keeps_payload_col [keeps_intros]: "keeps (tables_has E P) (payload_col cfg g p)"
  unfolding payload_col_def by (auto intro!: keeps_intros split: sum.splits)

lemma keeps_time_col [keeps_intros]: "keeps P (time_col n t)"
  unfolding time_col_def by (auto intro!: keeps_intros split: option.splits)

lemma payload_col_keys: "payload_col cfg g p s = (Ok cvs, s') \<Longrightarrow> fst ` set cvs \<subseteq> {''payload''}"
  by (auto simp: payload_col_def tryE_eq_Ok case_apps split: if_splits)

lemma time_col_keys: "time_col n t s = (Ok cvs, s') \<Longrightarrow> fst ` set cvs \<subseteq> {n}"
  by (auto simp: time_col_def split: option.splits if_splits)

lemma opt_col_keys: "fst ` set (opt_col n f p) \<subseteq> {n}"
  by (auto simp: opt_col_def split: option.splits)

lemma ca_insert_device:
  assumes "fst ` set a \<subseteq> {''payload''}" "fst ` set b \<subseteq> {''updated_time''}" "fst ` set e \<subseteq> {''expiry''}"
  shows "cql_device (CqlInsert ''xpc_group_config'' (map fst (ca_insert_cols mac g d a b e)))
    (map snd (ca_insert_cols mac g d a b e)) = Some (VText mac)"
  using assms by (auto simp: cql_device.simps ca_insert_cols_def opt_col_def split: option.splits)

lemma root_map_device:
  "cql_device (CqlInsert ''root_document'' (''cpe_mac'' # map fst (root_NonEmptyColumnMap rd)))
     (VText mac # map snd (root_NonEmptyColumnMap rd)) = Some (VText mac)"
proof -
  have "map_of (root_NonEmptyColumnMap rd) ''cpe_mac'' = None"
    unfolding root_NonEmptyColumnMap_def Let_def map_of_gomap_puts map_add_None
    by (intro conjI) (auto simp: map_of_eq_None_iff gomap_put_def simp del: filter.simps list.map(2) split: if_splits)
  then have "''cpe_mac'' \<notin> fst ` set (root_NonEmptyColumnMap rd)" by (simp add: map_of_eq_None_iff)
  then show ?thesis by (simp add: cql_device.simps)
qed

context cql_engine
begin

lemma keeps_ca_exec:
  assumes "\<And>T T'. P T \<Longrightarrow> cql_effect st vs T = Some T' \<Longrightarrow> P T'"
  shows "keeps (tables_has E P) (ca_exec E st vs)"
proof (rule keepsI)
  fix s assume "tables_has E P s"
  moreover obtain r d where x: "cql_exec E st vs (ca_db s) = (r, d)" by fastforce
  ultimately have "P (cql_tables E d)"
    using assms exec_cases[OF x] by (auto simp: tables_has_def ca_tables_def)
  then show "tables_has E P (snd (ca_exec E st vs s))"
    by (cases r) (simp_all add: ca_exec_def x tables_has_def ca_tables_def)
qed

lemma ca_frame_exec [keeps_intros]:
  assumes "cql_table st = t" "cql_device st vs = Some (VText mac)"
  shows "keeps (tables_has E (ca_frame mac t T0)) (ca_exec E st vs)"
  using assms
  by (intro keeps_ca_exec) (auto simp: ca_frame_def cql_effect_device dest: cql_effect_other_table)

lemma keeps_tryE_result:
  assumes "keeps P m" "\<And>e. keeps P (h e)" "\<And>s x s'. m s = (Ok x, s') \<Longrightarrow> keeps P (k x)"
  shows "keeps P (tryE m h k)"
proof (rule keepsI)
  fix s assume P: "P s"
  obtain r s1 where m: "m s = (r, s1)" by fastforce
  have "P s1" using keepsD[OF assms(1) P m] .
  then show "P (snd (tryE m h k s))"
    using assms(2,3) m by (auto simp: tryE_def keeps_def split: outcome.splits)
qed

lemma ca_frame_SetSubDocument [keeps_intros]:
  "keeps (tables_has E (ca_frame mac ''xpc_group_config'' T0)) (ca_SetSubDocument E cfg mac g d st l)"
  unfolding ca_SetSubDocument_def Let_def
  by (intro keeps_tryE_result keeps_intros)
     (auto dest!: payload_col_keys time_col_keys intro: ca_insert_device)

lemma ca_frame_deletes [keeps_intros]:
  "keeps (tables_has E (ca_frame mac ''xpc_group_config'' T0)) (ca_DeleteSubDocument E mac g)"
  "keeps (tables_has E (ca_frame mac ''xpc_group_config'' T0)) (ca_DeleteDocument E mac)"
  "keeps (tables_has E (ca_frame mac ''xpc_group_config'' T0)) (ca_DeleteSubDocumentColumns E mac g cs)"
  unfolding ca_DeleteSubDocument_def ca_DeleteDocument_def ca_DeleteSubDocumentColumns_def
  by (auto simp: cql_device.simps intro!: keeps_intros)

lemma ca_frame_SetRootDocument [keeps_intros]:
  "keeps (tables_has E (ca_frame mac ''root_document'' T0)) (ca_SetRootDocument E mac rd)"
  unfolding ca_SetRootDocument_def Let_def by (intro ca_frame_exec root_map_device) simp

lemma ca_frame_roots [keeps_intros]:
  "keeps (tables_has E (ca_frame mac ''root_document'' T0)) (ca_SetRootDocumentVersion E mac v)"
  "keeps (tables_has E (ca_frame mac ''root_document'' T0)) (ca_SetRootDocumentBitmap E mac b)"
  "keeps (tables_has E (ca_frame mac ''root_document'' T0)) (ca_SetRootDocumentVersionBitmap E mac ov ob)"
  "keeps (tables_has E (ca_frame mac ''root_document'' T0)) (ca_DeleteRootDocument E mac)"
  "keeps (tables_has E (ca_frame mac ''root_document'' T0)) (ca_DeleteRootDocumentVersion E mac)"
  "keeps (tables_has E (ca_frame mac ''root_document'' T0)) (ca_DeleteRootDocumentBitmap E mac)"
  unfolding ca_SetRootDocumentVersion_def ca_SetRootDocumentBitmap_def
    ca_SetRootDocumentVersionBitmap_def ca_DeleteRootDocument_def ca_DeleteRootDocumentVersion_def
    ca_DeleteRootDocumentBitmap_def
  by (auto simp: cql_device.simps intro!: keeps_intros)

lemma ca_frame_step:
  assumes "\<And>T0. keeps (tables_has E (ca_frame mac t T0)) m"
  shows "ca_frame mac t (ca_tables E s) (ca_tables E (snd (m s)))"
  using keeps_def[of "tables_has E (ca_frame mac t (ca_tables E s))" m] assms
  by (simp add: tables_has_def ca_frame_def)

lemma ca_frame_parts:
  "ca_frame mac ''xpc_group_config'' (ca_tables E s) (ca_tables E s') \<Longrightarrow>
     (m \<noteq> mac \<longrightarrow> ca_subs E s' m = ca_subs E s m) \<and> ca_roots E s' m = ca_roots E s m"
  "ca_frame mac ''root_document'' (ca_tables E s) (ca_tables E s') \<Longrightarrow>
     (m \<noteq> mac \<longrightarrow> ca_roots E s' m = ca_roots E s m) \<and> ca_subs E s' m = ca_subs E s m"
  by (simp_all add: ca_frame_def ca_subs_def ca_roots_def)

end

sublocale cql_engine \<subseteq> client: db_frame "cassandra_client E cfg" "ca_subs E" "ca_roots E" for cfg
proof -
  note subs = ca_frame_parts(1)[OF ca_frame_step] and roots = ca_frame_parts(2)[OF ca_frame_step]
  show "db_frame (cassandra_client E cfg) (ca_subs E) (ca_roots E)" for cfg
    by unfold_locales
       (simp_all add: cassandra_client_def cassandra_reads_pure subs[OF ca_frame_SetSubDocument]
          subs[OF ca_frame_deletes(1)] subs[OF ca_frame_deletes(2)] subs[OF ca_frame_deletes(3)]
          roots[OF ca_frame_SetRootDocument] roots[OF ca_frame_roots(1)] roots[OF ca_frame_roots(5)])
qed

text \<open>The contract on the client over the tables in memory.\<close>

interpretation mem_cassandra: db_frame "cassandra_client mem_cql cfg" "ca_subs mem_cql" "ca_roots mem_cql" for cfg
  by (rule mem_cluster.client.db_frame_axioms)

context cql_engine
begin

lemmas cassandra_runs_isolated = client.runs_isolated

end

section \<open>An error while a document is read\<close>

text \<open>
  \<open>GetDocument\<close> drops the error of its query. When the query fails before the first row the
  client reports not found, which the handlers take for an empty document.
\<close>

definition document_query :: "'d cql \<Rightarrow> string \<Rightarrow> 'd cassandra \<Rightarrow> sqlval list list \<times> goerr option" where
  "document_query E mac s =
     cql_query E (SelectFrom ''xpc_group_config'' ca_document_columns [''cpe_mac'']) [VText mac] (ca_db s)"

lemma ca_GetDocument_no_rows:
  "document_query E mac s = ([], e) \<Longrightarrow>
     ca_GetDocument E cfg mac b s = (Ok (Some (NewDocument None), Some (NewError ErrNoRows)), s)"
  by (simp add: ca_GetDocument_def document_query_def doc_Length_def NewDocument_def)

lemma ca_not_found: "ca_IsDbNotFound (NewError ErrNoRows)"
  by (simp add: ca_IsDbNotFound_def)

lemma cassandra_read_no_rows:
  assumes "document_query E mac s = ([], e)"
  shows "read_document (cassandra_client E cfg) mac b s = (Err (NewError ErrNoRows), s)"
  using ca_GetDocument_no_rows[OF assms]
  by (simp add: read_document_def cassandra_client_def tryE_def throw_def)

definition clear_version :: "string \<Rightarrow> tables \<Rightarrow> tables" where
  "clear_version mac T = T(''root_document'' :=
     update_where [''cpe_mac''] [VText mac] (set_row [''version''] [VNull]) (T ''root_document''))"

lemma rows_with_null_version:
  "rows_with ''cpe_mac'' (VText mac) (update_where [''cpe_mac''] [VText mac] (set_row [''version''] [VNull]) rows)
     = map (set_row [''version''] [VNull]) (rows_with ''cpe_mac'' (VText mac) rows)"
  by (induction rows) (auto simp: rows_with_def update_where_def row_matches_def)

context cql_engine
begin

lemma after_delete_no_rows:
  assumes c: "DatabaseClient sv = cassandra_client E cfg" and w: "fresh (web_w s)"
    and q: "document_query E mac (web_db s) = ([], Some e)"
    and del: "ca_DeleteRootDocumentVersion E mac (web_db s) = (Ok (), d)"
  shows "\<exists>s'. after_delete sv mac s = (Ok (), s') \<and> sent_status (web_w s') = 200 \<and> web_db s' = d
    \<and> ca_tables E d = clear_version mac (ca_tables E (web_db s))"
proof -
  obtain r s' where r: "WriteOkResponse None (s\<lparr>web_db := d\<rparr>) = (r, s')" by fastforce
  note a = answersD[OF answers_ok _ r]
  from w have s': "WriteOkResponse None (s\<lparr>web_db := d\<rparr>) = (Ok (), s')" "sent_status (web_w s') = 200"
    "web_db s' = d"
    using a r by simp_all
  have "after_delete sv mac s = (Ok (), s')"
    using cassandra_read_no_rows[OF q] del s'(1)
    by (simp add: after_delete_def c Let_def tryE_def on_db_def seqE_def ret_def)
      (simp add: cassandra_client_def ca_not_found)
  moreover from del obtain x where "cql_exec E (CqlDeleteColumns ''root_document'' [''version''] [''cpe_mac''])
      [VText mac] (ca_db (web_db s)) = (None, x)" "d = (web_db s)\<lparr>ca_db := x\<rparr>"
    by (auto simp: ca_DeleteRootDocumentVersion_def ca_exec_def split: prod.splits option.splits)
  then have "ca_tables E d = clear_version mac (ca_tables E (web_db s))"
    using exec_ok by (fastforce simp: ca_tables_def clear_version_def)
  ultimately show ?thesis using s' by blast
qed

end

end
