(* ===== verification/ConfigSample.thy ===== *)
theory ConfigSample
  imports HttpSample ConfigFacts ConfigHandlers Gateway KafkaConsumer CassandraFacts
begin

text \<open>Concrete data for the witnesses about whole requests: services, tokens, messages, and a
  Cassandra database.\<close>

definition sample_ticks :: ticks where
  "sample_ticks = \<lparr>tk_correct = 1000, tk_lock = 1000, tk_deploy = 2000, tk_write = (\<lambda>_. 9),
     tk_uuid = (\<lambda>_. ''uuid''), tk_call = (\<lambda>_. (''id'', 1))\<rparr>"

definition sample_connector :: connector where
  "sample_connector = \<lparr>cn_client = sample_client, cn_host = ''host'', cn_url = concat\<rparr>"

definition sample_services :: "nat services" where
  "sample_services = \<lparr>sx_net = sample_network (Response 200 [] (Inr '''')), sx_upstream = sample_connector,
     sx_xconf = sample_connector, sx_mqtt = sample_connector, sx_webpa = sample_webpa, sx_generate = None,
     sx_mime = \<lparr>mm_media = (\<lambda>_. Inr (''multipart/mixed'', [])), mm_parts = (\<lambda>_ _. ([], None))\<rparr>,
     sx_telemetry = \<lparr>tc_payload = Inr, tc_parameters_json = id, tc_output = id\<rparr>\<rparr>"

definition sample_backend :: "tables sqlite \<Rightarrow> (tables sqlite, nat) backend" where
  "sample_backend s = \<lparr>be_db = s, be_remote = \<lparr>rm_fields = [], rm_net = 0\<rparr>, be_sent = []\<rparr>"

text \<open>A device with the metadata of the stored root document, and no version of the lan group.\<close>

definition device_header :: header where
  "device_header = [(HeaderDeviceId, [sample_mac]), (HeaderSchemaVersion, [''s1'']),
     (HeaderFirmwareVersion, [''fw1'']), (HeaderModelName, [''m1'']), (HeaderPartnerID, [''p1'']),
     (HeaderAccountType, [''a1'']), (HeaderProductClass, [''c1''])]"

lemma sample_backend_sel [simp]:
  "be_db (sample_backend s) = s" "be_sent (sample_backend s) = []" "rm_net (be_remote (sample_backend s)) = 0"
  by (simp_all add: sample_backend_def)

section \<open>Tokens\<close>

text \<open>A library with one good token, for the sample device.\<close>

definition sample_jwt :: "unit jwt" where
  "sample_jwt = \<lparr>jw_unverified = (\<lambda>t. if t = ''good'' then Inr ([(''kid'', JStr ''k1'')], []) else Inl (ErrText ''bad'')),
     jw_verified = (\<lambda>_ t. if t = ''good''
        then Inr [(''mac'', JStr sample_mac), (''partner-id'', JStr ''p1''), (''trust'', JInt 1000)]
        else Inl (ErrText ''bad'')),
     jw_keyset = (\<lambda>_. Inl (ErrText ''bad'')), jw_sign = (\<lambda>_ _. Inr ''good'')\<rparr>"

definition sample_manager :: "unit token_manager" where
  "sample_manager = \<lparr>decodeKeys = [(''k1'', ())], apiKids = [''k1''], apiCapabilities = [],
     cpeKids = [''k1''], cpeCapabilities = []\<rparr>"

definition sample_meta :: request_meta where
  "sample_meta = \<lparr>me_path = ''/'', me_remote_ip = '''', me_host = '''', me_audit_id = ''aid'', me_TraceID = '''',
     me_ReqTraceparent = '''', me_ReqTracestate = '''', me_OutTraceparent = '''', me_OutTracestate = '''',
     me_ReqMoracideTag = ''''\<rparr>"

definition token_request :: "string \<Rightarrow> http_request" where
  "token_request t = (sample_request ''lan'')\<lparr>rq_header := [(''Authorization'', [''Bearer '' @ t])], rq_method := ''GET''\<rparr>"

definition all_flags :: router_flags where
  "all_flags = \<lparr>tokenApiEnabled = True, deviceApiTokenAuthEnabled = True, serverApiTokenAuthEnabled = True\<rparr>"

section \<open>Messages\<close>

definition sample_event :: eventmessage where
  "sample_event = empty_event\<lparr>em_http_status_code := Some 304, em_device_id := ''mac:'' @ sample_mac\<rparr>"

definition sample_message :: kafka_message where
  "sample_message = \<lparr>km_key = ''key'', km_value = ''event'', km_headers = [], km_topic = ''t'', km_partition = 1, km_offset = 7\<rparr>"

definition sample_kafka_ticks :: kafka_ticks where
  "sample_kafka_ticks = \<lparr>kt_get = sample_ticks, kt_updated = 5000, kt_now_ns = 5000000, kt_date = ''now'',
     kt_call = (''id'', 1), kt_audit_id = ''aid'', kt_lag = 1, kt_duration = 2\<rparr>"

definition sample_consumer :: "tables sqlite \<Rightarrow> (tables sqlite, nat) consumer" where
  "sample_consumer s = \<lparr>cs_backend = sample_backend s, cs_marked = [], cs_metrics = None\<rparr>"

definition producing_server :: "tables sqlite server" where
  "producing_server = sample_server\<lparr>kafkaProducerEnabled := True, kafkaProducerTopic := ''out''\<rparr>"

lemma producing_server_sel [simp]:
  "DatabaseClient producing_server = sqlite_client mem_engine sample_cfg" "kafkaProducerEnabled producing_server"
  by (simp_all add: producing_server_def)

lemma sample_consumer_sel [simp]: "cs_backend (sample_consumer s) = sample_backend s"
  by (simp add: sample_consumer_def)

section \<open>Encryption and Cassandra\<close>

definition plain_cipher :: cipher where
  "plain_cipher = \<lparr>ci_enc = (\<lambda>_ _ x. x), ci_dec = (\<lambda>_ _ x. x), ci_sha1 = (\<lambda>_. replicate 20 CHR ''h'')\<rparr>"

definition sample_codec :: aes_codec where
  "sample_codec = \<lparr>ac_key = Some (replicate 16 CHR ''k'')\<rparr>"

definition sample_cluster :: cassandra_config where
  "sample_cluster = \<lparr>blockedSubdocIds = [], stateCorrectionEnabled = False, lockRootDocumentEnabled = True,
     supplementaryPrecookEnabled = False, supplementaryPrecookStateTTLDays = 7,
     encryptedSubdocIds = [''privatessid''], aesCodec = sample_codec, aesCipher = plain_cipher\<rparr>"

definition sample_cassandra :: "tables cassandra" where
  "sample_cassandra =
     (let s = \<lparr>ca_db = (\<lambda>_. []), ca_metrics = None, ca_now_ns = 10, ca_iv = (\<lambda>_. replicate 16 CHR ''i''),
               ca_drawn = 0\<rparr>
      in snd (ca_SetSubDocument mem_cql sample_cluster sample_mac ''lan'' lan_subdoc 0 None
           (snd (ca_SetRootDocument mem_cql sample_mac sample_root s))))"

text \<open>A session whose queries time out before the first row.\<close>

definition slow_cql :: "tables cql" where
  "slow_cql = mem_cql\<lparr>cql_query := (\<lambda>_ _ _. ([], Some (ErrText ''no response received within timeout'')))\<rparr>"

interpretation slow_cluster: cql_engine slow_cql
  by unfold_locales (auto simp: slow_cql_def mem_cql_def split: option.splits)

definition slow_server :: "tables cassandra server" where
  "slow_server = \<lparr>DatabaseClient = cassandra_client slow_cql sample_cluster, appName = ''webconfig'',
     validateMacEnabled = True, validPartners = [], upstreamEnabled = False, jwksEnabled = False,
     kafkaProducerEnabled = False, kafkaProducerTopic = '''', supplementaryAppendingEnabled = True,
     upstreamProfilesEnabled = False, queryParamsValidationEnabled = False, minTrust = 0,
     validSubdocIdMap = [(''lan'', 2)], filterOutputByBitmapEnabled = False,
     defaultEmptyProfileEnabled = False, bitmapFilterExemptSubdocIds = [], murmur3 = length,
     errs = \<lparr>ef_text = (\<lambda>_. ''error''), ef_json = (\<lambda>_. JNull)\<rparr>\<rparr>"

end
