(* ===== verification/Wifi.thy ===== *)
theory Wifi
  imports GoErrors
begin

text \<open>
  common/wifi.go and common/tr181.go: the wifi settings inside a TR-181 parameter, in the short
  form that the server writes to its log. Decoding msgpack is a parameter.
\<close>

section \<open>The settings\<close>

record EmbeddedSsid =
  es_Ssid :: string
  es_Enable :: bool
  es_Broadcast :: bool

record EmbeddedSecurity =
  ec_Passphrase :: string
  ec_Encryption :: string
  ec_Mode :: string

text \<open>
  The struct of the private network and the one of the home network have the same fields; they
  differ in the keys of their encoding, which are the decoder's matter.
\<close>

record embedded_wifi =
  ew_Ssid2g :: "EmbeddedSsid option"
  ew_Ssid5g :: "EmbeddedSsid option"
  ew_Ssid5gl :: "EmbeddedSsid option"
  ew_Ssid5gu :: "EmbeddedSsid option"
  ew_Ssid6g :: "EmbeddedSsid option"
  ew_Security2g :: "EmbeddedSecurity option"
  ew_Security5g :: "EmbeddedSecurity option"
  ew_Security5gl :: "EmbeddedSecurity option"
  ew_Security5gu :: "EmbeddedSecurity option"
  ew_Security6g :: "EmbeddedSecurity option"

record SimpleWifi =
  sw_Enabled2g :: "bool option"
  sw_Ssid2g :: "string option"
  sw_Pass2g :: "string option"
  sw_Mode2g :: "string option"
  sw_Enabled5g :: "bool option"
  sw_Ssid5g :: "string option"
  sw_Pass5g :: "string option"
  sw_Mode5g :: "string option"
  sw_Enabled6g :: "bool option"
  sw_Ssid6g :: "string option"
  sw_Pass6g :: "string option"
  sw_Mode6g :: "string option"
  sw_Version :: "string option"

section \<open>The short form\<close>

text \<open>A slice of a string cuts between bytes, also inside a character.\<close>

definition masked_passphrase :: "string \<Rightarrow> string" where
  "masked_passphrase ss = (if length ss > 4 then take 4 ss @ ''****'' else ss)"

definition GetSimpleWifi :: "embedded_wifi \<Rightarrow> string \<Rightarrow> SimpleWifi" where
  "GetSimpleWifi w version =
     (let ssid = map_option es_Ssid; enable = map_option es_Enable;
          pass = map_option (\<lambda>s. masked_passphrase (ec_Passphrase s)); mode = map_option ec_Mode
      in \<lparr>sw_Enabled2g = enable (ew_Ssid2g w), sw_Ssid2g = ssid (ew_Ssid2g w),
          sw_Pass2g = pass (ew_Security2g w), sw_Mode2g = mode (ew_Security2g w),
          sw_Enabled5g = enable (ew_Ssid5g w), sw_Ssid5g = ssid (ew_Ssid5g w),
          sw_Pass5g = pass (ew_Security5g w), sw_Mode5g = mode (ew_Security5g w),
          sw_Enabled6g = enable (ew_Ssid6g w), sw_Ssid6g = ssid (ew_Ssid6g w),
          sw_Pass6g = pass (ew_Security6g w), sw_Mode6g = mode (ew_Security6g w),
          sw_Version = Some version\<rparr>)"

text \<open>The same text stands a second time for the home network.\<close>

definition home_GetSimpleWifi :: "embedded_wifi \<Rightarrow> string \<Rightarrow> SimpleWifi" where
  "home_GetSimpleWifi w version = GetSimpleWifi w version"

definition wifi_passphrases :: "SimpleWifi \<Rightarrow> string list" where
  "wifi_passphrases w = List.map_filter id [sw_Pass2g w, sw_Pass5g w, sw_Pass6g w]"

section \<open>TR-181 entries\<close>

record TR181Entry =
  te_Name :: string
  te_Value :: string
  te_DataType :: int

record msgpack_wifi =
  mw_private :: "bytes \<Rightarrow> goerr + embedded_wifi"
  mw_home :: "bytes \<Rightarrow> goerr + embedded_wifi"
  mw_output :: "bytes \<Rightarrow> goerr + TR181Entry list"

definition TR181NamePrivatessid :: string where "TR181NamePrivatessid = ''Device.WiFi.Private''"
definition TR181NameHomessid :: string where "TR181NameHomessid = ''Device.WiFi.Home''"

definition ParseTR181EntryAsItf :: "msgpack_wifi \<Rightarrow> TR181Entry \<Rightarrow> string \<Rightarrow> goerr + SimpleWifi" where
  "ParseTR181EntryAsItf M t version =
     (if te_Name t = TR181NamePrivatessid
      then (case mw_private M (te_Value t) of
              Inl err \<Rightarrow> Inl (NewError err) | Inr obj \<Rightarrow> Inr (GetSimpleWifi obj version))
      else if te_Name t = TR181NameHomessid
      then (case mw_home M (te_Value t) of
              Inl err \<Rightarrow> Inl (NewError err) | Inr obj \<Rightarrow> Inr (home_GetSimpleWifi obj version))
      else Inl (NewError (ErrText ''unsupported tr181'')))"

section \<open>What is shown of a passphrase\<close>

text \<open>
  Of the rest of a passphrase the mask depends on its presence only: two passphrases of five or
  more bytes with the same start look the same.
\<close>

lemma masked_passphrase_hides:
  "length p > 4 \<Longrightarrow> length q > 4 \<Longrightarrow> take 4 p = take 4 q \<Longrightarrow> masked_passphrase p = masked_passphrase q"
  by (simp add: masked_passphrase_def)

definition mask_ok :: "string \<Rightarrow> bool" where
  "mask_ok s \<longleftrightarrow> length s \<le> 4 \<or> (length s = 8 \<and> drop 4 s = ''****'')"

lemma mask_ok_masked [simp]: "mask_ok (masked_passphrase p)"
  by (auto simp: mask_ok_def masked_passphrase_def)

lemma GetSimpleWifi_masked: "p \<in> set (wifi_passphrases (GetSimpleWifi w v)) \<Longrightarrow> mask_ok p"
  by (auto simp: wifi_passphrases_def GetSimpleWifi_def Let_def List.map_filter_def split: if_splits option.splits)

lemma ParseTR181EntryAsItf_masked:
  "ParseTR181EntryAsItf M t v = Inr w \<Longrightarrow> p \<in> set (wifi_passphrases w) \<Longrightarrow> mask_ok p"
  by (auto simp: ParseTR181EntryAsItf_def home_GetSimpleWifi_def dest: GetSimpleWifi_masked
      split: if_splits sum.splits)

end
