(* ===== verification/LogFields.thy ===== *)
theory LogFields
  imports HttpText Wifi
begin

text \<open>
  common/log_fields.go and the header functions of util/dict.go: what may reach the log. A value
  of a log line has one of the dynamic types that the code tells apart; a map of a named type
  (\<open>util.Dict\<close>, \<open>log.Fields\<close>) is none of the plain map types for a type switch.
\<close>

section \<open>Values of log lines\<close>

datatype logval =
    LogStr string
  | LogStrMap "string gomap"
  | LogMap "(string \<times> logval) list"
  | LogList "logval list"
  | LogDict "(string \<times> logval) list"
  | LogWifi SimpleWifi
  | LogBool bool
  | LogInt int
  | LogOther string

type_synonym log_fields = "logval gomap"

definition stars :: string where "stars = ''****''"

definition unloggedFields :: "string list" where
  "unloggedFields = [''moneytrace'', ''token'', ''xpc_trace'']"

definition coreFields :: "string list" where
  "coreFields = [''app_name'', ''audit_id'', ''body'', ''cpe_mac'']"

definition nonEmptyFields :: "string list" where
  "nonEmptyFields = [''traceparent'', ''tracestate'', ''out_traceparent'', ''out_tracestate'', ''req_moracide_tag'']"

definition isSensitiveLogKey :: "string \<Rightarrow> bool" where
  "isSensitiveLogKey k =
     list_ex (str_contains (to_lower k))
       [''passphrase'', ''password'', ''passwd'', ''token'', ''authorization'', ''cookie'', ''secret'', ''apikey'', ''api_key'']"

section \<open>Masking\<close>

definition mask_entry :: "string \<Rightarrow> string \<times> string \<Rightarrow> string \<times> string" where
  "mask_entry k kv = (fst kv, if isSensitiveLogKey (fst kv) \<or> k = ''header'' then stars else snd kv)"

fun sanitizeLogValue :: "string \<Rightarrow> logval \<Rightarrow> logval"
  and sanitize_entries :: "(string \<times> logval) list \<Rightarrow> (string \<times> logval) list"
  and sanitize_items :: "string \<Rightarrow> logval list \<Rightarrow> logval list" where
  "sanitizeLogValue k v =
     (if isSensitiveLogKey k then LogStr stars
      else case v of
          LogStrMap m \<Rightarrow> LogStrMap (map (mask_entry k) m)
        | LogMap m \<Rightarrow> LogMap (sanitize_entries m)
        | LogList vs \<Rightarrow> LogList (sanitize_items k vs)
        | _ \<Rightarrow> v)"
| "sanitize_entries [] = []"
| "sanitize_entries ((mk, mv) # m) = (mk, sanitizeLogValue mk mv) # sanitize_entries m"
| "sanitize_items k [] = []"
| "sanitize_items k (v # vs) = sanitizeLogValue k v # sanitize_items k vs"

definition kept_field :: "string \<Rightarrow> logval \<Rightarrow> bool" where
  "kept_field k v = (case v of LogStr s \<Rightarrow> k \<in> set nonEmptyFields \<longrightarrow> length s > 0 | _ \<Rightarrow> True)"

fun filter_fields :: "log_fields \<Rightarrow> log_fields" where
  "filter_fields [] = []"
| "filter_fields ((k, v) # src) =
     (if kept_field k v then (k, sanitizeLogValue k v) # filter_fields src else filter_fields src)"

definition delete_fields :: "string list \<Rightarrow> log_fields \<Rightarrow> log_fields" where
  "delete_fields ks fs = foldl (\<lambda>f x. gomap_del x f) fs ks"

definition FilterLogFields :: "log_fields \<Rightarrow> string list \<Rightarrow> log_fields" where
  "FilterLogFields src excludes = delete_fields excludes (delete_fields unloggedFields (filter_fields src))"

definition UpdateLogFields :: "log_fields \<Rightarrow> log_fields \<Rightarrow> log_fields" where
  "UpdateLogFields flds newfields = gomap_puts flds newfields"

definition CopyCoreLogFields :: "log_fields \<Rightarrow> log_fields" where
  "CopyCoreLogFields src =
     List.map_filter (\<lambda>k. map_option (Pair k) (map_of src k)) coreFields"

section \<open>Headers\<close>

definition safe_headers :: "string list" where
  "safe_headers = [''accept'', ''accept-encoding'', ''accept-language'', ''cache-control'', ''connection'',
     ''content-length'', ''content-type'', ''host'', ''pragma'', ''user-agent'']"

definition isSafeHeaderKey :: "string \<Rightarrow> bool" where
  "isSafeHeaderKey key \<longleftrightarrow> to_lower (TrimSpace key) \<in> set safe_headers"

definition HeaderToMap :: "header \<Rightarrow> string gomap" where
  "HeaderToMap h = map (\<lambda>(k, vs).
     (k, if \<not> isSafeHeaderKey k then stars else case vs of [] \<Rightarrow> '''' | v # _ \<Rightarrow> v)) h"

section \<open>Log lines about requests\<close>

definition logMessage :: "string \<Rightarrow> log_fields \<Rightarrow> log_fields" where
  "logMessage logger audit = gomap_put ''logger'' (LogStr logger) (FilterLogFields audit [])"

text \<open>
  \<open>LogToken\<close>. \<open>encrypt\<close> is \<open>codec.Encrypt\<close>, or \<open>None\<close> when there is no codec. The header of the
  log line is deleted before it is looked up. \<open>None\<close> is a panic.
\<close>

definition authPrefixLength :: nat where "authPrefixLength = 60"

definition short_authorization :: "string \<Rightarrow> string" where
  "short_authorization a = (if length a > authPrefixLength then take authPrefixLength a @ stars else a)"

definition token_fields :: "(string \<Rightarrow> goerr + string) option \<Rightarrow> string \<Rightarrow> log_fields \<Rightarrow> log_fields" where
  "token_fields encrypt token tfields =
     (case encrypt of
        None \<Rightarrow> gomap_put ''token_length'' (LogInt (int (length token)))
                  (gomap_put ''token_present'' (LogBool (length token > 0)) tfields)
      | Some enc \<Rightarrow> gomap_put ''enctoken'' (LogStr (case enc token of Inr e \<Rightarrow> e | Inl _ \<Rightarrow> '''')) tfields)"

definition LogToken ::
  "(string \<Rightarrow> goerr + string) option \<Rightarrow> string \<Rightarrow> string \<Rightarrow> log_fields \<Rightarrow> log_fields option" where
  "LogToken encrypt authorization token audit =
     (let tfields = gomap_del ''header'' (FilterLogFields (gomap_put ''logger'' (LogStr ''token'') audit) [])
      in case map_of tfields ''header'' of
          None \<Rightarrow> Some tfields
        | Some (LogStrMap headerMap) \<Rightarrow>
            (let isObfuscated = length headerMap > 0 \<and> length authorization > authPrefixLength;
                 h = (if length headerMap > 0 then gomap_put ''Authorization'' (short_authorization authorization) headerMap
                      else headerMap);
                 tfields' = gomap_put ''header'' (LogStrMap h) tfields
             in Some (if isObfuscated then token_fields encrypt token tfields' else tfields'))
        | Some _ \<Rightarrow> None)"

section \<open>Nothing sensitive is left\<close>

text \<open>
  A value under a key is clean: a sensitive key has the mask, and so have the sensitive entries
  of plain maps at any depth and all entries of a header.
\<close>

fun clean :: "string \<Rightarrow> logval \<Rightarrow> bool"
  and clean_entries :: "(string \<times> logval) list \<Rightarrow> bool"
  and clean_items :: "string \<Rightarrow> logval list \<Rightarrow> bool" where
  "clean k v =
     (if isSensitiveLogKey k then v = LogStr stars
      else case v of
          LogStrMap m \<Rightarrow> list_all (\<lambda>(mk, mv). isSensitiveLogKey mk \<or> k = ''header'' \<longrightarrow> mv = stars) m
        | LogMap m \<Rightarrow> clean_entries m
        | LogList vs \<Rightarrow> clean_items k vs
        | _ \<Rightarrow> True)"
| "clean_entries [] = True"
| "clean_entries ((mk, mv) # m) \<longleftrightarrow> clean mk mv \<and> clean_entries m"
| "clean_items k [] = True"
| "clean_items k (v # vs) \<longleftrightarrow> clean k v \<and> clean_items k vs"

declare clean.simps [simp del] sanitizeLogValue.simps [simp del]

lemma sanitize_clean:
  "clean k (sanitizeLogValue k v)" "clean_entries (sanitize_entries m)" "clean_items k' (sanitize_items k' vs)"
proof (induction k v and m and k' vs rule: sanitizeLogValue_sanitize_entries_sanitize_items.induct)
  case (1 k v)
  then show ?case
    by (cases v) (auto simp: sanitizeLogValue.simps[of k] clean.simps[of k] list_all_iff mask_entry_def)
qed simp_all

lemma clean_sanitize:
  "clean k v \<Longrightarrow> sanitizeLogValue k v = v" "clean_entries m \<Longrightarrow> sanitize_entries m = m"
  "clean_items k' vs \<Longrightarrow> sanitize_items k' vs = vs"
proof (induction k v and m and k' vs rule: sanitizeLogValue_sanitize_entries_sanitize_items.induct)
  case (1 k v)
  then show ?case
    by (cases v)
       (auto simp: sanitizeLogValue.simps[of k] clean.simps[of k] list_all_iff mask_entry_def split: if_splits intro!: map_idI)
qed simp_all

lemma filter_fields_in: "(k, v) \<in> set (filter_fields src) \<longleftrightarrow>
    (\<exists>u. (k, u) \<in> set src \<and> kept_field k u \<and> v = sanitizeLogValue k u)"
  by (induction src) (auto split: if_splits)

lemma delete_fields_in: "(k, v) \<in> set (delete_fields ks fs) \<longleftrightarrow> (k, v) \<in> set fs \<and> k \<notin> set ks"
proof (induction ks arbitrary: fs)
  case (Cons x ks)
  have "(k, v) \<in> set (gomap_del x fs) \<longleftrightarrow> (k, v) \<in> set fs \<and> k \<noteq> x"
    by (auto simp: gomap_del_def AList.delete_eq)
  then show ?case using Cons by (auto simp: delete_fields_def)
qed (simp add: delete_fields_def)

lemma FilterLogFields_in: "(k, v) \<in> set (FilterLogFields src ex) \<longleftrightarrow>
    k \<notin> set unloggedFields \<and> k \<notin> set ex \<and> (\<exists>u. (k, u) \<in> set src \<and> kept_field k u \<and> v = sanitizeLogValue k u)"
  by (auto simp: FilterLogFields_def delete_fields_in filter_fields_in)

lemma FilterLogFields_clean: "(k, v) \<in> set (FilterLogFields src ex) \<Longrightarrow> clean k v"
  by (auto simp: FilterLogFields_in sanitize_clean)

lemma map_of_FilterLogFields:
  assumes "k \<notin> set nonEmptyFields" "k \<notin> set unloggedFields" "k \<notin> set ex"
  shows "map_of (FilterLogFields src ex) k = map_option (sanitizeLogValue k) (map_of src k)"
proof -
  have d: "map_of (delete_fields ks fs) k = map_of fs k" if "k \<notin> set ks" for ks fs
    using that by (induction ks arbitrary: fs) (auto simp: delete_fields_def)
  have "kept_field k v" for v using assms(1) by (simp add: kept_field_def split: logval.split)
  then have "map_of (filter_fields src) k = map_option (sanitizeLogValue k) (map_of src k)"
    by (induction src) auto
  then show ?thesis using assms by (simp add: FilterLogFields_def d)
qed

text \<open>Filtering a second time changes nothing: log lines are filtered at several places.\<close>

lemma kept_sanitize: "kept_field k u \<Longrightarrow> kept_field k (sanitizeLogValue k u)"
  by (cases u) (auto simp: kept_field_def sanitizeLogValue.simps[of k] stars_def)

lemma filter_fields_id: "(\<And>k v. (k, v) \<in> set fs \<Longrightarrow> kept_field k v \<and> clean k v) \<Longrightarrow> filter_fields fs = fs"
  by (induction fs) (auto simp: clean_sanitize)

lemma delete_fields_id: "(\<And>k. k \<in> set ks \<Longrightarrow> k \<notin> fst ` set fs) \<Longrightarrow> delete_fields ks fs = fs"
  by (induction ks) (auto simp: delete_fields_def gomap_del_def delete_id)

lemma FilterLogFields_idem: "FilterLogFields (FilterLogFields src ex) ex = FilterLogFields src ex"
proof -
  let ?f = "FilterLogFields src ex"
  have "filter_fields ?f = ?f"
    by (rule filter_fields_id) (auto simp: FilterLogFields_in kept_sanitize sanitize_clean)
  moreover have "delete_fields ks ?f = ?f" if "ks = ex \<or> ks = unloggedFields" for ks
    by (rule delete_fields_id) (use that in \<open>auto simp: FilterLogFields_in\<close>)
  ultimately show ?thesis by (simp add: FilterLogFields_def[of ?f])
qed

text \<open>A map of a named type is passed on as it is.\<close>

lemma FilterLogFields_dict:
  "\<not> isSensitiveLogKey k \<Longrightarrow> k \<notin> set (unloggedFields @ ex) \<Longrightarrow> (k, LogDict d) \<in> set src \<Longrightarrow>
     (k, LogDict d) \<in> set (FilterLogFields src ex)"
  by (auto simp: FilterLogFields_in kept_field_def sanitizeLogValue.simps[of k] intro!: exI[of _ "LogDict d"])

lemma FilterLogFields_keys: "k \<in> fst ` set (FilterLogFields src ex) \<Longrightarrow> k \<in> fst ` set src"
  by (force simp: FilterLogFields_in)

text \<open>The header is gone when \<open>LogToken\<close> looks for it, so no part of the token is logged.\<close>

lemma LogToken_no_token:
  "LogToken encrypt authorization token audit = Some f \<Longrightarrow>
     f = gomap_del ''header'' (FilterLogFields (gomap_put ''logger'' (LogStr ''token'') audit) [])"
  by (auto simp: LogToken_def Let_def)

lemma HeaderToMap_masks: "(k, v) \<in> set (HeaderToMap h) \<Longrightarrow> v = stars \<or> isSafeHeaderKey k"
  by (auto simp: HeaderToMap_def split: if_splits)

end
