(* ===== verification/RequestLog.thy ===== *)
theory RequestLog
  imports LogFields Multiparts
begin

text \<open>
  The log line at the end of a request: \<open>logRequestEnds\<close> and \<open>GetResponseLogObjs\<close> of
  http/webconfig_server.go and \<open>ParseMultipartsForLogging\<close> of util/print.go. The audit map of
  the request is seen here with all its values; tracing spans are left out.
\<close>

section \<open>The body of an answer\<close>

text \<open>
  The library functions: decoding of multiparts, wifi settings and JSON, the UTF-8 test, and
  error texts.
\<close>

record log_codec =
  lc_mime :: mime_reader
  lc_wifi :: msgpack_wifi
  lc_json :: "bytes \<Rightarrow> goerr + logval"
  lc_utf8 :: "bytes \<Rightarrow> bool"
  lc_text :: "goerr \<Rightarrow> string"

definition version_entry :: "string \<Rightarrow> logval" where
  "version_entry v = LogStrMap [(''version'', v)]"

fun log_parameters :: "msgpack_wifi \<Rightarrow> multipart \<Rightarrow> TR181Entry list \<Rightarrow> log_fields \<Rightarrow> log_fields" where
  "log_parameters W mpart [] dict = dict"
| "log_parameters W mpart (parameter # ps) dict =
     log_parameters W mpart ps (gomap_put (mp_name mpart)
       (case ParseTR181EntryAsItf W parameter (mp_version mpart) of
          Inl _ \<Rightarrow> version_entry (mp_version mpart) | Inr w \<Rightarrow> LogWifi w) dict)"

fun log_parts :: "msgpack_wifi \<Rightarrow> string list \<Rightarrow> multipart list \<Rightarrow> log_fields \<Rightarrow> goerr + log_fields" where
  "log_parts W subdocIds [] dict = Inr dict"
| "log_parts W subdocIds (mpart # mparts) dict =
     (if mp_name mpart \<notin> set subdocIds
      then log_parts W subdocIds mparts (gomap_put (mp_name mpart) (version_entry (mp_version mpart)) dict)
      else case mw_output W (mp_bytes mpart) of
          Inl err \<Rightarrow> Inl (NewError err)
        | Inr parameters \<Rightarrow> log_parts W subdocIds mparts (log_parameters W mpart parameters dict))"

definition ParseMultipartsForLogging ::
  "log_codec \<Rightarrow> bytes \<Rightarrow> header \<Rightarrow> string list \<Rightarrow> goerr + log_fields" where
  "ParseMultipartsForLogging L rbytes h subdocIds =
     (case ParseMultipartAsList (lc_mime L) h rbytes of
        Inl err \<Rightarrow> Inl (NewError err)
      | Inr mparts \<Rightarrow> log_parts (lc_wifi L) subdocIds mparts [])"

definition ObfuscatedMap :: logval where "ObfuscatedMap = LogStrMap [(''msgpack'', stars)]"
definition BadJsonResponseMap :: logval where "BadJsonResponseMap = LogStrMap [(''bad_json'', stars)]"
definition EmptyMap :: logval where "EmptyMap = LogStrMap []"
definition wifiSubdocIds :: "string list" where "wifiSubdocIds = [''privatessid'', ''homessid'']"

definition GetResponseLogObjs :: "log_codec \<Rightarrow> bytes \<Rightarrow> logval \<times> string" where
  "GetResponseLogObjs L rbytes =
     (if length rbytes = 0 then (EmptyMap, '''')
      else if \<not> lc_utf8 L rbytes then (ObfuscatedMap, stars)
      else case lc_json L rbytes of
          Inl _ \<Rightarrow> (BadJsonResponseMap, rbytes)
        | Inr itf \<Rightarrow> (itf, ''''))"

section \<open>The end of a request\<close>

text \<open>
  What \<open>logRequestEnds\<close> reads of a request and its answer. The results of the parts below are
  the audit map afterwards, or \<open>None\<close> when a type assertion panics.
\<close>

record ended =
  en_url :: string
  en_method :: string
  en_status :: int
  en_response :: bytes
  en_header :: header
  en_duration :: int

definition put_response :: "logval \<Rightarrow> string \<Rightarrow> log_fields \<Rightarrow> log_fields" where
  "put_response v t f = gomap_put ''response_text'' (LogStr t) (gomap_put ''response'' v f)"

definition telemetry_logged :: "log_fields \<Rightarrow> string option" where
  "telemetry_logged f = (case map_of f ''telemetry_version'' of
      Some (LogStr version) \<Rightarrow> if length version > 0 then Some version else None
    | _ \<Rightarrow> None)"

definition config_response :: "log_codec \<Rightarrow> ended \<Rightarrow> log_fields \<Rightarrow> log_fields option" where
  "config_response L e f =
     (let other = (case telemetry_logged f of
            Some version \<Rightarrow> Some (gomap_put ''response'' (LogStrMap [(''telemetry'', version)]) f)
          | None \<Rightarrow> (case GetResponseLogObjs L (en_response e) of (v, t) \<Rightarrow> Some (put_response v t f)));
          multi = Some (case ParseMultipartsForLogging L (en_response e) (en_header e) wifiSubdocIds of
            Inr mpdict \<Rightarrow> gomap_put ''response'' (LogDict mpdict) f
          | Inl _ \<Rightarrow> f)
      in case map_of f ''is_telemetry'' of
          None \<Rightarrow> if en_status e = 200 then multi else other
        | Some (LogBool isTelemetry) \<Rightarrow> if \<not> isTelemetry \<and> en_status e = 200 then multi else other
        | Some _ \<Rightarrow> None)"

text \<open>The line with the details of a document, and the removal of the document.\<close>

definition document_line :: "log_fields \<Rightarrow> log_fields list" where
  "document_line f =
     (case map_of f ''document'' of
        Some (LogDict d) \<Rightarrow> if length d > 0 then [gomap_put ''logger'' (LogStr ''doc'') (FilterLogFields f [])] else []
      | _ \<Rightarrow> [])"

definition hidden_response :: "ended \<Rightarrow> bool" where
  "hidden_response e \<longleftrightarrow> str_contains (en_url e) ''/document'' \<and> en_method e = ''GET''
     \<or> en_url e = ''/api/v1/token'' \<and> en_method e = ''POST''"

definition other_response :: "log_codec \<Rightarrow> ended \<Rightarrow> log_fields \<Rightarrow> log_fields" where
  "other_response L e f =
     (if map_of f ''response'' \<noteq> None then f
      else if length (en_response e) > 0
      then (case lc_json L (en_response e) of
              Inl err \<Rightarrow> put_response ObfuscatedMap (lc_text L (NewError err)) f
            | Inr itf \<Rightarrow> gomap_put ''response'' itf f)
      else put_response ObfuscatedMap '''' f)"

definition ended_response :: "log_codec \<Rightarrow> ended \<Rightarrow> log_fields \<Rightarrow> (log_fields \<times> log_fields list) option" where
  "ended_response L e f =
     (if str_contains (en_url e) ''/config''
      then map_option (\<lambda>f1. (if en_status e < 500 then gomap_del ''document'' f1 else f1, document_line f1))
             (config_response L e f)
      else if hidden_response e then Some (put_response ObfuscatedMap stars f, [])
      else Some (other_response L e f, []))"

text \<open>The audit map afterwards and the lines that were written.\<close>

definition logRequestEnds :: "log_codec \<Rightarrow> ended \<Rightarrow> log_fields \<Rightarrow> (log_fields \<times> log_fields list) option" where
  "logRequestEnds L e audit =
     Option.bind (ended_response L e audit) (\<lambda>(f, lines).
       let f' = gomap_put ''logger'' (LogStr ''request'') (gomap_put ''duration'' (LogInt (en_duration e))
                  (gomap_put ''status'' (LogInt (en_status e)) f))
       in case map_of f' ''user_agent'' of
           None \<Rightarrow> Some (f', lines @ [FilterLogFields f' []])
         | Some (LogStr userAgent) \<Rightarrow>
             Some (f', if userAgent \<noteq> ''mget'' then lines @ [FilterLogFields f' []] else lines)
         | Some _ \<Rightarrow> None)"

section \<open>What a line shows\<close>

text \<open>An entry of the dictionary of an answer: a version, or wifi settings with masked passphrases.\<close>

definition part_shown :: "logval \<Rightarrow> bool" where
  "part_shown v \<longleftrightarrow> (\<exists>version. v = version_entry version)
     \<or> (\<exists>w. v = LogWifi w \<and> (\<forall>p \<in> set (wifi_passphrases w). mask_ok p))"

definition all_shown :: "log_fields \<Rightarrow> bool" where
  "all_shown d \<longleftrightarrow> (\<forall>k v. map_of d k = Some v \<longrightarrow> part_shown v)"

lemma all_shown_put: "all_shown d \<Longrightarrow> part_shown v \<Longrightarrow> all_shown (gomap_put k v d)"
  by (auto simp: all_shown_def)

lemma log_parameters_shown: "all_shown dict \<Longrightarrow> all_shown (log_parameters W mpart ps dict)"
proof (induction ps arbitrary: dict)
  case (Cons p ps)
  have "part_shown (case ParseTR181EntryAsItf W p (mp_version mpart) of
      Inl _ \<Rightarrow> version_entry (mp_version mpart) | Inr w \<Rightarrow> LogWifi w)"
    by (auto simp: part_shown_def dest: ParseTR181EntryAsItf_masked split: sum.splits)
  with Cons show ?case by (simp add: all_shown_put)
qed simp

lemma log_parts_shown: "log_parts W ids mparts dict = Inr d \<Longrightarrow> all_shown dict \<Longrightarrow> all_shown d"
proof (induction W ids mparts dict rule: log_parts.induct)
  case (2 W ids mpart mparts dict)
  have "part_shown (version_entry (mp_version mpart))" by (auto simp: part_shown_def)
  with 2 show ?case by (auto simp: all_shown_put log_parameters_shown split: if_splits sum.splits)
qed simp

lemma ParseMultipartsForLogging_shown: "ParseMultipartsForLogging L b h ids = Inr d \<Longrightarrow> all_shown d"
  by (auto simp: ParseMultipartsForLogging_def all_shown_def[of "[]"] dest!: log_parts_shown split: sum.splits)

lemma config_response_shown:
  assumes "config_response L e f = Some f'" "map_of f' ''response'' = Some (LogDict d)"
  shows "map_of f ''response'' = Some (LogDict d) \<or> all_shown d \<or> lc_json L (en_response e) = Inr (LogDict d)"
  using assms
  by (auto simp: config_response_def Let_def put_response_def GetResponseLogObjs_def EmptyMap_def ObfuscatedMap_def
      BadJsonResponseMap_def dest: ParseMultipartsForLogging_shown
      split: if_splits option.splits logval.splits sum.splits)

lemma log_names:
  "\<not> isSensitiveLogKey ''logger''" "\<not> isSensitiveLogKey ''response''" "\<not> isSensitiveLogKey ''response_text''"
  "''response'' \<notin> set nonEmptyFields" "''response_text'' \<notin> set nonEmptyFields"
  "''response'' \<notin> set unloggedFields" "''response_text'' \<notin> set unloggedFields"
  by code_simp+

lemma document_line_in:
  "line \<in> set (document_line f) \<Longrightarrow> line = gomap_put ''logger'' (LogStr ''doc'') (FilterLogFields f [])"
  by (auto simp: document_line_def split: option.splits logval.splits if_splits)

lemma document_line_clean: "line \<in> set (document_line f) \<Longrightarrow> (k, v) \<in> set line \<Longrightarrow> clean k v"
  by (auto simp: clean.simps log_names dest!: document_line_in gomap_put_in dest: FilterLogFields_clean)

lemma logRequestEnds_lines:
  assumes "logRequestEnds L e audit = Some (f', lines)" "line \<in> set lines"
  obtains f ls where "ended_response L e audit = Some (f, ls)" "line \<in> set ls \<or> line = FilterLogFields f' []"
    "map_of f' ''response'' = map_of f ''response''" "map_of f' ''response_text'' = map_of f ''response_text''"
  using assms by (auto simp: logRequestEnds_def Let_def split: bind_splits option.splits logval.splits if_splits)

lemma ended_lines_clean:
  assumes "logRequestEnds L e audit = Some (f', lines)" "line \<in> set lines" "(k, v) \<in> set line"
  shows "clean k v"
proof -
  from assms(1,2) obtain f ls where f: "ended_response L e audit = Some (f, ls)"
      "line \<in> set ls \<or> line = FilterLogFields f' []"
    by (rule logRequestEnds_lines)
  from f(1) have "line \<in> set ls \<Longrightarrow> \<exists>g. line \<in> set (document_line g)"
    by (auto simp: ended_response_def split: if_splits)
  with f(2) assms(3) show ?thesis by (auto dest: FilterLogFields_clean document_line_clean)
qed

lemma ended_hidden:
  assumes "logRequestEnds L e audit = Some (f', lines)" "line \<in> set lines"
    and "hidden_response e" "\<not> str_contains (en_url e) ''/config''"
  shows "map_of line ''response'' = Some ObfuscatedMap" "map_of line ''response_text'' = Some (LogStr stars)"
proof -
  from assms(1,2) obtain f ls where f: "ended_response L e audit = Some (f, ls)"
      "line \<in> set ls \<or> line = FilterLogFields f' []"
      "map_of f' ''response'' = map_of f ''response''" "map_of f' ''response_text'' = map_of f ''response_text''"
    by (rule logRequestEnds_lines)
  have c: "sanitizeLogValue ''response'' ObfuscatedMap = ObfuscatedMap"
    "sanitizeLogValue ''response_text'' (LogStr stars) = LogStr stars" by code_simp+
  from f(1) assms(3,4) have "f = put_response ObfuscatedMap stars audit" "ls = []"
    by (simp_all add: ended_response_def)
  with f(2,3,4) show "map_of line ''response'' = Some ObfuscatedMap" "map_of line ''response_text'' = Some (LogStr stars)"
    by (auto simp: put_response_def map_of_FilterLogFields log_names c)
qed

text \<open>JSON has no dictionaries of the named type.\<close>

definition json_plain :: "log_codec \<Rightarrow> bool" where
  "json_plain L \<longleftrightarrow> (\<forall>b d. lc_json L b \<noteq> Inr (LogDict d))"

lemma ended_config_shown:
  assumes "logRequestEnds L e audit = Some (f', lines)" "line \<in> set lines"
    and "json_plain L" "map_of audit ''response'' = None" "map_of line ''response'' = Some (LogDict d)"
  shows "all_shown d"
proof -
  from assms(1,2) obtain f ls where f: "ended_response L e audit = Some (f, ls)"
      "line \<in> set ls \<or> line = FilterLogFields f' []" "map_of f' ''response'' = map_of f ''response''"
    by (rule logRequestEnds_lines)
  have s: "v = LogDict d" if "sanitizeLogValue ''response'' v = LogDict d" for v
    using that by (cases v) (auto simp: sanitizeLogValue.simps log_names)
  note m = map_of_FilterLogFields[OF log_names(4) log_names(6), of "[]"]
  from f(1) have "line \<in> set ls \<Longrightarrow> \<exists>g. config_response L e audit = Some g
      \<and> map_of g ''response'' = Some (LogDict d)"
    using assms(5) by (auto simp: ended_response_def m dest!: document_line_in s split: if_splits)
  moreover from f(1) have "map_of f ''response'' = Some (LogDict d) \<Longrightarrow> \<exists>g. config_response L e audit = Some g
      \<and> map_of g ''response'' = Some (LogDict d)"
    using assms(3,4)
    by (auto simp: ended_response_def other_response_def put_response_def ObfuscatedMap_def json_plain_def
        split: if_splits sum.splits)
  ultimately have "\<exists>g. config_response L e audit = Some g \<and> map_of g ''response'' = Some (LogDict d)"
    using f(2,3) assms(5) by (auto simp: m dest!: s)
  with config_response_shown assms(3,4) show ?thesis by (fastforce simp: json_plain_def)
qed

lemma ended_lines_unlogged:
  assumes "logRequestEnds L e audit = Some (f', lines)" "line \<in> set lines" "(k, v) \<in> set line"
  shows "k \<notin> set unloggedFields"
proof -
  from assms(1,2) obtain f ls where f: "ended_response L e audit = Some (f, ls)"
      "line \<in> set ls \<or> line = FilterLogFields f' []"
    by (rule logRequestEnds_lines)
  from f(1) have "line \<in> set ls \<Longrightarrow> \<exists>g. line = gomap_put ''logger'' (LogStr ''doc'') (FilterLogFields g [])"
    by (auto simp: ended_response_def dest!: document_line_in split: if_splits)
  moreover have "''logger'' \<notin> set unloggedFields" by code_simp
  ultimately show ?thesis using f(2) assms(3) by (auto simp: FilterLogFields_in dest!: gomap_put_in)
qed

section \<open>An example\<close>

definition sample_log :: log_codec where
  "sample_log = \<lparr>lc_mime = \<lparr>mm_media = \<lambda>_. Inl ErrNoRows, mm_parts = \<lambda>_ _. ([], None)\<rparr>, lc_wifi = \<lparr>mw_private = \<lambda>_. Inl ErrNoRows,
     mw_home = \<lambda>_. Inl ErrNoRows, mw_output = \<lambda>_. Inl ErrNoRows\<rparr>,
     lc_json = \<lambda>_. Inl ErrNoRows, lc_utf8 = \<lambda>_. True, lc_text = \<lambda>_. []\<rparr>"

definition sample_ended :: ended where
  "sample_ended = \<lparr>en_url = ''/api/v1/device/x/document/lan'', en_method = ''GET'', en_status = 200,
     en_response = ''secret'', en_header = [], en_duration = 3\<rparr>"

definition sample_audit :: log_fields where
  "sample_audit = [(''password'', LogStr ''x''), (''token'', LogStr ''y''), (''path'', LogStr ''z'')]"

end
