(* ===== verification/MetricsLog.thy ===== *)
theory MetricsLog
  imports Metrics LogFields
begin

text \<open>
  The rest of common/metrics.go: setting a gauge, reading the gauges and counters back into a
  log line, and the summaries of scraped metrics. A scraped metric is its label pairs and its
  value as a whole number.
\<close>

section \<open>Setting gauges\<close>

definition DeployedSet :: "labelkey \<Rightarrow> string \<Rightarrow> int \<Rightarrow> bool \<Rightarrow> metrics \<Rightarrow> metrics" where
  "DeployedSet k mac v isWatchedCpe m =
     (let m = m\<lparr>stateDeployed := (stateDeployed m)(k := v)\<rparr>
      in if isWatchedCpe then m\<lparr>watchedStateDeployed := (watchedStateDeployed m)((k, mac) := v)\<rparr> else m)"

definition PendingDownloadSet :: "labelkey \<Rightarrow> string \<Rightarrow> int \<Rightarrow> bool \<Rightarrow> metrics \<Rightarrow> metrics" where
  "PendingDownloadSet k mac v isWatchedCpe m =
     (let m = m\<lparr>statePendingDownload := (statePendingDownload m)(k := v)\<rparr>
      in if isWatchedCpe then m\<lparr>watchedStatePendingDownload := (watchedStatePendingDownload m)((k, mac) := v)\<rparr> else m)"

definition InDeploymentSet :: "labelkey \<Rightarrow> string \<Rightarrow> int \<Rightarrow> bool \<Rightarrow> metrics \<Rightarrow> metrics" where
  "InDeploymentSet k mac v isWatchedCpe m =
     (let m = m\<lparr>stateInDeployment := (stateInDeployment m)(k := v)\<rparr>
      in if isWatchedCpe then m\<lparr>watchedStateInDeployment := (watchedStateInDeployment m)((k, mac) := v)\<rparr> else m)"

definition FailureSet :: "labelkey \<Rightarrow> string \<Rightarrow> int \<Rightarrow> bool \<Rightarrow> metrics \<Rightarrow> metrics" where
  "FailureSet k mac v isWatchedCpe m =
     (let m = m\<lparr>stateFailure := (stateFailure m)(k := v)\<rparr>
      in if isWatchedCpe then m\<lparr>watchedStateFailure := (watchedStateFailure m)((k, mac) := v)\<rparr> else m)"

section \<open>The log line of a change of state\<close>

definition state_counts :: "labelkey \<Rightarrow> metrics \<Rightarrow> log_fields" where
  "state_counts k m =
     [(''state_deployed_count'', LogInt (stateDeployed m k)),
      (''state_pending_count'', LogInt (statePendingDownload m k)),
      (''state_indeployment_count'', LogInt (stateInDeployment m k)),
      (''state_failure_count'', LogInt (stateFailure m k))]"

definition watched_counts :: "labelkey \<Rightarrow> string \<Rightarrow> metrics \<Rightarrow> log_fields" where
  "watched_counts k mac m =
     [(''watched_state_deployed_count'', LogInt (watchedStateDeployed m (k, mac))),
      (''watched_state_pending_count'', LogInt (watchedStatePendingDownload m (k, mac))),
      (''watched_state_indeployment_count'', LogInt (watchedStateInDeployment m (k, mac))),
      (''watched_state_failure_count'', LogInt (watchedStateFailure m (k, mac)))]"

definition change_counts :: "labelkey \<Rightarrow> metrics \<Rightarrow> log_fields" where
  "change_counts k m =
     [(''deployed_inc_count'', LogInt (deployedIncCount m k)), (''deployed_dec_count'', LogInt (deployedDecCount m k)),
      (''pending_inc_count'', LogInt (pendingIncCount m k)), (''pending_dec_count'', LogInt (pendingDecCount m k)),
      (''indeployment_inc_count'', LogInt (indeploymentIncCount m k)),
      (''indeployment_dec_count'', LogInt (indeploymentDecCount m k)),
      (''failure_inc_count'', LogInt (failureIncCount m k)), (''failure_dec_count'', LogInt (failureDecCount m k))]"

definition GetStateCountsAsFields :: "labelkey \<Rightarrow> string \<Rightarrow> bool \<Rightarrow> metrics \<Rightarrow> log_fields" where
  "GetStateCountsAsFields k mac isWatchedCpe m =
     state_counts k m @ (if isWatchedCpe then watched_counts k mac m else []) @ change_counts k m"

definition GetInt :: "log_fields \<Rightarrow> string \<Rightarrow> int" where
  "GetInt flds key = (case map_of flds key of Some (LogInt i) \<Rightarrow> i | _ \<Rightarrow> 0)"

text \<open>The numbers that \<open>lineTemplate\<close> is filled with.\<close>

definition state_line_numbers :: "log_fields \<Rightarrow> int list" where
  "state_line_numbers flds = map (GetInt flds)
     [''state_deployed_count'', ''state_pending_count'', ''state_indeployment_count'', ''state_failure_count'',
      ''deployed_dec_count'', ''deployed_inc_count'', ''pending_dec_count'', ''pending_inc_count'',
      ''indeployment_dec_count'', ''indeployment_inc_count'', ''failure_dec_count'', ''failure_inc_count'']"

definition GetStateMetricsLine :: "int \<Rightarrow> int \<Rightarrow> log_fields \<Rightarrow> string" where
  "GetStateMetricsLine oldState newState flds =
     (case map itoa (state_line_numbers flds) of
        [st1, st2, st3, st4, s1d, s1i, s2d, s2i, s3d, s3i, s4d, s4i] \<Rightarrow>
          ''state '' @ itoa oldState @ '' TO '' @ itoa newState
          @ '', states=('' @ go_join '','' [st1, st2, st3, st4] @ ''), dec_inc_count: s1('' @ go_join '','' [s1d, s1i]
          @ ''), s2('' @ go_join '','' [s2d, s2i] @ ''), s3('' @ go_join '','' [s3d, s3i]
          @ ''), s4('' @ go_join '','' [s4d, s4i] @ '')''
      | _ \<Rightarrow> '''')"

text \<open>
  The fields that \<open>UpdateStateMetrics\<close> logs after it changed the gauges to \<open>m\<close>. The counts are
  not among them: the second \<open>UpdateLogFields\<close> adds the fields of the first one again.
\<close>

definition state_change_fields ::
  "int \<Rightarrow> int \<Rightarrow> labelkey \<Rightarrow> labels \<Rightarrow> string \<Rightarrow> metrics \<Rightarrow> log_fields \<Rightarrow> log_fields" where
  "state_change_fields oldState newState k ls cpeMac m flds =
     (let isWatchedCpe = list_ex (\<lambda>x. x = cpeMac) (watchedCpes m);
          nfields = [(''logger'', LogStr ''metrics''), (''old_state'', LogInt oldState), (''new_state'', LogInt newState),
            (''subdoc_id'', LogStr (gomap_get '''' ls ''feature'')),
            (''metrics_agent'', LogStr (gomap_get '''' ls ''client'')), (''is_watched_cpe'', LogBool isWatchedCpe)];
          tfields = UpdateLogFields (FilterLogFields flds []) nfields;
          sfields = GetStateCountsAsFields k cpeMac isWatchedCpe m
      in gomap_put ''line'' (LogStr (GetStateMetricsLine oldState newState sfields)) (UpdateLogFields tfields nfields))"

section \<open>Scraped metrics\<close>

record scraped_metric =
  sm_labels :: "(string \<times> string) list"
  sm_value :: int

text \<open>The last pair of a name counts.\<close>

definition label_value :: "string \<Rightarrow> (string \<times> string) list \<Rightarrow> string" where
  "label_value n ls = foldl (\<lambda>x p. if fst p = n then snd p else x) '''' ls"

definition scraped_key :: "string \<Rightarrow> scraped_metric \<Rightarrow> string" where
  "scraped_key name m =
     (let x = label_value name (sm_labels m); client = label_value ''client'' (sm_labels m)
      in if client = ''default'' then x else x @ ''_'' @ client)"

definition ParseGauge :: "scraped_metric list \<Rightarrow> int gomap" where
  "ParseGauge ms = gomap_puts [] (map (\<lambda>m. (scraped_key ''feature'' m, sm_value m)) ms)"

definition ParseSummary :: "scraped_metric list \<Rightarrow> int gomap" where
  "ParseSummary ms = gomap_puts [] (map (\<lambda>m. (scraped_key ''event'' m, sm_value m)) ms)"

section \<open>The path of a request in the metrics\<close>

text \<open>The pattern of a path, or the empty string; the regular expressions ask for six segments.\<close>

definition has_suffix :: "string \<Rightarrow> string \<Rightarrow> bool" where
  "has_suffix s p \<longleftrightarrow> has_prefix (rev s) (rev p)"

definition GetUrlPattern :: "string \<Rightarrow> string" where
  "GetUrlPattern url =
     (if str_contains url ''/config?'' \<or> has_suffix url ''/config'' then ''/api/v1/device/<mac>/config''
      else case go_split (CHR ''/'') url of
          [a, b, c, d, v0, e] \<Rightarrow>
            if a = [] \<and> b = ''api'' \<and> c = ''v1'' \<and> d = ''device'' \<and> v0 \<noteq> [] \<and> e \<in> {''document'', ''poke'', ''config''}
            then ''/api/v1/device/<mac>/'' @ e else []
        | _ \<Rightarrow> [])"

section \<open>Facts\<close>

text \<open>The line shows the four gauges and the eight counters, in this order.\<close>

lemma state_line_numbers_counts:
  "state_line_numbers (GetStateCountsAsFields k mac w m) =
     [stateDeployed m k, statePendingDownload m k, stateInDeployment m k, stateFailure m k,
      deployedDecCount m k, deployedIncCount m k, pendingDecCount m k, pendingIncCount m k,
      indeploymentDecCount m k, indeploymentIncCount m k, failureDecCount m k, failureIncCount m k]"
  by (simp add: state_line_numbers_def GetStateCountsAsFields_def state_counts_def watched_counts_def
      change_counts_def GetInt_def)

text \<open>A summary has an entry for exactly the keys of the metrics; of two with one key the last one counts.\<close>

lemma ParseGauge_lookup:
  "map_of (ParseGauge ms) k = map_option sm_value (find (\<lambda>m. scraped_key ''feature'' m = k) (rev ms))"
proof -
  have "map_of (map (\<lambda>m. (scraped_key ''feature'' m, sm_value m)) xs) k
      = map_option sm_value (find (\<lambda>m. scraped_key ''feature'' m = k) xs)" for xs
    by (induction xs) auto
  then show ?thesis by (simp add: ParseGauge_def map_of_gomap_puts rev_map)
qed

end
