(* ===== verification/Semaphore.thy ===== *)
theory Semaphore
  imports Main
begin

text \<open>
  The channel \<open>concurrentQueries\<close> of the database clients, a counting semaphore: an operation
  sends into the channel at its start, which waits while the channel is full, and receives from
  it at its end. Some operations call another one while they hold their own place. This theory
  models requests that run such operations side by side, and says when they can block each
  other for ever.
\<close>

section \<open>Operations\<close>

datatype action = Acquire | Query | Release

text \<open>One operation with one statement, like \<open>GetRootDocument\<close> or \<open>DeleteDocument\<close>.\<close>

definition single :: "action list" where
  "single = [Acquire, Query, Release]"

text \<open>
  \<open>GetSubDocument\<close>: when the payload is a reference, \<open>GetRefSubDocument\<close> is called inside.
  \<open>DeleteRootDocumentVersion\<close> of the sqlite client calls \<open>GetRootDocument\<close> inside, and is done
  when there is no root document. The setters of the sqlite client read first, outside.
\<close>

datatype db_op =
    OpSingle
  | OpGetSubDocument bool
  | OpSetSubDocument bool
  | OpSetRootDocument
  | OpDeleteRootDocumentVersion bool

fun op_script :: "db_op \<Rightarrow> action list" where
  "op_script OpSingle = single"
| "op_script (OpGetSubDocument reference) =
     [Acquire, Query] @ (if reference then single else []) @ [Release]"
| "op_script (OpSetSubDocument reference) =
     [Acquire, Query] @ (if reference then single else []) @ [Release] @ single"
| "op_script OpSetRootDocument = single @ single"
| "op_script (OpDeleteRootDocumentVersion found) =
     [Acquire] @ single @ (if found then [Query] else []) @ [Release]"

definition nested :: "db_op \<Rightarrow> bool" where
  "nested d \<longleftrightarrow> d \<in> {OpGetSubDocument True, OpSetSubDocument True, OpDeleteRootDocumentVersion True,
     OpDeleteRootDocumentVersion False}"

definition script :: "db_op list \<Rightarrow> action list" where
  "script ops = concat (map op_script ops)"

section \<open>Steps\<close>

text \<open>The length of the channel, and what each request has still to do.\<close>

record sem =
  used :: nat
  threads :: "action list list"

inductive sem_step :: "nat \<Rightarrow> sem \<Rightarrow> sem \<Rightarrow> bool" for cap where
  acquire: "i < length (threads s) \<Longrightarrow> threads s ! i = Acquire # r \<Longrightarrow> used s < cap \<Longrightarrow>
     sem_step cap s (s\<lparr>used := Suc (used s), threads := (threads s)[i := r]\<rparr>)"
| query: "i < length (threads s) \<Longrightarrow> threads s ! i = Query # r \<Longrightarrow>
     sem_step cap s (s\<lparr>threads := (threads s)[i := r]\<rparr>)"
| release: "i < length (threads s) \<Longrightarrow> threads s ! i = Release # r \<Longrightarrow> used s > 0 \<Longrightarrow>
     sem_step cap s (s\<lparr>used := used s - 1, threads := (threads s)[i := r]\<rparr>)"

definition sem_start :: "db_op list list \<Rightarrow> sem" where
  "sem_start opss = \<lparr>used = 0, threads = map script opss\<rparr>"

definition finished :: "sem \<Rightarrow> bool" where
  "finished s \<longleftrightarrow> list_all (\<lambda>t. t = []) (threads s)"

text \<open>No request can go on.\<close>

definition stuck :: "nat \<Rightarrow> sem \<Rightarrow> bool" where
  "stuck cap s \<longleftrightarrow> (\<forall>s'. \<not> sem_step cap s s')"

section \<open>Every run ends\<close>

definition work_left :: "sem \<Rightarrow> nat" where
  "work_left s = sum_list (map length (threads s))"

lemma sum_list_update_less:
  fixes xs :: "nat list"
  shows "i < length xs \<Longrightarrow> sum_list (xs[i := x]) + xs ! i = sum_list xs + x"
  by (induction xs arbitrary: i) (auto split: nat.splits)

lemma work_left_step: "sem_step cap s s' \<Longrightarrow> work_left s = Suc (work_left s')"
proof (induction rule: sem_step.induct)
  case (acquire i s r)
  then show ?case using sum_list_update_less[of i "map length (threads s)" "length r"] by (simp add: work_left_def map_update)
next
  case (query i s r)
  then show ?case using sum_list_update_less[of i "map length (threads s)" "length r"] by (simp add: work_left_def map_update)
next
  case (release i s r)
  then show ?case using sum_list_update_less[of i "map length (threads s)" "length r"] by (simp add: work_left_def map_update)
qed

text \<open>A run of \<open>n\<close> steps.\<close>

fun sem_steps :: "nat \<Rightarrow> nat \<Rightarrow> sem \<Rightarrow> sem \<Rightarrow> bool" where
  "sem_steps cap 0 s s' \<longleftrightarrow> s' = s"
| "sem_steps cap (Suc n) s s' \<longleftrightarrow> (\<exists>t. sem_step cap s t \<and> sem_steps cap n t s')"

lemma sem_steps_bounded: "sem_steps cap n s s' \<Longrightarrow> n \<le> work_left s"
  by (induction n arbitrary: s) (auto dest: work_left_step)

lemma sem_steps_trans: "sem_steps cap m s t \<Longrightarrow> sem_steps cap n t u \<Longrightarrow> sem_steps cap (m + n) s u"
  by (induction m arbitrary: s) auto

section \<open>Places that are held\<close>

text \<open>
  A script that holds \<open>h\<close> places is in order when it gives them back and asks for a second one
  only if \<open>b\<close> allows it, and never for a third.
\<close>

fun in_order :: "bool \<Rightarrow> nat \<Rightarrow> action list \<Rightarrow> bool" where
  "in_order b h [] \<longleftrightarrow> h = 0"
| "in_order b h (Acquire # r) \<longleftrightarrow> (h = 0 \<or> b \<and> h = 1) \<and> in_order b (Suc h) r"
| "in_order b h (Query # r) \<longleftrightarrow> in_order b h r"
| "in_order b h (Release # r) \<longleftrightarrow> h > 0 \<and> in_order b (h - 1) r"

definition holding :: "action list \<Rightarrow> nat" where
  "holding r = length (filter (\<lambda>a. a = Release) r) - length (filter (\<lambda>a. a = Acquire) r)"

lemma in_order_count:
  "in_order b h r \<Longrightarrow> length (filter (\<lambda>a. a = Release) r) = h + length (filter (\<lambda>a. a = Acquire) r)"
  by (induction b h r rule: in_order.induct) auto

lemma in_order_holding: "in_order b h r \<Longrightarrow> holding r = h"
  by (simp add: holding_def in_order_count)

lemma in_order_append: "in_order b h xs \<Longrightarrow> in_order b 0 ys \<Longrightarrow> in_order b h (xs @ ys)"
  by (induction b h xs rule: in_order.induct) auto

lemma in_order_mono: "in_order False h xs \<Longrightarrow> in_order b h xs"
  by (induction b h xs rule: in_order.induct) auto

lemma op_script_in_order: "in_order (nested d) 0 (op_script d)"
  by (cases d rule: op_script.cases) (auto simp: nested_def single_def)

lemma script_in_order: "in_order (list_ex nested ops) 0 (script ops)"
proof (induction ops)
  case (Cons d ops)
  have "in_order (list_ex nested (d # ops)) 0 (op_script d)"
    using op_script_in_order[of d] in_order_mono by (cases "nested d") auto
  moreover have "in_order (list_ex nested (d # ops)) 0 (script ops)"
    using Cons in_order_mono by (cases "list_ex nested ops"; cases "nested d") auto
  ultimately show ?case by (simp add: script_def in_order_append)
qed (simp add: script_def)

text \<open>The invariant: the channel holds what the requests hold, and all scripts are in order.\<close>

definition sem_inv :: "nat \<Rightarrow> bool list \<Rightarrow> sem \<Rightarrow> bool" where
  "sem_inv cap bs s \<longleftrightarrow> length bs = length (threads s) \<and> used s \<le> cap
     \<and> used s = sum_list (map holding (threads s))
     \<and> (\<forall>i < length bs. in_order (bs ! i) (holding (threads s ! i)) (threads s ! i))"

lemma sem_inv_start: "sem_inv cap (map (list_ex nested) opss) (sem_start opss)"
proof -
  have "holding (script ops) = 0" for ops by (rule in_order_holding[OF script_in_order])
  then show ?thesis using script_in_order
    by (simp add: sem_inv_def sem_start_def comp_def)
qed

lemma holding_le_sum: "i < length ts \<Longrightarrow> holding (ts ! i) \<le> sum_list (map holding ts)"
  by (rule member_le_sum_list) auto

lemma sem_inv_step:
  assumes "sem_step cap s s'" "sem_inv cap bs s"
  shows "sem_inv cap bs s'"
proof -
  have upd: "sum_list (map holding ((threads s)[i := r])) + holding (threads s ! i)
      = sum_list (map holding (threads s)) + holding r" if "i < length (threads s)" for i r
    using sum_list_update_less[of i "map holding (threads s)"] that by (simp add: map_update)
  have ord: "in_order (bs ! i) (holding (threads s ! i)) (threads s ! i)" if "i < length bs" for i
    using assms(2) that by (simp add: sem_inv_def)
  note le = holding_le_sum[of _ "threads s"]
  from assms(1) show ?thesis
  proof cases
    case (acquire i r)
    then have "in_order (bs ! i) (Suc (holding (threads s ! i))) r"
      using ord[of i] assms(2) by (simp add: sem_inv_def)
    then have "holding r = Suc (holding (threads s ! i))" "in_order (bs ! i) (holding r) r"
      by (simp_all add: in_order_holding)
    then show ?thesis using assms(2) acquire upd[of i r] by (auto simp: sem_inv_def nth_list_update)
  next
    case (query i r)
    then have "in_order (bs ! i) (holding (threads s ! i)) r"
      using ord[of i] assms(2) by (simp add: sem_inv_def)
    then have "holding r = holding (threads s ! i)" "in_order (bs ! i) (holding r) r"
      by (simp_all add: in_order_holding)
    then show ?thesis using assms(2) query upd[of i r] by (auto simp: sem_inv_def nth_list_update)
  next
    case (release i r)
    then have "in_order (bs ! i) (holding (threads s ! i) - 1) r" "holding (threads s ! i) > 0"
      using ord[of i] assms(2) by (simp_all add: sem_inv_def)
    then have "holding r = holding (threads s ! i) - 1" "in_order (bs ! i) (holding r) r" "holding (threads s ! i) > 0"
      by (simp_all add: in_order_holding)
    then show ?thesis using assms(2) release upd[of i r] le[of i] by (auto simp: sem_inv_def nth_list_update)
  qed
qed

lemma sem_inv_steps: "sem_steps cap n s s' \<Longrightarrow> sem_inv cap bs s \<Longrightarrow> sem_inv cap bs s'"
  by (induction n arbitrary: s) (auto intro: sem_inv_step)

section \<open>When requests block each other\<close>

lemma stuck_thread:
  assumes "stuck cap s" "sem_inv cap bs s" "i < length (threads s)" "threads s ! i \<noteq> []"
  shows "used s = cap \<and> (\<exists>r. threads s ! i = Acquire # r)"
proof -
  obtain a r where ar: "threads s ! i = a # r" using assms(4) by (cases "threads s ! i") auto
  have "in_order (bs ! i) (holding (threads s ! i)) (threads s ! i)" "used s = sum_list (map holding (threads s))"
    "used s \<le> cap" using assms(2,3) by (auto simp: sem_inv_def)
  moreover have "used s < cap \<Longrightarrow> a \<noteq> Acquire"
    using sem_step.acquire[OF assms(3)] ar assms(1) by (auto simp: stuck_def)
  ultimately show ?thesis
    using holding_le_sum[OF assms(3)] ar assms(1,3)
    by (cases a) (auto simp: stuck_def dest: sem_step.query sem_step.release)
qed

text \<open>With fewer nesting requests than places a run that cannot go on has finished.\<close>

lemma stuck_finished:
  assumes "stuck cap s" "sem_inv cap bs s" "length (filter id bs) < cap"
  shows "finished s \<and> used s = 0"
proof -
  have one: "holding (threads s ! i) \<le> (if bs ! i then 1 else 0)" if i: "i < length (threads s)" for i
  proof (cases "threads s ! i = []")
    case False
    then obtain r where "threads s ! i = Acquire # r" using stuck_thread[OF assms(1,2) i] by blast
    moreover have "in_order (bs ! i) (holding (threads s ! i)) (threads s ! i)"
      using assms(2) i by (simp add: sem_inv_def)
    ultimately show ?thesis by auto
  qed (simp add: holding_def)
  have "sum_list (map holding (threads s)) \<le> sum_list (map (\<lambda>b. if b then 1 else 0) bs)"
    by (rule sum_list_mono2) (use assms(2) one in \<open>auto simp: sem_inv_def\<close>)
  also have "\<dots> = length (filter id bs)" by (induction bs) auto
  finally have "used s < cap" using assms(2,3) by (simp add: sem_inv_def)
  then have "\<forall>i < length (threads s). threads s ! i = []"
    using stuck_thread[OF assms(1,2)] by fastforce
  then have "finished s" by (simp add: finished_def list_all_length)
  moreover from this have "sum_list (map holding (threads s)) = 0"
    by (auto simp: finished_def list_all_iff holding_def)
  ultimately show ?thesis using assms(2) by (simp add: sem_inv_def)
qed

text \<open>
  With as many nesting requests as places they can take all places and then wait for ever:
  each of them is run up to the operation inside another one.
\<close>

definition goes_to :: "nat \<Rightarrow> sem \<Rightarrow> sem \<Rightarrow> bool" where
  "goes_to cap s s' \<longleftrightarrow> (\<exists>n. sem_steps cap n s s')"

lemma goes_to_refl: "goes_to cap s s"
  unfolding goes_to_def by (rule exI[of _ 0]) simp

lemma goes_to_trans: "goes_to cap s t \<Longrightarrow> goes_to cap t u \<Longrightarrow> goes_to cap s u"
  unfolding goes_to_def using sem_steps_trans by blast

lemma goes_to_step: "sem_step cap s t \<Longrightarrow> goes_to cap s t"
  unfolding goes_to_def by (rule exI[of _ 1]) simp

abbreviation at :: "nat \<Rightarrow> action list list \<Rightarrow> sem" where
  "at u ts \<equiv> \<lparr>used = u, threads = ts\<rparr>"

lemma thread_steps:
  assumes "i < length ts"
  shows "u < cap \<Longrightarrow> goes_to cap (at u (ts[i := Acquire # r])) (at (Suc u) (ts[i := r]))"
    and "goes_to cap (at u (ts[i := Query # r])) (at u (ts[i := r]))"
    and "goes_to cap (at (Suc u) (ts[i := Release # r])) (at u (ts[i := r]))"
  using assms sem_step.acquire[of i "at u (ts[i := Acquire # r])" r cap]
    sem_step.query[of i "at u (ts[i := Query # r])" r cap]
    sem_step.release[of i "at (Suc u) (ts[i := Release # r])" r cap]
  by (auto intro!: goes_to_step)

lemma run_single:
  assumes "i < length ts" "u < cap"
  shows "goes_to cap (at u (ts[i := single @ r])) (at u (ts[i := r]))"
  using goes_to_trans[OF thread_steps(1)[OF assms, of "Query # Release # r"]
      goes_to_trans[OF thread_steps(2)[OF assms(1), of cap "Suc u" "Release # r"]
        thread_steps(3)[OF assms(1), of cap u r]]]
  by (simp add: single_def)

lemma run_flat:
  assumes "i < length ts" "u < cap" "\<not> nested d"
  shows "goes_to cap (at u (ts[i := op_script d @ r])) (at u (ts[i := r]))"
proof -
  have eq: "op_script d = single \<or> op_script d = single @ single"
    using assms(3) by (cases d rule: op_script.cases) (auto simp: nested_def single_def)
  have two: "goes_to cap (at u (ts[i := single @ single @ r])) (at u (ts[i := r]))"
    by (rule goes_to_trans[OF run_single[OF assms(1,2)] run_single[OF assms(1,2)]])
  show ?thesis using eq two run_single[OF assms(1,2)] by auto
qed

lemma run_nested:
  assumes "i < length ts" "u < cap" "nested d"
  shows "\<exists>r'. goes_to cap (at u (ts[i := op_script d @ r])) (at (Suc u) (ts[i := Acquire # r']))"
proof -
  have "\<exists>r'. op_script d @ r = Acquire # Acquire # r' \<or> op_script d @ r = Acquire # Query # Acquire # r'"
    using assms(3) by (cases d rule: op_script.cases) (auto simp: nested_def single_def)
  then obtain r' where "op_script d @ r = Acquire # Acquire # r' \<or> op_script d @ r = Acquire # Query # Acquire # r'"
    by blast
  with thread_steps(1)[OF assms(1,2)] goes_to_trans[OF thread_steps(1)[OF assms(1,2)] thread_steps(2)[OF assms(1)]]
  show ?thesis by metis
qed

lemma run_to_nested:
  assumes "i < length ts" "u < cap" "list_ex nested ops"
  shows "\<exists>r'. goes_to cap (at u (ts[i := script ops])) (at (Suc u) (ts[i := Acquire # r']))"
  using assms(3)
proof (induction ops)
  case (Cons d ops)
  show ?case
  proof (cases "nested d")
    case True
    then show ?thesis using run_nested[OF assms(1,2) True, of "script ops"] by (simp add: script_def)
  next
    case False
    with Cons obtain r' where "goes_to cap (at u (ts[i := script ops])) (at (Suc u) (ts[i := Acquire # r']))" by auto
    then show ?thesis using goes_to_trans[OF run_flat[OF assms(1,2) False, of "script ops"]]
      by (auto simp: script_def)
  qed
qed simp

text \<open>The requests of a set wait inside, the others have not begun.\<close>

definition waiting :: "db_op list list \<Rightarrow> nat set \<Rightarrow> action list list \<Rightarrow> bool" where
  "waiting opss I ts \<longleftrightarrow> length ts = length opss
     \<and> (\<forall>i < length ts. if i \<in> I then \<exists>r. ts ! i = Acquire # r else ts ! i = script (opss ! i))"

lemma reach_waiting:
  assumes "finite I" "card I \<le> cap" "\<forall>i \<in> I. i < length opss \<and> list_ex nested (opss ! i)"
  shows "\<exists>ts. goes_to cap (sem_start opss) (at (card I) ts) \<and> waiting opss I ts"
  using assms
proof (induction I rule: finite_induct)
  case empty
  then show ?case by (auto simp: sem_start_def waiting_def intro!: exI[of _ "map script opss"] goes_to_refl)
next
  case (insert i I)
  then obtain ts where ts: "goes_to cap (sem_start opss) (at (card I) ts)" "waiting opss I ts" by auto
  have i: "i < length ts" "ts ! i = script (opss ! i)" "list_ex nested (opss ! i)"
    using insert ts(2) by (auto simp: waiting_def)
  then obtain r where r: "goes_to cap (at (card I) ts) (at (Suc (card I)) (ts[i := Acquire # r]))"
    using run_to_nested[OF i(1) _ i(3), of "card I" cap] insert by (metis Suc_le_lessD card_insert_disjoint list_update_id)
  have "waiting opss (insert i I) (ts[i := Acquire # r])"
    using ts(2) i(1) by (auto simp: waiting_def nth_list_update)
  with goes_to_trans[OF ts(1) r] insert show ?case by (auto intro!: exI[of _ "ts[i := Acquire # r]"])
qed

lemma script_start: "script ops = [] \<or> (\<exists>r. script ops = Acquire # r)"
proof (cases ops)
  case (Cons d os)
  then show ?thesis by (cases d rule: op_script.cases) (auto simp: script_def single_def)
qed (simp add: script_def)

lemma waiting_stuck:
  assumes "waiting opss I ts"
  shows "stuck cap (at cap ts)"
proof -
  have h: "ts ! i = [] \<or> (\<exists>r. ts ! i = Acquire # r)" if "i < length ts" for i
    using assms that script_start[of "opss ! i"] by (auto simp: waiting_def split: if_splits)
  have "False" if "sem_step cap (at cap ts) s'" for s'
    using that
  proof cases
    case (query i r) then show ?thesis using h[of i] by simp
  next
    case (release i r) then show ?thesis using h[of i] by simp
  qed simp
  then show ?thesis unfolding stuck_def by blast
qed

text \<open>The requests with an operation that takes a place inside another one.\<close>

definition nesting :: "db_op list list \<Rightarrow> nat" where
  "nesting opss = length (filter (list_ex nested) opss)"

theorem blocked_reachable:
  assumes "0 < cap" "cap \<le> nesting opss"
  shows "\<exists>s. goes_to cap (sem_start opss) s \<and> stuck cap s \<and> \<not> finished s"
proof -
  let ?N = "{i. i < length opss \<and> list_ex nested (opss ! i)}"
  have "card ?N = nesting opss" by (simp add: nesting_def length_filter_conv_card)
  with assms(2) have "cap \<le> card ?N" by simp
  then obtain I where I: "I \<subseteq> ?N" "card I = cap" "finite I" by (rule obtain_subset_with_card_n)
  then obtain ts where ts: "goes_to cap (sem_start opss) (at cap ts)" "waiting opss I ts"
    using reach_waiting[of I cap opss] by auto
  from I assms(1) obtain i where "i \<in> I" by fastforce
  with I(1) ts(2) have "i < length ts" "ts ! i \<noteq> []" by (fastforce simp: waiting_def)+
  then have "\<not> finished (at cap ts)" by (auto simp: finished_def list_all_length)
  with ts waiting_stuck[OF ts(2)] show ?thesis by blast
qed

theorem run_finishes:
  assumes "nesting opss < cap" "goes_to cap (sem_start opss) s" "stuck cap s"
  shows "finished s \<and> used s = 0"
proof -
  have "sem_inv cap (map (list_ex nested) opss) s"
    using assms(2) sem_inv_start sem_inv_steps by (auto simp: goes_to_def)
  moreover have "length (filter id (map (list_ex nested) opss)) = nesting opss"
    by (simp add: nesting_def filter_map comp_def)
  ultimately show ?thesis using stuck_finished[OF assms(3)] assms(1) by simp
qed

lemma places_bounded: "goes_to cap (sem_start opss) s \<Longrightarrow> used s \<le> cap"
  unfolding goes_to_def by (elim exE) (drule sem_inv_steps[OF _ sem_inv_start], simp add: sem_inv_def)

end
