(* ===== verification/Schema.thy ===== *)
theory Schema
  imports SqliteClient HttpText
begin

text \<open>
  db/sqlite/schema.go and the operations of db/sqlite/sqlite_client.go that create, drop and
  synchronise the tables. The statements are the texts of the code; the parser that the
  synchronisation uses is applied to them, and what it finds is compared with the columns
  that the rest of the development takes from the schema.
\<close>

section \<open>The texts of the statements\<close>

definition newline :: char where "newline = char_of (10::nat)"

definition xpc_group_config_text :: "string list" where
  "xpc_group_config_text =
     [''CREATE TABLE IF NOT EXISTS xpc_group_config ('',
      ''    cpe_mac text NOT NULL,'',
      ''    group_id text NOT NULL,'',
      ''    params text,'',
      ''    updated_time timestamp,'',
      ''    version text,'',
      ''    payload blob,'',
      ''    state int,'',
      ''    error_code int,'',
      ''    error_details text,'',
      ''    expiry timestamp,'',
      ''    PRIMARY KEY (cpe_mac, group_id)'',
      '')'']"

definition root_document_text :: "string list" where
  "root_document_text =
     [''CREATE TABLE IF NOT EXISTS root_document ('',
      ''    cpe_mac text PRIMARY KEY,'',
      ''    bitmap bigint,'',
      ''    account_type text,'',
      ''    firmware_version text,'',
      ''    locked_till timestamp,'',
      ''    model_name text,'',
      ''    partner_id text,'',
      ''    product_class text,'',
      ''    query_params text,'',
      ''    route text,'',
      ''    schema_version,'',
      ''    version text'',
      '')'']"

definition reference_document_text :: "string list" where
  "reference_document_text =
     [''CREATE TABLE IF NOT EXISTS reference_document ('',
      ''    ref_id text PRIMARY KEY,'',
      ''    payload blob,'',
      ''    version text'',
      '')'']"

definition SqliteCreateTableStatements :: "string list" where
  "SqliteCreateTableStatements =
     map (go_join [newline]) [xpc_group_config_text, root_document_text, reference_document_text]"

section \<open>Reading them\<close>

text \<open>The class \<open>\w\<close> of regular expressions; the statements are ASCII.\<close>

definition word_char :: "char \<Rightarrow> bool" where
  "word_char c \<longleftrightarrow> (let n = of_char c :: nat in 48 \<le> n \<and> n \<le> 57 \<or> 65 \<le> n \<and> n \<le> 90 \<or> 97 \<le> n \<and> n \<le> 122 \<or> n = 95)"

definition create_prefix :: string where
  "create_prefix = ''CREATE TABLE IF NOT EXISTS ''"

text \<open>The leftmost match of the prefix in either case, followed by a name.\<close>

fun find_table_name :: "string \<Rightarrow> string option" where
  "find_table_name [] = None"
| "find_table_name (c # s) =
     (let name = takeWhile word_char (drop (length create_prefix) (c # s))
      in if has_prefix (to_upper (c # s)) create_prefix \<and> name \<noteq> [] then Some name else find_table_name s)"

text \<open>\<open>strings.Fields\<close> and \<open>strings.TrimRight\<close> on ASCII text.\<close>

definition white_char :: "char \<Rightarrow> bool" where
  "white_char c \<longleftrightarrow> (let n = of_char c :: nat in n = 32 \<or> 9 \<le> n \<and> n \<le> 13)"

fun go_fields :: "string \<Rightarrow> string \<Rightarrow> string list" where
  "go_fields cur [] = (if cur = [] then [] else [rev cur])"
| "go_fields cur (c # s) =
     (if white_char c then (if cur = [] then go_fields [] s else rev cur # go_fields [] s)
      else go_fields (c # cur) s)"

definition trim_right :: "char \<Rightarrow> string \<Rightarrow> string" where
  "trim_right c s = rev (dropWhile (\<lambda>x. x = c) (rev s))"

definition isSQLiteIdentifier :: "string \<Rightarrow> bool" where
  "isSQLiteIdentifier s \<longleftrightarrow> s \<noteq> [] \<and> list_all word_char s"

definition skipped_line :: "string \<Rightarrow> bool" where
  "skipped_line line \<longleftrightarrow> line = [] \<or> line = ''('' \<or> line = '')''
     \<or> list_ex (has_prefix (to_upper line)) [''CREATE'', ''PRIMARY'', ''UNIQUE'', ''FOREIGN'', ''CHECK'', ''CONSTRAINT'']"

text \<open>The first two words of a line without its comma.\<close>

fun column_of_fields :: "string list \<Rightarrow> (string \<times> string) option" where
  "column_of_fields [] = None"
| "column_of_fields (colName # ps) =
     (if \<not> isSQLiteIdentifier colName then None
      else Some (colName,
        case ps of [] \<Rightarrow> []
        | t # _ \<Rightarrow> if to_upper t \<in> {''PRIMARY'', ''NOT'', ''UNIQUE'', ''REFERENCES''} then [] else t))"

definition column_of_trimmed :: "string \<Rightarrow> (string \<times> string) option" where
  "column_of_trimmed line = (if skipped_line line then None else column_of_fields (go_fields [] line))"

definition column_of_line :: "string \<Rightarrow> (string \<times> string) option" where
  "column_of_line rawLine = column_of_trimmed (TrimSpace (trim_right CHR '','' (TrimSpace rawLine)))"

definition parseCreateTable :: "string \<Rightarrow> goerr + (string \<times> string gomap)" where
  "parseCreateTable st =
     (case find_table_name st of
        None \<Rightarrow> Inl (ErrText ''parseCreateTable: cannot find table name in DDL'')
      | Some tableName \<Rightarrow>
          Inr (tableName, gomap_puts [] (List.map_filter column_of_line (go_split newline st))))"

text \<open>\<open>init\<close>: the names by a stricter expression, at the start and with the parenthesis.\<close>

definition init_table_name :: "string \<Rightarrow> string option" where
  "init_table_name st =
     (let rest = drop (length create_prefix) st; name = takeWhile word_char rest
      in if has_prefix st create_prefix \<and> name \<noteq> [] \<and> has_prefix (drop (length name) rest) '' (''
         then Some name else None)"

definition SqliteAllTables :: "string list" where
  "SqliteAllTables = List.map_filter init_table_name SqliteCreateTableStatements"

section \<open>The catalog\<close>

text \<open>
  The statements on the catalog of the database, and the query of the columns of a table. The
  engine is a parameter; its contract takes the columns that a CREATE statement declares from
  the schema of theory SqlEngine.
\<close>

datatype ddl = CreateTable string | DropTable string | AddColumn string string string

type_synonym catalog = "string \<Rightarrow> string gomap option"

fun type_text :: "string \<Rightarrow> string \<Rightarrow> coltype \<Rightarrow> string" where
  "type_text t c CText = ''text''"
| "type_text t c CInt = (if c = ''bitmap'' then ''bigint'' else ''int'')"
| "type_text t c CTimestamp = ''timestamp''"
| "type_text t c CBlob = ''blob''"
| "type_text t c CNone = []"

definition declared_columns :: "string \<Rightarrow> string gomap" where
  "declared_columns t = map (\<lambda>(c, ty). (c, type_text t c ty)) (fst (gomap_get ([], []) sqlite_schema t))"

fun ddl_effect :: "ddl \<Rightarrow> catalog \<Rightarrow> catalog option" where
  "ddl_effect (CreateTable t) C = Some (if C t = None then C(t \<mapsto> declared_columns t) else C)"
| "ddl_effect (DropTable t) C = (if C t = None then None else Some (C(t := None)))"
| "ddl_effect (AddColumn t c ty) C =
     (case C t of
        None \<Rightarrow> None
      | Some cols \<Rightarrow> if c \<in> fst ` set cols then None else Some (C(t \<mapsto> cols @ [(c, ty)])))"

record 'd ddl_db =
  ddl_exec :: "ddl \<Rightarrow> 'd \<Rightarrow> goerr option \<times> 'd"
  ddl_info :: "string \<Rightarrow> 'd \<Rightarrow> goerr + string gomap"
  ddl_catalog :: "'d \<Rightarrow> catalog"

definition ddl_run :: "'d ddl_db \<Rightarrow> ddl \<Rightarrow> ('d, unit) prog" where
  "ddl_run D st = (\<lambda>d. case ddl_exec D st d of (None, d') \<Rightarrow> (Ok (), d') | (Some e, d') \<Rightarrow> (Err e, d'))"

text \<open>The statement of a text creates the table that the text names.\<close>

definition created_table :: "string \<Rightarrow> string" where
  "created_table st = (case init_table_name st of None \<Rightarrow> [] | Some t \<Rightarrow> t)"

definition SetUp :: "'d ddl_db \<Rightarrow> ('d, unit) prog" where
  "SetUp D = for_each (\<lambda>t. ddl_run D (CreateTable (created_table t))) SqliteCreateTableStatements"

definition TearDown :: "'d ddl_db \<Rightarrow> ('d, unit) prog" where
  "TearDown D = for_each (\<lambda>t. ddl_run D (DropTable t)) SqliteAllTables"

text \<open>A table that does not exist has no columns; this is no error.\<close>

definition pragmaTableInfo :: "'d ddl_db \<Rightarrow> string \<Rightarrow> ('d, string gomap) prog" where
  "pragmaTableInfo D tableName = (\<lambda>d. case ddl_info D tableName d of Inl e \<Rightarrow> (Err e, d) | Inr cols \<Rightarrow> (Ok cols, d))"

definition add_missing :: "'d ddl_db \<Rightarrow> string \<Rightarrow> string gomap \<Rightarrow> string \<times> string \<Rightarrow> ('d, unit) prog" where
  "add_missing D tableName existing = (\<lambda>(colName, colType).
     if map_of existing colName \<noteq> None then ret ()
     else ddl_run D (AddColumn tableName colName colType))"

definition sync_table :: "'d ddl_db \<Rightarrow> string \<Rightarrow> ('d, unit) prog" where
  "sync_table D st =
     (case parseCreateTable st of
        Inl err \<Rightarrow> throw err
      | Inr (tableName, colDefs) \<Rightarrow>
          tryE (pragmaTableInfo D tableName) throw (\<lambda>existing. for_each (add_missing D tableName existing) colDefs))"

definition SyncSchema :: "'d ddl_db \<Rightarrow> ('d, unit) prog" where
  "SyncSchema D = for_each (sync_table D) SqliteCreateTableStatements"

text \<open>\<open>GetTestSqliteClient\<close> prepares the database like this.\<close>

definition prepare_test_db :: "'d ddl_db \<Rightarrow> ('d, unit) prog" where
  "prepare_test_db D =
     bindE (SetUp D) (\<lambda>_. bindE (SyncSchema D) (\<lambda>_. bindE (TearDown D) (\<lambda>_. SetUp D)))"

section \<open>The parser and the schema agree\<close>

definition schema_tables :: "string list" where
  "schema_tables = [''xpc_group_config'', ''root_document'', ''reference_document'']"

text \<open>On ASCII text the trimming of white space is simple.\<close>

definition is_ascii :: "string \<Rightarrow> bool" where
  "is_ascii s \<longleftrightarrow> list_all (\<lambda>c. of_char c < (128::nat)) s"

lemma space_seqs_ascii: "list_all (\<lambda>q. is_ascii q \<longrightarrow> length q = 1 \<and> white_char (hd q)) (space_seqs @ map rev space_seqs)"
  by (simp add: space_seqs_def is_ascii_def white_char_def byte_def list_all_iff)

lemma white_char_seqs:
  "list_all (\<lambda>n. [char_of n] \<in> set space_seqs \<and> [char_of n] \<in> set (map rev space_seqs)) [32, 9, 10, 11, 12, 13::nat]"
  by (simp add: space_seqs_def byte_def)

lemma trim_left_ascii:
  assumes "is_ascii s" "seqs = space_seqs \<or> seqs = map rev space_seqs"
  shows "trim_left seqs s = dropWhile white_char s"
  using assms(1)
proof (induction s)
  case Nil
  show ?case by (subst trim_left.simps) (simp split: option.split)
next
  case (Cons c s)
  let ?P = "\<lambda>q. q \<noteq> [] \<and> has_prefix (c # s) q"
  have q: "q = [c] \<and> white_char c" if "q \<in> set seqs" "?P q" for q
  proof -
    from that(2) have "set q \<subseteq> set (c # s)" unfolding has_prefix_def by (metis set_take_subset)
    with Cons.prems have "is_ascii q" by (auto simp: is_ascii_def list_all_iff)
    with that(1) assms(2) space_seqs_ascii have "length q = 1" "white_char (hd q)" by (auto simp: list_all_iff)
    with that(2) show ?thesis by (cases q) (auto simp: has_prefix_def)
  qed
  have m: "[c] \<in> set seqs" if "white_char c"
  proof -
    have "c = char_of (of_char c :: nat)" by simp
    moreover from that have "(of_char c :: nat) \<in> set [32, 9, 10, 11, 12, 13]" by (auto simp: white_char_def Let_def)
    ultimately show ?thesis using white_char_seqs assms(2) by (metis (no_types, lifting) list_all_iff)
  qed
  show ?case
  proof (cases "white_char c")
    case True
    then have "find ?P seqs \<noteq> None" using m by (auto simp: find_None_iff has_prefix_def)
    then obtain p where p: "find ?P seqs = Some p" by auto
    then have "p \<in> set seqs" "?P p" by (auto simp: find_Some_iff)
    then have "find ?P seqs = Some [c]" using q p by blast
    then show ?thesis using Cons True by (subst trim_left.simps) (simp add: is_ascii_def)
  next
    case False
    then have "find ?P seqs = None" using q by (auto simp: find_None_iff)
    then show ?thesis using False by (subst trim_left.simps) simp
  qed
qed

definition trim_ascii :: "string \<Rightarrow> string" where
  "trim_ascii s = rev (dropWhile white_char (rev (dropWhile white_char s)))"

lemma TrimSpace_ascii: "is_ascii s \<Longrightarrow> TrimSpace s = trim_ascii s"
proof -
  assume s: "is_ascii s"
  then have "is_ascii (rev (dropWhile white_char s))" by (auto simp: is_ascii_def list_all_iff dest: set_dropWhileD)
  with s show ?thesis by (simp add: TrimSpace_def trim_ascii_def trim_left_ascii)
qed

definition column_of_ascii :: "string \<Rightarrow> (string \<times> string) option" where
  "column_of_ascii rawLine = column_of_trimmed (trim_ascii (trim_right CHR '','' (trim_ascii rawLine)))"

lemma column_of_line_ascii: "list_all is_ascii ls \<Longrightarrow> List.map_filter column_of_line ls = List.map_filter column_of_ascii ls"
proof -
  have "column_of_line l = column_of_ascii l" if "is_ascii l" for l
  proof -
    have "is_ascii (trim_right CHR '','' (trim_ascii l))"
      using that by (auto simp: is_ascii_def list_all_iff trim_right_def trim_ascii_def dest!: set_dropWhileD)
    with that show ?thesis by (simp add: column_of_line_def column_of_ascii_def TrimSpace_ascii)
  qed
  then show "list_all is_ascii ls \<Longrightarrow> ?thesis" by (induction ls) (auto simp: List.map_filter_simps split: option.split)
qed

lemma lines_back:
  "go_split newline (go_join [newline] xpc_group_config_text) = xpc_group_config_text"
  "go_split newline (go_join [newline] root_document_text) = root_document_text"
  "go_split newline (go_join [newline] reference_document_text) = reference_document_text"
  by (rule go_split_join; code_simp)+

lemma xpc_columns: "List.map_filter column_of_line xpc_group_config_text = declared_columns ''xpc_group_config''"
  by (subst column_of_line_ascii; code_simp)

lemma root_columns: "List.map_filter column_of_line root_document_text = declared_columns ''root_document''"
  by (subst column_of_line_ascii; code_simp)

lemma reference_columns: "List.map_filter column_of_line reference_document_text = declared_columns ''reference_document''"
  by (subst column_of_line_ascii; code_simp)

lemma table_names:
  "map find_table_name SqliteCreateTableStatements = map Some schema_tables"
  "SqliteAllTables = schema_tables" "map created_table SqliteCreateTableStatements = schema_tables"
  by code_simp+

text \<open>What the parser finds in the statements are the tables and columns of the schema.\<close>

lemma declared_columns_ok: "gomap_ok (declared_columns t)"
proof -
  have "list_all (\<lambda>(t, cols, _). distinct (map fst cols)) sqlite_schema" by code_simp
  then have "distinct (map fst (fst (gomap_get ([], []) sqlite_schema t)))"
    by (auto simp: gomap_get_def list_all_iff split: option.split dest!: map_of_SomeD)
  then show ?thesis by (simp add: declared_columns_def gomap_ok_def comp_def split_def)
qed

lemma statements_parse:
  "map parseCreateTable SqliteCreateTableStatements = map (\<lambda>t. Inr (t, declared_columns t)) schema_tables"
proof -
  note puts = gomap_puts_fresh[OF declared_columns_ok, of "[]", simplified]
  have "parseCreateTable (go_join [newline] ls) = Inr (t, declared_columns t)"
    if "find_table_name (go_join [newline] ls) = Some t" "go_split newline (go_join [newline] ls) = ls"
      "List.map_filter column_of_line ls = declared_columns t" for ls t
    using that by (simp add: parseCreateTable_def puts)
  then show ?thesis
    using table_names(1) lines_back xpc_columns root_columns reference_columns
    by (simp add: SqliteCreateTableStatements_def schema_tables_def)
qed

section \<open>The contract of the catalog\<close>

definition column_names :: "string gomap \<Rightarrow> string set" where
  "column_names cols = fst ` set cols"

text \<open>
  From one catalog to another every table of \<open>ts\<close> keeps its columns and gains just the declared
  ones that it lacks; no other table changes.
\<close>

definition synced :: "string list \<Rightarrow> catalog \<Rightarrow> catalog \<Rightarrow> bool" where
  "synced ts C C' \<longleftrightarrow>
     (\<forall>t\<in>set ts. \<exists>cols new. C t = Some cols \<and> C' t = Some (cols @ new) \<and>
        column_names (declared_columns t) \<subseteq> column_names (cols @ new) \<and>
        column_names new \<subseteq> column_names (declared_columns t)) \<and>
     (\<forall>t. t \<notin> set ts \<longrightarrow> C' t = C t)"

lemma synced_Cons:
  assumes "synced ts (C(t \<mapsto> cols @ new)) C'" "t \<notin> set ts" "C t = Some cols"
    and "column_names (declared_columns t) \<subseteq> column_names (cols @ new)"
    and "column_names new \<subseteq> column_names (declared_columns t)"
  shows "synced (t # ts) C C'"
  unfolding synced_def
proof (intro conjI ballI allI impI)
  fix x
  assume "x \<in> set (t # ts)"
  then show "\<exists>cols new. C x = Some cols \<and> C' x = Some (cols @ new) \<and>
      column_names (declared_columns x) \<subseteq> column_names (cols @ new) \<and>
      column_names new \<subseteq> column_names (declared_columns x)"
    using assms by (cases "x = t") (auto simp: synced_def)
qed (use assms(1,3) in \<open>auto simp: synced_def\<close>)

lemma schema_tables_distinct: "distinct schema_tables"
  by code_simp

text \<open>A loop none of whose iterations changes the state.\<close>

lemma for_each_still: "(\<And>x. x \<in> set xs \<Longrightarrow> snd (body x s) = s) \<Longrightarrow> snd (for_each body xs s) = s"
proof (induction xs)
  case (Cons x xs)
  obtain r s1 where b: "body x s = (r, s1)" by fastforce
  with Cons.prems[of x] have "s1 = s" by simp
  with b Cons show ?case by (cases r) (simp_all add: bindE_def tryE_def)
qed simp

locale ddl_engine =
  fixes D :: "'d ddl_db"
  assumes ddl_ok: "ddl_exec D st d = (None, d') \<Longrightarrow> ddl_effect st (ddl_catalog D d) = Some (ddl_catalog D d')"
    and ddl_err: "ddl_exec D st d = (Some e, d') \<Longrightarrow> ddl_catalog D d' = ddl_catalog D d"
    and info_ok: "ddl_info D t d = Inr cols \<Longrightarrow>
      map_of cols = map_of (case ddl_catalog D d t of None \<Rightarrow> [] | Some cs \<Rightarrow> cs)"
begin

lemma ddl_run_Ok:
  "ddl_run D st d = (Ok u, d') \<Longrightarrow> ddl_effect st (ddl_catalog D d) = Some (ddl_catalog D d')"
  using ddl_ok by (auto simp: ddl_run_def split: prod.splits option.splits)

text \<open>Columns that a table must have, whatever the order of the map they are in.\<close>

lemma add_missing_Ok:
  assumes "add_missing D t existing (c, ty) d = (Ok u, d')" "ddl_catalog D d t = Some cols"
    and "map_of existing c \<noteq> None \<longrightarrow> c \<in> fst ` set cols"
  shows "\<exists>new. ddl_catalog D d' = (ddl_catalog D d)(t \<mapsto> cols @ new) \<and> c \<in> fst ` set (cols @ new)
    \<and> fst ` set new \<subseteq> {c}"
proof (cases "map_of existing c")
  case None
  then have "ddl_run D (AddColumn t c ty) d = (Ok u, d')"
    using assms(1) by (simp add: add_missing_def)
  from ddl_run_Ok[OF this] assms(2)
  have "ddl_catalog D d' = (ddl_catalog D d)(t \<mapsto> cols @ [(c, ty)])" by (simp split: if_splits)
  then show ?thesis by (intro exI[of _ "[(c, ty)]"]) simp
next
  case (Some x)
  then show ?thesis using assms by (auto simp: add_missing_def intro!: exI[of _ "[]"])
qed

lemma add_all_missing_Ok:
  assumes "for_each (add_missing D t existing) defs d = (Ok u, d')" "ddl_catalog D d t = Some cols"
    and "\<forall>c. map_of existing c \<noteq> None \<longrightarrow> c \<in> fst ` set cols"
  shows "\<exists>new. ddl_catalog D d' = (ddl_catalog D d)(t \<mapsto> cols @ new)
    \<and> fst ` set defs \<subseteq> fst ` set (cols @ new) \<and> fst ` set new \<subseteq> fst ` set defs"
  using assms
proof (induction defs arbitrary: d cols)
  case Nil
  then show ?case by (auto intro!: exI[of _ "[]"])
next
  case (Cons p defs)
  obtain c ty where p: "p = (c, ty)" by fastforce
  from Cons.prems(1) obtain u1 d1 where a: "add_missing D t existing (c, ty) d = (Ok u1, d1)"
      and b: "for_each (add_missing D t existing) defs d1 = (Ok u, d')"
    by (auto simp: p bindE_eq_Ok)
  from add_missing_Ok[OF a Cons.prems(2)] Cons.prems(3) obtain n1 where
      n1: "ddl_catalog D d1 = (ddl_catalog D d)(t \<mapsto> cols @ n1)" "c \<in> fst ` set (cols @ n1)" "fst ` set n1 \<subseteq> {c}"
    by blast
  from Cons.IH[OF b, of "cols @ n1"] n1 Cons.prems(3) obtain n2 where
      n2: "ddl_catalog D d' = (ddl_catalog D d1)(t \<mapsto> (cols @ n1) @ n2)"
        "fst ` set defs \<subseteq> fst ` set ((cols @ n1) @ n2)" "fst ` set n2 \<subseteq> fst ` set defs"
    by force
  show ?case
    by (rule exI[of _ "n1 @ n2"]) (use n1 n2 p in auto)
qed

text \<open>Nothing happens where nothing is missing.\<close>

lemma add_none_missing:
  "\<forall>c\<in>fst ` set defs. map_of existing c \<noteq> None \<Longrightarrow> for_each (add_missing D t existing) defs d = (Ok (), d)"
proof (induction defs)
  case (Cons p defs)
  then show ?case by (cases p) (auto simp: add_missing_def bindE_def tryE_def)
qed simp

lemma sync_table_Ok:
  assumes "sync_table D st d = (Ok u, d')" "parseCreateTable st = Inr (t, defs)" "ddl_catalog D d t = Some cols"
  shows "\<exists>new. ddl_catalog D d' = (ddl_catalog D d)(t \<mapsto> cols @ new)
    \<and> fst ` set defs \<subseteq> fst ` set (cols @ new) \<and> fst ` set new \<subseteq> fst ` set defs"
proof -
  from assms(1,2) obtain existing where i: "ddl_info D t d = Inr existing"
      and f: "for_each (add_missing D t existing) defs d = (Ok u, d')"
    by (auto simp: sync_table_def tryE_eq_Ok pragmaTableInfo_def split: sum.splits)
  have "\<forall>c. map_of existing c \<noteq> None \<longrightarrow> c \<in> fst ` set cols"
    using info_ok[OF i] assms(3) by (simp add: map_of_eq_None_iff)
  from add_all_missing_Ok[OF f assms(3) this] show ?thesis .
qed

lemma sync_table_current:
  assumes "parseCreateTable st = Inr (t, defs)" "ddl_catalog D d t = Some cols"
    and "fst ` set defs \<subseteq> fst ` set cols"
  shows "snd (sync_table D st d) = d"
proof (cases "ddl_info D t d")
  case (Inl e)
  with assms(1) show ?thesis by (simp add: sync_table_def tryE_def pragmaTableInfo_def)
next
  case (Inr existing)
  have "\<forall>c\<in>fst ` set defs. map_of existing c \<noteq> None"
    using info_ok[OF Inr] assms(2,3) by (auto simp: map_of_eq_None_iff)
  with assms(1) Inr show ?thesis by (simp add: sync_table_def tryE_def pragmaTableInfo_def add_none_missing)
qed

lemma sync_tables_Ok:
  assumes "for_each (sync_table D) sts d = (Ok u, d')"
    and "map parseCreateTable sts = map (\<lambda>t. Inr (t, declared_columns t)) ts" "distinct ts"
    and "\<forall>t\<in>set ts. ddl_catalog D d t \<noteq> None"
  shows "synced ts (ddl_catalog D d) (ddl_catalog D d')"
  using assms
proof (induction sts arbitrary: d ts)
  case Nil
  then show ?case by (simp add: synced_def)
next
  case (Cons st sts)
  then obtain t ts' where ts: "ts = t # ts'" and st: "parseCreateTable st = Inr (t, declared_columns t)" by auto
  from Cons.prems(1) obtain u1 d1 where a: "sync_table D st d = (Ok u1, d1)"
      and b: "for_each (sync_table D) sts d1 = (Ok u, d')" by (auto simp: bindE_eq_Ok)
  from Cons.prems(4) ts obtain cols where cols: "ddl_catalog D d t = Some cols" by auto
  from sync_table_Ok[OF a st cols] obtain new where
      n: "ddl_catalog D d1 = (ddl_catalog D d)(t \<mapsto> cols @ new)"
        "column_names (declared_columns t) \<subseteq> column_names (cols @ new)"
        "column_names new \<subseteq> column_names (declared_columns t)" by (auto simp: column_names_def)
  have "synced ts' (ddl_catalog D d1) (ddl_catalog D d')"
    by (rule Cons.IH[OF b]) (use Cons.prems ts n(1) in auto)
  with synced_Cons[where t = t and cols = cols and new = new] Cons.prems(3) cols n ts show ?case by simp
qed

lemma SyncSchema_Ok:
  assumes "SyncSchema D d = (Ok u, d')" "\<forall>t\<in>set schema_tables. ddl_catalog D d t \<noteq> None"
  shows "synced schema_tables (ddl_catalog D d) (ddl_catalog D d')"
  using sync_tables_Ok[OF _ statements_parse _ assms(2)] assms(1) schema_tables_distinct by (simp add: SyncSchema_def)

lemma SyncSchema_current:
  assumes "\<forall>t\<in>set schema_tables. \<exists>cols. ddl_catalog D d t = Some cols \<and>
    column_names (declared_columns t) \<subseteq> column_names cols"
  shows "snd (SyncSchema D d) = d"
proof -
  have "snd (sync_table D st d) = d" if "st \<in> set SqliteCreateTableStatements" for st
  proof -
    have "parseCreateTable st \<in> set (map parseCreateTable SqliteCreateTableStatements)" using that by simp
    then obtain t where "t \<in> set schema_tables" "parseCreateTable st = Inr (t, declared_columns t)"
      unfolding statements_parse by auto
    with assms sync_table_current show ?thesis by (auto simp: column_names_def)
  qed
  then show ?thesis unfolding SyncSchema_def by (rule for_each_still)
qed

text \<open>Creating and dropping.\<close>

lemma SetUp_Ok:
  assumes "SetUp D d = (Ok u, d')"
  shows "ddl_catalog D d' = (\<lambda>t. if t \<in> set schema_tables \<and> ddl_catalog D d t = None
    then Some (declared_columns t) else ddl_catalog D d t)"
proof -
  have "ddl_catalog D d' = (\<lambda>t. if t \<in> set (map created_table sts) \<and> ddl_catalog D d t = None
      then Some (declared_columns t) else ddl_catalog D d t)"
    if "for_each (\<lambda>t. ddl_run D (CreateTable (created_table t))) sts d = (Ok u, d')" for sts d
    using that
  proof (induction sts arbitrary: d)
    case (Cons st sts)
    then obtain u1 d1 where a: "ddl_run D (CreateTable (created_table st)) d = (Ok u1, d1)"
        and b: "for_each (\<lambda>t. ddl_run D (CreateTable (created_table t))) sts d1 = (Ok u, d')"
      by (auto simp: bindE_eq_Ok)
    have d1: "ddl_catalog D d1 = (if ddl_catalog D d (created_table st) = None
        then (ddl_catalog D d)(created_table st \<mapsto> declared_columns (created_table st)) else ddl_catalog D d)"
      using ddl_run_Ok[OF a] by simp
    show ?case unfolding Cons.IH[OF b] d1 by (rule ext) simp
  qed auto
  from this[of SqliteCreateTableStatements d] assms show ?thesis by (simp only: SetUp_def table_names(3))
qed

lemma TearDown_Ok:
  assumes "TearDown D d = (Ok u, d')"
  shows "ddl_catalog D d' = (\<lambda>t. if t \<in> set schema_tables then None else ddl_catalog D d t)"
proof -
  have "ddl_catalog D d' = (\<lambda>t. if t \<in> set ts then None else ddl_catalog D d t)"
    if "for_each (\<lambda>t. ddl_run D (DropTable t)) ts d = (Ok u, d')" for ts d
    using that
  proof (induction ts arbitrary: d)
    case (Cons t ts)
    then obtain u1 d1 where a: "ddl_run D (DropTable t) d = (Ok u1, d1)"
        and b: "for_each (\<lambda>t. ddl_run D (DropTable t)) ts d1 = (Ok u, d')"
      by (auto simp: bindE_eq_Ok)
    have d1: "ddl_catalog D d1 = (ddl_catalog D d)(t := None)" using ddl_run_Ok[OF a] by (simp split: if_splits)
    show ?case unfolding Cons.IH[OF b] d1 by (rule ext) simp
  qed auto
  from this[of SqliteAllTables d] assms show ?thesis by (simp only: TearDown_def table_names(2))
qed

lemma prepare_test_db_Ok:
  assumes "prepare_test_db D d = (Ok u, d')"
  shows "ddl_catalog D d' = (\<lambda>t. if t \<in> set schema_tables then Some (declared_columns t) else ddl_catalog D d t)"
proof -
  from assms obtain u1 d1 u2 d2 u3 d3 where s: "SetUp D d = (Ok u1, d1)" "SyncSchema D d1 = (Ok u2, d2)"
      "TearDown D d2 = (Ok u3, d3)" "SetUp D d3 = (Ok u, d')"
    by (auto simp: prepare_test_db_def bindE_eq_Ok)
  have "\<forall>t\<in>set schema_tables. ddl_catalog D d1 t \<noteq> None" by (simp add: SetUp_Ok[OF s(1)])
  from SyncSchema_Ok[OF s(2) this] have "ddl_catalog D d2 t = ddl_catalog D d t" if "t \<notin> set schema_tables" for t
    using that by (simp add: synced_def SetUp_Ok[OF s(1)])
  then show ?thesis by (auto simp: SetUp_Ok[OF s(4)] TearDown_Ok[OF s(3)] fun_eq_iff)
qed

end

section \<open>A catalog in memory\<close>

definition mem_exec :: "ddl \<Rightarrow> catalog \<Rightarrow> goerr option \<times> catalog" where
  "mem_exec st C = (case ddl_effect st C of None \<Rightarrow> (Some (ErrDriver ''SQL logic error''), C) | Some C' \<Rightarrow> (None, C'))"

definition mem_info :: "string \<Rightarrow> catalog \<Rightarrow> goerr + string gomap" where
  "mem_info t C = Inr (case C t of None \<Rightarrow> [] | Some cols \<Rightarrow> cols)"

definition mem_ddl :: "catalog ddl_db" where
  "mem_ddl = \<lparr>ddl_exec = mem_exec, ddl_info = mem_info, ddl_catalog = \<lambda>C. C\<rparr>"

interpretation mem_ddl: ddl_engine mem_ddl
  by unfold_locales (auto simp: mem_ddl_def mem_exec_def mem_info_def split: option.splits)

text \<open>A database file from before the reference documents had a version.\<close>

definition old_catalog :: catalog where
  "old_catalog = [''reference_document'' \<mapsto> [(''ref_id'', ''text''), (''payload'', ''blob'')]]"

lemma mem_sync_table_Ok:
  assumes "parseCreateTable st = Inr (t, defs)" "C t \<noteq> None" "distinct (map fst defs)"
  shows "fst (sync_table mem_ddl st C) = Ok ()"
proof -
  obtain cols where cols: "C t = Some cols" using assms(2) by blast
  have "fst (for_each (add_missing mem_ddl t cols) ds C') = Ok ()"
    if "distinct (map fst ds)" "C' t = Some (cols @ new)" "fst ` set new \<inter> fst ` set ds = {}" for ds C' new
    using that
  proof (induction ds arbitrary: C' new)
    case (Cons p ds)
    obtain c ty where p: "p = (c, ty)" by fastforce
    show ?case
    proof (cases "map_of cols c")
      case None
      have "add_missing mem_ddl t cols p C' = (Ok (), C'(t \<mapsto> cols @ new @ [(c, ty)]))"
        using None Cons.prems p by (auto simp: add_missing_def ddl_run_def mem_ddl_def mem_exec_def map_of_eq_None_iff)
      moreover have "fst (for_each (add_missing mem_ddl t cols) ds (C'(t \<mapsto> cols @ new @ [(c, ty)]))) = Ok ()"
        by (rule Cons.IH[of _ "new @ [(c, ty)]"]) (use Cons.prems p in auto)
      ultimately show ?thesis by (simp add: bindE_def tryE_def)
    next
      case (Some x)
      then have "add_missing mem_ddl t cols p = ret ()" by (simp add: add_missing_def p)
      then show ?thesis using Cons.IH[of C' new] Cons.prems by (auto simp: bindE_def tryE_def)
    qed
  qed simp
  from this[of defs C "[]"] cols assms show ?thesis
    by (simp add: sync_table_def tryE_def pragmaTableInfo_def mem_ddl_def mem_info_def)
qed

lemma old_catalog_runs:
  "SetUp mem_ddl old_catalog = (Ok (), snd (SetUp mem_ddl old_catalog))"
  "SyncSchema mem_ddl (snd (SetUp mem_ddl old_catalog))
     = (Ok (), snd (SyncSchema mem_ddl (snd (SetUp mem_ddl old_catalog))))"
proof -
  have "fst (for_each (\<lambda>t. ddl_run mem_ddl (CreateTable (created_table t))) sts C) = Ok ()" for sts C
    by (induction sts arbitrary: C) (auto simp: bindE_def tryE_def ddl_run_def mem_ddl_def mem_exec_def)
  then show s: "SetUp mem_ddl old_catalog = (Ok (), snd (SetUp mem_ddl old_catalog))"
    by (metis SetUp_def prod.collapse)
  have f: "fst (for_each (sync_table mem_ddl) sts C) = Ok ()"
    if "map parseCreateTable sts = map (\<lambda>t. Inr (t, declared_columns t)) ts" "\<forall>t\<in>set ts. C t \<noteq> None" for sts ts C
    using that
  proof (induction sts arbitrary: ts C)
    case (Cons st sts)
    then obtain t ts' where ts: "ts = t # ts'" "parseCreateTable st = Inr (t, declared_columns t)" by auto
    obtain cols where "C t = Some cols" using Cons.prems(2) ts(1) by auto
    obtain r C1 where run: "sync_table mem_ddl st C = (r, C1)" by fastforce
    have "distinct (map fst (declared_columns t))" using declared_columns_ok by (simp add: gomap_ok_def)
    with mem_sync_table_Ok[OF ts(2), of C] \<open>C t = Some cols\<close> run have r: "r = Ok ()" by simp
    with mem_ddl.sync_table_Ok[OF run[unfolded r] ts(2), of cols] \<open>C t = Some cols\<close>
    have "\<forall>t\<in>set ts'. C1 t \<noteq> None" using Cons.prems(2) ts(1) by (auto simp: mem_ddl_def)
    with Cons.IH[of ts' C1] Cons.prems(1) ts(1) run r show ?case by (simp add: bindE_def tryE_def)
  qed simp
  have "ddl_catalog mem_ddl C = C" for C by (simp add: mem_ddl_def)
  with mem_ddl.SetUp_Ok[OF s] have "\<forall>t\<in>set schema_tables. snd (SetUp mem_ddl old_catalog) t \<noteq> None" by simp
  from f[OF statements_parse this] show "SyncSchema mem_ddl (snd (SetUp mem_ddl old_catalog))
     = (Ok (), snd (SyncSchema mem_ddl (snd (SetUp mem_ddl old_catalog))))"
    by (metis SyncSchema_def prod.collapse)
qed

end
