(* ===== verification/Settings.thy ===== *)
theory Settings
  imports Connectors Document
begin

text \<open>
  What the constructors read: the configuration (common/server_config.go), the TLS settings of
  kafka (common/kafka_tls.go), Cassandra and the http clients, and the settings of the http
  clients and of the four connectors. The configuration library, files, certificates and the
  environment are parameters.
\<close>

section \<open>The configuration\<close>

text \<open>The typed values at a path, if there is one; and the keys of an object.\<close>

record config =
  cf_string :: "string \<Rightarrow> string option"
  cf_bool :: "string \<Rightarrow> bool option"
  cf_int :: "string \<Rightarrow> int option"
  cf_list :: "string \<Rightarrow> string list option"
  cf_keys :: "string \<Rightarrow> string list option"

text \<open>The getters of the library return a default, or the zero value where none is given.\<close>

definition GetString :: "config \<Rightarrow> string \<Rightarrow> string \<Rightarrow> string" where
  "GetString conf path d = (case cf_string conf path of None \<Rightarrow> d | Some x \<Rightarrow> x)"

definition GetBoolean :: "config \<Rightarrow> string \<Rightarrow> bool \<Rightarrow> bool" where
  "GetBoolean conf path d = (case cf_bool conf path of None \<Rightarrow> d | Some x \<Rightarrow> x)"

definition GetInt32 :: "config \<Rightarrow> string \<Rightarrow> int \<Rightarrow> int" where
  "GetInt32 conf path d = (case cf_int conf path of None \<Rightarrow> d | Some x \<Rightarrow> x)"

definition GetStringList :: "config \<Rightarrow> string \<Rightarrow> string list" where
  "GetStringList conf path = (case cf_list conf path of None \<Rightarrow> [] | Some x \<Rightarrow> x)"

text \<open>Files, certificates, the environment and the text of an error.\<close>

record files =
  fl_missing :: "string \<Rightarrow> bool"
  fl_read :: "string \<Rightarrow> goerr + bytes"
  fl_pem :: "bytes \<Rightarrow> bool"
  fl_keypair :: "string \<Rightarrow> string \<Rightarrow> goerr + string"
  fl_env :: "string \<Rightarrow> string"
  fl_text :: "goerr \<Rightarrow> string"

section \<open>The server configuration\<close>

record server_config =
  sc_Config :: config
  sc_configBytes :: bytes

definition NewServerConfig :: "files \<Rightarrow> (bytes \<Rightarrow> config) \<Rightarrow> string \<Rightarrow> goerr + server_config" where
  "NewServerConfig F parse configFile =
     (case fl_read F configFile of
        Inl err \<Rightarrow> Inl (NewError err)
      | Inr b \<Rightarrow> Inr \<lparr>sc_Config = parse b, sc_configBytes = b\<rparr>)"

definition KafkaClusterNames :: "server_config \<Rightarrow> string list" where
  "KafkaClusterNames c =
     (case cf_keys (sc_Config c) ''webconfig.kafka.clusters'' of None \<Rightarrow> [] | Some ks \<Rightarrow> ks)"

definition line_end :: string where "line_end = [char_of (10::nat)]"

definition AddConfig :: "(bytes \<Rightarrow> config) \<Rightarrow> string list \<Rightarrow> server_config \<Rightarrow> server_config" where
  "AddConfig parse args c =
     (let ss = go_join line_end (sc_configBytes c # args)
      in c\<lparr>sc_Config := parse ss, sc_configBytes := ss\<rparr>)"

definition sc_Copy :: "(bytes \<Rightarrow> config) \<Rightarrow> string list \<Rightarrow> server_config \<Rightarrow> server_config" where
  "sc_Copy parse args c =
     (let ss = go_join line_end (sc_configBytes c # args)
      in \<lparr>sc_Config = parse ss, sc_configBytes = ss\<rparr>)"

definition testConfigFiles :: "string list" where
  "testConfigFiles = [''/app/webconfig/test_webconfig.conf'', ''../config/sample_webconfig.conf'',
     ''/app/webconfig/webconfig.conf'', ''/app/webconfig/conf/webconfig.conf'']"

text \<open>\<open>stat_ok\<close>: the call of \<open>os.Stat\<close> has no error, which is more than that the file is not missing.\<close>

definition GetTestConfigFile :: "files \<Rightarrow> (string \<Rightarrow> bool) \<Rightarrow> goerr + string" where
  "GetTestConfigFile F stat_ok =
     (let testConfigFile = fl_env F ''TEST_CONFIG_FILE''
      in if length testConfigFile > 0 \<and> stat_ok testConfigFile then Inr testConfigFile
         else case filter (\<lambda>cf. \<not> fl_missing F cf) testConfigFiles of
             cf # _ \<Rightarrow> Inr cf
           | [] \<Rightarrow> Inl (NewError (ErrText ''Cannot find any predefined config file for test'')))"

text \<open>The configuration of the tests is read once and kept.\<close>

definition GetTestServerConfig ::
  "files \<Rightarrow> (string \<Rightarrow> bool) \<Rightarrow> (bytes \<Rightarrow> config) \<Rightarrow> string list \<Rightarrow> server_config option
     \<Rightarrow> (goerr + server_config) \<times> server_config option" where
  "GetTestServerConfig F stat_ok parse args testServerConfig =
     (case args of
        a # _ \<Rightarrow> (case NewServerConfig F parse a of Inl err \<Rightarrow> Inl (NewError err) | Inr c \<Rightarrow> Inr c, testServerConfig)
      | [] \<Rightarrow>
          (case testServerConfig of
             Some c \<Rightarrow> (Inr c, testServerConfig)
           | None \<Rightarrow>
               (case GetTestConfigFile F stat_ok of
                  Inl err \<Rightarrow> (Inl (NewError err), None)
                | Inr f \<Rightarrow>
                    (case NewServerConfig F parse f of
                       Inl err \<Rightarrow> (Inl (NewError err), None)
                     | Inr c \<Rightarrow> (Inr c, Some c)))))"

section \<open>TLS\<close>

record tls_config =
  tc_certificates :: "string list"
  tc_rootCAs :: "bytes option"
  tc_insecureSkipVerify :: bool
  tc_cipherSuites :: "string list"

definition NewTlsConfig :: "files \<Rightarrow> config \<Rightarrow> goerr + tls_config" where
  "NewTlsConfig F conf =
     (let certFile = GetString conf ''webconfig.http_client.cert_file'' '''';
          privateKeyFile = GetString conf ''webconfig.http_client.private_key_file'' ''''
      in if length certFile = 0 then Inl (NewError (ErrText (''missing file '' @ certFile @ line_end)))
         else if length privateKeyFile = 0 then Inl (NewError (ErrText (''missing file '' @ privateKeyFile @ line_end)))
         else case fl_keypair F certFile privateKeyFile of
             Inl err \<Rightarrow> Inl (NewError err)
           | Inr cert \<Rightarrow> Inr \<lparr>tc_certificates = [cert], tc_rootCAs = None, tc_insecureSkipVerify = True,
               tc_cipherSuites = []\<rparr>)"

text \<open>The certificate of a kafka client: none, or the pair of both files.\<close>

definition kafka_client_cert :: "files \<Rightarrow> bool \<Rightarrow> string \<Rightarrow> string \<Rightarrow> goerr + string list" where
  "kafka_client_cert F insecureSkipVerify certFile keyFile =
     (if insecureSkipVerify \<and> (length certFile = 0 \<or> length keyFile = 0) then Inr []
      else if length certFile > 0 \<and> length keyFile > 0 then
        (if \<not> insecureSkipVerify \<and> fl_missing F certFile
         then Inl (NewError (ErrText (''TLS certificate file does not exist: '' @ certFile)))
         else if \<not> insecureSkipVerify \<and> fl_missing F keyFile
         then Inl (NewError (ErrText (''TLS key file does not exist: '' @ keyFile)))
         else case fl_keypair F certFile keyFile of
             Inl err \<Rightarrow> Inl (NewError (ErrText (''failed to load TLS certificate and key from '' @ certFile
               @ '' and '' @ keyFile @ '': '' @ fl_text F err)))
           | Inr cert \<Rightarrow> Inr [cert])
      else if (length certFile > 0 \<or> length keyFile > 0) \<and> \<not> insecureSkipVerify
      then Inl (NewError (ErrText (''TLS enabled with verification but incomplete certificate configuration (cert: ''
             @ certFile @ '', key: '' @ keyFile @ '')'')))
      else Inr [])"

definition kafka_roots :: "files \<Rightarrow> bool \<Rightarrow> string \<Rightarrow> goerr + bytes option" where
  "kafka_roots F insecureSkipVerify caCertFile =
     (if insecureSkipVerify \<and> length caCertFile = 0 then Inr None
      else if length caCertFile > 0 then
        (if \<not> insecureSkipVerify \<and> fl_missing F caCertFile
         then Inl (NewError (ErrText (''TLS CA certificate file does not exist: '' @ caCertFile)))
         else case fl_read F caCertFile of
             Inl err \<Rightarrow> Inl (NewError (ErrText (''failed to read TLS CA certificate from '' @ caCertFile @ '': '' @ fl_text F err)))
           | Inr caCert \<Rightarrow>
               if \<not> fl_pem F caCert then Inl (NewError (ErrText (''failed to parse TLS CA certificate from '' @ caCertFile)))
               else Inr (Some caCert))
      else Inr None)"

definition LoadKafkaTLSConfig :: "files \<Rightarrow> config \<Rightarrow> string \<Rightarrow> goerr + tls_config option" where
  "LoadKafkaTLSConfig F conf prefix =
     (if \<not> GetBoolean conf (prefix @ ''.tls_enabled'') False then Inr None
      else
        (let insecureSkipVerify = GetBoolean conf (prefix @ ''.tls_insecure_skip_verify'') False
         in case kafka_client_cert F insecureSkipVerify (GetString conf (prefix @ ''.tls_cert_file'') '''')
                (GetString conf (prefix @ ''.tls_key_file'') '''') of
             Inl e \<Rightarrow> Inl e
           | Inr certs \<Rightarrow>
               (case kafka_roots F insecureSkipVerify (GetString conf (prefix @ ''.tls_ca_cert_file'') '''') of
                  Inl e \<Rightarrow> Inl e
                | Inr roots \<Rightarrow> Inr (Some \<lparr>tc_certificates = certs, tc_rootCAs = roots,
                    tc_insecureSkipVerify = insecureSkipVerify, tc_cipherSuites = []\<rparr>))))"

text \<open>The same steps for Cassandra, whose settings are in a block of their own.\<close>

definition cassandra_client_cert :: "files \<Rightarrow> bool \<Rightarrow> string \<Rightarrow> string \<Rightarrow> goerr + string list" where
  "cassandra_client_cert F insecureSkipVerify certFile keyFile =
     (if insecureSkipVerify \<and> (length certFile = 0 \<or> length keyFile = 0) then Inr []
      else if length certFile > 0 \<and> length keyFile > 0 then
        (if \<not> insecureSkipVerify \<and> fl_missing F certFile
         then Inl (ErrText (''Cassandra TLS certificate file does not exist: '' @ certFile))
         else if \<not> insecureSkipVerify \<and> fl_missing F keyFile
         then Inl (ErrText (''Cassandra TLS key file does not exist: '' @ keyFile))
         else case fl_keypair F certFile keyFile of
             Inl err \<Rightarrow> Inl (ErrText (''failed to load Cassandra TLS certificate and key from '' @ certFile
               @ '' and '' @ keyFile @ '': '' @ fl_text F err))
           | Inr cert \<Rightarrow> Inr [cert])
      else if (length certFile > 0 \<or> length keyFile > 0) \<and> \<not> insecureSkipVerify
      then Inl (ErrText (''Cassandra TLS enabled with verification but incomplete certificate configuration (cert: ''
             @ certFile @ '', key: '' @ keyFile @ '')''))
      else Inr [])"

definition cassandra_roots :: "files \<Rightarrow> bool \<Rightarrow> string \<Rightarrow> goerr + bytes option" where
  "cassandra_roots F insecureSkipVerify caCertFile =
     (if insecureSkipVerify \<and> length caCertFile = 0 then Inr None
      else if length caCertFile > 0 then
        (if \<not> insecureSkipVerify \<and> fl_missing F caCertFile
         then Inl (ErrText (''Cassandra TLS CA certificate file does not exist: '' @ caCertFile))
         else case fl_read F caCertFile of
             Inl err \<Rightarrow> Inl (ErrText (''failed to read Cassandra TLS CA certificate from '' @ caCertFile @ '': '' @ fl_text F err))
           | Inr caCert \<Rightarrow>
               if \<not> fl_pem F caCert then Inl (ErrText (''failed to parse Cassandra TLS CA certificate from '' @ caCertFile))
               else Inr (Some caCert))
      else Inr None)"

definition loadCassandraTLSConfig :: "files \<Rightarrow> config \<Rightarrow> goerr + tls_config" where
  "loadCassandraTLSConfig F dbconf =
     (let insecureSkipVerify = GetBoolean dbconf ''tls.insecure_skip_verify'' False
      in case cassandra_client_cert F insecureSkipVerify (GetString dbconf ''tls.cert_file'' '''')
             (GetString dbconf ''tls.key_file'' '''') of
          Inl e \<Rightarrow> Inl e
        | Inr certs \<Rightarrow>
            (case cassandra_roots F insecureSkipVerify (GetString dbconf ''tls.ca_cert_file'' '''') of
               Inl e \<Rightarrow> Inl e
             | Inr roots \<Rightarrow> Inr \<lparr>tc_certificates = certs, tc_rootCAs = roots,
                 tc_insecureSkipVerify = insecureSkipVerify,
                 tc_cipherSuites = [''TLS_RSA_WITH_AES_128_CBC_SHA'']\<rparr>))"

section \<open>The http clients\<close>

text \<open>
  The transport of a client: its timeouts in seconds, and the TLS configuration, which is nil
  when it could not be loaded. The other settings are those of \<open>http_client\<close>.
\<close>

record transport =
  tr_connectTimeout :: int
  tr_keepaliveTimeout :: int
  tr_maxIdleConnsPerHost :: int
  tr_readTimeout :: int
  tr_TLSClientConfig :: "tls_config option"

record http_settings =
  hs_client :: http_client
  hs_transport :: transport
  hs_retryInMsecs :: int
  hs_moracideTagPrefix :: string

definition service_key :: "string \<Rightarrow> string \<Rightarrow> string" where
  "service_key serviceName k = ''webconfig.'' @ serviceName @ ''.'' @ k"

definition NewHttpClient :: "config \<Rightarrow> string \<Rightarrow> tls_config option \<Rightarrow> http_settings" where
  "NewHttpClient conf serviceName tlsConfig =
     \<lparr>hs_client =
        \<lparr>hc_retries = GetInt32 conf (service_key serviceName ''retries'') 3,
         hc_statusHandlers = [],
         hc_userAgent = GetString conf ''webconfig.http_client.user_agent'' ''''\<rparr>,
      hs_transport =
        \<lparr>tr_connectTimeout = GetInt32 conf (service_key serviceName ''connect_timeout_in_secs'') 30,
         tr_keepaliveTimeout = GetInt32 conf (service_key serviceName ''keepalive_timeout_in_secs'') 30,
         tr_maxIdleConnsPerHost = GetInt32 conf (service_key serviceName ''max_idle_conns_per_host'') 100,
         tr_readTimeout = GetInt32 conf (service_key serviceName ''read_timeout_in_secs'') 30,
         tr_TLSClientConfig = tlsConfig\<rparr>,
      hs_retryInMsecs = GetInt32 conf (service_key serviceName ''retry_in_msecs'') 1000,
      hs_moracideTagPrefix =
        to_lower (GetString conf ''webconfig.tracing.moracide_tag_prefix'' ''X-Cl-Experiment'')\<rparr>"

definition SetStatusHandler :: "int \<Rightarrow> (bytes \<Rightarrow> do_result) \<Rightarrow> http_settings \<Rightarrow> http_settings" where
  "SetStatusHandler status fn hs =
     hs\<lparr>hs_client := (hs_client hs)\<lparr>hc_statusHandlers := (status, fn) # hc_statusHandlers (hs_client hs)\<rparr>\<rparr>"

section \<open>The connectors\<close>

text \<open>\<open>sprintf\<close> formats a template; the client of the record is the one of the settings.\<close>

record connector_settings =
  cs_http :: http_settings
  cs_connector :: connector

definition NewMqttConnector ::
  "(string \<Rightarrow> string list \<Rightarrow> string) \<Rightarrow> config \<Rightarrow> tls_config option \<Rightarrow> connector_settings" where
  "NewMqttConnector sprintf conf tlsConfig =
     (let hs = NewHttpClient conf ''mqtt'' tlsConfig
      in \<lparr>cs_http = hs,
          cs_connector = \<lparr>cn_client = hs_client hs,
            cn_host = GetString conf ''webconfig.mqtt.host'' ''http://localhost:12347'',
            cn_url = sprintf (GetString conf ''webconfig.mqtt.url_template'' ''%s/%s'')\<rparr>\<rparr>)"

definition NewXconfConnector ::
  "(string \<Rightarrow> string list \<Rightarrow> string) \<Rightarrow> config \<Rightarrow> tls_config option \<Rightarrow> connector_settings" where
  "NewXconfConnector sprintf conf tlsConfig =
     (let hs = NewHttpClient conf ''xconf'' tlsConfig
      in \<lparr>cs_http = hs,
          cs_connector = \<lparr>cn_client = hs_client hs,
            cn_host = GetString conf ''webconfig.xconf.host'' ''http://localhost:12346'',
            cn_url = sprintf (GetString conf ''webconfig.xconf.url_template'' ''%s/%s'')\<rparr>\<rparr>)"

text \<open>
  Upstream has two templates; which one is used depends on the number of arguments, two for a
  document and three for profiles.
\<close>

definition NewUpstreamConnector ::
  "(string \<Rightarrow> string list \<Rightarrow> string) \<Rightarrow> config \<Rightarrow> tls_config option \<Rightarrow> connector_settings" where
  "NewUpstreamConnector sprintf conf tlsConfig =
     (let hs = NewHttpClient conf ''upstream'' tlsConfig;
          upstreamUrlTemplate = GetString conf ''webconfig.upstream.url_template'' ''%s/%s'';
          profileUrlTemplate = GetString conf ''webconfig.upstream.profile_url_template'' ''%s/%s/%s''
      in \<lparr>cs_http = hs,
          cs_connector = \<lparr>cn_client = hs_client hs,
            cn_host = GetString conf ''webconfig.upstream.host'' ''http://localhost:12348'',
            cn_url = \<lambda>args. sprintf (if length args = 2 then upstreamUrlTemplate else profileUrlTemplate) args\<rparr>\<rparr>)"

text \<open>The queue of asynchronous pokes: a nil channel, or the capacity of a channel.\<close>

record webpa_settings =
  ws_syncHttp :: http_settings
  ws_asyncHttp :: http_settings
  ws_webpa :: webpa
  ws_queue :: "nat option"
  ws_retryInMsecs :: int

definition NewWebpaConnector ::
  "(string \<Rightarrow> string list \<Rightarrow> string) \<Rightarrow> 'n network \<Rightarrow> config \<Rightarrow> tls_config option \<Rightarrow> webpa_settings" where
  "NewWebpaConnector sprintf N conf tlsConfig =
     (let concurrentCalls = GetInt32 conf ''webconfig.webpa.async_poke_concurrent_calls'' 0;
          syncClient = SetStatusHandler 520 (syncHandle520 N) (NewHttpClient conf ''webpa'' tlsConfig);
          asyncClient = SetStatusHandler 520 (asyncHandle520 N) (NewHttpClient conf ''asyncwebpa'' tlsConfig)
      in \<lparr>ws_syncHttp = syncClient, ws_asyncHttp = asyncClient,
          ws_webpa = \<lparr>wp_syncClient = hs_client syncClient, wp_asyncClient = hs_client asyncClient,
            wp_host = GetString conf ''webconfig.webpa.host'' ''http://localhost:12345'',
            wp_url = sprintf (GetString conf ''webconfig.webpa.url_template'' ''%s/%s/%s''),
            wp_retries = GetInt32 conf ''webconfig.webpa.retries'' 3,
            wp_asyncPokeEnabled = GetBoolean conf ''webconfig.webpa.async_poke_enabled'' False,
            wp_apiVersion = GetString conf ''webconfig.webpa.api_version'' ''v2''\<rparr>,
          ws_queue = (if concurrentCalls > 0 then Some (nat concurrentCalls) else None),
          ws_retryInMsecs = GetInt32 conf ''webconfig.webpa.retry_in_msecs'' 1000\<rparr>)"

definition NewQueue :: "nat \<Rightarrow> webpa_settings \<Rightarrow> goerr option \<times> webpa_settings" where
  "NewQueue capacity w =
     (case ws_queue w of
        Some _ \<Rightarrow> (Some (NewError (ErrText ''queue is already initialized'')), w)
      | None \<Rightarrow> (None, w\<lparr>ws_queue := Some capacity\<rparr>))"

section \<open>What the TLS loaders accept\<close>

text \<open>
  The conditions on the configured files: both files of a client certificate or none unless
  verification is off, and what is configured must exist (this is not asked for when
  verification is off) and be readable.
\<close>

definition tls_files_ok :: "files \<Rightarrow> bool \<Rightarrow> string \<Rightarrow> string \<Rightarrow> string \<Rightarrow> bool" where
  "tls_files_ok F insecure cert key ca \<longleftrightarrow>
     (insecure \<or> (cert = [] \<longleftrightarrow> key = [])) \<and>
     (cert \<noteq> [] \<and> key \<noteq> [] \<longrightarrow>
        (insecure \<or> \<not> fl_missing F cert \<and> \<not> fl_missing F key) \<and> (\<exists>c. fl_keypair F cert key = Inr c)) \<and>
     (ca \<noteq> [] \<longrightarrow> (insecure \<or> \<not> fl_missing F ca) \<and> (\<exists>b. fl_read F ca = Inr b \<and> fl_pem F b))"

definition tls_of_files :: "files \<Rightarrow> bool \<Rightarrow> string \<Rightarrow> string \<Rightarrow> string \<Rightarrow> string list \<Rightarrow> tls_config" where
  "tls_of_files F insecure cert key ca ciphers =
     \<lparr>tc_certificates = (if cert \<noteq> [] \<and> key \<noteq> [] then [projr (fl_keypair F cert key)] else []),
      tc_rootCAs = (if ca \<noteq> [] then Some (projr (fl_read F ca)) else None),
      tc_insecureSkipVerify = insecure, tc_cipherSuites = ciphers\<rparr>"

lemma kafka_tls_cases:
  "(\<exists>certs roots. kafka_client_cert F i cert key = Inr certs \<and> kafka_roots F i ca = Inr roots
      \<and> certs = tc_certificates (tls_of_files F i cert key ca ci) \<and> roots = tc_rootCAs (tls_of_files F i cert key ca ci))
   \<longleftrightarrow> tls_files_ok F i cert key ca"
  "(\<exists>certs. kafka_client_cert F i cert key = Inr certs) \<and> (\<exists>roots. kafka_roots F i ca = Inr roots)
   \<longleftrightarrow> tls_files_ok F i cert key ca"
  by (auto simp: kafka_client_cert_def kafka_roots_def tls_files_ok_def tls_of_files_def split: sum.splits if_splits)

lemma cassandra_tls_cases:
  "(\<exists>certs roots. cassandra_client_cert F i cert key = Inr certs \<and> cassandra_roots F i ca = Inr roots
      \<and> certs = tc_certificates (tls_of_files F i cert key ca ci) \<and> roots = tc_rootCAs (tls_of_files F i cert key ca ci))
   \<longleftrightarrow> tls_files_ok F i cert key ca"
  "(\<exists>certs. cassandra_client_cert F i cert key = Inr certs) \<and> (\<exists>roots. cassandra_roots F i ca = Inr roots)
   \<longleftrightarrow> tls_files_ok F i cert key ca"
  by (auto simp: cassandra_client_cert_def cassandra_roots_def tls_files_ok_def tls_of_files_def split: sum.splits if_splits)

lemma LoadKafkaTLSConfig_eq:
  fixes F conf p
  defines "i \<equiv> GetBoolean conf (p @ ''.tls_insecure_skip_verify'') False"
    and "cert \<equiv> GetString conf (p @ ''.tls_cert_file'') ''''"
    and "key \<equiv> GetString conf (p @ ''.tls_key_file'') ''''"
    and "ca \<equiv> GetString conf (p @ ''.tls_ca_cert_file'') ''''"
  assumes "GetBoolean conf (p @ ''.tls_enabled'') False"
  shows "if tls_files_ok F i cert key ca
    then LoadKafkaTLSConfig F conf p = Inr (Some (tls_of_files F i cert key ca []))
    else (\<exists>e. LoadKafkaTLSConfig F conf p = Inl e)"
proof (cases "tls_files_ok F i cert key ca")
  case True
  with kafka_tls_cases(1)[of F i cert key ca "[]"] obtain certs roots where
    "kafka_client_cert F i cert key = Inr certs" "kafka_roots F i ca = Inr roots"
    "certs = tc_certificates (tls_of_files F i cert key ca [])" "roots = tc_rootCAs (tls_of_files F i cert key ca [])" by blast
  with True assms show ?thesis by (simp add: LoadKafkaTLSConfig_def tls_of_files_def)
next
  case False
  with kafka_tls_cases(2)[of F i cert key ca] show ?thesis using assms
    by (auto simp: LoadKafkaTLSConfig_def Let_def split: sum.split)
qed

lemma loadCassandraTLSConfig_eq:
  fixes F conf
  defines "i \<equiv> GetBoolean conf ''tls.insecure_skip_verify'' False"
    and "cert \<equiv> GetString conf ''tls.cert_file'' ''''"
    and "key \<equiv> GetString conf ''tls.key_file'' ''''"
    and "ca \<equiv> GetString conf ''tls.ca_cert_file'' ''''"
  shows "if tls_files_ok F i cert key ca
    then loadCassandraTLSConfig F conf = Inr (tls_of_files F i cert key ca [''TLS_RSA_WITH_AES_128_CBC_SHA''])
    else (\<exists>e. loadCassandraTLSConfig F conf = Inl e)"
proof (cases "tls_files_ok F i cert key ca")
  case True
  with cassandra_tls_cases(1)[of F i cert key ca "[]"] obtain certs roots where
    "cassandra_client_cert F i cert key = Inr certs" "cassandra_roots F i ca = Inr roots"
    "certs = tc_certificates (tls_of_files F i cert key ca [])" "roots = tc_rootCAs (tls_of_files F i cert key ca [])" by blast
  with True assms show ?thesis by (simp add: loadCassandraTLSConfig_def tls_of_files_def)
next
  case False
  with cassandra_tls_cases(2)[of F i cert key ca] show ?thesis using assms
    by (auto simp: loadCassandraTLSConfig_def Let_def split: sum.split)
qed

end
