(* ===== verification/Tracing.thy ===== *)
theory Tracing
  imports Settings
begin

text \<open>
  Package tracing and \<open>SpanMiddleware\<close> of http/webconfig_server.go: the set-up of the tracer, the
  span of a request, and the trace context that a request carries on. The OpenTelemetry library
  is a parameter; a span is the one object of a request, to which the context and the trace of
  the request both point.
\<close>

section \<open>The tracer\<close>

datatype attribute = AttrString string | AttrInt int

record span =
  sp_TraceID :: string
  sp_attributes :: "attribute gomap"
  sp_error :: "string option"
  sp_ended :: bool

text \<open>
  \<open>ot_exporter\<close> is the error of making an exporter, \<open>ot_start\<close> the span that is started with the
  trace context of a header, \<open>ot_inject\<close> what a propagator writes for a span, and
  \<open>ot_status_text\<close> the text of a status.
\<close>

record otel =
  ot_exporter :: "string \<Rightarrow> goerr option"
  ot_start :: "header \<Rightarrow> string \<Rightarrow> attribute gomap \<Rightarrow> span"
  ot_inject :: "span \<Rightarrow> string gomap"
  ot_status_text :: "int \<Rightarrow> string"

datatype span_setter = OtelSetSpan | NoopSetSpan

record tracer =
  OtelEnabled :: bool
  moracideTagPrefix :: string
  appEnv :: string
  tracer_appName :: string
  appVersion :: string
  appSHA :: string
  region :: string
  otelEndpoint :: string
  otelOpName :: string
  otelProvider :: string
  otelTracerProvider :: "string option"
  otelTracer :: "string option"
  SetSpan :: span_setter

definition new_tracer :: tracer where
  "new_tracer = \<lparr>OtelEnabled = False, moracideTagPrefix = '''', appEnv = '''', tracer_appName = '''', appVersion = '''',
     appSHA = '''', region = '''', otelEndpoint = '''', otelOpName = '''', otelProvider = '''',
     otelTracerProvider = None, otelTracer = None, SetSpan = NoopSetSpan\<rparr>"

definition initAppData :: "files \<Rightarrow> config \<Rightarrow> tracer \<Rightarrow> tracer" where
  "initAppData F conf t =
     (let codeGitCommit = go_split CHR ''-'' (GetString conf ''webconfig.code_git_commit'' '''');
          siteColor = to_lower (fl_env F ''site_color'');
          siteRegion = fl_env F ''site_region''
      in t\<lparr>tracer_appName := hd codeGitCommit,
           appVersion := (if length codeGitCommit > 1 then codeGitCommit ! 1 else appVersion t),
           appSHA := (if length codeGitCommit > 2 then codeGitCommit ! 2 else appSHA t),
           appEnv := (if siteColor = ''yellow'' then ''staging'' else if siteColor = ''green'' then ''prod'' else ''dev''),
           region := (if siteRegion = '''' then fl_env F ''site_region_name'' else siteRegion)\<rparr>)"

text \<open>The builders, by the name of the provider. The provider of the library is its name here.\<close>

definition otelHttpTraceProvider :: "otel \<Rightarrow> files \<Rightarrow> tracer \<Rightarrow> goerr + string" where
  "otelHttpTraceProvider ot F t =
     (if otelEndpoint t = '''' then Inl (ErrText ''building http otel provider failure, no endpoint specified'')
      else case ot_exporter ot ''http'' of
          Some err \<Rightarrow> Inl (ErrText (''building http otel provider failed with '' @ fl_text F err))
        | None \<Rightarrow> Inr ''http'')"

definition otelStdoutTraceProvider :: "otel \<Rightarrow> tracer \<Rightarrow> goerr + string" where
  "otelStdoutTraceProvider ot t = (case ot_exporter ot ''stdout'' of Some err \<Rightarrow> Inl err | None \<Rightarrow> Inr ''stdout'')"

definition otelNoopTraceProvider :: "tracer \<Rightarrow> goerr + string" where
  "otelNoopTraceProvider t = Inr ''noop''"

definition providerBuilders :: "otel \<Rightarrow> files \<Rightarrow> (tracer \<Rightarrow> goerr + string) gomap" where
  "providerBuilders ot F = [(''http'', otelHttpTraceProvider ot F), (''stdout'', otelStdoutTraceProvider ot),
     (''noop'', otelNoopTraceProvider)]"

definition otel_provider_name :: "config \<Rightarrow> string" where
  "otel_provider_name conf =
     (let p = to_lower (GetString conf ''webconfig.tracing.otel.provider'' ''noop'') in if p = '''' then ''noop'' else p)"

text \<open>The early returns leave the tracer of the library unset.\<close>

definition otelInit :: "otel \<Rightarrow> files \<Rightarrow> config \<Rightarrow> tracer \<Rightarrow> tracer" where
  "otelInit ot F conf t =
     (let t0 = t\<lparr>OtelEnabled := GetBoolean conf ''webconfig.tracing.otel.enabled'' False\<rparr>
      in if \<not> OtelEnabled t0 then t0
         else
           (let t1 = t0\<lparr>otelProvider := otel_provider_name conf\<rparr>
            in if otelProvider t1 = ''noop'' then t1
               else
                 (let t2 = t1\<lparr>otelEndpoint := GetString conf ''webconfig.tracing.otel.endpoint'' '''',
                              otelOpName := GetString conf ''webconfig.tracing.otel.operation_name'' ''''\<rparr>
                  in case map_of (providerBuilders ot F) (otelProvider t2) of
                       None \<Rightarrow> t2
                     | Some providerBuilder \<Rightarrow>
                         (case providerBuilder t2 of
                            Inl err \<Rightarrow> t2\<lparr>otelTracerProvider := None\<rparr>
                          | Inr p \<Rightarrow> t2\<lparr>otelTracerProvider := Some p, otelTracer := Some (tracer_appName t2)\<rparr>))))"

definition NewXpcTracer :: "otel \<Rightarrow> files \<Rightarrow> config \<Rightarrow> tracer" where
  "NewXpcTracer ot F conf =
     (let t = otelInit ot F conf (initAppData F conf new_tracer)
      in t\<lparr>moracideTagPrefix := GetString conf ''webconfig.tracing.moracide_tag_prefix'' ''X-Cl-Experiment'',
           SetSpan := (if OtelEnabled t then OtelSetSpan else NoopSetSpan)\<rparr>)"

definition OtelOpName :: "tracer \<Rightarrow> string" where
  "OtelOpName t = (if length (otelOpName t) = 0 then ''http.request'' else otelOpName t)"

section \<open>The span of a request\<close>

text \<open>
  What the context of a request holds, and the state while it is served: the span of the
  request, if one was started, and the rest. The route of the request, if the router has set
  one, gives its template or an error.
\<close>

datatype ctx_value = CtxSpan | CtxString string

type_synonym ctx = "ctx_value gomap"

record 's traced =
  td_span :: "span option"
  td_rest :: 's

record traced_request =
  tq_method :: string
  tq_url :: string
  tq_path :: string
  tq_header :: header
  tq_template :: "(goerr + string) option"
  tq_ctx :: ctx

definition SetContext :: "string \<Rightarrow> ctx_value \<Rightarrow> ctx \<Rightarrow> ctx" where
  "SetContext ctxName ctxValue c = gomap_put ctxName ctxValue c"

definition GetContext :: "ctx \<Rightarrow> string \<Rightarrow> ctx_value option" where
  "GetContext c key = map_of c key"

definition path_template :: "traced_request \<Rightarrow> string" where
  "path_template r = (case tq_template r of None \<Rightarrow> ''placeholder'' | Some (Inl _) \<Rightarrow> '''' | Some (Inr p) \<Rightarrow> p)"

definition span_attributes :: "tracer \<Rightarrow> traced_request \<Rightarrow> attribute gomap" where
  "span_attributes t r =
     [(''env'', AttrString (appEnv t)), (''http.method'', AttrString (tq_method r)),
      (''http.route'', AttrString (path_template r)), (''http.url'', AttrString (tq_url r)),
      (''http.url_details.path'', AttrString (tq_path r)), (''operation.name'', AttrString (OtelOpName t))]"

definition put_attr :: "string \<Rightarrow> attribute \<Rightarrow> span \<Rightarrow> span" where
  "put_attr k v sp = sp\<lparr>sp_attributes := gomap_put k v (sp_attributes sp)\<rparr>"

text \<open>Starting a span with a nil tracer is a nil dereference.\<close>

definition NewOtelSpan :: "otel \<Rightarrow> tracer \<Rightarrow> traced_request \<Rightarrow> ('s traced, ctx) prog" where
  "NewOtelSpan ot t r =
     (if \<not> OtelEnabled t then ret (tq_ctx r)
      else deref (otelTracer t) (\<lambda>_.
        let started = ot_start ot (tq_header r) (OtelOpName t) (span_attributes t r);
            otelSpan = (if region t \<noteq> '''' then put_attr ''region'' (AttrString (region t)) started else started);
            carried = foldl (\<lambda>c (key, val). SetContext (''otel_'' @ key) (CtxString val) c) (tq_ctx r) (ot_inject ot otelSpan)
        in (\<lambda>s. (Ok (SetContext ''otel_span'' CtxSpan carried), s\<lparr>td_span := Some otelSpan\<rparr>))))"

definition on_span :: "(span \<Rightarrow> span) \<Rightarrow> ('s traced, unit) prog" where
  "on_span f = (\<lambda>s. (Ok (), s\<lparr>td_span := map_option f (td_span s)\<rparr>))"

definition EndOtelSpan :: "tracer \<Rightarrow> ('s traced, unit) prog" where
  "EndOtelSpan t = (if \<not> OtelEnabled t then ret () else on_span (\<lambda>sp. sp\<lparr>sp_ended := True\<rparr>))"

text \<open>A deferred call runs whatever the outcome of the rest is.\<close>

definition deferred :: "('s, unit) prog \<Rightarrow> ('s, 'a) prog \<Rightarrow> ('s, 'a) prog" where
  "deferred d m = (\<lambda>s. case m s of (r, s') \<Rightarrow> (case d s' of (Ok _, s'') \<Rightarrow> (r, s'') | (Err e, s'') \<Rightarrow> (r, s'') | (Panic, s'') \<Rightarrow> (Panic, s'')))"

definition SpanMiddleware ::
  "otel \<Rightarrow> tracer \<Rightarrow> (traced_request \<Rightarrow> ('s traced, unit) prog) \<Rightarrow> traced_request \<Rightarrow> ('s traced, unit) prog" where
  "SpanMiddleware ot t next r =
     (if OtelEnabled t
      then tryE (NewOtelSpan ot t r) throw (\<lambda>c. deferred (EndOtelSpan t) (next (r\<lparr>tq_ctx := c\<rparr>)))
      else next r)"

section \<open>The trace of a request\<close>

record xpc_trace =
  ReqMoracideTag :: string
  otelTraceparent :: string
  otelTracestate :: string
  ReqTraceparent :: string
  ReqTracestate :: string
  OutTraceparent :: string
  OutTracestate :: string
  has_otelSpan :: bool
  ReqUserAgent :: string
  TraceID :: string

definition HeaderCanary :: string where "HeaderCanary = ''X-Cl-Canary''"

definition extractParamsFromReq :: "header \<Rightarrow> string \<Rightarrow> xpc_trace" where
  "extractParamsFromReq h serviceName =
     (let tag = hget h HeaderMoracide
      in \<lparr>ReqMoracideTag =
            (if hget h HeaderCanary = ''true''
             then if length tag > 0 then tag @ '','' @ serviceName else serviceName
             else tag),
          otelTraceparent = '''', otelTracestate = '''',
          ReqTraceparent = hget h HeaderTraceparent, ReqTracestate = hget h HeaderTracestate,
          OutTraceparent = hget h HeaderTraceparent, OutTracestate = hget h HeaderTracestate,
          has_otelSpan = False, ReqUserAgent = hget h ''User-Agent'', TraceID = ''''\<rparr>)"

text \<open>A value of the context that is no string panics in its type assertion.\<close>

definition from_ctx :: "ctx \<Rightarrow> string \<Rightarrow> (string \<Rightarrow> xpc_trace \<Rightarrow> xpc_trace) \<Rightarrow> xpc_trace \<Rightarrow> xpc_trace option" where
  "from_ctx c key f xt =
     (case GetContext c key of None \<Rightarrow> Some xt | Some (CtxString v) \<Rightarrow> Some (f v xt) | Some CtxSpan \<Rightarrow> None)"

definition otelExtractParamsFromSpan :: "ctx \<Rightarrow> span option \<Rightarrow> xpc_trace \<Rightarrow> xpc_trace option" where
  "otelExtractParamsFromSpan c sp xt =
     (case (GetContext c ''otel_span'', sp) of
        (Some CtxSpan, Some otelSpan) \<Rightarrow>
          Option.bind (from_ctx c ''otel_traceparent'' (\<lambda>v x. x\<lparr>otelTraceparent := v, OutTraceparent := v\<rparr>)
              (xt\<lparr>has_otelSpan := True, TraceID := sp_TraceID otelSpan\<rparr>))
            (from_ctx c ''otel_tracestate'' (\<lambda>v x. x\<lparr>otelTracestate := v, OutTracestate := v\<rparr>))
      | _ \<Rightarrow> Some xt)"

definition NewXpcTrace :: "tracer \<Rightarrow> traced_request \<Rightarrow> span option \<Rightarrow> xpc_trace option" where
  "NewXpcTrace t r sp =
     (let xt = extractParamsFromReq (tq_header r) (tracer_appName t)
      in if OtelEnabled t then otelExtractParamsFromSpan (tq_ctx r) sp xt else Some xt)"

section \<open>The end of a request\<close>

definition otelSetStatusCode :: "otel \<Rightarrow> int \<Rightarrow> span \<Rightarrow> span" where
  "otelSetStatusCode ot statusCode sp =
     (let sp1 = put_attr ''http.status_code'' (AttrInt statusCode) sp
      in if statusCode \<ge> 500
         then put_attr ''http.response.error'' (AttrString (ot_status_text ot statusCode))
                (sp1\<lparr>sp_error := Some (ot_status_text ot statusCode)\<rparr>)
         else sp1)"

text \<open>
  The trace and the status are read from the fields of the request; \<open>None\<close> is a missing field.
\<close>

definition SetSpanStatusCode :: "otel \<Rightarrow> xpc_trace option \<Rightarrow> int option \<Rightarrow> ('s traced, unit) prog" where
  "SetSpanStatusCode ot trace status =
     (case trace of
        None \<Rightarrow> ret ()
      | Some xt \<Rightarrow>
          if has_otelSpan xt
          then case status of None \<Rightarrow> ret () | Some statusCode \<Rightarrow> on_span (otelSetStatusCode ot statusCode)
          else ret ())"

definition SetSpanMoracideTags :: "xpc_trace option \<Rightarrow> fields \<Rightarrow> ('s traced, unit) prog" where
  "SetSpanMoracideTags trace flds =
     (case trace of
        None \<Rightarrow> ret ()
      | Some xt \<Rightarrow>
          deref (FieldsGetString flds ''resp_moracide_tag'' '''') (\<lambda>resp.
            deref (if length resp = 0 then FieldsGetString flds ''req_moracide_tag'' '''' else Some resp) (\<lambda>moracide.
              if has_otelSpan xt \<and> length moracide > 0
              then on_span (put_attr HeaderMoracide (AttrString moracide)) else ret ())))"

definition set_span :: "otel \<Rightarrow> tracer \<Rightarrow> xpc_trace option \<Rightarrow> int option \<Rightarrow> fields \<Rightarrow> ('s traced, unit) prog" where
  "set_span ot t trace status flds =
     (case SetSpan t of
        OtelSetSpan \<Rightarrow> tryE (SetSpanStatusCode ot trace status) throw (\<lambda>_. SetSpanMoracideTags trace flds)
      | NoopSetSpan \<Rightarrow> ret ())"

section \<open>When spans can be started\<close>

text \<open>
  The exporters that the settings name and that can be made. Every other setting leaves a
  tracer that is switched on but has no tracer of the library.
\<close>

definition exporter_ok :: "otel \<Rightarrow> config \<Rightarrow> bool" where
  "exporter_ok ot conf \<longleftrightarrow>
     otel_provider_name conf = ''http'' \<and> GetString conf ''webconfig.tracing.otel.endpoint'' '''' \<noteq> ''''
       \<and> ot_exporter ot ''http'' = None
     \<or> otel_provider_name conf = ''stdout'' \<and> ot_exporter ot ''stdout'' = None"

lemma NewXpcTracer_enabled:
  "OtelEnabled (NewXpcTracer ot F conf) = GetBoolean conf ''webconfig.tracing.otel.enabled'' False"
  by (simp add: NewXpcTracer_def otelInit_def Let_def split: option.split sum.split)

lemma NewXpcTracer_tracer:
  "GetBoolean conf ''webconfig.tracing.otel.enabled'' False \<Longrightarrow>
     (otelTracer (NewXpcTracer ot F conf) = None) = (\<not> exporter_ok ot conf)"
  by (auto simp: NewXpcTracer_def otelInit_def Let_def initAppData_def new_tracer_def providerBuilders_def
      exporter_ok_def otelHttpTraceProvider_def otelStdoutTraceProvider_def otelNoopTraceProvider_def
      split: option.splits sum.splits if_splits)

definition request_span :: "otel \<Rightarrow> tracer \<Rightarrow> traced_request \<Rightarrow> span" where
  "request_span ot t r =
     (let started = ot_start ot (tq_header r) (OtelOpName t) (span_attributes t r)
      in if region t \<noteq> '''' then put_attr ''region'' (AttrString (region t)) started else started)"

definition request_ctx :: "otel \<Rightarrow> tracer \<Rightarrow> traced_request \<Rightarrow> ctx" where
  "request_ctx ot t r =
     SetContext ''otel_span'' CtxSpan
       (foldl (\<lambda>c (key, val). SetContext (''otel_'' @ key) (CtxString val) c) (tq_ctx r) (ot_inject ot (request_span ot t r)))"

lemma SpanMiddleware_eq:
  "SpanMiddleware ot t next r s =
     (if \<not> OtelEnabled t then next r s
      else if otelTracer t = None then (Panic, s)
      else case next (r\<lparr>tq_ctx := request_ctx ot t r\<rparr>) (s\<lparr>td_span := Some (request_span ot t r)\<rparr>) of
          (res, s') \<Rightarrow> (res, s'\<lparr>td_span := map_option (\<lambda>sp. sp\<lparr>sp_ended := True\<rparr>) (td_span s')\<rparr>))"
  by (auto simp: SpanMiddleware_def NewOtelSpan_def tryE_def deferred_def EndOtelSpan_def on_span_def
      request_ctx_def request_span_def Let_def deref_def split: option.split prod.split)

section \<open>The trace context that goes out\<close>

lemma GetContext_carried:
  "GetContext (foldl (\<lambda>c (key, val). SetContext (''otel_'' @ key) (CtxString val) c) c0 kvs) (''otel_'' @ x)
     = (case map_of (rev kvs) x of None \<Rightarrow> GetContext c0 (''otel_'' @ x) | Some v \<Rightarrow> Some (CtxString v))"
proof (induction kvs rule: rev_induct)
  case Nil
  then show ?case by simp
next
  case (snoc p kvs)
  obtain k v where "p = (k, v)" by fastforce
  with snoc show ?case by (simp add: SetContext_def GetContext_def)
qed

text \<open>
  With a span, the trace context of its propagator goes out, without one that of the request.
\<close>

lemma NewXpcTrace_out:
  fixes ot t r
  defines "injected \<equiv> map_of (rev (ot_inject ot (request_span ot t r)))"
  assumes "OtelEnabled t" "tq_ctx r = []"
  shows "\<exists>xt. NewXpcTrace t (r\<lparr>tq_ctx := request_ctx ot t r\<rparr>) (Some (request_span ot t r)) = Some xt
    \<and> OutTraceparent xt = (case injected ''traceparent'' of None \<Rightarrow> hget (tq_header r) HeaderTraceparent | Some v \<Rightarrow> v)
    \<and> OutTracestate xt = (case injected ''tracestate'' of None \<Rightarrow> hget (tq_header r) HeaderTracestate | Some v \<Rightarrow> v)
    \<and> TraceID xt = sp_TraceID (request_span ot t r)"
proof -
  have s: "GetContext (request_ctx ot t r) ''otel_span'' = Some CtxSpan"
    by (simp add: request_ctx_def GetContext_def SetContext_def)
  have k: "GetContext (request_ctx ot t r) (''otel_'' @ x) = map_option CtxString (injected x)"
    if "x \<noteq> ''span''" for x
    using that assms(3) GetContext_carried[of "[]" "ot_inject ot (request_span ot t r)" x]
    by (simp add: request_ctx_def injected_def GetContext_def SetContext_def split: option.splits)
  show ?thesis using s k[of "''traceparent''"] k[of "''tracestate''"] assms(2)
    by (auto simp: NewXpcTrace_def Let_def otelExtractParamsFromSpan_def from_ctx_def extractParamsFromReq_def
        split: option.splits)
qed

end
