(* ===== verification/Startup.thy ===== *)
theory Startup
  imports Tracing Gateway KafkaConsumer CassandraClient
begin

text \<open>
  How the program starts: the constructors of the database clients, of the token and key
  managers, of the kafka consumer groups and of the server, and what main.go composes of them.
  A panic ends the program. Opening a database, connecting to a cluster or a broker, reading
  keys and making a key set are parameters.
\<close>

section \<open>Steps that may fail\<close>

definition and_then :: "'a result \<Rightarrow> ('a \<Rightarrow> 'b result) \<Rightarrow> 'b result" where
  "and_then m k = (case m of Ok x \<Rightarrow> k x | Err e \<Rightarrow> Err e | Panic \<Rightarrow> Panic)"

text \<open>\<open>if err != nil { panic(err) }\<close>.\<close>

definition must :: "'a result \<Rightarrow> 'a result" where
  "must m = (case m of Ok x \<Rightarrow> Ok x | _ \<Rightarrow> Panic)"

definition to_result :: "goerr + 'a \<Rightarrow> 'a result" where
  "to_result r = (case r of Inl e \<Rightarrow> Err e | Inr x \<Rightarrow> Ok x)"

definition wrap_result :: "'a result \<Rightarrow> 'a result" where
  "wrap_result m = (case m of Err e \<Rightarrow> Err (NewError e) | r \<Rightarrow> r)"

text \<open>A channel of a negative size cannot be made.\<close>

definition make_chan :: "int \<Rightarrow> nat result" where
  "make_chan n = (if n < 0 then Panic else Ok (nat n))"

section \<open>The database clients\<close>

definition document_settings :: "config \<Rightarrow> sqlite_config" where
  "document_settings conf =
     \<lparr>blockedSubdocIds = GetStringList conf ''webconfig.blocked_subdoc_ids'',
      stateCorrectionEnabled = GetBoolean conf ''webconfig.state_correction_enabled'' False,
      lockRootDocumentEnabled = GetBoolean conf ''webconfig.lock_root_document_enabled'' False,
      supplementaryPrecookEnabled = GetBoolean conf ''webconfig.supplementary_precook_enabled'' False,
      supplementaryPrecookStateTTLDays = GetInt32 conf ''webconfig.supplementary_precook_state_ttl_days'' 7\<rparr>"

record sqlite_opened =
  so_dbfile :: string
  so_places :: nat
  so_config :: sqlite_config

definition NewSqliteClient :: "(string \<Rightarrow> goerr option) \<Rightarrow> config \<Rightarrow> bool \<Rightarrow> sqlite_opened result" where
  "NewSqliteClient sql_open conf testOnly =
     (let dbfile = (if testOnly
            then GetString conf ''webconfig.database.sqlite.unittest_db_file'' ''/app/db/test_webconfig.db''
            else GetString conf ''webconfig.database.sqlite.db_file'' ''/app/db/webconfig.db'')
      in case sql_open dbfile of
          Some err \<Rightarrow> Err (NewError err)
        | None \<Rightarrow> and_then (make_chan (GetInt32 conf ''webconfig.database.sqlite.concurrent_queries'' 10))
            (\<lambda>n. Ok \<lparr>so_dbfile = dbfile, so_places = n, so_config = document_settings conf\<rparr>))"

text \<open>The codec of the program; the key comes from the environment.\<close>

definition env_codec :: "files \<Rightarrow> config \<Rightarrow> goerr + aes_codec" where
  "env_codec F conf =
     NewAesCodec (fl_env F (GetString conf ''webconfig.security.encryption_key_env_name'' ''WEBCONFIG_KEY''))"

record cluster =
  clu_hosts :: "string list"
  clu_timeout :: int
  clu_connectTimeout :: int
  clu_numConns :: int
  clu_localDc :: string
  clu_user :: string
  clu_password :: string
  clu_ssl :: "tls_config option"
  clu_keyspace :: string

record cassandra_opened =
  co_cluster :: cluster
  co_pageSize :: int
  co_places :: nat
  co_config :: cassandra_config

definition cassandra_driver :: "files \<Rightarrow> config \<Rightarrow> bool \<Rightarrow> string" where
  "cassandra_driver F conf testOnly =
     (if testOnly \<and> fl_env F ''TESTDB_DRIVER'' = ''yugabyte'' then ''yugabyte''
      else if GetString conf ''webconfig.database.active_driver'' '''' = ''yugabyte'' then ''yugabyte''
      else ''cassandra'')"

definition cassandra_password :: "files \<Rightarrow> cipher \<Rightarrow> aes_codec \<Rightarrow> config \<Rightarrow> string result" where
  "cassandra_password F C codec dbconf =
     (let env = fl_env F ''ENCRYPTED_PASSWORD'';
          encryptedPassword = (if length env = 0 then GetString dbconf ''encrypted_password'' '''' else env)
      in if encryptedPassword \<noteq> '''' then wrap_result (Decrypt C codec encryptedPassword)
         else Ok (GetString dbconf ''password'' ''''))"

definition cassandra_ssl :: "files \<Rightarrow> config \<Rightarrow> tls_config option result" where
  "cassandra_ssl F dbconf =
     (if GetBoolean dbconf ''is_ssl_enabled'' False
      then and_then (wrap_result (to_result (loadCassandraTLSConfig F dbconf))) (\<lambda>t. Ok (Some t))
      else Ok None)"

text \<open>
  \<open>sub\<close> is the part of the configuration at a path, \<open>test_codec\<close> the codec with a random key of
  the tests, and \<open>connect\<close> the creation of a session.
\<close>

definition NewCassandraClient ::
  "files \<Rightarrow> cipher \<Rightarrow> aes_codec result \<Rightarrow> (string \<Rightarrow> config) \<Rightarrow> (cluster \<Rightarrow> goerr option) \<Rightarrow> config \<Rightarrow> bool
     \<Rightarrow> cassandra_opened result" where
  "NewCassandraClient F C test_codec sub connect conf testOnly =
     and_then (if testOnly then test_codec else wrap_result (to_result (env_codec F conf))) (\<lambda>codec.
     let dbconf = sub (''webconfig.database.'' @ cassandra_driver F conf testOnly)
     in and_then (cassandra_password F C codec dbconf) (\<lambda>password.
        and_then (cassandra_ssl F dbconf) (\<lambda>ssl.
        let cluster = \<lparr>clu_hosts = GetStringList dbconf ''hosts'',
              clu_timeout = GetInt32 dbconf ''timeout_in_sec'' 1,
              clu_connectTimeout = GetInt32 dbconf ''connect_timeout_in_sec'' 1,
              clu_numConns = GetInt32 dbconf ''connections'' 2,
              clu_localDc = GetString dbconf ''local_dc'' '''',
              clu_user = GetString dbconf ''user'' '''', clu_password = password, clu_ssl = ssl,
              clu_keyspace = (if testOnly then GetString dbconf ''test_keyspace'' ''test_webconfig''
                else GetString dbconf ''keyspace'' ''webconfig'')\<rparr>
        in case connect cluster of
            Some err \<Rightarrow> Err (NewError err)
          | None \<Rightarrow> and_then (make_chan (GetInt32 dbconf ''concurrent_queries'' 500)) (\<lambda>n.
              Ok \<lparr>co_cluster = cluster, co_pageSize = GetInt32 dbconf ''page_size'' 50, co_places = n,
                co_config = sqlite_config.extend (document_settings conf)
                  (cassandra_config.fields (GetStringList conf ''webconfig.encrypted_subdoc_ids'') codec C)\<rparr>))))"

datatype opened = SqliteOpened sqlite_opened | CassandraOpened cassandra_opened

text \<open>Both constructors are arguments; every error is a panic.\<close>

definition GetDatabaseClient ::
  "(config \<Rightarrow> bool \<Rightarrow> sqlite_opened result) \<Rightarrow> (config \<Rightarrow> bool \<Rightarrow> cassandra_opened result) \<Rightarrow> server_config
     \<Rightarrow> opened result" where
  "GetDatabaseClient new_sqlite new_cassandra sc =
     (let activeDriver = GetString (sc_Config sc) ''webconfig.database.active_driver'' ''cassandra''
      in if activeDriver = ''sqlite'' then and_then (must (new_sqlite (sc_Config sc) False)) (\<lambda>x. Ok (SqliteOpened x))
         else if activeDriver \<in> {''cassandra'', ''yugabyte''}
         then and_then (must (new_cassandra (sc_Config sc) False)) (\<lambda>x. Ok (CassandraOpened x))
         else Panic)"

section \<open>Tokens and keys\<close>

text \<open>
  A key that cannot be loaded is nil; it is in the map all the same, unless the program is set
  to panic.
\<close>

definition loadDecodeKey :: "files \<Rightarrow> (bytes \<Rightarrow> goerr + 'k) \<Rightarrow> string \<Rightarrow> goerr + 'k" where
  "loadDecodeKey F parse keyfile =
     (case fl_read F keyfile of
        Inl err \<Rightarrow> Inl (NewError err)
      | Inr kbytes \<Rightarrow> (case parse kbytes of Inl err \<Rightarrow> Inl (NewError err) | Inr k \<Rightarrow> Inr k))"

definition loadEncodeKey :: "files \<Rightarrow> (bytes \<Rightarrow> goerr + 'e) \<Rightarrow> string \<Rightarrow> goerr + 'e" where
  "loadEncodeKey F parse keyfile =
     (case fl_read F keyfile of
        Inl err \<Rightarrow> Inl (NewError err)
      | Inr kbytes \<Rightarrow> (case parse kbytes of Inl err \<Rightarrow> Inl (NewError err) | Inr k \<Rightarrow> Inr k))"

definition key_or_nil :: "bool \<Rightarrow> goerr + 'k \<Rightarrow> 'k option result" where
  "key_or_nil panicExitEnabled r =
     (case r of Inr k \<Rightarrow> Ok (Some k) | Inl _ \<Rightarrow> if panicExitEnabled then Panic else Ok None)"

fun load_keys :: "(string \<Rightarrow> 'k option result) \<Rightarrow> string list \<Rightarrow> 'k option gomap \<Rightarrow> 'k option gomap result" where
  "load_keys load [] keys = Ok keys"
| "load_keys load (kid # kids) keys = and_then (load kid) (\<lambda>dk. load_keys load kids (gomap_put kid dk keys))"

record ('k, 'e) tokens_opened =
  to_manager :: "'k option token_manager"
  to_encodeKey :: "'e option"

text \<open>Without an object of keys the constructor dereferences a nil node.\<close>

definition NewTokenManager ::
  "files \<Rightarrow> (bytes \<Rightarrow> goerr + 'k) \<Rightarrow> (bytes \<Rightarrow> goerr + 'e) \<Rightarrow> config \<Rightarrow> ('k, 'e) tokens_opened result" where
  "NewTokenManager F parsePublic parsePrivate conf =
     (let panicExitEnabled = GetBoolean conf ''webconfig.panic_exit_enabled'' False;
          privateKeyFile = GetString conf ''webconfig.jwt.kid.webconfig_key.private_key_file'' '''';
          load = (\<lambda>kid. key_or_nil panicExitEnabled
            (loadDecodeKey F parsePublic (GetString conf (''webconfig.jwt.kid.'' @ kid @ ''.public_key_file'') '''')))
      in case cf_keys conf ''webconfig.jwt.kid'' of
          None \<Rightarrow> Panic
        | Some kids \<Rightarrow>
            and_then (load_keys load kids []) (\<lambda>keys.
            and_then (key_or_nil panicExitEnabled (loadEncodeKey F parsePrivate privateKeyFile)) (\<lambda>encodeKey.
              Ok \<lparr>to_manager = \<lparr>decodeKeys = keys,
                    apiKids = GetStringList conf ''webconfig.jwt.api_token.kids'',
                    apiCapabilities = GetStringList conf ''webconfig.jwt.api_token.capabilities'',
                    cpeKids = GetStringList conf ''webconfig.jwt.cpe_token.kids'',
                    cpeCapabilities = GetStringList conf ''webconfig.jwt.cpe_token.capabilities''\<rparr>,
                  to_encodeKey = encodeKey\<rparr>)))"

text \<open>The key set of a url, refreshed in an interval of seconds; the manager is its capabilities.\<close>

definition NewJwksManager :: "(string \<Rightarrow> int \<Rightarrow> goerr option) \<Rightarrow> config \<Rightarrow> goerr + string list" where
  "NewJwksManager get_keyset conf =
     (let jwksUrl = GetString conf ''webconfig.jwt.api_token.jwks_url'' ''''
      in if length jwksUrl = 0 then Inl (NewError (ErrText ''empty webconfig.jwt.api_token.jwks_url''))
         else case get_keyset jwksUrl (GetInt32 conf ''webconfig.jwt.api_token.jwks_refresh_in_secs'' 86400) of
             Some err \<Rightarrow> Inl (NewError err)
           | None \<Rightarrow> Inr (GetStringList conf ''webconfig.jwt.api_token.capabilities''))"

section \<open>Kafka consumer groups\<close>

text \<open>The broker library: making a consumer, its partitions of a topic, closing it, and joining a group.\<close>

record broker =
  br_consumer :: "string list \<Rightarrow> goerr option"
  br_partitions :: "string \<Rightarrow> goerr + int list"
  br_close :: "goerr option"
  br_group :: "string list \<Rightarrow> string \<Rightarrow> goerr option"

record consumer_settings =
  ks_ratelimitMessagesPerSecond :: int
  ks_appName :: string
  ks_clusterName :: string
  ks_offsetEnum :: int
  ks_topicPartitionsMap :: "int list gomap option"

record consumer_group =
  kg_brokers :: "string list"
  kg_topics :: "string list"
  kg_group :: string
  kg_strategy :: string
  kg_initialOffset :: "int option"
  kg_tls :: "tls_config option"
  kg_consumer :: consumer_settings

fun topic_partitions :: "(string \<Rightarrow> goerr + int list) \<Rightarrow> string list \<Rightarrow> int list gomap \<Rightarrow> goerr + int list gomap" where
  "topic_partitions parts [] m = Inr m"
| "topic_partitions parts (topic # topics) m =
     (case parts topic of
        Inl err \<Rightarrow> Inl (NewError err)
      | Inr ps \<Rightarrow> topic_partitions parts topics (gomap_put topic ps m))"

text \<open>An error of the deferred close replaces the result.\<close>

definition GetTopicPartitions :: "broker \<Rightarrow> string list \<Rightarrow> string list \<Rightarrow> goerr + int list gomap" where
  "GetTopicPartitions B brokers topics =
     (case br_consumer B brokers of
        Some err \<Rightarrow> Inl (NewError err)
      | None \<Rightarrow>
          (case br_close B of
             Some err \<Rightarrow> Inl (NewError err)
           | None \<Rightarrow> topic_partitions (br_partitions B) topics []))"

definition OffsetNewest :: int where "OffsetNewest = -1"
definition OffsetOldest :: int where "OffsetOldest = -2"

definition kafka_prefix :: "string \<Rightarrow> string" where
  "kafka_prefix clusterName =
     (if clusterName = ''root'' then ''webconfig.kafka'' else ''webconfig.kafka.clusters.'' @ clusterName)"

text \<open>The offset in the library's settings, which has a default of its own, and the one of the consumer.\<close>

definition initial_offset :: "config \<Rightarrow> string \<Rightarrow> int option" where
  "initial_offset conf prefix =
     (if GetBoolean conf (prefix @ ''.newest'') False then Some OffsetNewest
      else if GetBoolean conf (prefix @ ''.oldest'') False then Some OffsetOldest else None)"

definition NewConsumer :: "string \<Rightarrow> int \<Rightarrow> string \<Rightarrow> int \<Rightarrow> int list gomap option \<Rightarrow> consumer_settings" where
  "NewConsumer app rate clusterName offset parts =
     \<lparr>ks_ratelimitMessagesPerSecond = rate, ks_appName = app, ks_clusterName = clusterName,
      ks_offsetEnum = offset, ks_topicPartitionsMap = parts\<rparr>"

text \<open>\<open>now\<close> is the clock in seconds as text. \<open>Inr None\<close>: the cluster is not enabled.\<close>

definition NewKafkaConsumerGroup ::
  "files \<Rightarrow> broker \<Rightarrow> string \<Rightarrow> config \<Rightarrow> string \<Rightarrow> string \<Rightarrow> goerr + consumer_group option" where
  "NewKafkaConsumerGroup F B now conf app clusterName =
     (let prefix = kafka_prefix clusterName;
          brokersStr = GetString conf (prefix @ ''.brokers'') '''';
          brokers = go_split CHR '','' brokersStr;
          topicsStr = GetString conf (prefix @ ''.topics'') '''';
          topics = go_split CHR '','' topicsStr;
          group = (if GetBoolean conf (prefix @ ''.use_random_consumer_group'') False then ''webconfig_'' @ now
            else GetString conf (prefix @ ''.consumer_group'') '''');
          assignor = GetString conf (prefix @ ''.assignor'') ''roundrobin'';
          offset = initial_offset conf prefix
      in if \<not> GetBoolean conf (prefix @ ''.enabled'') False then Inr None
         else if length brokersStr = 0 then Inl (NewError (ErrText ''no brokers in configs''))
         else if length topicsStr = 0 then Inl (NewError (ErrText ''no topics in configs''))
         else if assignor \<notin> {''sticky'', ''roundrobin'', ''range''}
         then Inl (NewError (ErrText (''Unrecognized consumer group partition assignor: '' @ assignor)))
         else
           (case (if offset = Some OffsetNewest then map_sum NewError Some (GetTopicPartitions B brokers topics) else Inr None) of
              Inl err \<Rightarrow> Inl err
            | Inr parts \<Rightarrow>
                (case LoadKafkaTLSConfig F conf prefix of
                   Inl err \<Rightarrow> Inl (NewError (ErrText (''failed to load TLS configuration for '' @ prefix @ '': '' @ fl_text F err)))
                 | Inr tlsConfig \<Rightarrow>
                     (case br_group B brokers group of
                        Some err \<Rightarrow> Inl (ErrText (''Error creating consumer group client: '' @ fl_text F err))
                      | None \<Rightarrow> Inr (Some
                          \<lparr>kg_brokers = brokers, kg_topics = topics, kg_group = group, kg_strategy = assignor,
                           kg_initialOffset = offset, kg_tls = tlsConfig,
                           kg_consumer = NewConsumer app (GetInt32 conf (prefix @ ''.ratelimit.messages_per_second'') 0)
                             clusterName (case offset of None \<Rightarrow> 0 | Some x \<Rightarrow> x) parts\<rparr>)))))"

fun more_groups :: "(string \<Rightarrow> goerr + consumer_group option) \<Rightarrow> string list \<Rightarrow> consumer_group list
    \<Rightarrow> goerr + consumer_group list" where
  "more_groups new [] kcgroups = Inr kcgroups"
| "more_groups new (clusterName # names) kcgroups =
     (case new clusterName of
        Inl err \<Rightarrow> Inl (NewError err)
      | Inr None \<Rightarrow> more_groups new names kcgroups
      | Inr (Some g) \<Rightarrow> more_groups new names (kcgroups @ [g]))"

definition NewKafkaConsumerGroups ::
  "files \<Rightarrow> broker \<Rightarrow> string \<Rightarrow> server_config \<Rightarrow> string \<Rightarrow> goerr + consumer_group list" where
  "NewKafkaConsumerGroups F B now sc app =
     more_groups (NewKafkaConsumerGroup F B now (sc_Config sc) app) (''root'' # KafkaClusterNames sc) []"

text \<open>
  \<open>Setup\<close>, at the start of a session: the offsets that are reset. The channel \<open>Ready\<close> is closed
  then; closing it twice would panic.
\<close>

definition consumer_Setup :: "consumer_settings \<Rightarrow> (string \<times> int \<times> int) list" where
  "consumer_Setup c =
     (case ks_topicPartitionsMap c of
        None \<Rightarrow> []
      | Some m \<Rightarrow> concat (map (\<lambda>(topic, ps). map (\<lambda>p. (topic, p, ks_offsetEnum c)) ps) m))"

section \<open>The server\<close>

definition DefaultIgnoredHeaders :: "string list" where
  "DefaultIgnoredHeaders =
     [''Accept'', ''User-Agent'', ''Authorization'', ''Content-Type'', ''Content-Length'', ''Accept-Encoding'',
      ''X-B3-Sampled'', ''X-B3-Spanid'', ''X-B3-Traceid'', ''X-Envoy-Decorator-Operation'',
      ''X-Envoy-External-Address'', ''X-Envoy-Peer-Metadata'', ''X-Envoy-Peer-Metadata-Id'', ''X-Forwarded-Proto'']"

text \<open>
  What is not in the model of the server itself. The listener has a host, a port and two
  timeouts in seconds.
\<close>

record ('k, 'e) parts =
  pt_tokenManager :: "('k, 'e) tokens_opened"
  pt_jwksCapabilities :: "string list option"
  pt_listen :: "string \<times> int"
  pt_readTimeout :: int
  pt_writeTimeout :: int
  pt_webpa :: webpa_settings
  pt_xconf :: connector_settings
  pt_mqtt :: connector_settings
  pt_upstream :: connector_settings
  pt_tlsConfig :: "tls_config option"
  pt_kafkaProducer :: "(string list \<times> tls_config option) option"
  pt_notLoggedHeaders :: "string list"
  pt_metricsEnabled :: bool
  pt_factoryResetEnabled :: bool
  pt_kafkaEnabled :: bool
  pt_tracer :: tracer

record ('s, 'k, 'e) started =
  st_server :: "'s server"
  st_flags :: router_flags
  st_parts :: "('k, 'e) parts"

text \<open>The set of groups that are valid: the standard ones and the configured ones.\<close>

definition valid_subdoc_ids :: "config \<Rightarrow> int gomap" where
  "valid_subdoc_ids conf =
     foldl (\<lambda>m x. gomap_put x 1 m) (map (\<lambda>(k, v). (k, int v)) SubdocBitIndexMap)
       (GetStringList conf ''webconfig.valid_subdoc_ids'')"

text \<open>The producer of messages: its brokers and its TLS configuration; every error is a panic.\<close>

definition kafka_producer ::
  "files \<Rightarrow> (string list \<Rightarrow> goerr option) \<Rightarrow> config \<Rightarrow> (string list \<times> tls_config option) option result" where
  "kafka_producer F new_producer conf =
     (if \<not> GetBoolean conf ''webconfig.kafka_producer.enabled'' False then Ok None
      else
        (let brokersStr = GetString conf ''webconfig.kafka_producer.brokers'' '''';
             brokers = go_split CHR '','' brokersStr
         in if length brokersStr = 0 then Panic
            else case LoadKafkaTLSConfig F conf ''webconfig.kafka_producer'' of
                Inl _ \<Rightarrow> Panic
              | Inr tls \<Rightarrow> (case new_producer brokers of Some _ \<Rightarrow> Panic | None \<Rightarrow> Ok (Some (brokers, tls)))))"

text \<open>
  The libraries that the constructor calls. \<open>lb_client\<close> is the client over an opened database,
  \<open>lb_murmur3\<close> and \<open>lb_errs\<close> the hash and the forms of errors.
\<close>

record ('s, 'n, 'k, 'e) libraries =
  lb_files :: files
  lb_sqlite :: "config \<Rightarrow> bool \<Rightarrow> sqlite_opened result"
  lb_cassandra :: "config \<Rightarrow> bool \<Rightarrow> cassandra_opened result"
  lb_client :: "opened \<Rightarrow> 's db_client"
  lb_public :: "bytes \<Rightarrow> goerr + 'k"
  lb_private :: "bytes \<Rightarrow> goerr + 'e"
  lb_keyset :: "string \<Rightarrow> int \<Rightarrow> goerr option"
  lb_producer :: "string list \<Rightarrow> goerr option"
  lb_sprintf :: "string \<Rightarrow> string list \<Rightarrow> string"
  lb_network :: "'n network"
  lb_otel :: otel
  lb_broker :: broker
  lb_murmur3 :: "bytes \<Rightarrow> nat"
  lb_errs :: err_forms

definition server_settings ::
  "('s, 'n, 'k, 'e) libraries \<Rightarrow> config \<Rightarrow> 's db_client \<Rightarrow> 's server" where
  "server_settings L conf dbclient =
     \<lparr>DatabaseClient = dbclient,
      appName = GetString conf ''webconfig.app_name'' '''',
      validateMacEnabled = GetBoolean conf ''webconfig.validate_device_id_as_mac_address'' False,
      validPartners = map to_lower (GetStringList conf ''webconfig.valid_partners''),
      upstreamEnabled = GetBoolean conf ''webconfig.upstream.enabled'' False,
      jwksEnabled = GetBoolean conf ''webconfig.jwt.api_token.jwks_enabled'' False,
      kafkaProducerEnabled = GetBoolean conf ''webconfig.kafka_producer.enabled'' False,
      kafkaProducerTopic = (if GetBoolean conf ''webconfig.kafka_producer.enabled'' False
        then GetString conf ''webconfig.kafka_producer.topic'' '''' else ''''),
      supplementaryAppendingEnabled = GetBoolean conf ''webconfig.supplementary_appending_enabled'' True,
      upstreamProfilesEnabled = GetBoolean conf ''webconfig.upstream_profiles_enabled'' False,
      queryParamsValidationEnabled = GetBoolean conf ''webconfig.query_params_validation_enabled'' False,
      minTrust = GetInt32 conf ''webconfig.min_trust'' 0,
      validSubdocIdMap = valid_subdoc_ids conf,
      filterOutputByBitmapEnabled = GetBoolean conf ''webconfig.filter_output_by_bitmap_enabled'' False,
      defaultEmptyProfileEnabled = GetBoolean conf ''webconfig.default_empty_profile_enabled'' False,
      bitmapFilterExemptSubdocIds = GetStringList conf ''webconfig.bitmap_filter_exempt_subdoc_ids'',
      murmur3 = lb_murmur3 L, errs = lb_errs L\<rparr>"

definition token_flags :: "config \<Rightarrow> router_flags" where
  "token_flags conf =
     \<lparr>tokenApiEnabled = GetBoolean conf ''webconfig.token_api_enabled'' False,
      deviceApiTokenAuthEnabled = GetBoolean conf ''webconfig.jwt.device_api_token_auth.enabled'' True,
      serverApiTokenAuthEnabled = GetBoolean conf ''webconfig.jwt.server_api_token_auth.enabled'' False\<rparr>"

text \<open>The constructor of the program, \<open>testOnly\<close> being false.\<close>

definition NewWebconfigServer ::
  "('s, 'n, 'k, 'e) libraries \<Rightarrow> server_config \<Rightarrow> ('s, 'k, 'e) started result" where
  "NewWebconfigServer L sc =
     (let conf = sc_Config sc; F = lb_files L
      in and_then (GetDatabaseClient (lb_sqlite L) (lb_cassandra L) sc) (\<lambda>opened.
         and_then (NewTokenManager F (lb_public L) (lb_private L) conf) (\<lambda>tokenManager.
         let jwks = NewJwksManager (lb_keyset L) conf;
             jwksEnabled = GetBoolean conf ''webconfig.jwt.api_token.jwks_enabled'' False
         in if jwksEnabled \<and> isl jwks then Panic
            else and_then (kafka_producer F (lb_producer L) conf) (\<lambda>producer.
              let tlsConfig = (case NewTlsConfig F conf of Inl _ \<Rightarrow> None | Inr t \<Rightarrow> Some t)
              in Ok \<lparr>st_server = server_settings L conf (lb_client L opened),
                   st_flags = token_flags conf,
                   st_parts =
                     \<lparr>pt_tokenManager = tokenManager,
                      pt_jwksCapabilities = (case jwks of Inl _ \<Rightarrow> None | Inr caps \<Rightarrow> Some caps),
                      pt_listen = (if GetBoolean conf ''webconfig.server.localhost_only'' False then ''localhost'' else '''',
                        GetInt32 conf ''webconfig.server.port'' 8080),
                      pt_readTimeout = GetInt32 conf ''webconfig.server.read_timeout_in_secs'' 3,
                      pt_writeTimeout = GetInt32 conf ''webconfig.server.write_timeout_in_secs'' 3,
                      pt_webpa = NewWebpaConnector (lb_sprintf L) (lb_network L) conf tlsConfig,
                      pt_xconf = NewXconfConnector (lb_sprintf L) conf tlsConfig,
                      pt_mqtt = NewMqttConnector (lb_sprintf L) conf tlsConfig,
                      pt_upstream = NewUpstreamConnector (lb_sprintf L) conf tlsConfig,
                      pt_tlsConfig = tlsConfig,
                      pt_kafkaProducer = producer,
                      pt_notLoggedHeaders = map to_lower
                        (DefaultIgnoredHeaders @ GetStringList conf ''webconfig.log.ignored_headers''),
                      pt_metricsEnabled = GetBoolean conf ''webconfig.server.metrics_enabled'' True,
                      pt_factoryResetEnabled = GetBoolean conf ''webconfig.factory_reset_enabled'' False,
                      pt_kafkaEnabled = GetBoolean conf ''webconfig.kafka.enabled'' False,
                      pt_tracer = NewXpcTracer (lb_otel L) F conf\<rparr>\<rparr>))))"

section \<open>The program\<close>

text \<open>
  What \<open>main\<close> makes before it serves: the configuration, the server, its routes and the
  consumer groups. \<open>metrics_route\<close> tells whether the route of the metrics is added.
\<close>

record ('s, 'k, 'e) booted =
  bt_started :: "('s, 'k, 'e) started"
  bt_routes :: "route list"
  bt_metrics_route :: bool
  bt_groups :: "consumer_group list"

definition boot ::
  "('s, 'n, 'k, 'e) libraries \<Rightarrow> (bytes \<Rightarrow> config) \<Rightarrow> string \<Rightarrow> string \<Rightarrow> ('s, 'k, 'e) booted result" where
  "boot L parse now configFile =
     and_then (must (to_result (NewServerConfig (lb_files L) parse configFile))) (\<lambda>sc.
     and_then (NewWebconfigServer L sc) (\<lambda>st.
     and_then (must (to_result (NewKafkaConsumerGroups (lb_files L) (lb_broker L) now sc (appName (st_server st))))) (\<lambda>groups.
       Ok \<lparr>bt_started = st, bt_routes = GetRouter (st_flags st) False,
           bt_metrics_route = pt_metricsEnabled (st_parts st), bt_groups = groups\<rparr>)))"

section \<open>Facts\<close>

lemma and_then_Ok [simp]: "and_then m k = Ok y \<longleftrightarrow> (\<exists>x. m = Ok x \<and> k x = Ok y)"
  by (cases m) (auto simp: and_then_def)

lemma must_Ok [simp]: "must m = Ok x \<longleftrightarrow> m = Ok x"
  by (cases m) (auto simp: must_def)

lemma to_result_Ok [simp]: "to_result r = Ok x \<longleftrightarrow> r = Inr x"
  by (cases r) (auto simp: to_result_def)

lemma wrap_result_Ok [simp]: "wrap_result m = Ok x \<longleftrightarrow> m = Ok x"
  by (cases m) (auto simp: wrap_result_def)

text \<open>The guard of every route of device data, for every setting.\<close>

lemma routes_guards:
  assumes "rt \<in> set (GetRouter f False)" "(ms, h) \<in> set (rt_methods rt)" "touches_data h"
  shows "rt_guard rt = (if h = MultipartConfig then if deviceApiTokenAuthEnabled f then Cpe else NoAuth
    else if serverApiTokenAuthEnabled f then Api else NoAuth)"
  using assms by (auto simp: GetRouter_def AddBaseRoutes_def plain_def server_guard_def device_guard_def touches_data_def
      split: if_splits)

lemma NewWebconfigServer_Ok:
  assumes "NewWebconfigServer L sc = Ok st"
  shows "st_flags st = token_flags (sc_Config sc)"
    "\<exists>opened. GetDatabaseClient (lb_sqlite L) (lb_cassandra L) sc = Ok opened
      \<and> st_server st = server_settings L (sc_Config sc) (lb_client L opened)"
    "NewTokenManager (lb_files L) (lb_public L) (lb_private L) (sc_Config sc) = Ok (pt_tokenManager (st_parts st))"
  using assms by (auto simp: NewWebconfigServer_def Let_def split: if_splits)

text \<open>The keys of the token manager: one entry per name, nil where the file gave no key.\<close>

lemma load_keys_Ok:
  assumes "load_keys load kids m = Ok keys"
  shows "fst ` set keys = fst ` set m \<union> set kids
    \<and> (\<forall>kid dk. map_of keys kid = Some dk \<longrightarrow> load kid = Ok dk \<or> map_of m kid = Some dk \<and> kid \<notin> set kids)"
  using assms
proof (induction kids arbitrary: m)
  case (Cons kid kids)
  then obtain dk where l: "load kid = Ok dk" and r: "load_keys load kids (gomap_put kid dk m) = Ok keys" by auto
  have "fst ` set (gomap_put kid dk m) = insert kid (fst ` set m)"
    by (simp add: gomap_put_def dom_update)
  with Cons.IH[OF r] l show ?case by (auto split: if_splits)
qed auto

lemma NewTokenManager_keys:
  assumes "NewTokenManager F parsePublic parsePrivate conf = Ok t"
  shows "\<exists>kids. cf_keys conf ''webconfig.jwt.kid'' = Some kids \<and> fst ` set (decodeKeys (to_manager t)) = set kids
    \<and> (\<forall>kid dk. map_of (decodeKeys (to_manager t)) kid = Some dk \<longrightarrow>
        (case loadDecodeKey F parsePublic (GetString conf (''webconfig.jwt.kid.'' @ kid @ ''.public_key_file'') '''') of
           Inr k \<Rightarrow> dk = Some k | Inl _ \<Rightarrow> dk = None \<and> \<not> GetBoolean conf ''webconfig.panic_exit_enabled'' False))"
proof -
  let ?load = "\<lambda>kid. key_or_nil (GetBoolean conf ''webconfig.panic_exit_enabled'' False)
    (loadDecodeKey F parsePublic (GetString conf (''webconfig.jwt.kid.'' @ kid @ ''.public_key_file'') ''''))"
  from assms obtain kids keys where k: "cf_keys conf ''webconfig.jwt.kid'' = Some kids"
      "load_keys ?load kids [] = Ok keys" "decodeKeys (to_manager t) = keys"
    by (auto simp: NewTokenManager_def Let_def split: option.splits)
  from load_keys_Ok[OF k(2)] k(1,3) show ?thesis
    by (auto simp: key_or_nil_def split: sum.splits if_splits)
qed

lemma map_sum_Inr: "map_sum f g r = Inr x \<longleftrightarrow> (\<exists>y. r = Inr y \<and> x = g y)"
  by (cases r) auto

text \<open>Every group that runs is enabled, and its session starts where the settings say.\<close>

lemma NewKafkaConsumerGroup_Some:
  assumes "NewKafkaConsumerGroup F B now conf app name = Inr (Some g)"
  shows "GetBoolean conf (kafka_prefix name @ ''.enabled'') False \<and> kg_topics g \<noteq> []
    \<and> ((ks_topicPartitionsMap (kg_consumer g) \<noteq> None) = GetBoolean conf (kafka_prefix name @ ''.newest'') False)
    \<and> (\<forall>(t, p, off) \<in> set (consumer_Setup (kg_consumer g)). off = OffsetNewest)"
  using assms
  by (auto simp: NewKafkaConsumerGroup_def Let_def NewConsumer_def consumer_Setup_def initial_offset_def
      OffsetOldest_def OffsetNewest_def map_sum_Inr
      split: if_splits sum.splits option.splits prod.splits)

lemma more_groups_in:
  "more_groups new names acc = Inr gs \<Longrightarrow> g \<in> set gs \<Longrightarrow> g \<in> set acc \<or> (\<exists>n \<in> set names. new n = Inr (Some g))"
proof (induction names arbitrary: acc)
  case (Cons n names)
  then show ?case by (fastforce split: sum.splits option.splits)
qed simp

lemma boot_Ok:
  assumes "boot L parse now f = Ok b" "fl_read (lb_files L) f = Inr bs"
  shows "bt_routes b = GetRouter (token_flags (parse bs)) False"
    "NewTokenManager (lb_files L) (lb_public L) (lb_private L) (parse bs) = Ok (pt_tokenManager (st_parts (bt_started b)))"
    "minTrust (st_server (bt_started b)) = GetInt32 (parse bs) ''webconfig.min_trust'' 0"
    "g \<in> set (bt_groups b) \<Longrightarrow> \<exists>name app. NewKafkaConsumerGroup (lb_files L) (lb_broker L) now (parse bs) app name = Inr (Some g)"
proof -
  let ?sc = "\<lparr>sc_Config = parse bs, sc_configBytes = bs\<rparr>"
  from assms obtain st groups where s: "sc_Config ?sc = parse bs" "NewWebconfigServer L ?sc = Ok st"
      "NewKafkaConsumerGroups (lb_files L) (lb_broker L) now ?sc (appName (st_server st)) = Inr groups"
      "bt_started b = st" "bt_routes b = GetRouter (st_flags st) False" "bt_groups b = groups"
    by (auto simp: boot_def NewServerConfig_def)
  note n = NewWebconfigServer_Ok[OF s(2)]
  show "bt_routes b = GetRouter (token_flags (parse bs)) False" using n(1) s by simp
  show "NewTokenManager (lb_files L) (lb_public L) (lb_private L) (parse bs) = Ok (pt_tokenManager (st_parts (bt_started b)))"
    using n(3) s by simp
  show "minTrust (st_server (bt_started b)) = GetInt32 (parse bs) ''webconfig.min_trust'' 0"
    using n(2) s by (auto simp: server_settings_def)
  show "\<exists>name app. NewKafkaConsumerGroup (lb_files L) (lb_broker L) now (parse bs) app name = Inr (Some g)"
    if "g \<in> set (bt_groups b)"
  proof -
    have "more_groups (NewKafkaConsumerGroup (lb_files L) (lb_broker L) now (parse bs) (appName (st_server st)))
        (''root'' # KafkaClusterNames ?sc) [] = Inr groups"
      using s(3) by (simp add: NewKafkaConsumerGroups_def)
    from more_groups_in[OF this, of g] s(6) that show ?thesis by auto
  qed
qed

end
