(* ===== verification/StartupSample.thy ===== *)
theory StartupSample
  imports ConfigSample Startup
begin

text \<open>Settings and libraries for the witnesses about the start of the program.\<close>

definition table_config ::
  "(string \<times> string) list \<Rightarrow> (string \<times> bool) list \<Rightarrow> (string \<times> string list) list \<Rightarrow> config" where
  "table_config strings bools keys =
     \<lparr>cf_string = map_of strings, cf_bool = map_of bools, cf_int = \<lambda>_. None, cf_list = \<lambda>_. None, cf_keys = map_of keys\<rparr>"

definition sample_files :: files where
  "sample_files = \<lparr>fl_missing = \<lambda>_. False, fl_read = Inr, fl_pem = \<lambda>_. True, fl_keypair = \<lambda>c k. Inr (c @ k),
     fl_env = \<lambda>_. '''', fl_text = \<lambda>_. ''''\<rparr>"

definition sample_otel :: otel where
  "sample_otel = \<lparr>ot_exporter = \<lambda>_. None,
     ot_start = \<lambda>_ _ attrs. \<lparr>sp_TraceID = ''1'', sp_attributes = attrs, sp_error = None, sp_ended = False\<rparr>,
     ot_inject = \<lambda>_. [(''traceparent'', ''t'')], ot_status_text = \<lambda>_. ''''\<rparr>"

definition boot_config :: config where
  "boot_config = table_config
     [(''webconfig.database.active_driver'', ''sqlite''), (''webconfig.jwt.kid.k1.public_key_file'', ''k1.pem''),
      (''webconfig.kafka.brokers'', ''b1,b2''), (''webconfig.kafka.topics'', ''t'')]
     [(''webconfig.kafka.enabled'', True), (''webconfig.kafka.newest'', True)]
     [(''webconfig.jwt.kid'', [''k1''])]"

definition sample_libraries :: "(tables sqlite, nat, unit, unit) libraries" where
  "sample_libraries = \<lparr>lb_files = sample_files, lb_sqlite = NewSqliteClient (\<lambda>_. None), lb_cassandra = \<lambda>_ _. Panic,
     lb_client = \<lambda>opened. sqlite_client mem_engine (case opened of SqliteOpened x \<Rightarrow> so_config x | CassandraOpened _ \<Rightarrow> sample_cfg),
     lb_public = \<lambda>_. Inr (), lb_private = \<lambda>_. Inr (), lb_keyset = \<lambda>_ _. None, lb_producer = \<lambda>_. None,
     lb_sprintf = \<lambda>t args. concat args, lb_network = sample_network (Response 200 [] (Inr '''')), lb_otel = sample_otel,
     lb_broker = \<lparr>br_consumer = \<lambda>_. None, br_partitions = \<lambda>_. Inr [0, 1], br_close = None, br_group = \<lambda>_ _. None\<rparr>,
     lb_murmur3 = length, lb_errs = \<lparr>ef_text = (\<lambda>_. ''error''), ef_json = (\<lambda>_. JNull)\<rparr>\<rparr>"

definition succeeds :: "'a result \<Rightarrow> bool" where
  "succeeds r = (case r of Ok _ \<Rightarrow> True | _ \<Rightarrow> False)"

lemma boots: "\<exists>b. boot sample_libraries (\<lambda>_. boot_config) ''1'' ''webconfig.conf'' = Ok b"
proof -
  have "succeeds (boot sample_libraries (\<lambda>_. boot_config) ''1'' ''webconfig.conf'')" by code_simp
  then show ?thesis by (auto simp: succeeds_def split: outcome.splits)
qed

end
