(* ===== verification/ServerRun.thy ===== *)
theory ServerRun imports ConfigFacts ConfigHandlers Gateway CassandraFacts begin

text \<open>
  The whole server: a request goes through the router, its guard and its handler, and the next
  one meets the database that it left. Here the parts of package http come together; what is
  proved of every sequence of HTTP requests is that they change nothing of a device that none
  of them is about, or that a request without an accepted token is about.
\<close>

section \<open>One request\<close>

text \<open>
  What a running server consists of: the server of http/webconfig_server.go with its database
  client, the services and the libraries it uses, its keys and settings, and the constants of
  the build that \<open>VersionHandler\<close> reports.
\<close>

record ('s, 'n, 'k) deployment =
  dp_server :: "'s server"
  dp_services :: "'n services"
  dp_jwt :: "'k jwt"
  dp_manager :: "'k token_manager"
  dp_jwks_capabilities :: "string list"
  dp_flags :: router_flags
  dp_parse_token :: "bytes \<Rightarrow> goerr + (string \<times> int \<times> string)"
  dp_parse_root :: "bytes \<Rightarrow> goerr + rootdoc option"
  dp_config :: bytes
  dp_commit :: string
  dp_built :: string
  dp_binary :: string
  dp_branch :: string
  dp_binary_built :: string
  dp_open_lib :: string

text \<open>A request with the segments of its path, and the clock readings and random values it meets.\<close>

record arrival =
  ar_path :: "string list"
  ar_request :: http_request
  ar_meta :: request_meta
  ar_ticks :: ticks
  ar_now_ns :: int
  ar_date :: string

definition ar_now_ms :: "arrival \<Rightarrow> int" where "ar_now_ms a = unix_milli (ar_now_ns a)"
definition ar_now_s :: "arrival \<Rightarrow> int" where "ar_now_s a = ar_now_ns a div 1000000000"

text \<open>A handler that only knows the database, on the state with the services.\<close>

definition at_doc :: "('s web, 'a) prog \<Rightarrow> (('s, 'n) backend web, 'a) prog" where
  "at_doc m = (\<lambda>s.
     case m \<lparr>web_db = be_db (web_db s), web_w = web_w s\<rparr> of
       (r, s') \<Rightarrow> (r, s\<lparr>web_db := (web_db s)\<lparr>be_db := web_db s'\<rparr>, web_w := web_w s'\<rparr>))"

definition run_handler ::
  "('s, 'n, 'k) deployment \<Rightarrow> arrival \<Rightarrow> handler \<Rightarrow> http_request \<Rightarrow> (('s, 'n) backend web, unit) prog" where
  "run_handler dp a h r =
     (let sv = dp_server dp; sx = dp_services dp
      in case h of
           Monitor \<Rightarrow> at_doc MonitorHandler
         | Version \<Rightarrow> at_doc (VersionHandler (dp_commit dp) (dp_built dp) (dp_binary dp) (dp_branch dp)
               (dp_binary_built dp) (dp_open_lib dp))
         | ServerConfig \<Rightarrow> at_doc (ServerConfigHandler (dp_config dp))
         | CreateToken \<Rightarrow> at_doc (CreateTokenHandler sv (sx_generate sx) (dp_parse_token dp))
         | Notification \<Rightarrow> at_doc (NotificationHandler sv)
         | MultipartConfig \<Rightarrow> MultipartConfigHandler sv sx (ar_ticks a) (ar_now_ms a) r
         | SupportedGroups \<Rightarrow> at_doc (GetSupportedGroupsHandler sv r)
         | GetSub \<Rightarrow> at_doc (GetSubDocumentHandler sv r)
         | PostSub \<Rightarrow> at_doc (PostSubDocumentHandler sv r (ar_now_ns a))
         | DeleteSub \<Rightarrow> at_doc (DeleteSubDocumentHandler sv r)
         | PokeDevice \<Rightarrow> PokeHandler sv sx (ar_ticks a) (ar_now_s a) (ar_date a) r
         | GetRoot \<Rightarrow> at_doc (GetRootDocumentHandler sv r)
         | PostRoot \<Rightarrow> at_doc (PostRootDocumentHandler sv (dp_parse_root dp) r)
         | DeleteDoc \<Rightarrow> at_doc (DeleteDocumentHandler sv r)
         | GetRef \<Rightarrow> at_doc (GetRefSubDocumentHandler sv r)
         | PostRef \<Rightarrow> at_doc (PostRefSubDocumentHandler sv r)
         | DeleteRef \<Rightarrow> at_doc (DeleteRefSubDocumentHandler sv r))"

text \<open>When there is no route the router answers; no handler runs.\<close>

definition serve_http ::
  "('s, 'n, 'k) deployment \<Rightarrow> arrival \<Rightarrow> (('s, 'n) backend web, unit) prog" where
  "serve_http dp a =
     (case serve (dp_server dp) (dp_jwt dp) (dp_manager dp) (dp_jwks_capabilities dp) (ar_meta a)
         (GetRouter (dp_flags dp) False) (run_handler dp a) (ar_path a) (ar_request a) of
        None \<Rightarrow> ret ()
      | Some k \<Rightarrow> k)"

section \<open>Sequences of requests\<close>

text \<open>
  A request starts with a writer of package net/http and leaves the backend to the next one,
  also when its handler panics: the library recovers the panic of a handler.
\<close>

definition new_writer :: writer where
  "new_writer = \<lparr>w_net = new_net_writer, w_x = None\<rparr>"

definition http_step :: "('s, 'n, 'k) deployment \<Rightarrow> arrival \<Rightarrow> ('s, 'n) backend \<Rightarrow> ('s, 'n) backend" where
  "http_step dp a b = web_db (snd (serve_http dp a \<lparr>web_db = b, web_w = new_writer\<rparr>))"

fun http_steps :: "('s, 'n, 'k) deployment \<Rightarrow> arrival list \<Rightarrow> ('s, 'n) backend \<Rightarrow> ('s, 'n) backend" where
  "http_steps dp [] b = b"
| "http_steps dp (a # as) b = http_steps dp as (http_step dp a b)"

text \<open>
  The devices whose rows a handler may change: the one of the path, and for a POST of a
  sub-document and a poke those of the query. The GET of a device reads its mac back from a
  header, where a mac that is not printable is lost.
\<close>

definition handler_devices :: "handler \<Rightarrow> string gomap \<Rightarrow> url_values \<Rightarrow> string list" where
  "handler_devices h vars query =
     (let mac = to_upper (gomap_get '''' vars ''mac'')
      in case h of
           MultipartConfig \<Rightarrow> [mac, if IsPrintable mac then mac else '''']
         | PostSub \<Rightarrow> (case request_devices mac query of None \<Rightarrow> [] | Some ids \<Rightarrow> ids)
         | PokeDevice \<Rightarrow> (case request_devices mac query of None \<Rightarrow> [] | Some ids \<Rightarrow> ids)
         | DeleteSub \<Rightarrow> [mac] | PostRoot \<Rightarrow> [mac] | DeleteDoc \<Rightarrow> [mac]
         | _ \<Rightarrow> [])"

text \<open>The token of a request is one that the guard of the handler accepts.\<close>

definition accepted :: "('s, 'n, 'k) deployment \<Rightarrow> handler \<Rightarrow> http_request \<Rightarrow> bool" where
  "accepted dp h r =
     (let token = bearer_token (rq_header r)
      in if h = MultipartConfig
         then deviceApiTokenAuthEnabled (dp_flags dp) \<longrightarrow>
           (case map_of (rq_vars r) ''mac'' of
              None \<Rightarrow> False
            | Some mac \<Rightarrow> (case VerifyCpeToken (dp_jwt dp) (dp_manager dp) token (to_lower (to_upper mac)) of
                Some (Inr (partnerId, trust)) \<Rightarrow> minTrust (dp_server dp) \<le> trust
              | _ \<Rightarrow> False))
         else serverApiTokenAuthEnabled (dp_flags dp) \<longrightarrow>
           ws_VerifyApiToken (dp_server dp) (dp_jwt dp) (dp_manager dp) (dp_jwks_capabilities dp) token
             = Some (Inr ()))"

text \<open>The devices of a request that a handler runs for.\<close>

definition arrival_devices :: "('s, 'n, 'k) deployment \<Rightarrow> arrival \<Rightarrow> string list" where
  "arrival_devices dp a =
     (case dispatch (GetRouter (dp_flags dp) False) (ar_path a) (rq_method (ar_request a)) of
        Found g h vars \<Rightarrow>
          (if accepted dp h ((ar_request a)\<lparr>rq_vars := vars\<rparr>)
           then handler_devices h vars (rq_query (ar_request a)) else [])
      | _ \<Rightarrow> [])"

section \<open>What is kept\<close>

lemma keeps_at_doc [keeps_intros]:
  "keeps (\<lambda>s. P (web_db s)) m \<Longrightarrow> keeps (\<lambda>s. db_has P (web_db s)) (at_doc m)"
  by (simp add: keeps_def at_doc_def db_has_def split: prod.split) (metis snd_conv web.select_convs(1))

lemma keeps_with_audit [keeps_intros]:
  "keeps (db_has P) m \<Longrightarrow> keeps (\<lambda>s. db_has P (web_db s)) (with_audit m)"
  by (auto simp: keeps_def with_audit_def on_db_def db_has_def split: prod.split option.split)
     (metis snd_conv backend.select_convs(1) backend.surjective backend.update_convs(2))+

lemma keeps_answers_db:
  "keeps (\<lambda>s. P (web_db s)) (w_WriteHeader c)" "keeps (\<lambda>s. P (web_db s)) (w_Write b)"
  "keeps (\<lambda>s. P (web_db s)) (set_header k v)" "keeps (\<lambda>s. P (web_db s)) (SetAuditValue k i)"
  "keeps (\<lambda>s. P (web_db s)) (set_header_opt k o')" "keeps (\<lambda>s. P (web_db s)) (set_headers h)"
  by (auto simp: set_header_opt_def set_headers_def split: option.splits
      intro!: keeps_intros keeps_answers keeps_WriteHeader)

declare keeps_answers_db [keeps_intros]
declare on_db_keeps [keeps_intros]

text \<open>The contract also has to say that shared payloads belong to no device.\<close>

locale db_frame_refs = db_frame c subs roots
  for c :: "'s db_client" and subs :: "'s \<Rightarrow> string \<Rightarrow> 'v" and roots :: "'s \<Rightarrow> string \<Rightarrow> 'w" +
  assumes set_ref_subs: "subs (snd (db_SetRefSubDocument c ref d s)) m = subs s m"
    and set_ref_roots: "roots (snd (db_SetRefSubDocument c ref d s)) m = roots s m"
    and del_ref_subs: "subs (snd (db_DeleteRefSubDocument c ref s)) m = subs s m"
    and del_ref_roots: "roots (snd (db_DeleteRefSubDocument c ref s)) m = roots s m"
begin

text \<open>What is stored for one device.\<close>

definition holds :: "string \<Rightarrow> 'v \<Rightarrow> 'w \<Rightarrow> 's \<Rightarrow> bool" where
  "holds m v w s \<longleftrightarrow> subs s m = v \<and> roots s m = w"

lemma others_holds: "(\<And>s0. keeps (others_same mac s0) p) \<Longrightarrow> m \<noteq> mac \<Longrightarrow> keeps (holds m v w) p"
  by (rule keepsI) (metis holds_def keeps_def others_same_def others_same_refl)

lemma others_db_holds:
  fixes p :: "(('s, 'n) backend, 'a) prog"
  assumes "\<And>s0. keeps (db_has (others_same mac s0)) p" "m \<noteq> mac"
  shows "keeps (db_has (holds m v w)) p"
proof (rule keepsI)
  fix s :: "('s, 'n) backend" assume s: "db_has (holds m v w) s"
  have "db_has (others_same mac (be_db s)) (snd (p s))"
    using assms(1)[of "be_db s"] by (simp add: keeps_def db_has_def)
  then show "db_has (holds m v w) (snd (p s))"
    using s assms(2) by (simp add: db_has_def others_same_def holds_def)
qed

lemma holds_refs [keeps_intros]:
  "keeps (holds m v w) (db_SetRefSubDocument c ref d)" "keeps (holds m v w) (db_DeleteRefSubDocument c ref)"
  by (auto intro!: keepsI simp: holds_def set_ref_subs set_ref_roots del_ref_subs del_ref_roots)

lemma holds_ops:
  assumes "m \<noteq> mac"
  shows "keeps (holds m v w) (db_SetSubDocument c mac g d st l)"
    "keeps (holds m v w) (db_DeleteSubDocument c mac g)"
    "keeps (holds m v w) (db_DeleteSubDocumentColumns c mac g cs)"
    "keeps (holds m v w) (db_DeleteDocument c mac)"
    "keeps (holds m v w) (db_SetRootDocument c mac rd)"
    "keeps (holds m v w) (db_SetRootDocumentVersion c mac ver)"
    "keeps (holds m v w) (db_DeleteRootDocumentVersion c mac)"
    "keeps (holds m v w) (UpdateStatesInBatch c mac agent now sm)"
  by (rule others_holds[OF _ assms], rule keeps_intros frame_UpdateStatesInBatch)+

section \<open>The handlers\<close>

lemma holds_read_document [keeps_intros]: "keeps P (read_document c mac b)"
  unfolding read_document_def by (auto intro!: keeps_intros split: option.splits prod.splits)

lemma holds_post_loop:
  "m \<notin> set ids \<Longrightarrow> keeps (holds m v w) (post_loop (post_device c m3 agent g d st) rvm nrv ids)"
proof (induction ids arbitrary: rvm nrv)
  case Nil
  then show ?case by simp
next
  case (Cons mac ids)
  have "keeps (holds m v w) (post_device c m3 agent g d st mac)"
    unfolding post_device_def document_or_new_def Let_def
    using Cons.prems by (auto intro!: keeps_intros holds_ops)
  with Cons show ?case by (auto intro!: keeps_intros)
qed

text \<open>Every handler leaves the devices alone that it is not about.\<close>

lemma holds_after_delete:
  assumes sv: "DatabaseClient sv = c" and m: "m \<noteq> mac"
  shows "keeps (\<lambda>s. holds m v w (web_db s)) (after_delete sv mac)"
  unfolding after_delete_def Let_def sv by (auto intro!: keeps_intros holds_ops[OF m])

lemma holds_PostSub:
  assumes sv: "DatabaseClient sv = c" and m: "m \<notin> set (handler_devices PostSub (rq_vars r) (rq_query r))"
  shows "keeps (\<lambda>s. holds m v w (web_db s)) (PostSubDocumentHandler sv r now)"
  unfolding PostSubDocumentHandler_def sv
  by (rule keepsI, erule keeps_run)
     (use m in \<open>auto simp: handler_devices_def deref_def dest!: Validate_Inr
       intro!: keeps_intros holds_post_loop split: sum.splits option.splits\<close>)

lemma holds_DeleteSub:
  assumes sv: "DatabaseClient sv = c" and m: "m \<notin> set (handler_devices DeleteSub (rq_vars r) q)"
  shows "keeps (\<lambda>s. holds m v w (web_db s)) (DeleteSubDocumentHandler sv r)"
  using m unfolding DeleteSubDocumentHandler_def sv delete_failed_def
  by (auto simp: handler_devices_def Let_def dest!: Validate_Inr
      intro!: keeps_intros holds_ops holds_after_delete sv split: sum.splits)

lemma holds_DeleteDoc:
  assumes sv: "DatabaseClient sv = c" and m: "m \<notin> set (handler_devices DeleteDoc (rq_vars r) q)"
  shows "keeps (\<lambda>s. holds m v w (web_db s)) (DeleteDocumentHandler sv r)"
  using m unfolding DeleteDocumentHandler_def sv delete_failed_def
  by (auto simp: handler_devices_def Let_def intro!: keeps_intros holds_ops holds_after_delete sv split: option.splits)

lemma holds_PostRoot:
  assumes sv: "DatabaseClient sv = c" and m: "m \<notin> set (handler_devices PostRoot (rq_vars r) q)"
  shows "keeps (\<lambda>s. holds m v w (web_db s)) (PostRootDocumentHandler sv parse r)"
  using m unfolding PostRootDocumentHandler_def sv
  by (auto simp: handler_devices_def route_mac_def Let_def intro!: keeps_intros holds_ops split: option.splits sum.splits)

lemma holds_refs_handlers:
  assumes sv: "DatabaseClient sv = c"
  shows "keeps (\<lambda>s. holds m v w (web_db s)) (PostRefSubDocumentHandler sv r)"
    "keeps (\<lambda>s. holds m v w (web_db s)) (DeleteRefSubDocumentHandler sv r)"
    "keeps (\<lambda>s. P (web_db s)) (GetRefSubDocumentHandler sv r)"
  unfolding PostRefSubDocumentHandler_def DeleteRefSubDocumentHandler_def GetRefSubDocumentHandler_def
    delete_failed_def Let_def sv
  by (auto intro!: keeps_intros split: sum.splits)

lemma holds_reading:
  assumes sv: "DatabaseClient sv = c"
  shows "keeps (\<lambda>s. P (web_db s)) (GetSubDocumentHandler sv r)"
    "keeps (\<lambda>s. P (web_db s)) (GetRootDocumentHandler sv r)"
    "keeps (\<lambda>s. P (web_db s)) (GetSupportedGroupsHandler sv r)"
  unfolding GetSubDocumentHandler_def GetRootDocumentHandler_def GetSupportedGroupsHandler_def
    writeStateHeaders_def Let_def sv
  by (auto intro!: keeps_intros split: sum.splits)

section \<open>The GET of a device and the pokes\<close>

lemma holds_BuildWebconfigResponse:
  assumes sv: "DatabaseClient sv = c" and mac: "mac = hget h HeaderDeviceId"
    and m: "m \<noteq> mac" "m \<noteq> (if IsPrintable mac then mac else '''')"
  shows "keeps (db_has (holds m v w)) (BuildWebconfigResponse sv sx h tk)"
proof -
  have get: "keeps (holds m v w) (BuildGetDocument c h flds t t')" for flds t t'
    by (rule others_holds[OF frame_BuildGetDocument]) (unfold rheader_Get_value mac[symmetric], rule m(2))
  note reset = others_db_holds[OF frame_BuildFactoryResetResponse[OF sv mac] m(1)]
    and upstream = others_db_holds[OF frame_answer_upstream[OF sv] m(1)]
    and local = others_holds[OF frame_answer_local[OF sv] m(1)]
  show ?thesis
    unfolding BuildWebconfigResponse_def Let_def mac[symmetric] sv
    by (intro keeps_seqE keeps_put_field, rule keepsI, erule keeps_run)
       (auto intro!: keeps_intros get reset upstream local split: option.splits)
qed

lemma holds_precooked_answer:
  assumes sv: "DatabaseClient sv = c" and m: "m \<noteq> mac" and a: "precooked_answer sv mac tk now t = Some p"
  shows "keeps (\<lambda>s. db_has (holds m v w) (web_db s)) p"
proof -
  have "keeps (holds m v w) (mark_delivered c mac u t st)" for u st
    unfolding mark_delivered_def Let_def by (auto intro!: keeps_intros holds_ops[OF m])
  with a show ?thesis
    unfolding precooked_answer_def sv send_telemetry_def Let_def
    by (auto intro!: keeps_intros split: option.splits if_splits)
qed

lemma holds_profiles_answer:
  "keeps (\<lambda>s. db_has P (web_db s)) (profiles_answer sv sx tk mac r rd)"
  unfolding profiles_answer_def finish_profile_def send_telemetry_def Let_def
  by (auto intro!: keeps_intros split: sum.splits)

lemma holds_Supplementary:
  assumes sv: "DatabaseClient sv = c" and m: "m \<notin> set (handler_devices MultipartConfig (rq_vars r) q)"
  shows "keeps (\<lambda>s. db_has (holds m v w) (web_db s)) (MultipartSupplementaryHandler sv sx tk now r)"
proof -
  have or: "keeps P p \<Longrightarrow> keeps P (or_missing c p)" for P :: "'s \<Rightarrow> bool" and p :: "('s, 'x) prog"
    unfolding or_missing_def by (auto intro!: keeps_intros)
  have ans: "keeps (\<lambda>s. db_has (holds m v w) (web_db s))
      (case Option.bind t (precooked_answer sv (to_upper x) tk now) of None \<Rightarrow> p | Some answer \<Rightarrow> answer)"
    if "map_of (rq_vars r) ''mac'' = Some x" "keeps (\<lambda>s. db_has (holds m v w) (web_db s)) p" for p t x
    using that m by (cases t)
      (auto simp: handler_devices_def gomap_get_def Let_def intro: holds_precooked_answer[OF sv] split: option.splits)
  show ?thesis
    unfolding MultipartSupplementaryHandler_def Let_def sv
    by (auto intro!: keeps_intros or holds_profiles_answer ans split: option.splits)
qed

lemma ValidateQueryParams_device:
  assumes "ValidateQueryParams q h vm flds = (h', flds', err)"
  shows "hget h' HeaderDeviceId = hget h HeaderDeviceId"
proof -
  have "CanonicalHeaderKey HeaderDeviceId \<noteq> CanonicalHeaderKey HeaderDocName" by code_simp
  then show ?thesis
    using assms by (auto simp: ValidateQueryParams_def Let_def split: option.splits list.splits if_splits)
qed

lemma holds_MultipartConfig:
  assumes sv: "DatabaseClient sv = c" and m: "m \<notin> set (handler_devices MultipartConfig (rq_vars r) q)"
  shows "keeps (\<lambda>s. db_has (holds m v w) (web_db s)) (MultipartConfigHandler sv sx tk now r)"
proof -
  let ?mac = "to_upper (route_mac r)"
  have key: "CanonicalHeaderKey HeaderDeviceId \<noteq> CanonicalHeaderKey HeaderSchemaVersion" by code_simp
  have m': "m \<noteq> ?mac" "m \<noteq> (if IsPrintable ?mac then ?mac else '''')"
    using m by (auto simp: handler_devices_def route_mac_def Let_def)
  have reply: "keeps (db_has (holds m v w)) (BuildWebconfigResponse sv sx h tk)"
      "keeps (db_has (holds m v w)) (BuildWebconfigResponse sv sx (hset h HeaderSchemaVersion ''none'') tk)"
    if "ValidateQueryParams qs (hset (rq_header r) HeaderDeviceId ?mac) vm flds = (h, f', e)" for qs vm flds h f' e
    by (rule holds_BuildWebconfigResponse[OF sv _ m'], use ValidateQueryParams_device[OF that] key in simp)+
  show ?thesis
    unfolding MultipartConfigHandler_def Let_def
    by (auto intro!: keeps_intros holds_Supplementary[OF sv m] reply split: option.splits prod.splits)
qed

lemma holds_poke_device:
  assumes sv: "DatabaseClient sv = c" and m: "m \<noteq> mac"
  shows "keeps (db_has (holds m v w)) (poke_device sv sx tk now_s date agent mac)"
  unfolding poke_device_def Let_def sv
  by (auto intro!: keeps_intros keeps_reading frame_BuildMqttSendDocument holds_ops[OF m] split: option.splits)

lemma holds_poke_devices:
  assumes sv: "DatabaseClient sv = c" and "m \<notin> set ids"
  shows "keeps (db_has (holds m v w)) (poke_devices (poke_device sv sx tk now_s date agent) ids)"
  using assms(2) by (induction ids) (auto intro!: keeps_intros holds_poke_device[OF sv] split: sum.splits)

lemma holds_Poke:
  assumes sv: "DatabaseClient sv = c" and m: "m \<notin> set (handler_devices PokeDevice (rq_vars r) (rq_query r))"
  shows "keeps (\<lambda>s. db_has (holds m v w) (web_db s)) (PokeHandler sv sx tk now_s date r)"
proof -
  have ids: "m \<notin> set ids" if "request_devices (to_upper (route_mac r)) (rq_query r) = Some ids" for ids
    using m that by (simp add: handler_devices_def route_mac_def Let_def)
  have smart: "keeps P (smart_poke sv mac)" for P and mac
    unfolding smart_poke_def Let_def sv by (auto intro!: keeps_intros frame_BuildMqttSendDocument)
  have send: "keeps (\<lambda>s. db_has (holds m v w) (web_db s)) (send_poke sv sx tk r mac token p)" for mac token p
    unfolding send_poke_def poke_error_def Let_def by (auto intro!: keeps_intros split: option.splits)
  have end_: "keeps (\<lambda>s. db_has (holds m v w) (web_db s)) (poke_answer sv e)" for e
    unfolding poke_answer_def by (auto intro!: keeps_intros split: poke_end.splits)
  show ?thesis
    unfolding PokeHandler_def Let_def
    by (rule keepsI, erule keeps_run)
       (auto simp: deref_def dest!: ids intro!: keeps_intros smart send end_ holds_poke_devices[OF sv]
         split: option.splits sum.splits)
qed

section \<open>All requests\<close>

lemma keeps_simple_handlers:
  "keeps (\<lambda>s. P (web_db s)) MonitorHandler" "keeps (\<lambda>s. P (web_db s)) (VersionHandler c1 c2 c3 c4 c5 c6)"
  "keeps (\<lambda>s. P (web_db s)) (ServerConfigHandler cb)" "keeps (\<lambda>s. P (web_db s)) (NotificationHandler sv)"
  "keeps (\<lambda>s. P (web_db s)) (CreateTokenHandler sv g parse)"
  unfolding MonitorHandler_def VersionHandler_def ServerConfigHandler_def NotificationHandler_def CreateTokenHandler_def
  by (auto intro!: keeps_intros split: sum.splits option.splits)

lemma holds_run_handler:
  assumes sv: "DatabaseClient (dp_server dp) = c" and m: "m \<notin> set (handler_devices h (rq_vars r) (rq_query r))"
  shows "keeps (\<lambda>s. db_has (holds m v w) (web_db s)) (run_handler dp a h r)"
  using m
  by (cases h) (simp_all add: run_handler_def Let_def keeps_at_doc keeps_simple_handlers holds_MultipartConfig[OF sv]
      holds_reading[OF sv] holds_refs_handlers[OF sv] holds_PostSub[OF sv] holds_DeleteSub[OF sv] holds_Poke[OF sv]
      holds_PostRoot[OF sv] holds_DeleteDoc[OF sv])

end

section \<open>The guards\<close>

lemma keeps_on_raw [keeps_intros]: "keeps (\<lambda>s. P (web_db s)) m \<Longrightarrow> keeps (\<lambda>s. P (web_db s)) (on_raw m)"
  by (auto simp: keeps_def on_raw_def split: prod.split) (metis snd_conv web.select_convs(1) web.surjective web.update_convs(2))

lemma keeps_guard_parts [keeps_intros]:
  "keeps (\<lambda>s. P (web_db s)) (logRequestStarts sv me r)" "keeps (\<lambda>s. P (web_db s)) (forbid sv)"
  "keeps (\<lambda>s. P (web_db s)) (refuse_token sv)"
  unfolding logRequestStarts_def forbid_def refuse_token_def by (auto intro!: keeps_intros)

text \<open>Without an accepted token a guard of the API or of devices runs nothing of the handler.\<close>

lemma keeps_ApiMiddleware:
  assumes "ws_VerifyApiToken sv J m caps (bearer_token (rq_header r)) = Some (Inr ()) \<Longrightarrow> keeps (\<lambda>s. P (web_db s)) next"
  shows "keeps (\<lambda>s. P (web_db s)) (ApiMiddleware sv J m caps me r next)"
  unfolding ApiMiddleware_def Let_def
  by (auto intro!: keeps_intros assms simp: deref_def split: option.splits sum.splits)

lemma keeps_CpeMiddleware:
  assumes "\<And>mac partner trust. map_of (rq_vars r) ''mac'' = Some mac \<Longrightarrow>
      VerifyCpeToken J m (bearer_token (rq_header r)) (to_lower (to_upper mac)) = Some (Inr (partner, trust)) \<Longrightarrow>
      minTrust sv \<le> trust \<Longrightarrow> keeps (\<lambda>s. P (web_db s)) next"
  shows "keeps (\<lambda>s. P (web_db s)) (CpeMiddleware sv J m me r next)"
proof -
  have "keeps (\<lambda>s. P (web_db s)) (admit_device sv partner trust next)"
    if "map_of (rq_vars r) ''mac'' = Some mac"
      "VerifyCpeToken J m (bearer_token (rq_header r)) (to_lower (to_upper mac)) = Some (Inr (partner, trust))"
    for mac partner trust
    unfolding admit_device_def Let_def
    by (auto intro!: keeps_intros assms[OF that])
  then show ?thesis
    unfolding CpeMiddleware_def Let_def
    by (auto intro!: keeps_intros simp: deref_def split: option.splits sum.splits)
qed

lemma route_guard:
  assumes "rt \<in> set (GetRouter f False)" "(ms, h) \<in> set (rt_methods rt)" "touches_data h"
  shows "rt_guard rt = (if h = MultipartConfig then if deviceApiTokenAuthEnabled f then Cpe else NoAuth
    else if serverApiTokenAuthEnabled f then Api else NoAuth)"
  using assms by (auto simp: GetRouter_def AddBaseRoutes_def plain_def server_guard_def device_guard_def touches_data_def
      split: if_splits)

lemma handler_devices_touch: "\<not> touches_data h \<Longrightarrow> handler_devices h vars q = []"
  by (cases h) (simp_all add: touches_data_def handler_devices_def)

context db_frame_refs
begin

lemma holds_serve_http:
  assumes sv: "DatabaseClient (dp_server dp) = c" and m: "m \<notin> set (arrival_devices dp a)"
  shows "keeps (\<lambda>s. db_has (holds m v w) (web_db s)) (serve_http dp a)"
proof (cases "dispatch (GetRouter (dp_flags dp) False) (ar_path a) (rq_method (ar_request a))")
  case (Found g h vars)
  let ?r = "(ar_request a)\<lparr>rq_vars := vars\<rparr>" and ?P = "\<lambda>s. db_has (holds m v w) (web_db s)"
  have run: "keeps ?P (run_handler dp a h ?r)" if "touches_data h \<Longrightarrow> accepted dp h ?r"
  proof (rule holds_run_handler[OF sv])
    show "m \<notin> set (handler_devices h (rq_vars ?r) (rq_query ?r))"
      using that m Found handler_devices_touch[of h] by (cases "touches_data h") (auto simp: arrival_devices_def)
  qed
  from dispatch_Found[OF Found] obtain rt ms where
      "rt \<in> set (GetRouter (dp_flags dp) False)" "g = rt_guard rt" "(ms, h) \<in> set (rt_methods rt)" by blast
  then have g: "touches_data h \<Longrightarrow> g = (if h = MultipartConfig
      then if deviceApiTokenAuthEnabled (dp_flags dp) then Cpe else NoAuth
      else if serverApiTokenAuthEnabled (dp_flags dp) then Api else NoAuth)"
    using route_guard by blast
  have "keeps ?P (guarded (dp_server dp) (dp_jwt dp) (dp_manager dp) (dp_jwks_capabilities dp) (ar_meta a) g ?r
      (run_handler dp a h ?r))"
  proof (cases "touches_data h")
    case False
    have "keeps ?P (run_handler dp a h ?r)" using run False by blast
    then show ?thesis
      by (cases g) (auto simp: guarded_def TestingMiddleware_def NoAuthMiddleware_def
          intro!: keeps_intros keeps_ApiMiddleware keeps_CpeMiddleware)
  next
    case True
    define hp where "hp = run_handler dp a h ?r"
    have "accepted dp h ?r \<Longrightarrow> keeps ?P hp" unfolding hp_def using run by blast
    then show ?thesis
      unfolding g[OF True] guarded_def hp_def[symmetric]
      by (auto simp: NoAuthMiddleware_def accepted_def Let_def
          intro!: keeps_intros keeps_ApiMiddleware keeps_CpeMiddleware)
  qed
  then show ?thesis by (simp add: serve_http_def serve_def Found Let_def)
qed (simp_all add: serve_http_def serve_def)

lemma http_step_same:
  assumes "DatabaseClient (dp_server dp) = c" "m \<notin> set (arrival_devices dp a)"
  shows "subs (be_db (http_step dp a b)) m = subs (be_db b) m \<and> roots (be_db (http_step dp a b)) m = roots (be_db b) m"
  using holds_serve_http[OF assms, of "subs (be_db b) m" "roots (be_db b) m"]
  by (simp add: keeps_def http_step_def db_has_def holds_def)

lemma http_steps_same:
  assumes "DatabaseClient (dp_server dp) = c" "m \<notin> (\<Union>a \<in> set as. set (arrival_devices dp a))"
  shows "subs (be_db (http_steps dp as b)) m = subs (be_db b) m \<and> roots (be_db (http_steps dp as b)) m = roots (be_db b) m"
  using assms(2)
proof (induction as arbitrary: b)
  case Nil
  then show ?case by simp
next
  case (Cons a as)
  then show ?case using http_step_same[OF assms(1), of m a b] by simp
qed

end

section \<open>Both clients\<close>

context sql_engine
begin

lemma sq_refs_tables:
  assumes "t \<noteq> ''reference_document''"
  shows "sq_tables E (snd (sq_SetRefSubDocument E ref d s)) t = sq_tables E s t"
    "sq_tables E (snd (sq_DeleteRefSubDocument E ref s)) t = sq_tables E s t"
proof -
  have ex: "keeps (\<lambda>s'. sq_tables E s' t = sq_tables E s t) (sq_exec E st vs)" if "stmt_table st = ''reference_document''" for st vs
    using assms that by (intro keeps_exec) (auto dest: sql_effect_other_table)
  have "keeps (\<lambda>s'. sq_tables E s' t = sq_tables E s t) (sq_SetRefSubDocument E ref d)"
    "keeps (\<lambda>s'. sq_tables E s' t = sq_tables E s t) (sq_DeleteRefSubDocument E ref)"
    unfolding sq_SetRefSubDocument_def sq_insertRefSubDocument_def sq_updateRefSubDocument_def
      sq_DeleteRefSubDocument_def Let_def
    by (auto intro!: keeps_intros ex)
  then show "sq_tables E (snd (sq_SetRefSubDocument E ref d s)) t = sq_tables E s t"
    "sq_tables E (snd (sq_DeleteRefSubDocument E ref s)) t = sq_tables E s t"
    by (simp_all add: keeps_def)
qed

end

text \<open>The contract for the sqlite client over any SQL engine.\<close>

sublocale sql_engine \<subseteq> refs: db_frame_refs "sqlite_client E cfg" "sq_subs E" "sq_roots E" for cfg
  by unfold_locales (simp_all add: sqlite_client_def sq_subs_def sq_roots_def sq_refs_tables)

context cql_engine
begin

lemma ca_refs_tables:
  assumes "t \<noteq> ''reference_document''"
  shows "ca_tables E (snd (ca_SetRefSubDocument E ref d s)) t = ca_tables E s t"
    "ca_tables E (snd (ca_DeleteRefSubDocument E ref s)) t = ca_tables E s t"
proof -
  have "keeps (tables_has E (\<lambda>T. T t = ca_tables E s t)) (ca_SetRefSubDocument E ref d)"
    "keeps (tables_has E (\<lambda>T. T t = ca_tables E s t)) (ca_DeleteRefSubDocument E ref)"
    unfolding ca_SetRefSubDocument_def ca_DeleteRefSubDocument_def Let_def
    using assms by (auto intro!: keeps_intros keeps_ca_exec dest: cql_effect_other_table)
  then show "ca_tables E (snd (ca_SetRefSubDocument E ref d s)) t = ca_tables E s t"
    "ca_tables E (snd (ca_DeleteRefSubDocument E ref s)) t = ca_tables E s t"
    by (simp_all add: keeps_def tables_has_def)
qed

end

text \<open>And for the Cassandra client over any CQL session.\<close>

sublocale cql_engine \<subseteq> refs: db_frame_refs "cassandra_client E cfg" "ca_subs E" "ca_roots E" for cfg
  by unfold_locales (simp_all add: cassandra_client_def ca_subs_def ca_roots_def ca_refs_tables)

interpretation mem_refs: db_frame_refs "sqlite_client mem_engine cfg" "sq_subs mem_engine" "sq_roots mem_engine" for cfg
  by (rule mem.refs.db_frame_refs_axioms)

interpretation mem_cassandra_refs: db_frame_refs "cassandra_client mem_cql cfg" "ca_subs mem_cql" "ca_roots mem_cql" for cfg
  by (rule mem_cluster.refs.db_frame_refs_axioms)

context sql_engine
begin
lemmas sqlite_http_same = refs.http_steps_same
end

context cql_engine
begin
lemmas cassandra_http_same = refs.http_steps_same
end

end
