(* ===== verification/ServerSample.thy ===== *)
theory ServerSample
  imports ConfigSample ServerRun
begin

text \<open>A running server for the witnesses, with both token checks on, and requests to it.\<close>

definition sample_deployment :: "(tables sqlite, nat, unit) deployment" where
  "sample_deployment = \<lparr>dp_server = sample_server, dp_services = sample_services, dp_jwt = sample_jwt,
     dp_manager = sample_manager, dp_jwks_capabilities = [], dp_flags = all_flags,
     dp_parse_token = (\<lambda>_. Inl ErrNoRows), dp_parse_root = (\<lambda>_. Inl ErrNoRows), dp_config = [],
     dp_commit = '''', dp_built = '''', dp_binary = '''', dp_branch = '''', dp_binary_built = '''', dp_open_lib = ''''\<rparr>"

definition sample_arrival :: "string \<Rightarrow> string \<Rightarrow> string list \<Rightarrow> arrival" where
  "sample_arrival meth token rest = \<lparr>ar_path = [''api'', ''v1'', ''device'', sample_mac] @ rest,
     ar_request = (token_request token)\<lparr>rq_vars := [], rq_method := meth\<rparr>, ar_meta = sample_meta,
     ar_ticks = sample_ticks, ar_now_ns = 5000000, ar_date = ''now''\<rparr>"

definition delete_lan :: "string \<Rightarrow> arrival" where
  "delete_lan token = sample_arrival ''DELETE'' token [''document'', ''lan'']"

lemma sample_deployment_db [simp]: "DatabaseClient (dp_server sample_deployment) = sqlite_client mem_engine sample_cfg"
  by (simp add: sample_deployment_def)

end
