(* ===== verification/Answered.thy ===== *)
theory Answered
  imports ServerRun
begin

text \<open>
  No request without an answer: a call of the services returns a value or panics, so the
  handlers need no case for an error that they were not given; and a handler that ends has
  sent a status.
\<close>

section \<open>Calls that never end in an error\<close>

definition no_err :: "('s, 'a) prog \<Rightarrow> bool" where
  "no_err m \<longleftrightarrow> (\<forall>s e. fst (m s) \<noteq> Err e)"

named_theorems no_err_intros "calls that return a value or panic"

lemma no_err_basic [no_err_intros, simp]:
  "no_err (ret x)" "no_err panic" "no_err (Pair (Ok x))" "no_err (Pair Panic)"
  by (simp_all add: no_err_def)

lemma no_err_tryE [no_err_intros]:
  assumes "\<And>e. no_err (h e)" "\<And>x. no_err (k x)"
  shows "no_err (tryE m h k)"
  using assms by (auto simp: no_err_def tryE_def split: prod.split outcome.split)

lemma no_err_tryE_throw:
  assumes m: "no_err m" and k: "\<And>x. no_err (k x)"
  shows "no_err (tryE m h k)"
  unfolding no_err_def
proof (intro allI)
  fix s e
  obtain r s1 where r: "m s = (r, s1)" by fastforce
  with m have "r \<noteq> Err x" for x unfolding no_err_def by (metis fst_conv)
  with r k show "fst (tryE m h k s) \<noteq> Err e" by (cases r) (auto simp: tryE_def no_err_def)
qed

lemma no_err_rethrow [no_err_intros]:
  "no_err m \<Longrightarrow> (\<And>x. no_err (k x)) \<Longrightarrow> no_err (tryE m throw k)"
  "no_err m \<Longrightarrow> (\<And>x. no_err (k x)) \<Longrightarrow> no_err (tryE m (\<lambda>e. throw (f e)) k)"
  by (auto intro: no_err_tryE_throw)

lemma no_err_deref [no_err_intros]: "(\<And>x. p = Some x \<Longrightarrow> no_err (k x)) \<Longrightarrow> no_err (deref p k)"
  by (cases p) simp_all

lemma no_err_if [no_err_intros]:
  "(b \<Longrightarrow> no_err m) \<Longrightarrow> (\<not> b \<Longrightarrow> no_err n) \<Longrightarrow> no_err (if b then m else n)"
  by simp

text \<open>Calls that read the state first.\<close>

lemma no_err_reading [no_err_intros]:
  "(\<And>s x. no_err (k s x)) \<Longrightarrow> no_err (\<lambda>s. deref (f s) (k s) s)"
  "(\<And>s. no_err (m s)) \<Longrightarrow> (\<And>s x. no_err (n s x)) \<Longrightarrow> no_err (\<lambda>s. tryE (m s) throw (n s) s)"
  "no_err (\<lambda>s. p s s) \<Longrightarrow> no_err (\<lambda>s. q s s) \<Longrightarrow> no_err (\<lambda>s. (if b then p s else q s) s)"
  by (simp_all add: no_err_def deref_def split: option.split) (metis no_err_def no_err_tryE_throw)

lemma no_err_seqE [no_err_intros]: "no_err m \<Longrightarrow> no_err n \<Longrightarrow> no_err (seqE m n)"
  unfolding seqE_def by (rule no_err_tryE_throw)

lemma no_err_with_w [no_err_intros]: "(\<And>w. no_err (k w)) \<Longrightarrow> no_err (with_w k)"
  by (simp add: no_err_def with_w_def)

lemma no_err_on_w [no_err_intros, simp]: "no_err (on_w f)"
  by (simp add: no_err_def on_w_def)

lemma no_err_lifted [no_err_intros]:
  "no_err p \<Longrightarrow> no_err (on_db p)" "no_err m \<Longrightarrow> no_err (at_db m)" "no_err n \<Longrightarrow> no_err (at_net n)"
  "no_err q \<Longrightarrow> no_err (with_audit q)" "no_err d \<Longrightarrow> no_err (at_doc d)"
  by (auto simp: no_err_def on_db_def at_db_def at_net_def with_audit_def at_doc_def split: prod.splits option.splits)
     (metis fst_conv)+

lemma no_err_with_fields [no_err_intros]: "(\<And>f. no_err (k f)) \<Longrightarrow> no_err (with_fields k)"
  by (simp add: no_err_def with_fields_def)

section \<open>Services and connectors\<close>

lemma no_err_http_Do [no_err_intros]: "no_err (http_Do N c meth url h b l tick)"
  by (simp add: no_err_def http_Do_def exchange_once_def split: prod.splits option.splits)

lemma no_err_loops [no_err_intros]:
  "(\<And>i. no_err (body i)) \<Longrightarrow> no_err (retry_loop body n i prev)"
  "(\<And>i. no_err (body i)) \<Longrightarrow> no_err (sync_loop body n i prev)"
  by (induction n arbitrary: i prev) (auto intro!: no_err_intros)

lemma no_err_DoWithRetries [no_err_intros]: "no_err (DoWithRetries N c meth url h b l ticks)"
  unfolding DoWithRetries_def by (auto intro!: no_err_intros)

lemma no_err_connectors [no_err_intros]:
  "no_err (PostUpstream N c mac h b ticks)" "no_err (GetUpstreamProfiles N c mac q h ticks)"
  "no_err (GetProfiles N c u ticks)" "no_err (PostMqtt N c mac b tick ticks)"
  unfolding PostUpstream_def GetUpstreamProfiles_def GetProfiles_def PostMqtt_def 
  by (auto intro!: no_err_intros)

lemma no_err_Patch [no_err_intros]: "no_err (Patch N wp rh mac b tick ticks)"
  unfolding Patch_def SyncDoWithRetries_def Let_def
  by (auto intro!: no_err_intros split: option.splits prod.splits)

lemma no_err_Poke [no_err_intros]: "no_err (Poke N wp rh mac p tick ticks)"
  unfolding Poke_def by (auto intro!: no_err_intros split: option.splits)

text \<open>
  What the handlers rely on: reading a document returns the document and an error in one value.
\<close>

locale db_documents =
  fixes c :: "'s db_client"
  assumes get_doc_value: "fst (db_GetDocument c mac b s) \<noteq> Err e"
begin

lemma no_err_GetDocument [no_err_intros]: "no_err (db_GetDocument c mac b)"
  by (simp add: no_err_def get_doc_value)

lemma no_err_correction [no_err_intros]: "no_err (correction_loop c mac t l vm ms items)"
  by (induction items arbitrary: ms) (auto simp: Let_def intro!: no_err_intros)

lemma no_err_BuildGetDocument [no_err_intros]: "no_err (BuildGetDocument c h flds t t')"
proof -
  have "no_err (resolve_versions c h mac)" for mac
    unfolding resolve_versions_def by (auto intro!: no_err_intros split: prod.splits option.splits)
  moreover have "no_err (cloud_root_document c mac d)" for mac d
    unfolding cloud_root_document_def Let_def by (auto intro!: no_err_intros)
  moreover have "no_err (state_correction c mac t d vm doc)" for mac d vm doc
    unfolding state_correction_def by (auto intro!: no_err_intros split: prod.splits option.splits sum.splits)
  moreover have "no_err (fetch_document c mac doc)" for mac doc
    unfolding fetch_document_def by (auto intro!: no_err_intros split: prod.splits option.splits)
  ultimately show ?thesis
    unfolding BuildGetDocument_def compare_and_finish_def finish_getdoc_def Let_def
    by (auto intro!: no_err_intros split: prod.splits sum.splits root_cmp.splits)
qed

lemma no_err_replies [no_err_intros]:
  "no_err (reply_with st h b)" "no_err (reply_err st h b e)" "no_err (upstream_failed e)"
  "no_err (ForwardSuccessKafkaMessages sv u ms)" "no_err (put_field k v)"
  by (auto simp: reply_with_def reply_err_def upstream_failed_def ForwardSuccessKafkaMessages_def put_field_def
      no_err_def split: option.splits)

lemma no_err_answer_local [no_err_intros]: "no_err (answer_local sv mac ua t g)"
  unfolding answer_local_def send_document_def Let_def
  by (auto intro!: no_err_intros split: option.splits)

lemma no_err_answer_upstream [no_err_intros]: "no_err (answer_upstream sv sx h mac tk g)"
proof -
  have fin: "no_err (finish_upstream sv sx mac tk g d b r)" for d b r
    unfolding finish_upstream_def Let_def by (auto intro!: no_err_intros split: sum.splits)
  have "no_err (post_document sv sx h mac tk g d b)" for d b
    unfolding post_document_def
    by (auto intro!: no_err_intros fin split: option.splits)
  then show ?thesis
    unfolding answer_upstream_def answer_known_def Let_def
    by (auto intro!: no_err_intros split: option.splits prod.splits)
qed

lemma no_err_BuildFactoryResetResponse:
  assumes "DatabaseClient sv = c"
  shows "no_err (BuildFactoryResetResponse sv sx h tk)"
proof -
  have doc: "no_err (factory_document sv h mac p)" for mac p
    unfolding factory_document_def Let_def assms
    by (auto intro!: no_err_intros split: option.splits prod.splits)
  have fin: "no_err (finish_factory sv sx mac tk root d b r)" for mac root d b r
    unfolding finish_factory_def Let_def by (auto intro!: no_err_intros split: sum.splits)
  show ?thesis
    unfolding BuildFactoryResetResponse_def Let_def assms
    by (auto intro!: no_err_intros doc fin split: sum.splits option.splits)
qed

lemma no_err_BuildWebconfigResponse [no_err_intros]:
  assumes sv: "DatabaseClient sv = c"
  shows "no_err (BuildWebconfigResponse sv sx h tk)"
  unfolding BuildWebconfigResponse_def Let_def sv
  by (intro no_err_seqE no_err_replies)
     (auto intro!: no_err_intros no_err_BuildFactoryResetResponse[OF sv] split: option.splits)

end

section \<open>Handlers that end with an answer\<close>

definition answered_by :: "('t web, unit) prog \<Rightarrow> bool" where
  "answered_by m \<longleftrightarrow> no_err m \<and> (\<forall>s s'. m s = (Ok (), s') \<longrightarrow> nw_sent (w_net (web_w s')) \<noteq> None)"

named_theorems answered_intros "handlers that end with an answer"

lemma answered_by_no_err: "answered_by m \<Longrightarrow> no_err m"
  by (simp add: answered_by_def)

lemma answered_tryE [answered_intros]:
  assumes "\<And>e. answered_by (h e)" "\<And>x. answered_by (k x)"
  shows "answered_by (tryE m h k)"
  using assms by (auto simp: answered_by_def tryE_eq_Ok intro!: no_err_tryE)

lemma answered_rethrow [answered_intros]:
  assumes m: "no_err m" and k: "\<And>x. answered_by (k x)"
  shows "answered_by (tryE m throw k)"
  using assms by (auto simp: answered_by_def tryE_eq_Ok intro!: no_err_tryE_throw)

lemma answered_seqE [answered_intros]: "no_err m \<Longrightarrow> answered_by n \<Longrightarrow> answered_by (seqE m n)"
  unfolding seqE_def by (rule answered_rethrow)

lemma answered_deref [answered_intros]: "(\<And>x. p = Some x \<Longrightarrow> answered_by (k x)) \<Longrightarrow> answered_by (deref p k)"
  by (cases p) (simp_all add: answered_by_def)

lemma answered_if [answered_intros]:
  "(b \<Longrightarrow> answered_by m) \<Longrightarrow> (\<not> b \<Longrightarrow> answered_by n) \<Longrightarrow> answered_by (if b then m else n)"
  by simp

lemma answered_with_w [answered_intros]: "(\<And>w. answered_by (k w)) \<Longrightarrow> answered_by (with_w k)"
  by (auto simp: answered_by_def no_err_def with_w_def)

lemma answered_at_doc [answered_intros]:
  assumes "answered_by m"
  shows "answered_by (at_doc m)"
  unfolding answered_by_def
proof (intro conjI allI impI)
  show "no_err (at_doc m)" using assms by (simp add: answered_by_no_err no_err_lifted)
next
  fix s s' assume "at_doc m s = (Ok (), s')"
  then obtain t where "m \<lparr>web_db = be_db (web_db s), web_w = web_w s\<rparr> = (Ok (), t)" "web_w s' = web_w t"
    by (auto simp: at_doc_def split: prod.splits)
  then show "nw_sent (w_net (web_w s')) \<noteq> None" using assms by (auto simp: answered_by_def)
qed

lemma no_err_writing [no_err_intros]:
  "no_err (set_header k v)" "no_err (SetAuditValue k' i)" "no_err (w_Write b)" "no_err (w_WriteHeader st)"
  "no_err addMoracideTagsAsResponseHeaders" "no_err (set_header_opt k ov)" "no_err (set_headers h)"
proof -
  have fe: "no_err (for_each body xs)" if "\<And>x. no_err (body x)" for body :: "'x \<Rightarrow> ('t, unit) prog" and xs
    using that by (induction xs) (auto simp: bindE_def intro!: no_err_intros)
  show "no_err (set_header k v)" "no_err (SetAuditValue k' i)" "no_err (w_Write b)" "no_err (w_WriteHeader st)"
      "no_err addMoracideTagsAsResponseHeaders" "no_err (set_header_opt k ov)" "no_err (set_headers h)"
    unfolding set_header_def SetAuditValue_def w_Write_def w_WriteHeader_def addMoracideTagsAsResponseHeaders_def
      set_header_opt_def set_headers_def
    by (auto intro!: no_err_intros fe split: option.split)
qed

lemma answered_Write [answered_intros]: "answered_by (w_Write b)"
  by (auto simp: answered_by_def no_err_writing) (auto simp: w_Write_def on_w_def xw_Write_def net_Write_def Let_def
      split: option.splits if_splits prod.splits)

text \<open>A final status is sent at once; other codes wait for the body.\<close>

lemma answered_WriteHeader [answered_intros]: "200 \<le> c \<Longrightarrow> answered_by (w_WriteHeader c)"
  by (auto simp: answered_by_def no_err_writing)
     (auto simp: w_WriteHeader_def with_w_def on_w_def xw_WriteHeader_def net_WriteHeader_def split: option.splits if_splits)

lemma answered_http [answered_intros]:
  "answered_by (WriteByMarshal c v)" "answered_by (WriteOkResponse d)" "answered_by WriteAcceptedResponse"
  "answered_by (http_Error ef c err)" "answered_by (WriteResponseBytes b c ct)"
  unfolding WriteByMarshal_def WriteOkResponse_def WriteAcceptedResponse_def http_Error_def WriteErrorResponse_def
    WriteResponseBytes_def Let_def
  by (auto intro!: answered_intros no_err_intros split: option.splits)

lemma answered_reject [answered_intros]: "answered_by (reject sv e)" "answered_by (delete_failed sv e)"
  unfolding reject_def delete_failed_def by (auto intro!: answered_intros)

lemma answered_document_handlers [answered_intros]:
  "answered_by (GetSubDocumentHandler sv r)" "answered_by (PostSubDocumentHandler sv r now)"
  "answered_by (DeleteSubDocumentHandler sv r)" "answered_by (DeleteDocumentHandler sv r)"
proof -
  have after: "answered_by (after_delete sv mac)" for mac
  proof -
    have "no_err (tryE m (\<lambda>e. http_Error (errs sv) 500 (Some (NewError e))) ret)" for m :: "('a web, unit) prog"
      by (intro no_err_tryE answered_by_no_err answered_intros no_err_basic)
    then show ?thesis unfolding after_delete_def Let_def by (auto intro!: answered_intros)
  qed
  show "answered_by (GetSubDocumentHandler sv r)" "answered_by (PostSubDocumentHandler sv r now)"
    "answered_by (DeleteSubDocumentHandler sv r)" "answered_by (DeleteDocumentHandler sv r)"
    unfolding GetSubDocumentHandler_def PostSubDocumentHandler_def DeleteSubDocumentHandler_def
      DeleteDocumentHandler_def writeStateHeaders_def Let_def
    by (auto intro!: answered_intros no_err_intros after split: sum.splits option.splits)
qed

lemma answered_short_handlers [answered_intros]:
  "answered_by (GetRootDocumentHandler sv r)" "answered_by (PostRootDocumentHandler sv parse r)"
  "answered_by (GetRefSubDocumentHandler sv r)" "answered_by (PostRefSubDocumentHandler sv r)"
  "answered_by (DeleteRefSubDocumentHandler sv r)" "answered_by (GetSupportedGroupsHandler sv r)"
  "answered_by (CreateTokenHandler sv g parse')" "answered_by (NotificationHandler sv)"
  "answered_by (VersionHandler c1 c2 c3 c4 c5 c6)" "answered_by (ServerConfigHandler cb)"
  unfolding GetRootDocumentHandler_def PostRootDocumentHandler_def GetRefSubDocumentHandler_def
    PostRefSubDocumentHandler_def DeleteRefSubDocumentHandler_def GetSupportedGroupsHandler_def
    CreateTokenHandler_def NotificationHandler_def VersionHandler_def ServerConfigHandler_def Let_def
  by (auto intro!: answered_intros no_err_intros split: sum.splits option.splits)

lemma no_err_mark_delivered [no_err_intros]: "no_err (mark_delivered c mac u t st)"
  unfolding mark_delivered_def Let_def by (auto intro!: no_err_intros)

context db_documents
begin

lemma answered_Supplementary [answered_intros]: "answered_by (MultipartSupplementaryHandler sv sx tk now r)"
proof -
  have finish: "answered_by (finish_profile sv sx tk nf extra b h)" for nf extra b h
    unfolding finish_profile_def send_telemetry_def Let_def
    by (auto intro!: answered_intros no_err_intros split: sum.splits)
  have profiles: "answered_by (profiles_answer sv sx tk mac r rd)" for mac rd
    unfolding profiles_answer_def Let_def
    by (auto intro!: answered_intros no_err_intros finish split: sum.splits)
  have answer: "answered_by p" if "precooked_answer sv mac tk now t = Some p" for p mac t
    using that unfolding precooked_answer_def send_telemetry_def Let_def
    by (auto intro!: answered_intros no_err_intros split: option.splits if_splits)
  have precooked: "answered_by (case Option.bind t (precooked_answer sv mac tk now) of None \<Rightarrow> q | Some p \<Rightarrow> p)"
    if "answered_by q" for q mac t
    using that by (cases t) (auto intro: answer split: option.splits)
  show ?thesis
    unfolding MultipartSupplementaryHandler_def Let_def
    by (auto intro!: answered_intros profiles precooked split: option.splits)
qed

lemma answered_MultipartConfig [answered_intros]:
  assumes sv: "DatabaseClient sv = c"
  shows "answered_by (MultipartConfigHandler sv sx tk now r)"
  unfolding MultipartConfigHandler_def Let_def
  by (auto intro!: answered_intros no_err_intros no_err_BuildWebconfigResponse[OF sv]
      split: option.splits prod.splits)

lemma answered_Poke [answered_intros]: "answered_by (PokeHandler sv sx tk now_s date r)"
proof -
  have dev: "no_err (poke_device sv sx tk now_s date agent mac)" for agent mac
    unfolding poke_device_def Let_def by (auto intro!: no_err_intros split: option.splits)
  have devs: "no_err (poke_devices (poke_device sv sx tk now_s date agent) ids)" for agent ids
    by (induction ids) (auto intro!: no_err_intros dev split: sum.splits)
  have smart: "no_err (smart_poke sv mac)" for mac
    unfolding smart_poke_def Let_def by (auto intro!: no_err_intros)
  have send: "answered_by (send_poke sv sx tk r mac token p)" for mac token p
    unfolding send_poke_def poke_error_def Let_def
    by (auto intro!: answered_intros no_err_intros split: option.splits prod.splits)
  have end_: "answered_by (poke_answer sv e)" for e
    unfolding poke_answer_def by (auto intro!: answered_intros split: poke_end.splits)
  show ?thesis
    unfolding PokeHandler_def Let_def
    by (auto intro!: answered_intros no_err_intros devs smart send end_ split: option.splits sum.splits)
qed

lemma answered_run_handler:
  assumes "DatabaseClient (dp_server dp) = c" "h \<noteq> Monitor"
  shows "answered_by (run_handler dp a h r)"
  using assms(2) by (cases h) (auto simp: run_handler_def Let_def intro!: answered_intros assms(1))

lemma no_err_run_handler:
  assumes "DatabaseClient (dp_server dp) = c"
  shows "no_err (run_handler dp a h r)"
proof (cases "h = Monitor")
  case True
  then show ?thesis by (auto simp: run_handler_def MonitorHandler_def intro!: no_err_intros)
next
  case False
  with answered_run_handler[OF assms] show ?thesis by (blast intro: answered_by_no_err)
qed

end

section \<open>Through the guards\<close>

lemma no_err_guards [no_err_intros]:
  "no_err (logRequestStarts sv me r)" "no_err (forbid sv)" "no_err (refuse_token sv)"
  "no_err m \<Longrightarrow> no_err (on_raw m)"
proof -
  show "no_err (logRequestStarts sv me r)" by (simp add: logRequestStarts_def)
  show f: "no_err (forbid sv)" unfolding forbid_def by (rule answered_by_no_err[OF answered_http(4)])
  show "no_err (refuse_token sv)" unfolding refuse_token_def by (intro no_err_intros f)
  show "no_err m \<Longrightarrow> no_err (on_raw m)"
    unfolding no_err_def on_raw_def by (auto split: prod.splits) (metis fst_conv)
qed

lemma answered_guards [answered_intros]: "answered_by (forbid sv)" "answered_by (refuse_token sv)"
  "answered_by m \<Longrightarrow> answered_by (on_raw m)"
proof -
  show f: "answered_by (forbid sv)" unfolding forbid_def by (rule answered_intros)
  show "answered_by (refuse_token sv)" unfolding refuse_token_def by (auto intro!: answered_intros no_err_intros f)
  show "answered_by m \<Longrightarrow> answered_by (on_raw m)"
    unfolding answered_by_def
    by (intro conjI) (blast intro: no_err_guards(4), fastforce simp: on_raw_def split: prod.splits)
qed

text \<open>A guard keeps both properties of the handler behind it.\<close>

lemma no_err_guarded: "no_err m \<Longrightarrow> no_err (guarded sv J tm caps me g r m)"
  unfolding guarded_def TestingMiddleware_def NoAuthMiddleware_def ApiMiddleware_def CpeMiddleware_def
    admit_device_def Let_def
  by (auto intro!: no_err_intros answered_by_no_err[OF answered_http(4)] split: guard.splits option.splits sum.splits)

lemma answered_guarded: "answered_by m \<Longrightarrow> answered_by (guarded sv J tm caps me g r m)"
  unfolding guarded_def TestingMiddleware_def NoAuthMiddleware_def ApiMiddleware_def CpeMiddleware_def
    admit_device_def Let_def
  by (auto intro!: answered_intros no_err_intros split: guard.splits option.splits sum.splits)

context db_documents
begin

lemma serve_http_answers:
  assumes sv: "DatabaseClient (dp_server dp) = c"
    and d: "dispatch (GetRouter (dp_flags dp) False) (ar_path a) (rq_method (ar_request a)) = Found g h vars"
    and run: "serve_http dp a s = (x, s')"
  shows "x = Panic \<or> x = Ok () \<and> (h \<noteq> Monitor \<longrightarrow> nw_sent (w_net (web_w s')) \<noteq> None)"
proof -
  let ?k = "guarded (dp_server dp) (dp_jwt dp) (dp_manager dp) (dp_jwks_capabilities dp) (ar_meta a) g
      ((ar_request a)\<lparr>rq_vars := vars\<rparr>) (run_handler dp a h ((ar_request a)\<lparr>rq_vars := vars\<rparr>))"
  have k: "?k s = (x, s')" using run by (simp add: serve_http_def serve_def d Let_def)
  have "no_err ?k" by (rule no_err_guarded[OF no_err_run_handler[OF sv]])
  with k have "x = Panic \<or> x = Ok ()" by (cases x) (auto simp: no_err_def, metis fst_conv)
  moreover have "nw_sent (w_net (web_w s')) \<noteq> None" if "x = Ok ()" "h \<noteq> Monitor"
    using answered_guarded[OF answered_run_handler[OF sv that(2)]] k that(1) unfolding answered_by_def by blast
  ultimately show ?thesis by blast
qed

end

sublocale sql_engine \<subseteq> documents: db_documents "sqlite_client E cfg" for cfg
  by unfold_locales (rule versions.get_doc_returns)

lemma ca_scan_document_value: "ca_scan_document cfg b now rows doc \<noteq> Err e"
proof (induction rows arbitrary: doc)
  case Nil
  then show ?case by simp
next
  case (Cons row rows)
  have "ca_document_row cfg b now row doc \<noteq> Err e'" for e'
    by (auto simp: ca_document_row_def Let_def split: outcome.splits)
  with Cons show ?case by (auto split: outcome.splits)
qed

sublocale cql_engine \<subseteq> documents: db_documents "cassandra_client E cfg" for cfg
  by unfold_locales (auto simp: cassandra_client_def ca_GetDocument_def Let_def ca_scan_document_value split: outcome.splits)

interpretation mem_documents: db_documents "sqlite_client mem_engine cfg" for cfg
  by (rule mem.documents.db_documents_axioms)

context sql_engine
begin
lemmas sqlite_http_answers = documents.serve_http_answers
end

end
