(* ===== verification/Dicts.thy ===== *)
theory Dicts
  imports Headers HttpText Service "HOL-Library.Signed_Division"
begin

text \<open>
  The rest of util/dict.go, util/list.go and util/string.go: dictionaries of dynamically typed
  values with the conversions between times and numbers, and the small helpers on texts.
\<close>

section \<open>Values\<close>

text \<open>
  What a \<open>Dict\<close> holds, as far as its functions tell apart. \<open>DFloat m e\<close> is the finite number
  m times 2 to the power e; a time is its distance from 1970 in nanoseconds.
\<close>

datatype dval =
    DStr string
  | DInt int
  | DInt64 int
  | DFloat int int
  | DBool bool
  | DTime int
  | DOther

type_synonym dict = "dval gomap"

text \<open>
  Converting a float cuts off its fraction; one that does not fit in 64 bits becomes the least
  integer, as it does on amd64.
\<close>

definition float_trunc :: "int \<Rightarrow> int \<Rightarrow> int" where
  "float_trunc m e =
     (let v = (if 0 \<le> e then m * 2 ^ nat e else m sdiv 2 ^ nat (- e))
      in if in_int64 v then v else - (2 ^ 63))"

text \<open>The zero time is the first of January of the year 1.\<close>

definition zero_time :: int where
  "zero_time = - 62135596800000000000"

definition UnixNano :: "int \<Rightarrow> int" where
  "UnixNano t = wrap64 t"

section \<open>Times\<close>

definition TimeToMsecs :: "string \<Rightarrow> dict \<Rightarrow> dict" where
  "TimeToMsecs field d =
     (case map_of d field of
        Some (DTime t) \<Rightarrow>
          if t = zero_time then gomap_del field d
          else gomap_put field (DInt (UnixNano t sdiv 1000000)) d
      | _ \<Rightarrow> d)"

text \<open>A value of another type counts as zero.\<close>

fun number_of :: "dval \<Rightarrow> int" where
  "number_of (DInt i) = i"
| "number_of (DFloat m e) = float_trunc m e"
| "number_of (DInt64 i) = i"
| "number_of _ = 0"

text \<open>\<open>time.Unix\<close> takes seconds and nanoseconds of any sign.\<close>

definition time_Unix :: "int \<Rightarrow> int \<Rightarrow> int" where
  "time_Unix secs nsecs = secs * 1000000000 + nsecs"

fun MsecsToTime :: "string list \<Rightarrow> dict \<Rightarrow> dict" where
  "MsecsToTime [] d = d"
| "MsecsToTime (field # fs) d =
     MsecsToTime fs
       (case map_of d field of
          None \<Rightarrow> d
        | Some v \<Rightarrow>
            (let msecs = number_of v;
                 secs = msecs sdiv 1000;
                 nsecs = (msecs smod 1000) * 1000000
             in gomap_put field (DTime (time_Unix secs nsecs)) d))"

section \<open>Numbers\<close>

fun dict_ToInt :: "string list \<Rightarrow> dict \<Rightarrow> dict" where
  "dict_ToInt [] d = d"
| "dict_ToInt (field # fs) d =
     dict_ToInt fs
       (case map_of d field of None \<Rightarrow> d | Some v \<Rightarrow> gomap_put field (DInt (number_of v)) d)"

fun ToInt64 :: "string list \<Rightarrow> dict \<Rightarrow> dict" where
  "ToInt64 [] d = d"
| "ToInt64 (field # fs) d =
     ToInt64 fs
       (case map_of d field of None \<Rightarrow> d | Some v \<Rightarrow> gomap_put field (DInt64 (number_of v)) d)"

definition itf_ToInt :: "dval \<Rightarrow> int" where
  "itf_ToInt itf = number_of itf"

section \<open>Reads and updates\<close>

definition dict_Copy :: "dict \<Rightarrow> dict" where
  "dict_Copy d = gomap_puts [] d"

fun select_loop :: "dict \<Rightarrow> string list \<Rightarrow> dict \<Rightarrow> dict" where
  "select_loop d [] ndict = ndict"
| "select_loop d (n # names) ndict =
     select_loop d names (case map_of d n of None \<Rightarrow> ndict | Some v \<Rightarrow> gomap_put n v ndict)"

definition SelectByKeys :: "dict \<Rightarrow> string list \<Rightarrow> dict" where
  "SelectByKeys d names = select_loop d names []"

definition GetNonEmptyString :: "dict \<Rightarrow> string \<Rightarrow> string list \<Rightarrow> string" where
  "GetNonEmptyString d key defaults =
     (let dflt = (case defaults of [] \<Rightarrow> '''' | x # _ \<Rightarrow> x)
      in case map_of d key of
           Some (DStr x) \<Rightarrow> if length x > 0 then x else dflt
         | _ \<Rightarrow> dflt)"

definition GetBool :: "dict \<Rightarrow> string \<Rightarrow> bool list \<Rightarrow> bool" where
  "GetBool d key defaults =
     (case map_of d key of
        Some (DBool x) \<Rightarrow> x
      | _ \<Rightarrow> (case defaults of [] \<Rightarrow> False | x # _ \<Rightarrow> x))"

text \<open>A value of another type is read as zero, whatever the default.\<close>

definition dict_GetInt :: "dict \<Rightarrow> string \<Rightarrow> int list \<Rightarrow> int" where
  "dict_GetInt d key defaults =
     (case map_of d key of
        Some (DInt x) \<Rightarrow> x
      | Some itf \<Rightarrow> itf_ToInt itf
      | None \<Rightarrow> (case defaults of [] \<Rightarrow> 0 | x # _ \<Rightarrow> x))"

text \<open>What \<open>Update\<close> takes: fields, a dictionary, a header (which panics on an empty list), or nothing it knows.\<close>

datatype dict_source = FromFields dict | FromDict dict | FromHeader header | FromOther

fun put_header :: "header \<Rightarrow> dict \<Rightarrow> dict option" where
  "put_header [] d = Some d"
| "put_header ((k, []) # h) d = None"
| "put_header ((k, v # vs) # h) d = put_header h (gomap_put k (DStr v) d)"

fun dict_Update :: "dict_source \<Rightarrow> dict \<Rightarrow> dict option" where
  "dict_Update (FromFields f) d = Some (gomap_puts d f)"
| "dict_Update (FromDict f) d = Some (gomap_puts d f)"
| "dict_Update (FromHeader h) d = put_header h d"
| "dict_Update FromOther d = Some d"

section \<open>Lists and texts\<close>

text \<open>\<open>EqualFold\<close>, for ASCII letters.\<close>

fun CaseInsensitiveContains :: "string list \<Rightarrow> string \<Rightarrow> bool" where
  "CaseInsensitiveContains [] x = False"
| "CaseInsensitiveContains (d # ds) x = (if to_lower x = to_lower d then True else CaseInsensitiveContains ds x)"

text \<open>The identifiers are made of a fresh uuid, 36 characters with four hyphens.\<close>

definition GetAuditId :: "string \<Rightarrow> string" where
  "GetAuditId uuid = filter (\<lambda>c. c \<noteq> CHR ''-'') uuid"

definition GenerateRandomCpeMac :: "string \<Rightarrow> string option" where
  "GenerateRandomCpeMac uuid =
     (if length uuid < 12 then None else Some (to_upper (drop (length uuid - 12) uuid)))"

definition GetRandomRootVersion :: "(bytes \<Rightarrow> nat) \<Rightarrow> string \<Rightarrow> string" where
  "GetRandomRootVersion m3 uuid = GetMurmur3Hash m3 uuid"

section \<open>UTF-8\<close>

text \<open>
  The number of bytes of the first rune of a text, \<open>None\<close> when it is not one: the table of
  package unicode/utf8.
\<close>

definition in_range :: "nat \<Rightarrow> nat \<Rightarrow> char \<Rightarrow> bool" where
  "in_range lo hi c \<longleftrightarrow> lo \<le> (of_char c :: nat) \<and> (of_char c :: nat) \<le> hi"

definition second_range :: "nat \<Rightarrow> nat \<times> nat" where
  "second_range n = (if n = 224 then (160, 191) else if n = 237 then (128, 159)
     else if n = 240 then (144, 191) else if n = 244 then (128, 143) else (128, 191))"

definition rune_size :: "bytes \<Rightarrow> nat option" where
  "rune_size s =
     (case s of
        [] \<Rightarrow> None
      | c # cs \<Rightarrow>
          (let n = of_char c :: nat;
               more = (if 194 \<le> n \<and> n \<le> 223 then 1 else if 224 \<le> n \<and> n \<le> 239 then 2
                       else if 240 \<le> n \<and> n \<le> 244 then 3 else 0);
               (lo, hi) = second_range n
           in if n < 128 then Some 1
              else if more = 0 \<or> length cs < more then None
              else if in_range lo hi (cs ! 0) \<and> list_all (in_range 128 191) (take (more - 1) (tl cs))
              then Some (Suc more)
              else None))"

text \<open>
  \<open>strings.ToValidUTF8\<close>: each run of invalid bytes becomes one replacement. The flag: the byte
  before was invalid.
\<close>

function to_valid :: "bytes \<Rightarrow> bool \<Rightarrow> bytes \<Rightarrow> bytes" where
  "to_valid repl bad s =
     (case s of
        [] \<Rightarrow> []
      | c # cs \<Rightarrow>
          (case rune_size s of
             Some k \<Rightarrow> take k s @ to_valid repl False (drop (max 1 k) s)
           | None \<Rightarrow> (if bad then [] else repl) @ to_valid repl True cs))"
  by pat_completeness auto
termination
  by (relation "measure (\<lambda>(r, i, s). length s)") auto

declare to_valid.simps [simp del]

definition IsValidUTF8 :: "bytes \<Rightarrow> bool" where
  "IsValidUTF8 bbytes \<longleftrightarrow> to_valid ''#'' False bbytes = bbytes"

section \<open>Facts\<close>

text \<open>Milliseconds that fit survive the way to a time and back.\<close>

lemma time_Unix_msecs: "time_Unix (ms sdiv 1000) ((ms smod 1000) * 1000000) = ms * 1000000"
proof -
  have "ms = (ms sdiv 1000) * 1000 + ms smod 1000"
    by (rule sdiv_mult_smod_eq[symmetric])
  then show ?thesis unfolding time_Unix_def by linarith
qed

lemma msecs_round_trip:
  assumes "map_of d field = Some v" "number_of v = ms" "in_int64 (ms * 1000000)"
  shows "map_of (TimeToMsecs field (MsecsToTime [field] d)) field = Some (DInt ms)"
proof -
  have z: "ms * 1000000 \<noteq> zero_time"
    using assms(3) by (auto simp: in_int64_def zero_time_def)
  have d: "map_of (MsecsToTime [field] d) field = Some (DTime (ms * 1000000))"
    using assms(1,2) time_Unix_msecs[of ms] by (simp add: Let_def)
  have "UnixNano (ms * 1000000) sdiv 1000000 = ms"
    using assms(3) by (simp add: UnixNano_def wrap64_id signed_divide_int_def sgn_mult abs_mult mult_sgn_abs)
  then show ?thesis using d z by (simp add: TimeToMsecs_def)
qed

text \<open>The year 1 is lost on the way: the field is removed.\<close>

lemma zero_time_removed: "map_of d field = Some (DTime zero_time) \<Longrightarrow> map_of (TimeToMsecs field d) field = None"
  by (simp add: TimeToMsecs_def)

lemma Copy_same: "gomap_ok d \<Longrightarrow> dict_Copy d = d"
  unfolding dict_Copy_def using gomap_puts_fresh[of d "[]"] by simp

lemma select_loop_get:
  "map_of (select_loop d names nd) k = (if k \<in> set names \<and> map_of d k \<noteq> None then map_of d k else map_of nd k)"
  by (induction d names nd rule: select_loop.induct) (auto split: option.splits)

lemma SelectByKeys_get: "map_of (SelectByKeys d names) k = (if k \<in> set names then map_of d k else None)"
  by (auto simp: SelectByKeys_def select_loop_get)

lemma put_header_None: "put_header h d = None \<longleftrightarrow> (\<exists>k. (k, []) \<in> set h)"
  by (induction h d rule: put_header.induct) auto

lemma CaseInsensitiveContains_iff:
  "CaseInsensitiveContains ds x \<longleftrightarrow> to_lower x \<in> to_lower ` set ds"
  by (induction ds) auto

text \<open>Whole texts of runes are valid, and nothing else is.\<close>

inductive runes :: "bytes \<Rightarrow> bool" where
  none: "runes []"
| more: "rune_size s = Some k \<Longrightarrow> runes (drop k s) \<Longrightarrow> runes s"

lemma rune_size_pos: "rune_size s = Some k \<Longrightarrow> 0 < k \<and> k \<le> length s"
  by (auto simp: rune_size_def Let_def not_less Suc_le_eq split: list.splits prod.splits if_splits)

lemma rune_size_ascii: "rune_size (c # cs) = None \<Longrightarrow> c \<noteq> CHR ''#''"
  by (auto simp: rune_size_def Let_def split: prod.splits)

lemma to_valid_rune:
  assumes "rune_size s = Some k"
  shows "to_valid r i s = take k s @ to_valid r False (drop k s)"
proof -
  have "0 < k" "s \<noteq> []" using rune_size_pos[OF assms] by auto
  moreover from this have "max 1 k = k" by simp
  ultimately show ?thesis using assms by (cases s) (simp_all add: to_valid.simps[of r i])
qed

lemma to_valid_runes: "runes s \<Longrightarrow> to_valid r i s = s"
proof (induction s arbitrary: i rule: runes.induct)
  case none
  then show ?case by (simp add: to_valid.simps)
next
  case (more s k)
  then show ?case by (simp add: to_valid_rune)
qed

lemma valid_runes: "to_valid ''#'' False s = s \<Longrightarrow> runes s"
proof (induction "length s" arbitrary: s rule: less_induct)
  case less
  show ?case
  proof (cases s)
    case Nil
    then show ?thesis by (simp add: runes.none)
  next
    case (Cons c cs)
    show ?thesis
    proof (cases "rune_size s")
      case None
      then have "to_valid ''#'' False s = ''#'' @ to_valid ''#'' True cs"
        using Cons by (simp add: to_valid.simps[of _ False])
      with less.prems Cons None rune_size_ascii[of c cs] show ?thesis by simp
    next
      case (Some k)
      note pos = rune_size_pos[OF Some]
      have "take k s @ to_valid ''#'' False (drop k s) = s"
        using less.prems to_valid_rune[OF Some, of "''#''" False] by simp
      then have "to_valid ''#'' False (drop k s) = drop k s"
        by (metis append_take_drop_id same_append_eq)
      with less.hyps[of "drop k s"] pos Some show ?thesis by (auto intro: runes.more)
    qed
  qed
qed

lemma IsValidUTF8_iff: "IsValidUTF8 s \<longleftrightarrow> runes s"
  unfolding IsValidUTF8_def using to_valid_runes valid_runes by blast

end
