(* ===== verification/Producer.thy ===== *)
theory Producer
  imports LogFields Base64 KafkaConsumer
begin

text \<open>
  What the server does with the outcome of a kafka message it produced
  (\<open>HandleKafkaProducerResults\<close> of http/webconfig_server.go), and the other small writers of log
  lines there. A log line is its level with its fields and its message.
\<close>

section \<open>Log lines\<close>

datatype level = LevelPanic | LevelFatal | LevelError | LevelWarn | LevelInfo | LevelDebug | LevelTrace

record log_line =
  ll_level :: level
  ll_fields :: log_fields
  ll_message :: string

definition xw_log :: "string \<Rightarrow> string \<Rightarrow> level \<Rightarrow> log_fields \<Rightarrow> log_line" where
  "xw_log logger message l audit = \<lparr>ll_level = l, ll_fields = logMessage logger audit, ll_message = message\<rparr>"

definition LogDebug :: "string \<Rightarrow> string \<Rightarrow> log_fields \<Rightarrow> log_line" where
  "LogDebug logger message audit = xw_log logger message LevelDebug audit"

definition LogInfo :: "string \<Rightarrow> string \<Rightarrow> log_fields \<Rightarrow> log_line" where
  "LogInfo logger message audit = xw_log logger message LevelInfo audit"

definition LogWarn :: "string \<Rightarrow> string \<Rightarrow> log_fields \<Rightarrow> log_line" where
  "LogWarn logger message audit = xw_log logger message LevelWarn audit"

text \<open>
  \<open>LogError\<close> notes the error in the audit fields themselves and writes all of them, unfiltered;
  a writer that is not the wrapped one has none. The result: the audit fields after, the line.
\<close>

definition LogError :: "(goerr \<Rightarrow> string) \<Rightarrow> log_fields option \<Rightarrow> goerr \<Rightarrow> log_fields option \<times> log_line" where
  "LogError text audit err =
     (let flds = (case audit of None \<Rightarrow> [] | Some a \<Rightarrow> gomap_put ''error'' (LogOther (text err)) a)
      in (map_option (\<lambda>_. flds) audit, \<lparr>ll_level = LevelError, ll_fields = flds, ll_message = ''internal error''\<rparr>))"

text \<open>The header of a request that is logged; \<open>Del\<close> removes the canonical key.\<close>

definition getFilteredHeader :: "header \<Rightarrow> string list \<Rightarrow> header" where
  "getFilteredHeader h notLoggedHeaders = foldl (\<lambda>h' k. gomap_del (CanonicalHeaderKey k) h') h notLoggedHeaders"

text \<open>The line of a key set that could not be refreshed (security/jwks_manager.go).\<close>

definition LogRefreshError :: "(goerr \<Rightarrow> string) \<Rightarrow> goerr \<Rightarrow> log_line" where
  "LogRefreshError text err = \<lparr>ll_level = LevelError, ll_fields = [(''logger'', LogStr ''codebig'')],
     ll_message = ''There was an error with the jwt.Keyfunc.Get() Error: '' @ text err\<rparr>"

section \<open>Results of the producer\<close>

text \<open>
  A message of the producer as its two channels report it. Key and value are encoders, which
  return bytes or an error; a nil encoder panics when it is called.
\<close>

type_synonym encoder = "(goerr + bytes) option"

record produced =
  pr_topic :: string
  pr_partition :: int
  pr_offset :: int
  pr_key :: encoder
  pr_value :: encoder

record producer_error =
  pe_msg :: "produced option"
  pe_err :: goerr

text \<open>One round of the loop: what it selected; a closed channel delivers nil for ever.\<close>

datatype produced_event = Sent "produced option" | Failed "producer_error option"

record producer_log =
  pl_lines :: "log_line list"
  pl_errors :: "(string \<times> string \<Rightarrow> int) option"

definition ObserveKafkaProducerErr :: "string \<Rightarrow> int \<Rightarrow> (string \<times> string \<Rightarrow> int) \<Rightarrow> string \<times> string \<Rightarrow> int" where
  "ObserveKafkaProducerErr topic part m = vec_add 1 (topic, itoa part) m"

definition error_line :: "(goerr \<Rightarrow> string) \<Rightarrow> log_fields \<Rightarrow> goerr \<Rightarrow> log_line" where
  "error_line text flds e = \<lparr>ll_level = LevelError, ll_fields = flds, ll_message = text e\<rparr>"

definition add_line :: "log_line \<Rightarrow> producer_log \<Rightarrow> producer_log" where
  "add_line l s = s\<lparr>pl_lines := pl_lines s @ [l]\<rparr>"

definition sent_fields :: "produced \<Rightarrow> log_fields" where
  "sent_fields p = [(''logger'', LogStr ''kafkaproducer''), (''output_topic'', LogStr (pr_topic p)),
     (''output_partition'', LogInt (pr_partition p)), (''output_offset'', LogInt (pr_offset p))]"

definition failed_fields :: "produced \<Rightarrow> log_fields" where
  "failed_fields p = [(''logger'', LogStr ''kafkaproducer''), (''output_topic'', LogStr (pr_topic p)),
     (''output_partition'', LogInt (pr_partition p))]"

text \<open>The key and the value with the lines that are written when they cannot be encoded.\<close>

definition key_fields :: "(goerr \<Rightarrow> string) \<Rightarrow> goerr + bytes \<Rightarrow> log_fields \<Rightarrow> log_fields \<times> log_line list" where
  "key_fields text k flds =
     (case k of
        Inl err \<Rightarrow> (flds, [error_line text flds (NewError err)])
      | Inr kbytes \<Rightarrow> (gomap_put ''output_key'' (LogStr kbytes) flds, []))"

definition value_fields ::
  "(goerr \<Rightarrow> string) \<Rightarrow> (bytes \<Rightarrow> goerr + logval) \<Rightarrow> goerr + bytes \<Rightarrow> log_fields \<Rightarrow> log_fields \<times> log_line list" where
  "value_fields text parse v flds =
     (case v of
        Inl err \<Rightarrow> (flds, [error_line text flds (NewError err)])
      | Inr vbytes \<Rightarrow>
          (case parse vbytes of
             Inl err1 \<Rightarrow> (gomap_put ''output_body_text'' (LogStr (b64_encode vbytes)) flds,
                          [error_line text flds (NewError err1)])
           | Inr itf \<Rightarrow> (gomap_put ''output_body'' itf flds, [])))"

text \<open>\<open>None\<close> is a panic, which ends the program: the loop runs in a goroutine of its own.\<close>

definition producer_failed ::
  "(goerr \<Rightarrow> string) \<Rightarrow> (bytes \<Rightarrow> goerr + logval) \<Rightarrow> produced \<Rightarrow> goerr \<Rightarrow> producer_log \<Rightarrow> producer_log option" where
  "producer_failed text parse msg err s =
     (let s1 = s\<lparr>pl_errors := map_option (ObserveKafkaProducerErr (pr_topic msg) (pr_partition msg)) (pl_errors s)\<rparr>
      in case (pr_key msg, pr_value msg) of
           (Some k, Some v) \<Rightarrow>
             (case key_fields text k (failed_fields msg) of
                (flds1, lines1) \<Rightarrow>
                  (case value_fields text parse v flds1 of
                     (flds2, lines2) \<Rightarrow>
                       Some (s1\<lparr>pl_lines := pl_lines s1 @ lines1 @ lines2 @ [error_line text flds2 err]\<rparr>)))
         | _ \<Rightarrow> None)"

fun producer_round ::
  "(goerr \<Rightarrow> string) \<Rightarrow> (bytes \<Rightarrow> goerr + logval) \<Rightarrow> produced_event \<Rightarrow> producer_log \<Rightarrow> producer_log option" where
  "producer_round text parse (Sent None) s = Some s"
| "producer_round text parse (Sent (Some success)) s =
     Some (add_line \<lparr>ll_level = LevelDebug, ll_fields = sent_fields success, ll_message = ''sent''\<rparr> s)"
| "producer_round text parse (Failed None) s = Some s"
| "producer_round text parse (Failed (Some pErr)) s =
     (case pe_msg pErr of
        None \<Rightarrow> Some s
      | Some msg \<Rightarrow> producer_failed text parse msg (pe_err pErr) s)"

text \<open>The loop never returns; these are its effects after the given rounds.\<close>

fun producer_rounds ::
  "(goerr \<Rightarrow> string) \<Rightarrow> (bytes \<Rightarrow> goerr + logval) \<Rightarrow> produced_event list \<Rightarrow> producer_log \<Rightarrow> producer_log option" where
  "producer_rounds text parse [] s = Some s"
| "producer_rounds text parse (ev # evs) s =
     Option.bind (producer_round text parse ev s) (producer_rounds text parse evs)"

definition HandleKafkaProducerResults ::
  "bool \<Rightarrow> (goerr \<Rightarrow> string) \<Rightarrow> (bytes \<Rightarrow> goerr + logval) \<Rightarrow> produced_event list \<Rightarrow> producer_log
     \<Rightarrow> producer_log option" where
  "HandleKafkaProducerResults hasProducer text parse evs s =
     (if \<not> hasProducer then Some s else producer_rounds text parse evs s)"

section \<open>Facts\<close>

text \<open>The errors of a topic and a partition among the events.\<close>

definition failures_of :: "string \<times> string \<Rightarrow> produced_event list \<Rightarrow> nat" where
  "failures_of k evs = length (filter (\<lambda>ev. case ev of
     Failed (Some e) \<Rightarrow> (case pe_msg e of None \<Rightarrow> False | Some p \<Rightarrow> (pr_topic p, itoa (pr_partition p)) = k)
   | _ \<Rightarrow> False) evs)"

lemma producer_round_counts:
  assumes "producer_round text parse ev s = Some s'" "pl_errors s = Some m"
  shows "\<exists>m'. pl_errors s' = Some m' \<and> m' k = m k + int (failures_of k [ev])"
proof (cases "\<exists>e msg. ev = Failed (Some e) \<and> pe_msg e = Some msg")
  case True
  then obtain e msg where ev: "ev = Failed (Some e)" "pe_msg e = Some msg" by blast
  then have "pl_errors s' = Some (ObserveKafkaProducerErr (pr_topic msg) (pr_partition msg) m)"
    using assms by (auto simp: producer_failed_def Let_def split: option.splits prod.splits)
  then show ?thesis using ev by (auto simp: failures_of_def ObserveKafkaProducerErr_def vec_add_def)
next
  case False
  then have "pl_errors s' = pl_errors s \<and> failures_of k [ev] = 0"
    using assms by (cases ev; cases "case ev of Sent x \<Rightarrow> x = None | Failed y \<Rightarrow> y = None")
      (auto simp: failures_of_def add_line_def split: option.splits)
  then show ?thesis using assms(2) by simp
qed

lemma failures_of_Cons: "failures_of k (ev # evs) = failures_of k [ev] + failures_of k evs"
  by (simp add: failures_of_def)

text \<open>Every reported error of a message is counted once under its topic and partition.\<close>

lemma producer_counts:
  assumes "HandleKafkaProducerResults True text parse evs s = Some s'" "pl_errors s = Some m"
  shows "\<exists>m'. pl_errors s' = Some m' \<and> m' k = m k + int (failures_of k evs)"
proof -
  have "producer_rounds text parse evs s = Some s'" using assms(1) by (simp add: HandleKafkaProducerResults_def)
  then show ?thesis using assms(2)
  proof (induction evs arbitrary: s m)
    case Nil
    then show ?case by (simp add: failures_of_def)
  next
    case (Cons ev evs)
    then obtain s1 where r: "producer_round text parse ev s = Some s1" "producer_rounds text parse evs s1 = Some s'"
      by (auto simp: bind_eq_Some_conv)
    from producer_round_counts[OF r(1) Cons.prems(2)] obtain m1 where
        m1: "pl_errors s1 = Some m1" "m1 k = m k + int (failures_of k [ev])" by blast
    from Cons.IH[OF r(2) m1(1)] m1(2) show ?case by (auto simp: failures_of_Cons[of k ev evs])
  qed
qed

lemma getFilteredHeader_get:
  "hget (getFilteredHeader h ks) k = (if CanonicalHeaderKey k \<in> CanonicalHeaderKey ` set ks then '''' else hget h k)"
  unfolding getFilteredHeader_def
  by (induction ks arbitrary: h) (auto simp: hget_def gomap_get_def)

end
