(* ===== verification/HttpLog.thy ===== *)
theory HttpLog
  imports Producer HttpClient
begin

text \<open>
  The log lines of one call of a remote service (\<open>Do\<close> of http/http_client.go): which fields its
  start and its end are logged with. The call itself is in HttpClient. The object in a body is a
  parameter, as is the text of an error.
\<close>

section \<open>The start of a call\<close>

definition log_key :: "string \<Rightarrow> string \<Rightarrow> string" where
  "log_key loggerName k = loggerName @ ''_'' @ k"

text \<open>The credentials are masked in a copy of the header.\<close>

definition logged_header :: "header \<Rightarrow> header" where
  "logged_header h = (if length (hget h ''Authorization'') > 0 then hset h ''Authorization'' stars else h)"

text \<open>\<open>None\<close> is the panic of the type assertion.\<close>

definition logged_user_agent :: "log_fields \<Rightarrow> string option" where
  "logged_user_agent flds =
     (case map_of flds ''user_agent'' of None \<Rightarrow> Some '''' | Some (LogStr x) \<Rightarrow> Some x | Some _ \<Rightarrow> None)"

definition call_fields :: "string \<Rightarrow> string \<Rightarrow> string \<Rightarrow> header \<Rightarrow> log_fields \<Rightarrow> log_fields" where
  "call_fields loggerName meth url h flds =
     gomap_puts flds [(''logger'', LogStr loggerName), (log_key loggerName ''method'', LogStr meth),
       (log_key loggerName ''url'', LogStr url),
       (log_key loggerName ''headers'', LogStrMap (HeaderToMap (logged_header h)))]"

text \<open>
  A body or a response that is no object is logged in base64, and only its length when that is
  long. The result: the value and the text that is left for the trace line.
\<close>

definition text_value :: "string \<Rightarrow> bytes \<Rightarrow> logval \<times> string" where
  "text_value what b =
     (let x = b64_encode b
      in if length x < 1000 then (LogStr x, '''')
         else (LogStr (what @ itoa (int (length x))), x))"

text \<open>The body: the fields with it, its key and the text for the trace line.\<close>

definition log_body ::
  "(bytes \<Rightarrow> (string \<times> logval) list option) \<Rightarrow> string \<Rightarrow> bytes \<Rightarrow> log_fields \<Rightarrow> log_fields \<times> string \<times> string" where
  "log_body parse loggerName b flds =
     (let bodyKey = log_key loggerName ''body''
      in if length b = 0 then (flds, bodyKey, '''')
         else case parse b of
             None \<Rightarrow> (let bodyKey = log_key loggerName ''body_text''; (v, longBody) = text_value ''long body len '' b
                      in (gomap_put bodyKey v flds, bodyKey, longBody))
           | Some bdict \<Rightarrow> (gomap_put bodyKey (LogDict bdict) flds, bodyKey, ''''))"

definition phase_message :: "string \<Rightarrow> nat \<Rightarrow> string \<Rightarrow> string" where
  "phase_message loggerName retry phase =
     (if retry > 0 then loggerName @ '' retry='' @ itoa (int retry) @ '' '' @ phase else loggerName @ '' '' @ phase)"

text \<open>An info line, and a trace line with the text that was too long; none for the agent mget.\<close>

definition phase_lines :: "string \<Rightarrow> string \<Rightarrow> log_fields \<Rightarrow> string \<Rightarrow> string \<Rightarrow> log_line list" where
  "phase_lines userAgent message flds key long =
     (if userAgent = ''mget'' then []
      else \<lparr>ll_level = LevelInfo, ll_fields = flds, ll_message = message\<rparr> #
        (if length long > 0
         then [\<lparr>ll_level = LevelTrace, ll_fields = gomap_put key (LogStr long) (FilterLogFields flds []),
                ll_message = message\<rparr>]
         else []))"

section \<open>The end of a call\<close>

text \<open>The response: the fields with it, its key and the text for the trace line.\<close>

definition log_response ::
  "(bytes \<Rightarrow> (string \<times> logval) list option) \<Rightarrow> string \<Rightarrow> int \<Rightarrow> bytes \<Rightarrow> log_fields \<Rightarrow> log_fields \<times> string \<times> string" where
  "log_response parse loggerName status rbytes flds =
     (let responseKey = log_key loggerName ''response_text''
      in case parse rbytes of
          None \<Rightarrow>
            (if loggerName = ''mqtt'' \<and> (status = 404 \<or> status = 202)
             then (gomap_put responseKey (LogStr (TrimSpace rbytes)) flds, responseKey, '''')
             else (let (v, longResponse) = text_value ''long response len '' rbytes
                   in (gomap_put responseKey v flds, responseKey, longResponse)))
        | Some resp \<Rightarrow> (gomap_put (log_key loggerName ''response'') (LogDict resp) flds, responseKey, ''''))"

fun end_fields ::
  "(bytes \<Rightarrow> (string \<times> logval) list option) \<Rightarrow> (goerr \<Rightarrow> string) \<Rightarrow> string \<Rightarrow> exchange \<Rightarrow> log_fields
     \<Rightarrow> log_fields \<times> string \<times> string" where
  "end_fields parse text loggerName (Response status h (Inr rbytes)) flds =
     log_response parse loggerName status rbytes (gomap_put (log_key loggerName ''status'') (LogInt status) flds)"
| "end_fields parse text loggerName (Response status h (Inl t)) flds =
     (gomap_put (log_key loggerName ''error'') (LogStr (text (body_error t)))
        (gomap_put (log_key loggerName ''status'') (LogInt status) flds), '''', '''')"
| "end_fields parse text loggerName (TimedOut t) flds = (gomap_put (log_key loggerName ''error'') (LogStr t) flds, '''', '''')"
| "end_fields parse text loggerName (ConnectionClosed t) flds = (gomap_put (log_key loggerName ''error'') (LogStr t) flds, '''', '''')"
| "end_fields parse text loggerName (ConnectionFailed t) flds = (gomap_put (log_key loggerName ''error'') (LogStr t) flds, '''', '''')"
| "end_fields parse text loggerName (OtherFailure t) flds = (gomap_put (log_key loggerName ''error'') (LogStr t) flds, '''', '''')"

text \<open>
  All lines of a call that was sent with header \<open>h\<close> and ended with exchange \<open>x\<close> after
  \<open>duration\<close> milliseconds; \<open>None\<close> is a panic. The audit fields are filtered first.
\<close>

definition call_log ::
  "(bytes \<Rightarrow> (string \<times> logval) list option) \<Rightarrow> (goerr \<Rightarrow> string) \<Rightarrow> string \<Rightarrow> string \<Rightarrow> string \<Rightarrow> header \<Rightarrow> bytes
     \<Rightarrow> nat \<Rightarrow> log_fields \<Rightarrow> int \<Rightarrow> exchange \<Rightarrow> log_line list option" where
  "call_log parse text loggerName meth url h b retry auditFields duration x =
     (let flds = FilterLogFields auditFields [''status'']
      in map_option (\<lambda>userAgent.
           let (flds1, bodyKey, longBody) = log_body parse loggerName b (call_fields loggerName meth url h flds);
               flds2 = gomap_del bodyKey (gomap_put (log_key loggerName ''duration'') (LogInt duration) flds1);
               (flds3, responseKey, longResponse) = end_fields parse text loggerName x flds2
           in phase_lines userAgent (phase_message loggerName retry ''starts'') flds1 bodyKey longBody
                @ phase_lines userAgent (phase_message loggerName retry ''ends'') flds3 responseKey longResponse)
         (logged_user_agent flds))"

section \<open>Facts\<close>

definition all_clean :: "log_fields \<Rightarrow> bool" where
  "all_clean flds \<longleftrightarrow> (\<forall>(k, v) \<in> set flds. clean k v)"

text \<open>The names under which the services log, with the key of each field.\<close>

definition service_names :: "string list" where
  "service_names = [''upstream'', ''mqtt'', ''xconf'', ''webpa'', ''asyncwebpa'']"

definition log_keys :: "string list" where
  "log_keys = [''method'', ''url'', ''headers'', ''body'', ''body_text'', ''duration'', ''status'', ''error'',
     ''response'', ''response_text'']"

lemma plain_keys:
  assumes "l \<in> set service_names" "k \<in> set log_keys"
  shows "\<not> isSensitiveLogKey (log_key l k)" "log_key l k \<noteq> ''header''"
proof -
  have "list_all (\<lambda>l. list_all (\<lambda>k. \<not> isSensitiveLogKey (log_key l k) \<and> log_key l k \<noteq> ''header'') log_keys) service_names"
    by code_simp
  then show "\<not> isSensitiveLogKey (log_key l k)" "log_key l k \<noteq> ''header''"
    using assms by (auto simp: list_all_iff)
qed

lemma char_lower_idem: "char_lower (char_lower c) = char_lower c"
  by (auto simp: char_lower_def Let_def)

lemma to_lower_idem: "to_lower (to_lower s) = to_lower s"
  by (simp add: to_lower_def char_lower_idem)

lemma safe_not_sensitive: "isSafeHeaderKey k \<Longrightarrow> TrimSpace k = k \<Longrightarrow> \<not> isSensitiveLogKey k"
proof -
  have "list_all (\<lambda>x. \<not> isSensitiveLogKey x) safe_headers" by code_simp
  moreover assume "isSafeHeaderKey k" "TrimSpace k = k"
  ultimately have "\<not> isSensitiveLogKey (to_lower k)" by (auto simp: isSafeHeaderKey_def list_all_iff)
  moreover have "to_lower (to_lower k) = to_lower k" by (simp add: to_lower_idem)
  ultimately show ?thesis by (simp add: isSensitiveLogKey_def)
qed

lemma all_clean_put: "all_clean flds \<Longrightarrow> clean k v \<Longrightarrow> all_clean (gomap_put k v flds)"
  by (auto simp: all_clean_def dest!: gomap_put_in)

lemma all_clean_del: "all_clean flds \<Longrightarrow> all_clean (gomap_del k flds)"
  by (auto simp: all_clean_def gomap_del_def AList.delete_eq)

lemma clean_plain [simp]:
  "\<not> isSensitiveLogKey k \<Longrightarrow> clean k (LogStr s)" "\<not> isSensitiveLogKey k \<Longrightarrow> clean k (LogInt i)"
  "\<not> isSensitiveLogKey k \<Longrightarrow> clean k (LogDict d)"
  by (simp_all add: clean.simps)

lemma text_value_str: "\<exists>s. fst (text_value what b) = LogStr s"
  by (simp add: text_value_def Let_def)

lemma text_value_clean: "\<not> isSensitiveLogKey k \<Longrightarrow> clean k (fst (text_value what b))"
  by (simp add: text_value_def Let_def)

lemma logged_headers_clean:
  assumes "l \<in> set service_names" "\<forall>k \<in> fst ` set h. TrimSpace k = k"
  shows "clean (log_key l ''headers'') (LogStrMap (HeaderToMap (logged_header h)))"
proof -
  have t: "v = stars \<or> isSafeHeaderKey k \<and> TrimSpace k = k" if "(k, v) \<in> set (HeaderToMap (logged_header h))" for k v
    using that assms(2)
    by (fastforce simp: HeaderToMap_def logged_header_def hset_def split: if_splits dest: gomap_put_in)
  have "\<not> isSensitiveLogKey (log_key l ''headers'')" "log_key l ''headers'' \<noteq> ''header''"
    using plain_keys[OF assms(1)] by (simp_all add: log_keys_def)
  then show ?thesis using t
    by (auto simp: clean.simps list_all_iff dest: safe_not_sensitive)
qed

lemma phase_lines_clean:
  assumes "all_clean flds" "\<not> isSensitiveLogKey key \<or> long = ''''" "ln \<in> set (phase_lines ua msg flds key long)"
  shows "all_clean (ll_fields ln)"
proof -
  have "all_clean (FilterLogFields flds [])" by (auto simp: all_clean_def FilterLogFields_clean)
  then show ?thesis using assms by (auto simp: phase_lines_def all_clean_put split: if_splits)
qed

lemma log_body_clean:
  assumes "l \<in> set service_names" "all_clean flds" "log_body parse l b flds = (flds', key, long)"
  shows "all_clean flds' \<and> (\<not> isSensitiveLogKey key \<or> long = '''')"
  using assms(2,3) plain_keys(1)[OF assms(1), of "''body''"] plain_keys(1)[OF assms(1), of "''body_text''"]
  by (auto simp: log_body_def Let_def log_keys_def text_value_def intro!: all_clean_put split: if_splits option.splits prod.splits)

lemma end_fields_clean:
  assumes "l \<in> set service_names" "all_clean flds" "end_fields parse text l x flds = (flds', key, long)"
  shows "all_clean flds' \<and> (\<not> isSensitiveLogKey key \<or> long = '''')"
proof -
  have k: "\<not> isSensitiveLogKey (log_key l ''status'')" "\<not> isSensitiveLogKey (log_key l ''error'')"
    "\<not> isSensitiveLogKey (log_key l ''response'')" "\<not> isSensitiveLogKey (log_key l ''response_text'')"
    using plain_keys(1)[OF assms(1)] by (simp_all add: log_keys_def)
  show ?thesis
    using assms(2,3) k
    by (cases "(parse, text, l, x, flds)" rule: end_fields.cases)
      (auto simp: log_response_def Let_def text_value_def intro!: all_clean_put split: if_splits option.splits prod.splits)
qed

text \<open>
  Whatever the audit fields and the headers are, no line of a call shows a sensitive field, but
  for objects in bodies and responses, which are logged as they are.
\<close>

lemma call_log_clean:
  assumes "l \<in> set service_names" "\<forall>k \<in> fst ` set h. TrimSpace k = k"
    and "call_log parse text l meth url h b retry audit duration x = Some lns" "ln \<in> set lns"
  shows "all_clean (ll_fields ln)"
proof -
  let ?f = "FilterLogFields audit [''status'']"
  have "all_clean ?f" by (auto simp: all_clean_def FilterLogFields_clean)
  moreover have k: "\<not> isSensitiveLogKey (log_key l ''method'')" "\<not> isSensitiveLogKey (log_key l ''url'')"
      "\<not> isSensitiveLogKey (log_key l ''duration'')" "\<not> isSensitiveLogKey ''logger''"
    using plain_keys(1)[OF assms(1)] by (simp_all add: log_keys_def) code_simp
  ultimately have f0: "all_clean (call_fields l meth url h ?f)"
    using logged_headers_clean[OF assms(1,2)] by (auto simp: call_fields_def intro!: all_clean_put)
  obtain f1 k1 t1 where b: "log_body parse l b (call_fields l meth url h ?f) = (f1, k1, t1)" by (metis prod_cases3)
  note c1 = log_body_clean[OF assms(1) f0 b]
  then have "all_clean (gomap_del k1 (gomap_put (log_key l ''duration'') (LogInt duration) f1))"
    by (intro all_clean_del all_clean_put) (auto simp: k)
  moreover obtain f3 k3 t3 where
    e: "end_fields parse text l x (gomap_del k1 (gomap_put (log_key l ''duration'') (LogInt duration) f1)) = (f3, k3, t3)"
    by (metis prod_cases3)
  ultimately have c3: "all_clean f3 \<and> (\<not> isSensitiveLogKey k3 \<or> t3 = '''')"
    using end_fields_clean[OF assms(1)] by blast
  from assms(3,4) show ?thesis
    by (auto simp: call_log_def Let_def b e dest: phase_lines_clean[OF conjunct1[OF c1] conjunct2[OF c1]]
        phase_lines_clean[OF conjunct1[OF c3] conjunct2[OF c3]])
qed

text \<open>Calls of the agent mget are not logged at all.\<close>

lemma call_log_mget:
  "map_of audit ''user_agent'' = Some (LogStr ''mget'') \<Longrightarrow>
     call_log parse text l meth url h b retry audit duration x = Some []"
proof -
  have "\<not> isSensitiveLogKey ''user_agent''" by code_simp
  moreover assume "map_of audit ''user_agent'' = Some (LogStr ''mget'')"
  ultimately show ?thesis
    by (simp add: call_log_def Let_def logged_user_agent_def map_of_FilterLogFields nonEmptyFields_def
        unloggedFields_def phase_lines_def sanitizeLogValue.simps split: prod.split)
qed

end
