(* ===== verification/Bitarrays.thy ===== *)
theory Bitarrays
  imports Bitmap HttpText
begin

text \<open>
  Bitmaps as text (common/firmware_bitmap.go): \<open>PrettyBitarray\<close> and \<open>PrettyGroupBitarray\<close> write
  the 32 bits in groups, \<open>BitarrayToBitmap\<close> reads a text of bits back.
\<close>

section \<open>Binary numbers as text\<close>

fun bin_digits :: "nat \<Rightarrow> string" where
  "bin_digits n = (if n < 2 then [digit_char n] else bin_digits (n div 2) @ [digit_char (n mod 2)])"

declare bin_digits.simps [simp del]

text \<open>The verb \<open>%032b\<close>: zeros up to a width of 32, the sign included.\<close>

definition fmt_032b :: "int \<Rightarrow> string" where
  "fmt_032b i =
     (if i < 0 then (let ds = bin_digits (nat (- i)) in CHR ''-'' # replicate (31 - length ds) (CHR ''0'') @ ds)
      else (let ds = bin_digits (nat i) in replicate (32 - length ds) (CHR ''0'') @ ds))"

text \<open>\<open>x[a:b]\<close> of a text that is long enough.\<close>

definition slice :: "nat \<Rightarrow> nat \<Rightarrow> string \<Rightarrow> string" where
  "slice a b x = take (b - a) (drop a x)"

definition PrettyBitarray :: "int \<Rightarrow> string" where
  "PrettyBitarray i =
     (let x = fmt_032b i
      in go_join '' '' [slice 0 4 x, slice 4 8 x, slice 8 12 x, slice 12 16 x, slice 16 20 x, slice 20 24 x,
           slice 24 28 x, slice 28 32 x])"

definition PrettyGroupBitarray :: "int \<Rightarrow> string" where
  "PrettyGroupBitarray i =
     (let x = fmt_032b i
      in go_join '' '' [slice 0 8 x, slice 8 12 x, slice 12 16 x, slice 16 20 x, slice 20 24 x,
           slice 24 28 x, slice 28 32 x])"

section \<open>Reading\<close>

definition bit_val :: "char \<Rightarrow> nat option" where
  "bit_val c = (if c = CHR ''0'' then Some 0 else if c = CHR ''1'' then Some 1 else None)"

fun parse_bits :: "nat \<Rightarrow> string \<Rightarrow> nat option" where
  "parse_bits acc [] = Some acc"
| "parse_bits acc (c # cs) =
     (case bit_val c of None \<Rightarrow> None | Some d \<Rightarrow> parse_bits (2 * acc + d) cs)"

text \<open>\<open>strconv.ParseInt(s, 2, 64)\<close>: an optional sign, at least one digit and the range check.\<close>

definition ParseInt2 :: "string \<Rightarrow> goerr + int" where
  "ParseInt2 s =
     (let neg = (s \<noteq> [] \<and> hd s = CHR ''-'');
          ds = (if s \<noteq> [] \<and> (hd s = CHR ''-'' \<or> hd s = CHR ''+'') then tl s else s)
      in if ds = [] then Inl (ErrText ''invalid syntax'')
         else (case parse_bits 0 ds of
             None \<Rightarrow> Inl (ErrText ''invalid syntax'')
           | Some n \<Rightarrow> (let i = (if neg then - int n else int n)
                        in if in_int64 i then Inr i else Inl (ErrText ''value out of range''))))"

definition BitarrayToBitmap :: "string \<Rightarrow> goerr + int" where
  "BitarrayToBitmap src =
     (let s = ReplaceAll src '' '' ''''
      in case ParseInt2 s of Inl err \<Rightarrow> Inl (NewError err) | Inr v \<Rightarrow> Inr v)"

section \<open>Facts\<close>

text \<open>Removing a character with \<open>ReplaceAll\<close>.\<close>

lemma go_join_empty: "go_join [] ss = concat ss"
  by (induction "[] :: string" ss rule: go_join.induct) auto

lemma concat_split_on: "concat (split_on [a] cur s) = cur @ filter (\<lambda>c. c \<noteq> a) s"
proof (induction s arbitrary: cur)
  case Nil
  then show ?case by (simp add: split_on.simps[of "[a]" cur])
next
  case (Cons c s)
  then show ?case by (auto simp: split_on.simps[of "[a]" cur] has_prefix_def)
qed

lemma ReplaceAll_remove: "ReplaceAll s [a] [] = filter (\<lambda>c. c \<noteq> a) s"
  by (simp add: ReplaceAll_def bytes_Split_def go_join_empty concat_split_on)

text \<open>Digits.\<close>

lemma bit_chars: "digit_char 0 = CHR ''0''" "digit_char (Suc 0) = CHR ''1''"
  by code_simp+

lemma parse_bits_append:
  "parse_bits acc (xs @ ys) = (case parse_bits acc xs of None \<Rightarrow> None | Some n \<Rightarrow> parse_bits n ys)"
  by (induction acc xs rule: parse_bits.induct) (auto split: option.splits)

lemma bit_val_digit: "d < 2 \<Longrightarrow> bit_val (digit_char d) = Some d"
  by (auto simp: less_2_cases_iff bit_chars bit_val_def)

lemma parse_bits_zeros: "parse_bits 0 (replicate k (CHR ''0'')) = Some 0"
  by (induction k) (auto simp: bit_val_def)

lemma parse_bin_digits: "parse_bits 0 (bin_digits n) = Some n"
proof (induction n rule: bin_digits.induct)
  case (1 n)
  then show ?case
    by (cases "n < 2") (simp_all add: bin_digits.simps[of n] parse_bits_append bit_val_digit)
qed

lemma bin_digits_bits: "c \<in> set (bin_digits n) \<Longrightarrow> c = CHR ''0'' \<or> c = CHR ''1''"
proof (induction n rule: bin_digits.induct)
  case (1 n)
  have "n mod 2 = 0 \<or> n mod 2 = 1" by auto
  with 1 show ?case
    by (cases "n < 2") (auto simp: bin_digits.simps[of n] bit_chars less_2_cases_iff)
qed

lemma length_bin_digits: "n < 2 ^ k \<Longrightarrow> 0 < k \<Longrightarrow> length (bin_digits n) \<le> k"
proof (induction n arbitrary: k rule: bin_digits.induct)
  case (1 n)
  show ?case
  proof (cases "n < 2")
    case False
    then obtain j where k: "k = Suc j" "0 < j" using 1(2,3) by (cases k; cases "k - 1") auto
    with 1(2) have "n div 2 < 2 ^ j" by auto
    from 1(1)[OF False this k(2)] show ?thesis using False k by (simp add: bin_digits.simps[of n])
  qed (use 1 in \<open>simp add: bin_digits.simps[of n]\<close>)
qed

lemma length_fmt_032b: "0 \<le> i \<Longrightarrow> i < 2 ^ 32 \<Longrightarrow> length (fmt_032b i) = 32"
  using length_bin_digits[of "nat i" 32] by (simp add: fmt_032b_def Let_def nat_less_iff)

lemma fmt_032b_bits: "0 \<le> i \<Longrightarrow> c \<in> set (fmt_032b i) \<Longrightarrow> c = CHR ''0'' \<or> c = CHR ''1''"
  by (auto simp: fmt_032b_def Let_def dest: bin_digits_bits)

lemma ParseInt2_fmt:
  assumes "0 \<le> i" "i < 2 ^ 32"
  shows "ParseInt2 (fmt_032b i) = Inr i"
proof -
  have ne: "fmt_032b i \<noteq> []" using length_fmt_032b[OF assms] by auto
  then have "hd (fmt_032b i) \<noteq> CHR ''-''" "hd (fmt_032b i) \<noteq> CHR ''+''"
    using fmt_032b_bits[OF assms(1) hd_in_set[OF ne]] by auto
  moreover have "parse_bits 0 (fmt_032b i) = Some (nat i)"
    using assms(1) by (simp add: fmt_032b_def Let_def parse_bits_append parse_bits_zeros parse_bin_digits)
  moreover have "in_int64 i" using assms by (simp add: in_int64_def)
  ultimately show ?thesis using assms(1) ne by (simp add: ParseInt2_def Let_def)
qed

text \<open>Both texts are the 32 digits with spaces between some of them.\<close>

lemma slices:
  assumes "length x = 32"
  shows "slice 0 4 x @ slice 4 8 x @ slice 8 12 x @ slice 12 16 x @ slice 16 20 x @ slice 20 24 x
      @ slice 24 28 x @ slice 28 32 x = x"
    and "slice 0 8 x @ slice 8 12 x @ slice 12 16 x @ slice 16 20 x @ slice 20 24 x
      @ slice 24 28 x @ slice 28 32 x = x"
proof -
  have step: "slice a b x @ drop b x = drop a x" if "a \<le> b" for a b
  proof -
    have "drop b x = drop (b - a) (drop a x)" using that by simp
    then show ?thesis unfolding slice_def by (simp only: append_take_drop_id)
  qed
  have "slice 28 32 x = drop 28 x" using assms by (simp add: slice_def)
  moreover have "slice 0 4 x @ drop 4 x = x" "slice 4 8 x @ drop 8 x = drop 4 x" "slice 8 12 x @ drop 12 x = drop 8 x"
    "slice 12 16 x @ drop 16 x = drop 12 x" "slice 16 20 x @ drop 20 x = drop 16 x"
    "slice 20 24 x @ drop 24 x = drop 20 x" "slice 24 28 x @ drop 28 x = drop 24 x" "slice 0 8 x @ drop 8 x = x"
    using step[of 0 4] step[of 0 8] by (simp_all add: step)
  ultimately show "slice 0 4 x @ slice 4 8 x @ slice 8 12 x @ slice 12 16 x @ slice 16 20 x @ slice 20 24 x
      @ slice 24 28 x @ slice 28 32 x = x"
    and "slice 0 8 x @ slice 8 12 x @ slice 12 16 x @ slice 16 20 x @ slice 20 24 x
      @ slice 24 28 x @ slice 28 32 x = x"
    by (simp_all only:)
qed

lemma filter_slice: "\<forall>c \<in> set x. c \<noteq> a \<Longrightarrow> filter (\<lambda>c. c \<noteq> a) (slice i j x) = slice i j x"
  by (auto simp: slice_def filter_id_conv dest!: in_set_takeD in_set_dropD)

lemma pretty_digits:
  assumes "0 \<le> i" "i < 2 ^ 32"
  shows "filter (\<lambda>c. c \<noteq> CHR '' '') (PrettyBitarray i) = fmt_032b i"
    and "filter (\<lambda>c. c \<noteq> CHR '' '') (PrettyGroupBitarray i) = fmt_032b i"
proof -
  have "\<forall>c \<in> set (fmt_032b i). c \<noteq> CHR '' ''" using fmt_032b_bits[OF assms(1)] by auto
  note f = filter_slice[OF this] and s = slices[OF length_fmt_032b[OF assms]]
  show "filter (\<lambda>c. c \<noteq> CHR '' '') (PrettyBitarray i) = fmt_032b i"
    by (simp add: PrettyBitarray_def Let_def f s(1))
  show "filter (\<lambda>c. c \<noteq> CHR '' '') (PrettyGroupBitarray i) = fmt_032b i"
    by (simp add: PrettyGroupBitarray_def Let_def f s(2))
qed

text \<open>A 32-bit map is read back from either text.\<close>

lemma Bitarray_round_trip:
  assumes "0 \<le> i" "i < 2 ^ 32"
  shows "BitarrayToBitmap (PrettyBitarray i) = Inr i" "BitarrayToBitmap (PrettyGroupBitarray i) = Inr i"
  by (simp_all add: BitarrayToBitmap_def ReplaceAll_remove pretty_digits[OF assms] ParseInt2_fmt[OF assms])

end
