(* ===== verification/TestClients.thy ===== *)
theory TestClients
  imports Startup Schema CqlEngine
begin

text \<open>
  The database clients of the tests (db/cassandra/cassandra_client.go, db/sqlite/sqlite_client.go,
  \<open>GetTestDatabaseClient\<close> of http/webconfig_server.go): the tables are created and emptied once,
  and the client is kept in a global variable.
\<close>

section \<open>The tables of Cassandra\<close>

text \<open>The types of the columns, of the tables that are emptied.\<close>

definition CassandraSchemas :: "string gomap gomap" where
  "CassandraSchemas =
     [(''xpc_group_config'',
        [(''cpe_mac'', ''text''), (''group_id'', ''text''), (''error_code'', ''int''), (''error_details'', ''text''),
         (''expiry'', ''timestamp''), (''payload'', ''blob''), (''state'', ''int''), (''updated_time'', ''timestamp''),
         (''version'', ''text'')]),
      (''root_document'',
        [(''cpe_mac'', ''text''), (''bitmap'', ''bigint''), (''account_type'', ''text''),
         (''firmware_version'', ''text''), (''model_name'', ''text''), (''partner_id'', ''text''),
         (''product_class'', ''text''), (''route'', ''text''), (''schema_version'', ''text''),
         (''version'', ''text'')])]"

datatype cql_ddl = CqlCreate string | CqlTruncate string

text \<open>\<open>run\<close> sends a statement, which fails or not.\<close>

type_synonym 'd cql_admin = "cql_ddl \<Rightarrow> 'd \<Rightarrow> goerr option \<times> 'd"

definition ca_run :: "'d cql_admin \<Rightarrow> cql_ddl \<Rightarrow> ('d, unit) prog" where
  "ca_run run st = (\<lambda>d. case run st d of (None, d') \<Rightarrow> (Ok (), d') | (Some e, d') \<Rightarrow> (Err e, d'))"

definition ca_SetUp :: "'d cql_admin \<Rightarrow> ('d, unit) prog" where
  "ca_SetUp run = for_each (\<lambda>t. ca_run run (CqlCreate t)) (map fst cassandra_schema)"

definition ca_TearDown :: "'d cql_admin \<Rightarrow> ('d, unit) prog" where
  "ca_TearDown run = for_each (\<lambda>t. ca_run run (CqlTruncate t)) (map fst CassandraSchemas)"

section \<open>The clients of the tests\<close>

text \<open>The global variable with the client, and the database.\<close>

record ('c, 'd) test_db =
  td_client :: "'c option"
  td_db :: 'd

definition on_test_db :: "('d, 'a) prog \<Rightarrow> (('c, 'd) test_db, 'a) prog" where
  "on_test_db m = (\<lambda>s. case m (td_db s) of (r, d) \<Rightarrow> (r, s\<lparr>td_db := d\<rparr>))"

text \<open>The constructor sets the global variable, also to nil.\<close>

definition new_client :: "'c result \<Rightarrow> (('c, 'd) test_db, unit) prog" where
  "new_client made = (\<lambda>s. case made of
       Ok c \<Rightarrow> (Ok (), s\<lparr>td_client := Some c\<rparr>)
     | Err e \<Rightarrow> (Err e, s\<lparr>td_client := None\<rparr>)
     | Panic \<Rightarrow> (Panic, s))"

definition get_client :: "(('c, 'd) test_db, 'c option) prog" where
  "get_client = (\<lambda>s. (Ok (td_client s), s))"

text \<open>\<open>skipEnv\<close>: the environment variable \<open>SKIP_TABLE_CREATION\<close>.\<close>

definition skip_tables :: "string option \<Rightarrow> bool" where
  "skip_tables skipEnv =
     (case skipEnv of None \<Rightarrow> False | Some v \<Rightarrow> to_lower v \<in> {''true'', ''1'', ''yes''})"

definition GetTestCassandraClient ::
  "'c result \<Rightarrow> string option \<Rightarrow> 'd cql_admin \<Rightarrow> (('c, 'd) test_db, 'c option) prog" where
  "GetTestCassandraClient made skipEnv run = (\<lambda>s.
     if td_client s \<noteq> None then (Ok (td_client s), s)
     else bindE (new_client made) (\<lambda>_.
       if skip_tables skipEnv then get_client
       else bindE (on_test_db (ca_SetUp run)) (\<lambda>_. bindE (on_test_db (ca_TearDown run)) (\<lambda>_. get_client))) s)"

definition GetTestSqliteClient :: "'c result \<Rightarrow> 'd ddl_db \<Rightarrow> (('c, 'd) test_db, 'c option) prog" where
  "GetTestSqliteClient made D = (\<lambda>s.
     if td_client s \<noteq> None then (Ok (td_client s), s)
     else bindE (new_client made) (\<lambda>_. tryE (on_test_db (prepare_test_db D)) throw (\<lambda>_. get_client)) s)"

text \<open>\<open>driverEnv\<close>: the environment variable \<open>TESTDB_DRIVER\<close>. Every error is a panic.\<close>

definition or_panic :: "('s, 'a) prog \<Rightarrow> ('s, 'a) prog" where
  "or_panic m = (\<lambda>s. case m s of (r, s') \<Rightarrow> (must r, s'))"

definition GetTestDatabaseClient ::
  "('s, 'c option) prog \<Rightarrow> ('s, 'c option) prog \<Rightarrow> string \<Rightarrow> server_config \<Rightarrow> ('s, 'c option) prog" where
  "GetTestDatabaseClient test_sqlite test_cassandra driverEnv sc =
     (let activeDriver = (if length driverEnv > 0 then driverEnv
            else GetString (sc_Config sc) ''webconfig.database.active_driver'' ''cassandra'')
      in if activeDriver = ''sqlite'' then or_panic test_sqlite
         else if activeDriver \<in> {''cassandra'', ''yugabyte''} then or_panic test_cassandra
         else (\<lambda>s. (Panic, s)))"

section \<open>Facts\<close>

text \<open>What the cluster promises: a table that is created keeps its rows, a truncated one is empty.\<close>

fun cql_ddl_effect :: "cql_ddl \<Rightarrow> tables \<Rightarrow> tables" where
  "cql_ddl_effect (CqlCreate t) T = T"
| "cql_ddl_effect (CqlTruncate t) T = T(t := [])"

definition admin_ok :: "'d cql_admin \<Rightarrow> ('d \<Rightarrow> tables) \<Rightarrow> bool" where
  "admin_ok run tabs \<longleftrightarrow> (\<forall>st d d'. run st d = (None, d') \<longrightarrow> tabs d' = cql_ddl_effect st (tabs d))"

lemma ca_run_ok: "admin_ok run tabs \<Longrightarrow> ca_run run st d = (Ok (), d') \<Longrightarrow> tabs d' = cql_ddl_effect st (tabs d)"
  by (auto simp: admin_ok_def ca_run_def split: prod.splits option.splits)

lemma for_each_ok:
  assumes "admin_ok run tabs" "for_each (\<lambda>t. ca_run run (f t)) ts d = (Ok (), d')"
  shows "tabs d' = fold (\<lambda>t. cql_ddl_effect (f t)) ts (tabs d)"
  using assms(2)
proof (induction ts arbitrary: d)
  case Nil
  then show ?case by (simp add: ret_def)
next
  case (Cons t ts)
  then obtain d1 where "ca_run run (f t) d = (Ok (), d1)" "for_each (\<lambda>t. ca_run run (f t)) ts d1 = (Ok (), d')"
    by (auto simp: bindE_eq_Ok)
  with Cons.IH ca_run_ok[OF assms(1)] show ?case by simp
qed

text \<open>
  The sub-documents and the root documents are gone after a tear-down; the reference documents
  are not among the tables that are emptied.
\<close>

lemma ca_TearDown_tables:
  assumes "admin_ok run tabs" "ca_TearDown run d = (Ok (), d')"
  shows "tabs d' = (tabs d)(''xpc_group_config'' := [], ''root_document'' := [])"
  using for_each_ok[OF assms(1) assms(2)[unfolded ca_TearDown_def]] by (simp add: CassandraSchemas_def)

text \<open>
  A failed preparation of the tables is reported once: the client stays in the global variable,
  so the next call returns it and prepares nothing.
\<close>

lemma on_test_db_client: "td_client (snd (on_test_db m s)) = td_client s"
  by (simp add: on_test_db_def split: prod.splits)

lemma GetTestSqliteClient_failed_once:
  assumes "td_client s = None" "GetTestSqliteClient (Ok c) D s = (Err e, s')"
  shows "GetTestSqliteClient made D s' = (Ok (Some c), s')"
proof -
  have "tryE (on_test_db (prepare_test_db D)) throw (\<lambda>_. get_client) (s\<lparr>td_client := Some c\<rparr>) = (Err e, s')"
    using assms by (simp add: GetTestSqliteClient_def new_client_def bindE_def tryE_def)
  then have "td_client s' = Some c"
    using on_test_db_client[of "prepare_test_db D" "s\<lparr>td_client := Some c\<rparr>"]
    by (auto simp: tryE_def get_client_def throw_def split: prod.splits outcome.splits)
  then show ?thesis by (simp add: GetTestSqliteClient_def)
qed

end
