(* ===== verification/Access.thy ===== *)
theory Access
  imports Startup CassandraClient
begin

text \<open>
  The accessors of the program: what reads and writes one setting of the server, of a connector
  or of a database client, or one field of a document or of the writer of a response. Tests and
  the main program change settings with them after the constructors have run.
\<close>

section \<open>The server\<close>

text \<open>The fields of the server are in three records of the model: the settings, the flags of the router, and the parts.\<close>

definition MetricsEnabled :: "('s, 'k, 'e) started \<Rightarrow> bool" where
  "MetricsEnabled st = pt_metricsEnabled (st_parts st)"

definition FactoryResetEnabled :: "('s, 'k, 'e) started \<Rightarrow> bool" where
  "FactoryResetEnabled st = pt_factoryResetEnabled (st_parts st)"

definition SetFactoryResetEnabled :: "bool \<Rightarrow> ('s, 'k, 'e) started \<Rightarrow> ('s, 'k, 'e) started" where
  "SetFactoryResetEnabled x st = st\<lparr>st_parts := (st_parts st)\<lparr>pt_factoryResetEnabled := x\<rparr>\<rparr>"

definition ServerApiTokenAuthEnabled :: "('s, 'k, 'e) started \<Rightarrow> bool" where
  "ServerApiTokenAuthEnabled st = serverApiTokenAuthEnabled (st_flags st)"

definition SetServerApiTokenAuthEnabled :: "bool \<Rightarrow> ('s, 'k, 'e) started \<Rightarrow> ('s, 'k, 'e) started" where
  "SetServerApiTokenAuthEnabled x st = st\<lparr>st_flags := (st_flags st)\<lparr>serverApiTokenAuthEnabled := x\<rparr>\<rparr>"

definition DeviceApiTokenAuthEnabled :: "('s, 'k, 'e) started \<Rightarrow> bool" where
  "DeviceApiTokenAuthEnabled st = deviceApiTokenAuthEnabled (st_flags st)"

definition SetDeviceApiTokenAuthEnabled :: "bool \<Rightarrow> ('s, 'k, 'e) started \<Rightarrow> ('s, 'k, 'e) started" where
  "SetDeviceApiTokenAuthEnabled x st = st\<lparr>st_flags := (st_flags st)\<lparr>deviceApiTokenAuthEnabled := x\<rparr>\<rparr>"

definition TokenApiEnabled :: "('s, 'k, 'e) started \<Rightarrow> bool" where
  "TokenApiEnabled st = tokenApiEnabled (st_flags st)"

definition SetTokenApiEnabled :: "bool \<Rightarrow> ('s, 'k, 'e) started \<Rightarrow> ('s, 'k, 'e) started" where
  "SetTokenApiEnabled x st = st\<lparr>st_flags := (st_flags st)\<lparr>tokenApiEnabled := x\<rparr>\<rparr>"

definition KafkaEnabled :: "('s, 'k, 'e) started \<Rightarrow> bool" where
  "KafkaEnabled st = pt_kafkaEnabled (st_parts st)"

definition SetKafkaEnabled :: "bool \<Rightarrow> ('s, 'k, 'e) started \<Rightarrow> ('s, 'k, 'e) started" where
  "SetKafkaEnabled x st = st\<lparr>st_parts := (st_parts st)\<lparr>pt_kafkaEnabled := x\<rparr>\<rparr>"

definition UpstreamEnabled :: "('s, 'k, 'e) started \<Rightarrow> bool" where
  "UpstreamEnabled st = upstreamEnabled (st_server st)"

definition SetUpstreamEnabled :: "bool \<Rightarrow> ('s, 'k, 'e) started \<Rightarrow> ('s, 'k, 'e) started" where
  "SetUpstreamEnabled x st = st\<lparr>st_server := (st_server st)\<lparr>upstreamEnabled := x\<rparr>\<rparr>"

definition AppName :: "('s, 'k, 'e) started \<Rightarrow> string" where
  "AppName st = appName (st_server st)"

definition SetAppName :: "string \<Rightarrow> ('s, 'k, 'e) started \<Rightarrow> ('s, 'k, 'e) started" where
  "SetAppName x st = st\<lparr>st_server := (st_server st)\<lparr>appName := x\<rparr>\<rparr>"

definition ValidateMacEnabled :: "('s, 'k, 'e) started \<Rightarrow> bool" where
  "ValidateMacEnabled st = validateMacEnabled (st_server st)"

definition SetValidateMacEnabled :: "bool \<Rightarrow> ('s, 'k, 'e) started \<Rightarrow> ('s, 'k, 'e) started" where
  "SetValidateMacEnabled x st = st\<lparr>st_server := (st_server st)\<lparr>validateMacEnabled := x\<rparr>\<rparr>"

definition GetUpstreamConnector :: "('s, 'k, 'e) started \<Rightarrow> connector_settings option" where
  "GetUpstreamConnector st = (if \<not> upstreamEnabled (st_server st) then None else Some (pt_upstream (st_parts st)))"

definition TlsConfig :: "('s, 'k, 'e) started \<Rightarrow> tls_config option" where
  "TlsConfig st = pt_tlsConfig (st_parts st)"

definition NotLoggedHeaders :: "('s, 'k, 'e) started \<Rightarrow> string list" where
  "NotLoggedHeaders st = pt_notLoggedHeaders (st_parts st)"

definition ValidPartners :: "('s, 'k, 'e) started \<Rightarrow> string list" where
  "ValidPartners st = validPartners (st_server st)"

definition SetValidPartners :: "string list \<Rightarrow> ('s, 'k, 'e) started \<Rightarrow> ('s, 'k, 'e) started" where
  "SetValidPartners x st = st\<lparr>st_server := (st_server st)\<lparr>validPartners := x\<rparr>\<rparr>"

definition JwksEnabled :: "('s, 'k, 'e) started \<Rightarrow> bool" where
  "JwksEnabled st = jwksEnabled (st_server st)"

definition SetJwksEnabled :: "bool \<Rightarrow> ('s, 'k, 'e) started \<Rightarrow> ('s, 'k, 'e) started" where
  "SetJwksEnabled x st = st\<lparr>st_server := (st_server st)\<lparr>jwksEnabled := x\<rparr>\<rparr>"

definition SupplementaryAppendingEnabled :: "('s, 'k, 'e) started \<Rightarrow> bool" where
  "SupplementaryAppendingEnabled st = supplementaryAppendingEnabled (st_server st)"

definition SetSupplementaryAppendingEnabled :: "bool \<Rightarrow> ('s, 'k, 'e) started \<Rightarrow> ('s, 'k, 'e) started" where
  "SetSupplementaryAppendingEnabled x st = st\<lparr>st_server := (st_server st)\<lparr>supplementaryAppendingEnabled := x\<rparr>\<rparr>"

definition KafkaProducerEnabled :: "('s, 'k, 'e) started \<Rightarrow> bool" where
  "KafkaProducerEnabled st = kafkaProducerEnabled (st_server st)"

definition SetKafkaProducerEnabled :: "bool \<Rightarrow> ('s, 'k, 'e) started \<Rightarrow> ('s, 'k, 'e) started" where
  "SetKafkaProducerEnabled x st = st\<lparr>st_server := (st_server st)\<lparr>kafkaProducerEnabled := x\<rparr>\<rparr>"

definition KafkaProducerTopic :: "('s, 'k, 'e) started \<Rightarrow> string" where
  "KafkaProducerTopic st = kafkaProducerTopic (st_server st)"

definition SetKafkaProducerTopic :: "string \<Rightarrow> ('s, 'k, 'e) started \<Rightarrow> ('s, 'k, 'e) started" where
  "SetKafkaProducerTopic x st = st\<lparr>st_server := (st_server st)\<lparr>kafkaProducerTopic := x\<rparr>\<rparr>"

definition UpstreamProfilesEnabled :: "('s, 'k, 'e) started \<Rightarrow> bool" where
  "UpstreamProfilesEnabled st = upstreamProfilesEnabled (st_server st)"

definition SetUpstreamProfilesEnabled :: "bool \<Rightarrow> ('s, 'k, 'e) started \<Rightarrow> ('s, 'k, 'e) started" where
  "SetUpstreamProfilesEnabled x st = st\<lparr>st_server := (st_server st)\<lparr>upstreamProfilesEnabled := x\<rparr>\<rparr>"

definition QueryParamsValidationEnabled :: "('s, 'k, 'e) started \<Rightarrow> bool" where
  "QueryParamsValidationEnabled st = queryParamsValidationEnabled (st_server st)"

definition SetQueryParamsValidationEnabled :: "bool \<Rightarrow> ('s, 'k, 'e) started \<Rightarrow> ('s, 'k, 'e) started" where
  "SetQueryParamsValidationEnabled x st = st\<lparr>st_server := (st_server st)\<lparr>queryParamsValidationEnabled := x\<rparr>\<rparr>"

definition MinTrust :: "('s, 'k, 'e) started \<Rightarrow> int" where
  "MinTrust st = minTrust (st_server st)"

definition SetMinTrust :: "int \<Rightarrow> ('s, 'k, 'e) started \<Rightarrow> ('s, 'k, 'e) started" where
  "SetMinTrust x st = st\<lparr>st_server := (st_server st)\<lparr>minTrust := x\<rparr>\<rparr>"

definition ValidSubdocIdMap :: "('s, 'k, 'e) started \<Rightarrow> int gomap" where
  "ValidSubdocIdMap st = validSubdocIdMap (st_server st)"

definition SetValidSubdocIdMap :: "int gomap \<Rightarrow> ('s, 'k, 'e) started \<Rightarrow> ('s, 'k, 'e) started" where
  "SetValidSubdocIdMap x st = st\<lparr>st_server := (st_server st)\<lparr>validSubdocIdMap := x\<rparr>\<rparr>"

definition FilterOutputByBitmapEnabled :: "('s, 'k, 'e) started \<Rightarrow> bool" where
  "FilterOutputByBitmapEnabled st = filterOutputByBitmapEnabled (st_server st)"

definition SetFilterOutputByBitmapEnabled :: "bool \<Rightarrow> ('s, 'k, 'e) started \<Rightarrow> ('s, 'k, 'e) started" where
  "SetFilterOutputByBitmapEnabled x st = st\<lparr>st_server := (st_server st)\<lparr>filterOutputByBitmapEnabled := x\<rparr>\<rparr>"

definition DefaultEmptyProfileEnabled :: "('s, 'k, 'e) started \<Rightarrow> bool" where
  "DefaultEmptyProfileEnabled st = defaultEmptyProfileEnabled (st_server st)"

definition SetDefaultEmptyProfileEnabled :: "bool \<Rightarrow> ('s, 'k, 'e) started \<Rightarrow> ('s, 'k, 'e) started" where
  "SetDefaultEmptyProfileEnabled x st = st\<lparr>st_server := (st_server st)\<lparr>defaultEmptyProfileEnabled := x\<rparr>\<rparr>"

definition BitmapFilterExemptSubdocIds :: "('s, 'k, 'e) started \<Rightarrow> string list" where
  "BitmapFilterExemptSubdocIds st = bitmapFilterExemptSubdocIds (st_server st)"

definition SetBitmapFilterExemptSubdocIds :: "string list \<Rightarrow> ('s, 'k, 'e) started \<Rightarrow> ('s, 'k, 'e) started" where
  "SetBitmapFilterExemptSubdocIds x st = st\<lparr>st_server := (st_server st)\<lparr>bitmapFilterExemptSubdocIds := x\<rparr>\<rparr>"

section \<open>The writer of a response\<close>

definition xw_get_Status :: "xwriter \<Rightarrow> int" where
  "xw_get_Status x = xw_status x"

definition xw_get_Response :: "xwriter \<Rightarrow> bytes" where
  "xw_get_Response x = xw_response x"

definition xw_get_BodyBytes :: "xwriter \<Rightarrow> bytes" where
  "xw_get_BodyBytes x = xw_bodyBytes x"

definition xw_get_Token :: "xwriter \<Rightarrow> string" where
  "xw_get_Token x = xw_token x"

definition xw_get_Audit :: "xwriter \<Rightarrow> fields" where
  "xw_get_Audit x = xw_audit x"

definition xw_get_PartnerId :: "xwriter \<Rightarrow> string" where
  "xw_get_PartnerId x = xw_partnerId x"

definition SetBodyBytes :: "bytes \<Rightarrow> xwriter \<Rightarrow> xwriter" where
  "SetBodyBytes b x = x\<lparr>xw_bodyBytes := b\<rparr>"

definition SetToken :: "string \<Rightarrow> xwriter \<Rightarrow> xwriter" where
  "SetToken t x = x\<lparr>xw_token := t\<rparr>"

definition SetAuditData :: "string \<Rightarrow> itf \<Rightarrow> xwriter \<Rightarrow> xwriter" where
  "SetAuditData k v x = x\<lparr>xw_audit := gomap_put k v (xw_audit x)\<rparr>"

text \<open>The text of the other two must be a string; \<open>None\<close> is a panic.\<close>

definition AuditId :: "xwriter \<Rightarrow> string option" where
  "AuditId x = AuditData x ''audit_id''"

definition TraceId :: "xwriter \<Rightarrow> string option" where
  "TraceId x = AuditData x ''trace_id''"

section \<open>Documents\<close>

definition subdoc_Payload :: "subdoc \<Rightarrow> bytes option" where
  "subdoc_Payload d = sd_payload d"

definition subdoc_SetPayload :: "bytes option \<Rightarrow> subdoc \<Rightarrow> subdoc" where
  "subdoc_SetPayload x d = d\<lparr>sd_payload := x\<rparr>"

definition subdoc_Version :: "subdoc \<Rightarrow> string option" where
  "subdoc_Version d = sd_version d"

definition subdoc_SetVersion :: "string option \<Rightarrow> subdoc \<Rightarrow> subdoc" where
  "subdoc_SetVersion x d = d\<lparr>sd_version := x\<rparr>"

definition subdoc_State :: "subdoc \<Rightarrow> int option" where
  "subdoc_State d = sd_state d"

definition subdoc_SetState :: "int option \<Rightarrow> subdoc \<Rightarrow> subdoc" where
  "subdoc_SetState x d = d\<lparr>sd_state := x\<rparr>"

definition subdoc_UpdatedTime :: "subdoc \<Rightarrow> int option" where
  "subdoc_UpdatedTime d = sd_updated_time d"

definition subdoc_SetUpdatedTime :: "int option \<Rightarrow> subdoc \<Rightarrow> subdoc" where
  "subdoc_SetUpdatedTime x d = d\<lparr>sd_updated_time := x\<rparr>"

definition subdoc_ErrorCode :: "subdoc \<Rightarrow> int option" where
  "subdoc_ErrorCode d = sd_error_code d"

definition subdoc_SetErrorCode :: "int option \<Rightarrow> subdoc \<Rightarrow> subdoc" where
  "subdoc_SetErrorCode x d = d\<lparr>sd_error_code := x\<rparr>"

definition subdoc_ErrorDetails :: "subdoc \<Rightarrow> string option" where
  "subdoc_ErrorDetails d = sd_error_details d"

definition subdoc_SetErrorDetails :: "string option \<Rightarrow> subdoc \<Rightarrow> subdoc" where
  "subdoc_SetErrorDetails x d = d\<lparr>sd_error_details := x\<rparr>"

definition subdoc_Expiry :: "subdoc \<Rightarrow> int option" where
  "subdoc_Expiry d = sd_expiry d"

definition subdoc_SetExpiry :: "int option \<Rightarrow> subdoc \<Rightarrow> subdoc" where
  "subdoc_SetExpiry x d = d\<lparr>sd_expiry := x\<rparr>"

definition refsubdoc_Payload :: "refsubdoc \<Rightarrow> bytes option" where
  "refsubdoc_Payload d = rs_payload d"

definition refsubdoc_SetPayload :: "bytes option \<Rightarrow> refsubdoc \<Rightarrow> refsubdoc" where
  "refsubdoc_SetPayload x d = d\<lparr>rs_payload := x\<rparr>"

definition refsubdoc_Version :: "refsubdoc \<Rightarrow> string option" where
  "refsubdoc_Version d = rs_version d"

definition refsubdoc_SetVersion :: "string option \<Rightarrow> refsubdoc \<Rightarrow> refsubdoc" where
  "refsubdoc_SetVersion x d = d\<lparr>rs_version := x\<rparr>"

definition Items :: "document \<Rightarrow> subdoc gomap" where
  "Items d = docmap d"

definition GetRootDocument_of :: "document \<Rightarrow> rootdoc option" where
  "GetRootDocument_of d = rootDocument d"

definition ConfigBytes :: "server_config \<Rightarrow> bytes" where
  "ConfigBytes c = sc_configBytes c"

section \<open>The connectors\<close>

text \<open>A template is its formatting function.\<close>

definition XconfHost :: "connector \<Rightarrow> string" where
  "XconfHost c = cn_host c"

definition SetXconfHost :: "string \<Rightarrow> connector \<Rightarrow> connector" where
  "SetXconfHost x c = c\<lparr>cn_host := x\<rparr>"

definition XconfUrlTemplate :: "connector \<Rightarrow> string list \<Rightarrow> string" where
  "XconfUrlTemplate c = cn_url c"

definition SetXconfUrlTemplate :: "(string list \<Rightarrow> string) \<Rightarrow> connector \<Rightarrow> connector" where
  "SetXconfUrlTemplate x c = c\<lparr>cn_url := x\<rparr>"

definition MqttHost :: "connector \<Rightarrow> string" where
  "MqttHost c = cn_host c"

definition SetMqttHost :: "string \<Rightarrow> connector \<Rightarrow> connector" where
  "SetMqttHost x c = c\<lparr>cn_host := x\<rparr>"

definition MqttUrlTemplate :: "connector \<Rightarrow> string list \<Rightarrow> string" where
  "MqttUrlTemplate c = cn_url c"

definition SetMqttUrlTemplate :: "(string list \<Rightarrow> string) \<Rightarrow> connector \<Rightarrow> connector" where
  "SetMqttUrlTemplate x c = c\<lparr>cn_url := x\<rparr>"

definition UpstreamHost :: "connector \<Rightarrow> string" where
  "UpstreamHost c = cn_host c"

definition SetUpstreamHost :: "string \<Rightarrow> connector \<Rightarrow> connector" where
  "SetUpstreamHost x c = c\<lparr>cn_host := x\<rparr>"

definition WebpaHost :: "webpa \<Rightarrow> string" where
  "WebpaHost c = wp_host c"

definition SetWebpaHost :: "string \<Rightarrow> webpa \<Rightarrow> webpa" where
  "SetWebpaHost x c = c\<lparr>wp_host := x\<rparr>"

definition WebpaUrlTemplate :: "webpa \<Rightarrow> string list \<Rightarrow> string" where
  "WebpaUrlTemplate c = wp_url c"

definition SetWebpaUrlTemplate :: "(string list \<Rightarrow> string) \<Rightarrow> webpa \<Rightarrow> webpa" where
  "SetWebpaUrlTemplate x c = c\<lparr>wp_url := x\<rparr>"

definition ApiVersion :: "webpa \<Rightarrow> string" where
  "ApiVersion c = wp_apiVersion c"

definition SetApiVersion :: "string \<Rightarrow> webpa \<Rightarrow> webpa" where
  "SetApiVersion x c = c\<lparr>wp_apiVersion := x\<rparr>"

definition AsyncPokeEnabled :: "webpa \<Rightarrow> bool" where
  "AsyncPokeEnabled c = wp_asyncPokeEnabled c"

definition SetAsyncPokeEnabled :: "bool \<Rightarrow> webpa \<Rightarrow> webpa" where
  "SetAsyncPokeEnabled x c = c\<lparr>wp_asyncPokeEnabled := x\<rparr>"

section \<open>The database clients\<close>

text \<open>Their settings, and the metrics, which are nil or not.\<close>

definition sq_Metrics :: "'d sqlite \<Rightarrow> metrics option" where
  "sq_Metrics s = sq_metrics s"

definition sq_SetMetrics :: "metrics option \<Rightarrow> 'd sqlite \<Rightarrow> 'd sqlite" where
  "sq_SetMetrics m s = s\<lparr>sq_metrics := m\<rparr>"

definition sq_IsMetricsEnabled :: "'d sqlite \<Rightarrow> bool" where
  "sq_IsMetricsEnabled s = (sq_metrics s \<noteq> None)"

definition sq_BlockedSubdocIds :: "sqlite_config \<Rightarrow> string list" where
  "sq_BlockedSubdocIds c = blockedSubdocIds c"

definition sq_SetBlockedSubdocIds :: "string list \<Rightarrow> sqlite_config \<Rightarrow> sqlite_config" where
  "sq_SetBlockedSubdocIds x c = c\<lparr>blockedSubdocIds := x\<rparr>"

definition sq_StateCorrectionEnabled :: "sqlite_config \<Rightarrow> bool" where
  "sq_StateCorrectionEnabled c = stateCorrectionEnabled c"

definition sq_SetStateCorrectionEnabled :: "bool \<Rightarrow> sqlite_config \<Rightarrow> sqlite_config" where
  "sq_SetStateCorrectionEnabled x c = c\<lparr>stateCorrectionEnabled := x\<rparr>"

definition sq_LockRootDocumentEnabled :: "sqlite_config \<Rightarrow> bool" where
  "sq_LockRootDocumentEnabled c = lockRootDocumentEnabled c"

definition sq_SetLockRootDocumentEnabled :: "bool \<Rightarrow> sqlite_config \<Rightarrow> sqlite_config" where
  "sq_SetLockRootDocumentEnabled x c = c\<lparr>lockRootDocumentEnabled := x\<rparr>"

definition sq_SupplementaryPrecookEnabled :: "sqlite_config \<Rightarrow> bool" where
  "sq_SupplementaryPrecookEnabled c = supplementaryPrecookEnabled c"

definition sq_SetSupplementaryPrecookEnabled :: "bool \<Rightarrow> sqlite_config \<Rightarrow> sqlite_config" where
  "sq_SetSupplementaryPrecookEnabled x c = c\<lparr>supplementaryPrecookEnabled := x\<rparr>"

definition sq_SupplementaryPrecookStateTTLDays :: "sqlite_config \<Rightarrow> int" where
  "sq_SupplementaryPrecookStateTTLDays c = supplementaryPrecookStateTTLDays c"

definition sq_SetSupplementaryPrecookStateTTLDays :: "int \<Rightarrow> sqlite_config \<Rightarrow> sqlite_config" where
  "sq_SetSupplementaryPrecookStateTTLDays x c = c\<lparr>supplementaryPrecookStateTTLDays := x\<rparr>"

definition ca_Metrics :: "'d cassandra \<Rightarrow> metrics option" where
  "ca_Metrics s = ca_metrics s"

definition ca_SetMetrics :: "metrics option \<Rightarrow> 'd cassandra \<Rightarrow> 'd cassandra" where
  "ca_SetMetrics m s = s\<lparr>ca_metrics := m\<rparr>"

definition ca_IsMetricsEnabled :: "'d cassandra \<Rightarrow> bool" where
  "ca_IsMetricsEnabled s = (ca_metrics s \<noteq> None)"

definition ca_BlockedSubdocIds :: "cassandra_config \<Rightarrow> string list" where
  "ca_BlockedSubdocIds c = blockedSubdocIds c"

definition ca_SetBlockedSubdocIds :: "string list \<Rightarrow> cassandra_config \<Rightarrow> cassandra_config" where
  "ca_SetBlockedSubdocIds x c = c\<lparr>blockedSubdocIds := x\<rparr>"

definition ca_StateCorrectionEnabled :: "cassandra_config \<Rightarrow> bool" where
  "ca_StateCorrectionEnabled c = stateCorrectionEnabled c"

definition ca_SetStateCorrectionEnabled :: "bool \<Rightarrow> cassandra_config \<Rightarrow> cassandra_config" where
  "ca_SetStateCorrectionEnabled x c = c\<lparr>stateCorrectionEnabled := x\<rparr>"

definition ca_LockRootDocumentEnabled :: "cassandra_config \<Rightarrow> bool" where
  "ca_LockRootDocumentEnabled c = lockRootDocumentEnabled c"

definition ca_SetLockRootDocumentEnabled :: "bool \<Rightarrow> cassandra_config \<Rightarrow> cassandra_config" where
  "ca_SetLockRootDocumentEnabled x c = c\<lparr>lockRootDocumentEnabled := x\<rparr>"

definition ca_SupplementaryPrecookEnabled :: "cassandra_config \<Rightarrow> bool" where
  "ca_SupplementaryPrecookEnabled c = supplementaryPrecookEnabled c"

definition ca_SetSupplementaryPrecookEnabled :: "bool \<Rightarrow> cassandra_config \<Rightarrow> cassandra_config" where
  "ca_SetSupplementaryPrecookEnabled x c = c\<lparr>supplementaryPrecookEnabled := x\<rparr>"

definition ca_SupplementaryPrecookStateTTLDays :: "cassandra_config \<Rightarrow> int" where
  "ca_SupplementaryPrecookStateTTLDays c = supplementaryPrecookStateTTLDays c"

definition ca_SetSupplementaryPrecookStateTTLDays :: "int \<Rightarrow> cassandra_config \<Rightarrow> cassandra_config" where
  "ca_SetSupplementaryPrecookStateTTLDays x c = c\<lparr>supplementaryPrecookStateTTLDays := x\<rparr>"

definition ca_EncryptedSubdocIds :: "cassandra_config \<Rightarrow> string list" where
  "ca_EncryptedSubdocIds c = encryptedSubdocIds c"

definition ca_SetEncryptedSubdocIds :: "string list \<Rightarrow> cassandra_config \<Rightarrow> cassandra_config" where
  "ca_SetEncryptedSubdocIds x c = c\<lparr>encryptedSubdocIds := x\<rparr>"

definition ca_Codec :: "cassandra_config \<Rightarrow> aes_codec" where
  "ca_Codec c = aesCodec c"

definition LocalDc :: "cassandra_opened \<Rightarrow> string" where
  "LocalDc c = clu_localDc (co_cluster c)"

text \<open>The embedded base client does nothing.\<close>

definition base_SetDocument :: "string \<Rightarrow> document \<Rightarrow> goerr option" where
  "base_SetDocument cpeMac d = None"

definition base_FactoryReset :: "string \<Rightarrow> goerr option" where
  "base_FactoryReset cpeMac = None"

definition base_FirmwareUpdate :: "string \<Rightarrow> int \<Rightarrow> rootdoc \<Rightarrow> goerr option" where
  "base_FirmwareUpdate cpeMac oldBitmap r = None"

definition base_AppendProfiles :: "string \<Rightarrow> bytes \<Rightarrow> goerr + bytes" where
  "base_AppendProfiles cpeMac inbytes = Inr inbytes"

section \<open>The tracer and the consumers\<close>

definition tracer_MoracideTagPrefix :: "tracer \<Rightarrow> string" where
  "tracer_MoracideTagPrefix t = moracideTagPrefix t"

definition tracer_OtelTracerProvider :: "tracer \<Rightarrow> string option" where
  "tracer_OtelTracerProvider t = otelTracerProvider t"

definition tracer_AppName :: "tracer \<Rightarrow> string" where
  "tracer_AppName t = tracer_appName t"

definition tracer_AppVersion :: "tracer \<Rightarrow> string" where
  "tracer_AppVersion t = appVersion t"

definition tracer_AppEnv :: "tracer \<Rightarrow> string" where
  "tracer_AppEnv t = appEnv t"

definition tracer_Region :: "tracer \<Rightarrow> string" where
  "tracer_Region t = region t"

definition consumer_AppName :: "consumer_settings \<Rightarrow> string" where
  "consumer_AppName c = ks_appName c"

definition consumer_ClusterName :: "consumer_settings \<Rightarrow> string" where
  "consumer_ClusterName c = ks_clusterName c"

definition group_Topics :: "consumer_group \<Rightarrow> string list" where
  "group_Topics g = kg_topics g"

definition group_Consumer :: "consumer_group \<Rightarrow> consumer_settings" where
  "group_Consumer g = kg_consumer g"

section \<open>Facts\<close>

text \<open>
  \<open>ValidatePartner\<close> compares the partner of a token in lower case. The constructor lowers the
  configured partners, the setter does not: a name with an upper-case letter that is set later
  is never valid.
\<close>

lemma SetValidPartners_case:
  assumes "xs \<noteq> []" "\<forall>p \<in> set xs. to_lower p \<noteq> p"
  shows "ValidatePartner (st_server (SetValidPartners xs st)) p \<noteq> None"
proof -
  have l: "to_lower (to_lower p) = to_lower p"
  proof -
    have "char_lower (char_lower c) = char_lower c" for c by (auto simp: char_lower_def Let_def)
    then show ?thesis by (simp add: to_lower_def)
  qed
  have "to_lower p \<notin> set xs" using assms(2) l by auto
  then show ?thesis using assms(1) by (simp add: ValidatePartner_def SetValidPartners_def Let_def)
qed

text \<open>Turning the tokens of the servers on before the routes are made guards every route of device data.\<close>

lemma SetServerApiTokenAuthEnabled_guards:
  assumes "rt \<in> set (GetRouter (st_flags (SetServerApiTokenAuthEnabled True st)) False)"
    and "(ms, h) \<in> set (rt_methods rt)" "touches_data h" "h \<noteq> MultipartConfig"
  shows "rt_guard rt = Api"
  using routes_guards[OF assms(1-3)] assms(4) by (simp add: SetServerApiTokenAuthEnabled_def)

end
