(* ===== verification/Randoms.thy ===== *)
theory Randoms
  imports Producer AesCodec Writer
begin

text \<open>
  Random values (common/random.go) and what is made from them: keys, the codec of the tests and
  its encrypted texts (security/aes_codec.go, security/mock_data.go) and parts of a document
  (util/mock.go). A draw of the random source is an argument; \<open>None\<close> is a panic.
\<close>

section \<open>Random values\<close>

definition RandomInt :: "int \<Rightarrow> nat \<Rightarrow> int option" where
  "RandomInt n r = (if n \<le> 0 then None else Some (int r mod n))"

definition RandomBool :: "nat \<Rightarrow> bool" where
  "RandomBool r \<longleftrightarrow> r mod 1000 mod 2 \<noteq> 0"

text \<open>The last byte is 1, so the bytes do not end in padding; no bytes at all is a panic.\<close>

definition RandomBytes :: "int \<Rightarrow> int \<Rightarrow> nat \<Rightarrow> (nat \<Rightarrow> char) \<Rightarrow> bytes option" where
  "RandomBytes lowerBound upperBound r b =
     (let delta = upperBound - lowerBound;
          n = (if delta > 0 then int r mod delta + lowerBound else lowerBound)
      in if n \<le> 0 then None else Some ((map b [0..<nat n])[nat n - 1 := char_of (1 :: nat)]))"

definition random_part :: "(nat \<Rightarrow> char) \<Rightarrow> nat \<times> nat \<Rightarrow> string \<Rightarrow> multipart option" where
  "random_part b rr g =
     Option.bind (RandomBytes 16 116 (fst rr) b) (\<lambda>bbytes.
       map_option (\<lambda>v. \<lparr>mp_bytes = bbytes, mp_version = itoa v, mp_name = g, mp_state = 0\<rparr>)
         (RandomInt 100000000 (snd rr)))"

fun mock_parts :: "(nat \<Rightarrow> nat \<Rightarrow> char) \<Rightarrow> (nat \<Rightarrow> nat \<times> nat) \<Rightarrow> nat \<Rightarrow> string list \<Rightarrow> multipart list option" where
  "mock_parts b draws i [] = Some []"
| "mock_parts b draws i (g # gs) =
     Option.bind (random_part (b i) (draws i) g) (\<lambda>m. map_option ((#) m) (mock_parts b draws (Suc i) gs))"

definition GetMockMultiparts :: "(nat \<Rightarrow> nat \<Rightarrow> char) \<Rightarrow> (nat \<Rightarrow> nat \<times> nat) \<Rightarrow> string \<Rightarrow> multipart list option" where
  "GetMockMultiparts b draws queryStr = mock_parts b draws 0 (go_split (CHR '','') queryStr)"

section \<open>Keys and the codec of the tests\<close>

definition GetRandomEncryptionKey :: "(nat \<Rightarrow> char) \<Rightarrow> string" where
  "GetRandomEncryptionKey b = b64_encode (map b [0..<16])"

definition DigestBytes :: "cipher \<Rightarrow> bytes \<Rightarrow> bytes \<Rightarrow> bytes" where
  "DigestBytes C iv plainbytes = ci_sha1 C (iv @ plainbytes)"

definition plaintexts :: "string list" where
  "plaintexts = [''OutOfService'', ''XFINITY'', ''xfinitywifi'']"

text \<open>Each text is encrypted twice; the i-th encryption draws its own initial vector.\<close>

fun encrypt_all :: "cipher \<Rightarrow> aes_codec \<Rightarrow> (nat \<Rightarrow> bytes) \<Rightarrow> nat \<Rightarrow> string list \<Rightarrow> string list option" where
  "encrypt_all C c iv i [] = Some []"
| "encrypt_all C c iv i (p # ps) =
     (case Encrypt C c (iv i) p of
        Inl _ \<Rightarrow> None
      | Inr e \<Rightarrow> map_option ((#) e) (encrypt_all C c iv (Suc i) ps))"

definition test_texts :: "string list" where
  "test_texts = concat (map (\<lambda>p. [p, p]) plaintexts)"

definition NewTestCodec ::
  "cipher \<Rightarrow> (nat \<Rightarrow> char) \<Rightarrow> (nat \<Rightarrow> bytes) \<Rightarrow> aes_codec option \<Rightarrow> (aes_codec \<times> string list) option" where
  "NewTestCodec C b iv testCodec =
     (let codec = (case testCodec of
            Some c \<Rightarrow> Inr c | None \<Rightarrow> NewAesCodec (GetRandomEncryptionKey b))
      in case codec of Inl _ \<Rightarrow> None | Inr c \<Rightarrow> map_option (Pair c) (encrypt_all C c iv 0 test_texts))"

text \<open>The response in a log line of level debug, or the error of the encryption.\<close>

definition LogResponseDebug ::
  "cipher \<Rightarrow> (goerr \<Rightarrow> string) \<Rightarrow> aes_codec \<Rightarrow> bytes \<Rightarrow> log_fields \<Rightarrow> bytes \<Rightarrow> log_fields \<times> log_line" where
  "LogResponseDebug C text c iv flds bbytes =
     (case EncryptBytes C c iv bbytes of
        Inl err \<Rightarrow> (flds, error_line text flds err)
      | Inr encbytes \<Rightarrow>
          (let f = gomap_put ''response'' (LogStr (b64_encode encbytes)) flds
           in (f, \<lparr>ll_level = LevelDebug, ll_fields = f, ll_message = ''''\<rparr>)))"

text \<open>The 128-bit hash in decimal; \<open>sum128\<close> is the library's, its two halves.\<close>

definition GetMurmur3HashByTwmb :: "(bytes \<Rightarrow> nat \<times> nat) \<Rightarrow> bytes \<Rightarrow> string" where
  "GetMurmur3HashByTwmb sum128 payload = (case sum128 payload of (v1, v2) \<Rightarrow> itoa (int (v2 * 2 ^ 64 + v1)))"

section \<open>Facts\<close>

lemma RandomInt_range: "RandomInt n r = Some i \<Longrightarrow> 0 \<le> i \<and> i < n"
  by (auto simp: RandomInt_def split: if_splits)

text \<open>The number of bytes is at least the lower bound and less than the upper one.\<close>

lemma RandomBytes_length:
  assumes "0 < lo"
  shows "\<exists>bs. RandomBytes lo hi r b = Some bs \<and> lo \<le> int (length bs) \<and> (lo < hi \<longrightarrow> int (length bs) < hi)
    \<and> last bs = char_of (1 :: nat)"
proof -
  define n where "n = (if hi - lo > 0 then int r mod (hi - lo) + lo else lo)"
  have m: "0 \<le> int r mod (hi - lo) \<and> int r mod (hi - lo) < hi - lo" if "lo < hi" using that by simp
  have n: "lo \<le> n" "lo < hi \<longrightarrow> n < hi"
  proof -
    have "n = int r mod (hi - lo) + lo" if "lo < hi" using that by (simp add: n_def)
    moreover have "n = lo" if "\<not> lo < hi" using that by (simp add: n_def)
    ultimately show "lo \<le> n" "lo < hi \<longrightarrow> n < hi" using m by (smt (verit, best))+
  qed
  let ?bs = "(map b [0..<nat n])[nat n - 1 := char_of (1 :: nat)]"
  have l: "length ?bs = nat n" by simp
  then have "?bs \<noteq> []" using n(1) assms by (metis length_0_conv zero_less_nat_eq less_le_trans not_less_zero)
  then have "last ?bs = char_of (1 :: nat)" using l by (simp add: last_conv_nth)
  moreover have "RandomBytes lo hi r b = Some ?bs" using n(1) assms by (simp add: RandomBytes_def Let_def n_def)
  ultimately show ?thesis using n l assms by auto
qed

lemma GetMockMultiparts_names:
  "\<exists>ms. GetMockMultiparts b draws q = Some ms \<and> map mp_name ms = go_split (CHR '','') q"
proof -
  have "\<exists>ms. mock_parts b draws i gs = Some ms \<and> map mp_name ms = gs" for i gs
  proof (induction gs arbitrary: i)
    case (Cons g gs)
    from RandomBytes_length[of 16 116 "fst (draws i)" "b i"] obtain bs where "RandomBytes 16 116 (fst (draws i)) (b i) = Some bs"
      by auto
    with Cons[of "Suc i"] show ?case by (auto simp: random_part_def RandomInt_def)
  qed simp
  then show ?thesis by (simp add: GetMockMultiparts_def)
qed

text \<open>
  The codec of the tests is always made, and each of its texts is decrypted to what was
  encrypted.
\<close>

lemma NewTestCodec_ok:
  assumes C: "cipher_ok C" and iv: "\<And>i. length (iv i) = BlockSize"
  shows "\<exists>c es. NewTestCodec C b iv None = Some (c, es) \<and> list_all2 (\<lambda>p e. Decrypt C c e = Ok p) test_texts es"
proof -
  let ?k = "map b [0..<16]"
  let ?c = "\<lparr>ac_key = Some ?k\<rparr>"
  have k: "aes_key_ok ?k" by (simp add: aes_key_ok_def)
  have "b64_encode ?k \<noteq> []"
  proof
    assume "b64_encode ?k = []"
    with b64_groups_encode[of ?k] have "?k = []" by simp
    then show False by simp
  qed
  then have c: "NewAesCodec (GetRandomEncryptionKey b) = Inr ?c"
    by (simp add: NewAesCodec_def GetRandomEncryptionKey_def b64_round_trip)
  have e: "\<exists>e. Encrypt C ?c (iv i) p = Inr e" for i p
    using k by (simp add: Encrypt_def EncryptBytes_def)
  have "\<exists>es. encrypt_all C ?c iv i ps = Some es \<and> list_all2 (\<lambda>p e. Decrypt C ?c e = Ok p) ps es"
    if "\<forall>p \<in> set ps. strip_pad p = p \<and> p \<noteq> []" for i ps
    using that
  proof (induction ps arbitrary: i)
    case (Cons p ps)
    from e[of i p] obtain x where x: "Encrypt C ?c (iv i) p = Inr x" by blast
    have "Decrypt C ?c x = Ok p"
      using Decrypt_Encrypt(1)[OF C _ k iv x] Cons.prems by simp
    with Cons.IH[of "Suc i"] Cons.prems x show ?case by auto
  qed simp
  moreover have "\<forall>p \<in> set test_texts. strip_pad p = p \<and> p \<noteq> []" by code_simp
  ultimately have "\<exists>es. encrypt_all C ?c iv 0 test_texts = Some es
      \<and> list_all2 (\<lambda>p e. Decrypt C ?c e = Ok p) test_texts es" by blast
  then show ?thesis using c by (auto simp: NewTestCodec_def)
qed

end
