(* ===== verification/MetricsRegistry.thy ===== *)
theory MetricsRegistry
  imports Complex_Main Producer MetricsLog Settings Responses
begin

text \<open>
  How the metrics are made and registered (\<open>NewMetrics\<close> of common/metrics.go) and how a handler is
  wrapped in them (\<open>WebMetrics\<close>). The prometheus library is a parameter: its registry, and the
  wrappers of a handler. What an instrument is: its name, its help text, the bounds of the buckets
  and the names of its labels.
\<close>

section \<open>The instruments\<close>

datatype instrument =
    CounterVec string string "string list"
  | HistogramVec string string "rat list" "string list"
  | Gauge string string
  | GaugeVec string string "string list"
  | SummaryVec string string "string list"

primrec instrument_name :: "instrument \<Rightarrow> string" where
  "instrument_name (CounterVec n _ _) = n"
| "instrument_name (HistogramVec n _ _ _) = n"
| "instrument_name (Gauge n _) = n"
| "instrument_name (GaugeVec n _ _) = n"
| "instrument_name (SummaryVec n _ _) = n"

definition watchedStateMetricsLabels :: "string list" where
  "watchedStateMetricsLabels = [''feature'', ''client'', ''model'', ''fwversion'', ''mac'']"

text \<open>What is measured of every request.\<close>

record request_instruments =
  ri_counter :: instrument
  ri_duration :: instrument
  ri_inFlight :: instrument
  ri_requestSize :: instrument
  ri_responseSize :: instrument

definition new_request_instruments :: "request_instruments" where
  "new_request_instruments =
     \<lparr>ri_counter = CounterVec ''api_requests_total''
        ''A counter for total number of requests.''
        [''app'', ''code'', ''method'', ''path''],
      ri_duration = HistogramVec ''api_request_duration_seconds''
        ''A histogram of latencies for requests.''
        [1 / 100, 2 / 100, 5 / 100, 1 / 10, 5 / 10, 1, 25 / 10, 5, 10] [''app'', ''code'', ''method'', ''path''],
      ri_inFlight = Gauge ''in_flight_requests'' ''A gauge of requests currently being served.'',
      ri_requestSize = HistogramVec ''request_size_bytes''
        ''A histogram of request sizes for requests.''
        [200, 500, 1000, 10000, 100000] [''app''],
      ri_responseSize = HistogramVec ''response_size_bytes''
        ''A histogram of response sizes for requests.''
        [200, 500, 1000, 10000, 100000] [''app'']\<rparr>"

text \<open>The gauges of the states.\<close>

record state_instruments =
  si_stateDeployed :: instrument
  si_statePendingDownload :: instrument
  si_stateInDeployment :: instrument
  si_stateFailure :: instrument

definition new_state_instruments :: "string \<Rightarrow> state_instruments" where
  "new_state_instruments app =
     \<lparr>si_stateDeployed = GaugeVec (app @ ''_state_deployed'')
        ''A gauge for the number of cpes in deployed state per feature.''
        stateMetricsLabels,
      si_statePendingDownload = GaugeVec (app @ ''_state_pending_download'')
        ''A gauge for the number of cpes in pending_download state per feature.''
        stateMetricsLabels,
      si_stateInDeployment = GaugeVec (app @ ''_state_in_deployment'')
        ''A gauge for the number of cpes in in_deployment state per feature.''
        stateMetricsLabels,
      si_stateFailure = GaugeVec (app @ ''_state_failure'')
        ''A gauge for the number of cpes in failure state per feature.''
        stateMetricsLabels\<rparr>"

text \<open>Kafka.\<close>

record kafka_instruments =
  ki_kafkaLag :: instrument
  ki_kafkaDuration :: instrument
  ki_eventCounter :: instrument
  ki_kafkaProducerErrCount :: instrument

definition new_kafka_instruments :: "string \<Rightarrow> kafka_instruments" where
  "new_kafka_instruments app =
     \<lparr>ki_kafkaLag = SummaryVec (app @ ''_kafka_lag'')
        ''A summary of kafka lag.''
        [''event'', ''client'', ''partition''],
      ki_kafkaDuration = SummaryVec (app @ ''_kafka_duration'')
        ''A summary of kafka duration.''
        [''event'', ''client''],
      ki_eventCounter = CounterVec (app @ ''_event_types'')
        ''A counter for kafka event types''
        [''status'', ''event'', ''partition''],
      ki_kafkaProducerErrCount = CounterVec (app @ ''_kafka_producer_err_count'')
        ''A counter for the number of errors by kafka producer.''
        [''topic'', ''partition'']\<rparr>"

text \<open>The gauges of the watched devices.\<close>

record watched_instruments =
  wi_watchedStateDeployed :: instrument
  wi_watchedStatePendingDownload :: instrument
  wi_watchedStateInDeployment :: instrument
  wi_watchedStateFailure :: instrument

definition new_watched_instruments :: "string \<Rightarrow> watched_instruments" where
  "new_watched_instruments app =
     \<lparr>wi_watchedStateDeployed = GaugeVec (app @ ''_watched_state_deployed'')
        ''A gauge for the number of watched cpes in deployed state per feature.''
        watchedStateMetricsLabels,
      wi_watchedStatePendingDownload = GaugeVec (app @ ''_watched_state_pending_download'')
        ''A gauge for the number of watched cpes in pending_download state per feature.''
        watchedStateMetricsLabels,
      wi_watchedStateInDeployment = GaugeVec (app @ ''_watched_state_in_deployment'')
        ''A gauge for the number of watched cpes in in_deployment state per feature.''
        watchedStateMetricsLabels,
      wi_watchedStateFailure = GaugeVec (app @ ''_watched_state_failure'')
        ''A gauge for the number of watched cpes in failure state per feature.''
        watchedStateMetricsLabels\<rparr>"

text \<open>The counters of the changes of state.\<close>

record change_instruments =
  ci_deployedIncCount :: instrument
  ci_deployedDecCount :: instrument
  ci_pendingIncCount :: instrument
  ci_pendingDecCount :: instrument
  ci_indeploymentIncCount :: instrument
  ci_indeploymentDecCount :: instrument
  ci_failureIncCount :: instrument
  ci_failureDecCount :: instrument

definition new_change_instruments :: "string \<Rightarrow> change_instruments" where
  "new_change_instruments app =
     \<lparr>ci_deployedIncCount = CounterVec (app @ ''_deployed_inc_count'')
        ''A counter for the times of cpes change to deployed state per feature.''
        stateMetricsLabels,
      ci_deployedDecCount = CounterVec (app @ ''_deployed_dec_count'')
        ''A counter for the times of cpes change from deployed state per feature.''
        stateMetricsLabels,
      ci_pendingIncCount = CounterVec (app @ ''_pending_inc_count'')
        ''A counter for the times of cpes change to pending state per feature.''
        stateMetricsLabels,
      ci_pendingDecCount = CounterVec (app @ ''_pending_dec_count'')
        ''A counter for the times of cpes change from pending state per feature.''
        stateMetricsLabels,
      ci_indeploymentIncCount = CounterVec (app @ ''_indeployment_inc_count'')
        ''A counter for the times of cpes change to indeployment state per feature.''
        stateMetricsLabels,
      ci_indeploymentDecCount = CounterVec (app @ ''_indeployment_dec_count'')
        ''A counter for the times of cpes change from indeployment state per feature.''
        stateMetricsLabels,
      ci_failureIncCount = CounterVec (app @ ''_failure_inc_count'')
        ''A counter for the times of cpes change to failure state per feature.''
        stateMetricsLabels,
      ci_failureDecCount = CounterVec (app @ ''_failure_dec_count'')
        ''A counter for the times of cpes change from failure state per feature.''
        stateMetricsLabels\<rparr>"

section \<open>The metrics of the application\<close>

record app_metrics =
  am_appName :: string
  am_urlPatternFn :: "string \<Rightarrow> string"
  am_request :: request_instruments
  am_state :: state_instruments
  am_kafka :: kafka_instruments
  am_watched :: watched_instruments
  am_change :: change_instruments
  am_watchedCpes :: "string list"
  am_logrusLevel :: level

text \<open>The order in which they are registered.\<close>

definition registered :: "app_metrics \<Rightarrow> instrument list" where
  "registered m =
    [ri_inFlight (am_request m), ri_counter (am_request m), ri_duration (am_request m),
     ri_responseSize (am_request m), ri_requestSize (am_request m),
     si_stateDeployed (am_state m), si_statePendingDownload (am_state m),
     si_stateInDeployment (am_state m), si_stateFailure (am_state m), ki_kafkaLag (am_kafka m),
     ki_kafkaDuration (am_kafka m), ki_eventCounter (am_kafka m),
     wi_watchedStateDeployed (am_watched m), wi_watchedStatePendingDownload (am_watched m),
     wi_watchedStateInDeployment (am_watched m), wi_watchedStateFailure (am_watched m),
     ci_deployedIncCount (am_change m), ci_deployedDecCount (am_change m),
     ci_pendingIncCount (am_change m), ci_pendingDecCount (am_change m),
     ci_indeploymentIncCount (am_change m), ci_indeploymentDecCount (am_change m),
     ci_failureIncCount (am_change m), ci_failureDecCount (am_change m),
     ki_kafkaProducerErrCount (am_kafka m)]"

definition urlPatternFn_of :: "(string \<Rightarrow> string) list \<Rightarrow> string \<Rightarrow> string" where
  "urlPatternFn_of args = (case args of [] \<Rightarrow> GetUrlPattern | f # _ \<Rightarrow> f)"

definition metrics_log_level :: "(string \<Rightarrow> goerr + level) \<Rightarrow> config \<Rightarrow> level" where
  "metrics_log_level parse_level conf =
     (case parse_level (GetString conf ''webconfig.metrics.log_level'' '''') of Inl _ \<Rightarrow> LevelTrace | Inr x \<Rightarrow> x)"

definition make_metrics :: "string \<Rightarrow> (string \<Rightarrow> string) \<Rightarrow> string list \<Rightarrow> level \<Rightarrow> app_metrics" where
  "make_metrics app fn cpes lvl =
     \<lparr>am_appName = app, am_urlPatternFn = fn,
      am_request = new_request_instruments, am_state = new_state_instruments app,
      am_kafka = new_kafka_instruments app, am_watched = new_watched_instruments app,
      am_change = new_change_instruments app,
      am_watchedCpes = cpes, am_logrusLevel = lvl\<rparr>"

text \<open>
  The metrics of the process are made once. \<open>MustRegister\<close> of the library returns the registry
  with the instruments, or panics (\<open>None\<close>); the global variable is set before it is called, so
  it is kept by a panic. The result: the metrics, unless the call panicked; the global variable;
  the registry.
\<close>

definition NewMetrics ::
  "(instrument list \<Rightarrow> 'r \<Rightarrow> 'r option) \<Rightarrow> (string \<Rightarrow> goerr + level) \<Rightarrow> config \<Rightarrow> (string \<Rightarrow> string) list
     \<Rightarrow> app_metrics option \<Rightarrow> 'r \<Rightarrow> app_metrics option \<times> app_metrics option \<times> 'r" where
  "NewMetrics mustRegister parse_level conf args appMetrics r =
     (case appMetrics of
        Some m \<Rightarrow> (Some m, appMetrics, r)
      | None \<Rightarrow>
          (let m = make_metrics (GetString conf ''webconfig.app_name'' ''webconfig'') (urlPatternFn_of args)
                     (GetStringList conf ''webconfig.metrics.watched_cpes'') (metrics_log_level parse_level conf)
           in case mustRegister (registered m) r of
                None \<Rightarrow> (None, Some m, r)
              | Some r' \<Rightarrow> (Some m, Some m, r')))"

definition WatchedCpes :: "app_metrics \<Rightarrow> string list" where
  "WatchedCpes m = am_watchedCpes m"

definition SetWatchedCpes :: "string list \<Rightarrow> app_metrics \<Rightarrow> app_metrics" where
  "SetWatchedCpes cpes m = m\<lparr>am_watchedCpes := cpes\<rparr>"

definition UrlPatternFn :: "app_metrics \<Rightarrow> string \<Rightarrow> string" where
  "UrlPatternFn m = am_urlPatternFn m"

section \<open>Wrapping a handler\<close>

text \<open>The wrappers of the library; a vector comes with the labels it is curried with.\<close>

record 'h promhttp =
  ph_InFlight :: "instrument \<Rightarrow> 'h \<Rightarrow> 'h"
  ph_Duration :: "instrument \<times> (string \<times> string) list \<Rightarrow> 'h \<Rightarrow> 'h"
  ph_Counter :: "instrument \<times> (string \<times> string) list \<Rightarrow> 'h \<Rightarrow> 'h"
  ph_RequestSize :: "instrument \<times> (string \<times> string) list \<Rightarrow> 'h \<Rightarrow> 'h"
  ph_ResponseSize :: "instrument \<times> (string \<times> string) list \<Rightarrow> 'h \<Rightarrow> 'h"

definition WebMetrics :: "('r \<Rightarrow> 'w) promhttp \<Rightarrow> app_metrics \<Rightarrow> ('r \<Rightarrow> string) \<Rightarrow> ('r \<Rightarrow> 'w) \<Rightarrow> 'r \<Rightarrow> 'w" where
  "WebMetrics P m urlPath nxt r =
     (let app = (''app'', am_appName m);
          path = (''path'', UrlPatternFn m (urlPath r))
      in ph_InFlight P (ri_inFlight (am_request m))
           (ph_Duration P (ri_duration (am_request m), [app, path])
             (ph_Counter P (ri_counter (am_request m), [app, path])
               (ph_RequestSize P (ri_requestSize (am_request m), [app])
                 (ph_ResponseSize P (ri_responseSize (am_request m), [app]) nxt)))) r)"

section \<open>Counts as text\<close>

definition StateCounter_String :: "statecounter \<Rightarrow> string" where
  "StateCounter_String c = json_marshal (JObj [(''deployed'', JInt (sc_deployed c)),
     (''pending_download'', JInt (sc_pending_download c)),
     (''in_deployment'', JInt (sc_in_deployment c)), (''failure'', JInt (sc_failure c))])"

record simple_metrics =
  sm_Deployed :: "int gomap"
  sm_PendingDownload :: "int gomap"
  sm_InDeployment :: "int gomap"
  sm_Failure :: "int gomap"
  sm_KafkaLag :: "int gomap"
  sm_KafkaDuration :: "int gomap"

definition count_map :: "int gomap \<Rightarrow> jval" where
  "count_map m = json_map (map (\<lambda>(k, i). (k, JInt i)) m)"

definition SimpleMetrics_String :: "simple_metrics \<Rightarrow> string" where
  "SimpleMetrics_String m = json_marshal (JObj [(''deployed'', count_map (sm_Deployed m)),
     (''pending_download'', count_map (sm_PendingDownload m)), (''in_deployment'', count_map (sm_InDeployment m)),
     (''failure'', count_map (sm_Failure m)), (''kafka_lag'', count_map (sm_KafkaLag m)),
     (''kafka_duration'', count_map (sm_KafkaDuration m))])"

section \<open>Facts\<close>

lemmas instrument_defs = new_request_instruments_def new_state_instruments_def new_kafka_instruments_def
  new_watched_instruments_def new_change_instruments_def make_metrics_def

text \<open>No two instruments of the application have the same name, whatever its own name is.\<close>

lemma registered_names_distinct:
  "distinct (map instrument_name (registered (make_metrics app fn cpes lvl)))"
proof -
  have "distinct (map rev (map instrument_name (registered (make_metrics app fn cpes lvl))))"
    by (simp add: registered_def instrument_defs)
  then show ?thesis by (rule distinct_map [THEN iffD1, THEN conjunct1])
qed

text \<open>
  The library refuses a second instrument of a name it has. Where nothing else is registered
  under the names of the application, making the metrics does not panic; a second call returns
  the same ones and registers nothing.
\<close>

lemma NewMetrics_once:
  assumes "\<And>is r. distinct (map instrument_name is) \<Longrightarrow> set (map instrument_name is) \<inter> names r = {}
             \<Longrightarrow> valid_names r (map instrument_name is) \<Longrightarrow> mustRegister is r \<noteq> None"
    and "\<And>m. set (map instrument_name (registered m)) \<inter> names r = {}"
    and "\<And>m. valid_names r (map instrument_name (registered m))"
  shows "\<exists>m r'. NewMetrics mustRegister pl conf args None r = (Some m, Some m, r')
     \<and> (\<forall>conf' args'. NewMetrics mustRegister pl conf' args' (Some m) r' = (Some m, Some m, r'))"
  using assms registered_names_distinct by (fastforce simp: NewMetrics_def Let_def split: option.splits)

text \<open>The wrappers keep what each of them keeps.\<close>

lemma WebMetrics_keeps:
  assumes "\<And>i h. \<forall>r. ok r (h r) \<Longrightarrow> \<forall>r. ok r (ph_InFlight W i h r)"
    and "\<And>i h. \<forall>r. ok r (h r) \<Longrightarrow> \<forall>r. ok r (ph_Duration W i h r)"
    and "\<And>i h. \<forall>r. ok r (h r) \<Longrightarrow> \<forall>r. ok r (ph_Counter W i h r)"
    and "\<And>i h. \<forall>r. ok r (h r) \<Longrightarrow> \<forall>r. ok r (ph_RequestSize W i h r)"
    and "\<And>i h. \<forall>r. ok r (h r) \<Longrightarrow> \<forall>r. ok r (ph_ResponseSize W i h r)"
    and "\<forall>r. ok r (nxt r)"
  shows "ok r (WebMetrics W m urlPath nxt r)"
  unfolding WebMetrics_def Let_def using assms by blast

end
