(* ===== verification/MainProgram.thy ===== *)
theory MainProgram
  imports MetricsRegistry Startup
begin

text \<open>
  \<open>main\<close> of main.go: the version flag, the configuration, the server, the log, the router with or
  without metrics, the tasks that are started, and what each does when the program is asked to
  stop. Theory Startup has the constructors; here they are put together in the order of the code.
\<close>

section \<open>The log\<close>

definition DefaultConfigFile :: string where
  "DefaultConfigFile = ''/app/webconfig/webconfig.conf''"

text \<open>\<open>open_file\<close> is the error of opening a file to append; the default is the standard output.\<close>

definition log_output :: "(string \<Rightarrow> goerr option) \<Rightarrow> config \<Rightarrow> string option result" where
  "log_output open_file conf =
     (let logFile = GetString conf ''webconfig.log.file'' ''''
      in if length logFile > 0 then (case open_file logFile of Some _ \<Rightarrow> Panic | None \<Rightarrow> Ok (Some logFile))
         else Ok None)"

definition main_log_level :: "(string \<Rightarrow> goerr + level) \<Rightarrow> config \<Rightarrow> level" where
  "main_log_level parse_level conf =
     (case parse_level (GetString conf ''webconfig.log.level'' '''') of Inl _ \<Rightarrow> LevelInfo | Inr x \<Rightarrow> x)"

section \<open>The tasks\<close>

datatype task =
    ProducerResults
  | ListenAndServe
  | StopServer
  | ConsumeGroup consumer_group
  | StopGroup consumer_group

datatype stop_action = CloseProducer | ShutdownServer | CloseGroup consumer_group

text \<open>What a task does once the context of the group is done; the others end by themselves.\<close>

fun on_done :: "bool \<Rightarrow> task \<Rightarrow> stop_action list" where
  "on_done hasProducer StopServer = (if hasProducer then [CloseProducer] else []) @ [ShutdownServer]"
| "on_done hasProducer (StopGroup g) = [CloseGroup g]"
| "on_done hasProducer _ = []"

definition group_tasks :: "consumer_group \<Rightarrow> task list" where
  "group_tasks g = [ConsumeGroup g, StopGroup g]"

text \<open>
  \<open>kcgroup.Consume\<close> is called until it fails; \<open>results\<close> are what the calls return. The consumer
  is made ready again after each call that does not fail.
\<close>

fun consume_loop :: "goerr option list \<Rightarrow> nat \<Rightarrow> goerr option \<times> nat" where
  "consume_loop [] readied = (None, readied)"
| "consume_loop (r # results) readied =
     (case r of Some err \<Rightarrow> (Some err, readied) | None \<Rightarrow> consume_loop results (Suc readied))"

section \<open>The program\<close>

record ('s, 'k, 'e) running =
  rn_started :: "('s, 'k, 'e) started"
  rn_output :: "string option"
  rn_level :: level
  rn_saramaLogger :: bool
  rn_routes :: "route list"
  rn_metrics :: "app_metrics option"
  rn_groups :: "consumer_group list"
  rn_tasks :: "task list"

text \<open>The metrics of a program that has made none before.\<close>

definition main_metrics ::
  "(instrument list \<Rightarrow> 'r \<Rightarrow> 'r option) \<Rightarrow> (string \<Rightarrow> goerr + level) \<Rightarrow> config \<Rightarrow> bool \<Rightarrow> 'r \<Rightarrow> app_metrics option result" where
  "main_metrics mustRegister parse_level conf enabled r =
     (if \<not> enabled then Ok None
      else case fst (NewMetrics mustRegister parse_level conf [] None r) of None \<Rightarrow> Panic | Some m \<Rightarrow> Ok (Some m))"

text \<open>Every error before the tasks run is a panic. The route of the metrics is in \<open>rn_metrics\<close>.\<close>

definition main_start ::
  "('s, 'n, 'k, 'e) libraries \<Rightarrow> (bytes \<Rightarrow> config) \<Rightarrow> string \<Rightarrow> (string \<Rightarrow> goerr option)
     \<Rightarrow> (string \<Rightarrow> goerr + level) \<Rightarrow> (instrument list \<Rightarrow> 'r \<Rightarrow> 'r option) \<Rightarrow> 'r \<Rightarrow> string \<Rightarrow> ('s, 'k, 'e) running result" where
  "main_start L parse now open_file parse_level mustRegister r configFile =
     and_then (must (to_result (NewServerConfig (lb_files L) parse configFile))) (\<lambda>sc.
     and_then (NewWebconfigServer L sc) (\<lambda>st.
     and_then (log_output open_file (sc_Config sc)) (\<lambda>out.
     let enabled = pt_metricsEnabled (st_parts st); producer = kafkaProducerEnabled (st_server st)
     in and_then (main_metrics mustRegister parse_level (sc_Config sc) enabled r) (\<lambda>m.
        and_then (must (to_result (NewKafkaConsumerGroups (lb_files L) (lb_broker L) now sc (appName (st_server st))))) (\<lambda>groups.
          Ok \<lparr>rn_started = st, rn_output = out, rn_level = main_log_level parse_level (sc_Config sc),
              rn_saramaLogger = GetBoolean (sc_Config sc) ''webconfig.log.sarama_logger_enabled'' False,
              rn_routes = GetRouter (st_flags st) False, rn_metrics = m, rn_groups = groups,
              rn_tasks = (if enabled \<and> producer then [ProducerResults] else [])
                @ [ListenAndServe, StopServer] @ concat (map group_tasks groups)\<rparr>)))))"

text \<open>The program prints its version and exits, or starts.\<close>

datatype ('s, 'k, 'e) main_result = Exited string | Started "('s, 'k, 'e) running result"

definition version_text :: "string \<Rightarrow> string \<Rightarrow> string \<Rightarrow> string" where
  "version_text version branch buildTime =
     ''webconfig version '' @ version @ '' (branch '' @ branch @ '') '' @ buildTime @ line_end"

definition main_program ::
  "('s, 'n, 'k, 'e) libraries \<Rightarrow> (bytes \<Rightarrow> config) \<Rightarrow> string \<Rightarrow> (string \<Rightarrow> goerr option)
     \<Rightarrow> (string \<Rightarrow> goerr + level) \<Rightarrow> (instrument list \<Rightarrow> 'r \<Rightarrow> 'r option) \<Rightarrow> 'r
     \<Rightarrow> string \<Rightarrow> string option \<Rightarrow> bool \<Rightarrow> ('s, 'k, 'e) main_result" where
  "main_program L parse now open_file parse_level mustRegister r version configFlag showVersion =
     (if showVersion then Exited version
      else Started (main_start L parse now open_file parse_level mustRegister r
        (case configFlag of None \<Rightarrow> DefaultConfigFile | Some f \<Rightarrow> f)))"

definition stop_actions :: "('s, 'k, 'e) running \<Rightarrow> stop_action list" where
  "stop_actions rn = concat (map (on_done (kafkaProducerEnabled (st_server (rn_started rn)))) (rn_tasks rn))"

section \<open>Facts\<close>

text \<open>A program that runs was booted: what is known of its server, routes and groups holds.\<close>

lemma main_start_boot:
  assumes "main_start L parse now open_file parse_level mustRegister r f = Ok rn"
  shows "boot L parse now f = Ok \<lparr>bt_started = rn_started rn, bt_routes = rn_routes rn,
      bt_metrics_route = (rn_metrics rn \<noteq> None), bt_groups = rn_groups rn\<rparr>"
  using assms
  by (auto simp: main_start_def boot_def Let_def main_metrics_def split: if_splits option.splits)

text \<open>
  When the program stops, the server is shut down, every group of consumers is closed once and
  in the order of the clusters, and the producer is closed if there is one.
\<close>

lemma main_start_stops:
  assumes "main_start L parse now open_file parse_level mustRegister r f = Ok rn"
  shows "stop_actions rn =
    (if kafkaProducerEnabled (st_server (rn_started rn)) then [CloseProducer] else []) @ ShutdownServer # map CloseGroup (rn_groups rn)"
proof -
  have "concat (map (on_done b) (concat (map group_tasks gs))) = map CloseGroup gs" for b gs
    by (induction gs) (auto simp: group_tasks_def)
  with assms show ?thesis
    by (auto simp: main_start_def stop_actions_def Let_def)
qed

text \<open>
  The results of the producer are only read where the metrics are on: with a producer and no
  metrics nobody reads its channels.
\<close>

lemma main_start_unread_producer:
  assumes "main_start L parse now open_file parse_level mustRegister r f = Ok rn"
  shows "ProducerResults \<in> set (rn_tasks rn) \<longleftrightarrow>
    pt_metricsEnabled (st_parts (rn_started rn)) \<and> kafkaProducerEnabled (st_server (rn_started rn))"
  using assms by (auto simp: main_start_def Let_def group_tasks_def)

lemma boot_main_start:
  assumes "boot L parse now f = Ok b" "fl_read (lb_files L) f = Inr bs"
    and "log_output open_file (parse bs) = Ok out"
    and "main_metrics mustRegister parse_level (parse bs) (bt_metrics_route b) r = Ok m"
  shows "\<exists>rn. main_start L parse now open_file parse_level mustRegister r f = Ok rn \<and> rn_routes rn = bt_routes b"
proof -
  from assms(1,2) obtain st gs where
      st: "NewWebconfigServer L \<lparr>sc_Config = parse bs, sc_configBytes = bs\<rparr> = Ok st"
      "NewKafkaConsumerGroups (lb_files L) (lb_broker L) now \<lparr>sc_Config = parse bs, sc_configBytes = bs\<rparr>
         (appName (st_server st)) = Inr gs"
      "bt_routes b = GetRouter (st_flags st) False" "bt_metrics_route b = pt_metricsEnabled (st_parts st)"
    by (auto simp: boot_def NewServerConfig_def)
  with assms show ?thesis
    by (simp add: main_start_def NewServerConfig_def and_then_def must_def to_result_def Let_def)
qed

lemma consume_loop_first_error:
  "fst (consume_loop rs n) = (case filter (\<lambda>r. r \<noteq> None) rs of [] \<Rightarrow> None | r # _ \<Rightarrow> r)"
  by (induction rs n rule: consume_loop.induct) (auto split: option.split)

end
