(* ===== verification/JsonText.thy ===== *)
theory JsonText
  imports Responses
begin

text \<open>
  JSON rewritten for people and for storage: \<open>CompactJson\<close> (util/string.go), \<open>PrettyJson\<close>
  (util/print.go) and the text of a root document (common/root_document.go). Reading JSON and
  writing it with indentation are parameters.
\<close>

definition CompactJson :: "(bytes \<Rightarrow> goerr + jval) \<Rightarrow> (jval \<Rightarrow> goerr + bytes) \<Rightarrow> bytes \<Rightarrow> goerr + bytes" where
  "CompactJson unmarshal marshal sbytes =
     (case unmarshal sbytes of
        Inl err \<Rightarrow> Inl (NewError err)
      | Inr itf \<Rightarrow> (case marshal itf of Inl err \<Rightarrow> Inl (NewError err) | Inr b \<Rightarrow> Inr b))"

text \<open>What can be printed: a text with JSON, a value, a header; anything else gives no text.\<close>

datatype printable = PrintText string | PrintValue jval | PrintHeader header | PrintOther

definition indented :: "(jval \<Rightarrow> goerr + bytes) \<Rightarrow> jval \<Rightarrow> string" where
  "indented marshal_indent v = (case marshal_indent v of Inl _ \<Rightarrow> '''' | Inr b \<Rightarrow> b)"

fun PrettyJson :: "(bytes \<Rightarrow> goerr + jval) \<Rightarrow> (jval \<Rightarrow> goerr + bytes) \<Rightarrow> printable \<Rightarrow> string" where
  "PrettyJson unmarshal marshal_indent (PrintText ty) =
     (case unmarshal ty of Inl _ \<Rightarrow> '''' | Inr x \<Rightarrow> indented marshal_indent x)"
| "PrettyJson unmarshal marshal_indent (PrintValue v) = indented marshal_indent v"
| "PrettyJson unmarshal marshal_indent (PrintHeader h) =
     indented marshal_indent (json_map (map (\<lambda>(k, _). (k, JStr (hget h k))) h))"
| "PrettyJson unmarshal marshal_indent PrintOther = ''''"

section \<open>Facts\<close>

text \<open>
  Where reading inverts writing, a compact text keeps its value, and compacting it again
  changes nothing.
\<close>

lemma CompactJson_idem:
  assumes "\<And>v b. marshal v = Inr b \<Longrightarrow> unmarshal b = Inr v" "CompactJson unmarshal marshal s = Inr t"
  shows "unmarshal t = unmarshal s" "CompactJson unmarshal marshal t = Inr t"
  using assms by (auto simp: CompactJson_def split: sum.splits)

lemma PrettyJson_value:
  assumes "\<And>v b. marshal_indent v = Inr b \<Longrightarrow> unmarshal b = Inr v" "marshal_indent v = Inr b"
  shows "unmarshal (PrettyJson unmarshal marshal_indent (PrintValue v)) = Inr v"
    "PrettyJson unmarshal marshal_indent (PrintText (PrettyJson unmarshal marshal_indent (PrintValue v)))
      = PrettyJson unmarshal marshal_indent (PrintValue v)"
  using assms by (auto simp: indented_def)

end
