(* ===== verification/Spec2Isabelle.thy ===== *)
theory Spec2Isabelle
  imports SqliteServices Validators HttpText Sample HttpSample ConfigFacts ConfigHandlers Middleware Router ConfigSample
    RequestLog MetricsLog Semaphore Schema StartupSample ServerSample Answered Dicts HttpLog Bitarrays TestClients
    Access Randoms MainProgram JsonText
begin

text \<open>
  A model of webconfig, the server that keeps the configuration documents of cable modems and
  set-top boxes, and the theorems that make it correct.

  The program. A device sends a GET with the versions it has (or a report of what it applied);
  the server keeps, per device, one root document (metadata and version) and one sub-document
  per configuration group (payload, version, deployment state), in a sqlite or Cassandra
  database behind the interface db/database_client.go. The services of db/service.go turn
  requests into reads and writes of that database; the handlers of http/ decode requests and
  encode answers; upstream, kafka, mqtt and webpa are remote parties.

  The theories, in the order of the code:
  \<^item> Prelude and GoErrors: Go maps as association lists (every list order is a possible
    iteration order), strings as bytes, strings.Split and strconv, error chains of
    common/error.go, and the combinators \<open>tryE\<close>, \<open>bindE\<close>, \<open>deref\<close>, \<open>for_each\<close> that thread the
    database state through \<open>if err != nil\<close>; a panic is an outcome of its own.
  \<^item> SubDocument, RootDocument, Bitmap, Writer, Document, Headers, EventMessage, Metrics,
    Validators, HttpText: the data of common/ and the functions of util/, one theory per file
    or pair of files, with the names of the code. Dicts, Bitarrays, JsonText, Randoms: the rest
    of util/ and common/: conversions of dictionaries, bitmaps as text, JSON rewritten, random
    values and what is made from them.
  \<^item> DbClient: the interface as a record of operations and the contract \<open>db_frame\<close> (an
    operation on one device leaves the others alone, reads change nothing). Service and
    ServiceUpdate: db/service.go and db/cloud_input_mqtt.go over any client. DbStore: the
    contract \<open>db_store\<close>, which adds the effect of each operation on an abstract content, and
    the functional behaviour of the services inside it. ServiceFacts: what a GET returns.
    Requests: the services as a step relation, runs, and the contract \<open>db_states\<close>.
  \<^item> SqlEngine, SqliteClient, SqliteFacts, SqliteStore, SqliteEffects, SqliteDocs,
    SqliteContract, SqliteServices: the schema and statements of db/sqlite, the operations of
    the client over a SQL engine, which is a library and hence a parameter with the contract
    \<open>sql_engine\<close>, the effect of each operation on the tables, and the proof that the client
    meets the three contracts of the services for every engine. The tables in memory
    (\<open>mem_engine\<close>) are an instance, on which the witnesses run. Schema: the texts of the
    statements, their parser, creating, dropping and synchronising the tables. Semaphore: the
    channel that bounds the concurrent queries, as a step relation.
  \<^item> CqlEngine, CassandraClient, CassandraFacts: the same for db/cassandra over a CQL engine
    (\<open>cql_engine\<close>), whose statements may time out and still have their effect.
  \<^item> Responses, WebServer, DocumentHandlers, HandlerFacts, Multiparts, ConfigResponse,
    ConfigFacts, Handlers, ConfigHandlers: writing answers, what a handler sees of the server,
    and every handler of http/. Middleware, Router: the token checks and the routes.
    HttpClient, Connectors: one remote call, its classification and its retries, and the four
    connectors, over a transport that is a parameter. Gateway, KafkaConsumer, Producer: the
    messages that are produced, what comes back for them, and the loop of kafka/consumer.go.
  \<^item> ServerRun, Answered: the whole server. A \<open>deployment\<close> is its settings with everything the
    handlers need, an \<open>arrival\<close> a request with the draws of its clock; \<open>serve_http\<close> routes it
    through the guard to its handler, and \<open>http_steps\<close> is a sequence of them. The contract
    \<open>db_frame_refs\<close> extends \<open>db_frame\<close> by the reference documents. Answered: which errors a
    handler can let through (none) and that it answers.
  \<^item> Base64, AesCodec, Tokens: the encryption of security/ over a block cipher, and the token
    checks over a JWT library. Wifi, LogFields, RequestLog, HttpLog, MetricsLog: what reaches the
    log. MetricsRegistry: the instruments, their registration and the handler wrapped in them.
  \<^item> Settings, Tracing, Startup: what the constructors read and make, over the configuration
    library, files and the OpenTelemetry library: the TLS configurations, the clients of remote
    services, the tracer and the span of a request, the database clients, token and key
    managers, consumer groups and the server. Access: the accessors that change settings
    afterwards. TestClients: the database clients of the tests. MainProgram: what main makes of
    all this, in its order, and what it does when it is stopped.
  \<^item> Sample, HttpSample, ConfigSample, StartupSample, ServerSample: the data of the witnesses.
    This theory: the properties.

  Conventions. Clock readings, random values and formatted dates are arguments. Where the code
  reads the clock inside a loop the argument is a function of the group. Log lines are
  not part of the effects of an operation; their content has theories of its own. The murmur3
  hash is the argument \<open>h\<close>. A 64-bit int is a mathematical integer where no operation can leave
  its range, and wrapped explicitly (\<open>wrap64\<close>) where one can. \<open>NewError\<close> adds a link to an error
  chain without the source position. Every loop is a structural recursion; no fuel is needed but for
  \<open>UnwrapAll\<close>, whose bound of ten links is the code's, and the retries of a call, whose
  number is a setting.

  What the properties show. The whole server: only a routed request that is about a device and
  carries an accepted token changes its rows, and every routed request is answered or panics.
  Requests: isolation of devices and the range of deployment states along every sequence of
  requests, the exact effect of documents from upstream and of reports,
  what a GET may hand out and that it never touches stored versions, and the loading of
  references. Sqlite: reading back, the refinement of whole documents and root documents, and
  two defects (an expiry that is never updated, references that can never be updated).
  Documents: the filters, bitmaps and their round trips, versions, comparisons. Metrics and
  validation. Handlers: what a POST and a DELETE store and answer, what a GET sends, that no
  device data is reached without a token. Connectors: bounded retries. Encryption. Kafka:
  what is forwarded and marked. Cassandra: isolation, and a read error that is lost. Logs, the
  semaphore, the schema, how the settings decide about tokens, TLS and spans, and what the
  program does when it is stopped.

  Not modelled: the float values of the histograms of requests and messages (the instruments and
  their labels are), the source positions of \<open>GetCaller\<close>, the task group and the signals that
  main waits for (what each task does is), decoding msgpack, and the accessors of values the
  model leaves out (the start time of a response, the ids of a trace).
\<close>

section \<open>Requests over the sqlite client\<close>

text \<open>
  C1. Device isolation. However a sequence of requests (GETs, reports, documents from
  upstream, downloads, factory resets, batches of states) ends for the devices it is about,
  the rows of every other device, in the table of sub-documents and in the table of root
  documents, are the same afterwards, over any SQL engine.
\<close>

theorem requests_isolated:
  assumes "sql_engine E" "runs (sqlite_client E cfg) qs s s'" "m \<notin> request_mac ` set qs"
  shows "sq_subs E s' m = sq_subs E s m \<and> sq_roots E s' m = sq_roots E s m"
  by (rule sql_engine.sqlite_runs_isolated[OF assms])

lemma requests_isolated_witness:
  "\<exists>s'. runs (sqlite_client mem_engine sample_cfg) [Upstream sample_mac ''20'' new_lan old_lan True [] (\<lambda>_. 9)]
      sample_state s'
    \<and> sq_subs mem_engine s' other_mac = sq_subs mem_engine sample_state other_mac
    \<and> sq_roots mem_engine s' other_mac = sq_roots mem_engine sample_state other_mac"
proof -
  let ?qs = "[Upstream sample_mac ''20'' new_lan old_lan True [] (\<lambda>_. 9)]"
  obtain s' where r: "runs (sqlite_client mem_engine sample_cfg) ?qs sample_state s'"
    using runs_total[of "sqlite_client mem_engine sample_cfg" ?qs sample_state] by blast
  have "other_mac \<notin> request_mac ` set ?qs" by (simp add: other_mac_def sample_mac_def)
  from requests_isolated[OF mem.sql_engine_axioms r this] r show ?thesis by blast
qed

text \<open>
  C2. Who changes what. However a sequence of HTTP requests goes through the whole server
  (router, guards, handlers, remote services), also when handlers fail or panic: if afterwards
  the rows of a device differ, in the table of sub-documents or in the table of root documents,
  then one of the requests was routed to a handler that is about this device (its mac is in
  the path, or for a POST or a poke in the query), and carried a token that the guard of the
  route accepts, unless the settings switch that check off.
\<close>

theorem http_changes_authorised:
  assumes "sql_engine E" "DatabaseClient (dp_server dp) = sqlite_client E cfg"
    and "sq_subs E (be_db (http_steps dp as b)) m \<noteq> sq_subs E (be_db b) m
      \<or> sq_roots E (be_db (http_steps dp as b)) m \<noteq> sq_roots E (be_db b) m"
  shows "\<exists>a \<in> set as. \<exists>g h vars.
      dispatch (GetRouter (dp_flags dp) False) (ar_path a) (rq_method (ar_request a)) = Found g h vars
    \<and> accepted dp h ((ar_request a)\<lparr>rq_vars := vars\<rparr>)
    \<and> m \<in> set (handler_devices h vars (rq_query (ar_request a)))"
proof -
  from assms(3) obtain a where a: "a \<in> set as" "m \<in> set (arrival_devices dp a)"
    using sql_engine.sqlite_http_same[OF assms(1,2), of m as b] by blast
  then show ?thesis
    by (cases "dispatch (GetRouter (dp_flags dp) False) (ar_path a) (rq_method (ar_request a))")
       (auto simp: arrival_devices_def split: if_splits)
qed

lemma http_changes_authorised_witness:
  "sq_subs mem_engine (be_db (http_steps sample_deployment [delete_lan ''bad'', delete_lan ''good'']
       (sample_backend sample_state))) sample_mac = []
   \<and> (\<exists>a g h vars. a \<in> set [delete_lan ''bad'', delete_lan ''good'']
      \<and> dispatch (GetRouter all_flags False) (ar_path a) (rq_method (ar_request a)) = Found g h vars
      \<and> accepted sample_deployment h ((ar_request a)\<lparr>rq_vars := vars\<rparr>)
      \<and> sample_mac \<in> set (handler_devices h vars (rq_query (ar_request a))))"
proof -
  let ?as = "[delete_lan ''bad'', delete_lan ''good'']"
  have after: "length (sq_subs mem_engine (be_db (http_steps sample_deployment ?as (sample_backend sample_state))) sample_mac) = 0"
    and before: "length (sq_subs mem_engine (be_db (sample_backend sample_state)) sample_mac) = 1"
    and flags: "dp_flags sample_deployment = all_flags"
    by code_simp+
  then have d: "sq_subs mem_engine (be_db (http_steps sample_deployment ?as (sample_backend sample_state))) sample_mac
      \<noteq> sq_subs mem_engine (be_db (sample_backend sample_state)) sample_mac"
    by force
  from http_changes_authorised[OF mem.sql_engine_axioms sample_deployment_db disjI1[OF d]] after show ?thesis
    unfolding flags by (auto simp del: set_simps)
qed





text \<open>
  C5. A document from upstream. After \<open>WriteDocumentFromUpstream\<close> returns without an error the
  content of the device is known exactly: a group of the new document is stored in the state
  in-deployment with cleared errors, unless the device and the database already had its
  version; an old group that the new document lacks is deleted if deletion was asked for;
  everything else is as before; and the root version is the etag of the answer.
\<close>

theorem upstream_written:
  assumes "sql_engine E" "tables_ok (sq_tables E s)" "doc_ok nd"
    and "WriteDocumentFromUpstream (sqlite_client E cfg) mac etag nd d toDelete vm now s = (Ok u, s')"
  shows "stored_sub (sq_tables E s') mac k =
      (case map_of (docmap nd) k of
         Some n \<Rightarrow> if upstream_unchanged vm k n (doc_SubDocument d k) then stored_sub (sq_tables E s) mac k
                   else Some (store_subdoc (upstream_subdoc n (now k)) (stored_sub (sq_tables E s) mac k))
       | None \<Rightarrow> if toDelete \<and> map_of (docmap d) k \<noteq> None then None else stored_sub (sq_tables E s) mac k)
    \<and> (RootVersion d \<noteq> etag \<longrightarrow> (\<exists>r. stored_root (sq_tables E s') mac = Some r \<and> rd_version r = etag))
    \<and> (RootVersion d = etag \<longrightarrow> stored_root (sq_tables E s') mac = stored_root (sq_tables E s) mac)"
  using sql_engine.sqlite_upstream[OF assms] by blast

lemma upstream_written_witness:
  "\<exists>s'. WriteDocumentFromUpstream (sqlite_client mem_engine sample_cfg) sample_mac ''20'' new_lan old_lan True []
      (\<lambda>_. 9) sample_state = (Ok (), s')
    \<and> (\<exists>r. stored_root (sq_tables mem_engine s') sample_mac = Some r \<and> rd_version r = ''20'')"
proof -
  let ?p = "WriteDocumentFromUpstream (sqlite_client mem_engine sample_cfg) sample_mac ''20'' new_lan old_lan True []
      (\<lambda>_. 9) sample_state"
  have run: "?p = (Ok (), snd ?p)" using sample_write_ok by (metis prod.collapse)
  have "doc_ok new_lan" by (simp add: new_lan_def)
  moreover have "RootVersion old_lan \<noteq> ''20''" by code_simp
  ultimately show ?thesis
    using upstream_written[OF mem.sql_engine_axioms sample_tables_ok(2) _ run] run by blast
qed

text \<open>
  C6. What a GET returns. Every sub-document that \<open>BuildGetDocument\<close> hands out is stored for
  the device of the request; unless the answer is still to be fetched from upstream, no
  blocked group is among them, and each has a version that the device does not report.
\<close>

theorem getdoc_sendable:
  assumes "sql_engine E" "tables_ok (sq_tables E s)"
    and "BuildGetDocument (sqlite_client E cfg) h flds t t' s = (Ok g, s')" "gd_document g = Some d"
    and "map_of (docmap d) k = Some x"
  shows "(\<exists>y. stored_sub (sq_tables E s) (fst (rheader_Get h HeaderDeviceId)) k = Some y
           \<and> x = y\<lparr>sd_expiry := None\<rparr>)
    \<and> (\<not> gd_upstream g \<longrightarrow> k \<notin> set (blockedSubdocIds cfg) \<and> device_lacks (gd_versions g) k x)"
  using sql_engine.sqlite_sendable[OF assms(1-4)] assms(5) by (auto simp: sqlite_client_def)

definition sample_header :: header where
  "sample_header = [(''Device-Id'', [sample_mac]), (''Doc-Name'', [''root,lan'']),
     (''If-None-Match'', [''9,v0'']), (''User-Agent'', [''mget''])]"

lemma getdoc_sendable_witness:
  "\<exists>g s' d x. BuildGetDocument (sqlite_client mem_engine sample_cfg) sample_header [] 0 0 sample_state = (Ok g, s')
    \<and> gd_document g = Some d \<and> map_of (docmap d) ''lan'' = Some x \<and> device_lacks (gd_versions g) ''lan'' x"
proof -
  let ?p = "BuildGetDocument (sqlite_client mem_engine sample_cfg) sample_header [] 0 0 sample_state"
  have "(case fst ?p of Ok g \<Rightarrow> \<not> gd_upstream g \<and>
      (case gd_document g of Some d \<Rightarrow> map_of (docmap d) ''lan'' \<noteq> None | None \<Rightarrow> False) | _ \<Rightarrow> False)"
    by code_simp
  then obtain g d x where g: "fst ?p = Ok g" and u: "\<not> gd_upstream g" and d: "gd_document g = Some d"
    and x: "map_of (docmap d) ''lan'' = Some x"
    by (auto split: outcome.splits option.splits)
  have run: "?p = (Ok g, snd ?p)" using g by (metis prod.collapse)
  from getdoc_sendable[OF mem.sql_engine_axioms sample_tables_ok(2) run d x] u run d x show ?thesis by blast
qed

text \<open>
  C7. A GET never changes the version of a root document that the server has stored, not
  even the one of the device that asks: metadata of the device is written back, its version
  is not.
\<close>

theorem getdoc_keeps_root_version:
  assumes "sql_engine E" "tables_ok (sq_tables E s)"
    and "BuildGetDocument (sqlite_client E cfg) h flds t t' s = (r, s')"
  shows "(case stored_root (sq_tables E s') mac of None \<Rightarrow> '''' | Some rd \<Rightarrow> rd_version rd) =
    (case stored_root (sq_tables E s) mac of None \<Rightarrow> '''' | Some rd \<Rightarrow> rd_version rd)"
  by (rule sql_engine.sqlite_getdoc_root_version[OF assms])

lemma getdoc_keeps_root_version_witness:
  "\<exists>r s'. BuildGetDocument (sqlite_client mem_engine sample_cfg) sample_header [] 0 0 sample_state = (r, s')
    \<and> (case stored_root (sq_tables mem_engine s') sample_mac of None \<Rightarrow> '''' | Some rd \<Rightarrow> rd_version rd) = ''10''"
proof -
  obtain r s' where run:
      "BuildGetDocument (sqlite_client mem_engine sample_cfg) sample_header [] 0 0 sample_state = (r, s')"
    by fastforce
  have "(case stored_root (sq_tables mem_engine sample_state) sample_mac of None \<Rightarrow> '''' | Some rd \<Rightarrow> rd_version rd) = ''10''"
    by code_simp
  with getdoc_keeps_root_version[OF mem.sql_engine_axioms sample_tables_ok(2) run, of sample_mac] run
  show ?thesis by auto
qed




text \<open>
  C9. A sub-document report. When it is processed without an error, the sub-document it names
  was stored; a report about another version changes nothing, and otherwise exactly that
  sub-document gets the reported state, errors and time.
\<close>

theorem report_subdocument:
  assumes "sql_engine E" "tables_ok (sq_tables E s)"
    and "em_reports m = []" "em_http_status_code m = None"
    and "UpdateDocumentState (sqlite_client E cfg) mac m flds t ns s = (Ok (ids, None), s')"
  shows "\<exists>g d. em_namespace m = Some g \<and> stored_sub (sq_tables E s) mac g = Some d \<and>
    (if report_version_differs d m then s' = s
     else stored_sub (sq_tables E s') mac = (stored_sub (sq_tables E s) mac)(g :=
       Some (store_subdoc (report_subdoc (sqlite_client E cfg) g m t ns) (Some d))))"
  by (rule sql_engine.sqlite_report[OF assms])

definition event_lan_failed :: eventmessage where
  "event_lan_failed = empty_event\<lparr>em_namespace := Some ''lan'', em_application_status := Some ''failure'',
     em_error_code := Some 204, em_error_details := Some ''bad'', em_version := Some ''v1''\<rparr>"

lemma report_subdocument_witness:
  "\<exists>ids s'. UpdateDocumentState (sqlite_client mem_engine sample_cfg) sample_mac event_lan_failed [] 77 0 sample_state
      = (Ok (ids, None), s')
    \<and> (\<exists>d. stored_sub (sq_tables mem_engine sample_state) sample_mac ''lan'' = Some d)"
proof -
  let ?p = "UpdateDocumentState (sqlite_client mem_engine sample_cfg) sample_mac event_lan_failed [] 77 0 sample_state"
  have "(case fst ?p of Ok (ids, None) \<Rightarrow> True | _ \<Rightarrow> False)" by code_simp
  then obtain ids where "fst ?p = Ok (ids, None)" by (auto split: outcome.splits option.splits)
  then have run: "?p = (Ok (ids, None), snd ?p)" by (metis prod.collapse)
  moreover have "em_reports event_lan_failed = []" "em_http_status_code event_lan_failed = None"
    "em_namespace event_lan_failed = Some ''lan''"
    by (simp_all add: event_lan_failed_def empty_event_def)
  ultimately show ?thesis
    using report_subdocument[OF mem.sql_engine_axioms sample_tables_ok(2) _ _ run] by auto
qed

text \<open>
  C10. References. \<open>LoadRefSubDocuments\<close> changes nothing in the database and returns, for every
  group of the document, the sub-document itself, the sub-document with the payload its
  reference names, or nothing when the reference is not found.
\<close>

theorem references_loaded:
  assumes "sql_engine E" "LoadRefSubDocuments (sqlite_client E cfg) d s = (Ok d', s')" "doc_ok d"
  shows "s' = s \<and> doc_ok d' \<and> rootDocument d' = rootDocument d \<and>
    map_of (docmap d') k = Option.bind (map_of (docmap d) k) (loaded_subdoc (sqlite_client E cfg) s)"
  using sql_engine.sqlite_load_refs[OF assms] by blast

definition ref_state :: "tables sqlite" where
  "ref_state = snd (sq_SetRefSubDocument mem_engine ''r1'' (NewRefSubDocument (Some ''shared'') (Some ''v'')) sample_state)"

definition ref_doc :: document where
  "ref_doc = SetSubDocument (SetSubDocument (NewDocument None) ''lan''
       (NewSubDocument (Some (referenceIndicatorBytes @ ''r1'')) (Some ''v1'') None None None None))
     ''wan'' (NewSubDocument (Some (referenceIndicatorBytes @ ''r2'')) (Some ''v1'') None None None None)"

lemma references_loaded_witness:
  "\<exists>d'. LoadRefSubDocuments (sqlite_client mem_engine sample_cfg) ref_doc ref_state = (Ok d', ref_state)
    \<and> map_of (docmap d') ''lan'' = Some (NewSubDocument (Some ''shared'') (Some ''v1'') None None None None)
    \<and> map_of (docmap d') ''wan'' = None"
proof -
  let ?p = "LoadRefSubDocuments (sqlite_client mem_engine sample_cfg) ref_doc ref_state"
  have "is_ok (fst ?p)" by code_simp
  then obtain d' where "fst ?p = Ok d'" by (auto simp: is_ok_iff)
  then have run: "?p = (Ok d', snd ?p)" by (metis prod.collapse)
  have ok: "doc_ok ref_doc" by (simp add: ref_doc_def)
  note l = references_loaded[OF mem.sql_engine_axioms run ok]
  have "Option.bind (map_of (docmap ref_doc) ''lan'') (loaded_subdoc (sqlite_client mem_engine sample_cfg) ref_state)
      = Some (NewSubDocument (Some ''shared'') (Some ''v1'') None None None None)"
    "Option.bind (map_of (docmap ref_doc) ''wan'') (loaded_subdoc (sqlite_client mem_engine sample_cfg) ref_state) = None"
    by code_simp+
  then show ?thesis using l[of "''lan''"] l[of "''wan''"] run by metis
qed

section \<open>The sqlite client\<close>

text \<open>
  C11. Storing and reading back. After a successful \<open>SetSubDocument\<close> a read of the same
  sub-document either fails with an error other than not-found, or returns the stored fields
  merged over those that were there, as long as the payload is not a reference.
\<close>

theorem set_then_get:
  assumes "sql_engine E" "tables_ok (sq_tables E s)"
    and "sq_SetSubDocument E mac g d st l s = (Ok u, s')" "sq_GetSubDocument E mac g s' = (r, s'')"
    and "GetRefId (payload_bytes (sd_payload (store_subdoc d (stored_sub (sq_tables E s) mac g)))) = None"
  shows "r = Ok (store_subdoc d (stored_sub (sq_tables E s) mac g)) \<or> (\<exists>e. r = Err e \<and> \<not> sq_IsDbNotFound e)"
  by (rule sql_engine.sq_set_then_get[OF assms])

lemma set_then_get_witness:
  "\<exists>r s''. sq_GetSubDocument mem_engine sample_mac ''lan'' sample_state = (r, s'')
    \<and> (r = Ok lan_subdoc \<or> (\<exists>e. r = Err e \<and> \<not> sq_IsDbNotFound e))"
proof -
  let ?p = "sq_SetSubDocument mem_engine sample_mac ''lan'' lan_subdoc 0 None sample_root_state"
  have "fst ?p = Ok ()" by code_simp
  then have set: "?p = (Ok (), sample_state)" unfolding sample_state_def by (metis prod.collapse)
  obtain r s'' where get: "sq_GetSubDocument mem_engine sample_mac ''lan'' sample_state = (r, s'')" by fastforce
  have st: "store_subdoc lan_subdoc (stored_sub (sq_tables mem_engine sample_root_state) sample_mac ''lan'') = lan_subdoc"
    "GetRefId (payload_bytes (sd_payload lan_subdoc)) = None"
    by code_simp+
  from set_then_get[OF mem.sql_engine_axioms sample_tables_ok(1) set get] get st show ?thesis by auto
qed



text \<open>
  C13. Root documents. A successful \<open>SetRootDocument\<close> followed by a successful
  \<open>SetRootDocumentVersion\<close> leaves, for that device only, the given root document merged over
  the stored one (an empty string or a zero bitmap keeps what is stored), without query
  parameters and lock, under the given version.
\<close>

theorem root_document_stored:
  assumes "sql_engine E" "tables_ok (sq_tables E s)"
    and "sq_SetRootDocument E mac rd s = (Ok u, s1)" "sq_SetRootDocumentVersion E mac v s1 = (Ok u', s2)"
  shows "stored_root (sq_tables E s2) m =
    (if m = mac
     then Some ((case stored_root (sq_tables E s) mac of None \<Rightarrow> rd | Some old \<Rightarrow> root_Update old rd)
                \<lparr>rd_query_params := '''', rd_locked_till := 0, rd_version := v\<rparr>)
     else stored_root (sq_tables E s) m)"
proof -
  have ok: "tables_ok (sq_tables E s1)"
    using keepsD[OF sql_engine.tables_ok_SetRootDocument[OF assms(1)] assms(2,3)] .
  show ?thesis
    using sql_engine.sq_SetRootDocument_effect[OF assms(1-3)]
      sql_engine.sq_SetRootDocumentVersion_effect[OF assms(1) ok assms(4)]
    by (simp add: store_root_def root_row_def store_root_version_def split: option.splits)
qed

lemma root_document_stored_witness:
  "\<exists>s2. sq_SetRootDocumentVersion mem_engine sample_mac ''11'' sample_root_state = (Ok (), s2)
   \<and> stored_root (sq_tables mem_engine s2) sample_mac = Some (sample_root\<lparr>rd_version := ''11''\<rparr>)
   \<and> stored_root (sq_tables mem_engine s2) other_mac = None"
proof -
  let ?p = "sq_SetRootDocument mem_engine sample_mac sample_root sample_empty"
  have "fst ?p = Ok ()" by code_simp
  then have run: "?p = (Ok (), sample_root_state)" unfolding sample_root_state_def by (metis prod.collapse)
  let ?q = "sq_SetRootDocumentVersion mem_engine sample_mac ''11'' sample_root_state"
  have "fst ?q = Ok ()" by code_simp
  then have run2: "?q = (Ok (), snd ?q)" by (metis prod.collapse)
  have e: "stored_root (sq_tables mem_engine sample_empty) x = None" for x
    by (simp add: stored_root_def root_rows_def sq_tables_def mem_engine_def sample_empty_def)
  note r = root_document_stored[OF mem.sql_engine_axioms empty_tables_ok run run2]
  have "other_mac \<noteq> sample_mac" by (simp add: sample_mac_def other_mac_def)
  then have o': "stored_root (sq_tables mem_engine (snd ?q)) other_mac = None" using r[of other_mac] e by simp
  have "sample_root\<lparr>rd_query_params := '''', rd_locked_till := 0, rd_version := ''11''\<rparr> = sample_root\<lparr>rd_version := ''11''\<rparr>"
    by (simp add: sample_root_def NewRootDocument_def)
  then have "stored_root (sq_tables mem_engine (snd ?q)) sample_mac = Some (sample_root\<lparr>rd_version := ''11''\<rparr>)"
    using r[of sample_mac] e by simp
  with o' run2 show ?thesis by blast
qed

text \<open>
  C14. The time to live of a sub-document that exists is never stored: a successful
  \<open>SetSubDocument\<close> over a stored sub-document keeps the stored expiry, whatever expiry it is
  given.
\<close>

theorem expiry_not_updated:
  assumes "sql_engine E" "tables_ok (sq_tables E s)"
    and "sq_SetSubDocument E mac g d st l s = (Ok u, s')" "stored_sub (sq_tables E s) mac g = Some old"
  shows "\<exists>new. stored_sub (sq_tables E s') mac g = Some new \<and> sd_expiry new = sd_expiry old"
  using sql_engine.sq_SetSubDocument_effect[OF assms(1-3)] assms(4) by (simp add: store_subdoc_def)

lemma expiry_not_updated_witness:
  "\<exists>s' new. sq_SetSubDocument mem_engine sample_mac ''lan'' (lan_subdoc\<lparr>sd_expiry := Some 99\<rparr>) 2 None sample_state
      = (Ok (), s')
    \<and> stored_sub (sq_tables mem_engine s') sample_mac ''lan'' = Some new \<and> sd_expiry new = None"
proof -
  let ?p = "sq_SetSubDocument mem_engine sample_mac ''lan'' (lan_subdoc\<lparr>sd_expiry := Some 99\<rparr>) 2 None sample_state"
  have "fst ?p = Ok ()" by code_simp
  then have run: "?p = (Ok (), snd ?p)" by (metis prod.collapse)
  have "stored_sub (sq_tables mem_engine sample_state) sample_mac ''lan'' = Some lan_subdoc" by code_simp
  moreover have "sd_expiry lan_subdoc = None" by (simp add: lan_subdoc_def)
  ultimately show ?thesis using expiry_not_updated[OF mem.sql_engine_axioms sample_tables_ok(2) run] run by metis
qed

text \<open>
  C15. A stored reference cannot be updated: \<open>SetRefSubDocument\<close> on an existing reference
  always returns an error and changes no table, because the statement it sends names a column
  that the table lacks.
\<close>

theorem reference_never_updated:
  assumes "sql_engine E" "sq_GetRefSubDocument E r s = (Ok old, s)"
  shows "\<exists>e s'. sq_SetRefSubDocument E r d s = (Err e, s') \<and> sq_tables E s' = sq_tables E s"
  by (rule sql_engine.sq_SetRefSubDocument_existing[OF assms])

lemma reference_never_updated_witness:
  "\<exists>e s'. sq_SetRefSubDocument mem_engine ''r1'' (NewRefSubDocument (Some ''new'') None) ref_state = (Err e, s')
    \<and> sq_tables mem_engine s' = sq_tables mem_engine ref_state"
proof -
  let ?p = "sq_GetRefSubDocument mem_engine ''r1'' ref_state"
  have "is_ok (fst ?p)" by code_simp
  then obtain old where "fst ?p = Ok old" by (auto simp: is_ok_iff)
  moreover have "snd ?p = ref_state" by (rule sqlite_reads_pure)
  ultimately have "?p = (Ok old, ref_state)" by (metis prod.collapse)
  from reference_never_updated[OF mem.sql_engine_axioms this] show ?thesis .
qed

section \<open>Documents and bitmaps\<close>

text \<open>
  C16. The filters. \<open>FilterForGet\<close> keeps nothing when the device has the root version, and
  otherwise exactly the sub-documents with a version that the device does not report;
  \<open>FilterForMqttSend\<close> keeps exactly those in a state after deployed; \<open>FilterByBitmap\<close> keeps
  exactly those the root document's bitmap supports or that are exempt. All keep the root
  document and the order of the map.
\<close>

theorem filters_exact:
  assumes "doc_ok d"
  shows "docmap (FilterForGet d vm) =
      (if gomap_get '''' vm ''root'' \<noteq> '''' \<and> gomap_get '''' vm ''root'' = RootVersion d then []
       else filter (\<lambda>(k, x). \<exists>v. sd_version x = Some v \<and> v \<noteq> gomap_get '''' vm k) (docmap d))
    \<and> docmap (FilterForMqttSend d) = filter (\<lambda>(k, x). \<exists>st. sd_state x = Some st \<and> st > Deployed) (docmap d)
    \<and> docmap (FilterByBitmap d exempt) =
      (case rootDocument d of
         None \<Rightarrow> docmap d
       | Some r \<Rightarrow> filter (\<lambda>(k, x). k \<in> set exempt \<or> IsSubdocSupported (rd_bitmap r) k) (docmap d))
    \<and> rootDocument (FilterForGet d vm) = rootDocument d
    \<and> rootDocument (FilterForMqttSend d) = rootDocument d
    \<and> rootDocument (FilterByBitmap d exempt) = rootDocument d"
  unfolding device_lacks_def[symmetric]
  using FilterForGet_docmap[OF assms, of vm] FilterForMqttSend_docmap[OF assms] FilterByBitmap_docmap[OF assms, of exempt]
  by (simp add: root_current_def)

lemma filters_exact_witness:
  "docmap (FilterForGet old_lan [(''root'', ''9''), (''lan'', ''v0'')]) = [(''lan'', lan_subdoc)]
   \<and> docmap (FilterByBitmap old_lan []) = [(''lan'', lan_subdoc)]"
proof -
  have ok: "doc_ok old_lan" by (simp add: old_lan_def)
  have d: "docmap old_lan = [(''lan'', lan_subdoc)]" "rootDocument old_lan = Some sample_root"
    by (simp_all add: old_lan_def gomap_put_def)
  moreover have "sd_version lan_subdoc = Some ''v1''" "RootVersion old_lan = ''10''"
    "IsSubdocSupported (rd_bitmap sample_root) ''lan''"
    by code_simp+
  ultimately show ?thesis
    using filters_exact[OF ok, of "[(''root'', ''9''), (''lan'', ''v0'')]" "[]"] by simp
qed

text \<open>
  C17. Parsing the capabilities of a device. Without an error, bit k of the device bitmap is
  set exactly when one element of the header names it through the table of groups; with or
  without an error the bitmap fits the 41 known groups, and an error yields the empty bitmap.
\<close>

theorem cpe_bitmap_bits:
  "(snd (GetCpeBitmap s) = None \<longrightarrow>
      bit (fst (GetCpeBitmap s)) k = (\<exists>sid \<in> set (go_split CHR '','' s). k \<in> sid_bits sid))
   \<and> (snd (GetCpeBitmap s) \<noteq> None \<longrightarrow> fst (GetCpeBitmap s) = 0)
   \<and> 0 \<le> fst (GetCpeBitmap s) \<and> fst (GetCpeBitmap s) < 2 ^ 41"
  using GetCpeBitmap_bit[of s k] GetCpeBitmap_range[of s] by (auto simp: GetCpeBitmap_def split: sum.splits)

lemma cpe_bitmap_bits_witness:
  "bit (fst (GetCpeBitmap ''16777231,33554435'')) 0 \<and> fst (GetCpeBitmap ''16777231,33554435'') < 2 ^ 41"
proof -
  have a: "atoi ''16777231'' = Some 16777231" "atoi ''33554435'' = Some 33554435"
    by (simp_all add: atoi_def digit_val_def in_int64_def)
  have sp: "go_split CHR '','' ''16777231,33554435'' = [''16777231'', ''33554435'']" by simp
  have n: "snd (GetCpeBitmap ''16777231,33554435'') = None"
    unfolding GetCpeBitmap_error sp by (simp add: a)
  from a have p: "ParseFirmwareGroupBitarray ''16777231'' = Inr (1, 15)" by (simp add: ParseFirmwareGroupBitarray_def)
  have "(1, 1) \<in> set (group_tuples 1)" by (simp add: group_tuples_def SupportedDocsBitMaskMap_def)
  moreover have "bit (15 :: int) 0" by simp
  ultimately have "0 \<in> sid_bits ''16777231''" by (force simp: sid_bits_def p)
  then show ?thesis using cpe_bitmap_bits[of "''16777231,33554435''" 0] n by (auto simp: sp)
qed

text \<open>
  C18. The bitmap of a device, its map of supported groups and its texts are forms of the same
  thing: each 41-bit bitmap is recovered from its map, every known group is recovered from the
  bitmap of a map, and a 32-bit bitmap is read back from either of the texts that show it.
\<close>

theorem bitmap_map_round_trip:
  "(0 \<le> b \<and> b < 2 ^ 41 \<longrightarrow> GetBitmapFromSupportedMap (GetSupportedMap b) = b)
   \<and> (map_of SubdocBitIndexMap k = Some i \<longrightarrow>
        map_of (GetSupportedMap (GetBitmapFromSupportedMap m)) k = Some (gomap_get False m k))
   \<and> (0 \<le> b \<and> b < 2 ^ 32 \<longrightarrow> BitarrayToBitmap (PrettyBitarray b) = Inr b
        \<and> BitarrayToBitmap (PrettyGroupBitarray b) = Inr b)"
  using bitmap_round_trip supported_map_round_trip Bitarray_round_trip by blast

lemma bitmap_map_round_trip_witness:
  "GetBitmapFromSupportedMap (GetSupportedMap 5) = 5
   \<and> map_of (GetSupportedMap (GetBitmapFromSupportedMap [(''lan'', True)])) ''lan'' = Some True
   \<and> BitarrayToBitmap (PrettyBitarray 5) = Inr 5"
  using bitmap_map_round_trip[of 5 "''lan''" 2 "[(''lan'', True)]"] by (simp add: SubdocBitIndexMap_def)

text \<open>
  After a mismatch of the two header lists the version map of the device is rebuilt
  soundly: every entry is the root with the first version sent, or a version the device sent
  that the cloud stores for that very group.
\<close>

theorem rebuilt_versions_sound:
  assumes "RebuildDeviceVersionMap versions cloud = Some vm" "map_of vm k = Some v"
  shows "(k = ''root'' \<and> v = hd versions) \<or> (v \<in> set versions \<and> (k, v) \<in> set cloud)"
  by (rule RebuildDeviceVersionMap_sound[OF assms])

lemma rebuilt_versions_sound_witness:
  "\<exists>vm. RebuildDeviceVersionMap [''9'', ''v1''] [(''lan'', ''v1''), (''wan'', ''v2'')] = Some vm
    \<and> (''lan'', ''v1'') \<in> set [(''lan'', ''v1''), (''wan'', ''v2'')] \<and> map_of vm ''lan'' = Some ''v1''"
proof -
  let ?p = "RebuildDeviceVersionMap [''9'', ''v1''] [(''lan'', ''v1''), (''wan'', ''v2'')]"
  have "(case ?p of Some vm \<Rightarrow> map_of vm ''lan'' = Some ''v1'' | None \<Rightarrow> False)" by code_simp
  then obtain vm where vm: "?p = Some vm" "map_of vm ''lan'' = Some ''v1''" by (auto split: option.splits)
  from rebuilt_versions_sound[OF vm] vm show ?thesis by auto
qed

text \<open>
  C19. The root version does not depend on the order in which the map of versions is visited,
  and nothing but the concatenation of the versions in key order counts: for every hash
  function, maps with the same keys and the same concatenation have the same root version.
\<close>

theorem root_version_of_map:
  assumes "gomap_ok m" "gomap_ok m'"
    and "mset m = mset m' \<or> sort (map fst m) = sort (map fst m') \<and>
      concat (map (gomap_get '''' m) (sort (map fst m))) = concat (map (gomap_get '''' m') (sort (map fst m')))"
  shows "HashRootVersion h m = HashRootVersion h m'"
proof (cases "mset m = mset m'")
  case True
  then show ?thesis by (rule HashRootVersion_perm[OF assms(1)])
next
  case False
  with assms(3) have "sort (map fst m) = sort (map fst m')"
    "concat (map (gomap_get '''' m) (sort (map fst m))) = concat (map (gomap_get '''' m') (sort (map fst m')))"
    by blast+
  then show ?thesis by (simp only: HashRootVersion_def Let_def)
qed

lemma root_version_of_map_witness:
  "HashRootVersion length [(''wan'', ''2''), (''lan'', ''1'')] = HashRootVersion length [(''lan'', ''1''), (''wan'', ''2'')]
   \<and> HashRootVersion length [(''lan'', ''1''), (''wan'', ''23'')] = HashRootVersion length [(''lan'', ''12''), (''wan'', ''3'')]"
proof -
  have "concat (map (gomap_get '''' [(''lan'', ''1''), (''wan'', ''23'')]) (sort (map fst [(''lan'', ''1''), (''wan'', ''23'')])))
    = concat (map (gomap_get '''' [(''lan'', ''12''), (''wan'', ''3'')]) (sort (map fst [(''lan'', ''12''), (''wan'', ''3'')])))"
    by code_simp
  then show ?thesis
    using root_version_of_map[of "[(''wan'', ''2''), (''lan'', ''1'')]" "[(''lan'', ''1''), (''wan'', ''2'')]" length]
      root_version_of_map[of "[(''lan'', ''1''), (''wan'', ''23'')]" "[(''lan'', ''12''), (''wan'', ''3'')]" length]
    by (simp add: add_mset_commute)
qed

text \<open>
  \<open>Equals\<close> on sub-documents compares their normal forms (nil and empty payloads, and nil
  and zero error fields, are the same; all other nil fields differ from set ones), and it
  returns an error exactly when it returns false.
\<close>

theorem subdocument_equality:
  "fst (subdoc_Equals d t) = (subdoc_norm d = subdoc_norm t)
   \<and> (snd (subdoc_Equals d t) = None) = fst (subdoc_Equals d t)"
  using subdoc_Equals_iff[of d t] subdoc_Equals_error[of d t] by blast

text \<open>
  Comparing root documents: the result is symmetric, is MetaChanged exactly when the
  metadata differ (an empty partner on either side is no difference), and after the device's
  metadata was merged into the stored document (every field sent) they no longer differ.
\<close>

theorem root_comparison:
  "root_Compare d r = root_Compare r d
   \<and> (root_Compare d r = RootDocumentMetaChanged) = root_meta_differs d r
   \<and> (rd_bitmap r > 0 \<and> rd_firmware_version r \<noteq> '''' \<and> rd_model_name r \<noteq> '''' \<and> rd_schema_version r \<noteq> ''''
        \<and> rd_product_class r \<noteq> '''' \<and> rd_account_type r \<noteq> '''' \<longrightarrow>
      root_Compare (root_Update d r) r \<noteq> RootDocumentMetaChanged)"
  by (intro conjI impI root_Compare_sym) (simp_all only: root_Compare_meta root_Update_not_meta not_False_eq_True)

lemma root_comparison_witness:
  "root_Compare (root_Update (NewRootDocument 1 ''f0'' '''' '''' '''' '''' '''' '''' '''') sample_root) sample_root
    \<noteq> RootDocumentMetaChanged"
  using root_comparison[of "NewRootDocument 1 ''f0'' '''' '''' '''' '''' '''' '''' ''''" sample_root]
  by (simp add: sample_root_def NewRootDocument_def)

section \<open>Metrics\<close>

text \<open>
  C20. After any sequence of state changes counted from the start, the gauges of the pending
  and in-deployment states are entries minus exits, while the gauges of the deployed and
  failure states count every entry and are never decreased.
\<close>

theorem gauges_count_entries:
  assumes "update_all us (new_metrics cpes) = Some m"
  shows "statePendingDownload m k = pendingIncCount m k - pendingDecCount m k
    \<and> stateInDeployment m k = indeploymentIncCount m k - indeploymentDecCount m k
    \<and> stateDeployed m k = deployedIncCount m k \<and> stateFailure m k = failureIncCount m k"
  using update_all_inv[OF metrics_inv_new assms] by (simp add: metrics_inv_def)

lemma gauges_count_entries_witness:
  "\<exists>m. update_all [(0, 1, [(''model'', ''m1'')], sample_mac), (1, 4, [(''model'', ''m1'')], sample_mac)]
      (new_metrics []) = Some m
    \<and> stateDeployed m (LabelKey ''unknown'' ''unknown'' ''m1'' ''unknown'')
        = deployedIncCount m (LabelKey ''unknown'' ''unknown'' ''m1'' ''unknown'')
    \<and> deployedDecCount m (LabelKey ''unknown'' ''unknown'' ''m1'' ''unknown'') = 1"
proof -
  let ?us = "[(0, 1, [(''model'', ''m1'')], sample_mac), (1, 4, [(''model'', ''m1'')], sample_mac)]"
  have "(case update_all ?us (new_metrics []) of
      Some m \<Rightarrow> deployedDecCount m (LabelKey ''unknown'' ''unknown'' ''m1'' ''unknown'') = 1 | None \<Rightarrow> False)"
    by code_simp
  then obtain m where m: "update_all ?us (new_metrics []) = Some m"
      "deployedDecCount m (LabelKey ''unknown'' ''unknown'' ''m1'' ''unknown'') = 1"
    by (auto split: option.splits)
  from gauges_count_entries[OF m(1)] m show ?thesis by blast
qed

section \<open>Validation and text\<close>

text \<open>
  A mac address is accepted exactly when it has twelve characters, all decimal digits or
  letters A to F, and is not the zero address; an accepted address is its own upper-case form.
\<close>

theorem mac_addresses:
  "ValidateMac mac = (length mac = 12 \<and> list_all mac_char mac \<and> mac \<noteq> replicate 12 (CHR ''0''))
   \<and> (ValidateMac mac \<longrightarrow> to_upper mac = mac)"
  using ValidateMac_iff[of mac] ValidateMac_upper[of mac] by blast

lemma mac_addresses_witness:
  "ValidateMac sample_mac \<and> to_upper sample_mac = sample_mac"
proof -
  have "length sample_mac = 12 \<and> list_all mac_char sample_mac \<and> sample_mac \<noteq> replicate 12 (CHR ''0'')"
    by (simp add: sample_mac_def mac_char_def less_eq_char_def numeral_eq_Suc)
  then show ?thesis using mac_addresses[of sample_mac] by blast
qed

text \<open>
  Query parameters that pass validation cannot lead to the mismatch path of a GET: with
  printable headers \<open>parseVersionMap\<close> returns no error for the header that
  \<open>ValidateQueryParams\<close> has prepared.
\<close>

theorem validated_queries_parse:
  assumes "ValidateQueryParams query h ids flds = (h', flds', None)"
    and "IsPrintable (hget h' HeaderDocName)" "IsPrintable (hget h' HeaderIfNoneMatch)"
  shows "snd (snd (parseVersionMap h')) = None"
proof -
  from ValidateQueryParams_ok[OF assms(1)] obtain g where g: "h' = hset h HeaderDocName g"
    "length (go_split CHR '','' (hget h' HeaderIfNoneMatch)) = length (go_split CHR '','' g)"
    by blast
  then have "hget h' HeaderDocName = g" by simp
  with g(2) assms(2,3) show ?thesis by (simp add: parseVersionMap_def rheader_Get_value Let_def)
qed

lemma validated_queries_parse_witness:
  "\<exists>h' flds'. ValidateQueryParams [(''group_id'', [''root,lan''])] [(''If-None-Match'', [''9,v1''])] [(''lan'', 1)] []
      = (h', flds', None) \<and> snd (snd (parseVersionMap h')) = None"
proof -
  let ?p = "ValidateQueryParams [(''group_id'', [''root,lan''])] [(''If-None-Match'', [''9,v1''])] [(''lan'', 1)] []"
  have "snd (snd ?p) = None \<and> IsPrintable (hget (fst ?p) HeaderDocName) \<and> IsPrintable (hget (fst ?p) HeaderIfNoneMatch)"
    by code_simp
  then obtain h' flds' where "?p = (h', flds', None)"
    and "IsPrintable (hget h' HeaderDocName)" "IsPrintable (hget h' HeaderIfNoneMatch)"
    by (metis prod.collapse)
  from validated_queries_parse[OF this] \<open>?p = (h', flds', None)\<close> show ?thesis by blast
qed

text \<open>
  The address of the embedded set-top box is two above the cable modem's: it has twelve
  digits, reads back as the number plus two, and the difference check accepts it, unless the
  address is one of the last two.
\<close>

theorem estb_address:
  assumes "ParseHex mac = Some i" "0 \<le> i" "i + 2 < 16 ^ 12"
  shows "length (GetEstbMacAddress mac) = 12 \<and> ParseHex (GetEstbMacAddress mac) = Some (i + 2)
    \<and> GetMacDiff (GetEstbMacAddress mac) mac = 2"
  using GetEstbMacAddress_parse[OF assms] by blast

lemma estb_address_witness:
  "ParseHex (GetEstbMacAddress ''0000000000FE'') = Some 256"
proof -
  have p: "ParseHex ''0000000000FE'' = Some 254"
    by (simp add: ParseHex_def hex_val_def in_int64_def)
  from estb_address[OF p] show ?thesis by simp
qed

text \<open>
  Parsing an HTTP message cuts the body at the next empty line: after the header the
  parsed body ends at the first CR LF CR LF of the real body, and what follows is lost.
\<close>

theorem http_body_truncated:
  assumes "first_at CRLFCRLF head (b @ CRLFCRLF @ r)" "first_at CRLFCRLF b r"
  shows "snd (ParseHttp (head @ CRLFCRLF @ b @ CRLFCRLF @ r)) = Some b"
  by (rule ParseHttp_truncates[OF assms])

lemma http_body_truncated_witness:
  "snd (ParseHttp (''A: b'' @ CRLFCRLF @ ''xy'' @ CRLFCRLF @ ''lost'')) = Some ''xy''"
proof -
  have "first_at CRLFCRLF ''A: b'' (''xy'' @ CRLFCRLF @ ''lost'')" "first_at CRLFCRLF ''xy'' ''lost''"
    by code_simp+
  from http_body_truncated[OF this] show ?thesis .
qed

section \<open>HTTP handlers over the sqlite client\<close>





text \<open>
  C23. Deleting a whole document over HTTP. When the handler has answered 200, the device had
  a valid mac, nothing is stored for it any more, the other devices are as before, and its
  root version is no hash of old versions.
\<close>

theorem delete_document_empties:
  assumes "sql_engine E" "tables_ok (sq_tables E (web_db s))" "fresh (web_w s)"
    and "DatabaseClient sv = sqlite_client E cfg"
    and "DeleteDocumentHandler sv r s = (res, s')" "res = Ok ()" "sent_status (web_w s') = 200"
    and "mac = to_upper (gomap_get '''' (rq_vars r) ''mac'')"
  shows "ValidateMac mac
    \<and> (\<forall>m k. stored_sub (sq_tables E (web_db s')) m k = (if m = mac then None else stored_sub (sq_tables E (web_db s)) m k))
    \<and> root_up_to_date (murmur3 sv) (sq_tables E (web_db s')) mac"
  by (rule sql_engine.sqlite_delete_doc[OF assms])

lemma delete_document_empties_witness:
  "\<exists>s'. DeleteDocumentHandler sample_server (sample_request '''') (sample_web sample_state '''') = (Ok (), s')
    \<and> (\<forall>k. stored_sub (sq_tables mem_engine (web_db s')) sample_mac k = None)"
proof -
  let ?r = "sample_request ''''"
  let ?p = "DeleteDocumentHandler sample_server ?r (sample_web sample_state '''')"
  have "fst ?p = Ok ()" by code_simp
  then have run: "?p = (Ok (), snd ?p)" by (metis prod.collapse)
  have st: "sent_status (web_w (snd ?p)) = 200" by code_simp
  have mac: "sample_mac = to_upper (gomap_get '''' (rq_vars ?r) ''mac'')" by code_simp
  have ok: "tables_ok (sq_tables mem_engine (web_db (sample_web sample_state '''')))"
    "fresh (web_w (sample_web sample_state ''''))"
    using sample_tables_ok(2) by simp_all
  show ?thesis
    using delete_document_empties[OF mem.sql_engine_axioms ok sample_server_db run refl st mac] run by auto
qed

text \<open>
  C24. Two answers to one request. When the last sub-document of a device was deleted and the
  root version cannot be cleared, the client gets the status 500 with two JSON texts, the
  error and then the success, while the server notes and logs the status 200.
\<close>

theorem delete_answers_twice:
  fixes s :: "'s web"
  assumes "read_document (DatabaseClient sv) mac False (web_db s) = (Err e, d1)"
    and "db_IsDbNotFound (DatabaseClient sv) e"
    and "db_DeleteRootDocumentVersion (DatabaseClient sv) mac d1 = (Err e', d2)"
    and "fresh (web_w s)" "w_x (web_w s) = Some x"
  shows "\<exists>w x'. after_delete sv mac s = (Ok (), s\<lparr>web_db := d2, web_w := w\<rparr>)
    \<and> sent_status w = 500 \<and> w_x w = Some x' \<and> xw_status x' = 200
    \<and> nw_body (w_net w) =
        json_marshal (HttpErrorResponse 500 ''Internal Server Error'' (Some (JStr (ef_text (errs sv) (NewError e')))))
        @ json_marshal (HttpResponse 200 ''OK'' None)"
proof -
  let ?err = "http_Error (errs sv) 500 (Some (NewError e')) :: ('s web, unit) prog"
  have run: "after_delete sv mac s = seqE ?err (WriteOkResponse None) (s\<lparr>web_db := d2\<rparr>)"
    using assms(1-3) by (simp add: after_delete_def Let_def tryE_def on_db_def seqE_def)
  have f: "fresh (web_w (s\<lparr>web_db := d2\<rparr>))" using assms(4) by simp
  have "body_allowed 500" by (simp add: body_allowed_def)
  from adds_twice[OF adds_error500 adds_ok f this, of "errs sv" "Some (NewError e')" None] assms(5)
  show ?thesis unfolding run by (fastforce simp: StatusText_def status_texts_def)
qed

lemma delete_answers_twice_witness:
  "\<exists>w x. fst (after_delete no_null_server sample_mac (sample_web sample_root_state '''')) = Ok ()
    \<and> web_w (snd (after_delete no_null_server sample_mac (sample_web sample_root_state ''''))) = w
    \<and> sent_status w = 500 \<and> w_x w = Some x \<and> xw_status x = 200"
proof -
  let ?c = "DatabaseClient no_null_server" and ?s = "sample_web sample_root_state ''''"
  let ?m = "read_document ?c sample_mac False (web_db ?s)"
  let ?d = "db_DeleteRootDocumentVersion ?c sample_mac (snd ?m)"
  have "(case fst ?m of Err e \<Rightarrow> db_IsDbNotFound ?c e | _ \<Rightarrow> False)" by code_simp
  then obtain e where e: "fst ?m = Err e" "db_IsDbNotFound ?c e" by (auto split: outcome.splits)
  have "(case fst ?d of Err e \<Rightarrow> True | _ \<Rightarrow> False)" by code_simp
  then obtain e' where e': "fst ?d = Err e'" by (auto split: outcome.splits)
  have m: "?m = (Err e, snd ?m)" and d: "?d = (Err e', snd ?d)" using e(1) e' by (metis prod.collapse)+
  have x: "w_x (web_w ?s) \<noteq> None" by (simp add: sample_writer_def NewXResponseWriter_def)
  then obtain x where x: "w_x (web_w ?s) = Some x" by blast
  have "fresh (web_w ?s)" by simp
  from delete_answers_twice[OF m e(2) d this x] show ?thesis by fastforce
qed

section \<open>Remote services\<close>



text \<open>
  C26. A poke whose first call meets a device that is busy (the status 520, turned into 524)
  is reported as an error, whether the retries run in the background or at once, and also when
  a retry at once has succeeded.
\<close>

theorem busy_poke_is_error:
  assumes "patch_header (rm_fields s) rHeader tick = Some (h, txn)"
    and "http_Do N (wp_syncClient c) ''PATCH'' (wp_url c [wp_host c, wp_apiVersion c, mac]) (Some h) b ''webpa''
      (ticks 0) s = (Ok r, s1)" "dr_err r = Some err" "remote_status (Some err) = Some 524"
    and "Patch N c rHeader mac b tick ticks s = (Ok p, s')"
  shows "pa_err p \<noteq> None \<and> pa_transaction p = txn"
  by (rule Patch_524[OF assms])

lemma busy_poke_is_error_witness:
  "\<exists>p s' r s2. Patch (sample_network (Response 520 [] (Inr ''busy''))) sample_webpa [] sample_mac ''b'' ('''', 0)
      (\<lambda>_. ('''', 0)) \<lparr>rm_fields = [], rm_net = 0\<rparr> = (Ok p, s') \<and> pa_err p \<noteq> None
    \<and> SyncDoWithRetries (sample_network (Response 520 [] (Inr ''busy''))) sample_webpa ''PATCH'' ''u'' [] ''b''
      (\<lambda>_. ('''', 0)) \<lparr>rm_fields = [], rm_net = 1\<rparr> = (Ok r, s2) \<and> dr_err r = None"
proof -
  let ?N = "sample_network (Response 520 [] (Inr ''busy''))" and ?t = "\<lambda>_ :: nat. ('''' :: string, 0 :: nat)"
  let ?s = "\<lparr>rm_fields = [], rm_net = 0\<rparr> :: nat remote"
  let ?ph = "patch_header (rm_fields ?s) [] (?t 0)"
  let ?d = "http_Do ?N (wp_syncClient sample_webpa) ''PATCH'' (wp_url sample_webpa [wp_host sample_webpa,
      wp_apiVersion sample_webpa, sample_mac]) (Some (fst (the ?ph))) ''b'' ''webpa'' (?t 0) ?s"
  let ?p = "Patch ?N sample_webpa [] sample_mac ''b'' (?t 0) ?t ?s"
  let ?q = "SyncDoWithRetries ?N sample_webpa ''PATCH'' ''u'' [] ''b'' ?t (?s\<lparr>rm_net := 1\<rparr>)"
  have ph: "?ph = Some (fst (the ?ph), snd (the ?ph))" by code_simp
  have "(case fst ?d of Ok r \<Rightarrow> (case dr_err r of Some e \<Rightarrow> remote_status (Some e) = Some 524 | _ \<Rightarrow> False) | _ \<Rightarrow> False)"
    by code_simp
  then obtain r e where "fst ?d = Ok r" and r: "dr_err r = Some e" "remote_status (Some e) = Some 524"
    by (auto split: outcome.splits option.splits)
  then have d: "?d = (Ok r, snd ?d)" by (metis prod.collapse)
  have "(case fst ?p of Ok _ \<Rightarrow> True | _ \<Rightarrow> False)" by code_simp
  then obtain p where "fst ?p = Ok p" by (auto split: outcome.splits)
  then have p: "?p = (Ok p, snd ?p)" by (metis prod.collapse)
  have "(case fst ?q of Ok r \<Rightarrow> dr_err r = None | _ \<Rightarrow> False)" by code_simp
  then obtain r2 where "fst ?q = Ok r2" and r2: "dr_err r2 = None" by (auto split: outcome.splits)
  then have "?q = (Ok r2, snd ?q)" by (metis prod.collapse)
  with busy_poke_is_error[OF ph d r p] p r2 show ?thesis by auto
qed

section \<open>Whole requests\<close>

text \<open>
  C27. The answer to a GET. Without an upstream service, when a device gets the status 200 (and
  is no test client), the bytes are those of a document each of whose sub-documents is stored
  for the device, with the stored version and state, and in none of the blocked groups; and each
  one that was neither deployed nor in deployment is stored as in deployment afterwards. No
  remote service is called.
\<close>

theorem get_sends_and_marks:
  assumes "sql_engine E" "tables_ok (sq_tables E (be_db s))"
    and "DatabaseClient sv = sqlite_client E cfg" "\<not> upstreamEnabled sv"
    and "hget h HeaderIfNoneMatch \<noteq> ''NONE''" "hget h HeaderIfNoneMatch \<noteq> ''NONE-REBOOT''"
    and "IsPrintable (hget h HeaderDeviceId)" "mac = hget h HeaderDeviceId"
    and "hget h HeaderUserAgent \<noteq> ''mget''"
    and "BuildWebconfigResponse sv sx h tk s = (Ok r, s')" "rp_status r = 200"
  shows "rm_net (be_remote s') = rm_net (be_remote s) \<and> (\<exists>d0 d.
      doc_Bytes d = Ok (rp_bytes r)
    \<and> sent_doc (sqlite_client E cfg) (stored_sub (sq_tables E (be_db s')) mac) d0 d
    \<and> (\<forall>k y. map_of (docmap d0) k = Some y \<longrightarrow>
         (\<exists>z. stored_sub (sq_tables E (be_db s)) mac k = Some z \<and> y = z\<lparr>sd_expiry := None\<rparr>)))"
  by (rule sql_engine.sqlite_sent[OF assms])

lemma get_sends_and_marks_witness:
  "\<exists>r s' d0 d. BuildWebconfigResponse sample_server sample_services device_header sample_ticks (sample_backend sample_state)
      = (Ok r, s') \<and> doc_Bytes d = Ok (rp_bytes r)
    \<and> sent_doc (sqlite_client mem_engine sample_cfg) (stored_sub (sq_tables mem_engine (be_db s')) sample_mac) d0 d"
proof -
  let ?p = "BuildWebconfigResponse sample_server sample_services device_header sample_ticks (sample_backend sample_state)"
  have "(case fst ?p of Ok r \<Rightarrow> rp_status r = 200 | _ \<Rightarrow> False)" by code_simp
  then obtain r where "fst ?p = Ok r" and st: "rp_status r = 200" by (auto split: outcome.splits)
  then have run: "?p = (Ok r, snd ?p)" by (metis prod.collapse)
  have h: "\<not> upstreamEnabled sample_server" "hget device_header HeaderIfNoneMatch \<noteq> ''NONE''"
    "hget device_header HeaderIfNoneMatch \<noteq> ''NONE-REBOOT''" "IsPrintable (hget device_header HeaderDeviceId)"
    "sample_mac = hget device_header HeaderDeviceId" "hget device_header HeaderUserAgent \<noteq> ''mget''"
    by code_simp+
  have ok: "tables_ok (sq_tables mem_engine (be_db (sample_backend sample_state)))"
    using sample_tables_ok(2) by simp
  from get_sends_and_marks[OF mem.sql_engine_axioms ok sample_server_db h run st] run show ?thesis by blast
qed

text \<open>
  C28. No device data without a token. With both token checks switched on, a request that the
  router hands to a handler of device data is refused with 400 or 403, or ends in a panic, in
  both cases with the database unchanged; or the handler runs on an untouched database, and
  then the request carried a token: for the configuration of a device one whose key id the
  server accepts, whose signature verifies, whose mac is the one of the path and whose trust
  is high enough; for the other routes one that the check of the API accepts.
\<close>

theorem data_needs_token:
  assumes "serverApiTokenAuthEnabled f" "deviceApiTokenAuthEnabled f"
    and "dispatch (GetRouter f False) path (rq_method r) = Found g h vars" "touches_data h"
    and "fresh (web_w s)" "r' = r\<lparr>rq_vars := vars\<rparr>" "token = bearer_token (rq_header r)"
  shows "\<exists>k. serve sv J m caps me (GetRouter f False) run path r = Some k
    \<and> ((\<exists>w. fst (k s) = Ok () \<and> snd (k s) = s\<lparr>web_w := w\<rparr> \<and> sent_status w \<in> {400, 403})
      \<or> k s = (Panic, snd (k s)) \<and> web_db (snd (k s)) = web_db s
      \<or> (\<exists>w. fresh w \<and> k s = run h r' (s\<lparr>web_w := w\<rparr>))
        \<and> (if h = MultipartConfig
           then \<exists>mac header uclaims kid key claims. map_of vars ''mac'' = Some mac
              \<and> jw_unverified J token = Inr (header, uclaims) \<and> map_of header ''kid'' = Some (JStr kid)
              \<and> kid \<in> set (cpeKids m) \<and> (cpeCapabilities m = [] \<or> capable (cpeCapabilities m) uclaims)
              \<and> map_of (decodeKeys m) kid = Some key \<and> jw_verified J key token = Inr claims
              \<and> mac_matches (to_lower (to_upper mac)) claims \<and> minTrust sv \<le> token_trust claims
           else token \<noteq> '''' \<and> ws_VerifyApiToken sv J m caps token = Some (Inr ())))"
proof -
  from serve_gated[OF assms(1-4)] obtain k where
      k: "serve sv J m caps me (GetRouter f False) run path r = Some k"
    and g: "gated (if h = MultipartConfig then device_passes sv J m r' else api_passes sv J m caps r') (run h r') k"
    unfolding assms(6) by blast
  have vars: "rq_vars r' = vars" "rq_header r' = rq_header r" by (simp_all add: assms(6))
  note accepted = device_passes_token[of sv J m r', unfolded vars, folded assms(7)]
  show ?thesis
    using k g[unfolded gated_def, rule_format, OF assms(5)] accepted
    by (auto simp: api_passes_def vars assms(7) split: if_splits)
qed

lemma data_needs_token_witness:
  "\<exists>k. serve sample_server sample_jwt sample_manager [] sample_meta (GetRouter all_flags False)
      (\<lambda>_ _. ret ()) [''api'', ''v1'', ''device'', sample_mac, ''config''] (token_request ''good'') = Some k
    \<and> (let s = sample_web sample_state '''' in
        (\<exists>w. fst (k s) = Ok () \<and> snd (k s) = s\<lparr>web_w := w\<rparr> \<and> sent_status w \<in> {400, 403})
        \<or> k s = (Panic, snd (k s)) \<and> web_db (snd (k s)) = web_db s
        \<or> (\<exists>w. fresh w \<and> k s = ret () (s\<lparr>web_w := w\<rparr>))
          \<and> (\<exists>key claims. jw_verified sample_jwt key ''good'' = Inr claims
                \<and> mac_matches (to_lower (to_upper sample_mac)) claims))"
proof -
  let ?path = "[''api'', ''v1'', ''device'', sample_mac, ''config'']" and ?r = "token_request ''good''"
  have d: "dispatch (GetRouter all_flags False) ?path (rq_method ?r) = Found Cpe MultipartConfig [(''mac'', sample_mac)]"
    by code_simp
  have f: "serverApiTokenAuthEnabled all_flags" "deviceApiTokenAuthEnabled all_flags"
    "touches_data MultipartConfig"
    by code_simp+
  have w: "fresh (web_w (sample_web sample_state ''''))" by simp
  have t: "''good'' = bearer_token (rq_header ?r)" by code_simp
  from data_needs_token[OF f(1,2) d f(3) w refl t, of sample_server sample_jwt sample_manager "[]" sample_meta
      "\<lambda>_ _. ret ()"]
  show ?thesis by (fastforce simp: Let_def)
qed

text \<open>
  C29. Encrypted texts. Over a cipher whose decryption inverts its encryption, decrypting what
  was encrypted gives the text without the bytes 0 and 128 at its end: the padding is removed
  by value, and a text that ends in such bytes comes back shorter. A text of such bytes only
  comes back not at all (an error, or a panic of the removal loop).
\<close>

theorem aes_round_trip:
  assumes "cipher_ok C" "ac_key c = Some k" "aes_key_ok k" "length iv = BlockSize"
    and "Encrypt C c iv p = Inr e"
  shows "if strip_pad p = [] then \<not> is_ok (Decrypt C c e) else Decrypt C c e = Ok (strip_pad p)"
  using Decrypt_Encrypt[OF assms] by simp

lemma aes_round_trip_witness:
  "\<exists>e. Encrypt plain_cipher sample_codec (replicate 16 CHR ''i'') (''secret'' @ [zero_byte]) = Inr e
    \<and> Decrypt plain_cipher sample_codec e = Ok ''secret''"
proof -
  let ?p = "''secret'' @ [zero_byte]" and ?iv = "replicate 16 CHR ''i''"
  have c: "cipher_ok plain_cipher" by (simp add: cipher_ok_def plain_cipher_def)
  have k: "ac_key sample_codec = Some (replicate 16 CHR ''k'')" "aes_key_ok (replicate 16 CHR ''k'')"
    "length ?iv = BlockSize"
    by (simp_all add: sample_codec_def aes_key_ok_def BlockSize_def)
  have s: "strip_pad ?p = ''secret''" by code_simp
  obtain e where e: "Encrypt plain_cipher sample_codec ?iv ?p = Inr e"
    by (simp add: Encrypt_def EncryptBytes_def sample_codec_def aes_key_ok_def)
  with aes_round_trip[OF c k e] s show ?thesis by auto
qed

section \<open>Messages\<close>



text \<open>
  C31. Isolation over kafka. A session that only gets messages about one device (its reports,
  or its requests, whatever the remote services answer) leaves the stored rows of all other
  devices alone, over any SQL engine.
\<close>

theorem kafka_isolated:
  assumes "sql_engine E" "DatabaseClient sv = sqlite_client E cfg"
    and "\<forall>kt message. Message kt message \<in> set es \<longrightarrow> message_devices decode message mac"
    and "ConsumeClaim sv sx cluster decode es s = (r, s')" "m \<noteq> mac"
  shows "sq_subs E (be_db (cs_backend s')) m = sq_subs E (be_db (cs_backend s)) m
    \<and> sq_roots E (be_db (cs_backend s')) m = sq_roots E (be_db (cs_backend s)) m"
  by (rule sql_engine.sqlite_claim_isolated[OF assms])

lemma kafka_isolated_witness:
  "\<exists>r s'. ConsumeClaim producing_server sample_services ''c'' (\<lambda>_. Inr sample_event)
      [Message sample_kafka_ticks sample_message] (sample_consumer sample_state) = (r, s')
    \<and> sq_subs mem_engine (be_db (cs_backend s')) other_mac = sq_subs mem_engine sample_state other_mac"
proof -
  let ?d = "\<lambda>_ :: bytes. Inr sample_event :: goerr + eventmessage"
  let ?p = "ConsumeClaim producing_server sample_services ''c'' ?d [Message sample_kafka_ticks sample_message]
      (sample_consumer sample_state)"
  have "message_devices ?d sample_message sample_mac" by code_simp
  then have es: "\<forall>kt message. Message kt message \<in> set [Message sample_kafka_ticks sample_message] \<longrightarrow>
      message_devices ?d message sample_mac" by simp
  have "other_mac \<noteq> sample_mac" by (simp add: other_mac_def sample_mac_def)
  from kafka_isolated[OF mem.sql_engine_axioms producing_server_sel(1) es surjective_pairing this]
  show ?thesis by (metis prod.collapse sample_consumer_sel sample_backend_sel(1))
qed

text \<open>
  C32. No message is left unmarked. However the handlers of the messages end, short of a
  panic, the loop marks every message it gets, once and in order, until the session ends; and
  it returns only then: on a closed channel it goes round and round.
\<close>

theorem kafka_marks_all:
  assumes "ConsumeClaim sv sx cluster decode es s = (Ok b, s')"
  shows "cs_marked s' = cs_marked s @ map position_of (delivered es) \<and> (b \<longleftrightarrow> SessionDone \<in> set es)"
  by (rule ConsumeClaim_marks[OF assms])

lemma kafka_marks_all_witness:
  "\<exists>s'. ConsumeClaim producing_server sample_services ''c'' (\<lambda>_. Inl ErrNoRows)
      [Message sample_kafka_ticks sample_message, ChannelClosed] (sample_consumer sample_state) = (Ok False, s')
    \<and> cs_marked s' = [(''t'', 1, 7)]"
proof -
  let ?p = "ConsumeClaim producing_server sample_services ''c'' (\<lambda>_. Inl ErrNoRows)
      [Message sample_kafka_ticks sample_message, ChannelClosed] (sample_consumer sample_state)"
  have "fst ?p = Ok False" by code_simp
  then have run: "?p = (Ok False, snd ?p)" by (metis prod.collapse)
  from kafka_marks_all[OF run] run show ?thesis
    by (auto simp: sample_consumer_def position_of_def sample_message_def)
qed

section \<open>Requests over Cassandra\<close>

text \<open>
  C33. Device isolation over Cassandra. However a sequence of requests ends, the rows of every
  device that it is not about are the same afterwards, also when statements time out and still
  have their effect.
\<close>

theorem cassandra_isolated:
  assumes "cql_engine E" "runs (cassandra_client E cfg) qs s s'" "m \<notin> request_mac ` set qs"
  shows "ca_subs E s' m = ca_subs E s m \<and> ca_roots E s' m = ca_roots E s m"
  by (rule cql_engine.cassandra_runs_isolated[OF assms])

lemma cassandra_isolated_witness:
  "\<exists>s'. runs (cassandra_client mem_cql sample_cluster) [Upstream sample_mac ''20'' new_lan old_lan True [] (\<lambda>_. 9)]
      sample_cassandra s'
    \<and> ca_subs mem_cql s' other_mac = ca_subs mem_cql sample_cassandra other_mac
    \<and> ca_roots mem_cql s' other_mac = ca_roots mem_cql sample_cassandra other_mac"
proof -
  let ?qs = "[Upstream sample_mac ''20'' new_lan old_lan True [] (\<lambda>_. 9)]"
  obtain s' where r: "runs (cassandra_client mem_cql sample_cluster) ?qs sample_cassandra s'"
    using runs_total[of "cassandra_client mem_cql sample_cluster" ?qs sample_cassandra] by blast
  have "other_mac \<notin> request_mac ` set ?qs" by (simp add: other_mac_def sample_mac_def)
  from cassandra_isolated[OF mem_cluster.cql_engine_axioms r this] r show ?thesis by blast
qed

text \<open>
  C34. A read error over Cassandra is not seen. When the query of the document fails before its
  first row, the end of a delete request takes the device for empty: it answers 200, clears the
  version of the root document and leaves all sub-documents.
\<close>

theorem cassandra_read_error_hidden:
  assumes "cql_engine E" "DatabaseClient sv = cassandra_client E cfg" "fresh (web_w s)"
    and "document_query E mac (web_db s) = ([], Some e)"
    and "ca_DeleteRootDocumentVersion E mac (web_db s) = (Ok (), d)"
  shows "\<exists>s'. after_delete sv mac s = (Ok (), s') \<and> sent_status (web_w s') = 200
    \<and> (\<forall>m. ca_subs E (web_db s') m = ca_subs E (web_db s) m)
    \<and> ca_roots E (web_db s') mac = map (set_row [''version''] [VNull]) (ca_roots E (web_db s) mac)"
  using cql_engine.after_delete_no_rows[OF assms]
  by (auto simp: ca_subs_def ca_roots_def clear_version_def rows_with_null_version)

lemma cassandra_read_error_hidden_witness:
  "\<exists>s'. let s = \<lparr>web_db = sample_cassandra, web_w = sample_writer ''''\<rparr> in
     after_delete slow_server sample_mac s = (Ok (), s') \<and> sent_status (web_w s') = 200
     \<and> ca_subs slow_cql (web_db s') sample_mac = ca_subs slow_cql sample_cassandra sample_mac"
proof -
  let ?s = "\<lparr>web_db = sample_cassandra, web_w = sample_writer ''''\<rparr>"
  let ?p = "ca_DeleteRootDocumentVersion slow_cql sample_mac sample_cassandra"
  have "fst ?p = Ok ()" by code_simp
  then have d: "ca_DeleteRootDocumentVersion slow_cql sample_mac (web_db ?s) = (Ok (), snd ?p)"
    by (metis prod.collapse web.simps(1))
  have q: "document_query slow_cql sample_mac (web_db ?s) = ([], Some (ErrText ''no response received within timeout''))"
    by (simp add: document_query_def slow_cql_def)
  have c: "DatabaseClient slow_server = cassandra_client slow_cql sample_cluster" by (simp add: slow_server_def)
  have w: "fresh (web_w ?s)" by simp
  from cassandra_read_error_hidden[OF slow_cluster.cql_engine_axioms c w q d] show ?thesis
    by (auto simp: Let_def)
qed

section \<open>Logs, the semaphore and the schema\<close>



text \<open>
  C36. Waiting for a place. Requests that run database operations side by side always come to an
  end if and only if fewer of them than the channel has places run an operation inside another
  one (the read of a sub-document whose payload is a reference, or the removal of a root
  version). With as many as there are places they can wait for each other for ever. No run is
  longer than the operations have steps, and a run that ended gave all places back.
\<close>

theorem requests_block_iff:
  assumes "0 < cap"
  shows "(\<forall>s. goes_to cap (sem_start opss) s \<and> stuck cap s \<longrightarrow> finished s) = (nesting opss < cap)
    \<and> (\<forall>n s. sem_steps cap n (sem_start opss) s \<longrightarrow> n \<le> work_left (sem_start opss) \<and> used s \<le> cap)
    \<and> (\<forall>s. goes_to cap (sem_start opss) s \<and> stuck cap s \<and> nesting opss < cap \<longrightarrow> used s = 0)"
proof (intro conjI allI impI)
  show "(\<forall>s. goes_to cap (sem_start opss) s \<and> stuck cap s \<longrightarrow> finished s) = (nesting opss < cap)"
    using blocked_reachable[OF assms] run_finishes by (meson not_le)
  show "n \<le> work_left (sem_start opss)" "used s \<le> cap" if "sem_steps cap n (sem_start opss) s" for n s
    using sem_steps_bounded[OF that] places_bounded that unfolding goes_to_def by blast+
  show "used s = 0" if "goes_to cap (sem_start opss) s \<and> stuck cap s \<and> nesting opss < cap" for s
    using run_finishes that by blast
qed

lemma requests_block_iff_witness:
  "(\<exists>s. goes_to 2 (sem_start [[OpGetSubDocument True], [OpGetSubDocument True]]) s \<and> stuck 2 s \<and> \<not> finished s)
   \<and> \<not> (\<exists>s. goes_to 2 (sem_start [[OpGetSubDocument True], [OpSingle]]) s \<and> stuck 2 s \<and> \<not> finished s)"
proof -
  have "nesting [[OpGetSubDocument True], [OpGetSubDocument True]] = 2" "nesting [[OpGetSubDocument True], [OpSingle]] = 1"
    by (simp_all add: nesting_def nested_def)
  then show ?thesis
    using requests_block_iff[of 2 "[[OpGetSubDocument True], [OpGetSubDocument True]]"]
      requests_block_iff[of 2 "[[OpGetSubDocument True], [OpSingle]]"] by auto
qed

text \<open>
  C37. The schema. After the tables were set up and synchronised every table of the schema has
  the columns it had, followed by declared ones that it lacked, and then all declared columns; no
  other table changed, and synchronising again changes nothing. The columns that the parser
  finds in the statements are those of the schema.
\<close>

theorem schema_synced:
  assumes "ddl_engine D" "SetUp D d = (Ok (), d1)" "SyncSchema D d1 = (Ok (), d2)"
  shows "synced schema_tables (ddl_catalog D d1) (ddl_catalog D d2) \<and> snd (SyncSchema D d2) = d2
    \<and> map parseCreateTable SqliteCreateTableStatements = map (\<lambda>t. Inr (t, declared_columns t)) schema_tables"
proof -
  have "\<forall>t\<in>set schema_tables. ddl_catalog D d1 t \<noteq> None"
    by (simp add: ddl_engine.SetUp_Ok[OF assms(1,2)])
  from ddl_engine.SyncSchema_Ok[OF assms(1,3) this]
  have s: "synced schema_tables (ddl_catalog D d1) (ddl_catalog D d2)" .
  then have "snd (SyncSchema D d2) = d2"
    by (intro ddl_engine.SyncSchema_current[OF assms(1)]) (fastforce simp: synced_def)
  with s statements_parse show ?thesis by blast
qed

lemma schema_synced_witness:
  "let d1 = snd (SetUp mem_ddl old_catalog); d2 = snd (SyncSchema mem_ddl d1) in
     old_catalog ''reference_document'' = Some [(''ref_id'', ''text''), (''payload'', ''blob'')]
     \<and> synced schema_tables d1 d2 \<and> snd (SyncSchema mem_ddl d2) = d2"
proof -
  let ?d1 = "snd (SetUp mem_ddl old_catalog)"
  have a: "SetUp mem_ddl old_catalog = (Ok (), ?d1)" and b: "SyncSchema mem_ddl ?d1 = (Ok (), snd (SyncSchema mem_ddl ?d1))"
    by (rule old_catalog_runs)+
  have "ddl_catalog mem_ddl d = d" for d by (simp add: mem_ddl_def)
  with schema_synced[OF mem_ddl.ddl_engine_axioms a b] show ?thesis by (simp add: Let_def old_catalog_def)
qed

section \<open>Settings and the start of the program\<close>



text \<open>
  C39. TLS. With the same settings the loaders of kafka and of Cassandra accept the same files
  and make the same configuration, apart from the cipher suites: both files of a client
  certificate or none unless verification is off, configured files must be readable, and a
  configuration without any file is accepted, also with verification.
\<close>

theorem tls_loaders_agree:
  assumes "GetBoolean conf (p @ ''.tls_enabled'') False"
    and "GetBoolean conf (p @ ''.tls_insecure_skip_verify'') False = i" "GetBoolean dbconf ''tls.insecure_skip_verify'' False = i"
    and "GetString conf (p @ ''.tls_cert_file'') '''' = cert" "GetString dbconf ''tls.cert_file'' '''' = cert"
    and "GetString conf (p @ ''.tls_key_file'') '''' = key" "GetString dbconf ''tls.key_file'' '''' = key"
    and "GetString conf (p @ ''.tls_ca_cert_file'') '''' = ca" "GetString dbconf ''tls.ca_cert_file'' '''' = ca"
  shows "if tls_files_ok F i cert key ca
    then LoadKafkaTLSConfig F conf p = Inr (Some (tls_of_files F i cert key ca []))
      \<and> loadCassandraTLSConfig F dbconf = Inr (tls_of_files F i cert key ca [''TLS_RSA_WITH_AES_128_CBC_SHA''])
    else (\<exists>e. LoadKafkaTLSConfig F conf p = Inl e) \<and> (\<exists>e. loadCassandraTLSConfig F dbconf = Inl e)"
  using LoadKafkaTLSConfig_eq[OF assms(1), of F] loadCassandraTLSConfig_eq[of F dbconf]
  unfolding assms(2-9) by (simp split: if_splits)

lemma tls_loaders_agree_witness:
  "let conf = table_config [(''k.tls_cert_file'', ''c'')] [(''k.tls_enabled'', True)] [];
       dbconf = table_config [(''tls.cert_file'', ''c'')] [] []
   in (\<exists>e. LoadKafkaTLSConfig sample_files conf ''k'' = Inl e) \<and> (\<exists>e. loadCassandraTLSConfig sample_files dbconf = Inl e)"
proof -
  let ?conf = "table_config [(''k.tls_cert_file'', ''c'')] [(''k.tls_enabled'', True)] []"
  let ?dbconf = "table_config [(''tls.cert_file'', ''c'')] [] []"
  note get = GetBoolean_def GetString_def table_config_def
  have "\<not> tls_files_ok sample_files False ''c'' '''' ''''" by (simp add: tls_files_ok_def)
  then show ?thesis
    using tls_loaders_agree[of ?conf "''k''" False ?dbconf "''c''" "''''" "''''" sample_files] by (simp add: get)
qed

text \<open>
  C40. Spans. With tracing switched on, every request of a traced route panics before its handler
  unless the settings name an exporter that can be made: the default provider and an unknown
  one leave no tracer. With one, the handler runs with the context of a span, which is ended
  after it.
\<close>

theorem spans_need_exporter:
  "SpanMiddleware ot (NewXpcTracer ot F conf) next r s =
     (if \<not> GetBoolean conf ''webconfig.tracing.otel.enabled'' False then next r s
      else if \<not> exporter_ok ot conf then (Panic, s)
      else case next (r\<lparr>tq_ctx := request_ctx ot (NewXpcTracer ot F conf) r\<rparr>)
               (s\<lparr>td_span := Some (request_span ot (NewXpcTracer ot F conf) r)\<rparr>) of
          (res, s') \<Rightarrow> (res, s'\<lparr>td_span := map_option (\<lambda>sp. sp\<lparr>sp_ended := True\<rparr>) (td_span s')\<rparr>))"
  by (simp add: SpanMiddleware_eq NewXpcTracer_enabled NewXpcTracer_tracer)

end
